(* ===== verification/Prelude.thy ===== *)
theory Prelude
  imports Main "HOL-Library.Word" "HOL-Library.Finite_Map" "HOL-Library.Product_Lexorder"
begin

unbundle bit_operations_syntax

text \<open>
  What the components share: the machine types of the Rust sources, the checked, wrapping and
  saturating integer operations they use, little-endian byte codecs, strings as UTF-8 byte
  sequences, finite maps and ordered sets as the source's \<open>HashMap\<close>, \<open>HashSet\<close> and
  \<open>BTreeSet\<close>, and the generic lemmas about them.

  Unsigned fixed-width integers that are wrapped, masked or sent on the wire are words; signed
  integers are \<open>int\<close> with their range written out; \<open>usize\<close> counts, \<open>Instant\<close>
  (nanoseconds since an arbitrary origin) and \<open>Duration\<close> (nanoseconds) are \<open>nat\<close>, whose
  subtraction is exactly \<open>saturating_sub\<close> / \<open>saturating_duration_since\<close>. A Rust
  \<open>String\<close> is a sequence of UTF-8 bytes, so it is an Isabelle \<open>string\<close>, whose characters
  are bytes; \<open>len\<close> is \<open>length\<close>.
\<close>

section \<open>Types and collections of facts\<close>

type_synonym u8 = "8 word"
type_synonym u16 = "16 word"
type_synonym u32 = "32 word"
type_synonym u64 = "64 word"
type_synonym bytes = "u8 list"
type_synonym instant = nat
type_synonym duration = nat

text \<open>\<open>Result<T, E>\<close> is \<open>E + T\<close>: \<open>Inl\<close> the error, \<open>Inr\<close> the value.\<close>

named_theorems machine_int \<open>ranges of the signed machine integers\<close>
named_theorems wire \<open>byte layouts of the wire packets\<close>
named_theorems hostsimps \<open>record and map facts of the transport host\<close>

section \<open>Signed machine integers\<close>

definition i64_min :: int where [machine_int]: "i64_min = - (2 ^ 63)"
definition i64_max :: int where [machine_int]: "i64_max = 2 ^ 63 - 1"
definition i32_min :: int where [machine_int]: "i32_min = - (2 ^ 31)"
definition i32_max :: int where [machine_int]: "i32_max = 2 ^ 31 - 1"
definition u64_max :: nat where [machine_int]: "u64_max = 2 ^ 64 - 1"
definition u32_max :: nat where [machine_int]: "u32_max = 2 ^ 32 - 1"
definition u8_max :: nat where [machine_int]: "u8_max = 255"
definition u16_max :: nat where [machine_int]: "u16_max = 65535"

definition in_i64 :: "int \<Rightarrow> bool" where
  "in_i64 x \<longleftrightarrow> i64_min \<le> x \<and> x \<le> i64_max"

definition in_i32 :: "int \<Rightarrow> bool" where
  "in_i32 x \<longleftrightarrow> i32_min \<le> x \<and> x \<le> i32_max"

definition checked_add_i64 :: "int \<Rightarrow> int \<Rightarrow> int option" where
  "checked_add_i64 a b = (if in_i64 (a + b) then Some (a + b) else None)"

definition saturate_i64 :: "int \<Rightarrow> int" where
  "saturate_i64 x = max i64_min (min i64_max x)"

definition saturating_sub_i64 :: "int \<Rightarrow> int \<Rightarrow> int" where
  "saturating_sub_i64 a b = saturate_i64 (a - b)"

definition wrap_i64 :: "int \<Rightarrow> int" where
  "wrap_i64 x = sint (word_of_int x :: u64)"

definition wrap_i32 :: "int \<Rightarrow> int" where
  "wrap_i32 x = sint (word_of_int x :: u32)"

text \<open>The casts \<open>u64 as i64\<close> and \<open>i64 as u64\<close>: the bit pattern is kept.\<close>

definition i64_of_u64 :: "u64 \<Rightarrow> int" where
  "i64_of_u64 w = sint w"

definition u64_of_i64 :: "int \<Rightarrow> u64" where
  "u64_of_i64 x = word_of_int x"

definition checked_sub_nat :: "nat \<Rightarrow> nat \<Rightarrow> nat option" where
  "checked_sub_nat a b = (if b \<le> a then Some (a - b) else None)"

definition checked_add_u64 :: "nat \<Rightarrow> nat \<Rightarrow> nat option" where
  "checked_add_u64 a b = (if a + b \<le> u64_max then Some (a + b) else None)"

definition checked_mul_u64 :: "nat \<Rightarrow> nat \<Rightarrow> nat option" where
  "checked_mul_u64 a b = (if a * b \<le> u64_max then Some (a * b) else None)"

definition clamp_nat :: "nat \<Rightarrow> nat \<Rightarrow> nat \<Rightarrow> nat" where
  "clamp_nat lo hi x = (if x < lo then lo else if hi < x then hi else x)"

section \<open>Little-endian byte codecs\<close>

fun le_bytes :: "nat \<Rightarrow> 'a::len word \<Rightarrow> bytes" where
  "le_bytes 0 w = []"
| "le_bytes (Suc n) w = ucast w # le_bytes n (drop_bit 8 w)"

fun from_le :: "bytes \<Rightarrow> 'a::len word" where
  "from_le [] = 0"
| "from_le (b # bs) = ucast b OR push_bit 8 (from_le bs)"

definition subslice :: "nat \<Rightarrow> nat \<Rightarrow> 'a list \<Rightarrow> 'a list" where
  "subslice i j xs = take (j - i) (drop i xs)"

section \<open>Strings\<close>

definition char_byte :: "char \<Rightarrow> u8" where
  "char_byte c = word_of_nat (of_char c)"

definition byte_char :: "u8 \<Rightarrow> char" where
  "byte_char b = char_of (unat b)"

text \<open>\<open>str::as_bytes\<close> and the unchecked inverse.\<close>

definition str_bytes :: "string \<Rightarrow> bytes" where
  "str_bytes s = map char_byte s"

definition bytes_str :: "bytes \<Rightarrow> string" where
  "bytes_str bs = map byte_char bs"

text \<open>
  Well-formed UTF-8, byte range by byte range as the Unicode standard tabulates it: no overlong
  forms, no surrogates, nothing above U+10FFFF.
\<close>

definition in_rng :: "nat \<Rightarrow> nat \<Rightarrow> u8 \<Rightarrow> bool" where
  "in_rng lo hi b \<longleftrightarrow> lo \<le> unat b \<and> unat b \<le> hi"

fun utf8_valid :: "bytes \<Rightarrow> bool" where
  "utf8_valid [] = True"
| "utf8_valid (a # bs) =
     (if in_rng 0x00 0x7F a then utf8_valid bs
      else case bs of
        [] \<Rightarrow> False
      | b # cs \<Rightarrow>
          if in_rng 0xC2 0xDF a then in_rng 0x80 0xBF b \<and> utf8_valid cs
          else case cs of
            [] \<Rightarrow> False
          | c # ds \<Rightarrow>
              if in_rng 0xE0 0xEF a then
                in_rng (if a = 0xE0 then 0xA0 else 0x80) (if a = 0xED then 0x9F else 0xBF) b
                \<and> in_rng 0x80 0xBF c \<and> utf8_valid ds
              else case ds of
                [] \<Rightarrow> False
              | d # es \<Rightarrow>
                  in_rng 0xF0 0xF4 a
                  \<and> in_rng (if a = 0xF0 then 0x90 else 0x80) (if a = 0xF4 then 0x8F else 0xBF) b
                  \<and> in_rng 0x80 0xBF c \<and> in_rng 0x80 0xBF d \<and> utf8_valid es)"

text \<open>\<open>String::from_utf8(..).ok()\<close>.\<close>

definition string_from_utf8 :: "bytes \<Rightarrow> string option" where
  "string_from_utf8 bs = (if utf8_valid bs then Some (bytes_str bs) else None)"

section \<open>Maps and ordered sets\<close>

text \<open>\<open>HashMap::len\<close>.\<close>

definition fmlen :: "('k, 'v) fmap \<Rightarrow> nat" where
  "fmlen m = fcard (fmdom m)"

definition fmget_or :: "('k, 'v) fmap \<Rightarrow> 'k \<Rightarrow> 'v \<Rightarrow> 'v" where
  "fmget_or m k d = (case fmlookup m k of None \<Rightarrow> d | Some v \<Rightarrow> v)"

text \<open>
  \<open>set.range((Excluded(c), Unbounded)).chain(set.range(..=c))\<close>: the elements of an ordered set
  in cyclic order, starting after the cursor.
\<close>

definition cyclic_after :: "'a::linorder option \<Rightarrow> 'a fset \<Rightarrow> 'a list" where
  "cyclic_after c s =
     (case c of
        None \<Rightarrow> sorted_list_of_fset s
      | Some x \<Rightarrow> filter (\<lambda>y. x < y) (sorted_list_of_fset s)
                  @ filter (\<lambda>y. y \<le> x) (sorted_list_of_fset s))"

section \<open>Lemmas: integers\<close>

lemma in_i64_0 [simp, intro]: "in_i64 0"
  by (simp add: in_i64_def machine_int)

lemma checked_add_i64_Some:
  "checked_add_i64 a b = Some c \<longleftrightarrow> c = a + b \<and> in_i64 (a + b)"
  by (auto simp: checked_add_i64_def)

lemma checked_add_i64_None:
  "checked_add_i64 a b = None \<longleftrightarrow> \<not> in_i64 (a + b)"
  by (simp add: checked_add_i64_def)

lemma sint_u64_range: "in_i64 (sint (w :: u64))"
  using sint_ge [of w] sint_lt [of w] by (simp add: in_i64_def machine_int)

lemma sint_u32_range: "in_i32 (sint (w :: u32))"
  using sint_ge [of w] sint_lt [of w] by (simp add: in_i32_def machine_int)

lemma wrap_i64_in_range [simp]: "in_i64 (wrap_i64 x)"
  by (simp add: wrap_i64_def sint_u64_range)

lemma wrap_i32_in_range [simp]: "in_i32 (wrap_i32 x)"
  by (simp add: wrap_i32_def sint_u32_range)

lemma sint_word_of_int_i64: "in_i64 x \<Longrightarrow> sint (word_of_int x :: u64) = x"
  by (simp add: in_i64_def machine_int sint_sbintrunc' signed_take_bit_int_eq_self_iff)

lemma sint_word_of_int_i32: "in_i32 x \<Longrightarrow> sint (word_of_int x :: u32) = x"
  by (simp add: in_i32_def machine_int sint_sbintrunc' signed_take_bit_int_eq_self_iff)

lemma wrap_i64_id [simp]: "in_i64 x \<Longrightarrow> wrap_i64 x = x"
  by (simp add: wrap_i64_def sint_word_of_int_i64)

lemma wrap_i32_id [simp]: "in_i32 x \<Longrightarrow> wrap_i32 x = x"
  by (simp add: wrap_i32_def sint_word_of_int_i32)

lemma u64_i64_roundtrip [simp]: "u64_of_i64 (i64_of_u64 w) = w"
  by (simp add: u64_of_i64_def i64_of_u64_def)

lemma i64_u64_roundtrip: "in_i64 x \<Longrightarrow> i64_of_u64 (u64_of_i64 x) = x"
  by (simp add: u64_of_i64_def i64_of_u64_def sint_word_of_int_i64)

lemma i64_of_u64_inj [simp]: "i64_of_u64 a = i64_of_u64 b \<longleftrightarrow> a = b"
  by (metis u64_i64_roundtrip)

lemma i64_of_u64_range [simp]: "in_i64 (i64_of_u64 w)"
  by (simp add: i64_of_u64_def sint_u64_range)

lemma saturating_sub_i64_exact:
  "in_i64 (a - b) \<Longrightarrow> saturating_sub_i64 a b = a - b"
  by (auto simp: saturating_sub_i64_def saturate_i64_def in_i64_def)

lemma saturating_sub_i64_less:
  "i64_min < d \<Longrightarrow> d \<le> i64_max \<Longrightarrow> saturating_sub_i64 a b < d \<longleftrightarrow> a - b < d"
  by (auto simp: saturating_sub_i64_def saturate_i64_def)

lemma clamp_nat_bounds: "lo \<le> hi \<Longrightarrow> lo \<le> clamp_nat lo hi x \<and> clamp_nat lo hi x \<le> hi"
  by (simp add: clamp_nat_def)

lemma clamp_nat_id [simp]: "lo \<le> x \<Longrightarrow> x \<le> hi \<Longrightarrow> clamp_nat lo hi x = x"
  by (simp add: clamp_nat_def)

section \<open>Lemmas: byte codecs\<close>

lemma length_le_bytes [simp]: "length (le_bytes n w) = n"
  by (induction n arbitrary: w) auto

lemma from_le_le_bytes: "from_le (le_bytes n w) = take_bit (8 * n) w"
proof (induction n arbitrary: w)
  case 0
  then show ?case by simp
next
  case (Suc n)
  have "ucast (ucast w :: u8) OR push_bit 8 (take_bit (8 * n) (drop_bit 8 w)) = take_bit (8 * Suc n) w"
    by (rule bit_word_eqI)
      (auto simp: bit_or_iff bit_push_bit_iff bit_take_bit_iff bit_drop_bit_eq bit_ucast_iff
        dest: bit_imp_le_length)
  with Suc show ?case by simp
qed

lemma from_le_le_bytes_full [simp]: "LENGTH('a) = 8 * n \<Longrightarrow> from_le (le_bytes n w) = (w :: 'a::len word)"
  by (simp add: from_le_le_bytes take_bit_word_eq_self)

lemma drop_bit_from_le:
  "8 * Suc (length bs) \<le> LENGTH('a) \<Longrightarrow>
   drop_bit 8 (ucast (b :: u8) OR push_bit 8 (from_le bs)) = (from_le bs :: 'a::len word)
   \<longleftrightarrow> take_bit (LENGTH('a) - 8) (from_le bs) = (from_le bs :: 'a word)"
proof -
  assume len: "8 * Suc (length bs) \<le> LENGTH('a)"
  have "drop_bit 8 (ucast b OR push_bit 8 (from_le bs)) = take_bit (LENGTH('a) - 8) (from_le bs :: 'a word)"
    by (rule bit_word_eqI)
      (use len in \<open>auto simp: bit_or_iff bit_push_bit_iff bit_take_bit_iff bit_drop_bit_eq bit_ucast_iff
        dest: bit_imp_le_length\<close>)
  then show ?thesis by simp
qed

lemma bit_from_le: "bit (from_le bs :: 'a::len word) n \<Longrightarrow> n < 8 * length bs"
proof (induction bs arbitrary: n)
  case Nil
  then show ?case by simp
next
  case (Cons b bs)
  from Cons.prems have "n < 8 \<or> 8 \<le> n \<and> bit (from_le bs :: 'a word) (n - 8)"
    by (auto simp: bit_or_iff bit_push_bit_iff bit_ucast_iff dest: bit_imp_le_length)
  then show ?case
    using Cons.IH [of "n - 8"] by auto
qed

lemma le_bytes_from_le:
  "8 * length bs \<le> LENGTH('a) \<Longrightarrow> le_bytes (length bs) (from_le bs :: 'a::len word) = bs"
proof (induction bs)
  case Nil
  then show ?case by simp
next
  case (Cons b bs)
  have "take_bit (LENGTH('a) - 8) (from_le bs :: 'a word) = from_le bs"
    using Cons.prems by (intro bit_word_eqI) (auto simp: bit_take_bit_iff dest: bit_from_le)
  then have tl: "drop_bit 8 (ucast b OR push_bit 8 (from_le bs)) = (from_le bs :: 'a word)"
    using Cons.prems drop_bit_from_le [of bs, where 'a = 'a] by simp
  have hd: "ucast (ucast b OR push_bit 8 (from_le bs) :: 'a word) = b"
    using Cons.prems
    by (intro bit_word_eqI)
      (auto simp: bit_or_iff bit_push_bit_iff bit_ucast_iff dest: bit_imp_le_length)
  from Cons have "le_bytes (length bs) (from_le bs :: 'a word) = bs" by simp
  with tl hd show ?case by simp
qed

lemma length_subslice [simp]: "length (subslice i j xs) = min (j - i) (length xs - i)"
  by (simp add: subslice_def)

lemma subslice_append [simp]:
  "i = length xs \<Longrightarrow> j = i + length ys \<Longrightarrow> subslice i j (xs @ ys @ zs) = ys"
  by (simp add: subslice_def)

section \<open>Lemmas: strings\<close>

lemma byte_char_byte [simp]: "byte_char (char_byte c) = c"
  by (simp add: byte_char_def char_byte_def unat_of_nat)

lemma char_byte_char [simp]: "char_byte (byte_char b) = b"
  using unsigned_less [of b, where 'a = nat] by (simp add: byte_char_def char_byte_def)

lemma length_str_bytes [simp]: "length (str_bytes s) = length s"
  by (simp add: str_bytes_def)

lemma bytes_str_bytes [simp]: "bytes_str (str_bytes s) = s"
  by (simp add: bytes_str_def str_bytes_def map_idI)

lemma str_bytes_str [simp]: "str_bytes (bytes_str bs) = bs"
  by (simp add: bytes_str_def str_bytes_def map_idI)

lemma str_bytes_eq_Nil [simp]: "str_bytes s = [] \<longleftrightarrow> s = []"
  by (simp add: str_bytes_def)

lemma utf8_ascii: "(\<forall>b \<in> set bs. unat b < 0x80) \<Longrightarrow> utf8_valid bs"
  by (induction bs) (auto simp: in_rng_def)

section \<open>Lemmas: maps and ordered sets\<close>

lemma fmlen_empty [simp]: "fmlen fmempty = 0"
  by (simp add: fmlen_def)

lemma fmlen_upd: "fmlen (fmupd k v m) = (if fmlookup m k = None then Suc (fmlen m) else fmlen m)"
  by (cases "fmlookup m k") (simp_all add: fmlen_def fcard.rep_eq card_insert_if fmdom_notI fmdomI)

lemma fmlen_drop: "fmlen (fmdrop k m) = (if fmlookup m k = None then fmlen m else fmlen m - 1)"
  by (cases "fmlookup m k") (simp_all add: fmlen_def fcard.rep_eq card_Diff_singleton_if fmdom_notI fmdomI)

lemma fmlen_pos: "fmlookup m k = Some v \<Longrightarrow> 0 < fmlen m"
  by (auto simp: fmlen_def fcard.rep_eq card_gt_0_iff intro: fmdomI)

lemma set_cyclic_after [simp]: "set (cyclic_after c s) = fset s"
  by (auto simp: cyclic_after_def split: option.splits)

lemma sorted_fset_distinct [simp]: "distinct (sorted_list_of_fset s)"
  by (simp add: sorted_list_of_fset.rep_eq)

lemma sorted_fset_sorted [simp]: "sorted (sorted_list_of_fset s)"
  by (simp add: sorted_list_of_fset.rep_eq)

lemma length_sorted_fset [simp]: "length (sorted_list_of_fset s) = fcard s"
  by (simp add: sorted_list_of_fset.rep_eq fcard.rep_eq)

lemma distinct_cyclic_after [simp]: "distinct (cyclic_after c s)"
  by (auto simp: cyclic_after_def split: option.splits)

lemma length_cyclic_after [simp]: "length (cyclic_after c s) = fcard s"
  by (metis distinct_card distinct_cyclic_after fcard.rep_eq set_cyclic_after)

lemma distinct_concat_map:
  assumes "distinct xs" "\<And>x. distinct (f x)" "\<And>x y. x \<noteq> y \<Longrightarrow> set (f x) \<inter> set (f y) = {}"
  shows "distinct (concat (map f xs))"
  using assms(1)
proof (induction xs)
  case (Cons a xs)
  have "set (f a) \<inter> set (f x) = {}" if "x \<in> set xs" for x
    using assms(3) [of a x] that Cons.prems by auto
  with Cons assms(2) [of a] show ?case by auto
qed simp

text \<open>Taking the first elements of an enumeration out of a set.\<close>

lemma fcard_minus_take:
  assumes "distinct xs" "set xs = fset S"
  shows "fcard (S |-| fset_of_list (take k xs)) = fcard S - k"
proof -
  have "S |-| fset_of_list (take k xs) = fset_of_list (drop k xs)"
  proof (rule fset_eqI)
    fix x
    have "set (take k xs) \<inter> set (drop k xs) = {}" using assms(1) by (rule set_take_disj_set_drop_if_distinct) simp
    moreover have "x |\<in>| S \<longleftrightarrow> x \<in> set (take k xs) \<or> x \<in> set (drop k xs)"
      by (metis Un_iff append_take_drop_id assms(2) set_append)
    ultimately show "x |\<in>| S |-| fset_of_list (take k xs) \<longleftrightarrow> x |\<in>| fset_of_list (drop k xs)"
      by (auto simp: fset_of_list_elem)
  qed
  moreover have "card (set (drop k xs)) = length xs - k" using assms(1) by (simp add: distinct_card)
  moreover have "length xs = fcard S" using assms by (metis distinct_card fcard.rep_eq)
  ultimately show ?thesis by (simp add: fcard.rep_eq fset_of_list.rep_eq)
qed

end
