(* ===== verification/Ieee.thy ===== *)
theory Ieee
  imports Prelude Complex_Main "HOL-Library.Log_Nat"
begin

text \<open>
  What the sources use of IEEE 754 arithmetic. An \<open>f32\<close> is its bit pattern, as it travels
  through packets and tables; \<open>f32_val\<close> reads it as an exact rational, an infinity or NaN.
  \<open>round_to\<close> is round-to-nearest, ties to even, at a given precision and least exponent, on
  rationals. The division, \<open>floor\<close> and saturating \<open>as i32\<close> cast of the grid, and the
  \<open>f64\<close> arithmetic of the clock, are built from them.
\<close>

type_synonym f32 = u32

datatype fval = Fin rat | PosInf | NegInf | NaN

definition pow2 :: "int \<Rightarrow> rat" where
  "pow2 e = (if 0 \<le> e then of_int (2 ^ nat e) else 1 / of_int (2 ^ nat (- e)))"

definition f32_val :: "f32 \<Rightarrow> fval" where
  "f32_val w =
     (let neg = bit w 31; ex = unat (take_bit 8 (drop_bit 23 w)); fr = unat (take_bit 23 w);
          sgn = (if neg then - 1 else 1 :: rat) in
      if ex = 255 then if fr \<noteq> 0 then NaN else if neg then NegInf else PosInf
      else if ex = 0 then Fin (sgn * of_nat fr * pow2 (- 149))
      else Fin (sgn * of_nat (2 ^ 23 + fr) * pow2 (int ex - 150)))"

definition f32_is_finite :: "f32 \<Rightarrow> bool" where
  "f32_is_finite w = (case f32_val w of Fin _ \<Rightarrow> True | _ \<Rightarrow> False)"

text \<open>\<open>-x\<close> flips the sign bit.\<close>

definition f32_neg :: "f32 \<Rightarrow> f32" where
  "f32_neg w = w XOR 0x80000000"

text \<open>The partial order \<open><\<close>: false whenever an operand is NaN.\<close>

fun fval_lt :: "fval \<Rightarrow> fval \<Rightarrow> bool" where
  "fval_lt NaN _ = False"
| "fval_lt _ NaN = False"
| "fval_lt (Fin a) (Fin b) = (a < b)"
| "fval_lt (Fin _) PosInf = True"
| "fval_lt (Fin _) NegInf = False"
| "fval_lt PosInf _ = False"
| "fval_lt NegInf NegInf = False"
| "fval_lt NegInf _ = True"

definition f32_lt :: "f32 \<Rightarrow> f32 \<Rightarrow> bool" where
  "f32_lt a b = fval_lt (f32_val a) (f32_val b)"

text \<open>\<open>f32::clamp\<close> for bounds that are not NaN.\<close>

definition f32_clamp :: "f32 \<Rightarrow> f32 \<Rightarrow> f32 \<Rightarrow> f32" where
  "f32_clamp lo hi x = (if f32_lt x lo then lo else if f32_lt hi x then hi else x)"

section \<open>Rounding\<close>

definition round_even :: "rat \<Rightarrow> int" where
  "round_even q =
     (let f = \<lfloor>q\<rfloor>; r = q - of_int f in
      if r < 1 / 2 then f else if r > 1 / 2 then f + 1 else if even f then f else f + 1)"

text \<open>\<open>\<lfloor>log2 q\<rfloor>\<close> of a positive rational: the binary lengths of numerator and denominator give
  it up to one.\<close>

definition ilog2 :: "rat \<Rightarrow> int" where
  "ilog2 q =
     (let (n, d) = quotient_of q; k = bitlen n - bitlen d
      in if q < pow2 k then k - 1 else k)"

definition round_to :: "nat \<Rightarrow> int \<Rightarrow> rat \<Rightarrow> rat" where
  "round_to prec emin q =
     (if q = 0 then 0
      else let e = max (ilog2 \<bar>q\<bar> - (int prec - 1)) emin in of_int (round_even (q / pow2 e)) * pow2 e)"

definition round_f32 :: "rat \<Rightarrow> rat" where "round_f32 = round_to 24 (- 149)"
definition round_f64 :: "rat \<Rightarrow> rat" where "round_f64 = round_to 53 (- 1074)"

text \<open>The sum type result of a finite \<open>f32\<close> operation whose exact result is \<open>q\<close>.\<close>

definition f32_result :: "rat \<Rightarrow> fval" where
  "f32_result q =
     (let r = round_f32 q in if r \<ge> pow2 128 then PosInf else if r \<le> - pow2 128 then NegInf else Fin r)"

text \<open>The bit pattern of a non-negative value: \<open>f32::to_bits\<close>.\<close>

definition f32_bits :: "rat \<Rightarrow> f32" where
  "f32_bits q =
     (if q = 0 then 0
      else let e = max (ilog2 q - 23) (- 149) in of_nat (nat (e + 149) * 2 ^ 23 + nat \<lfloor>q / pow2 e\<rfloor>))"

text \<open>\<open>x / y\<close> for a positive \<open>y\<close>.\<close>

fun fval_div :: "fval \<Rightarrow> fval \<Rightarrow> fval" where
  "fval_div NaN _ = NaN"
| "fval_div _ NaN = NaN"
| "fval_div (Fin a) (Fin b) = f32_result (a / b)"
| "fval_div (Fin _) _ = Fin 0"
| "fval_div v (Fin _) = v"
| "fval_div _ _ = NaN"

text \<open>\<open>v.floor() as i32\<close>: saturating, NaN becomes 0.\<close>

fun floor_as_i32 :: "fval \<Rightarrow> int" where
  "floor_as_i32 (Fin q) = max i32_min (min i32_max \<lfloor>q\<rfloor>)"
| "floor_as_i32 PosInf = i32_max"
| "floor_as_i32 NegInf = i32_min"
| "floor_as_i32 NaN = 0"

section \<open>Lemmas\<close>

lemma pow2_pos [simp]: "0 < pow2 e"
  by (simp add: pow2_def)

lemma pow2_nonneg [simp]: "0 \<le> pow2 e"
  using pow2_pos [of e] by (rule less_imp_le)

lemma pow2_nonzero [simp]: "pow2 e \<noteq> 0"
  using pow2_pos [of e] by linarith

lemma pow2_add: "pow2 (a + b) = pow2 a * pow2 b"
proof -
  consider "0 \<le> a" "0 \<le> b" | "a < 0" "b < 0" | "0 \<le> a" "b < 0" "0 \<le> a + b" | "0 \<le> a" "b < 0" "a + b < 0"
    | "a < 0" "0 \<le> b" "0 \<le> a + b" | "a < 0" "0 \<le> b" "a + b < 0" by linarith
  then show ?thesis
  proof cases
    case 1
    then show ?thesis by (simp add: pow2_def nat_add_distrib power_add)
  next
    case 2
    then have "nat (- (a + b)) = nat (- a) + nat (- b)" by simp
    with 2 show ?thesis by (simp add: pow2_def power_add)
  next
    case 3
    then have "nat a = nat (a + b) + nat (- b)" by simp
    then have "(2 :: rat) ^ nat a = 2 ^ nat (a + b) * 2 ^ nat (- b)" by (metis power_add)
    with 3 show ?thesis by (simp add: pow2_def)
  next
    case 4
    then have "nat (- b) = nat a + nat (- (a + b))" by simp
    then have "(2 :: rat) ^ nat (- b) = 2 ^ nat a * 2 ^ nat (- (a + b))" by (metis power_add)
    with 4 show ?thesis by (simp add: pow2_def)
  next
    case 5
    then have "nat b = nat (a + b) + nat (- a)" by simp
    then have "(2 :: rat) ^ nat b = 2 ^ nat (a + b) * 2 ^ nat (- a)" by (metis power_add)
    with 5 show ?thesis by (simp add: pow2_def)
  next
    case 6
    then have "nat (- a) = nat b + nat (- (a + b))" by simp
    then have "(2 :: rat) ^ nat (- a) = 2 ^ nat b * 2 ^ nat (- (a + b))" by (metis power_add)
    with 6 show ?thesis by (simp add: pow2_def)
  qed
qed

lemma pow2_mono: "a \<le> b \<Longrightarrow> pow2 a \<le> pow2 b"
proof -
  assume "a \<le> b"
  have "pow2 b = pow2 a * pow2 (b - a)" by (metis add.commute diff_add_cancel pow2_add)
  moreover have "1 \<le> pow2 (b - a)" using \<open>a \<le> b\<close> by (simp add: pow2_def)
  ultimately show ?thesis using mult_left_mono [of 1 "pow2 (b - a)" "pow2 a"] pow2_pos [of a] by simp
qed

lemma round_even_error: "\<bar>of_int (round_even q) - q\<bar> \<le> 1 / 2"
proof -
  have "of_int \<lfloor>q\<rfloor> \<le> q" "q < of_int \<lfloor>q\<rfloor> + 1" by linarith+
  then show ?thesis by (auto simp: round_even_def Let_def)
qed

lemma round_even_int [simp]: "round_even (of_int n) = n"
  by (simp add: round_even_def)

lemma round_even_mono: "a \<le> b \<Longrightarrow> round_even a \<le> round_even b"
proof -
  assume ab: "a \<le> b"
  have f: "\<lfloor>a\<rfloor> \<le> \<lfloor>b\<rfloor>" using ab by (rule floor_mono)
  show ?thesis
  proof (cases "\<lfloor>a\<rfloor> = \<lfloor>b\<rfloor>")
    case True
    with ab show ?thesis by (auto simp: round_even_def Let_def)
  next
    case False
    with f have "\<lfloor>a\<rfloor> + 1 \<le> \<lfloor>b\<rfloor>" by simp
    then show ?thesis by (auto simp: round_even_def Let_def)
  qed
qed

lemma round_even_bound: "\<bar>q\<bar> \<le> of_int n \<Longrightarrow> \<bar>round_even q\<bar> \<le> n"
  using round_even_mono [of q "of_int n"] round_even_mono [of "of_int (- n)" q]
  by (simp only: round_even_int) (simp add: abs_le_iff)

text \<open>The exponent brackets its argument.\<close>

lemma ilog2_bounds:
  assumes "0 < q"
  shows "pow2 (ilog2 q) \<le> q" "q < pow2 (ilog2 q + 1)"
proof -
  obtain n d where nd: "quotient_of q = (n, d)" by (cases "quotient_of q")
  then have d: "0 < d" and q: "q = of_int n / of_int d"
    by (auto simp: quotient_of_denom_pos quotient_of_div)
  with assms have n: "0 < n" by (simp add: zero_less_divide_iff)
  have bn: "2 ^ nat (bitlen n - 1) \<le> n" "n < 2 ^ nat (bitlen n)" "0 < bitlen n"
    and bd: "2 ^ nat (bitlen d - 1) \<le> d" "d < 2 ^ nat (bitlen d)" "0 < bitlen d"
    using bitlen_bounds [of n] bitlen_bounds [of d] bitlen_eq_zero_iff [of n] bitlen_eq_zero_iff [of d]
      bitlen_nonneg [of n] bitlen_nonneg [of d] n d by linarith+
  have pn: "pow2 (bitlen n - 1) \<le> of_int n" "of_int n < pow2 (bitlen n)"
    using bn by (simp_all add: pow2_def del: of_int_power)
  have pd: "pow2 (bitlen d - 1) \<le> of_int d" "of_int d < pow2 (bitlen d)"
    using bd by (simp_all add: pow2_def del: of_int_power)
  let ?k = "bitlen n - bitlen d"
  have "pow2 (?k - 1) * pow2 (bitlen d) = pow2 (bitlen n - 1)" by (simp flip: pow2_add)
  then have lo: "pow2 (?k - 1) \<le> q"
    using pn pd d mult_left_mono [OF less_imp_le [OF pd(2)], of "pow2 (?k - 1)"]
    by (simp add: q le_divide_eq less_imp_le) 
  have "pow2 (?k + 1) * pow2 (bitlen d - 1) = pow2 (bitlen n)" by (simp flip: pow2_add)
  then have hi: "q < pow2 (?k + 1)"
    using pn pd d mult_left_mono [OF pd(1), of "pow2 (?k + 1)"]
    by (simp add: q divide_less_eq less_imp_le)
  have "ilog2 q = (if q < pow2 ?k then ?k - 1 else ?k)" by (simp add: ilog2_def nd)
  with lo hi show "pow2 (ilog2 q) \<le> q" "q < pow2 (ilog2 q + 1)" by (auto simp: not_less)
qed

text \<open>Rounding is exact on what the precision can represent, and otherwise off by at most half a
  unit in the last place.\<close>

lemma round_to_exact:
  assumes "q = of_int m * pow2 e" "ilog2 \<bar>q\<bar> - (int p - 1) \<le> e" "emin \<le> e"
  shows "round_to p emin q = q"
proof (cases "q = 0")
  case True
  then show ?thesis by (simp add: round_to_def)
next
  case False
  define e' where "e' = max (ilog2 \<bar>q\<bar> - (int p - 1)) emin"
  have "e' \<le> e" using assms by (simp add: e'_def)
  then have "pow2 e = of_int (2 ^ nat (e - e')) * pow2 e'"
    using pow2_add [of "e - e'" e'] by (simp add: pow2_def)
  then have "q / pow2 e' = of_int (m * 2 ^ nat (e - e'))" by (simp add: assms(1))
  then have "of_int (round_even (q / pow2 e')) = q / pow2 e'" by (simp only: round_even_int)
  with False show ?thesis by (simp add: round_to_def Let_def flip: e'_def)
qed

lemma round_to_error:
  assumes "\<bar>q\<bar> < pow2 k" "k - int p \<ge> emin"
  shows "\<bar>round_to p emin q - q\<bar> \<le> pow2 (k - int p) / 2"
proof (cases "q = 0")
  case True
  then show ?thesis using pow2_pos [of "k - int p"] by (simp add: round_to_def less_imp_le del: pow2_pos)
next
  case False
  define e where "e = max (ilog2 \<bar>q\<bar> - (int p - 1)) emin"
  have "pow2 (ilog2 \<bar>q\<bar>) < pow2 k" using ilog2_bounds(1) [of "\<bar>q\<bar>"] False assms(1) by simp
  then have "ilog2 \<bar>q\<bar> < k" by (metis not_less pow2_mono)
  then have e: "e \<le> k - int p" using assms(2) by (simp add: e_def)
  have "round_to p emin q - q = (of_int (round_even (q / pow2 e)) - q / pow2 e) * pow2 e"
    using False by (simp add: round_to_def Let_def left_diff_distrib flip: e_def)
  then have "\<bar>round_to p emin q - q\<bar> \<le> 1 / 2 * pow2 e"
    using round_even_error [of "q / pow2 e"] by (simp add: abs_mult mult_right_mono abs_of_pos)
  also have "\<dots> \<le> pow2 (k - int p) / 2" using pow2_mono [OF e] by simp
  finally show ?thesis .
qed

lemma round_to_nonneg:
  assumes "0 \<le> q"
  shows "0 \<le> round_to p emin q"
proof -
  have "0 \<le> round_even (q / pow2 e)" for e
    using round_even_mono [of "of_int 0" "q / pow2 e"] assms by (simp only: round_even_int) simp
  then show ?thesis by (simp add: round_to_def Let_def)
qed

section \<open>Bit patterns\<close>

text \<open>The fields of the bit pattern, as numbers.\<close>

lemma f32_val_fields:
  assumes "unat w = s * 2 ^ 31 + ex * 2 ^ 23 + fr" "ex < 2 ^ 8" "fr < 2 ^ 23"
  shows "unat (take_bit 8 (drop_bit 23 (w :: f32))) = ex" "unat (take_bit 23 w) = fr" "bit w 31 = odd s"
proof -
  have "s * 2 ^ 31 + ex * 2 ^ 23 + fr = fr + (s * 2 ^ 8 + ex) * 2 ^ 23" by simp
  then have w: "unat w = fr + (s * 2 ^ 8 + ex) * 2 ^ 23" using assms(1) by simp
  have "unat w div 2 ^ 23 = s * 2 ^ 8 + ex" using assms(3) unfolding w by simp
  then show "unat (take_bit 8 (drop_bit 23 w)) = ex"
    using assms(2) unfolding unsigned_take_bit_eq unat_drop_bit_eq by (simp add: take_bit_eq_mod drop_bit_eq_div)
  have "unat w mod 2 ^ 23 = fr" unfolding w mod_mult_self1 using assms(3) by simp
  then show "unat (take_bit 23 w) = fr" unfolding unsigned_take_bit_eq by (simp add: take_bit_eq_mod)
  have "fr + ex * 2 ^ 23 < 2 ^ 31" using assms(2,3) by simp
  then have "(fr + ex * 2 ^ 23 + s * 2 ^ 31) div 2 ^ 31 = s" by simp
  then have "unat w div 2 ^ 31 = s" unfolding w by (simp add: algebra_simps)
  moreover have "bit w 31 = odd (unat w div 2 ^ 31)" 
    using bit_unsigned_iff [of w 31, where ?'a = nat] unfolding bit_iff_odd [of "unat w"] by simp
  ultimately show "bit w 31 = odd s" by simp
qed

lemma f32_split:
  obtains s ex fr where "unat (w :: f32) = s * 2 ^ 31 + ex * 2 ^ 23 + fr" "s < 2" "ex < 2 ^ 8" "fr < (2 :: nat) ^ 23"
proof
  let ?n = "unat w"
  have "?n div 2 ^ 23 = ?n div 2 ^ 31 * 2 ^ 8 + ?n div 2 ^ 23 mod 2 ^ 8"
    using div_mult_mod_eq [of "?n div 2 ^ 23" "2 ^ 8"] by (simp add: div_mult2_eq [symmetric])
  then have "?n div 2 ^ 23 * 2 ^ 23 = ?n div 2 ^ 31 * 2 ^ 31 + ?n div 2 ^ 23 mod 2 ^ 8 * 2 ^ 23" by simp
  then show "?n = ?n div 2 ^ 31 * 2 ^ 31 + ?n div 2 ^ 23 mod 2 ^ 8 * 2 ^ 23 + ?n mod 2 ^ 23"
    using div_mult_mod_eq [of ?n "2 ^ 23"] by linarith
  show "?n div 2 ^ 31 < 2" using unsigned_less [of w, where ?'a = nat] by (simp add: less_mult_imp_div_less)
qed simp_all

lemma f32_val_zero_iff: "f32_val w = Fin 0 \<longleftrightarrow> w = 0 \<or> w = 0x80000000"
proof -
  obtain s ex fr where w: "unat w = s * 2 ^ 31 + ex * 2 ^ 23 + fr" "s < 2" "ex < 2 ^ 8" "fr < (2 :: nat) ^ 23"
    by (rule f32_split)
  have "f32_val w = Fin 0 \<longleftrightarrow> ex = 0 \<and> fr = 0"
    by (auto simp: f32_val_def Let_def f32_val_fields [OF w(1,3,4)])
  also have "\<dots> \<longleftrightarrow> unat w = 0 \<or> unat w = 2 ^ 31"
  proof -
    have "s = 0 \<or> s = 1" using w(2) by linarith
    moreover have "ex * 2 ^ 23 + fr < 2 ^ 31" using w(3,4) by simp
    ultimately show ?thesis unfolding w(1) by auto
  qed
  also have "\<dots> \<longleftrightarrow> w = 0 \<or> w = 0x80000000" by (simp add: word_unat_eq_iff)
  finally show ?thesis .
qed

text \<open>What a finite non-negative \<open>f32\<close> can be: \<open>m\<close> units of \<open>2 ^ e\<close>.\<close>

lemma f32_bits_val:
  assumes q: "0 < q" "q < pow2 128" and e: "e = max (ilog2 q - 23) (- 149)" and m: "q = of_int m * pow2 e"
  shows "f32_val (f32_bits q) = Fin q"
proof -
  have lo: "pow2 (ilog2 q) \<le> q" and hi: "q < pow2 (ilog2 q + 1)" using ilog2_bounds [OF q(1)] .
  have m0: "0 < m" using q(1) m pow2_pos [of e] by (auto simp: zero_less_mult_iff simp del: pow2_pos)
  have "pow2 (ilog2 q) < pow2 128" using lo q(2) by simp
  then have il: "ilog2 q < 128" by (metis not_less pow2_mono)
  have "pow2 (ilog2 q + 1) \<le> pow2 (e + 24)" using e by (intro pow2_mono) simp
  then have "q < pow2 24 * pow2 e" using hi unfolding pow2_add [of e 24] by (simp add: mult.commute)
  then have "of_int m * pow2 e < pow2 24 * pow2 e" by (simp add: m)
  then have "of_int m < pow2 24" by (simp add: mult_less_cancel_right)
  then have m24: "m < 2 ^ 24" by (simp add: pow2_def)
  have m23: "2 ^ 23 \<le> m" if "- 149 < e"
  proof -
    have "e + 23 = ilog2 q" using that e by simp
    then have "pow2 23 * pow2 e \<le> of_int m * pow2 e" using lo m by (simp add: pow2_add [symmetric] add.commute)
    then have "pow2 23 \<le> of_int m" by simp
    then show ?thesis by (simp add: pow2_def)
  qed
  have fl: "\<lfloor>q / pow2 e\<rfloor> = m" by (simp add: m)
  define k where "k = nat (e + 149)"
  have k: "int k = e + 149" "k < 254" using e il by (auto simp: k_def)
  have bits: "f32_bits q = of_nat (k * 2 ^ 23 + nat m)"
    using q(1) by (simp only: f32_bits_def Let_def fl k_def flip: e) simp
  show ?thesis
  proof (cases "2 ^ 23 \<le> m")
    case True
    have "k * 2 ^ 23 + nat m = 0 * 2 ^ 31 + Suc k * 2 ^ 23 + (nat m - 2 ^ 23)" using True by simp
    moreover have "k * 2 ^ 23 + nat m < 2 ^ 32" using k m24 by simp
    ultimately have u: "unat (f32_bits q) = 0 * 2 ^ 31 + Suc k * 2 ^ 23 + (nat m - 2 ^ 23)"
      unfolding bits by (simp only: unat_of_nat) simp
    have f: "nat m - 2 ^ 23 < 2 ^ 23" "Suc k < 2 ^ 8" using m24 k by auto
    have "of_nat (2 ^ 23 + (nat m - 2 ^ 23)) = (of_int m :: rat)" using True m0 by simp
    moreover have "int (Suc k) - 150 = e" using k by simp
    ultimately show ?thesis using k unfolding f32_val_def Let_def f32_val_fields [OF u f(2,1)] by (simp add: m)
  next
    case False
    with m23 have "e = - 149" using e by linarith
    then have "k = 0" using k by simp
    have "k * 2 ^ 23 + nat m = 0 * 2 ^ 31 + 0 * 2 ^ 23 + nat m" using \<open>k = 0\<close> by simp
    moreover have "k * 2 ^ 23 + nat m < 2 ^ 32" using k m24 by simp
    ultimately have u: "unat (f32_bits q) = 0 * 2 ^ 31 + 0 * 2 ^ 23 + nat m"
      unfolding bits by (simp only: unat_of_nat) simp
    have f: "nat m < 2 ^ 23" "(0 :: nat) < 2 ^ 8" using False by auto
    show ?thesis using m0 \<open>e = - 149\<close> unfolding f32_val_def Let_def f32_val_fields [OF u f(2,1)] by (simp add: m)
  qed
qed

text \<open>A rounded value is exactly represented.\<close>

lemma f32_exponent_fits:
  assumes q: "0 < q" "q = of_int m * pow2 e0" and m: "m \<le> 2 ^ 24" and e0: "- 149 \<le> e0"
  shows "\<exists>m'. q = of_int m' * pow2 (max (ilog2 q - 23) (- 149))"
proof -
  define e where "e = max (ilog2 q - 23) (- 149)"
  show ?thesis
  proof (cases "e \<le> e0")
    case True
    then have "pow2 e0 = of_int (2 ^ nat (e0 - e)) * pow2 e"
      using pow2_add [of "e0 - e" e] by (simp add: pow2_def)
    then have "q = of_int (m * 2 ^ nat (e0 - e)) * pow2 e" by (simp add: q(2))
    then show ?thesis unfolding e_def by blast
  next
    case False
    with e0 have e: "ilog2 q = e + 23" by (simp add: e_def)
    have "of_int m \<le> (of_int (2 ^ 24) :: rat)" using m by (simp only: of_int_le_iff)
    then have "q \<le> of_int (2 ^ 24) * pow2 e0" unfolding q(2) by (intro mult_right_mono) simp_all
    then have up: "q \<le> pow2 (e0 + 24)" by (simp add: pow2_add [of e0 24] pow2_def [of 24] mult.commute)
    have lo: "pow2 (e + 23) \<le> q" using ilog2_bounds(1) [OF q(1)] by (simp add: e)
    have "\<not> e0 + 24 < e + 23"
    proof
      assume lt: "e0 + 24 < e + 23"
      have "2 \<le> pow2 (e - e0 - 1)" using pow2_mono [of 1 "e - e0 - 1"] lt by (simp add: pow2_def [of 1])
      then have "2 * pow2 (e0 + 24) \<le> pow2 (e - e0 - 1) * pow2 (e0 + 24)" by (rule mult_right_mono) simp
      also have "\<dots> = pow2 (e + 23)" by (simp flip: pow2_add)
      finally show False using lo up pow2_pos [of "e0 + 24"] by linarith
    qed
    with False have "e + 23 = e0 + 24" by simp
    with lo up have "q = pow2 (e + 23)" by (simp add: add.commute)
    then have "q = of_int (2 ^ 23) * pow2 e" by (simp add: pow2_add [of e 23] pow2_def [of 23] mult.commute)
    then show ?thesis unfolding e_def by blast
  qed
qed

lemma f32_bits_round:
  assumes x: "0 \<le> x" "x < 1"
  shows "f32_val (f32_bits (round_f32 x)) = Fin (round_f32 x)"
proof (cases "round_f32 x = 0")
  case True
  have "f32_val 0 = Fin 0" by (simp add: f32_val_zero_iff)
  with True show ?thesis by (simp add: f32_bits_def)
next
  case False
  define e0 where "e0 = max (ilog2 \<bar>x\<bar> - (int 24 - 1)) (- 149)"
  define m0 where "m0 = round_even (x / pow2 e0)"
  have x0: "x \<noteq> 0" using False by (auto simp: round_f32_def round_to_def)
  then have q: "round_f32 x = of_int m0 * pow2 e0"
    by (simp add: round_f32_def round_to_def Let_def m0_def e0_def)
  have pos: "0 < round_f32 x" using False x(1) round_to_nonneg [of x 24 "- 149"] by (simp add: round_f32_def)
  have "x < pow2 (ilog2 x + 1)" using x x0 by (intro ilog2_bounds) simp
  also have "\<dots> \<le> pow2 (e0 + 24)" using x by (intro pow2_mono) (simp add: e0_def)
  finally have "x / pow2 e0 \<le> of_int (2 ^ 24)"
    by (simp add: divide_le_eq pow2_add [of e0 24] pow2_def [of 24] mult.commute)
  then have m0: "m0 \<le> 2 ^ 24" using round_even_bound [of "x / pow2 e0" "2 ^ 24"] x(1) by (simp add: m0_def)
  obtain m where "round_f32 x = of_int m * pow2 (max (ilog2 (round_f32 x) - 23) (- 149))"
    using f32_exponent_fits [OF pos q m0] by (auto simp: e0_def)
  moreover have "round_f32 x < pow2 128"
  proof -
    have "\<bar>round_f32 x - x\<bar> \<le> pow2 (- 24) / 2"
      unfolding round_f32_def using x round_to_error [of x 0 "- 149" 24] by (simp add: pow2_def [of 0])
    moreover have "pow2 (- 24) / 2 \<le> 1" "2 \<le> pow2 128" by (simp_all add: pow2_def)
    ultimately show ?thesis using x(2) by linarith
  qed
  ultimately show ?thesis using f32_bits_val [OF pos _ refl] by blast
qed

end
