(* ===== verification/Clock.thy ===== *)
theory Clock
  imports Ieee
begin

text \<open>
  The world clock, \<open>server/crates/sw-server/src/clock.rs\<close>. The two \<open>f64\<close> divisions are
  rounded as the hardware does, so that what the clock shows is proved of the computed values:
  for more than a thousand years of uptime the day is exact and the fraction of the day stays
  below one.
\<close>

definition DAY_LENGTH_SECS :: rat where "DAY_LENGTH_SECS = 1200"
definition LUNAR_CYCLE_DAYS :: nat where "LUNAR_CYCLE_DAYS = 30"

text \<open>The two fractions are finite \<open>f32\<close> values, kept as the rationals they denote.\<close>

record world_clock =
  clock_day :: nat
  clock_time_of_day :: rat
  clock_moon_phase :: rat

text \<open>\<open>x.floor() as u32\<close> of a non-negative \<open>f64\<close>.\<close>

definition floor_as_u32 :: "rat \<Rightarrow> nat" where
  "floor_as_u32 q = min u32_max (nat \<lfloor>q\<rfloor>)"

definition clock_from_epoch :: "int \<Rightarrow> int \<Rightarrow> world_clock" where
  "clock_from_epoch epoch_ms now_ms =
     (let elapsed_secs = round_f64 (round_f64 (of_int (max (wrap_i64 (now_ms - epoch_ms)) 0)) / 1000);
          total_days = round_f64 (elapsed_secs / DAY_LENGTH_SECS);
          day = floor_as_u32 total_days
      in \<lparr>clock_day = day,
          clock_time_of_day = round_f32 (total_days - of_int \<lfloor>total_days\<rfloor>),
          clock_moon_phase = round_f32 (of_nat (day mod LUNAR_CYCLE_DAYS) / of_nat LUNAR_CYCLE_DAYS)\<rparr>)"

section \<open>Rounding on the way\<close>

lemma round_f64_int:
  assumes "\<bar>n\<bar> < 2 ^ 53"
  shows "round_f64 (of_int n) = of_int n"
proof -
  have "ilog2 \<bar>of_int n\<bar> - (int 53 - 1) \<le> 0" if "n \<noteq> 0"
  proof -
    have "\<bar>of_int n\<bar> < pow2 53" using assms by (simp add: pow2_def)
    moreover have "pow2 (ilog2 \<bar>of_int n\<bar>) \<le> \<bar>of_int n\<bar>" using that by (intro ilog2_bounds) simp
    ultimately have "pow2 (ilog2 \<bar>of_int n\<bar>) < pow2 53" by simp
    then have "ilog2 \<bar>of_int n\<bar> < 53" by (metis not_less pow2_mono)
    then show ?thesis by simp
  qed
  then show ?thesis
    unfolding round_f64_def
    by (cases "n = 0") (auto simp: round_to_def [of _ _ 0] intro!: round_to_exact [where e = 0 and m = n] simp: pow2_def)
qed

text \<open>The computed day count against the exact one: exact on a day boundary, and off by less than
  \<open>2 ^ - 27\<close> of a day anywhere.\<close>

definition clock_total :: "int \<Rightarrow> rat" where
  "clock_total n = round_f64 (round_f64 (of_int n / 1000) / 1200)"

lemma clock_total_error:
  assumes "0 \<le> n" "n < 2 ^ 45"
  shows "\<bar>clock_total n - of_int n / 1200000\<bar> \<le> 1 / 2 ^ 27"
proof -
  define s where "s = round_f64 (of_int n / 1000)"
  have n: "of_int n < (2 :: rat) ^ 45" "0 \<le> (of_int n :: rat)"
    using assms by (simp_all add: of_int_less_numeral_power_cancel_iff)
  have "\<bar>of_int n / 1000\<bar> < pow2 36" using n by (simp add: pow2_def divide_less_eq)
  then have s: "\<bar>s - of_int n / 1000\<bar> \<le> pow2 (36 - int 53) / 2"
    unfolding s_def round_f64_def by (rule round_to_error) simp
  then have s': "\<bar>s - of_int n / 1000\<bar> \<le> 1 / 2 ^ 18" by (simp add: pow2_def)
  have "\<bar>s / 1200\<bar> < pow2 25" using s' n by (simp add: pow2_def abs_if divide_less_eq split: if_splits)
  then have t: "\<bar>clock_total n - s / 1200\<bar> \<le> pow2 (25 - int 53) / 2"
    unfolding clock_total_def s_def [symmetric] by (simp only: round_f64_def) (rule round_to_error, simp_all)
  then have t': "\<bar>clock_total n - s / 1200\<bar> \<le> 1 / 2 ^ 29" by (simp add: pow2_def)
  have "\<bar>s / 1200 - of_int n / 1200000\<bar> = \<bar>s - of_int n / 1000\<bar> / 1200"
    by (simp add: abs_if field_simps)
  also have "\<dots> \<le> 1 / 2 ^ 18 / 1200" using s' by (intro divide_right_mono) auto
  finally have "\<bar>s / 1200 - of_int n / 1200000\<bar> \<le> 1 / 2 ^ 28" by simp
  with t' show ?thesis by (simp add: abs_if split: if_splits)
qed

lemma clock_total_boundary:
  assumes "0 \<le> d" "1200000 * d < 2 ^ 45"
  shows "clock_total (1200000 * d) = of_int d"
proof -
  have "round_f64 (of_int (1200 * d)) = of_int (1200 * d)" "round_f64 (of_int d) = of_int d"
    using assms by (auto intro!: round_f64_int simp del: of_int_mult)
  then show ?thesis by (simp add: clock_total_def)
qed

lemma clock_total_floor:
  assumes n: "0 \<le> n" "n < 2 ^ 45"
  shows "\<lfloor>clock_total n\<rfloor> = n div 1200000"
proof -
  define d m where "d = n div 1200000" and "m = n mod 1200000"
  have dm: "n = 1200000 * d + m" "0 \<le> m" "m < 1200000" "0 \<le> d" using n by (auto simp: d_def m_def)
  have q: "of_int n / 1200000 = (of_int d + of_int m / 1200000 :: rat)" by (simp add: dm(1))
  have e: "\<bar>clock_total n - of_int n / 1200000\<bar> \<le> 1 / 2 ^ 27" using n by (rule clock_total_error)
  show ?thesis
  proof (cases "m = 0")
    case True
    then have "clock_total n = of_int d" using clock_total_boundary [OF dm(4)] dm(1) n(2) by simp
    then show ?thesis by (simp add: d_def)
  next
    case False
    then have "1 \<le> m" "m \<le> 1199999" using dm by auto
    then have "1 \<le> (of_int m :: rat)" "of_int m \<le> (1199999 :: rat)" by simp_all
    then have m: "1 / 1200000 \<le> (of_int m / 1200000 :: rat)" "of_int m / 1200000 \<le> (1199999 / 1200000 :: rat)"
      by (auto intro!: divide_right_mono)
    have "clock_total n \<le> of_int d + 1199999 / 1200000 + 1 / 2 ^ 27" "of_int d + 1 / 1200000 - 1 / 2 ^ 27 \<le> clock_total n"
      using e [unfolded q] m by (simp_all only: abs_le_iff) linarith+
    then have "of_int d \<le> clock_total n" "clock_total n < of_int d + 1" by simp_all
    then show ?thesis unfolding d_def [symmetric] by linarith
  qed
qed

section \<open>Properties\<close>

text \<open>For the first \<open>2 ^ 45\<close> milliseconds after the epoch the day is exactly the number of
  whole 1200-second days, the fraction of the day is in \<open>[0, 1)\<close> and within \<open>2 ^ - 24\<close> of
  the true one, and the lunar phase is in \<open>[0, 1)\<close>.\<close>

theorem clock_accurate:
  assumes "epoch_ms \<le> now_ms" "now_ms - epoch_ms < 2 ^ 45"
  shows "case clock_from_epoch epoch_ms now_ms of c \<Rightarrow>
    clock_day c = nat ((now_ms - epoch_ms) div 1200000)
    \<and> 0 \<le> clock_time_of_day c \<and> clock_time_of_day c < 1
    \<and> \<bar>clock_time_of_day c - of_int ((now_ms - epoch_ms) mod 1200000) / 1200000\<bar> \<le> 1 / 2 ^ 24
    \<and> 0 \<le> clock_moon_phase c \<and> clock_moon_phase c < 1"
proof -
  define n where "n = now_ms - epoch_ms"
  have n: "0 \<le> n" "n < 2 ^ 45" using assms by (simp_all add: n_def)
  have "round_f64 (of_int (max (wrap_i64 n) 0)) = of_int n"
    using n by (subst wrap_i64_id) (auto simp: in_i64_def machine_int max_def intro!: round_f64_int)
  then have c: "clock_from_epoch epoch_ms now_ms =
      \<lparr>clock_day = floor_as_u32 (clock_total n), clock_time_of_day = round_f32 (clock_total n - of_int \<lfloor>clock_total n\<rfloor>),
       clock_moon_phase = round_f32 (of_nat (floor_as_u32 (clock_total n) mod 30) / 30)\<rparr>"
    by (simp add: clock_from_epoch_def clock_total_def Let_def DAY_LENGTH_SECS_def LUNAR_CYCLE_DAYS_def n_def)
  define d m where "d = n div 1200000" and "m = n mod 1200000"
  have dm: "n = 1200000 * d + m" "0 \<le> m" "m < 1200000" "0 \<le> d" "d < 2 ^ 25" using n by (auto simp: d_def m_def)
  have fl: "\<lfloor>clock_total n\<rfloor> = d" using clock_total_floor [OF n] by (simp add: d_def)
  then have day: "floor_as_u32 (clock_total n) = nat d" using dm by (simp add: floor_as_u32_def u32_max_def)
  define f where "f = clock_total n - of_int d"
  define g where "g = (of_int m / 1200000 :: rat)"
  have "of_int n / 1200000 = (of_int d + g :: rat)" by (simp add: dm(1) g_def)
  then have fg: "\<bar>f - g\<bar> \<le> 1 / 2 ^ 27"
    using clock_total_error [OF n] by (simp only: f_def diff_diff_eq)
  have g: "0 \<le> g" "g \<le> 1199999 / 1200000"
    using dm(2,3) by (auto simp: g_def intro!: divide_right_mono)
  have f0: "0 \<le> f" "f < 1" using fl by (auto simp: f_def) linarith+
  then have "\<bar>f\<bar> < pow2 0" by (simp add: pow2_def)
  then have r: "\<bar>round_f32 f - f\<bar> \<le> 1 / 2 ^ 25"
    using round_to_error [of f 0 "- 149" 24] by (simp add: round_f32_def pow2_def)
  have pos: "0 \<le> round_f32 q" if "0 \<le> q" for q
    using that by (simp add: round_f32_def round_to_nonneg)
  have moon: "round_f32 (of_nat k / 30) < 1" if "k < 30" for k :: nat
  proof -
    have "of_nat k \<le> (29 :: rat)" using that by (simp add: of_nat_le_iff [of k 29, simplified])
    then have k: "\<bar>of_nat k / 30\<bar> < pow2 0" "of_nat k / 30 \<le> (29 / 30 :: rat)" by (simp_all add: pow2_def)
    have "\<bar>round_f32 (of_nat k / 30) - of_nat k / 30\<bar> \<le> 1 / 2 ^ 25"
      using round_to_error [OF k(1), of "- 149" 24] by (simp add: round_f32_def pow2_def)
    moreover have "1 / 2 ^ 25 < (1 / 30 :: rat)" by simp
    ultimately show ?thesis using k(2) unfolding abs_le_iff by linarith
  qed
  have "\<bar>round_f32 f - g\<bar> \<le> 1 / 2 ^ 24" "round_f32 f < 1"
  proof -
    have c: "1 / 2 ^ 25 + 1 / 2 ^ 27 \<le> (1 / 2 ^ 24 :: rat)" "1199999 / 1200000 + 1 / 2 ^ 24 < (1 :: rat)" by simp_all
    have b: "round_f32 f - f \<le> 1 / 2 ^ 25" "- (round_f32 f - f) \<le> 1 / 2 ^ 25" "f - g \<le> 1 / 2 ^ 27" "- (f - g) \<le> 1 / 2 ^ 27"
      using r fg unfolding abs_le_iff by blast+
    then show "\<bar>round_f32 f - g\<bar> \<le> 1 / 2 ^ 24" using c(1) unfolding abs_le_iff by linarith
    show "round_f32 f < 1" using b c g by linarith
  qed
  with pos [OF f0(1)] pos [of "of_nat (nat d mod 30) / 30"] moon [of "nat d mod 30"] show ?thesis
    by (simp add: c day fl f_def [symmetric] g_def m_def d_def [symmetric] n_def [symmetric])
qed

theorem clock_accurate_witness:
  "case clock_from_epoch 1000 3602000 of c \<Rightarrow>
    clock_day c = 3 \<and> 0 \<le> clock_time_of_day c \<and> clock_time_of_day c < 1
    \<and> \<bar>clock_time_of_day c - 1000 / 1200000\<bar> \<le> 1 / 2 ^ 24 \<and> 0 \<le> clock_moon_phase c \<and> clock_moon_phase c < 1"
  using clock_accurate [of 1000 3602000] by simp

end
