(* ===== verification/World.thy ===== *)
theory World
  imports Ieee
begin

text \<open>
  The spatial grid and area of interest, \<open>server/crates/sw-world/src/lib.rs\<close>: cells, the block
  of cells around a centre, a player's subscription and the entity index. \<open>i32\<close> additions are
  written with their wrap-around; hash-set iteration has no specified order and is the argument
  \<open>iter\<close>, of which only \<open>enumerates\<close> is assumed.
\<close>

section \<open>Cells and the grid\<close>

datatype cell = Cell (cx: int) (cz: int)

instantiation cell :: linorder
begin

definition less_eq_cell :: "cell \<Rightarrow> cell \<Rightarrow> bool" where
  "less_eq_cell a b \<longleftrightarrow> (cx a, cz a) \<le> (cx b, cz b)"

definition less_cell :: "cell \<Rightarrow> cell \<Rightarrow> bool" where
  "less_cell a b \<longleftrightarrow> (cx a, cz a) < (cx b, cz b)"

instance
  by standard (auto simp: less_eq_cell_def less_cell_def cell.expand)

end

definition AOI_RADIUS_CELLS :: int where "AOI_RADIUS_CELLS = 2"

text \<open>\<open>1024.0_f32\<close>.\<close>

definition DEFAULT_CELL_SIZE_M :: f32 where "DEFAULT_CELL_SIZE_M = 0x44800000"

definition chebyshev_distance :: "cell \<Rightarrow> cell \<Rightarrow> int" where
  "chebyshev_distance a b =
     max (wrap_i32 \<bar>wrap_i32 (cx a - cx b)\<bar>) (wrap_i32 \<bar>wrap_i32 (cz a - cz b)\<bar>)"

record grid =
  cell_size_m :: f32

text \<open>\<open>Grid::new\<close>: the assertion fails, \<open>None\<close>, unless the size is positive.\<close>

definition grid_new :: "f32 \<Rightarrow> grid option" where
  "grid_new s = (if f32_lt 0 s then Some \<lparr>cell_size_m = s\<rparr> else None)"

definition grid_coord :: "grid \<Rightarrow> f32 \<Rightarrow> int" where
  "grid_coord g x = floor_as_i32 (fval_div (f32_val x) (f32_val (cell_size_m g)))"

definition grid_cell_of :: "grid \<Rightarrow> f32 \<Rightarrow> f32 \<Rightarrow> cell" where
  "grid_cell_of g x z = Cell (grid_coord g x) (grid_coord g z)"

definition cells_in_radius :: "cell \<Rightarrow> int \<Rightarrow> cell list" where
  "cells_in_radius center radius =
     concat (map (\<lambda>dz. map (\<lambda>dx. Cell (wrap_i32 (cx center + dx)) (wrap_i32 (cz center + dz)))
       [- radius..radius]) [- radius..radius])"

section \<open>Subscriptions\<close>

record aoi_update =
  aoi_added :: "cell list"
  aoi_removed :: "cell list"

definition aoi_is_empty :: "aoi_update \<Rightarrow> bool" where
  "aoi_is_empty u \<longleftrightarrow> aoi_added u = [] \<and> aoi_removed u = []"

record subscription =
  sub_radius :: int
  sub_center :: "cell option"
  sub_cells :: "cell fset"

definition subscription_new :: "int \<Rightarrow> subscription option" where
  "subscription_new radius =
     (if radius \<ge> 0 then Some \<lparr>sub_radius = radius, sub_center = None, sub_cells = {||}\<rparr> else None)"

definition sub_contains :: "cell \<Rightarrow> subscription \<Rightarrow> bool" where
  "sub_contains c s \<longleftrightarrow> c |\<in>| sub_cells s"

definition recenter :: "(cell fset \<Rightarrow> cell list) \<Rightarrow> cell \<Rightarrow> subscription \<Rightarrow> subscription \<times> aoi_update" where
  "recenter iter center s =
     (if sub_center s = Some center then (s, \<lparr>aoi_added = [], aoi_removed = []\<rparr>)
      else
        let new_cells = fset_of_list (cells_in_radius center (sub_radius s));
            added = iter (new_cells |-| sub_cells s);
            removed = iter (sub_cells s |-| new_cells)
        in (s\<lparr>sub_cells := new_cells, sub_center := Some center\<rparr>, \<lparr>aoi_added = added, aoi_removed = removed\<rparr>))"

section \<open>The entity index\<close>

type_synonym entity_id = u64

record world =
  world_grid :: grid
  world_cell_of :: "(entity_id, cell) fmap"
  world_index :: "(cell, entity_id fset) fmap"

definition world_new :: "grid \<Rightarrow> world" where
  "world_new g = \<lparr>world_grid = g, world_cell_of = fmempty, world_index = fmempty\<rparr>"

definition world_len :: "world \<Rightarrow> nat" where
  "world_len w = fmlen (world_cell_of w)"

definition cell_of_entity :: "entity_id \<Rightarrow> world \<Rightarrow> cell option" where
  "cell_of_entity i w = fmlookup (world_cell_of w) i"

text \<open>Taking an entity out of a cell's set, and the set out of the index when it becomes empty.\<close>

definition index_remove :: "entity_id \<Rightarrow> cell \<Rightarrow> world \<Rightarrow> world" where
  "index_remove i c w =
     (case fmlookup (world_index w) c of
        None \<Rightarrow> w
      | Some s \<Rightarrow>
          let s' = s |-| {|i|} in
          if s' = {||} then w\<lparr>world_index := fmdrop c (world_index w)\<rparr>
          else w\<lparr>world_index := fmupd c s' (world_index w)\<rparr>)"

definition place_in_cell :: "entity_id \<Rightarrow> cell \<Rightarrow> world \<Rightarrow> world \<times> bool" where
  "place_in_cell i c w =
     (let old = fmlookup (world_cell_of w) i in
      if old = Some c then (w, False)
      else
        let w1 = (case old of Some c0 \<Rightarrow> index_remove i c0 w | None \<Rightarrow> w);
            w2 = w1\<lparr>world_index := fmupd c (finsert i (fmget_or (world_index w1) c {||})) (world_index w1)\<rparr>
        in (w2\<lparr>world_cell_of := fmupd i c (world_cell_of w2)\<rparr>, True))"

definition world_place :: "entity_id \<Rightarrow> f32 \<Rightarrow> f32 \<Rightarrow> world \<Rightarrow> world \<times> bool" where
  "world_place i x z w = place_in_cell i (grid_cell_of (world_grid w) x z) w"

definition world_remove :: "entity_id \<Rightarrow> world \<Rightarrow> world" where
  "world_remove i w =
     (case fmlookup (world_cell_of w) i of
        None \<Rightarrow> w
      | Some c \<Rightarrow> index_remove i c (w\<lparr>world_cell_of := fmdrop i (world_cell_of w)\<rparr>))"

definition entities_in :: "(entity_id fset \<Rightarrow> entity_id list) \<Rightarrow> cell \<Rightarrow> world \<Rightarrow> entity_id list" where
  "entities_in iter c w = (case fmlookup (world_index w) c of None \<Rightarrow> [] | Some s \<Rightarrow> iter s)"

definition entities_in_radius ::
  "(entity_id fset \<Rightarrow> entity_id list) \<Rightarrow> cell \<Rightarrow> int \<Rightarrow> world \<Rightarrow> entity_id list" where
  "entities_in_radius iter center radius w =
     concat (map (\<lambda>c. case fmlookup (world_index w) c of Some s \<Rightarrow> iter s | None \<Rightarrow> [])
       (cells_in_radius center radius))"

section \<open>Cells: ranges and geometry\<close>

definition enumerates :: "('a fset \<Rightarrow> 'a list) \<Rightarrow> bool" where
  "enumerates iter \<longleftrightarrow> (\<forall>s. set (iter s) = fset s \<and> distinct (iter s))"

lemma enumerates_sorted [simp]: "enumerates sorted_list_of_fset"
  by (simp add: enumerates_def)

lemma wrap_i32_near:
  assumes "\<bar>a\<bar> \<le> 2 ^ 30" "\<bar>d\<bar> \<le> 2 ^ 29"
  shows "wrap_i32 (a + d) = a + d"
  using assms by (intro wrap_i32_id) (auto simp: in_i32_def machine_int abs_le_iff)

text \<open>A cell far enough from the edge of \<open>i32\<close> that no block around it wraps.\<close>

definition central :: "cell \<Rightarrow> bool" where
  "central c \<longleftrightarrow> \<bar>cx c\<bar> \<le> 2 ^ 30 \<and> \<bar>cz c\<bar> \<le> 2 ^ 30"

definition block_dist :: "cell \<Rightarrow> cell \<Rightarrow> int" where
  "block_dist a b = max \<bar>cx a - cx b\<bar> \<bar>cz a - cz b\<bar>"

lemma set_cells_in_radius:
  "set (cells_in_radius c r) =
    (\<lambda>(dx, dz). Cell (wrap_i32 (cx c + dx)) (wrap_i32 (cz c + dz))) ` ({- r..r} \<times> {- r..r})"
  by (auto simp: cells_in_radius_def)

lemma cells_in_radius_iff:
  assumes c: "central c" and r: "0 \<le> r" "r \<le> 2 ^ 29"
  shows "x \<in> set (cells_in_radius c r) \<longleftrightarrow> block_dist x c \<le> r"
proof
  assume "x \<in> set (cells_in_radius c r)"
  then obtain dx dz where d: "\<bar>dx\<bar> \<le> r" "\<bar>dz\<bar> \<le> r" "x = Cell (wrap_i32 (cx c + dx)) (wrap_i32 (cz c + dz))"
    by (fastforce simp: cells_in_radius_def abs_le_iff)
  then have "x = Cell (cx c + dx) (cz c + dz)"
    using c r wrap_i32_near [of "cx c" dx] wrap_i32_near [of "cz c" dz] by (simp add: central_def)
  with d show "block_dist x c \<le> r" by (simp add: block_dist_def)
next
  assume "block_dist x c \<le> r"
  then have d: "\<bar>cx x - cx c\<bar> \<le> r" "\<bar>cz x - cz c\<bar> \<le> r" by (simp_all add: block_dist_def)
  then have "wrap_i32 (cx c + (cx x - cx c)) = cx c + (cx x - cx c)" "wrap_i32 (cz c + (cz x - cz c)) = cz c + (cz x - cz c)"
    using c r by (intro wrap_i32_near; simp add: central_def)+
  then have "x = Cell (wrap_i32 (cx c + (cx x - cx c))) (wrap_i32 (cz c + (cz x - cz c)))" by (cases x) simp
  moreover have "(cx x - cx c, cz x - cz c) \<in> {- r..r} \<times> {- r..r}" using d by auto
  ultimately show "x \<in> set (cells_in_radius c r)"
    unfolding set_cells_in_radius by (intro image_eqI [where x = "(cx x - cx c, cz x - cz c)"]) auto
qed

lemma length_cells_in_radius: "0 \<le> r \<Longrightarrow> length (cells_in_radius c r) = nat (2 * r + 1) * nat (2 * r + 1)"
  by (simp add: cells_in_radius_def length_concat comp_def sum_list_triv)

lemma card_block:
  assumes "0 \<le> r"
  shows "card {x. block_dist x c \<le> r} = nat (2 * r + 1) * nat (2 * r + 1)"
proof -
  let ?f = "\<lambda>(a, b). Cell (cx c + a) (cz c + b)"
  have "{x. block_dist x c \<le> r} = ?f ` ({- r..r} \<times> {- r..r})"
  proof (intro equalityI subsetI)
    fix x assume "x \<in> {x. block_dist x c \<le> r}"
    then have "x = ?f (cx x - cx c, cz x - cz c)" "(cx x - cx c, cz x - cz c) \<in> {- r..r} \<times> {- r..r}"
      by (auto simp: block_dist_def cell.expand abs_le_iff)
    then show "x \<in> ?f ` ({- r..r} \<times> {- r..r})" by blast
  qed (auto simp: block_dist_def)
  moreover have "inj_on ?f ({- r..r} \<times> {- r..r})" by (auto simp: inj_on_def)
  ultimately show ?thesis by (simp add: card_image card_cartesian_product)
qed

lemma cells_in_radius_distinct:
  assumes "central c" "0 \<le> r" "r \<le> 2 ^ 29"
  shows "distinct (cells_in_radius c r)"
proof -
  have "set (cells_in_radius c r) = {x. block_dist x c \<le> r}" using cells_in_radius_iff [OF assms] by auto
  then have "card (set (cells_in_radius c r)) = length (cells_in_radius c r)"
    using card_block [OF assms(2)] length_cells_in_radius [OF assms(2)] by simp
  then show ?thesis by (rule card_distinct)
qed

section \<open>The index and the cells describe each other\<close>

definition world_inv :: "world \<Rightarrow> bool" where
  "world_inv w \<longleftrightarrow>
     (\<forall>c s. fmlookup (world_index w) c = Some s \<longrightarrow> s \<noteq> {||})
     \<and> (\<forall>i c. fmlookup (world_cell_of w) i = Some c
          \<longleftrightarrow> (\<exists>s. fmlookup (world_index w) c = Some s \<and> i |\<in>| s))"

text \<open>The entities of a cell, read from the index.\<close>

definition members :: "world \<Rightarrow> cell \<Rightarrow> entity_id fset" where
  "members w c = fmget_or (world_index w) c {||}"

definition index_tight :: "world \<Rightarrow> bool" where
  "index_tight w \<longleftrightarrow> (\<forall>c. fmlookup (world_index w) c \<noteq> Some {||})"

lemma world_inv_iff:
  "world_inv w \<longleftrightarrow> index_tight w \<and> (\<forall>i c. fmlookup (world_cell_of w) i = Some c \<longleftrightarrow> i |\<in>| members w c)"
proof -
  have "(\<exists>s. fmlookup (world_index w) c = Some s \<and> i |\<in>| s) \<longleftrightarrow> i |\<in>| members w c" for i c
    by (cases "fmlookup (world_index w) c") (auto simp: members_def fmget_or_def)
  moreover have "(\<forall>c s. fmlookup (world_index w) c = Some s \<longrightarrow> s \<noteq> {||}) \<longleftrightarrow> index_tight w"
    by (auto simp: index_tight_def)
  ultimately show ?thesis by (simp add: world_inv_def)
qed

lemma index_remove_members: "members (index_remove i c w) d = (if d = c then members w c |-| {|i|} else members w d)"
  by (auto simp: members_def index_remove_def fmget_or_def Let_def split: option.splits)

lemma index_remove_tight: "index_tight w \<Longrightarrow> index_tight (index_remove i c w)"
  by (auto simp: index_tight_def index_remove_def Let_def split: option.splits)

lemma index_remove_frame [simp]:
  "world_cell_of (index_remove i c w) = world_cell_of w" "world_grid (index_remove i c w) = world_grid w"
  by (simp_all add: index_remove_def Let_def split: option.split)

lemma place_in_cell_result:
  assumes "world_inv w"
  shows "members (fst (place_in_cell i c w)) d = (if d = c then finsert i (members w d) else members w d |-| {|i|})"
    "index_tight (fst (place_in_cell i c w))"
proof -
  have inv: "\<And>j e. fmlookup (world_cell_of w) j = Some e \<longleftrightarrow> j |\<in>| members w e" and t: "index_tight w"
    using assms by (simp_all add: world_inv_iff)
  define w1 where "w1 = (case fmlookup (world_cell_of w) i of Some c0 \<Rightarrow> index_remove i c0 w | None \<Rightarrow> w)"
  have m1: "members w1 e = members w e |-| {|i|}" for e
  proof -
    have "members w e |-| {|i|} = members w e" if "fmlookup (world_cell_of w) i \<noteq> Some e"
      using that inv [of i e] by auto
    then show ?thesis
      by (cases "fmlookup (world_cell_of w) i") (auto simp: w1_def index_remove_members)
  qed
  have t1: "index_tight w1" using t by (simp add: w1_def index_remove_tight split: option.split)
  show "members (fst (place_in_cell i c w)) d = (if d = c then finsert i (members w d) else members w d |-| {|i|})"
  proof (cases "fmlookup (world_cell_of w) i = Some c")
    case True
    then have "members w d |-| {|i|} = members w d" if "d \<noteq> c"
      using inv [of i d] that by auto
    with True inv [of i c] show ?thesis by (auto simp: place_in_cell_def)
  next
    case False
    then have "fst (place_in_cell i c w) =
      w1\<lparr>world_index := fmupd c (finsert i (members w1 c)) (world_index w1), world_cell_of := fmupd i c (world_cell_of w1)\<rparr>"
      by (simp add: place_in_cell_def Let_def w1_def members_def)
    with m1 [of d] show ?thesis by (auto simp: members_def fmget_or_def)
  qed
  show "index_tight (fst (place_in_cell i c w))"
    using t t1 by (auto simp: place_in_cell_def Let_def index_tight_def simp flip: w1_def)
qed

lemma place_in_cell_cell:
  "fmlookup (world_cell_of (fst (place_in_cell i c w))) j = (if j = i then Some c else fmlookup (world_cell_of w) j)"
  by (simp add: place_in_cell_def Let_def split: option.split)

lemma place_in_cell_inv: "world_inv w \<Longrightarrow> world_inv (fst (place_in_cell i c w))"
  using place_in_cell_result [of w i c] by (simp add: world_inv_iff place_in_cell_cell)

lemma world_remove_inv: "world_inv w \<Longrightarrow> world_inv (world_remove i w)"
proof -
  assume inv: "world_inv w"
  show "world_inv (world_remove i w)"
  proof (cases "fmlookup (world_cell_of w) i")
    case None
    with inv show ?thesis by (simp add: world_remove_def)
  next
    case (Some c)
    let ?w = "w\<lparr>world_cell_of := fmdrop i (world_cell_of w)\<rparr>"
    have m: "members ?w d = members w d" for d by (simp add: members_def)
    have t: "index_tight (index_remove i c ?w)"
      using inv by (intro index_remove_tight) (simp add: world_inv_iff index_tight_def)
    have eq: "world_remove i w = index_remove i c ?w" using Some by (simp add: world_remove_def)
    have iff: "fmlookup (world_cell_of w) j = Some d \<longleftrightarrow> j |\<in>| members w d" for j d
      using inv by (simp add: world_inv_iff)
    have "fmlookup (world_cell_of (index_remove i c ?w)) j = Some d \<longleftrightarrow> j |\<in>| members (index_remove i c ?w) d" for j d
      using Some iff [of j d] iff [of i d] by (auto simp: index_remove_members m)
    with t eq show ?thesis by (simp add: world_inv_iff)
  qed
qed

lemma world_remove_cell: "fmlookup (world_cell_of (world_remove i w)) j = (if j = i then None else fmlookup (world_cell_of w) j)"
  by (simp add: world_remove_def split: option.split)

lemma place_in_cell_grid [simp]: "world_grid (fst (place_in_cell i c w)) = world_grid w"
  by (simp add: place_in_cell_def Let_def split: option.split)

lemma world_new_inv: "world_inv (world_new g)"
  by (simp add: world_inv_def world_new_def)

section \<open>Properties\<close>

text \<open>C31: the entity query around a centre returns exactly the entities whose cell is within the
  radius, each once, whatever order the sets are iterated in.\<close>

theorem entities_in_radius_exact:
  assumes "enumerates iter" "world_inv w" "central c" "0 \<le> r" "r \<le> 2 ^ 29"
  shows "distinct (entities_in_radius iter c r w)
    \<and> set (entities_in_radius iter c r w) = {i. \<exists>d. cell_of_entity i w = Some d \<and> block_dist d c \<le> r}"
proof -
  let ?row = "\<lambda>d. case fmlookup (world_index w) d of Some s \<Rightarrow> iter s | None \<Rightarrow> []"
  have row: "set (?row d) = fset (members w d)" "distinct (?row d)" for d
    using assms(1) by (auto simp: members_def fmget_or_def enumerates_def split: option.split)
  have iff: "i |\<in>| members w d \<longleftrightarrow> cell_of_entity i w = Some d" for i d
    using assms(2) by (simp add: world_inv_iff cell_of_entity_def)
  have "set (?row d) \<inter> set (?row e) = {}" if "d \<noteq> e" for d e
    using that by (auto simp: row iff)
  then have "distinct (entities_in_radius iter c r w)"
    unfolding entities_in_radius_def
    using cells_in_radius_distinct [OF assms(3-5)] row(2) by (intro distinct_concat_map)
  moreover have "set (entities_in_radius iter c r w) = (\<Union>d \<in> set (cells_in_radius c r). fset (members w d))"
    unfolding entities_in_radius_def set_concat set_map image_image using row(1) by simp
  ultimately show ?thesis
    using cells_in_radius_iff [OF assms(3-5)] by (auto simp: iff)
qed

definition demo_world :: world where
  "demo_world = fst (place_in_cell 9 (Cell 5 0) (fst (place_in_cell 7 (Cell 1 (- 1)) (world_new \<lparr>cell_size_m = DEFAULT_CELL_SIZE_M\<rparr>))))"

lemma demo_world_inv: "world_inv demo_world"
  unfolding demo_world_def by (intro place_in_cell_inv world_new_inv)

theorem entities_in_radius_exact_witness:
  "distinct (entities_in_radius sorted_list_of_fset (Cell 0 0) 2 demo_world)
    \<and> set (entities_in_radius sorted_list_of_fset (Cell 0 0) 2 demo_world)
      = {i. \<exists>d. cell_of_entity i demo_world = Some d \<and> block_dist d (Cell 0 0) \<le> 2}"
  by (rule entities_in_radius_exact [OF enumerates_sorted demo_world_inv]) (simp_all add: central_def)

text \<open>Recentring a subscription leaves it on exactly the block around the new centre and reports
  as added and removed exactly the cells that entered and left it; a recentring on the current
  centre reports nothing.\<close>

theorem recenter_exact:
  assumes "enumerates iter" "central c" "0 \<le> sub_radius s" "sub_radius s \<le> 2 ^ 29"
    and "\<forall>d. sub_center s = Some d \<longrightarrow> fset (sub_cells s) = {x. block_dist x d \<le> sub_radius s}"
  shows "case recenter iter c s of (s', u) \<Rightarrow>
    fset (sub_cells s') = {x. block_dist x c \<le> sub_radius s} \<and> sub_center s' = Some c \<and> sub_radius s' = sub_radius s
    \<and> set (aoi_added u) = fset (sub_cells s') - fset (sub_cells s) \<and> set (aoi_removed u) = fset (sub_cells s) - fset (sub_cells s')
    \<and> distinct (aoi_added u) \<and> distinct (aoi_removed u) \<and> (sub_center s = Some c \<longrightarrow> aoi_is_empty u)"
proof -
  have "set (cells_in_radius c (sub_radius s)) = {x. block_dist x c \<le> sub_radius s}"
    using cells_in_radius_iff [OF assms(2-4)] by auto
  with assms(1,5) show ?thesis
    by (auto simp: recenter_def Let_def enumerates_def aoi_is_empty_def fset_of_list.rep_eq)
qed

theorem recenter_exact_witness:
  "case recenter sorted_list_of_fset (Cell 3 4) \<lparr>sub_radius = 2, sub_center = None, sub_cells = {||}\<rparr> of (s', u) \<Rightarrow>
    fset (sub_cells s') = {x. block_dist x (Cell 3 4) \<le> 2} \<and> sub_center s' = Some (Cell 3 4)
    \<and> set (aoi_added u) = fset (sub_cells s')"
  using recenter_exact [of sorted_list_of_fset "Cell 3 4" "\<lparr>sub_radius = 2, sub_center = None, sub_cells = {||}\<rparr>"]
  by (simp add: central_def split: prod.splits)

end
