(* ===== verification/Validate.thy ===== *)
theory Validate
  imports World
begin

text \<open>
  The inbound value guards, \<open>server/crates/sw-server/src/validate.rs\<close>: non-finite motion is
  refused and everything else clamped. What the guards are for is proved here: a sanitized
  position lands in a cell from which no area-of-interest block can leave \<open>i32\<close>.
\<close>

type_synonym vec3 = "f32 \<times> f32 \<times> f32"
type_synonym quat = "f32 \<times> f32 \<times> f32 \<times> f32"

text \<open>\<open>1.0e7_f32\<close>, \<open>1.0e4_f32\<close> and \<open>1.0_f32\<close>.\<close>

definition MAX_WORLD_COORD_M :: f32 where "MAX_WORLD_COORD_M = 0x4B189680"
definition MAX_VELOCITY_MPS :: f32 where "MAX_VELOCITY_MPS = 0x461C4000"
definition F32_ONE :: f32 where "F32_ONE = 0x3F800000"

record motion =
  m_pos :: vec3
  m_rot :: quat
  m_vel :: vec3

definition finite_clamped :: "f32 \<Rightarrow> f32 \<Rightarrow> f32 option" where
  "finite_clamped v limit = (if f32_is_finite v then Some (f32_clamp (f32_neg limit) limit v) else None)"

definition clamp_vec3 :: "f32 \<Rightarrow> vec3 \<Rightarrow> vec3 option" where
  "clamp_vec3 limit v =
     (case v of (x, y, z) \<Rightarrow>
        Option.bind (finite_clamped x limit) (\<lambda>x'.
        Option.bind (finite_clamped y limit) (\<lambda>y'.
        Option.bind (finite_clamped z limit) (\<lambda>z'. Some (x', y', z')))))"

definition clamp_quat :: "f32 \<Rightarrow> quat \<Rightarrow> quat option" where
  "clamp_quat limit q =
     (case q of (x, y, z, w) \<Rightarrow>
        Option.bind (finite_clamped x limit) (\<lambda>x'.
        Option.bind (finite_clamped y limit) (\<lambda>y'.
        Option.bind (finite_clamped z limit) (\<lambda>z'.
        Option.bind (finite_clamped w limit) (\<lambda>w'. Some (x', y', z', w'))))))"

definition sanitize_motion :: "vec3 \<Rightarrow> quat \<Rightarrow> vec3 \<Rightarrow> motion option" where
  "sanitize_motion pos rot vel =
     Option.bind (clamp_vec3 MAX_WORLD_COORD_M pos) (\<lambda>p.
     Option.bind (clamp_quat F32_ONE rot) (\<lambda>r.
     Option.bind (clamp_vec3 MAX_VELOCITY_MPS vel) (\<lambda>v.
       Some \<lparr>m_pos = p, m_rot = r, m_vel = v\<rparr>)))"

definition string_within_limit :: "string \<Rightarrow> nat \<Rightarrow> bool" where
  "string_within_limit s max_len \<longleftrightarrow> length s \<le> max_len"

section \<open>The constants\<close>

lemma f32_limits:
  "f32_val MAX_WORLD_COORD_M = Fin 10000000" "f32_val (f32_neg MAX_WORLD_COORD_M) = Fin (- 10000000)"
  "f32_val MAX_VELOCITY_MPS = Fin 10000" "f32_val (f32_neg MAX_VELOCITY_MPS) = Fin (- 10000)"
  "f32_val F32_ONE = Fin 1" "f32_val (f32_neg F32_ONE) = Fin (- 1)"
  "f32_val DEFAULT_CELL_SIZE_M = Fin 1024"
  by (simp_all add: f32_val_def f32_neg_def MAX_WORLD_COORD_M_def MAX_VELOCITY_MPS_def F32_ONE_def
      DEFAULT_CELL_SIZE_M_def Let_def pow2_def)

text \<open>A component within a magnitude.\<close>

definition in_mag :: "rat \<Rightarrow> f32 \<Rightarrow> bool" where
  "in_mag b v = (case f32_val v of Fin q \<Rightarrow> \<bar>q\<bar> \<le> b | _ \<Rightarrow> False)"

lemma finite_clamped_within:
  assumes "finite_clamped v l = Some r" "f32_val l = Fin b" "f32_val (f32_neg l) = Fin (- b)" "0 \<le> b"
  shows "in_mag b r"
  using assms
  by (auto simp: finite_clamped_def f32_is_finite_def f32_clamp_def f32_lt_def in_mag_def split: if_splits fval.splits)

text \<open>A value already within the limit passes unchanged, bit for bit.\<close>

lemma finite_clamped_id:
  assumes "in_mag b v" "f32_val l = Fin b" "f32_val (f32_neg l) = Fin (- b)"
  shows "finite_clamped v l = Some v"
  using assms
  by (auto simp: finite_clamped_def f32_is_finite_def f32_clamp_def f32_lt_def in_mag_def abs_le_iff split: fval.splits)

definition in_mag3 :: "rat \<Rightarrow> vec3 \<Rightarrow> bool" where
  "in_mag3 b v = (case v of (x, y, z) \<Rightarrow> in_mag b x \<and> in_mag b y \<and> in_mag b z)"

definition in_mag4 :: "rat \<Rightarrow> quat \<Rightarrow> bool" where
  "in_mag4 b q = (case q of (x, y, z, w) \<Rightarrow> in_mag b x \<and> in_mag b y \<and> in_mag b z \<and> in_mag b w)"

lemma clamp_vec3_within:
  assumes "clamp_vec3 l v = Some r" "f32_val l = Fin b" "f32_val (f32_neg l) = Fin (- b)" "0 \<le> b"
  shows "in_mag3 b r"
  using assms finite_clamped_within [OF _ assms(2-4)]
  by (auto simp: clamp_vec3_def in_mag3_def split: prod.splits Option.bind_splits)

lemma clamp_quat_within:
  assumes "clamp_quat l v = Some r" "f32_val l = Fin b" "f32_val (f32_neg l) = Fin (- b)" "0 \<le> b"
  shows "in_mag4 b r"
  using assms finite_clamped_within [OF _ assms(2-4)]
  by (auto simp: clamp_quat_def in_mag4_def split: prod.splits Option.bind_splits)

lemma sanitize_motion_within:
  assumes "sanitize_motion pos rot vel = Some m"
  shows "in_mag3 10000000 (m_pos m)" "in_mag4 1 (m_rot m)" "in_mag3 10000 (m_vel m)"
  using assms
  by (auto simp: sanitize_motion_def f32_limits split: Option.bind_splits
      intro: clamp_vec3_within clamp_quat_within)

text \<open>The nearest value within a limit, the value itself where it is within.\<close>

definition clamped :: "rat \<Rightarrow> f32 \<Rightarrow> f32 \<Rightarrow> bool" where
  "clamped b v r \<longleftrightarrow>
     (case (f32_val v, f32_val r) of
        (Fin p, Fin q) \<Rightarrow> q = max (- b) (min b p) \<and> (\<bar>p\<bar> \<le> b \<longrightarrow> r = v)
      | _ \<Rightarrow> False)"

definition comps3 :: "vec3 \<Rightarrow> f32 list" where
  "comps3 v = (case v of (x, y, z) \<Rightarrow> [x, y, z])"

definition comps4 :: "quat \<Rightarrow> f32 list" where
  "comps4 q = (case q of (x, y, z, w) \<Rightarrow> [x, y, z, w])"

lemma finite_clamped_nearest:
  assumes "finite_clamped v l = Some r" "f32_val l = Fin b" "f32_val (f32_neg l) = Fin (- b)" "0 \<le> b"
  shows "clamped b v r"
  using assms
  by (auto simp: finite_clamped_def f32_is_finite_def f32_clamp_def f32_lt_def clamped_def abs_le_iff split: if_splits fval.splits)

lemma clamp_nearest:
  assumes "f32_val l = Fin b" "f32_val (f32_neg l) = Fin (- b)" "0 \<le> b"
  shows "clamp_vec3 l v = Some u \<Longrightarrow> list_all2 (clamped b) (comps3 v) (comps3 u)"
    "clamp_quat l q = Some p \<Longrightarrow> list_all2 (clamped b) (comps4 q) (comps4 p)"
  using finite_clamped_nearest [OF _ assms]
  by (auto simp: clamp_vec3_def clamp_quat_def comps3_def comps4_def split: prod.splits Option.bind_splits)

lemma sanitize_motion_nearest:
  assumes "sanitize_motion pos rot vel = Some m"
  shows "list_all2 (clamped 10000000) (comps3 pos) (comps3 (m_pos m))" "list_all2 (clamped 1) (comps4 rot) (comps4 (m_rot m))"
    "list_all2 (clamped 10000) (comps3 vel) (comps3 (m_vel m))"
proof -
  from assms have c: "clamp_vec3 MAX_WORLD_COORD_M pos = Some (m_pos m)" "clamp_quat F32_ONE rot = Some (m_rot m)"
    "clamp_vec3 MAX_VELOCITY_MPS vel = Some (m_vel m)"
    by (auto simp: sanitize_motion_def bind_eq_Some_conv)
  show "list_all2 (clamped 10000000) (comps3 pos) (comps3 (m_pos m))" "list_all2 (clamped 1) (comps4 rot) (comps4 (m_rot m))"
    "list_all2 (clamped 10000) (comps3 vel) (comps3 (m_vel m))"
    by (rule clamp_nearest(1) [OF _ _ _ c(1)] clamp_nearest(2) [OF _ _ _ c(2)] clamp_nearest(1) [OF _ _ _ c(3)]; simp add: f32_limits)+
qed

lemma sanitize_motion_refuses:
  "sanitize_motion pos rot vel = None \<longleftrightarrow> \<not> list_all f32_is_finite (comps3 pos @ comps4 rot @ comps3 vel)"
  by (auto simp: sanitize_motion_def clamp_vec3_def clamp_quat_def finite_clamped_def comps3_def comps4_def
      split: prod.splits Option.bind_splits if_splits)

section \<open>Cells of sanitized positions\<close>

lemma f32_result_bounded:
  assumes "\<bar>q\<bar> \<le> 10000000"
  shows "\<exists>r. f32_result q = Fin r \<and> \<bar>r\<bar> \<le> 10000001"
proof -
  have q: "\<bar>q\<bar> < pow2 24" using assms by (simp add: pow2_def)
  have "\<bar>round_f32 q - q\<bar> \<le> pow2 (24 - int 24) / 2"
    unfolding round_f32_def by (rule round_to_error [OF q]) simp
  then have r: "\<bar>round_f32 q\<bar> \<le> 10000001" using assms by (simp add: pow2_def abs_if split: if_splits)
  have p: "pow2 128 > 10000001" by (simp add: pow2_def)
  have "f32_result q = Fin (round_f32 q)" using r p by (auto simp: f32_result_def Let_def abs_le_iff)
  with r show ?thesis by blast
qed

lemma grid_coord_bounded:
  assumes "in_mag 10000000 x" "f32_val (cell_size_m g) = Fin b" "1 \<le> b"
  shows "\<bar>grid_coord g x\<bar> \<le> 10000002"
proof -
  obtain a where a: "f32_val x = Fin a" "\<bar>a\<bar> \<le> 10000000" using assms(1) by (auto simp: in_mag_def split: fval.splits)
  have "\<bar>a / b\<bar> \<le> \<bar>a\<bar>" using assms(3) by (simp add: abs_divide divide_le_eq mult_le_cancel_left1)
  with a obtain r where r: "f32_result (a / b) = Fin r" "\<bar>r\<bar> \<le> 10000001"
    using f32_result_bounded [of "a / b"] by auto
  then have "- 10000001 \<le> r" "r \<le> 10000001" by auto
  then have "- 10000001 \<le> \<lfloor>r\<rfloor>" "\<lfloor>r\<rfloor> \<le> 10000001" by linarith+
  then have "\<bar>\<lfloor>r\<rfloor>\<bar> \<le> 10000002" by (simp only: abs_le_iff) linarith
  then show ?thesis by (simp add: grid_coord_def a(1) assms(2) r(1) machine_int)
qed

lemma sanitized_central:
  assumes "sanitize_motion pos rot vel = Some m" "m_pos m = (x, y, z)"
    and "f32_val (cell_size_m g) = Fin b" "1 \<le> b"
  shows "central (grid_cell_of g x z)"
proof -
  have "in_mag 10000000 x" "in_mag 10000000 z"
    using sanitize_motion_within(1) [OF assms(1)] assms(2) by (simp_all add: in_mag3_def)
  then have "\<bar>grid_coord g x\<bar> \<le> 10000002" "\<bar>grid_coord g z\<bar> \<le> 10000002"
    using grid_coord_bounded assms(3,4) by blast+
  then show ?thesis by (simp add: central_def grid_cell_of_def)
qed

text \<open>A finite \<open>f32\<close> that is not tiny is an integer times a power of two that survives the
  division by \<open>2 ^ 10\<close>.\<close>

lemma f32_val_mantissa:
  assumes "f32_val x = Fin a" "pow2 (- 116) \<le> \<bar>a\<bar>"
  obtains m e where "a = of_int m * pow2 e" "\<bar>m\<bar> < 2 ^ 24" "- 139 \<le> e"
proof -
  define ex where "ex = unat (take_bit 8 (drop_bit 23 x))"
  define fr where "fr = unat (take_bit 23 x)"
  define s :: int where "s = (if bit x 31 then - 1 else 1)"
  have fr: "fr < 2 ^ 23"
    using take_bit_nat_less_exp [of 23 "unat x"] by (simp add: fr_def unsigned_take_bit_eq)
  define k where "k = (if ex = 0 then fr else 2 ^ 23 + fr)"
  define e where "e = (if ex = 0 then - 149 else int ex - 150)"
  have "a = of_int s * of_nat k * pow2 e"
    using assms(1) unfolding f32_val_def Let_def ex_def [symmetric] fr_def [symmetric]
    by (simp add: s_def k_def e_def split: if_splits)
  then have ke: "a = of_int (s * int k) * pow2 e" "k < 2 ^ 24" using fr by (simp_all add: k_def)
  have "\<bar>a\<bar> = of_nat k * pow2 e"
    by (auto simp: ke(1) s_def abs_mult abs_of_pos)
  also have "\<dots> < of_nat (2 ^ 24) * pow2 e"
    using ke(2) by (simp only: mult_less_cancel_right_pos pow2_pos of_nat_less_iff)
  also have "\<dots> = pow2 (24 + e)" by (simp add: pow2_add) (simp add: pow2_def)
  finally have "pow2 (- 116) < pow2 (24 + e)" using assms(2) by simp
  then have "- 116 < 24 + e" by (metis not_less pow2_mono)
  then have e: "- 139 \<le> e" by simp
  show ?thesis
    by (rule that [OF ke(1) _ e]) (use ke(2) in \<open>auto simp: s_def abs_mult\<close>)
qed

lemma f32_div_1024_exact:
  assumes "f32_val x = Fin a" "a = 0 \<or> pow2 (- 116) \<le> \<bar>a\<bar>"
  shows "round_f32 (a / 1024) = a / 1024"
proof (cases "a = 0")
  case True
  then show ?thesis by (simp add: round_f32_def round_to_def)
next
  case False
  with assms(2) have "pow2 (- 116) \<le> \<bar>a\<bar>" by simp
  from f32_val_mantissa [OF assms(1) this] obtain m e where
    m: "a = of_int m * pow2 e" "\<bar>m\<bar> < 2 ^ 24" "- 139 \<le> e" by blast
  have q: "a / 1024 = of_int m * pow2 (e - 10)"
    using pow2_add [of "e - 10" 10] m(1) by (simp add: pow2_def)
  have "\<bar>a / 1024\<bar> = of_int \<bar>m\<bar> * pow2 (e - 10)" by (simp add: q abs_mult abs_of_pos)
  also have "\<dots> < of_int (2 ^ 24) * pow2 (e - 10)"
    using m(2) by (simp only: mult_less_cancel_right_pos pow2_pos of_int_less_iff)
  also have "\<dots> = pow2 (24 + (e - 10))" by (simp only: pow2_add) (simp add: pow2_def)
  finally have "pow2 (ilog2 \<bar>a / 1024\<bar>) < pow2 (24 + (e - 10))"
    using ilog2_bounds(1) [of "\<bar>a / 1024\<bar>"] False by simp
  then have "ilog2 \<bar>a / 1024\<bar> < 24 + (e - 10)" by (metis not_less pow2_mono)
  then show ?thesis unfolding round_f32_def
    by (intro round_to_exact [OF q]) (use m(3) in auto)
qed

section \<open>Properties\<close>

text \<open>C39: a motion with a component that is not a finite number is refused, and only such a one. Of any other every
  component is brought to the nearest value within its limit, one that was within it passing bit for bit; and with any
  configurable cell size the cell of the result is so far from the edge of \<open>i32\<close> that no block of the
  largest configurable radius wraps: it is exactly the square around the cell.\<close>

theorem sanitized_motion_safe:
  assumes "f32_val (cell_size_m g) = Fin b" "1 \<le> b" "0 \<le> r" "r \<le> 16"
  shows "(sanitize_motion pos rot vel = None \<longleftrightarrow> \<not> list_all f32_is_finite (comps3 pos @ comps4 rot @ comps3 vel))
    \<and> (\<forall>m. sanitize_motion pos rot vel = Some m \<longrightarrow>
         list_all2 (clamped 10000000) (comps3 pos) (comps3 (m_pos m)) \<and> list_all2 (clamped 1) (comps4 rot) (comps4 (m_rot m))
         \<and> list_all2 (clamped 10000) (comps3 vel) (comps3 (m_vel m))
         \<and> (let c = grid_cell_of g (fst (m_pos m)) (snd (snd (m_pos m)))
            in set (cells_in_radius c r) = {d. block_dist d c \<le> r}))"
proof (intro conjI allI impI)
  show "sanitize_motion pos rot vel = None \<longleftrightarrow> \<not> list_all f32_is_finite (comps3 pos @ comps4 rot @ comps3 vel)"
    by (rule sanitize_motion_refuses)
  fix m
  assume m: "sanitize_motion pos rot vel = Some m"
  note n = sanitize_motion_nearest [OF m]
  show "list_all2 (clamped 10000000) (comps3 pos) (comps3 (m_pos m))" "list_all2 (clamped 1) (comps4 rot) (comps4 (m_rot m))"
    "list_all2 (clamped 10000) (comps3 vel) (comps3 (m_vel m))" by (fact n)+
  obtain x y z where p: "m_pos m = (x, y, z)" by (cases "m_pos m")
  show "let c = grid_cell_of g (fst (m_pos m)) (snd (snd (m_pos m))) in set (cells_in_radius c r) = {d. block_dist d c \<le> r}"
    using cells_in_radius_iff [OF sanitized_central [OF m p assms(1,2)], of r] assms(3,4) by (auto simp: p Let_def)
qed

theorem sanitized_motion_safe_witness:
  "sanitize_motion (0, 0, 0) (0, 0, 0, 0x7FC00000) (0, 0, 0) = None
    \<and> set (cells_in_radius (grid_cell_of \<lparr>cell_size_m = DEFAULT_CELL_SIZE_M\<rparr> 0 0) 2)
      = {c. block_dist c (grid_cell_of \<lparr>cell_size_m = DEFAULT_CELL_SIZE_M\<rparr> 0 0) \<le> 2}"
proof -
  have z: "f32_val 0 = Fin 0" by (simp add: f32_val_def)
  have c: "finite_clamped 0 MAX_WORLD_COORD_M = Some 0" "finite_clamped 0 MAX_VELOCITY_MPS = Some 0"
    "finite_clamped 0 F32_ONE = Some 0" "finite_clamped F32_ONE F32_ONE = Some F32_ONE"
    by (rule finite_clamped_id; (rule f32_limits)?; simp add: in_mag_def z f32_limits)+
  have "sanitize_motion (0, 0, 0) (0, 0, 0, F32_ONE) (0, 0, 0)
      = Some \<lparr>m_pos = (0, 0, 0), m_rot = (0, 0, 0, F32_ONE), m_vel = (0, 0, 0)\<rparr>"
    by (simp add: sanitize_motion_def clamp_vec3_def clamp_quat_def c)
  moreover have "f32_val 0x7FC00000 = NaN" by (simp add: f32_val_def Let_def)
  ultimately show ?thesis
    using sanitized_motion_safe [of "\<lparr>cell_size_m = DEFAULT_CELL_SIZE_M\<rparr>" 1024 2 "(0, 0, 0)" "(0, 0, 0, 0x7FC00000)" "(0, 0, 0)"]
      sanitized_motion_safe [of "\<lparr>cell_size_m = DEFAULT_CELL_SIZE_M\<rparr>" 1024 2 "(0, 0, 0)" "(0, 0, 0, F32_ONE)" "(0, 0, 0)"]
    by (simp add: f32_limits comps4_def f32_is_finite_def Let_def)
qed

text \<open>On the default grid the cell of a sanitized coordinate is the one that contains it: the
  division by 1024 is exact unless the coordinate is smaller than \<open>2 ^ - 116\<close> metres.\<close>

theorem default_cell_contains:
  assumes "in_mag 10000000 x" "f32_val x = Fin a" "a = 0 \<or> pow2 (- 116) \<le> \<bar>a\<bar>"
  shows "of_int (grid_coord \<lparr>cell_size_m = DEFAULT_CELL_SIZE_M\<rparr> x) * 1024 \<le> a
    \<and> a < (of_int (grid_coord \<lparr>cell_size_m = DEFAULT_CELL_SIZE_M\<rparr> x) + 1) * 1024"
proof -
  have a: "\<bar>a\<bar> \<le> 10000000" using assms(1,2) by (simp add: in_mag_def)
  have p: "pow2 128 > 10000000" by (simp add: pow2_def)
  have "- (10000000 / 1024) \<le> a / 1024" "a / 1024 \<le> 10000000 / 1024" using a by (auto simp: abs_le_iff)
  then have q: "- 10000 \<le> a / 1024" "a / 1024 \<le> 10000" by simp_all
  then have "f32_result (a / 1024) = Fin (a / 1024)"
    using f32_div_1024_exact [OF assms(2,3)] p by (auto simp: f32_result_def Let_def)
  moreover have "- 10000 \<le> \<lfloor>a / 1024\<rfloor>" "\<lfloor>a / 1024\<rfloor> \<le> 10000" using q by linarith+
  ultimately have c: "grid_coord \<lparr>cell_size_m = DEFAULT_CELL_SIZE_M\<rparr> x = \<lfloor>a / 1024\<rfloor>"
    by (simp add: grid_coord_def assms(2) f32_limits machine_int)
  have "of_int \<lfloor>a / 1024\<rfloor> \<le> a / 1024" "a / 1024 < of_int \<lfloor>a / 1024\<rfloor> + 1" by linarith+
  then show ?thesis unfolding c by (simp_all add: le_divide_eq divide_less_eq)
qed

theorem default_cell_contains_witness:
  "of_int (grid_coord \<lparr>cell_size_m = DEFAULT_CELL_SIZE_M\<rparr> MAX_VELOCITY_MPS) * 1024 \<le> (10000 :: rat)
    \<and> 10000 < (of_int (grid_coord \<lparr>cell_size_m = DEFAULT_CELL_SIZE_M\<rparr> MAX_VELOCITY_MPS) + 1) * (1024 :: rat)"
  by (rule default_cell_contains) (simp_all add: in_mag_def f32_limits pow2_def)

end
