(* ===== verification/Econ.thy ===== *)
theory Econ
  imports Prelude
begin

text \<open>
  The gold ledger and the shared port market, \<open>server/crates/sw-econ/src/lib.rs\<close>.
  \<open>Ledger::apply\<close> and \<open>Market::apply\<close> are generic over a store trait: here they take the
  store's three operations as arguments, each threading the store and returning a
  \<open>Result\<close>. The traits are the locales \<open>ledger_store\<close> and \<open>market_store\<close>: what a
  store must do to an abstract view of it. Under them both policies refine a one-step abstract
  specification, from which non-negativity, idempotence and conservation follow. The in-memory
  stores are interpreted here, the SQLite ones in \<open>Econ_Store\<close>.
\<close>

section \<open>Ledger data\<close>

type_synonym player_id = u64

record txn =
  txn_id :: u64
  amount_gold :: int
  txn_kind :: u8
  txn_note :: string

record ledger_ack =
  ack_txn_id :: u64
  ack_accepted :: bool
  ack_new_balance :: int
  ack_reason :: string

record recorded_txn =
  rec_player :: player_id
  rec_new_balance :: int

type_synonym ('s, 'e, 'a) store_op = "'s \<Rightarrow> 's \<times> ('e + 'a)"

section \<open>The ledger policy\<close>

definition ledger_apply ::
  "(player_id \<Rightarrow> ('s, 'e, int) store_op) \<Rightarrow> (u64 \<Rightarrow> ('s, 'e, recorded_txn option) store_op)
   \<Rightarrow> (player_id \<Rightarrow> txn \<Rightarrow> int \<Rightarrow> ('s, 'e, unit) store_op) \<Rightarrow> player_id \<Rightarrow> txn \<Rightarrow> ('s, 'e, ledger_ack) store_op" where
  "ledger_apply balance lookup_txn commit p t s =
     (case lookup_txn (txn_id t) s of
        (s1, Inl e) \<Rightarrow> (s1, Inl e)
      | (s1, Inr (Some recorded)) \<Rightarrow>
          (s1, Inr \<lparr>ack_txn_id = txn_id t, ack_accepted = True, ack_new_balance = rec_new_balance recorded,
                    ack_reason = ''duplicate (idempotent replay)''\<rparr>)
      | (s1, Inr None) \<Rightarrow>
          (case balance p s1 of
             (s2, Inl e) \<Rightarrow> (s2, Inl e)
           | (s2, Inr bal) \<Rightarrow>
               (case checked_add_i64 bal (amount_gold t) of
                  Some new_balance \<Rightarrow>
                    if new_balance \<ge> 0 then
                      (case commit p t new_balance s2 of
                         (s3, Inl e) \<Rightarrow> (s3, Inl e)
                       | (s3, Inr _) \<Rightarrow>
                           (s3, Inr \<lparr>ack_txn_id = txn_id t, ack_accepted = True,
                                     ack_new_balance = new_balance, ack_reason = ''''\<rparr>))
                    else (s2, Inr \<lparr>ack_txn_id = txn_id t, ack_accepted = False, ack_new_balance = bal,
                                   ack_reason = ''insufficient funds''\<rparr>)
                | None \<Rightarrow>
                    (s2, Inr \<lparr>ack_txn_id = txn_id t, ack_accepted = False, ack_new_balance = bal,
                              ack_reason = ''amount out of range''\<rparr>))))"

section \<open>The in-memory ledger store\<close>

record mem_store =
  mem_balances :: "(player_id, int) fmap"
  mem_txns :: "(u64, recorded_txn) fmap"
  mem_log :: "(player_id \<times> txn \<times> int) list"

definition mem_store_new :: mem_store where
  "mem_store_new = \<lparr>mem_balances = fmempty, mem_txns = fmempty, mem_log = []\<rparr>"

definition mem_balance :: "player_id \<Rightarrow> (mem_store, 'e, int) store_op" where
  "mem_balance p s = (s, Inr (fmget_or (mem_balances s) p 0))"

definition mem_lookup_txn :: "u64 \<Rightarrow> (mem_store, 'e, recorded_txn option) store_op" where
  "mem_lookup_txn i s = (s, Inr (fmlookup (mem_txns s) i))"

definition mem_commit :: "player_id \<Rightarrow> txn \<Rightarrow> int \<Rightarrow> (mem_store, 'e, unit) store_op" where
  "mem_commit p t new_balance s =
     (s\<lparr>mem_balances := fmupd p new_balance (mem_balances s),
        mem_txns := fmupd (txn_id t) \<lparr>rec_player = p, rec_new_balance = new_balance\<rparr> (mem_txns s),
        mem_log := mem_log s @ [(p, t, new_balance)]\<rparr>, Inr ())"

section \<open>Market data and policy\<close>

record trade =
  trade_txn_id :: u64
  trade_port_id :: u32
  trade_item_id :: u32
  trade_qty :: int
  trade_unit_price :: int

record market_ack =
  mack_txn_id :: u64
  mack_accepted :: bool
  mack_port_id :: u32
  mack_item_id :: u32
  mack_stock :: int
  mack_price :: int
  mack_reason :: string

record recorded_trade =
  rtr_port_id :: u32
  rtr_item_id :: u32
  rtr_stock :: int
  rtr_price :: int

definition market_reject :: "trade \<Rightarrow> int \<Rightarrow> int \<Rightarrow> string \<Rightarrow> market_ack" where
  "market_reject t stock price reason =
     \<lparr>mack_txn_id = trade_txn_id t, mack_accepted = False, mack_port_id = trade_port_id t,
      mack_item_id = trade_item_id t, mack_stock = stock, mack_price = price, mack_reason = reason\<rparr>"

definition market_apply ::
  "(u32 \<Rightarrow> u32 \<Rightarrow> ('s, 'e, int \<times> int) store_op) \<Rightarrow> (u64 \<Rightarrow> ('s, 'e, recorded_trade option) store_op)
   \<Rightarrow> (trade \<Rightarrow> int \<Rightarrow> int \<Rightarrow> ('s, 'e, unit) store_op) \<Rightarrow> trade \<Rightarrow> ('s, 'e, market_ack) store_op" where
  "market_apply state lookup_trade commit t s =
     (case lookup_trade (trade_txn_id t) s of
        (s1, Inl e) \<Rightarrow> (s1, Inl e)
      | (s1, Inr (Some r)) \<Rightarrow>
          (s1, Inr \<lparr>mack_txn_id = trade_txn_id t, mack_accepted = True, mack_port_id = rtr_port_id r,
                    mack_item_id = rtr_item_id r, mack_stock = rtr_stock r, mack_price = rtr_price r,
                    mack_reason = ''duplicate (idempotent replay)''\<rparr>)
      | (s1, Inr None) \<Rightarrow>
          (case state (trade_port_id t) (trade_item_id t) s1 of
             (s2, Inl e) \<Rightarrow> (s2, Inl e)
           | (s2, Inr (stock, price)) \<Rightarrow>
               if trade_unit_price t < 0 then (s2, Inr (market_reject t stock price ''invalid price''))
               else
                 (case checked_add_i64 stock (trade_qty t) of
                    Some new_stock \<Rightarrow>
                      if new_stock \<ge> 0 then
                        (case commit t new_stock (trade_unit_price t) s2 of
                           (s3, Inl e) \<Rightarrow> (s3, Inl e)
                         | (s3, Inr _) \<Rightarrow>
                             (s3, Inr \<lparr>mack_txn_id = trade_txn_id t, mack_accepted = True,
                                       mack_port_id = trade_port_id t, mack_item_id = trade_item_id t,
                                       mack_stock = new_stock, mack_price = trade_unit_price t,
                                       mack_reason = ''''\<rparr>))
                      else (s2, Inr (market_reject t stock price ''insufficient stock''))
                  | None \<Rightarrow> (s2, Inr (market_reject t stock price ''quantity out of range'')))))"

section \<open>The in-memory market store\<close>

record mem_market_store =
  mm_state :: "(u32 \<times> u32, int \<times> int) fmap"
  mm_trades :: "(u64, recorded_trade) fmap"
  mm_log :: "(trade \<times> int \<times> int) list"

definition mem_market_new :: mem_market_store where
  "mem_market_new = \<lparr>mm_state = fmempty, mm_trades = fmempty, mm_log = []\<rparr>"

definition mem_market_state :: "u32 \<Rightarrow> u32 \<Rightarrow> (mem_market_store, 'e, int \<times> int) store_op" where
  "mem_market_state port item s = (s, Inr (fmget_or (mm_state s) (port, item) (0, 0)))"

definition mem_lookup_trade :: "u64 \<Rightarrow> (mem_market_store, 'e, recorded_trade option) store_op" where
  "mem_lookup_trade i s = (s, Inr (fmlookup (mm_trades s) i))"

definition mem_market_commit :: "trade \<Rightarrow> int \<Rightarrow> int \<Rightarrow> (mem_market_store, 'e, unit) store_op" where
  "mem_market_commit t new_stock new_price s =
     (s\<lparr>mm_state := fmupd (trade_port_id t, trade_item_id t) (new_stock, new_price) (mm_state s),
        mm_trades := fmupd (trade_txn_id t)
          \<lparr>rtr_port_id = trade_port_id t, rtr_item_id = trade_item_id t, rtr_stock = new_stock, rtr_price = new_price\<rparr>
          (mm_trades s),
        mm_log := mm_log s @ [(t, new_stock, new_price)]\<rparr>, Inr ())"

section \<open>What a ledger is: the abstract specification\<close>

text \<open>The view of a store: the players it knows, their balances, the transactions it has seen.\<close>

record ledger_view =
  v_known :: "player_id set"
  v_bal :: "player_id \<Rightarrow> int"
  v_seen :: "u64 set"

datatype ledger_outcome = Applied | Replayed | Insufficient | OutOfRange

definition ledger_spec :: "player_id \<Rightarrow> txn \<Rightarrow> ledger_view \<Rightarrow> ledger_view \<times> ledger_outcome" where
  "ledger_spec p t v =
     (let b = v_bal v p + amount_gold t in
      if txn_id t \<in> v_seen v then (v, Replayed)
      else if \<not> in_i64 b then (v, OutOfRange)
      else if b < 0 then (v, Insufficient)
      else (v\<lparr>v_bal := (v_bal v)(p := b), v_seen := insert (txn_id t) (v_seen v)\<rparr>, Applied))"

text \<open>What an acknowledgement says of the outcome.\<close>

definition ack_outcome :: "ledger_ack \<Rightarrow> ledger_outcome" where
  "ack_outcome a =
     (if ack_accepted a then if ack_reason a = '''' then Applied else Replayed
      else if ack_reason a = ''insufficient funds'' then Insufficient else OutOfRange)"

definition ledger_view_ok :: "ledger_view \<Rightarrow> bool" where
  "ledger_view_ok v \<longleftrightarrow> (\<forall>p. 0 \<le> v_bal v p \<and> v_bal v p \<le> i64_max)"

lemma ledger_spec_ok: "ledger_view_ok v \<Longrightarrow> ledger_view_ok (fst (ledger_spec p t v))"
  by (auto simp: ledger_view_ok_def ledger_spec_def Let_def in_i64_def)

text \<open>A run of requests against a store: the store after it and the transactions it applied.\<close>

fun ledger_run ::
  "(player_id \<Rightarrow> txn \<Rightarrow> ('s, 'e, ledger_ack) store_op) \<Rightarrow> (player_id \<times> txn) list \<Rightarrow> 's \<Rightarrow> 's \<times> (player_id \<times> txn) list" where
  "ledger_run app [] s = (s, [])"
| "ledger_run app ((p, t) # rs) s =
     (let (s1, r) = app p t s; (s2, ap) = ledger_run app rs s1
      in (s2, case r of Inl _ \<Rightarrow> ap | Inr a \<Rightarrow> if ack_outcome a = Applied then (p, t) # ap else ap))"

definition gold_of :: "player_id \<Rightarrow> (player_id \<times> txn) list \<Rightarrow> int" where
  "gold_of p ap = sum_list (map (amount_gold \<circ> snd) (filter (\<lambda>x. fst x = p) ap))"

text \<open>What a run that applied \<open>ap\<close> did to the view.\<close>

definition accounted :: "ledger_view \<Rightarrow> (player_id \<times> txn) list \<Rightarrow> ledger_view \<Rightarrow> bool" where
  "accounted v ap v' \<longleftrightarrow>
     (\<forall>p. v_bal v' p = v_bal v p + gold_of p ap) \<and> distinct (map (txn_id \<circ> snd) ap)
     \<and> v_seen v' = v_seen v \<union> (txn_id \<circ> snd) ` set ap \<and> v_seen v \<inter> (txn_id \<circ> snd) ` set ap = {}"

lemma accounted_Nil [simp]: "accounted v [] v"
  by (simp add: accounted_def gold_of_def)

lemma accounted_skip: "ledger_spec p t v = (v1, r) \<Longrightarrow> r \<noteq> Applied \<Longrightarrow> v1 = v"
  by (auto simp: ledger_spec_def Let_def split: if_splits)

lemma accounted_Cons:
  assumes "ledger_spec p t v = (v1, Applied)" "accounted v1 ap v'"
  shows "accounted v ((p, t) # ap) v'"
proof -
  have "v1 = v\<lparr>v_bal := (v_bal v)(p := v_bal v p + amount_gold t), v_seen := insert (txn_id t) (v_seen v)\<rparr>"
    "txn_id t \<notin> v_seen v"
    using assms(1) by (auto simp: ledger_spec_def Let_def split: if_splits)
  with assms(2) show ?thesis by (auto simp: accounted_def gold_of_def comp_def)
qed

section \<open>The ledger store's contract\<close>

text \<open>Reads leave the view alone and report it; a commit changes it as asked or, when it fails, not at
  all. \<open>known\<close> players are the ones whose balance the store can write.\<close>

locale ledger_store =
  fixes inv :: "'s \<Rightarrow> bool"
    and view :: "'s \<Rightarrow> ledger_view"
    and balance :: "player_id \<Rightarrow> ('s, 'e, int) store_op"
    and lookup_txn :: "u64 \<Rightarrow> ('s, 'e, recorded_txn option) store_op"
    and commit :: "player_id \<Rightarrow> txn \<Rightarrow> int \<Rightarrow> ('s, 'e, unit) store_op"
  assumes balance_ok: "inv s \<Longrightarrow> balance p s = (s', r) \<Longrightarrow>
      inv s' \<and> view s' = view s \<and> (\<forall>b. r = Inr b \<longrightarrow> b = v_bal (view s) p)"
    and lookup_ok: "inv s \<Longrightarrow> lookup_txn i s = (s', q) \<Longrightarrow>
      inv s' \<and> view s' = view s \<and> (\<forall>x. q = Inr x \<longrightarrow> (x \<noteq> None \<longleftrightarrow> i \<in> v_seen (view s)))"
    and commit_ok: "inv s \<Longrightarrow> p \<in> v_known (view s) \<Longrightarrow> txn_id t \<notin> v_seen (view s) \<Longrightarrow> 0 \<le> b \<Longrightarrow> b \<le> i64_max \<Longrightarrow>
      commit p t b s = (s', c) \<Longrightarrow>
      inv s' \<and> (case c of Inl _ \<Rightarrow> view s' = view s
        | Inr _ \<Rightarrow> view s' = (view s)\<lparr>v_bal := (v_bal (view s))(p := b), v_seen := insert (txn_id t) (v_seen (view s))\<rparr>)"
begin

text \<open>The policy over any such store refines the specification; a store failure changes nothing.\<close>

lemma apply_refines:
  assumes inv: "inv s" and p: "p \<in> v_known (view s)"
    and eq: "ledger_apply balance lookup_txn commit p t s = (s', r)"
  shows "inv s' \<and> (case r of
      Inl _ \<Rightarrow> view s' = view s
    | Inr a \<Rightarrow> ledger_spec p t (view s) = (view s', ack_outcome a) \<and> ack_txn_id a = txn_id t
        \<and> (ack_outcome a \<noteq> Replayed \<longrightarrow> ack_new_balance a = v_bal (view s') p))"
proof -
  obtain s1 q where lk: "lookup_txn (txn_id t) s = (s1, q)" by (cases "lookup_txn (txn_id t) s")
  note l = lookup_ok [OF inv lk]
  show ?thesis
  proof (cases "\<exists>e. q = Inl e \<or> (\<exists>x. q = Inr (Some x))")
    case True
    with eq lk l show ?thesis
      by (auto simp: ledger_apply_def ledger_spec_def ack_outcome_def Let_def)
  next
    case False
    then have q: "q = Inr None" by (cases q) auto
    then have fresh: "txn_id t \<notin> v_seen (view s)" using l by simp
    obtain s2 b where bl: "balance p s1 = (s2, b)" by (cases "balance p s1")
    note b = balance_ok [OF conjunct1 [OF l] bl]
    show ?thesis
    proof (cases b)
      case (Inl e)
      with eq lk q bl b l show ?thesis by (auto simp: ledger_apply_def)
    next
      case (Inr bal)
      then have bal: "bal = v_bal (view s) p" using b l by simp
      show ?thesis
      proof (cases "in_i64 (bal + amount_gold t) \<and> 0 \<le> bal + amount_gold t")
        case False
        with eq lk q bl b l Inr bal fresh show ?thesis
          by (auto simp: ledger_apply_def ledger_spec_def ack_outcome_def Let_def checked_add_i64_def
              split: if_splits)
      next
        case True
        obtain s3 c where cm: "commit p t (bal + amount_gold t) s2 = (s3, c)" by (cases "commit p t (bal + amount_gold t) s2")
        have "inv s3 \<and> (case c of Inl _ \<Rightarrow> view s3 = view s2
          | Inr _ \<Rightarrow> view s3 = (view s2)\<lparr>v_bal := (v_bal (view s2))(p := bal + amount_gold t),
              v_seen := insert (txn_id t) (v_seen (view s2))\<rparr>)"
          using b l p fresh True by (intro commit_ok [OF _ _ _ _ _ cm]) (auto simp: in_i64_def)
        with True eq lk q bl b l Inr bal fresh cm show ?thesis
          by (cases c) (auto simp: ledger_apply_def ledger_spec_def ack_outcome_def Let_def checked_add_i64_def)
      qed
    qed
  qed
qed

lemma apply_keeps:
  assumes "inv s" "p \<in> v_known (view s)" "ledger_view_ok (view s)"
    "ledger_apply balance lookup_txn commit p t s = (s', r)"
  shows "inv s'" "v_known (view s') = v_known (view s)" "ledger_view_ok (view s')"
proof -
  have k: "v_known (fst (ledger_spec p t v)) = v_known v" for v by (simp add: ledger_spec_def Let_def)
  show "inv s'" "v_known (view s') = v_known (view s)" "ledger_view_ok (view s')"
    using apply_refines [OF assms(1,2,4)] assms(3) ledger_spec_ok [of "view s" p t] k [of "view s"]
    by (auto split: sum.splits)
qed

lemma run_accounted:
  assumes "inv s" "\<forall>x \<in> set rs. fst x \<in> v_known (view s)" "ledger_view_ok (view s)"
    "ledger_run (ledger_apply balance lookup_txn commit) rs s = (s', ap)"
  shows "inv s' \<and> ledger_view_ok (view s') \<and> accounted (view s) ap (view s') \<and> set ap \<subseteq> set rs"
  using assms
proof (induction rs arbitrary: s ap)
  case (Cons x rs)
  obtain p t where x: "x = (p, t)" by (cases x)
  obtain s1 r where s1: "ledger_apply balance lookup_txn commit p t s = (s1, r)"
    by (cases "ledger_apply balance lookup_txn commit p t s")
  obtain s2 ap2 where s2: "ledger_run (ledger_apply balance lookup_txn commit) rs s1 = (s2, ap2)"
    by (cases "ledger_run (ledger_apply balance lookup_txn commit) rs s1")
  have p: "p \<in> v_known (view s)" using Cons.prems x by simp
  note k = apply_keeps [OF Cons.prems(1) p Cons.prems(3) s1]
  note ref = apply_refines [OF Cons.prems(1) p s1]
  have out: "s' = s2" "ap = (case r of Inl _ \<Rightarrow> ap2 | Inr a \<Rightarrow> if ack_outcome a = Applied then (p, t) # ap2 else ap2)"
    using Cons.prems(4) x s1 s2 by simp_all
  have ih: "inv s2 \<and> ledger_view_ok (view s2) \<and> accounted (view s1) ap2 (view s2) \<and> set ap2 \<subseteq> set rs"
    using Cons.IH [of s1 ap2] Cons.prems k s2 out by simp
  show ?case
  proof (cases "\<exists>a. r = Inr a \<and> ack_outcome a = Applied")
    case True
    with ref ih out accounted_Cons [of p t "view s" "view s1" ap2 "view s2"] x show ?thesis by auto
  next
    case False
    then have "view s1 = view s" "ap = ap2"
      using ref out accounted_skip [of p t "view s" "view s1"] by (auto split: sum.splits)
    with ih out x show ?thesis by auto
  qed
qed simp

end

section \<open>The market's specification and contract\<close>

record market_view =
  mv_state :: "u32 \<times> u32 \<Rightarrow> int \<times> int"
  mv_trades :: "u64 \<Rightarrow> recorded_trade option"

text \<open>One trade: the view after it and the acknowledgement it deserves.\<close>

definition market_spec :: "trade \<Rightarrow> market_view \<Rightarrow> market_view \<times> market_ack" where
  "market_spec t v =
     (let key = (trade_port_id t, trade_item_id t); (stock, price) = mv_state v key;
          ack = (\<lambda>ok port item st pr why. \<lparr>mack_txn_id = trade_txn_id t, mack_accepted = ok, mack_port_id = port,
                   mack_item_id = item, mack_stock = st, mack_price = pr, mack_reason = why\<rparr>);
          no = ack False (trade_port_id t) (trade_item_id t) stock price
      in case mv_trades v (trade_txn_id t) of
           Some r \<Rightarrow> (v, ack True (rtr_port_id r) (rtr_item_id r) (rtr_stock r) (rtr_price r)
                          ''duplicate (idempotent replay)'')
         | None \<Rightarrow>
             if trade_unit_price t < 0 then (v, no ''invalid price'')
             else if \<not> in_i64 (stock + trade_qty t) then (v, no ''quantity out of range'')
             else if stock + trade_qty t < 0 then (v, no ''insufficient stock'')
             else (\<lparr>mv_state = (mv_state v)(key := (stock + trade_qty t, trade_unit_price t)),
                    mv_trades = (mv_trades v)(trade_txn_id t \<mapsto>
                      \<lparr>rtr_port_id = trade_port_id t, rtr_item_id = trade_item_id t,
                       rtr_stock = stock + trade_qty t, rtr_price = trade_unit_price t\<rparr>)\<rparr>,
                   ack True (trade_port_id t) (trade_item_id t) (stock + trade_qty t) (trade_unit_price t) ''''))"

definition market_view_ok :: "market_view \<Rightarrow> bool" where
  "market_view_ok v \<longleftrightarrow> (\<forall>k. 0 \<le> fst (mv_state v k) \<and> fst (mv_state v k) \<le> i64_max \<and> 0 \<le> snd (mv_state v k))"

lemma market_spec_ok: "market_view_ok v \<Longrightarrow> market_view_ok (fst (market_spec t v))"
  by (auto simp: market_view_ok_def market_spec_def Let_def in_i64_def split: option.split prod.split)

text \<open>A trade that was accepted is answered the same way ever after, whatever happens in between.\<close>

lemma market_spec_recorded:
  assumes "market_spec t v = (v', a)" "mack_accepted a"
  shows "mv_trades v' (trade_txn_id t) = Some \<lparr>rtr_port_id = mack_port_id a, rtr_item_id = mack_item_id a,
    rtr_stock = mack_stock a, rtr_price = mack_price a\<rparr>"
  using assms by (auto simp: market_spec_def Let_def split: option.splits prod.splits if_splits)

lemma market_spec_keeps_trades:
  assumes "market_spec t v = (v', a)" "mv_trades v i = Some r"
  shows "mv_trades v' i = Some r"
  using assms by (auto simp: market_spec_def Let_def split: option.splits prod.splits if_splits)

locale market_store =
  fixes inv :: "'s \<Rightarrow> bool"
    and view :: "'s \<Rightarrow> market_view"
    and state :: "u32 \<Rightarrow> u32 \<Rightarrow> ('s, 'e, int \<times> int) store_op"
    and lookup_trade :: "u64 \<Rightarrow> ('s, 'e, recorded_trade option) store_op"
    and commit :: "trade \<Rightarrow> int \<Rightarrow> int \<Rightarrow> ('s, 'e, unit) store_op"
  assumes state_ok: "inv s \<Longrightarrow> state p i s = (s', r) \<Longrightarrow>
      inv s' \<and> view s' = view s \<and> (\<forall>b. r = Inr b \<longrightarrow> b = mv_state (view s) (p, i))"
    and lookup_ok: "inv s \<Longrightarrow> lookup_trade n s = (s', q) \<Longrightarrow>
      inv s' \<and> view s' = view s \<and> (\<forall>x. q = Inr x \<longrightarrow> x = mv_trades (view s) n)"
    and commit_ok: "inv s \<Longrightarrow> mv_trades (view s) (trade_txn_id t) = None \<Longrightarrow> commit t st pr s = (s', c) \<Longrightarrow>
      inv s' \<and> (case c of Inl _ \<Rightarrow> view s' = view s
        | Inr _ \<Rightarrow> view s' =
            \<lparr>mv_state = (mv_state (view s))((trade_port_id t, trade_item_id t) := (st, pr)),
             mv_trades = (mv_trades (view s))(trade_txn_id t \<mapsto>
               \<lparr>rtr_port_id = trade_port_id t, rtr_item_id = trade_item_id t, rtr_stock = st, rtr_price = pr\<rparr>)\<rparr>)"
begin

lemma market_refines:
  assumes inv: "inv s" and eq: "market_apply state lookup_trade commit t s = (s', r)"
  shows "inv s' \<and> (case r of Inl _ \<Rightarrow> view s' = view s | Inr a \<Rightarrow> market_spec t (view s) = (view s', a))"
proof -
  obtain s1 q where lk: "lookup_trade (trade_txn_id t) s = (s1, q)" by (cases "lookup_trade (trade_txn_id t) s")
  note l = lookup_ok [OF inv lk]
  show ?thesis
  proof (cases "\<exists>e. q = Inl e \<or> (\<exists>x. q = Inr (Some x))")
    case True
    with eq lk l show ?thesis
      by (auto simp: market_apply_def market_spec_def Let_def split: prod.splits option.splits)
  next
    case False
    then have q: "q = Inr None" by (cases q) auto
    then have fresh: "mv_trades (view s) (trade_txn_id t) = None" using l by simp
    obtain s2 b where bl: "state (trade_port_id t) (trade_item_id t) s1 = (s2, b)"
      by (cases "state (trade_port_id t) (trade_item_id t) s1")
    note b = state_ok [OF conjunct1 [OF l] bl]
    show ?thesis
    proof (cases b)
      case (Inl e)
      with eq lk q bl b l show ?thesis by (auto simp: market_apply_def)
    next
      case (Inr sp)
      obtain stock price where sp: "sp = (stock, price)" by (cases sp)
      have st: "mv_state (view s) (trade_port_id t, trade_item_id t) = (stock, price)"
        using b l Inr sp by simp
      show ?thesis
      proof (cases "trade_unit_price t \<ge> 0 \<and> in_i64 (stock + trade_qty t) \<and> 0 \<le> stock + trade_qty t")
        case False
        with eq lk q bl b l Inr sp st fresh show ?thesis
          by (auto simp: market_apply_def market_spec_def market_reject_def Let_def checked_add_i64_def
              split: if_splits)
      next
        case True
        obtain s3 c where cm: "commit t (stock + trade_qty t) (trade_unit_price t) s2 = (s3, c)"
          by (cases "commit t (stock + trade_qty t) (trade_unit_price t) s2")
        with commit_ok [OF _ _ cm] b l fresh True eq lk q bl Inr sp st show ?thesis
          by (cases c) (auto simp: market_apply_def market_spec_def Let_def checked_add_i64_def)
      qed
    qed
  qed
qed

end

section \<open>The in-memory stores keep the contracts\<close>

definition mem_view :: "mem_store \<Rightarrow> ledger_view" where
  "mem_view s = \<lparr>v_known = UNIV, v_bal = (\<lambda>p. fmget_or (mem_balances s) p 0), v_seen = fset (fmdom (mem_txns s))\<rparr>"

interpretation mem_ledger: ledger_store "\<lambda>_. True" mem_view mem_balance mem_lookup_txn mem_commit
  by unfold_locales
    (auto simp: mem_balance_def mem_lookup_txn_def mem_commit_def mem_view_def fmget_or_def fun_eq_iff
      intro: fmdomI fmdom_notI)

definition mem_market_view :: "mem_market_store \<Rightarrow> market_view" where
  "mem_market_view s = \<lparr>mv_state = (\<lambda>k. fmget_or (mm_state s) k (0, 0)), mv_trades = fmlookup (mm_trades s)\<rparr>"

interpretation mem_market: market_store "\<lambda>_. True" mem_market_view mem_market_state mem_lookup_trade mem_market_commit
  by unfold_locales
    (auto simp: mem_market_state_def mem_lookup_trade_def mem_market_commit_def mem_market_view_def
      fmget_or_def fun_eq_iff)

end
