(* ===== verification/Messages.thy ===== *)
theory Messages
  imports Clock Validate Econ World
begin

text \<open>
  The wire messages, \<open>server/crates/sw-server/src/codec.rs\<close> and
  \<open>server/crates/sw-contracts/src/lib.rs\<close>. The tables of the schema are records and the
  payload union a datatype; the encoders build the same tables, field by field, as the source.
  What turns an envelope into bytes and back is the argument \<open>fb\<close>, a total encoder and a
  verifying decoder of which nothing is assumed except where a theorem says so; \<open>bindings_fb\<close>
  of theory \<open>Wire\<close> is the one made of the generated bindings.
\<close>

section \<open>Client messages\<close>

record client_hello =
  ch_protocol_version :: u16
  ch_display_name :: "string option"
  ch_token :: "string option"
  ch_game_build :: "string option"
  ch_mod_version :: "string option"
  ch_api_surface_hash :: "string option"

record client_state =
  cs_pos :: "vec3 option"
  cs_rot :: "quat option"
  cs_vel :: "vec3 option"
  cs_aboard_boat :: u64
  cs_t_ms :: u32

record econ_txn =
  et_txn_id :: u64
  et_amount_gold :: int
  et_kind :: u8
  et_note :: "string option"

record market_trade_request =
  mt_txn_id :: u64
  mt_port_id :: u32
  mt_item_id :: u32
  mt_qty :: int
  mt_unit_price :: int

record moor_request =
  mq_pos :: "vec3 option"
  mq_rot :: "quat option"
  mq_name :: "string option"

record chat_send =
  cd_text :: "string option"
  cd_channel :: u8

section \<open>Server messages\<close>

text \<open>The values the server hands to the encoders.\<close>

record player_snap =
  ps_player_id :: u64
  ps_pos :: vec3
  ps_rot :: quat
  ps_aboard_boat :: u64
  ps_t_ms :: u32

record boat_snap =
  bs_boat_id :: u64
  bs_owner :: u64
  bs_pos :: vec3
  bs_rot :: quat
  bs_vel :: vec3
  bs_t_ms :: u32

record mooring_snap =
  ms_boat_id :: u64
  ms_owner :: u64
  ms_cell :: "int \<times> int"
  ms_pos :: vec3
  ms_rot :: quat
  ms_name :: string
  ms_created_at :: u64

record caps =
  caps_tick_hz :: u8
  caps_snapshot_hz :: u8
  caps_aoi_radius_cells :: u8
  caps_cell_size_m :: f32
  caps_features :: "string list"

text \<open>The tables; an optional field of the schema is an option.\<close>

record player_state =
  pt_player_id :: u64
  pt_pos :: "vec3 option"
  pt_rot :: "quat option"
  pt_aboard_boat :: u64
  pt_t_ms :: u32

record boat_state =
  bt_boat_id :: u64
  bt_owner :: u64
  bt_pos :: "vec3 option"
  bt_rot :: "quat option"
  bt_vel :: "vec3 option"
  bt_t_ms :: u32

record moorage_record =
  mo_boat_id :: u64
  mo_owner :: u64
  mo_cell :: "cell option"
  mo_pos :: "vec3 option"
  mo_rot :: "quat option"
  mo_name :: "string option"
  mo_created_at :: u64

record capability_manifest =
  cm_protocol_version :: u16
  cm_features :: "string list option"
  cm_tick_hz :: u8
  cm_snapshot_hz :: u8
  cm_aoi_radius_cells :: u8
  cm_cell_size_m :: f32

record world_clock_table =
  wc_day :: u32
  wc_time_of_day :: f32
  wc_moon_phase :: f32

record weather_seed_table =
  ws_seed :: u64
  ws_epoch_day :: u32

record server_hello_table =
  sh_accepted :: bool
  sh_reason :: "string option"
  sh_player_id :: u64
  sh_server_name :: "string option"
  sh_balance_gold :: int
  sh_capabilities :: "capability_manifest option"
  sh_clock :: "world_clock_table option"
  sh_weather :: "weather_seed_table option"

record snapshot_delta_table =
  sd_server_tick :: u32
  sd_players :: "player_state list option"
  sd_boats :: "boat_state list option"

record aoi_update_table =
  aud_added :: "cell list option"
  aud_removed :: "cell list option"

record cell_snapshot_table =
  sn_cell :: "cell option"
  sn_players :: "player_state list option"
  sn_boats :: "boat_state list option"
  sn_moorings :: "moorage_record list option"

record moor_ack_table =
  ma_accepted :: bool
  ma_record :: "moorage_record option"
  ma_reason :: "string option"

record ledger_ack_table =
  la_txn_id :: u64
  la_accepted :: bool
  la_new_balance :: int
  la_reason :: "string option"

record market_state_ack_table =
  mk_txn_id :: u64
  mk_accepted :: bool
  mk_port_id :: u32
  mk_item_id :: u32
  mk_stock :: int
  mk_price :: int
  mk_reason :: "string option"

record chat_broadcast_table =
  cb_player_id :: u64
  cb_display_name :: "string option"
  cb_text :: "string option"
  cb_channel :: u8
  cb_t_ms :: u32

datatype payload =
    PClientHello client_hello
  | PServerHello server_hello_table
  | PClientState client_state
  | PSnapshotDelta snapshot_delta_table
  | PAoiUpdate aoi_update_table
  | PCellSnapshot cell_snapshot_table
  | PMoorRequest moor_request
  | PMoorAck moor_ack_table
  | PEconTxn econ_txn
  | PLedgerAck ledger_ack_table
  | PChatSend chat_send
  | PChatBroadcast chat_broadcast_table
  | PWorldClock world_clock_table
  | PMarketTradeRequest market_trade_request
  | PMarketStateAck market_state_ack_table

record envelope =
  env_seq :: u32
  env_payload :: "payload option"

record flatbuffers =
  fb_encode :: "envelope \<Rightarrow> bytes"
  fb_decode :: "bytes \<Rightarrow> envelope option"

section \<open>The envelope\<close>

definition PROTOCOL_VERSION :: u16 where "PROTOCOL_VERSION = 1"

definition decode_envelope :: "flatbuffers \<Rightarrow> bytes \<Rightarrow> envelope option" where
  "decode_envelope fb buf = fb_decode fb buf"

definition finish_envelope :: "flatbuffers \<Rightarrow> u32 \<Rightarrow> payload \<Rightarrow> bytes" where
  "finish_envelope fb sq pl = fb_encode fb \<lparr>env_seq = sq, env_payload = Some pl\<rparr>"

section \<open>The encoders\<close>

definition build_player :: "player_snap \<Rightarrow> player_state" where
  "build_player pl =
     \<lparr>pt_player_id = ps_player_id pl, pt_pos = Some (ps_pos pl), pt_rot = Some (ps_rot pl),
      pt_aboard_boat = ps_aboard_boat pl, pt_t_ms = ps_t_ms pl\<rparr>"

definition build_players :: "player_snap list \<Rightarrow> player_state list" where
  "build_players = map build_player"

definition build_boats :: "boat_snap list \<Rightarrow> boat_state list" where
  "build_boats =
     map (\<lambda>b. \<lparr>bt_boat_id = bs_boat_id b, bt_owner = bs_owner b, bt_pos = Some (bs_pos b), bt_rot = Some (bs_rot b),
               bt_vel = Some (bs_vel b), bt_t_ms = bs_t_ms b\<rparr>)"

definition build_mooring :: "mooring_snap \<Rightarrow> moorage_record" where
  "build_mooring m =
     \<lparr>mo_boat_id = ms_boat_id m, mo_owner = ms_owner m, mo_cell = Some (Cell (fst (ms_cell m)) (snd (ms_cell m))),
      mo_pos = Some (ms_pos m), mo_rot = Some (ms_rot m), mo_name = Some (ms_name m), mo_created_at = ms_created_at m\<rparr>"

definition build_moorings :: "mooring_snap list \<Rightarrow> moorage_record list" where
  "build_moorings = map build_mooring"

text \<open>The clock as its table: the fractions travel as bit patterns.\<close>

definition build_clock :: "world_clock \<Rightarrow> world_clock_table" where
  "build_clock clk =
     \<lparr>wc_day = of_nat (clock_day clk), wc_time_of_day = f32_bits (clock_time_of_day clk),
      wc_moon_phase = f32_bits (clock_moon_phase clk)\<rparr>"

definition server_hello ::
  "flatbuffers \<Rightarrow> u32 \<Rightarrow> bool \<Rightarrow> string \<Rightarrow> u64 \<Rightarrow> string \<Rightarrow> int \<Rightarrow> caps \<Rightarrow> world_clock \<Rightarrow> u64 \<Rightarrow> nat \<Rightarrow> bytes" where
  "server_hello fb sq accepted reason pid server_name balance cap clk weather_seed weather_epoch_day =
     finish_envelope fb sq (PServerHello
       \<lparr>sh_accepted = accepted, sh_reason = Some reason, sh_player_id = pid, sh_server_name = Some server_name,
        sh_balance_gold = balance,
        sh_capabilities = Some
          \<lparr>cm_protocol_version = PROTOCOL_VERSION, cm_features = Some (caps_features cap), cm_tick_hz = caps_tick_hz cap,
           cm_snapshot_hz = caps_snapshot_hz cap, cm_aoi_radius_cells = caps_aoi_radius_cells cap,
           cm_cell_size_m = caps_cell_size_m cap\<rparr>,
        sh_clock = Some (build_clock clk),
        sh_weather = Some \<lparr>ws_seed = weather_seed, ws_epoch_day = of_nat weather_epoch_day\<rparr>\<rparr>)"

definition world_clock_msg :: "flatbuffers \<Rightarrow> u32 \<Rightarrow> world_clock \<Rightarrow> bytes" where
  "world_clock_msg fb sq clk = finish_envelope fb sq (PWorldClock (build_clock clk))"

definition snapshot_delta :: "flatbuffers \<Rightarrow> u32 \<Rightarrow> u32 \<Rightarrow> player_snap list \<Rightarrow> boat_snap list \<Rightarrow> bytes" where
  "snapshot_delta fb sq server_tick ps bs =
     finish_envelope fb sq (PSnapshotDelta
       \<lparr>sd_server_tick = server_tick, sd_players = Some (build_players ps), sd_boats = Some (build_boats bs)\<rparr>)"

definition aoi_update_msg :: "flatbuffers \<Rightarrow> u32 \<Rightarrow> cell list \<Rightarrow> cell list \<Rightarrow> bytes" where
  "aoi_update_msg fb sq added removed = 
     finish_envelope fb sq (PAoiUpdate \<lparr>aud_added = Some added, aud_removed = Some removed\<rparr>)"

definition cell_snapshot ::
  "flatbuffers \<Rightarrow> u32 \<Rightarrow> cell \<Rightarrow> player_snap list \<Rightarrow> boat_snap list \<Rightarrow> mooring_snap list \<Rightarrow> bytes" where
  "cell_snapshot fb sq c ps bs ms =
     finish_envelope fb sq (PCellSnapshot
       \<lparr>sn_cell = Some c, sn_players = Some (build_players ps), sn_boats = Some (build_boats bs),
        sn_moorings = Some (build_moorings ms)\<rparr>)"

definition moor_ack :: "flatbuffers \<Rightarrow> u32 \<Rightarrow> bool \<Rightarrow> mooring_snap option \<Rightarrow> string \<Rightarrow> bytes" where
  "moor_ack fb sq accepted rec reason = 
     finish_envelope fb sq (PMoorAck
       \<lparr>ma_accepted = accepted, ma_record = map_option build_mooring rec, ma_reason = Some reason\<rparr>)"

definition ledger_ack_msg :: "flatbuffers \<Rightarrow> u32 \<Rightarrow> ledger_ack \<Rightarrow> bytes" where
  "ledger_ack_msg fb sq ack = 
     finish_envelope fb sq (PLedgerAck
       \<lparr>la_txn_id = ack_txn_id ack, la_accepted = ack_accepted ack, la_new_balance = ack_new_balance ack,
        la_reason = Some (ack_reason ack)\<rparr>)"

definition market_state_ack :: "flatbuffers \<Rightarrow> u32 \<Rightarrow> market_ack \<Rightarrow> bytes" where
  "market_state_ack fb sq ack = 
     finish_envelope fb sq (PMarketStateAck
       \<lparr>mk_txn_id = mack_txn_id ack, mk_accepted = mack_accepted ack, mk_port_id = mack_port_id ack,
        mk_item_id = mack_item_id ack, mk_stock = mack_stock ack, mk_price = mack_price ack,
        mk_reason = Some (mack_reason ack)\<rparr>)"

definition chat_broadcast :: "flatbuffers \<Rightarrow> u32 \<Rightarrow> u64 \<Rightarrow> string \<Rightarrow> string \<Rightarrow> u8 \<Rightarrow> u32 \<Rightarrow> bytes" where
  "chat_broadcast fb sq pid name txt channel t_ms =
     finish_envelope fb sq (PChatBroadcast
       \<lparr>cb_player_id = pid, cb_display_name = Some name, cb_text = Some txt, cb_channel = channel, cb_t_ms = t_ms\<rparr>)"

end
