(* ===== verification/Protocol.thy ===== *)
theory Protocol
  imports Prelude
begin

text \<open>
  The LiteNetLib wire format, \<open>server/crates/sw-net/src/protocol.rs\<close>: the property byte, the
  ConnectRequest / ConnectAccept handshake packets, the length-prefixed string of the connect
  data, and the Unreliable, Ping, Pong, Disconnect and control packets. A Rust slice index that
  the code guards by a length check is list indexing here. The lemmas are the layouts of the
  built packets and that every reader inverts its builder.
\<close>

section \<open>Constants\<close>

definition PROTOCOL_ID :: int where "PROTOCOL_ID = 13"
definition MAX_CONNECTION_NUMBER :: u8 where "MAX_CONNECTION_NUMBER = 4"
definition MTU :: nat where "MTU = 1024"
definition HEADER_SIZE :: nat where "HEADER_SIZE = 1"
definition CONNECT_REQUEST_HEADER_SIZE :: nat where "CONNECT_REQUEST_HEADER_SIZE = 18"
definition CONNECT_ACCEPT_SIZE :: nat where "CONNECT_ACCEPT_SIZE = 15"
definition PING_SIZE :: nat where "PING_SIZE = HEADER_SIZE + 2"
definition PONG_SIZE :: nat where "PONG_SIZE = HEADER_SIZE + 10"
definition DISCONNECT_SIZE :: nat where "DISCONNECT_SIZE = HEADER_SIZE + 8"

text \<open>The discriminants of \<open>mod property\<close>.\<close>

definition UNRELIABLE :: u8 where "UNRELIABLE = 0"
definition PING :: u8 where "PING = 3"
definition PONG :: u8 where "PONG = 4"
definition CONNECT_REQUEST :: u8 where "CONNECT_REQUEST = 5"
definition CONNECT_ACCEPT :: u8 where "CONNECT_ACCEPT = 6"
definition DISCONNECT :: u8 where "DISCONNECT = 7"
definition SHUTDOWN_OK :: u8 where "SHUTDOWN_OK = 13"
definition INVALID_PROTOCOL :: u8 where "INVALID_PROTOCOL = 15"

lemmas property_defs =
  UNRELIABLE_def PING_def PONG_def CONNECT_REQUEST_def CONNECT_ACCEPT_def DISCONNECT_def
  SHUTDOWN_OK_def INVALID_PROTOCOL_def

lemmas size_defs =
  MTU_def HEADER_SIZE_def CONNECT_REQUEST_HEADER_SIZE_def CONNECT_ACCEPT_SIZE_def PING_SIZE_def
  PONG_SIZE_def DISCONNECT_SIZE_def

definition PROPERTY_MASK :: u8 where "PROPERTY_MASK = 0x1F"
definition CONNECTION_NUMBER_MASK :: u8 where "CONNECTION_NUMBER_MASK = 0x60"
definition CONNECTION_NUMBER_SHIFT :: nat where "CONNECTION_NUMBER_SHIFT = 5"
definition FRAGMENTED_FLAG :: u8 where "FRAGMENTED_FLAG = 0x80"

lemmas mask_defs =
  PROPERTY_MASK_def CONNECTION_NUMBER_MASK_def CONNECTION_NUMBER_SHIFT_def FRAGMENTED_FLAG_def

section \<open>The property byte\<close>

record header =
  hdr_property :: u8
  hdr_connection_number :: u8
  hdr_fragmented :: bool

definition header_from_byte :: "u8 \<Rightarrow> header" where
  "header_from_byte b =
     \<lparr>hdr_property = b AND PROPERTY_MASK,
      hdr_connection_number = drop_bit CONNECTION_NUMBER_SHIFT (b AND CONNECTION_NUMBER_MASK),
      hdr_fragmented = (b AND FRAGMENTED_FLAG \<noteq> 0)\<rparr>"

definition header_to_byte :: "header \<Rightarrow> u8" where
  "header_to_byte h =
     (hdr_property h AND PROPERTY_MASK)
     OR (push_bit CONNECTION_NUMBER_SHIFT (hdr_connection_number h) AND CONNECTION_NUMBER_MASK)
     OR (if hdr_fragmented h then FRAGMENTED_FLAG else 0)"

definition header_plain :: "u8 \<Rightarrow> header" where
  "header_plain p = \<lparr>hdr_property = p, hdr_connection_number = 0, hdr_fragmented = False\<rparr>"

text \<open>The \<open>debug_assert!\<close> on the connection number is the theorems' hypothesis.\<close>

definition header_connected :: "u8 \<Rightarrow> u8 \<Rightarrow> header" where
  "header_connected p n = \<lparr>hdr_property = p, hdr_connection_number = n, hdr_fragmented = False\<rparr>"

section \<open>Connect requests\<close>

record connect_request =
  req_connection_number :: u8
  req_protocol_id :: int
  req_connect_time :: int
  req_peer_id :: int
  req_connect_data :: bytes

definition i32_from_le_bytes :: "bytes \<Rightarrow> int" where
  "i32_from_le_bytes bs = sint (from_le bs :: u32)"

definition i64_from_le_bytes :: "bytes \<Rightarrow> int" where
  "i64_from_le_bytes bs = sint (from_le bs :: u64)"

definition i32_to_le_bytes :: "int \<Rightarrow> bytes" where
  "i32_to_le_bytes x = le_bytes 4 (word_of_int x :: u32)"

definition i64_to_le_bytes :: "int \<Rightarrow> bytes" where
  "i64_to_le_bytes x = le_bytes 8 (word_of_int x :: u64)"

definition u16_to_le_bytes :: "u16 \<Rightarrow> bytes" where
  "u16_to_le_bytes w = le_bytes 2 w"

definition parse_connect_request :: "bytes \<Rightarrow> connect_request option" where
  "parse_connect_request buf =
     (if length buf < CONNECT_REQUEST_HEADER_SIZE then None
      else let h = header_from_byte (buf ! 0) in
        if hdr_property h \<noteq> CONNECT_REQUEST then None
        else if hdr_connection_number h \<ge> MAX_CONNECTION_NUMBER then None
        else
          let protocol_id = i32_from_le_bytes (subslice 1 5 buf);
              connect_time = i64_from_le_bytes (subslice 5 13 buf);
              peer_id = i32_from_le_bytes (subslice 13 17 buf);
              addr_size = unat (buf ! (CONNECT_REQUEST_HEADER_SIZE - 1)) in
          if addr_size \<noteq> 16 \<and> addr_size \<noteq> 28 then None
          else let data_start = CONNECT_REQUEST_HEADER_SIZE + addr_size in
            if length buf < data_start then None
            else Some \<lparr>req_connection_number = hdr_connection_number h,
                       req_protocol_id = protocol_id,
                       req_connect_time = connect_time,
                       req_peer_id = peer_id,
                       req_connect_data = drop data_start buf\<rparr>)"

definition read_litenet_string :: "bytes \<Rightarrow> string option" where
  "read_litenet_string data =
     (if length data < 2 then None
      else let raw = (from_le [data ! 0, data ! 1] :: u16) in
        if raw = 0 then Some []
        else let n = unat (raw - 1) in
          if length data < 2 + n then None
          else string_from_utf8 (subslice 2 (2 + n) data))"

text \<open>\<open>(bytes.len() + 1) as u16\<close> truncates.\<close>

definition write_litenet_string :: "string \<Rightarrow> bytes" where
  "write_litenet_string s =
     (let bs = str_bytes s in
      if bs = [] then u16_to_le_bytes 0
      else u16_to_le_bytes (word_of_nat (length bs + 1)) @ bs)"

section \<open>Packet builders and readers\<close>

definition build_connect_accept :: "int \<Rightarrow> u8 \<Rightarrow> int \<Rightarrow> bool \<Rightarrow> bytes" where
  "build_connect_accept connect_time connection_number local_peer_id reused =
     [header_to_byte (header_plain CONNECT_ACCEPT)] @ i64_to_le_bytes connect_time
     @ [connection_number] @ [if reused then 1 else 0] @ i32_to_le_bytes local_peer_id"

definition build_unreliable :: "u8 \<Rightarrow> bytes \<Rightarrow> bytes" where
  "build_unreliable n data = header_to_byte (header_connected UNRELIABLE n) # data"

definition build_ping :: "u8 \<Rightarrow> u16 \<Rightarrow> bytes" where
  "build_ping n sequence = header_to_byte (header_connected PING n) # u16_to_le_bytes sequence"

definition build_pong :: "u8 \<Rightarrow> u16 \<Rightarrow> int \<Rightarrow> bytes" where
  "build_pong n sequence time_ticks =
     header_to_byte (header_connected PONG n) # u16_to_le_bytes sequence @ i64_to_le_bytes time_ticks"

definition read_sequence :: "bytes \<Rightarrow> u16 option" where
  "read_sequence buf = (if length buf < 3 then None else Some (from_le [buf ! 1, buf ! 2]))"

definition build_disconnect :: "u8 \<Rightarrow> int \<Rightarrow> bytes" where
  "build_disconnect n connect_time =
     header_to_byte (header_connected DISCONNECT n) # i64_to_le_bytes connect_time"

definition read_disconnect_time :: "bytes \<Rightarrow> int option" where
  "read_disconnect_time buf =
     (if length buf < DISCONNECT_SIZE then None else Some (i64_from_le_bytes (subslice 1 9 buf)))"

definition build_control :: "u8 \<Rightarrow> bytes" where
  "build_control p = [header_to_byte (header_plain p)]"

text \<open>The address bytes stay zeroed.\<close>

definition build_connect_request :: "u8 \<Rightarrow> int \<Rightarrow> int \<Rightarrow> u8 \<Rightarrow> bytes \<Rightarrow> bytes" where
  "build_connect_request n connect_time peer_id addr_size connect_data =
     [header_to_byte \<lparr>hdr_property = CONNECT_REQUEST, hdr_connection_number = n, hdr_fragmented = False\<rparr>]
     @ i32_to_le_bytes PROTOCOL_ID @ i64_to_le_bytes connect_time @ i32_to_le_bytes peer_id
     @ [addr_size] @ replicate (unat addr_size) 0 @ connect_data"

section \<open>Lemmas: the property byte\<close>

lemma u8_bit_eq_iff:
  "(\<And>n. n \<in> {0, 1, 2, 3, 4, 5, 6, 7} \<Longrightarrow> bit (w :: u8) n \<longleftrightarrow> P n) \<Longrightarrow> \<not> P n \<or> n < 8 \<Longrightarrow> bit w n \<longleftrightarrow> P n"
proof -
  assume *: "\<And>n. n \<in> {0, 1, 2, 3, 4, 5, 6, 7} \<Longrightarrow> bit w n \<longleftrightarrow> P n" and P: "\<not> P n \<or> n < 8"
  show ?thesis
  proof (cases "n < 8")
    case True
    then have "n \<in> {0, 1, 2, 3, 4, 5, 6, 7}" by auto
    then show ?thesis by (rule *)
  next
    case False
    with P show ?thesis using bit_imp_le_length [of w n] by auto
  qed
qed

lemma bit_0x1F: "bit (0x1F :: u8) n \<longleftrightarrow> n < 5"
  by (rule u8_bit_eq_iff) auto

lemma bit_0x60: "bit (0x60 :: u8) n \<longleftrightarrow> n = 5 \<or> n = 6"
  by (rule u8_bit_eq_iff) auto

lemma bit_0x80: "bit (0x80 :: u8) n \<longleftrightarrow> n = 7"
  by (rule u8_bit_eq_iff) auto

lemma bit_0x03: "bit (3 :: u8) n \<longleftrightarrow> n < 2"
  by (rule u8_bit_eq_iff) auto

lemmas header_bits = bit_0x03 bit_0x1F bit_0x60 bit_0x80

lemma fragmented_bit: "(b :: u8) AND 0x80 \<noteq> 0 \<longleftrightarrow> bit b 7"
proof -
  have "b AND 0x80 = (if bit b 7 then 0x80 else 0)"
    by (rule bit_word_eqI) (auto simp: bit_and_iff header_bits simp del: bit_numeral_word_iff)
  then show ?thesis by simp
qed

lemma header_to_from_byte [simp]: "header_to_byte (header_from_byte b) = b"
proof (rule bit_word_eqI)
  fix n assume "n < LENGTH(8)"
  then have "n \<in> {0, 1, 2, 3, 4, 5, 6, 7}" by auto
  then show "bit (header_to_byte (header_from_byte b)) n \<longleftrightarrow> bit b n"
    by (auto simp: header_to_byte_def header_from_byte_def mask_defs bit_or_iff bit_and_iff
        bit_push_bit_iff bit_drop_bit_eq header_bits fragmented_bit simp del: bit_numeral_word_iff)
qed

lemma u8_less_pow2_iff: "k \<le> 8 \<Longrightarrow> (w :: u8) < 2 ^ k \<Longrightarrow> bit w n \<Longrightarrow> n < k"
  by (metis bit_take_bit_iff less_mask_eq take_bit_eq_mask and.right_idem bit_imp_le_length)

lemma header_from_to_byte:
  assumes "hdr_property h < 32" "hdr_connection_number h < 4"
  shows "header_from_byte (header_to_byte h) = h"
proof -
  have p: "bit (hdr_property h) n \<Longrightarrow> n < 5" for n
    using u8_less_pow2_iff [of 5 "hdr_property h" n] assms by simp
  have c: "bit (hdr_connection_number h) n \<Longrightarrow> n < 2" for n
    using u8_less_pow2_iff [of 2 "hdr_connection_number h" n] assms by simp
  have 1: "header_to_byte h AND 0x1F = hdr_property h"
    by (rule bit_word_eqI)
      (auto simp: header_to_byte_def mask_defs bit_or_iff bit_and_iff bit_push_bit_iff header_bits simp del: bit_numeral_word_iff dest: p)
  have 2: "drop_bit 5 (header_to_byte h AND 0x60) = hdr_connection_number h"
    by (rule bit_word_eqI)
      (auto simp: header_to_byte_def mask_defs bit_or_iff bit_and_iff bit_push_bit_iff bit_drop_bit_eq
        header_bits simp del: bit_numeral_word_iff dest: p c)
  have 3: "bit (header_to_byte h) 7 \<longleftrightarrow> hdr_fragmented h"
    by (auto simp: header_to_byte_def mask_defs bit_or_iff bit_and_iff bit_push_bit_iff header_bits
        simp del: bit_numeral_word_iff dest: p)
  from 1 2 3 show ?thesis
    by (cases h) (simp add: header_from_byte_def mask_defs fragmented_bit)
qed

section \<open>Lemmas: packets\<close>

lemma header_from_plain [simp]: "p < 32 \<Longrightarrow> header_from_byte (header_to_byte (header_plain p)) = header_plain p"
  by (rule header_from_to_byte) (simp_all add: header_plain_def)

lemma header_from_connected [simp]:
  "p < 32 \<Longrightarrow> n < 4 \<Longrightarrow> header_from_byte (header_to_byte (header_connected p n)) = header_connected p n"
  by (rule header_from_to_byte) (simp_all add: header_connected_def)

lemma length_i64_le [simp]: "length (i64_to_le_bytes x) = 8"
  by (simp add: i64_to_le_bytes_def)

lemma length_i32_le [simp]: "length (i32_to_le_bytes x) = 4"
  by (simp add: i32_to_le_bytes_def)

lemma length_u16_le [simp]: "length (u16_to_le_bytes x) = 2"
  by (simp add: u16_to_le_bytes_def)

lemma i64_le_roundtrip [simp]: "in_i64 x \<Longrightarrow> i64_from_le_bytes (i64_to_le_bytes x) = x"
  by (simp add: i64_from_le_bytes_def i64_to_le_bytes_def sint_word_of_int_i64)

lemma i32_le_roundtrip [simp]: "in_i32 x \<Longrightarrow> i32_from_le_bytes (i32_to_le_bytes x) = x"
  by (simp add: i32_from_le_bytes_def i32_to_le_bytes_def sint_word_of_int_i32)

lemma u16_le_roundtrip [simp]: "from_le (u16_to_le_bytes w) = (w :: u16)"
  by (simp add: u16_to_le_bytes_def)

lemma pair_of_u16_le: "[u16_to_le_bytes w ! 0, u16_to_le_bytes w ! Suc 0] = u16_to_le_bytes w"
  by (simp add: u16_to_le_bytes_def numeral_2_eq_2)

lemma i64_from_le_range [simp]: "in_i64 (i64_from_le_bytes bs)"
  by (simp add: i64_from_le_bytes_def sint_u64_range)

lemma read_sequence_ping [simp]: "read_sequence (build_ping n q @ xs) = Some q"
  by (simp add: read_sequence_def build_ping_def nth_append pair_of_u16_le)

lemma read_sequence_pong [simp]: "read_sequence (build_pong n q t) = Some q"
  by (simp add: read_sequence_def build_pong_def nth_append pair_of_u16_le)

lemma read_disconnect_time_build [simp]: "in_i64 t \<Longrightarrow> read_disconnect_time (build_disconnect n t) = Some t"
  by (simp add: read_disconnect_time_def build_disconnect_def size_defs subslice_def)

lemma connect_packet_sizes:
  "length (build_connect_accept t n p r) = CONNECT_ACCEPT_SIZE"
  "length (build_ping n q) = PING_SIZE"
  "length (build_pong n q t) = PONG_SIZE"
  "length (build_disconnect n t) = DISCONNECT_SIZE"
  "length (build_control pr) = HEADER_SIZE"
  by (simp_all add: build_connect_accept_def build_ping_def build_pong_def build_disconnect_def
      build_control_def size_defs)

lemma read_write_litenet_string:
  assumes len: "length s < 65535" and utf8: "utf8_valid (str_bytes s)"
  shows "read_litenet_string (write_litenet_string s @ rest) = Some s"
proof (cases "s = []")
  case True
  have "[u16_to_le_bytes 0 ! 0, u16_to_le_bytes 0 ! Suc 0] = u16_to_le_bytes 0"
    by (rule pair_of_u16_le)
  with True show ?thesis
    by (simp add: read_litenet_string_def write_litenet_string_def Let_def nth_append)
next
  case False
  let ?w = "word_of_nat (length s + 1) :: u16"
  have w: "unat ?w = length s + 1"
    using len by (simp only: unat_of_nat) simp
  then have w0: "?w \<noteq> 0" by (metis Suc_eq_plus1 nat.distinct(1) unsigned_0)
  have n: "unat (?w - 1) = length s"
    using len by (simp add: unat_of_nat)
  have raw: "from_le [u16_to_le_bytes ?w ! 0, u16_to_le_bytes ?w ! Suc 0] = ?w"
    by (simp only: pair_of_u16_le u16_le_roundtrip)
  from False w0 n raw utf8 show ?thesis
    by (simp add: read_litenet_string_def write_litenet_string_def Let_def nth_append
        string_from_utf8_def)
qed

lemma parse_build_connect_request:
  assumes "n < 4" "in_i64 t" "in_i32 p" "addr_size = 16 \<or> addr_size = 28"
  shows "parse_connect_request (build_connect_request n t p addr_size data) =
    Some \<lparr>req_connection_number = n, req_protocol_id = PROTOCOL_ID, req_connect_time = t,
          req_peer_id = p, req_connect_data = data\<rparr>"
proof -
  let ?h = "\<lparr>hdr_property = CONNECT_REQUEST, hdr_connection_number = n, hdr_fragmented = False\<rparr>"
  let ?a = "unat addr_size"
  let ?buf = "build_connect_request n t p addr_size data"
  have h: "header_from_byte (header_to_byte ?h) = ?h"
    using assms(1) by (intro header_from_to_byte) (simp_all add: property_defs)
  have a: "?a = 16 \<or> ?a = 28" using assms(4) by auto
  have len: "length ?buf = 18 + ?a + length data"
    by (simp add: build_connect_request_def)
  have hd: "?buf ! 0 = header_to_byte ?h"
    by (simp add: build_connect_request_def)
  have asz: "?buf ! 17 = addr_size"
    by (simp add: build_connect_request_def nth_append)
  have slices: "subslice 1 5 ?buf = i32_to_le_bytes PROTOCOL_ID"
    "subslice 5 13 ?buf = i64_to_le_bytes t" "subslice 13 17 ?buf = i32_to_le_bytes p"
    by (simp_all add: build_connect_request_def subslice_def)
  have data: "drop (18 + ?a) ?buf = data"
    using a by (auto simp: build_connect_request_def)
  have pid: "in_i32 PROTOCOL_ID" by (simp add: PROTOCOL_ID_def in_i32_def machine_int)
  from a h len hd asz slices data pid assms show ?thesis
    by (auto simp: parse_connect_request_def size_defs Let_def MAX_CONNECTION_NUMBER_def)
qed

text \<open>A packet shorter than its header, or of another property, is never a request.\<close>

lemma parse_connect_request_Some:
  assumes "parse_connect_request buf = Some req"
  shows "18 \<le> length buf" "hdr_property (header_from_byte (buf ! 0)) = CONNECT_REQUEST"
    "req_connection_number req < 4" "in_i64 (req_connect_time req)" "in_i32 (req_peer_id req)"
    "req_connect_data req = drop (18 + unat (buf ! 17)) buf"
  using assms
  by (auto simp: parse_connect_request_def size_defs Let_def MAX_CONNECTION_NUMBER_def
      i32_from_le_bytes_def sint_u32_range split: if_splits)

section \<open>Properties\<close>

text \<open>C34: a client's connect request is read back exactly by the server's parser, together with the
  connect key it carries, for every connection number, connect time, peer id and both address
  sizes.\<close>

theorem connect_request_roundtrip:
  assumes "n < 4" "in_i64 t" "in_i32 p" "addr_size = 16 \<or> addr_size = 28"
    and "length key < 65535" "utf8_valid (str_bytes key)"
  shows "\<exists>req. parse_connect_request (build_connect_request n t p addr_size (write_litenet_string key)) = Some req
    \<and> req_connection_number req = n \<and> req_protocol_id req = PROTOCOL_ID \<and> req_connect_time req = t
    \<and> req_peer_id req = p \<and> read_litenet_string (req_connect_data req) = Some key"
  using parse_build_connect_request [OF assms(1-4)] read_write_litenet_string [OF assms(5,6), of "[]"]
  by simp

theorem connect_request_roundtrip_witness:
  "\<exists>req. parse_connect_request (build_connect_request 2 (- 5) 7 28 (write_litenet_string ''sail'')) = Some req
    \<and> req_connection_number req = 2 \<and> req_protocol_id req = PROTOCOL_ID \<and> req_connect_time req = - 5
    \<and> req_peer_id req = 7 \<and> read_litenet_string (req_connect_data req) = Some ''sail''"
  by (rule connect_request_roundtrip)
    (simp_all add: in_i64_def in_i32_def machine_int str_bytes_def char_byte_def in_rng_def of_char_def)

text \<open>The packet header byte and its decoded form determine each other: decoding loses nothing of
  any byte, and every header with a 5-bit property and a 2-bit connection number survives
  encoding.\<close>

theorem header_byte_bijection:
  "header_to_byte (header_from_byte b) = b
   \<and> (hdr_property hr < 32 \<longrightarrow> hdr_connection_number hr < 4 \<longrightarrow> header_from_byte (header_to_byte hr) = hr)"
  using header_from_to_byte [of hr] by simp

theorem header_byte_bijection_witness:
  "header_to_byte (header_from_byte 0x25) = 0x25
   \<and> header_from_byte (header_to_byte (header_connected PING 3)) = header_connected PING 3"
  using header_byte_bijection [of "0x25" "header_connected PING 3"]
  by (simp add: header_connected_def property_defs)

end
