(* ===== verification/Host.thy ===== *)
theory Host
  imports Protocol
begin

text \<open>
  The poll-driven UDP host, \<open>server/crates/sw-net/src/lib.rs\<close>: the peer table with its slot
  index, free list and per-source-IP counters, the reconnect watermarks, the datagram handlers,
  the bounded poll and the send / disconnect / shutdown operations. Every operation takes the
  host and returns the new one; the socket is a queue of arrivals and a log of attempted sends.
  The theory of the invariants is \<open>Host_Inv\<close>.

  The environment's choices are explicit: what the socket delivers (\<open>rx_queue\<close>, an arrival may
  also be an error seen by \<open>peek_from\<close> or by the following \<open>recv_from\<close>), the wall clock
  read for each Pong (\<open>wall\<close>), the tick's \<open>now\<close>, and whether a send fails. The receive
  buffer holds nothing between calls and is not part of the state.
\<close>

section \<open>Addresses\<close>

datatype ip_addr = V4 u32 | V6 "128 word"

datatype socket_addr = SocketV4 u32 u16 | SocketV6 "128 word" u16 u32 u32

fun addr_ip :: "socket_addr \<Rightarrow> ip_addr" where
  "addr_ip (SocketV4 ip _) = V4 ip"
| "addr_ip (SocketV6 ip _ _ _) = V6 ip"

text \<open>\<open>impl Ord for IpAddr\<close>: every V4 address before every V6 address, then by octets.\<close>

fun ip_key :: "ip_addr \<Rightarrow> nat \<times> nat" where
  "ip_key (V4 w) = (0, unat w)"
| "ip_key (V6 w) = (1, unat w)"

lemma ip_key_inj: "ip_key a = ip_key b \<longleftrightarrow> a = b"
  by (cases a; cases b) (auto simp: word_unat_eq_iff)

instantiation ip_addr :: linorder
begin

definition less_eq_ip_addr :: "ip_addr \<Rightarrow> ip_addr \<Rightarrow> bool" where
  "less_eq_ip_addr a b \<longleftrightarrow> ip_key a \<le> ip_key b"

definition less_ip_addr :: "ip_addr \<Rightarrow> ip_addr \<Rightarrow> bool" where
  "less_ip_addr a b \<longleftrightarrow> ip_key a < ip_key b"

instance
  by standard (auto simp: less_eq_ip_addr_def less_ip_addr_def less_le ip_key_inj)

end

section \<open>Constants\<close>

definition RECV_BUFFER :: nat where "RECV_BUFFER = 65535"
definition MAX_POLL_PACKETS :: nat where "MAX_POLL_PACKETS = 128"
definition MAX_POLL_BYTES :: nat where "MAX_POLL_BYTES = 256 * 1024"
definition MAX_POLL_SOCKET_EVENTS :: nat where "MAX_POLL_SOCKET_EVENTS = MAX_POLL_PACKETS * 2"
definition MAX_POLL_TIMEOUT_EVENTS :: nat where "MAX_POLL_TIMEOUT_EVENTS = 64"
definition MAX_POLL_MAINTENANCE_SCANS :: nat where "MAX_POLL_MAINTENANCE_SCANS = 512"
definition MAX_POLL_KEEPALIVE_SENDS :: nat where "MAX_POLL_KEEPALIVE_SENDS = MAX_POLL_MAINTENANCE_SCANS"
definition MAX_POLL_WATERMARK_CLEANUPS :: nat where
  "MAX_POLL_WATERMARK_CLEANUPS = MAX_POLL_MAINTENANCE_SCANS"
definition MAX_POLL_EVENTS :: nat where "MAX_POLL_EVENTS = MAX_POLL_SOCKET_EVENTS + MAX_POLL_TIMEOUT_EVENTS"
definition DEFAULT_TIMEOUT :: duration where "DEFAULT_TIMEOUT = 5 * 10 ^ 9"
definition PING_INTERVAL :: duration where "PING_INTERVAL = 10 ^ 9"
definition DEFAULT_MAX_PEERS :: nat where "DEFAULT_MAX_PEERS = 1024"
definition DEFAULT_MAX_PEERS_PER_IP :: nat where "DEFAULT_MAX_PEERS_PER_IP = 16"
definition UNIX_EPOCH_TICKS :: int where "UNIX_EPOCH_TICKS = 621355968000000000"

lemmas poll_limits =
  MAX_POLL_PACKETS_def MAX_POLL_BYTES_def MAX_POLL_SOCKET_EVENTS_def MAX_POLL_TIMEOUT_EVENTS_def
  MAX_POLL_MAINTENANCE_SCANS_def MAX_POLL_KEEPALIVE_SENDS_def MAX_POLL_WATERMARK_CLEANUPS_def
  MAX_POLL_EVENTS_def

text \<open>The last representable \<open>Instant\<close>: a signed 64-bit second count and its nanoseconds.\<close>

definition INSTANT_MAX :: instant where "INSTANT_MAX = 2 ^ 63 * 10 ^ 9 - 1"

definition instant_checked_add :: "instant \<Rightarrow> duration \<Rightarrow> instant option" where
  "instant_checked_add t d = (if t + d \<le> INSTANT_MAX then Some (t + d) else None)"

section \<open>Data\<close>

datatype disconnect_reason = Remote | Timeout | Shutdown

datatype event =
    Connected nat
  | Data nat bytes
  | Disconnected nat disconnect_reason

record poll_work =
  w_packets :: nat
  w_bytes :: nat
  w_socket_events :: nat
  w_timeout_events :: nat
  w_maintenance_scans :: nat
  w_keepalive_sends :: nat
  w_watermark_cleanups :: nat

definition poll_work_default :: poll_work where
  "poll_work_default =
     \<lparr>w_packets = 0, w_bytes = 0, w_socket_events = 0, w_timeout_events = 0,
      w_maintenance_scans = 0, w_keepalive_sends = 0, w_watermark_cleanups = 0\<rparr>"

record peer =
  p_id :: nat
  p_slot :: nat
  p_addr :: socket_addr
  p_connect_time :: int
  p_connection_number :: u8
  p_local_peer_id :: int
  p_last_recv :: instant
  p_last_ping_sent :: instant
  p_ping_seq :: u16
  p_ping_sent_at :: "instant option"
  p_rtt :: "duration option"

record reconnect_watermark =
  wm_connect_time :: int
  wm_expires_at :: instant
  wm_generation :: nat

datatype io_error_kind = WouldBlock | ConnectionReset | InvalidInput | OtherError

text \<open>
  One entry of the socket's receive queue: a datagram; an error that \<open>peek_from\<close> reports; or an
  arrival of which \<open>peek_from\<close> reports the size and \<open>recv_from\<close> an error.
\<close>

datatype arrival =
    Datagram bytes socket_addr
  | PeekErr io_error_kind
  | RecvErr nat io_error_kind

record udp_socket =
  rx_queue :: "arrival list"
  tx_log :: "(socket_addr \<times> bytes) list"
  bound_addr :: "io_error_kind + socket_addr"

record host =
  socket :: udp_socket
  peers :: "(socket_addr, peer) fmap"
  peer_slots :: "socket_addr option list"
  free_peer_slots :: "nat list"
  available_free_peer_slots :: nat
  peers_per_ip :: "(ip_addr, nat) fmap"
  reconnect_watermarks :: "(socket_addr, reconnect_watermark) fmap"
  reconnect_watermark_order :: "(socket_addr \<times> nat) list"
  next_reconnect_watermark_generation :: nat
  maintenance_cursor :: nat
  connect_key :: string
  host_timeout :: duration
  max_peers :: nat
  max_peers_per_ip :: nat

section \<open>The socket\<close>

definition peek_from :: "host \<Rightarrow> host \<times> (io_error_kind + nat)" where
  "peek_from h =
     (case rx_queue (socket h) of
        [] \<Rightarrow> (h, Inl WouldBlock)
      | Datagram d _ # _ \<Rightarrow> (h, Inr (min (length d) RECV_BUFFER))
      | PeekErr e # r \<Rightarrow> (h\<lparr>socket := (socket h)\<lparr>rx_queue := r\<rparr>\<rparr>, Inl e)
      | RecvErr n _ # _ \<Rightarrow> (h, Inr (min n RECV_BUFFER)))"

definition recv_from :: "host \<Rightarrow> host \<times> (io_error_kind + bytes \<times> socket_addr)" where
  "recv_from h =
     (case rx_queue (socket h) of
        [] \<Rightarrow> (h, Inl WouldBlock)
      | Datagram d a # r \<Rightarrow> (h\<lparr>socket := (socket h)\<lparr>rx_queue := r\<rparr>\<rparr>, Inr (take RECV_BUFFER d, a))
      | PeekErr e # r \<Rightarrow> (h\<lparr>socket := (socket h)\<lparr>rx_queue := r\<rparr>\<rparr>, Inl e)
      | RecvErr _ e # r \<Rightarrow> (h\<lparr>socket := (socket h)\<lparr>rx_queue := r\<rparr>\<rparr>, Inl e))"

text \<open>\<open>let _ = self.socket.send_to(..)\<close>: the attempt is logged, its result ignored.\<close>

definition send_to :: "bytes \<Rightarrow> socket_addr \<Rightarrow> host \<Rightarrow> host" where
  "send_to b a h = h\<lparr>socket := (socket h)\<lparr>tx_log := tx_log (socket h) @ [(a, b)]\<rparr>\<rparr>"

section \<open>Construction and queries\<close>

definition bind_with_limits :: "udp_socket option \<Rightarrow> string \<Rightarrow> nat \<Rightarrow> nat \<Rightarrow> io_error_kind + host" where
  "bind_with_limits sock key max_p max_ip =
     (if max_p = 0 \<or> max_p > u16_max \<or> max_ip = 0 \<or> max_ip > max_p then Inl InvalidInput
      else case sock of
        None \<Rightarrow> Inl OtherError
      | Some s \<Rightarrow> Inr
          \<lparr>socket = s, peers = fmempty, peer_slots = [], free_peer_slots = [],
           available_free_peer_slots = 0, peers_per_ip = fmempty, reconnect_watermarks = fmempty,
           reconnect_watermark_order = [], next_reconnect_watermark_generation = 0,
           maintenance_cursor = 0, connect_key = key, host_timeout = DEFAULT_TIMEOUT,
           max_peers = max_p, max_peers_per_ip = max_ip\<rparr>)"

definition host_bind :: "udp_socket option \<Rightarrow> string \<Rightarrow> io_error_kind + host" where
  "host_bind sock key = bind_with_limits sock key DEFAULT_MAX_PEERS DEFAULT_MAX_PEERS_PER_IP"

definition local_addr :: "host \<Rightarrow> io_error_kind + socket_addr" where
  "local_addr h = bound_addr (socket h)"

definition peer_addr :: "nat \<Rightarrow> host \<Rightarrow> socket_addr option" where
  "peer_addr peer h =
     (case checked_sub_nat peer 1 of
        None \<Rightarrow> None
      | Some slot \<Rightarrow>
          if slot < length (peer_slots h) then
            (case peer_slots h ! slot of
               None \<Rightarrow> None
             | Some a \<Rightarrow>
                 (case fmlookup (peers h) a of
                    None \<Rightarrow> None
                  | Some connected \<Rightarrow> if p_id connected = peer then Some a else None))
          else None)"

definition peer_count :: "host \<Rightarrow> nat" where
  "peer_count h = fmlen (peers h)"

definition host_rtt :: "nat \<Rightarrow> host \<Rightarrow> duration option" where
  "host_rtt peer h =
     (case peer_addr peer h of
        None \<Rightarrow> None
      | Some a \<Rightarrow> (case fmlookup (peers h) a of None \<Rightarrow> None | Some p \<Rightarrow> p_rtt p))"

section \<open>The peer table\<close>

definition insert_peer :: "peer \<Rightarrow> host \<Rightarrow> host" where
  "insert_peer p h =
     (let ip = addr_ip (p_addr p) in
      h\<lparr>peers_per_ip := fmupd ip (fmget_or (peers_per_ip h) ip 0 + 1) (peers_per_ip h),
        peers := fmupd (p_addr p) p (peers h),
        peer_slots := (peer_slots h)[p_slot p := Some (p_addr p)]\<rparr>)"

definition allocate_peer_slot :: "host \<Rightarrow> host \<times> nat option" where
  "allocate_peer_slot h =
     (if length (peer_slots h) < max_peers h then
        (h\<lparr>peer_slots := peer_slots h @ [None]\<rparr>, Some (length (peer_slots h)))
      else if available_free_peer_slots h > 0 then
        let h1 = h\<lparr>available_free_peer_slots := available_free_peer_slots h - 1\<rparr> in
        (case free_peer_slots h1 of
           [] \<Rightarrow> (h1, None)
         | s # r \<Rightarrow> (h1\<lparr>free_peer_slots := r\<rparr>, Some s))
      else (h, None))"

definition remove_peer_at :: "socket_addr \<Rightarrow> host \<Rightarrow> host \<times> peer option" where
  "remove_peer_at a h =
     (case fmlookup (peers h) a of
        None \<Rightarrow> (h, None)
      | Some p0 \<Rightarrow>
          let slot = p_slot p0; ip = addr_ip a in
          (case fmlookup (peers_per_ip h) ip of
             None \<Rightarrow> (h, None)
           | Some count \<Rightarrow>
               let h1 = (if count > 1 then h\<lparr>peers_per_ip := fmupd ip (count - 1) (peers_per_ip h)\<rparr>
                         else h\<lparr>peers_per_ip := fmdrop ip (peers_per_ip h)\<rparr>)
               in (h1\<lparr>peers := fmdrop a (peers h1),
                      peer_slots := (peer_slots h1)[slot := None],
                      free_peer_slots := free_peer_slots h1 @ [slot]\<rparr>, Some p0)))"

section \<open>Reconnect watermarks\<close>

text \<open>The three stages of \<open>record_reconnect_watermark\<close>: the reset of an exhausted generation
  counter, the eviction of the oldest entry of a full order, and the insertion.\<close>

definition wm_reset :: "host \<Rightarrow> host" where
  "wm_reset h =
     (if next_reconnect_watermark_generation h = u64_max
      then h\<lparr>reconnect_watermarks := fmempty, reconnect_watermark_order := [],
             next_reconnect_watermark_generation := 0\<rparr>
      else h)"

definition wm_evict :: "host \<Rightarrow> host" where
  "wm_evict h =
     (if length (reconnect_watermark_order h) = max_peers h then
        (case reconnect_watermark_order h of
           [] \<Rightarrow> h
         | (oldest_addr, oldest_generation) # rest \<Rightarrow>
             let h' = h\<lparr>reconnect_watermark_order := rest\<rparr> in
             (case fmlookup (reconnect_watermarks h') oldest_addr of
                Some w \<Rightarrow>
                  if wm_generation w = oldest_generation
                  then h'\<lparr>reconnect_watermarks := fmdrop oldest_addr (reconnect_watermarks h')\<rparr>
                  else h'
              | None \<Rightarrow> h'))
      else h)"

definition record_reconnect_watermark :: "socket_addr \<Rightarrow> int \<Rightarrow> instant \<Rightarrow> host \<Rightarrow> host" where
  "record_reconnect_watermark a connect_time now h =
     (let h1 = wm_reset h;
          generation = next_reconnect_watermark_generation h1 + 1;
          h3 = wm_evict (h1\<lparr>next_reconnect_watermark_generation := generation\<rparr>);
          expires_at = (case instant_checked_add now (host_timeout h3) of None \<Rightarrow> now | Some t \<Rightarrow> t);
          w' = (case fmlookup (reconnect_watermarks h3) a of
                  Some w \<Rightarrow> w\<lparr>wm_connect_time := (if connect_time > wm_connect_time w then connect_time
                                                 else wm_connect_time w),
                              wm_expires_at := expires_at, wm_generation := generation\<rparr>
                | None \<Rightarrow> \<lparr>wm_connect_time = connect_time, wm_expires_at = expires_at,
                           wm_generation = generation\<rparr>)
      in h3\<lparr>reconnect_watermarks := fmupd a w' (reconnect_watermarks h3),
            reconnect_watermark_order := reconnect_watermark_order h3 @ [(a, generation)]\<rparr>)"

function expire_reconnect_watermarks :: "instant \<Rightarrow> host \<Rightarrow> poll_work \<Rightarrow> host \<times> poll_work" where
  "expire_reconnect_watermarks now h w =
     (if w_watermark_cleanups w < MAX_POLL_WATERMARK_CLEANUPS then
        (case reconnect_watermark_order h of
           [] \<Rightarrow> (h, w)
         | (a, generation) # rest \<Rightarrow>
             let live = (case fmlookup (reconnect_watermarks h) a of
                           Some wm \<Rightarrow> if wm_generation wm = generation then Some wm else None
                         | None \<Rightarrow> None) in
             (case live of
                Some wm \<Rightarrow>
                  if wm_expires_at wm > now then (h, w)
                  else expire_reconnect_watermarks now
                         (h\<lparr>reconnect_watermarks := fmdrop a (reconnect_watermarks h),
                            reconnect_watermark_order := rest\<rparr>)
                         (w\<lparr>w_watermark_cleanups := w_watermark_cleanups w + 1\<rparr>)
              | None \<Rightarrow>
                  expire_reconnect_watermarks now
                    (h\<lparr>reconnect_watermark_order := rest\<rparr>)
                    (w\<lparr>w_watermark_cleanups := w_watermark_cleanups w + 1\<rparr>)))
      else (h, w))"
  by pat_completeness auto
termination
  by (relation "measure (\<lambda>(now, h, w). MAX_POLL_WATERMARK_CLEANUPS - w_watermark_cleanups w)") auto

declare expire_reconnect_watermarks.simps [simp del]

section \<open>Datagram handlers\<close>

text \<open>The tail of \<open>handle_connect_request\<close> from the slot allocation on.\<close>

definition accept_connect ::
  "connect_request \<Rightarrow> socket_addr \<Rightarrow> instant \<Rightarrow> bool \<Rightarrow> host \<Rightarrow> event list \<Rightarrow> host \<times> event list" where
  "accept_connect req a now replaced_existing h events =
     (case allocate_peer_slot h of
        (h1, None) \<Rightarrow>
          (if replaced_existing then record_reconnect_watermark a (req_connect_time req) now h1 else h1,
           events)
      | (h1, Some slot) \<Rightarrow>
          let peer_id = slot + 1;
              local_peer_id = int slot;
              h2 = send_to (build_connect_accept (req_connect_time req) (req_connection_number req)
                              local_peer_id False) a h1;
              h3 = insert_peer
                     \<lparr>p_id = peer_id, p_slot = slot, p_addr = a,
                      p_connect_time = req_connect_time req,
                      p_connection_number = req_connection_number req,
                      p_local_peer_id = local_peer_id, p_last_recv = now, p_last_ping_sent = now,
                      p_ping_seq = 0, p_ping_sent_at = None, p_rtt = None\<rparr> h2
          in (h3\<lparr>reconnect_watermarks := fmdrop a (reconnect_watermarks h3)\<rparr>,
              events @ [Connected peer_id]))"

definition handle_connect_request ::
  "bytes \<Rightarrow> socket_addr \<Rightarrow> instant \<Rightarrow> host \<Rightarrow> event list \<Rightarrow> host \<times> event list" where
  "handle_connect_request data a now h events =
     (case parse_connect_request data of
        None \<Rightarrow> (h, events)
      | Some req \<Rightarrow>
          if req_protocol_id req \<noteq> PROTOCOL_ID then
            (send_to (build_control INVALID_PROTOCOL) a h, events)
          else if read_litenet_string (req_connect_data req) \<noteq> Some (connect_key h) then (h, events)
          else
            (case fmlookup (peers h) a of
               Some existing \<Rightarrow>
                 if req_connect_time req < p_connect_time existing then (h, events)
                 else if p_connect_time existing = req_connect_time req then
                   (send_to (build_connect_accept (p_connect_time existing)
                       (p_connection_number existing) (p_local_peer_id existing) False) a h, events)
                 else
                   accept_connect req a now True (fst (remove_peer_at a h))
                     (events @ [Disconnected (p_id existing) Remote])
             | None \<Rightarrow>
                 let watermark = fmlookup (reconnect_watermarks h) a in
                 if (case watermark of Some w \<Rightarrow> req_connect_time req < wm_connect_time w | None \<Rightarrow> False)
                 then (h, events)
                 else
                   let h1 = (case watermark of
                               Some w \<Rightarrow>
                                 if req_connect_time req > wm_connect_time w
                                 then h\<lparr>reconnect_watermarks :=
                                          fmupd a (w\<lparr>wm_connect_time := req_connect_time req\<rparr>)
                                            (reconnect_watermarks h)\<rparr>
                                 else h
                             | None \<Rightarrow> h) in
                   if fmlen (peers h1) \<ge> max_peers h1
                      \<or> fmget_or (peers_per_ip h1) (addr_ip a) 0 \<ge> max_peers_per_ip h1
                   then (h1, events)
                   else accept_connect req a now False h1 events))"

text \<open>\<open>dotnet_ticks_now\<close>: \<open>wall\<close> is the duration since the Unix epoch in nanoseconds, \<open>None\<close> for a
  clock before it.\<close>

definition dotnet_ticks_now :: "nat option \<Rightarrow> int" where
  "dotnet_ticks_now wall =
     (case wall of
        Some nanos \<Rightarrow> wrap_i64 (UNIX_EPOCH_TICKS + wrap_i64 (int (nanos div 100)))
      | None \<Rightarrow> UNIX_EPOCH_TICKS)"

definition handle_ping :: "bytes \<Rightarrow> socket_addr \<Rightarrow> instant \<Rightarrow> nat option \<Rightarrow> host \<Rightarrow> host" where
  "handle_ping data a now wall h =
     (case read_sequence data of
        None \<Rightarrow> h
      | Some q \<Rightarrow>
          (case fmlookup (peers h) a of
             None \<Rightarrow> h
           | Some p \<Rightarrow>
               send_to (build_pong (p_connection_number p) q (dotnet_ticks_now wall)) (p_addr p)
                 (h\<lparr>peers := fmupd a (p\<lparr>p_last_recv := now\<rparr>) (peers h)\<rparr>)))"

definition handle_pong :: "bytes \<Rightarrow> socket_addr \<Rightarrow> instant \<Rightarrow> host \<Rightarrow> host" where
  "handle_pong data a now h =
     (case read_sequence data of
        None \<Rightarrow> h
      | Some q \<Rightarrow>
          (case fmlookup (peers h) a of
             None \<Rightarrow> h
           | Some p \<Rightarrow>
               let p1 = p\<lparr>p_last_recv := now\<rparr>;
                   p2 = (if q = p_ping_seq p1 then
                           (case p_ping_sent_at p1 of
                              Some sent \<Rightarrow> p1\<lparr>p_ping_sent_at := None, p_rtt := Some (now - sent)\<rparr>
                            | None \<Rightarrow> p1)
                         else p1)
               in h\<lparr>peers := fmupd a p2 (peers h)\<rparr>))"

definition handle_disconnect ::
  "bytes \<Rightarrow> socket_addr \<Rightarrow> host \<Rightarrow> event list \<Rightarrow> host \<times> event list" where
  "handle_disconnect data a h events =
     (case read_disconnect_time data of
        None \<Rightarrow> (h, events)
      | Some t \<Rightarrow>
          (case fmlookup (peers h) a of
             None \<Rightarrow> (h, events)
           | Some p \<Rightarrow>
               if p_connect_time p \<noteq> t then (h, events)
               else (fst (remove_peer_at a (send_to (build_control SHUTDOWN_OK) a h)),
                     events @ [Disconnected (p_id p) Remote])))"

definition handle_datagram ::
  "bytes \<Rightarrow> socket_addr \<Rightarrow> instant \<Rightarrow> nat option \<Rightarrow> host \<Rightarrow> event list \<Rightarrow> host \<times> event list" where
  "handle_datagram data a now wall h events =
     (if data = [] then (h, events)
      else let hd = header_from_byte (data ! 0) in
        if hdr_fragmented hd then (h, events)
        else if hdr_property hd \<noteq> CONNECT_REQUEST
                \<and> (case fmlookup (peers h) a of
                     None \<Rightarrow> True
                   | Some p \<Rightarrow> hdr_connection_number hd \<noteq> p_connection_number p)
        then (h, events)
        else if hdr_property hd = CONNECT_REQUEST then handle_connect_request data a now h events
        else if hdr_property hd = UNRELIABLE then
          (case fmlookup (peers h) a of
             None \<Rightarrow> (h, events)
           | Some p \<Rightarrow> (h\<lparr>peers := fmupd a (p\<lparr>p_last_recv := now\<rparr>) (peers h)\<rparr>,
                        events @ [Data (p_id p) (drop HEADER_SIZE data)]))
        else if hdr_property hd = PING then (handle_ping data a now wall h, events)
        else if hdr_property hd = PONG then (handle_pong data a now h, events)
        else if hdr_property hd = DISCONNECT then handle_disconnect data a h events
        else (h, events))"

section \<open>The poll\<close>

definition count_packet :: "nat \<Rightarrow> poll_work \<Rightarrow> poll_work" where
  "count_packet n w = w\<lparr>w_packets := w_packets w + 1, w_bytes := w_bytes w + n\<rparr>"

function drain_socket ::
  "instant \<Rightarrow> (nat \<Rightarrow> nat option) \<Rightarrow> host \<Rightarrow> event list \<Rightarrow> poll_work \<Rightarrow> host \<times> event list \<times> poll_work" where
  "drain_socket now wall h events w =
     (if w_packets w < MAX_POLL_PACKETS \<and> w_bytes w < MAX_POLL_BYTES then
        (case peek_from h of
           (h1, Inl e) \<Rightarrow>
             if e = ConnectionReset then drain_socket now wall h1 events (count_packet 0 w)
             else (h1, events, w)
         | (h1, Inr n) \<Rightarrow>
             if n > MAX_POLL_BYTES - w_bytes w then (h1, events, w)
             else
               (case recv_from h1 of
                  (h2, Inr (data, a)) \<Rightarrow>
                    if length data > MTU then
                      drain_socket now wall h2 events (count_packet (length data) w)
                    else
                      let r = handle_datagram data a now (wall (w_packets w)) h2 events in
                      drain_socket now wall (fst r) (snd r) (count_packet (length data) w)
                | (h2, Inl e) \<Rightarrow>
                    if e = ConnectionReset then drain_socket now wall h2 events (count_packet 0 w)
                    else (h2, events, w)))
      else (h, events, w))"
  by pat_completeness auto
termination
  by (relation "measure (\<lambda>(now, wall, h, events, w). MAX_POLL_PACKETS - w_packets w)")
    (auto simp: count_packet_def)

declare drain_socket.simps [simp del]

text \<open>One iteration of the maintenance loop.\<close>

definition maintenance_scan ::
  "instant \<Rightarrow> nat \<Rightarrow> host \<times> event list \<times> poll_work \<Rightarrow> host \<times> event list \<times> poll_work" where
  "maintenance_scan now slot_count st =
     (case st of (h, events, w) \<Rightarrow>
        let slot = (if maintenance_cursor h \<ge> slot_count then 0 else maintenance_cursor h);
            h1 = h\<lparr>maintenance_cursor := slot + 1\<rparr>;
            w1 = w\<lparr>w_maintenance_scans := w_maintenance_scans w + 1\<rparr> in
        (case peer_slots h1 ! slot of
           None \<Rightarrow> (h1, events, w1)
         | Some a \<Rightarrow>
             let expired = (case fmlookup (peers h1) a of
                              None \<Rightarrow> False
                            | Some p \<Rightarrow> now - p_last_recv p > host_timeout h1) in
             if expired then
               if w_timeout_events w1 < MAX_POLL_TIMEOUT_EVENTS then
                 (case remove_peer_at a h1 of
                    (h2, Some p) \<Rightarrow>
                      (h2, events @ [Disconnected (p_id p) Timeout],
                       w1\<lparr>w_timeout_events := w_timeout_events w1 + 1\<rparr>)
                  | (h2, None) \<Rightarrow> (h2, events, w1))
               else (h1, events, w1)
             else if w_keepalive_sends w1 \<ge> MAX_POLL_KEEPALIVE_SENDS then (h1, events, w1)
             else
               (case fmlookup (peers h1) a of
                  None \<Rightarrow> (h1, events, w1)
                | Some p \<Rightarrow>
                    if now - p_last_ping_sent p < PING_INTERVAL then (h1, events, w1)
                    else
                      let p' = p\<lparr>p_ping_seq := p_ping_seq p + 1, p_last_ping_sent := now,
                                 p_ping_sent_at := Some now\<rparr>;
                          h2 = h1\<lparr>peers := fmupd a p' (peers h1)\<rparr>
                      in (send_to (build_ping (p_connection_number p') (p_ping_seq p')) (p_addr p') h2,
                          events, w1\<lparr>w_keepalive_sends := w_keepalive_sends w1 + 1\<rparr>))))"

definition process_peer_maintenance ::
  "instant \<Rightarrow> host \<Rightarrow> event list \<Rightarrow> poll_work \<Rightarrow> host \<times> event list \<times> poll_work" where
  "process_peer_maintenance now h events w =
     (let slot_count = length (peer_slots h) in
      if slot_count = 0 then (h\<lparr>maintenance_cursor := 0\<rparr>, events, w)
      else (maintenance_scan now slot_count ^^ min slot_count MAX_POLL_MAINTENANCE_SCANS) (h, events, w))"

definition poll_with_work ::
  "instant \<Rightarrow> (nat \<Rightarrow> nat option) \<Rightarrow> host \<Rightarrow> host \<times> event list \<times> poll_work" where
  "poll_with_work now wall h =
     (let h0 = h\<lparr>available_free_peer_slots := length (free_peer_slots h)\<rparr>;
          (h1, w1) = expire_reconnect_watermarks now h0 poll_work_default;
          (h2, ev2, w2) = drain_socket now wall h1 [] w1;
          w3 = w2\<lparr>w_socket_events := length ev2\<rparr>
      in process_peer_maintenance now h2 ev2 w3)"

definition host_poll :: "instant \<Rightarrow> (nat \<Rightarrow> nat option) \<Rightarrow> host \<Rightarrow> host \<times> event list" where
  "host_poll now wall h = (case poll_with_work now wall h of (h', ev, _) \<Rightarrow> (h', ev))"

section \<open>Sending, disconnecting, shutting down\<close>

text \<open>\<open>fail\<close> is what the operating system answers to this send.\<close>

definition send_unreliable ::
  "io_error_kind option \<Rightarrow> nat \<Rightarrow> bytes \<Rightarrow> host \<Rightarrow> host \<times> (io_error_kind + unit)" where
  "send_unreliable fail peer b h =
     (if length b > MTU - HEADER_SIZE then (h, Inl InvalidInput)
      else
        (case peer_addr peer h of
           None \<Rightarrow> (h, Inr ())
         | Some a \<Rightarrow>
             (case fmlookup (peers h) a of
                None \<Rightarrow> (h, Inr ())
              | Some p \<Rightarrow>
                  (send_to (build_unreliable (p_connection_number p) b) a h,
                   case fail of None \<Rightarrow> Inr () | Some e \<Rightarrow> Inl e))))"

definition host_disconnect :: "nat \<Rightarrow> host \<Rightarrow> host \<times> bool" where
  "host_disconnect peer h =
     (case peer_addr peer h of
        None \<Rightarrow> (h, False)
      | Some a \<Rightarrow>
          (case remove_peer_at a h of
             (h1, None) \<Rightarrow> (h1, False)
           | (h1, Some p) \<Rightarrow>
               (send_to (build_disconnect (p_connection_number p) (p_connect_time p)) (p_addr p) h1, True)))"

text \<open>\<open>peers.values()\<close> is visited in an unspecified order: \<open>order\<close> lists the keys.\<close>

definition host_shutdown :: "socket_addr list \<Rightarrow> host \<Rightarrow> host \<times> event list" where
  "host_shutdown order h =
     (let ps = List.map_filter (fmlookup (peers h)) order;
          h1 = fold (\<lambda>p. send_to (build_disconnect (p_connection_number p) (p_connect_time p)) (p_addr p))
                 ps h;
          ev = map (\<lambda>p. Disconnected (p_id p) Shutdown) ps
      in (h1\<lparr>peers := fmempty, peer_slots := [], free_peer_slots := [], available_free_peer_slots := 0,
             peers_per_ip := fmempty, reconnect_watermarks := fmempty, reconnect_watermark_order := [],
             next_reconnect_watermark_generation := 0, maintenance_cursor := 0\<rparr>, ev))"

end
