(* ===== verification/Config.thy ===== *)
theory Config
  imports Validate Clock Host
begin

text \<open>
  The server configuration, \<open>server/crates/sw-server/src/config.rs\<close>: its validation, check by
  check in source order, the bounded accessors, the snapshot-recurrence arithmetic and the
  resolution of arguments and environment. Reading a file and parsing TOML are arguments of
  \<open>from_file\<close>. \<open>u32\<close> fields are \<open>nat\<close>.
\<close>

section \<open>Constants\<close>

definition MAX_AOI_RADIUS_CELLS :: nat where "MAX_AOI_RADIUS_CELLS = 16"

text \<open>\<open>1_000_000.0_f32\<close> and \<open>1.0_f32\<close>.\<close>

definition MAX_CELL_SIZE_M :: f32 where "MAX_CELL_SIZE_M = 0x49742400"
definition MIN_CELL_SIZE_M :: f32 where "MIN_CELL_SIZE_M = 0x3F800000"
definition MAX_TRADE_MIN_INTERVAL_MS :: nat where "MAX_TRADE_MIN_INTERVAL_MS = 3600000"
definition MAX_HELLO_MIN_INTERVAL_MS :: nat where "MAX_HELLO_MIN_INTERVAL_MS = 250"
definition MIN_HELLO_MIN_INTERVAL_MS :: nat where "MIN_HELLO_MIN_INTERVAL_MS = 1"
definition MAX_NEW_SESSION_MIN_INTERVAL_MS :: nat where "MAX_NEW_SESSION_MIN_INTERVAL_MS = 1000"
definition MAX_TRANSPORT_PEERS :: nat where "MAX_TRANSPORT_PEERS = DEFAULT_MAX_PEERS"
definition SNAPSHOT_PACKETS_PER_TICK :: nat where "SNAPSHOT_PACKETS_PER_TICK = 32"
definition SNAPSHOT_ENTITIES_PER_PACKET :: nat where "SNAPSHOT_ENTITIES_PER_PACKET = 5"
definition SNAPSHOT_VISIBILITY_CEILING :: nat where "SNAPSHOT_VISIBILITY_CEILING = 15"
definition SNAPSHOT_CLIENT_EXPIRY_SECS :: nat where "SNAPSHOT_CLIENT_EXPIRY_SECS = 5"
definition MAX_PLAYER_ROWS :: nat where "MAX_PLAYER_ROWS = 1000000"
definition MAX_WIRE_STRING_LEN :: nat where "MAX_WIRE_STRING_LEN = 4096"

lemmas config_limits =
  MAX_AOI_RADIUS_CELLS_def MAX_TRADE_MIN_INTERVAL_MS_def MAX_HELLO_MIN_INTERVAL_MS_def
  MIN_HELLO_MIN_INTERVAL_MS_def MAX_NEW_SESSION_MIN_INTERVAL_MS_def MAX_TRANSPORT_PEERS_def
  DEFAULT_MAX_PEERS_def MAX_PLAYER_ROWS_def MAX_WIRE_STRING_LEN_def

lemmas snapshot_limits =
  SNAPSHOT_PACKETS_PER_TICK_def SNAPSHOT_ENTITIES_PER_PACKET_def SNAPSHOT_VISIBILITY_CEILING_def
  SNAPSHOT_CLIENT_EXPIRY_SECS_def

section \<open>Snapshot recurrence\<close>

definition checked_div_ceil :: "nat \<Rightarrow> nat \<Rightarrow> nat option" where
  "checked_div_ceil v d =
     Option.bind (checked_sub_nat d 1) (\<lambda>d1.
     Option.bind (checked_add_u64 v d1) (\<lambda>s. if d = 0 then None else Some (s div d)))"

definition snapshot_recurrence_ticks :: "nat \<Rightarrow> nat \<Rightarrow> nat option" where
  "snapshot_recurrence_ticks population nominal_cadence_ticks =
     (if population \<le> 1 then Some 0
      else if nominal_cadence_ticks = 0 then None
      else
        Option.bind (checked_div_ceil population SNAPSHOT_PACKETS_PER_TICK) (\<lambda>recipient_round.
        Option.bind (checked_sub_nat population 1) (\<lambda>others.
        let visible_players = min others SNAPSHOT_VISIBILITY_CEILING in
        Option.bind (checked_div_ceil visible_players SNAPSHOT_ENTITIES_PER_PACKET) (\<lambda>stable_chunks.
        Option.bind (checked_div_ceil nominal_cadence_ticks recipient_round) (\<lambda>q.
        Option.bind (checked_mul_u64 q recipient_round) (\<lambda>aligned_due_interval.
          checked_mul_u64 aligned_due_interval stable_chunks))))))"

section \<open>The configuration\<close>

record config =
  cfg_bind :: string
  cfg_db_path :: string
  cfg_tick_hz :: nat
  cfg_snapshot_hz :: nat
  cfg_clock_broadcast_secs :: nat
  cfg_aoi_radius_cells :: nat
  cfg_cell_size_m :: f32
  cfg_hello_min_interval_ms :: nat
  cfg_new_session_min_interval_ms :: nat
  cfg_max_transport_peers :: nat
  cfg_max_transport_peers_per_ip :: nat
  cfg_max_player_rows :: nat
  cfg_trade_min_interval_ms :: nat
  cfg_client_state_min_interval_ms :: nat
  cfg_chat_min_interval_ms :: nat
  cfg_econ_min_interval_ms :: nat
  cfg_moor_min_interval_ms :: nat
  cfg_max_wire_string_len :: nat
  cfg_server_name :: string

definition config_default :: config where
  "config_default =
     \<lparr>cfg_bind = ''0.0.0.0:38455'', cfg_db_path = ''sailwind.db'', cfg_tick_hz = 30, cfg_snapshot_hz = 4,
      cfg_clock_broadcast_secs = 10, cfg_aoi_radius_cells = nat AOI_RADIUS_CELLS,
      cfg_cell_size_m = DEFAULT_CELL_SIZE_M, cfg_hello_min_interval_ms = 250,
      cfg_new_session_min_interval_ms = 30, cfg_max_transport_peers = DEFAULT_MAX_PEERS,
      cfg_max_transport_peers_per_ip = DEFAULT_MAX_PEERS_PER_IP, cfg_max_player_rows = 10000,
      cfg_trade_min_interval_ms = 250, cfg_client_state_min_interval_ms = 20,
      cfg_chat_min_interval_ms = 500, cfg_econ_min_interval_ms = 100, cfg_moor_min_interval_ms = 250,
      cfg_max_wire_string_len = 512, cfg_server_name = ''Sailwind Online (dev)''\<rparr>"

datatype config_error =
    ReadingConfig string
  | ParsingConfig string
  | UnknownArgument string
  | RequiresValue string
  | BadTickHz
  | ZeroTickDuration
  | TickHzNotOnWire
  | BadSnapshotHz
  | SnapshotAboveTick
  | BadAoiRadius
  | BadCellSize
  | BadHelloInterval
  | BadNewSessionInterval
  | BadTransportPeers
  | RatePanic
  | RecurrenceOverflow
  | ExpiryOverflow
  | RecurrenceTooSlow nat nat
  | BadPeersPerIp
  | BadPlayerRows
  | IntervalTooLong string
  | BadWireStringLen

text \<open>\<open>Duration::from_secs_f64(1.0 / f64::from(hz))\<close> in nanoseconds, rounded to the nearest.\<close>

definition tick_duration :: "nat \<Rightarrow> duration" where
  "tick_duration hz = nat (round_even (round_f64 (1 / of_nat hz) * 10 ^ 9))"

text \<open>A division by zero panics, which is \<open>None\<close>.\<close>

definition ticks_per_snapshot :: "config \<Rightarrow> nat option" where
  "ticks_per_snapshot c = (if cfg_snapshot_hz c = 0 then None else Some (max (cfg_tick_hz c div cfg_snapshot_hz c) 1))"

text \<open>The loop over the five throttle knobs: the first one above the ceiling is reported.\<close>

fun check_intervals :: "(string \<times> nat) list \<Rightarrow> config_error option" where
  "check_intervals [] = None"
| "check_intervals ((name, v) # r) =
     (if v > MAX_TRADE_MIN_INTERVAL_MS then Some (IntervalTooLong name) else check_intervals r)"

definition throttle_knobs :: "config \<Rightarrow> (string \<times> nat) list" where
  "throttle_knobs c =
     [(''trade_min_interval_ms'', cfg_trade_min_interval_ms c),
      (''client_state_min_interval_ms'', cfg_client_state_min_interval_ms c),
      (''chat_min_interval_ms'', cfg_chat_min_interval_ms c),
      (''econ_min_interval_ms'', cfg_econ_min_interval_ms c),
      (''moor_min_interval_ms'', cfg_moor_min_interval_ms c)]"

definition validate_tail :: "config \<Rightarrow> config_error + unit" where
  "validate_tail c =
     (if cfg_max_transport_peers_per_ip c = 0 \<or> cfg_max_transport_peers_per_ip c > cfg_max_transport_peers c
      then Inl BadPeersPerIp
      else if cfg_max_player_rows c = 0 \<or> cfg_max_player_rows c > MAX_PLAYER_ROWS then Inl BadPlayerRows
      else
        (case check_intervals (throttle_knobs c) of
           Some e \<Rightarrow> Inl e
         | None \<Rightarrow>
             if cfg_max_wire_string_len c = 0 \<or> cfg_max_wire_string_len c > MAX_WIRE_STRING_LEN
             then Inl BadWireStringLen else Inr ()))"

definition validate :: "config \<Rightarrow> config_error + unit" where
  "validate c =
     (if cfg_tick_hz c = 0 then Inl BadTickHz
      else if tick_duration (cfg_tick_hz c) = 0 then Inl ZeroTickDuration
      else if cfg_tick_hz c > u8_max then Inl TickHzNotOnWire
      else if cfg_snapshot_hz c = 0 \<or> cfg_snapshot_hz c > u8_max then Inl BadSnapshotHz
      else if cfg_snapshot_hz c > cfg_tick_hz c then Inl SnapshotAboveTick
      else if cfg_aoi_radius_cells c = 0 \<or> cfg_aoi_radius_cells c > MAX_AOI_RADIUS_CELLS then Inl BadAoiRadius
      else if \<not> f32_is_finite (cfg_cell_size_m c) \<or> f32_lt (cfg_cell_size_m c) MIN_CELL_SIZE_M
              \<or> f32_lt MAX_CELL_SIZE_M (cfg_cell_size_m c) then Inl BadCellSize
      else if \<not> (MIN_HELLO_MIN_INTERVAL_MS \<le> cfg_hello_min_interval_ms c
                 \<and> cfg_hello_min_interval_ms c \<le> MAX_HELLO_MIN_INTERVAL_MS) then Inl BadHelloInterval
      else if \<not> (MIN_HELLO_MIN_INTERVAL_MS \<le> cfg_new_session_min_interval_ms c
                 \<and> cfg_new_session_min_interval_ms c \<le> MAX_NEW_SESSION_MIN_INTERVAL_MS)
      then Inl BadNewSessionInterval
      else if cfg_max_transport_peers c = 0 \<or> cfg_max_transport_peers c > MAX_TRANSPORT_PEERS
      then Inl BadTransportPeers
      else
        (case ticks_per_snapshot c of
           None \<Rightarrow> Inl RatePanic
         | Some nominal_cadence \<Rightarrow>
        (case snapshot_recurrence_ticks (cfg_max_transport_peers c) nominal_cadence of
           None \<Rightarrow> Inl RecurrenceOverflow
         | Some recurrence_ticks \<Rightarrow>
             (case checked_mul_u64 (cfg_tick_hz c) SNAPSHOT_CLIENT_EXPIRY_SECS of
                None \<Rightarrow> Inl ExpiryOverflow
              | Some expiry_ticks \<Rightarrow>
                  if recurrence_ticks \<ge> expiry_ticks then Inl (RecurrenceTooSlow recurrence_ticks expiry_ticks)
                  else validate_tail c))))"

section \<open>Loading\<close>

definition from_file ::
  "(string \<Rightarrow> string option) \<Rightarrow> (string \<Rightarrow> config option) \<Rightarrow> string \<Rightarrow> config_error + config" where
  "from_file read_file parse_toml path =
     (case read_file path of
        None \<Rightarrow> Inl (ReadingConfig path)
      | Some body \<Rightarrow>
          (case parse_toml body of
             None \<Rightarrow> Inl (ParsingConfig path)
           | Some cfg \<Rightarrow> (case validate cfg of Inl e \<Rightarrow> Inl e | Inr _ \<Rightarrow> Inr cfg)))"

record overrides =
  ov_config :: "string option"
  ov_bind :: "string option"
  ov_db :: "string option"

text \<open>The argument loop, with \<open>expect_value\<close>: a flag takes the argument after it.\<close>

fun parse_args :: "string list \<Rightarrow> overrides \<Rightarrow> config_error + overrides" where
  "parse_args [] ov = Inr ov"
| "parse_args (a # r) ov =
     (if a = ''--config'' then
        (case r of [] \<Rightarrow> Inl (RequiresValue ''--config'') | v # r' \<Rightarrow> parse_args r' (ov\<lparr>ov_config := Some v\<rparr>))
      else if a = ''--bind'' then
        (case r of [] \<Rightarrow> Inl (RequiresValue ''--bind'') | v # r' \<Rightarrow> parse_args r' (ov\<lparr>ov_bind := Some v\<rparr>))
      else if a = ''--db'' then
        (case r of [] \<Rightarrow> Inl (RequiresValue ''--db'') | v # r' \<Rightarrow> parse_args r' (ov\<lparr>ov_db := Some v\<rparr>))
      else Inl (UnknownArgument a))"

definition or_keep :: "'a option \<Rightarrow> 'a \<Rightarrow> 'a" where
  "or_keep x y = (case x of None \<Rightarrow> y | Some v \<Rightarrow> v)"

definition resolve ::
  "(string \<Rightarrow> string option) \<Rightarrow> (string \<Rightarrow> config option) \<Rightarrow> (string \<Rightarrow> string option) \<Rightarrow> string list
   \<Rightarrow> config_error + config" where
  "resolve read_file parse_toml env args =
     (case parse_args args \<lparr>ov_config = None, ov_bind = None, ov_db = None\<rparr> of
        Inl e \<Rightarrow> Inl e
      | Inr ov \<Rightarrow>
          (case (case ov_config ov of Some p \<Rightarrow> from_file read_file parse_toml p | None \<Rightarrow> Inr config_default) of
             Inl e \<Rightarrow> Inl e
           | Inr cfg0 \<Rightarrow>
               let cfg1 = cfg0\<lparr>cfg_bind := or_keep (env ''SWO_BIND'') (cfg_bind cfg0),
                               cfg_db_path := or_keep (env ''SWO_DB'') (cfg_db_path cfg0)\<rparr>;
                   cfg2 = cfg1\<lparr>cfg_bind := or_keep (ov_bind ov) (cfg_bind cfg1),
                               cfg_db_path := or_keep (ov_db ov) (cfg_db_path cfg1)\<rparr>
               in case validate cfg2 of Inl e \<Rightarrow> Inl e | Inr _ \<Rightarrow> Inr cfg2))"

section \<open>Bounded accessors\<close>

definition aoi_radius_i32 :: "config \<Rightarrow> int" where
  "aoi_radius_i32 c = int (min (cfg_aoi_radius_cells c) MAX_AOI_RADIUS_CELLS)"

definition trade_min_interval_ms_i64 :: "config \<Rightarrow> int" where
  "trade_min_interval_ms_i64 c = int (min (cfg_trade_min_interval_ms c) MAX_TRADE_MIN_INTERVAL_MS)"

definition hello_min_interval_ms_i64 :: "config \<Rightarrow> int" where
  "hello_min_interval_ms_i64 c =
     int (clamp_nat MIN_HELLO_MIN_INTERVAL_MS MAX_HELLO_MIN_INTERVAL_MS (cfg_hello_min_interval_ms c))"

definition new_session_min_interval_ms_i64 :: "config \<Rightarrow> int" where
  "new_session_min_interval_ms_i64 c =
     int (clamp_nat MIN_HELLO_MIN_INTERVAL_MS MAX_NEW_SESSION_MIN_INTERVAL_MS (cfg_new_session_min_interval_ms c))"

definition source_session_min_interval_ms_i64 :: "config \<Rightarrow> int" where
  "source_session_min_interval_ms_i64 c =
     max (hello_min_interval_ms_i64 c)
       (saturate_i64 (saturate_i64 (new_session_min_interval_ms_i64 c * 2) + 1))"

definition max_transport_peers_usize :: "config \<Rightarrow> nat" where
  "max_transport_peers_usize c = clamp_nat 1 MAX_TRANSPORT_PEERS (cfg_max_transport_peers c)"

definition max_transport_peers_per_ip_usize :: "config \<Rightarrow> nat" where
  "max_transport_peers_per_ip_usize c =
     clamp_nat 1 (clamp_nat 1 MAX_TRANSPORT_PEERS (cfg_max_transport_peers c)) (cfg_max_transport_peers_per_ip c)"

definition max_player_rows_u32 :: "config \<Rightarrow> nat" where
  "max_player_rows_u32 c = clamp_nat 1 MAX_PLAYER_ROWS (cfg_max_player_rows c)"

definition client_state_min_interval_ms_i64 :: "config \<Rightarrow> int" where
  "client_state_min_interval_ms_i64 c = int (min (cfg_client_state_min_interval_ms c) MAX_TRADE_MIN_INTERVAL_MS)"

definition chat_min_interval_ms_i64 :: "config \<Rightarrow> int" where
  "chat_min_interval_ms_i64 c = int (min (cfg_chat_min_interval_ms c) MAX_TRADE_MIN_INTERVAL_MS)"

definition econ_min_interval_ms_i64 :: "config \<Rightarrow> int" where
  "econ_min_interval_ms_i64 c = int (min (cfg_econ_min_interval_ms c) MAX_TRADE_MIN_INTERVAL_MS)"

definition moor_min_interval_ms_i64 :: "config \<Rightarrow> int" where
  "moor_min_interval_ms_i64 c = int (min (cfg_moor_min_interval_ms c) MAX_TRADE_MIN_INTERVAL_MS)"

definition max_wire_string_len_usize :: "config \<Rightarrow> nat" where
  "max_wire_string_len_usize c = min (cfg_max_wire_string_len c) MAX_WIRE_STRING_LEN"

text \<open>\<open>u8::try_from(..).expect(..)\<close>: \<open>None\<close> is the panic.\<close>

definition tick_hz_u8 :: "config \<Rightarrow> u8 option" where
  "tick_hz_u8 c = (if cfg_tick_hz c \<le> u8_max then Some (word_of_nat (cfg_tick_hz c)) else None)"

definition snapshot_hz_u8 :: "config \<Rightarrow> u8 option" where
  "snapshot_hz_u8 c = (if cfg_snapshot_hz c \<le> u8_max then Some (word_of_nat (cfg_snapshot_hz c)) else None)"

definition ticks_per_clock_broadcast :: "config \<Rightarrow> nat" where
  "ticks_per_clock_broadcast c = max (min (cfg_tick_hz c * cfg_clock_broadcast_secs c) u32_max) 1"

section \<open>What validation gives\<close>

lemmas throttle_accessors = trade_min_interval_ms_i64_def client_state_min_interval_ms_i64_def chat_min_interval_ms_i64_def
  econ_min_interval_ms_i64_def moor_min_interval_ms_i64_def

lemma check_intervals_None: "check_intervals l = None \<longleftrightarrow> (\<forall>x \<in> set l. snd x \<le> MAX_TRADE_MIN_INTERVAL_MS)"
  by (induction l rule: check_intervals.induct) auto

lemma f32_cell_bounds: "f32_val MIN_CELL_SIZE_M = Fin 1" "f32_val MAX_CELL_SIZE_M = Fin 1000000"
  by (simp_all add: f32_val_def MIN_CELL_SIZE_M_def MAX_CELL_SIZE_M_def Let_def pow2_def)

lemma validate_head:
  assumes "validate c = Inr ()"
  shows "0 < cfg_tick_hz c" "cfg_tick_hz c \<le> 255" "0 < tick_duration (cfg_tick_hz c)"
    "0 < cfg_snapshot_hz c" "cfg_snapshot_hz c \<le> cfg_tick_hz c"
    "0 < cfg_aoi_radius_cells c" "cfg_aoi_radius_cells c \<le> MAX_AOI_RADIUS_CELLS"
    "1 \<le> cfg_hello_min_interval_ms c" "cfg_hello_min_interval_ms c \<le> MAX_HELLO_MIN_INTERVAL_MS"
    "1 \<le> cfg_new_session_min_interval_ms c" "cfg_new_session_min_interval_ms c \<le> MAX_NEW_SESSION_MIN_INTERVAL_MS"
    "0 < cfg_max_transport_peers c" "cfg_max_transport_peers c \<le> MAX_TRANSPORT_PEERS"
    "validate_tail c = Inr ()"
    "\<exists>k n. ticks_per_snapshot c = Some k \<and> snapshot_recurrence_ticks (cfg_max_transport_peers c) k = Some n
       \<and> n < cfg_tick_hz c * SNAPSHOT_CLIENT_EXPIRY_SECS"
  using assms
  by (auto simp: validate_def u8_max_def MIN_HELLO_MIN_INTERVAL_MS_def checked_mul_u64_def
      split: if_splits option.splits)

lemma cadence_positive:
  assumes "ticks_per_snapshot c = Some k" "cfg_snapshot_hz c \<le> cfg_tick_hz c"
  shows "1 \<le> k" "k * cfg_snapshot_hz c \<le> cfg_tick_hz c"
proof -
  have "0 < cfg_snapshot_hz c" and k: "k = max (cfg_tick_hz c div cfg_snapshot_hz c) 1"
    using assms(1) by (auto simp: ticks_per_snapshot_def split: if_splits)
  then have "0 < cfg_tick_hz c div cfg_snapshot_hz c" using assms(2) by (simp add: div_greater_zero_iff)
  then have "k = cfg_tick_hz c div cfg_snapshot_hz c" "0 < k" using k by simp_all
  then show "1 \<le> k" "k * cfg_snapshot_hz c \<le> cfg_tick_hz c" by simp_all
qed

lemma validate_cell_size:
  assumes "validate c = Inr ()"
  shows "\<exists>b. f32_val (cfg_cell_size_m c) = Fin b \<and> 1 \<le> b \<and> b \<le> 1000000"
proof -
  from assms have "f32_is_finite (cfg_cell_size_m c)" "\<not> f32_lt (cfg_cell_size_m c) MIN_CELL_SIZE_M"
    "\<not> f32_lt MAX_CELL_SIZE_M (cfg_cell_size_m c)"
    by (auto simp: validate_def split: if_splits)
  then show ?thesis
    by (auto simp: f32_is_finite_def f32_lt_def f32_cell_bounds not_less split: fval.splits)
qed

lemma validate_tail_ok:
  assumes "validate_tail c = Inr ()"
  shows "0 < cfg_max_transport_peers_per_ip c" "cfg_max_transport_peers_per_ip c \<le> cfg_max_transport_peers c"
    "0 < cfg_max_player_rows c" "cfg_max_player_rows c \<le> MAX_PLAYER_ROWS"
    "\<forall>x \<in> set (throttle_knobs c). snd x \<le> MAX_TRADE_MIN_INTERVAL_MS"
    "0 < cfg_max_wire_string_len c" "cfg_max_wire_string_len c \<le> MAX_WIRE_STRING_LEN"
  using assms by (auto simp: validate_tail_def check_intervals_None split: if_splits option.splits)

lemma div_ceil_value: "0 < d \<Longrightarrow> v + d \<le> u64_max \<Longrightarrow> checked_div_ceil v d = Some ((v + d - 1) div d)"
  by (simp add: checked_div_ceil_def checked_sub_nat_def checked_add_u64_def)

text \<open>The recurrence as arithmetic, on every configurable population and cadence.\<close>

definition div_ceil :: "nat \<Rightarrow> nat \<Rightarrow> nat" where
  "div_ceil v d = (v + d - 1) div d"

lemma div_ceil_bound: "0 < d \<Longrightarrow> v \<le> div_ceil v d * d" "0 < d \<Longrightarrow> div_ceil v d \<le> v + 1"
proof -
  assume d: "0 < d"
  have "v + d - 1 < d + (v + d - 1) div d * d" using d by (rule dividend_less_div_times)
  then show "v \<le> div_ceil v d * d" using d by (simp add: div_ceil_def)
  have "v + d - 1 \<le> (v + 1) * d" using d by (cases d) auto
  then have "(v + d - 1) div d \<le> (v + 1) * d div d" by (rule div_le_mono)
  then show "div_ceil v d \<le> v + 1" using d by (simp add: div_ceil_def)
qed

lemma recurrence_value:
  assumes "1 < n" "n \<le> 65535" "0 < k" "k \<le> 65535"
  shows "snapshot_recurrence_ticks n k =
    Some (div_ceil k (div_ceil n 32) * div_ceil n 32 * div_ceil (min (n - 1) 15) 5)"
proof -
  let ?R = "div_ceil n 32"
  have R: "0 < ?R" "?R \<le> 65536" using div_ceil_bound [of 32 n] assms by (auto intro!: Nat.gr0I)
  have q: "div_ceil k ?R \<le> 65536" using div_ceil_bound(2) [OF R(1), of k] assms by simp
  have s: "div_ceil (min (n - 1) 15) 5 \<le> 16" using div_ceil_bound(2) [of 5 "min (n - 1) 15"] by simp
  have m: "div_ceil k ?R * ?R \<le> 65536 * 65536" using q R(2) by (rule mult_le_mono)
  then have m2: "div_ceil k ?R * ?R * div_ceil (min (n - 1) 15) 5 \<le> 65536 * 65536 * 16" using s by (rule mult_le_mono)
  have u: "u64_max = 18446744073709551615" by (simp add: u64_max_def)
  have c1: "checked_div_ceil n 32 = Some ?R" using assms by (subst div_ceil_value) (auto simp: div_ceil_def u)
  have c2: "checked_div_ceil (min (n - 1) 15) 5 = Some (div_ceil (min (n - 1) 15) 5)"
    by (subst div_ceil_value) (auto simp: div_ceil_def u min_def)
  have c3: "checked_div_ceil k ?R = Some (div_ceil k ?R)" using R assms by (subst div_ceil_value) (auto simp: div_ceil_def u)
  have c4: "checked_mul_u64 (div_ceil k ?R) ?R = Some (div_ceil k ?R * ?R)" using m by (simp add: checked_mul_u64_def u)
  have c5: "checked_mul_u64 (div_ceil k ?R * ?R) (div_ceil (min (n - 1) 15) 5)
      = Some (div_ceil k ?R * ?R * div_ceil (min (n - 1) 15) 5)" using m2 by (simp add: checked_mul_u64_def u)
  have c6: "checked_sub_nat n 1 = Some (n - 1)" using assms by (simp add: checked_sub_nat_def)
  show ?thesis
    using assms by (simp add: snapshot_recurrence_ticks_def snapshot_limits c1 c2 c3 c4 c5 c6 Let_def del: One_nat_def)
qed

text \<open>Validation divides by the snapshot rate only when that is not zero.\<close>

lemma validate_no_panic: "validate c \<noteq> Inl RatePanic"
proof -
  have "check_intervals ks \<noteq> Some RatePanic" for ks by (induction ks rule: check_intervals.induct) auto
  then have "validate_tail c \<noteq> Inl RatePanic" unfolding validate_tail_def by (auto split: option.split)
  then show ?thesis unfolding validate_def ticks_per_snapshot_def by (auto split: option.split)
qed

section \<open>Properties\<close>

text \<open>C40: validation itself never panics, whatever the configuration, and a configuration that validates is one the
  rest of the server can use as it stands: every bounded accessor returns the configured value, both rates are positive, fit a byte and give a cadence of at least one
  tick without a division by zero, the tick is not zero, the transport accepts its limits, the cell size
  is a finite number of at least one, the per-source admission interval exceeds two global ones, the throttles are under
  their ceiling, and the slowest snapshot recurrence at that cadence is under the client's expiry.\<close>

theorem validated_config_usable:
  assumes "validate c = Inr ()"
  shows "validate d \<noteq> Inl RatePanic
    \<and> aoi_radius_i32 c = int (cfg_aoi_radius_cells c) \<and> 0 < aoi_radius_i32 c \<and> aoi_radius_i32 c \<le> 16
    \<and> tick_hz_u8 c = Some (word_of_nat (cfg_tick_hz c)) \<and> snapshot_hz_u8 c = Some (word_of_nat (cfg_snapshot_hz c))
    \<and> 0 < cfg_snapshot_hz c \<and> cfg_snapshot_hz c \<le> cfg_tick_hz c \<and> cfg_tick_hz c \<le> 255
    \<and> 0 < tick_duration (cfg_tick_hz c) \<and> 0 < ticks_per_clock_broadcast c
    \<and> max_transport_peers_usize c = cfg_max_transport_peers c
    \<and> max_transport_peers_per_ip_usize c = cfg_max_transport_peers_per_ip c
    \<and> max_player_rows_u32 c = cfg_max_player_rows c
    \<and> hello_min_interval_ms_i64 c = int (cfg_hello_min_interval_ms c)
    \<and> max_wire_string_len_usize c = cfg_max_wire_string_len c
    \<and> 0 < hello_min_interval_ms_i64 c \<and> 0 < new_session_min_interval_ms_i64 c
    \<and> trade_min_interval_ms_i64 c = int (cfg_trade_min_interval_ms c) \<and> chat_min_interval_ms_i64 c = int (cfg_chat_min_interval_ms c)
    \<and> econ_min_interval_ms_i64 c = int (cfg_econ_min_interval_ms c) \<and> moor_min_interval_ms_i64 c = int (cfg_moor_min_interval_ms c)
    \<and> client_state_min_interval_ms_i64 c = int (cfg_client_state_min_interval_ms c)
    \<and> 2 * new_session_min_interval_ms_i64 c < source_session_min_interval_ms_i64 c
    \<and> (\<exists>h. bind_with_limits (Some s) key (max_transport_peers_usize c) (max_transport_peers_per_ip_usize c) = Inr h)
    \<and> (\<exists>b. f32_val (cfg_cell_size_m c) = Fin b \<and> 1 \<le> b)
    \<and> (\<exists>k n. ticks_per_snapshot c = Some k \<and> 1 \<le> k \<and> k * cfg_snapshot_hz c \<le> cfg_tick_hz c
         \<and> snapshot_recurrence_ticks (cfg_max_transport_peers c) k = Some n
         \<and> n < cfg_tick_hz c * SNAPSHOT_CLIENT_EXPIRY_SECS)"
proof -
  note h = validate_head [OF assms]
  note t = validate_tail_ok [OF h(14)]
  have src: "2 * new_session_min_interval_ms_i64 c < source_session_min_interval_ms_i64 c"
    using h by (auto simp: source_session_min_interval_ms_i64_def new_session_min_interval_ms_i64_def
        saturate_i64_def machine_int config_limits)
  have "\<exists>h. bind_with_limits (Some s) key (max_transport_peers_usize c) (max_transport_peers_per_ip_usize c) = Inr h"
    using h t by (auto simp: bind_with_limits_def max_transport_peers_usize_def max_transport_peers_per_ip_usize_def
        u16_max_def config_limits)
  moreover have "trade_min_interval_ms_i64 c = int (cfg_trade_min_interval_ms c)" "chat_min_interval_ms_i64 c = int (cfg_chat_min_interval_ms c)"
    "econ_min_interval_ms_i64 c = int (cfg_econ_min_interval_ms c)" "moor_min_interval_ms_i64 c = int (cfg_moor_min_interval_ms c)"
    "client_state_min_interval_ms_i64 c = int (cfg_client_state_min_interval_ms c)"
    using t(5) by (simp_all add: throttle_knobs_def throttle_accessors)
  moreover obtain k n where "ticks_per_snapshot c = Some k" "1 \<le> k" "k * cfg_snapshot_hz c \<le> cfg_tick_hz c"
    "snapshot_recurrence_ticks (cfg_max_transport_peers c) k = Some n" "n < cfg_tick_hz c * SNAPSHOT_CLIENT_EXPIRY_SECS"
    using h(15) cadence_positive h(5) by blast
  ultimately show ?thesis using h t src validate_cell_size [OF assms] validate_no_panic [of d]
    by (auto simp: new_session_min_interval_ms_i64_def ticks_per_clock_broadcast_def aoi_radius_i32_def tick_hz_u8_def
        snapshot_hz_u8_def u8_max_def max_transport_peers_usize_def
        max_transport_peers_per_ip_usize_def max_player_rows_u32_def hello_min_interval_ms_i64_def
        max_wire_string_len_usize_def config_limits)
qed

lemma tick_duration_positive:
  assumes "0 < hz" "hz \<le> 255"
  shows "0 < tick_duration hz"
proof -
  have hz: "1 \<le> (of_nat hz :: rat)" "of_nat hz \<le> (255 :: rat)" using assms by (simp_all add: of_nat_le_iff [of hz 255, simplified])
  then have "\<bar>1 / of_nat hz\<bar> < pow2 1" by (simp add: pow2_def divide_less_eq)
  then have e: "\<bar>round_f64 (1 / of_nat hz) - 1 / of_nat hz\<bar> \<le> 1 / 2 ^ 53"
    using round_to_error [of "1 / of_nat hz" 1 "- 1074" 53] by (simp add: round_f64_def pow2_def)
  have "1 / 255 \<le> (1 / of_nat hz :: rat)" using hz by (intro divide_left_mono) auto
  moreover have "1 / 255 - 1 / 2 ^ 53 \<ge> (1 / 256 :: rat)" by simp
  ultimately have "1 / 256 \<le> round_f64 (1 / of_nat hz)" using e unfolding abs_le_iff by linarith
  then have "of_int 1 \<le> round_f64 (1 / of_nat hz) * 10 ^ 9" by simp
  then have "1 \<le> round_even (round_f64 (1 / of_nat hz) * 10 ^ 9)"
    using round_even_mono [of "of_int 1"] by (metis round_even_int)
  then show ?thesis by (simp add: tick_duration_def)
qed

lemma config_default_valid: "validate config_default = Inr ()"
proof -
  have "snapshot_recurrence_ticks 1024 7 = Some 96"
    using recurrence_value [of 1024 7] by (simp add: div_ceil_def)
  moreover have "0 < tick_duration 30" by (rule tick_duration_positive) simp_all
  ultimately show ?thesis
    by (simp add: validate_def validate_tail_def config_default_def throttle_knobs_def ticks_per_snapshot_def
        config_limits snapshot_limits u8_max_def AOI_RADIUS_CELLS_def checked_mul_u64_def u64_max_def
        f32_is_finite_def f32_lt_def f32_limits f32_cell_bounds DEFAULT_MAX_PEERS_PER_IP_def)
qed

theorem validated_config_usable_witness:
  "aoi_radius_i32 config_default = 2 \<and> tick_hz_u8 config_default = Some 30 \<and> max_transport_peers_usize config_default = 1024"
  using validated_config_usable [OF config_default_valid]
  by (simp add: config_default_def AOI_RADIUS_CELLS_def DEFAULT_MAX_PEERS_def)

text \<open>Whatever the file, the environment and the arguments hold, a configuration that is resolved
  has been validated after every override; a \<open>--bind\<close> flag wins over the environment, which
  wins over the file.\<close>

theorem resolve_validates:
  assumes "resolve read_file parse_toml env args = Inr cfg"
  shows "validate cfg = Inr () \<and> (\<exists>ov. parse_args args \<lparr>ov_config = None, ov_bind = None, ov_db = None\<rparr> = Inr ov
    \<and> (\<forall>b. ov_bind ov = Some b \<longrightarrow> cfg_bind cfg = b)
    \<and> (\<forall>b. ov_bind ov = None \<longrightarrow> env ''SWO_BIND'' = Some b \<longrightarrow> cfg_bind cfg = b))"
  using assms by (auto simp: resolve_def Let_def or_keep_def split: sum.splits option.splits)

lemma validate_bind_db [simp]: "validate (c\<lparr>cfg_bind := b, cfg_db_path := d\<rparr>) = validate c"
  by (simp add: validate_def validate_tail_def throttle_knobs_def ticks_per_snapshot_def split: option.split)

theorem resolve_validates_witness:
  "validate (config_default\<lparr>cfg_bind := ''b''\<rparr>) = Inr ()"
proof -
  have "resolve (\<lambda>_. None) (\<lambda>_. None) (\<lambda>_. None) [''--bind'', ''b''] = Inr (config_default\<lparr>cfg_bind := ''b''\<rparr>)"
    using validate_bind_db [where c = config_default and b = "''b''" and d = "cfg_db_path config_default"]
      config_default_valid
    by (simp add: resolve_def Let_def or_keep_def)
  from resolve_validates [OF this] show ?thesis by blast
qed

end
