(* ===== verification/Ratelimit.thy ===== *)
theory Ratelimit
  imports Prelude
begin

text \<open>
  The minimum-interval rate limiters, \<open>server/crates/sw-server/src/ratelimit.rs\<close>: the
  process-wide gate, the per-key limiter and the per-key limiter with a hard ceiling on the keys
  it retains. The locale \<open>min_interval_limiter\<close> is what all three promise; its consequence,
  that two admissions of one key are at least the interval apart, is proved once and holds for
  the three interpretations. Time stamps are milliseconds as \<open>i64\<close>; the subtraction
  saturates as in the source.
\<close>

section \<open>The global gate\<close>

record global_rate_limiter =
  g_min_interval_ms :: int
  g_last :: "int option"

definition global_new :: "int \<Rightarrow> global_rate_limiter" where
  "global_new min_interval = \<lparr>g_min_interval_ms = min_interval, g_last = None\<rparr>"

definition global_allow :: "int \<Rightarrow> global_rate_limiter \<Rightarrow> global_rate_limiter \<times> bool" where
  "global_allow now_ms g =
     (if g_min_interval_ms g \<le> 0 then (g, True)
      else if (case g_last g of
                 Some last_ms \<Rightarrow> saturating_sub_i64 now_ms last_ms < g_min_interval_ms g
               | None \<Rightarrow> False)
      then (g, False)
      else (g\<lparr>g_last := Some now_ms\<rparr>, True))"

section \<open>The per-key limiter\<close>

record 'k rate_limiter =
  rl_min_interval_ms :: int
  rl_last :: "('k, int) fmap"

definition limiter_new :: "int \<Rightarrow> 'k rate_limiter" where
  "limiter_new min_interval = \<lparr>rl_min_interval_ms = min_interval, rl_last = fmempty\<rparr>"

definition limiter_allow :: "'k \<Rightarrow> int \<Rightarrow> 'k rate_limiter \<Rightarrow> 'k rate_limiter \<times> bool" where
  "limiter_allow key now_ms r =
     (if rl_min_interval_ms r \<le> 0 then (r, True)
      else
        (case fmlookup (rl_last r) key of
           None \<Rightarrow> (r\<lparr>rl_last := fmupd key now_ms (rl_last r)\<rparr>, True)
         | Some last_ms \<Rightarrow>
             if saturating_sub_i64 now_ms last_ms < rl_min_interval_ms r then (r, False)
             else (r\<lparr>rl_last := fmupd key now_ms (rl_last r)\<rparr>, True)))"

definition limiter_clear :: "'k \<Rightarrow> 'k rate_limiter \<Rightarrow> 'k rate_limiter" where
  "limiter_clear key r = r\<lparr>rl_last := fmdrop key (rl_last r)\<rparr>"

definition tracked_count :: "'k rate_limiter \<Rightarrow> nat" where
  "tracked_count r = fmlen (rl_last r)"

section \<open>The bounded per-key limiter\<close>

record 'k bounded_rate_limiter =
  b_min_interval_ms :: int
  b_max_keys :: nat
  b_last :: "('k, int) fmap"
  b_oldest :: "(int \<times> 'k) fset"

definition bounded_new :: "int \<Rightarrow> nat \<Rightarrow> 'k bounded_rate_limiter" where
  "bounded_new min_interval max_keys =
     \<lparr>b_min_interval_ms = min_interval, b_max_keys = max_keys, b_last = fmempty, b_oldest = {||}\<rparr>"

definition bounded_record ::
  "'k \<Rightarrow> int \<Rightarrow> 'k::linorder bounded_rate_limiter \<Rightarrow> 'k bounded_rate_limiter" where
  "bounded_record key now_ms b =
     b\<lparr>b_last := fmupd key now_ms (b_last b), b_oldest := finsert (now_ms, key) (b_oldest b)\<rparr>"

definition bounded_allow ::
  "'k::linorder \<Rightarrow> int \<Rightarrow> 'k bounded_rate_limiter \<Rightarrow> 'k bounded_rate_limiter \<times> bool" where
  "bounded_allow key now_ms b =
     (if b_min_interval_ms b \<le> 0 then (b, True)
      else
        (case fmlookup (b_last b) key of
           Some last_ms \<Rightarrow>
             if saturating_sub_i64 now_ms last_ms < b_min_interval_ms b then (b, False)
             else (bounded_record key now_ms (b\<lparr>b_oldest := b_oldest b |-| {|(last_ms, key)|}\<rparr>), True)
         | None \<Rightarrow>
             if fmlen (b_last b) \<ge> b_max_keys b then
               if b_oldest b = {||} then (b, False)
               else
                 let (oldest_ms, oldest_key) = fMin (b_oldest b) in
                 if saturating_sub_i64 now_ms oldest_ms < b_min_interval_ms b then (b, False)
                 else (bounded_record key now_ms
                         (b\<lparr>b_oldest := b_oldest b |-| {|(oldest_ms, oldest_key)|},
                            b_last := fmdrop oldest_key (b_last b)\<rparr>), True)
             else (bounded_record key now_ms b, True)))"

definition bounded_tracked_count :: "'k bounded_rate_limiter \<Rightarrow> nat" where
  "bounded_tracked_count b = fmlen (b_last b)"

section \<open>The contract\<close>

definition spaced :: "int \<Rightarrow> ('k \<times> int) list \<Rightarrow> bool" where
  "spaced d = sorted_wrt (\<lambda>x y. fst x = fst y \<longrightarrow> snd x + d \<le> snd y)"

text \<open>The admitted requests of a sequence, in order, and the limiter after it.\<close>

fun admissions :: "('k \<Rightarrow> int \<Rightarrow> 's \<Rightarrow> 's \<times> bool) \<Rightarrow> ('k \<times> int) list \<Rightarrow> 's \<Rightarrow> ('k \<times> int) list" where
  "admissions allow [] s = []"
| "admissions allow ((k, t) # rs) s =
     (if snd (allow k t s) then (k, t) # admissions allow rs (fst (allow k t s))
      else admissions allow rs (fst (allow k t s)))"

definition limiter_after :: "('k \<Rightarrow> int \<Rightarrow> 's \<Rightarrow> 's \<times> bool) \<Rightarrow> ('k \<times> int) list \<Rightarrow> 's \<Rightarrow> 's" where
  "limiter_after allow rs s = fold (\<lambda>(k, t) s. fst (allow k t s)) rs s"

locale min_interval_limiter =
  fixes inv :: "'s \<Rightarrow> bool"
    and interval :: "'s \<Rightarrow> int"
    and last_of :: "'s \<Rightarrow> 'k \<Rightarrow> int option"
    and allow :: "'k \<Rightarrow> int \<Rightarrow> 's \<Rightarrow> 's \<times> bool"
  assumes keeps_inv: "inv s \<Longrightarrow> inv (fst (allow k t s))"
    and keeps_interval: "interval (fst (allow k t s)) = interval s"
    and rejected: "inv s \<Longrightarrow> \<not> snd (allow k t s) \<Longrightarrow> fst (allow k t s) = s"
    and admitted: "inv s \<Longrightarrow> 0 < interval s \<Longrightarrow> interval s \<le> i64_max \<Longrightarrow> snd (allow k t s) \<Longrightarrow>
      last_of (fst (allow k t s)) k = Some t \<and> (\<forall>t0. last_of s k = Some t0 \<longrightarrow> t0 + interval s \<le> t)"
    and others: "inv s \<Longrightarrow> 0 < interval s \<Longrightarrow> interval s \<le> i64_max \<Longrightarrow> k' \<noteq> k \<Longrightarrow>
      last_of (fst (allow k t s)) k' = last_of s k'
      \<or> last_of (fst (allow k t s)) k' = None \<and> (\<forall>t0. last_of s k' = Some t0 \<longrightarrow> t0 + interval s \<le> t)"
begin

text \<open>What is remembered of a past admission: its time or a later one, or that it is over.\<close>

definition covers :: "'s \<Rightarrow> int \<Rightarrow> 'k \<times> int \<Rightarrow> bool" where
  "covers s now x \<longleftrightarrow>
     (case last_of s (fst x) of Some t1 \<Rightarrow> snd x \<le> t1 | None \<Rightarrow> snd x + interval s \<le> now)"

lemma covers_step:
  assumes s: "inv s" "0 < interval s" "interval s \<le> i64_max" and c: "covers s now x" and t: "now \<le> t"
  shows "covers (fst (allow k t s)) t x"
proof (cases "snd (allow k t s)")
  case False
  with rejected [OF s(1)] c t show ?thesis by (auto simp: covers_def split: option.splits)
next
  case True
  note ad = admitted [OF s True]
  show ?thesis
  proof (cases "fst x = k")
    case True
    with ad c t s(2) show ?thesis
      by (fastforce simp: covers_def keeps_interval split: option.splits)
  next
    case False
    with others [OF s False, of t] c t show ?thesis
      by (fastforce simp: covers_def keeps_interval split: option.splits)
  qed
qed

lemma admissions_after:
  assumes "inv s" "0 < interval s" "interval s \<le> i64_max" "covers s now x"
    and "sorted (now # map snd rs)" "y \<in> set (admissions allow rs s)" "fst x = fst y"
  shows "snd x + interval s \<le> snd y"
  using assms
proof (induction rs arbitrary: s now)
  case (Cons r rs)
  obtain k t where r: "r = (k, t)" by (cases r)
  let ?s = "fst (allow k t s)"
  have c: "covers ?s t x" using covers_step [OF Cons.prems(1-4)] Cons.prems(5) r by simp
  have ih: "y \<in> set (admissions allow rs ?s) \<Longrightarrow> snd x + interval s \<le> snd y"
    using Cons.IH [of ?s t] c Cons.prems keeps_inv keeps_interval r by auto
  show ?case
  proof (cases "snd (allow k t s) \<and> y = (k, t)")
    case True
    with admitted [OF Cons.prems(1-3), of k t] Cons.prems(4,5,7) r show ?thesis
      by (fastforce simp: covers_def split: option.splits)
  next
    case False
    with Cons.prems(6) ih r show ?thesis by (auto split: if_splits)
  qed
qed simp

lemma admissions_spaced:
  assumes "inv s" "0 < interval s" "interval s \<le> i64_max" "sorted (map snd rs)"
  shows "spaced (interval s) (admissions allow rs s)"
  using assms
proof (induction rs arbitrary: s)
  case (Cons r rs)
  obtain k t where r: "r = (k, t)" by (cases r)
  let ?s = "fst (allow k t s)"
  have s': "inv ?s" "interval ?s = interval s" using Cons.prems keeps_inv keeps_interval by auto
  have ih: "spaced (interval s) (admissions allow rs ?s)"
    using Cons.IH [of ?s] Cons.prems s' by simp
  have "t + interval s \<le> snd y" if "snd (allow k t s)" "y \<in> set (admissions allow rs ?s)" "k = fst y" for y
    using admissions_after [of ?s t "(k, t)" rs y] that Cons.prems s' admitted [of s k t] r
    by (simp add: covers_def)
  with ih r show ?case by (auto simp: spaced_def)
qed (simp add: spaced_def)

lemma inv_after: "inv s \<Longrightarrow> inv (limiter_after allow rs s)"
  unfolding limiter_after_def by (induction rs arbitrary: s) (auto simp: keeps_inv split: prod.split)

end

section \<open>Interpretations\<close>

lemma interval_test:
  "0 < d \<Longrightarrow> d \<le> i64_max \<Longrightarrow> saturating_sub_i64 a b < d \<longleftrightarrow> a < b + d"
  using saturating_sub_i64_less [of d a b] by (auto simp: machine_int)

interpretation global: min_interval_limiter "\<lambda>_. True" g_min_interval_ms "\<lambda>g (_ :: unit). g_last g"
    "\<lambda>_. global_allow"
  by unfold_locales (auto simp: global_allow_def interval_test split: option.splits if_splits)

interpretation keyed: min_interval_limiter "\<lambda>_. True" rl_min_interval_ms "\<lambda>r. fmlookup (rl_last r)" limiter_allow
  by unfold_locales (auto simp: limiter_allow_def interval_test split: option.splits if_splits)

definition bounded_inv :: "'k::linorder bounded_rate_limiter \<Rightarrow> bool" where
  "bounded_inv b \<longleftrightarrow>
     (\<forall>t k. (t, k) |\<in>| b_oldest b \<longleftrightarrow> fmlookup (b_last b) k = Some t) \<and> fmlen (b_last b) \<le> b_max_keys b"

lemma bounded_oldest:
  assumes "bounded_inv b" "b_oldest b \<noteq> {||}" "fMin (b_oldest b) = (t, k)"
  shows "fmlookup (b_last b) k = Some t"
  using assms fMin_in [of "b_oldest b"] by (auto simp: bounded_inv_def)

lemma bounded_allow_inv:
  assumes inv: "bounded_inv b"
  shows "bounded_inv (fst (bounded_allow key now b))"
proof (cases "fmlookup (b_last b) key")
  case (Some t)
  with inv show ?thesis
    by (auto simp: bounded_allow_def bounded_record_def bounded_inv_def fmlen_upd)
next
  case None
  obtain t k where min: "fMin (b_oldest b) = (t, k)" by (cases "fMin (b_oldest b)")
  show ?thesis
  proof (cases "fmlen (b_last b) \<ge> b_max_keys b \<and> b_oldest b \<noteq> {||}")
    case True
    then have k: "fmlookup (b_last b) k = Some t" using bounded_oldest [OF inv _ min] by simp
    with None inv True min fmlen_pos [OF k] show ?thesis
      by (auto simp: bounded_allow_def bounded_record_def bounded_inv_def fmlen_upd fmlen_drop)
  next
    case False
    with None inv min show ?thesis
      by (auto simp: bounded_allow_def bounded_record_def bounded_inv_def fmlen_upd)
  qed
qed

lemma bounded_allow_others:
  assumes inv: "bounded_inv b" and d: "0 < b_min_interval_ms b" "b_min_interval_ms b \<le> i64_max" and k: "k' \<noteq> k"
  shows "fmlookup (b_last (fst (bounded_allow k t b))) k' = fmlookup (b_last b) k'
    \<or> fmlookup (b_last (fst (bounded_allow k t b))) k' = None
      \<and> (\<forall>t0. fmlookup (b_last b) k' = Some t0 \<longrightarrow> t0 + b_min_interval_ms b \<le> t)"
proof -
  obtain tm km where min: "fMin (b_oldest b) = (tm, km)" by (cases "fMin (b_oldest b)")
  with bounded_oldest [OF inv _ min] d k show ?thesis
    by (auto simp: bounded_allow_def bounded_record_def interval_test split: option.splits)
qed

interpretation bounded: min_interval_limiter bounded_inv b_min_interval_ms "\<lambda>b. fmlookup (b_last b)" bounded_allow
proof unfold_locales
  fix s :: "'a::linorder bounded_rate_limiter" and k t k'
  show "bounded_inv (fst (bounded_allow k t s))" if "bounded_inv s"
    using that by (rule bounded_allow_inv)
  show "b_min_interval_ms (fst (bounded_allow k t s)) = b_min_interval_ms s"
    by (simp add: bounded_allow_def bounded_record_def split: option.split prod.split)
  show "fst (bounded_allow k t s) = s" if "\<not> snd (bounded_allow k t s)"
    using that by (auto simp: bounded_allow_def split: option.splits prod.splits if_splits)
  show "fmlookup (b_last (fst (bounded_allow k t s))) k = Some t
      \<and> (\<forall>t0. fmlookup (b_last s) k = Some t0 \<longrightarrow> t0 + b_min_interval_ms s \<le> t)"
    if "0 < b_min_interval_ms s" "b_min_interval_ms s \<le> i64_max" "snd (bounded_allow k t s)"
    using that by (auto simp: bounded_allow_def bounded_record_def interval_test split: option.splits prod.splits if_splits)
qed (rule bounded_allow_others)

section \<open>Properties\<close>

lemma bounded_new_inv: "bounded_inv (bounded_new d n)"
  by (simp add: bounded_inv_def bounded_new_def)

lemma bounded_max_keys_after: "b_max_keys (limiter_after bounded_allow rs b) = b_max_keys b"
  unfolding limiter_after_def
  by (induction rs arbitrary: b)
    (auto simp: bounded_allow_def bounded_record_def split: option.split prod.split)

text \<open>C32: the bounded limiter, fed any requests with non-decreasing time stamps, admits one key at
  most once per interval even though it forgets keys, and never tracks more keys than its
  ceiling.\<close>

theorem bounded_limiter_spacing:
  assumes "0 < d" "d \<le> i64_max" "sorted (map snd rs)"
  shows "spaced d (admissions bounded_allow rs (bounded_new d n))
    \<and> bounded_tracked_count (limiter_after bounded_allow rs (bounded_new d n)) \<le> n"
  using bounded.admissions_spaced [OF bounded_new_inv, of d n rs] assms
    bounded.inv_after [OF bounded_new_inv, of rs d n] bounded_max_keys_after [of rs "bounded_new d n"]
  by (simp add: bounded_inv_def bounded_tracked_count_def) (simp add: bounded_new_def)

theorem bounded_limiter_spacing_witness:
  "spaced 10 (admissions bounded_allow [(1 :: nat, 0), (2, 4), (1, 10), (3, 15)] (bounded_new 10 2))
    \<and> bounded_tracked_count (limiter_after bounded_allow [(1 :: nat, 0), (2, 4), (1, 10), (3, 15)] (bounded_new 10 2)) \<le> 2"
  by (rule bounded_limiter_spacing) (simp_all add: machine_int)

text \<open>The per-key limiter and the process-wide gate admit at most one request per key, or at all,
  per interval.\<close>

theorem limiter_spacing:
  assumes "0 < d" "d \<le> i64_max" "sorted (map snd rs)"
  shows "spaced d (admissions limiter_allow rs (limiter_new d))
    \<and> spaced d (admissions (\<lambda>_. global_allow) (map (Pair () \<circ> snd) rs) (global_new d))"
  using keyed.admissions_spaced [of "limiter_new d" rs]
    global.admissions_spaced [of "global_new d" "map (Pair () \<circ> snd) rs"] assms
  by (simp add: limiter_new_def global_new_def comp_def)

theorem limiter_spacing_witness:
  "spaced 5 (admissions limiter_allow [(7 :: nat, 0), (8, 4), (7, 5)] (limiter_new 5))
    \<and> spaced 5 (admissions (\<lambda>_. global_allow) (map (Pair () \<circ> snd) [(7 :: nat, 0), (8, 4), (7, 5)]) (global_new 5))"
  by (rule limiter_spacing) (simp_all add: machine_int)

end
