(* ===== verification/Persist.thy ===== *)
theory Persist
  imports Validate
begin

text \<open>
  The SQLite layer, \<open>server/crates/sw-persist/src/lib.rs\<close>. A table is a finite map from its
  primary key to typed rows; each method is what its SQL statements do to the tables. A statement
  can fail for reasons of the engine (disk, lock): \<open>db_faults\<close> is the queue of those verdicts,
  consumed one per statement, and every method is total over them. A transaction whose body or
  commit fails restores the tables. What SQLite does to a REAL value on its way to disk and back
  is the argument \<open>col\<close> of the mooring upsert.
\<close>

section \<open>Rows and the handle\<close>

definition SCHEMA_VERSION :: int where "SCHEMA_VERSION = 2"
definition MAX_MOORINGS_PAGE_ROWS :: nat where "MAX_MOORINGS_PAGE_ROWS = 8"

datatype sql_error =
    EngineError nat
  | ConstraintViolation
  | ToSqlConversionFailure
  | InvalidParameterName
  | TableFull
  | TableExists

record player_row =
  pr_id :: int
  pr_name :: string
  pr_token_hash :: string
  pr_gold :: int
  pr_created_at :: int
  pr_last_seen :: int

datatype player_admission = Admitted player_row | CapacityReached

record mooring_row =
  mr_boat_id :: int
  mr_owner :: int
  mr_cell_x :: int
  mr_cell_z :: int
  mr_pos :: vec3
  mr_rot :: quat
  mr_name :: string
  mr_created_at :: int

record ledger_row =
  lr_player_id :: int
  lr_amount :: int
  lr_kind :: u8
  lr_note :: string
  lr_applied_at :: int

record trade_row =
  tr_port_id :: u32
  tr_item_id :: u32
  tr_stock :: int
  tr_price :: int
  tr_applied_at :: int

record db =
  db_version :: int
  db_players :: "(int, player_row) fmap"
  db_players_seq :: int
  db_moorings :: "(int, mooring_row) fmap"
  db_ledger :: "(int, ledger_row) fmap"
  db_world :: "(string, string) fmap"
  db_market :: "(u32 \<times> u32, int \<times> int) fmap"
  db_market_trades :: "(int, trade_row) fmap"
  db_faults :: "sql_error option list"

type_synonym 'a sql = "db \<Rightarrow> db \<times> (sql_error + 'a)"

section \<open>Statements and transactions\<close>

definition sql_ok :: "'a \<Rightarrow> 'a sql" where
  "sql_ok x d = (d, Inr x)"

text \<open>The operator \<open>?\<close>.\<close>

definition sql_bind :: "'a sql \<Rightarrow> ('a \<Rightarrow> 'b sql) \<Rightarrow> 'b sql" where
  "sql_bind m f d = (case m d of (d1, Inl e) \<Rightarrow> (d1, Inl e) | (d1, Inr x) \<Rightarrow> f x d1)"

definition stmt :: "'a sql \<Rightarrow> 'a sql" where
  "stmt f d =
     (case db_faults d of
        [] \<Rightarrow> f d
      | None # r \<Rightarrow> f (d\<lparr>db_faults := r\<rparr>)
      | Some e # r \<Rightarrow> (d\<lparr>db_faults := r\<rparr>, Inl e))"

definition in_tx :: "'a sql \<Rightarrow> 'a sql" where
  "in_tx body d =
     (case stmt (sql_ok ()) d of
        (d0, Inl e) \<Rightarrow> (d0, Inl e)
      | (d0, Inr _) \<Rightarrow>
          (case body d0 of
             (d1, Inl e) \<Rightarrow> (d0\<lparr>db_faults := db_faults d1\<rparr>, Inl e)
           | (d1, Inr x) \<Rightarrow>
               (case stmt (sql_ok ()) d1 of
                  (d2, Inl e) \<Rightarrow> (d0\<lparr>db_faults := db_faults d2\<rparr>, Inl e)
                | (d2, Inr _) \<Rightarrow> (d2, Inr x))))"

section \<open>Opening and migrating\<close>

definition db_empty :: "sql_error option list \<Rightarrow> db" where
  "db_empty faults =
     \<lparr>db_version = 0, db_players = fmempty, db_players_seq = 0, db_moorings = fmempty, db_ledger = fmempty,
      db_world = fmempty, db_market = fmempty, db_market_trades = fmempty, db_faults = faults\<rparr>"

text \<open>\<open>CREATE TABLE\<close> fails when the table is there. A file below a version of the schema has none of the tables of that
  version, unless something other than the server made them: a table with rows certainly is there.\<close>

definition v1_absent :: "db \<Rightarrow> bool" where
  "v1_absent d \<longleftrightarrow> db_players d = fmempty \<and> db_moorings d = fmempty \<and> db_ledger d = fmempty \<and> db_world d = fmempty"

definition v2_absent :: "db \<Rightarrow> bool" where
  "v2_absent d \<longleftrightarrow> db_market d = fmempty \<and> db_market_trades d = fmempty"

definition migrate :: "unit sql" where
  "migrate =
     sql_bind (stmt (\<lambda>d. (d, Inr (db_version d)))) (\<lambda>v.
     sql_bind
       (if v < 1 then
          stmt (\<lambda>d. if v1_absent d then (d\<lparr>db_players_seq := 0, db_version := 1\<rparr>, Inr 1) else (d, Inl TableExists))
        else sql_ok v) (\<lambda>v1.
       if v1 < 2 then
         stmt (\<lambda>d. if v2_absent d then (d\<lparr>db_version := 2\<rparr>, Inr ()) else (d, Inl TableExists))
       else sql_ok ()))"

text \<open>\<open>Db::open\<close> of a file with the given content, \<open>db_empty\<close> for a new one.\<close>

definition db_open :: "unit sql" where
  "db_open = sql_bind (stmt (sql_ok ())) (\<lambda>_. migrate)"

definition schema_version :: "int sql" where
  "schema_version = stmt (\<lambda>d. (d, Inr (db_version d)))"

text \<open>The mode the engine reports, its answer to the pragma being \<open>mode\<close>.\<close>

definition journal_mode :: "string \<Rightarrow> string sql" where
  "journal_mode mode = stmt (sql_ok mode)"

section \<open>Players\<close>

definition players_by_token :: "string \<Rightarrow> db \<Rightarrow> int list" where
  "players_by_token tok d =
     filter (\<lambda>i. \<exists>r. fmlookup (db_players d) i = Some r \<and> pr_token_hash r = tok) (sorted_list_of_fset (fmdom (db_players d)))"

definition select_player_by_token :: "string \<Rightarrow> int option sql" where
  "select_player_by_token tok =
     stmt (\<lambda>d. (d, Inr (case players_by_token tok d of [] \<Rightarrow> None | i # _ \<Rightarrow> Some i)))"

text \<open>An insert draws the next AUTOINCREMENT id; the UNIQUE constraint is on the token hash.\<close>

definition insert_player :: "string \<Rightarrow> string \<Rightarrow> int \<Rightarrow> player_row sql" where
  "insert_player tok name now =
     stmt (\<lambda>d.
       if players_by_token tok d \<noteq> [] then (d, Inl ConstraintViolation)
       else if db_players_seq d \<ge> i64_max then (d, Inl TableFull)
       else
         let i = db_players_seq d + 1;
             r = \<lparr>pr_id = i, pr_name = name, pr_token_hash = tok, pr_gold = 0, pr_created_at = now, pr_last_seen = now\<rparr>
         in (d\<lparr>db_players := fmupd i r (db_players d), db_players_seq := i\<rparr>, Inr r))"

definition update_player :: "int \<Rightarrow> (player_row \<Rightarrow> player_row) \<Rightarrow> unit sql" where
  "update_player i f =
     stmt (\<lambda>d. case fmlookup (db_players d) i of
       None \<Rightarrow> (d, Inr ())
     | Some r \<Rightarrow> (d\<lparr>db_players := fmupd i (f r) (db_players d)\<rparr>, Inr ()))"

definition player :: "int \<Rightarrow> player_row option sql" where
  "player i = stmt (\<lambda>d. (d, Inr (fmlookup (db_players d) i)))"

text \<open>\<open>query_row\<close> without \<open>optional\<close>: no row is an error.\<close>

definition the_row :: "'a option \<Rightarrow> 'a sql" where
  "the_row x d = (d, case x of None \<Rightarrow> Inl (EngineError 0) | Some r \<Rightarrow> Inr r)"

definition count_players :: "nat sql" where
  "count_players = stmt (\<lambda>d. (d, Inr (fmlen (db_players d))))"

definition admit_player_by_token :: "string \<Rightarrow> string \<Rightarrow> int \<Rightarrow> nat \<Rightarrow> player_admission sql" where
  "admit_player_by_token tok name now max_rows =
     in_tx (
       sql_bind (select_player_by_token tok) (\<lambda>existing.
       case existing of
         Some i \<Rightarrow>
           sql_bind (update_player i (\<lambda>r. r\<lparr>pr_name := name, pr_last_seen := now\<rparr>)) (\<lambda>_.
           sql_bind (player i) (\<lambda>r.
           sql_bind (the_row r) (\<lambda>p. sql_ok (Admitted p))))
       | None \<Rightarrow>
           sql_bind count_players (\<lambda>n.
           if n \<ge> max_rows then sql_ok CapacityReached
           else sql_bind (insert_player tok name now) (\<lambda>p. sql_ok (Admitted p)))))"

text \<open>
  The one-statement form: insert, or on a conflict of the token hash refresh the row in place.
  Whether the engine has drawn an AUTOINCREMENT id by the time it meets the conflict is the argument
  \<open>draws\<close>.
\<close>

definition upsert_player_by_token :: "bool \<Rightarrow> string \<Rightarrow> string \<Rightarrow> int \<Rightarrow> player_row sql" where
  "upsert_player_by_token draws tok name now =
     stmt (\<lambda>d.
       case players_by_token tok d of
         i # _ \<Rightarrow>
           if draws \<and> db_players_seq d \<ge> i64_max then (d, Inl TableFull)
           else
             let r = (the (fmlookup (db_players d) i))\<lparr>pr_name := name, pr_last_seen := now\<rparr>
             in (d\<lparr>db_players := fmupd i r (db_players d),
                   db_players_seq := (if draws then db_players_seq d + 1 else db_players_seq d)\<rparr>, Inr r)
       | [] \<Rightarrow>
           if db_players_seq d \<ge> i64_max then (d, Inl TableFull)
           else
             let i = db_players_seq d + 1;
                 r = \<lparr>pr_id = i, pr_name = name, pr_token_hash = tok, pr_gold = 0, pr_created_at = now, pr_last_seen = now\<rparr>
             in (d\<lparr>db_players := fmupd i r (db_players d), db_players_seq := i\<rparr>, Inr r))"

definition player_identities :: "nat \<Rightarrow> (string \<times> int) list sql" where
  "player_identities limit =
     stmt (\<lambda>d. (d, Inr (map (\<lambda>i. (pr_token_hash (the (fmlookup (db_players d) i)), i))
       (take limit (sorted_list_of_fset (fmdom (db_players d)))))))"

definition player_balance :: "int \<Rightarrow> int sql" where
  "player_balance i =
     stmt (\<lambda>d. (d, Inr (case fmlookup (db_players d) i of None \<Rightarrow> 0 | Some r \<Rightarrow> pr_gold r)))"

definition touch_last_seen :: "int \<Rightarrow> int \<Rightarrow> unit sql" where
  "touch_last_seen i now = update_player i (\<lambda>r. r\<lparr>pr_last_seen := now\<rparr>)"

section \<open>Ledger\<close>

text \<open>The join: the player's gold as it is now.\<close>

definition lookup_txn :: "int \<Rightarrow> (int \<times> int) option sql" where
  "lookup_txn i =
     stmt (\<lambda>d. (d, Inr (case fmlookup (db_ledger d) i of
         None \<Rightarrow> None
       | Some l \<Rightarrow> (case fmlookup (db_players d) (lr_player_id l) of
           None \<Rightarrow> None
         | Some p \<Rightarrow> Some (lr_player_id l, pr_gold p)))))"

definition insert_ledger :: "int \<Rightarrow> ledger_row \<Rightarrow> unit sql" where
  "insert_ledger i l =
     stmt (\<lambda>d. if fmlookup (db_ledger d) i \<noteq> None then (d, Inl ConstraintViolation)
               else (d\<lparr>db_ledger := fmupd i l (db_ledger d)\<rparr>, Inr ()))"

definition commit_txn :: "int \<Rightarrow> int \<Rightarrow> int \<Rightarrow> u8 \<Rightarrow> string \<Rightarrow> int \<Rightarrow> int \<Rightarrow> unit sql" where
  "commit_txn i player_id amount kind note applied_at new_balance =
     in_tx (
       sql_bind (insert_ledger i \<lparr>lr_player_id = player_id, lr_amount = amount, lr_kind = kind, lr_note = note,
                                  lr_applied_at = applied_at\<rparr>) (\<lambda>_.
       update_player player_id (\<lambda>r. r\<lparr>pr_gold := new_balance\<rparr>)))"

section \<open>Market\<close>

definition market_state :: "u32 \<Rightarrow> u32 \<Rightarrow> (int \<times> int) option sql" where
  "market_state port item = stmt (\<lambda>d. (d, Inr (fmlookup (db_market d) (port, item))))"

text \<open>A \<open>u64\<close> parameter above \<open>i64::MAX\<close> cannot be bound.\<close>

definition bind_u64 :: "u64 \<Rightarrow> int option" where
  "bind_u64 w = (if uint w \<le> i64_max then Some (uint w) else None)"

definition lookup_trade :: "u64 \<Rightarrow> (u32 \<times> u32 \<times> int \<times> int) option sql" where
  "lookup_trade i =
     stmt (\<lambda>d. (d, case bind_u64 i of
         None \<Rightarrow> Inl ToSqlConversionFailure
       | Some k \<Rightarrow> Inr (map_option (\<lambda>t. (tr_port_id t, tr_item_id t, tr_stock t, tr_price t))
                         (fmlookup (db_market_trades d) k))))"

definition insert_trade :: "u64 \<Rightarrow> trade_row \<Rightarrow> unit sql" where
  "insert_trade i t =
     stmt (\<lambda>d. case bind_u64 i of
         None \<Rightarrow> (d, Inl ToSqlConversionFailure)
       | Some k \<Rightarrow>
           if fmlookup (db_market_trades d) k \<noteq> None then (d, Inl ConstraintViolation)
           else (d\<lparr>db_market_trades := fmupd k t (db_market_trades d)\<rparr>, Inr ()))"

definition upsert_market :: "u32 \<Rightarrow> u32 \<Rightarrow> int \<Rightarrow> int \<Rightarrow> unit sql" where
  "upsert_market port item stock price =
     stmt (\<lambda>d. (d\<lparr>db_market := fmupd (port, item) (stock, price) (db_market d)\<rparr>, Inr ()))"

definition commit_trade :: "u64 \<Rightarrow> u32 \<Rightarrow> u32 \<Rightarrow> int \<Rightarrow> int \<Rightarrow> int \<Rightarrow> unit sql" where
  "commit_trade i port item new_stock new_price applied_at =
     in_tx (
       sql_bind (insert_trade i \<lparr>tr_port_id = port, tr_item_id = item, tr_stock = new_stock, tr_price = new_price,
                                 tr_applied_at = applied_at\<rparr>) (\<lambda>_.
       upsert_market port item new_stock new_price))"

section \<open>Moorings\<close>

text \<open>A vector through REAL columns; a component that becomes NULL violates NOT NULL.\<close>

definition real3 :: "(f32 \<Rightarrow> f32 option) \<Rightarrow> vec3 \<Rightarrow> vec3 option" where
  "real3 col v =
     (case v of (x, y, z) \<Rightarrow>
        Option.bind (col x) (\<lambda>x'. Option.bind (col y) (\<lambda>y'. Option.bind (col z) (\<lambda>z'. Some (x', y', z')))))"

definition real4 :: "(f32 \<Rightarrow> f32 option) \<Rightarrow> quat \<Rightarrow> quat option" where
  "real4 col v =
     (case v of (x, y, z, w) \<Rightarrow>
        Option.bind (col x) (\<lambda>x'. Option.bind (real3 col (y, z, w)) (\<lambda>r. Some (x', r))))"

definition upsert_mooring :: "(f32 \<Rightarrow> f32 option) \<Rightarrow> mooring_row \<Rightarrow> unit sql" where
  "upsert_mooring col m =
     stmt (\<lambda>d.
       case (real3 col (mr_pos m), real4 col (mr_rot m)) of
         (Some p, Some q) \<Rightarrow>
           let created = (case fmlookup (db_moorings d) (mr_boat_id m) of
                            Some old \<Rightarrow> mr_created_at old | None \<Rightarrow> mr_created_at m)
           in (d\<lparr>db_moorings := fmupd (mr_boat_id m) (m\<lparr>mr_pos := p, mr_rot := q, mr_created_at := created\<rparr>)
                  (db_moorings d)\<rparr>, Inr ())
       | _ \<Rightarrow> (d, Inl ConstraintViolation))"

text \<open>The rows of a cell in \<open>boat_id\<close> order.\<close>

definition cell_moorings :: "int \<Rightarrow> int \<Rightarrow> db \<Rightarrow> mooring_row list" where
  "cell_moorings x z d =
     filter (\<lambda>m. mr_cell_x m = x \<and> mr_cell_z m = z)
       (map (\<lambda>i. the (fmlookup (db_moorings d) i)) (sorted_list_of_fset (fmdom (db_moorings d))))"

definition moorings_in_cell :: "int \<Rightarrow> int \<Rightarrow> mooring_row list sql" where
  "moorings_in_cell x z = stmt (\<lambda>d. (d, Inr (cell_moorings x z d)))"

definition moorings_in_cell_after :: "int \<Rightarrow> int \<Rightarrow> int option \<Rightarrow> nat \<Rightarrow> mooring_row list sql" where
  "moorings_in_cell_after x z after limit =
     (if \<not> (1 \<le> limit \<and> limit \<le> MAX_MOORINGS_PAGE_ROWS) then (\<lambda>d. (d, Inl InvalidParameterName))
      else
        (case after of
           Some a \<Rightarrow> stmt (\<lambda>d. (d, Inr (take limit (filter (\<lambda>m. mr_boat_id m > a) (cell_moorings x z d)))))
         | None \<Rightarrow> stmt (\<lambda>d. (d, Inr (take limit (cell_moorings x z d))))))"

definition mooring_count :: "int sql" where
  "mooring_count = stmt (\<lambda>d. (d, Inr (int (fmlen (db_moorings d)))))"

section \<open>World key/value\<close>

definition world_get :: "string \<Rightarrow> string option sql" where
  "world_get k = stmt (\<lambda>d. (d, Inr (fmlookup (db_world d) k)))"

definition world_set :: "string \<Rightarrow> string \<Rightarrow> unit sql" where
  "world_set k v = stmt (\<lambda>d. (d\<lparr>db_world := fmupd k v (db_world d)\<rparr>, Inr ()))"

definition world_get_or_init :: "string \<Rightarrow> string \<Rightarrow> string sql" where
  "world_get_or_init k dflt =
     sql_bind (world_get k) (\<lambda>x. case x of Some v \<Rightarrow> sql_ok v | None \<Rightarrow> sql_bind (world_set k dflt) (\<lambda>_. sql_ok dflt))"

section \<open>Reasoning about statements\<close>

lemma faults_self: "db_faults d = fs \<Longrightarrow> d\<lparr>db_faults := fs\<rparr> = d"
  by (cases d) simp

text \<open>A statement is refused by the engine, or runs on the tables; either way it uses up a verdict.\<close>

lemma stmt_cases:
  assumes "stmt f d = (d', r)"
  obtains (fault) fs e where "r = Inl e" "d' = d\<lparr>db_faults := fs\<rparr>"
  | (runs) fs where "f (d\<lparr>db_faults := fs\<rparr>) = (d', r)"
proof (cases "db_faults d")
  case Nil
  with assms runs [of "[]"] show ?thesis by (simp add: stmt_def faults_self)
next
  case (Cons v fs)
  with assms fault [of _ fs] runs [of fs] show ?thesis by (cases v) (auto simp: stmt_def)
qed

lemma bind_cases:
  assumes "sql_bind m f d = (d', r)"
  obtains (err) e where "m d = (d', Inl e)" "r = Inl e"
  | (ok) d1 x where "m d = (d1, Inr x)" "f x d1 = (d', r)"
proof (cases "m d")
  case (Pair d1 q)
  with assms err ok show ?thesis by (cases q) (auto simp: sql_bind_def)
qed

text \<open>A statement that only reads never changes a table, whether or not it fails.\<close>

lemma stmt_read:
  assumes "stmt (\<lambda>d. (d, g d)) d = (d', r)"
  shows "\<exists>fs. d' = d\<lparr>db_faults := fs\<rparr> \<and> ((\<exists>e. r = Inl e) \<or> r = g d')"
  using assms by (cases rule: stmt_cases) auto

lemma in_tx_cases:
  assumes "in_tx body d = (d', r)"
  obtains (err) fs e where "r = Inl e" "d' = d\<lparr>db_faults := fs\<rparr>"
  | (ok) x fs d1 gs where "r = Inr x" "body (d\<lparr>db_faults := fs\<rparr>) = (d1, Inr x)" "d' = d1\<lparr>db_faults := gs\<rparr>"
proof -
  obtain d0 r0 where b: "stmt (sql_ok ()) d = (d0, r0)" by (cases "stmt (sql_ok ()) d")
  then obtain fs where d0: "d0 = d\<lparr>db_faults := fs\<rparr>" by (cases rule: stmt_cases) (auto simp: sql_ok_def)
  show ?thesis
  proof (cases r0)
    case (Inl e)
    with assms b d0 err show ?thesis by (auto simp: in_tx_def)
  next
    case (Inr u)
    obtain d1 r1 where m: "body d0 = (d1, r1)" by (cases "body d0")
    show ?thesis
    proof (cases r1)
      case (Inl e)
      with assms b d0 err m \<open>r0 = Inr u\<close> show ?thesis by (auto simp: in_tx_def)
    next
      case r1: (Inr x)
      obtain d2 r2 where c: "stmt (sql_ok ()) d1 = (d2, r2)" by (cases "stmt (sql_ok ()) d1")
      then obtain gs where "d2 = d1\<lparr>db_faults := gs\<rparr>" by (cases rule: stmt_cases) (auto simp: sql_ok_def)
      with assms b d0 err ok [of x fs d1 gs] m c r1 Inr show ?thesis by (cases r2) (auto simp: in_tx_def)
    qed
  qed
qed

section \<open>The invariant of the tables\<close>

definition db_inv :: "db \<Rightarrow> bool" where
  "db_inv d \<longleftrightarrow>
     (\<forall>i r. fmlookup (db_players d) i = Some r \<longrightarrow>
        pr_id r = i \<and> 1 \<le> i \<and> i \<le> db_players_seq d \<and> 0 \<le> pr_gold r \<and> pr_gold r \<le> i64_max)
     \<and> 0 \<le> db_players_seq d \<and> db_players_seq d \<le> i64_max
     \<and> (\<forall>i j r s. fmlookup (db_players d) i = Some r \<longrightarrow> fmlookup (db_players d) j = Some s \<longrightarrow>
          pr_token_hash r = pr_token_hash s \<longrightarrow> i = j)
     \<and> (\<forall>k l. fmlookup (db_ledger d) k = Some l \<longrightarrow> fmlookup (db_players d) (lr_player_id l) \<noteq> None)
     \<and> (\<forall>b m. fmlookup (db_moorings d) b = Some m \<longrightarrow> mr_boat_id m = b)"

lemma db_inv_faults [simp]: "db_inv (d\<lparr>db_faults := fs\<rparr>) = db_inv d"
  by (simp add: db_inv_def)

lemma db_inv_player:
  assumes "db_inv d" "fmlookup (db_players d) i = Some r"
  shows "pr_id r = i" "1 \<le> i" "i \<le> db_players_seq d" "0 \<le> pr_gold r" "pr_gold r \<le> i64_max"
  using assms by (auto simp: db_inv_def)

lemma players_by_token_set:
  "set (players_by_token tok d) = {i. \<exists>r. fmlookup (db_players d) i = Some r \<and> pr_token_hash r = tok}"
  by (auto simp: players_by_token_def intro: fmdomI)

lemma players_by_token_Nil:
  "players_by_token tok d = [] \<longleftrightarrow> (\<forall>i r. fmlookup (db_players d) i = Some r \<longrightarrow> pr_token_hash r \<noteq> tok)"
proof -
  have "players_by_token tok d = [] \<longleftrightarrow> set (players_by_token tok d) = {}" by simp
  then show ?thesis unfolding players_by_token_set by auto
qed

lemma update_player_value:
  assumes "update_player i f d = (d', r)"
  obtains (err) fs e where "r = Inl e" "d' = d\<lparr>db_faults := fs\<rparr>"
  | (none) fs where "r = Inr ()" "fmlookup (db_players d) i = None" "d' = d\<lparr>db_faults := fs\<rparr>"
  | (ok) fs p where "r = Inr ()" "fmlookup (db_players d) i = Some p"
      "d' = d\<lparr>db_players := fmupd i (f p) (db_players d), db_faults := fs\<rparr>"
proof -
  from assms consider (f) fs e where "r = Inl e" "d' = d\<lparr>db_faults := fs\<rparr>"
    | (g) fs where "(case fmlookup (db_players (d\<lparr>db_faults := fs\<rparr>)) i of
          None \<Rightarrow> (d\<lparr>db_faults := fs\<rparr>, Inr ())
        | Some p \<Rightarrow> ((d\<lparr>db_faults := fs\<rparr>)\<lparr>db_players := fmupd i (f p) (db_players (d\<lparr>db_faults := fs\<rparr>))\<rparr>, Inr ())) = (d', r)"
    unfolding update_player_def by (cases rule: stmt_cases) auto
  then show ?thesis
  proof cases
    case f
    then show ?thesis by (rule err)
  next
    case g
    then show ?thesis
      using none [of fs] ok [of _ fs] by (cases "fmlookup (db_players d) i") auto
  qed
qed

lemma update_row_inv:
  assumes inv: "db_inv d" and p: "fmlookup (db_players d) i = Some p"
    and q: "pr_id q = pr_id p" "pr_token_hash q = pr_token_hash p" "0 \<le> pr_gold q" "pr_gold q \<le> i64_max"
  shows "db_inv (d\<lparr>db_players := fmupd i q (db_players d)\<rparr>)"
  using inv p q unfolding db_inv_def by (fastforce split: if_splits)

lemma insert_player_value:
  assumes inv: "db_inv d" and eq: "insert_player tok name now d = (d', r)"
  obtains (err) fs e where "r = Inl e" "d' = d\<lparr>db_faults := fs\<rparr>"
  | (ok) fs p where "r = Inr p"
      "p = \<lparr>pr_id = db_players_seq d + 1, pr_name = name, pr_token_hash = tok, pr_gold = 0, pr_created_at = now, pr_last_seen = now\<rparr>"
      "fmlookup (db_players d) (pr_id p) = None" "db_players_seq d < i64_max"
      "\<forall>i r. fmlookup (db_players d) i = Some r \<longrightarrow> pr_token_hash r \<noteq> tok"
      "d' = d\<lparr>db_players := fmupd (pr_id p) p (db_players d), db_players_seq := pr_id p, db_faults := fs\<rparr>"
proof -
  have new: "fmlookup (db_players d) (db_players_seq d + 1) = None"
    using db_inv_player(3) [OF inv, of "db_players_seq d + 1"] by (cases "fmlookup (db_players d) (db_players_seq d + 1)") auto
  have pt: "players_by_token tok (d\<lparr>db_faults := fs\<rparr>) = players_by_token tok d" for fs
    by (simp add: players_by_token_def)
  show ?thesis
    using eq unfolding insert_player_def
  proof (cases rule: stmt_cases)
    case (runs fs)
    show ?thesis
    proof (cases "players_by_token tok d \<noteq> [] \<or> db_players_seq d \<ge> i64_max")
      case True
      with runs err show ?thesis by (auto simp: pt split: if_splits)
    next
      case False
      then have "\<forall>i r. fmlookup (db_players d) i = Some r \<longrightarrow> pr_token_hash r \<noteq> tok"
        by (simp add: players_by_token_Nil)
      with runs False new show ?thesis by (intro ok [where fs = fs]) (auto simp: pt Let_def)
    qed
  qed (rule err)
qed

lemma insert_row_inv:
  assumes inv: "db_inv d" and p: "pr_id p = db_players_seq d + 1" "pr_gold p = 0" "db_players_seq d < i64_max"
    "\<forall>i r. fmlookup (db_players d) i = Some r \<longrightarrow> pr_token_hash r \<noteq> pr_token_hash p"
  shows "db_inv (d\<lparr>db_players := fmupd (pr_id p) p (db_players d), db_players_seq := pr_id p\<rparr>)"
proof -
  have b: "\<forall>i r. fmlookup (db_players d) i = Some r \<longrightarrow> i \<noteq> db_players_seq d + 1"
    using db_inv_player(3) [OF inv] by fastforce
  have "0 \<le> i64_max" by (simp add: machine_int)
  with inv p b show ?thesis unfolding db_inv_def by (fastforce split: if_splits)
qed

section \<open>Admission\<close>

text \<open>What an admission may do, case by case.\<close>

definition admission_ok :: "string \<Rightarrow> string \<Rightarrow> int \<Rightarrow> nat \<Rightarrow> db \<Rightarrow> db \<times> (sql_error + player_admission) \<Rightarrow> bool" where
  "admission_ok tok name now max_rows d res =
     (case res of
        (d', Inl _) \<Rightarrow> (\<exists>fs. d' = d\<lparr>db_faults := fs\<rparr>)
      | (d', Inr CapacityReached) \<Rightarrow>
          (\<exists>fs. d' = d\<lparr>db_faults := fs\<rparr>) \<and> max_rows \<le> fmlen (db_players d)
          \<and> (\<forall>i r. fmlookup (db_players d) i = Some r \<longrightarrow> pr_token_hash r \<noteq> tok)
      | (d', Inr (Admitted p)) \<Rightarrow>
          db_players d' = fmupd (pr_id p) p (db_players d) \<and> db_ledger d' = db_ledger d \<and> db_moorings d' = db_moorings d
          \<and> pr_token_hash p = tok \<and> pr_name p = name \<and> pr_last_seen p = now
          \<and> (case fmlookup (db_players d) (pr_id p) of
               Some old \<Rightarrow> pr_token_hash old = tok \<and> pr_gold p = pr_gold old \<and> pr_created_at p = pr_created_at old
             | None \<Rightarrow> fmlen (db_players d) < max_rows \<and> pr_gold p = 0 \<and> pr_created_at p = now
                 \<and> (\<forall>i r. fmlookup (db_players d) i = Some r \<longrightarrow> pr_token_hash r \<noteq> tok)))"

lemma select_player_cases:
  assumes "select_player_by_token tok d = (d', r)"
  obtains (err) fs e where "r = Inl e" "d' = d\<lparr>db_faults := fs\<rparr>"
  | (none) fs where "r = Inr None" "d' = d\<lparr>db_faults := fs\<rparr>"
      "\<forall>i r. fmlookup (db_players d) i = Some r \<longrightarrow> pr_token_hash r \<noteq> tok"
  | (some) fs i p where "r = Inr (Some i)" "d' = d\<lparr>db_faults := fs\<rparr>" "fmlookup (db_players d) i = Some p"
      "pr_token_hash p = tok"
proof -
  obtain fs where fs: "d' = d\<lparr>db_faults := fs\<rparr>"
      "(\<exists>e. r = Inl e) \<or> r = Inr (case players_by_token tok d' of [] \<Rightarrow> None | i # _ \<Rightarrow> Some i)"
    using stmt_read [OF assms [unfolded select_player_by_token_def]] by blast
  have pt: "players_by_token tok d' = players_by_token tok d" by (simp add: fs players_by_token_def)
  show ?thesis
  proof (cases "players_by_token tok d")
    case Nil
    then have "(\<exists>e. r = Inl e) \<or> r = Inr None" using fs(2) pt by simp
    with fs(1) Nil err none show ?thesis unfolding players_by_token_Nil by blast
  next
    case (Cons i rest)
    then have "i \<in> set (players_by_token tok d)" by simp
    then obtain p where "fmlookup (db_players d) i = Some p" "pr_token_hash p = tok"
      by (auto simp: players_by_token_set)
    with fs pt err some Cons show ?thesis by auto
  qed
qed

lemma admit_body_ok:
  assumes inv: "db_inv d"
    and eq: "sql_bind (select_player_by_token tok) (\<lambda>existing.
       case existing of
         Some i \<Rightarrow>
           sql_bind (update_player i (\<lambda>r. r\<lparr>pr_name := name, pr_last_seen := now\<rparr>)) (\<lambda>_.
           sql_bind (player i) (\<lambda>r. sql_bind (the_row r) (\<lambda>p. sql_ok (Admitted p))))
       | None \<Rightarrow>
           sql_bind count_players (\<lambda>n. if n \<ge> max_rows then sql_ok CapacityReached
           else sql_bind (insert_player tok name now) (\<lambda>p. sql_ok (Admitted p)))) d = (d', Inr a)"
  shows "admission_ok tok name now max_rows d (d', Inr a) \<and> db_inv d'"
  using eq
proof (cases rule: bind_cases)
  case (ok d1 x)
  from ok(1) show ?thesis
  proof (cases rule: select_player_cases)
    case (some fs i p)
    let ?q = "p\<lparr>pr_name := name, pr_last_seen := now\<rparr>"
    from ok(2) some obtain d2 u where u: "update_player i (\<lambda>r. r\<lparr>pr_name := name, pr_last_seen := now\<rparr>) d1 = (d2, Inr u)"
        and rest: "sql_bind (player i) (\<lambda>r. sql_bind (the_row r) (\<lambda>p. sql_ok (Admitted p))) d2 = (d', Inr a)"
      by (auto elim: bind_cases)
    from u some obtain gs where d2: "d2 = d\<lparr>db_players := fmupd i ?q (db_players d), db_faults := gs\<rparr>"
      by (cases rule: update_player_value) auto
    from rest have "\<exists>hs. d' = d2\<lparr>db_faults := hs\<rparr> \<and> a = Admitted ?q"
      using d2 by (auto simp: player_def the_row_def sql_ok_def elim!: bind_cases dest!: stmt_read split: option.splits)
    then obtain hs where fin: "d' = d2\<lparr>db_faults := hs\<rparr>" "a = Admitted ?q" by blast
    have id: "pr_id p = i" using db_inv_player(1) [OF inv some(3)] .
    moreover have "db_inv d'"
      using update_row_inv [OF inv some(3), of ?q] db_inv_player [OF inv some(3)] by (simp add: fin d2)
    ultimately show ?thesis using fin d2 some by (simp add: admission_ok_def)
  next
    case (none fs)
    from ok(2) none obtain d2 n where c: "count_players d1 = (d2, Inr n)"
        and rest: "(if n \<ge> max_rows then sql_ok CapacityReached
           else sql_bind (insert_player tok name now) (\<lambda>p. sql_ok (Admitted p))) d2 = (d', Inr a)"
      by (auto elim: bind_cases)
    from c none obtain gs where d2: "d2 = d\<lparr>db_faults := gs\<rparr>" "n = fmlen (db_players d)"
      by (auto simp: count_players_def dest!: stmt_read)
    show ?thesis
    proof (cases "n \<ge> max_rows")
      case True
      with rest d2 inv none show ?thesis by (auto simp: sql_ok_def admission_ok_def)
    next
      case False
      with rest obtain p where p: "insert_player tok name now d2 = (d', Inr p)" "a = Admitted p"
        by (auto simp: sql_ok_def elim!: bind_cases)
      have "db_inv d2" using inv d2 by simp
      from this p(1) show ?thesis
      proof (cases rule: insert_player_value)
        case (ok hs q)
        have "db_inv d'"
          using insert_row_inv [OF \<open>db_inv d2\<close>, of q] ok by simp
        with ok p d2 False none show ?thesis by (auto simp: admission_ok_def)
      qed simp
    qed
  qed (use ok in simp)
qed simp

lemma admit_player_ok:
  assumes inv: "db_inv d"
  shows "admission_ok tok name now max_rows d (admit_player_by_token tok name now max_rows d)
    \<and> db_inv (fst (admit_player_by_token tok name now max_rows d))"
proof (cases "admit_player_by_token tok name now max_rows d")
  case (Pair d' r)
  from Pair [unfolded admit_player_by_token_def] show ?thesis
  proof (cases rule: in_tx_cases)
    case (err fs e)
    with Pair inv show ?thesis by (auto simp: admission_ok_def)
  next
    case (ok x fs d1 gs)
    have inv': "db_inv (d\<lparr>db_faults := fs\<rparr>)" using inv by simp
    from admit_body_ok [OF inv' ok(2)] have "admission_ok tok name now max_rows (d\<lparr>db_faults := fs\<rparr>) (d1, Inr x)" "db_inv d1"
      by auto
    with ok(1,3) show ?thesis unfolding Pair
      by (auto simp: admission_ok_def split: player_admission.splits option.splits)
  qed
qed

section \<open>The other writes keep the tables consistent\<close>

lemma db_inv_moorings:
  assumes "db_inv d" "mr_boat_id m = b"
  shows "db_inv (d\<lparr>db_faults := fs, db_moorings := fmupd b m (db_moorings d)\<rparr>)"
  using assms unfolding db_inv_def by (simp split: if_splits)

lemma upsert_mooring_inv:
  assumes inv: "db_inv d"
  shows "db_inv (fst (upsert_mooring col m d))"
proof (cases "upsert_mooring col m d")
  case (Pair d' r)
  from Pair [unfolded upsert_mooring_def] have "db_inv d'"
  proof (cases rule: stmt_cases)
    case (runs fs)
    with inv show ?thesis
      by (auto simp: Let_def intro!: db_inv_moorings split: option.splits prod.splits)
  qed (use inv in simp)
  with Pair show ?thesis by simp
qed

lemma touch_last_seen_inv:
  assumes inv: "db_inv d"
  shows "db_inv (fst (touch_last_seen i now d))"
proof (cases "touch_last_seen i now d")
  case (Pair d' r)
  from Pair [unfolded touch_last_seen_def] have "db_inv d'"
  proof (cases rule: update_player_value)
    case (ok fs p)
    with inv update_row_inv [OF inv ok(2), of "p\<lparr>pr_last_seen := now\<rparr>"] db_inv_player [OF inv ok(2)]
    show ?thesis by simp
  qed (use inv in simp_all)
  with Pair show ?thesis by simp
qed

section \<open>Paging through a cell\<close>

lemma cell_moorings_ids:
  assumes "db_inv d"
  shows "sorted_wrt (<) (map mr_boat_id (cell_moorings x z d))"
proof -
  let ?ids = "sorted_list_of_fset (fmdom (db_moorings d))" and ?row = "\<lambda>i. the (fmlookup (db_moorings d) i)"
  have key: "mr_boat_id (?row i) = i" if "i \<in> set ?ids" for i
    using assms that by (auto simp: db_inv_def fmlookup_dom_iff)
  have "sorted_wrt (<) ?ids" by (simp add: strict_sorted_iff)
  then have "sorted_wrt (\<lambda>i j. mr_boat_id (?row i) < mr_boat_id (?row j)) ?ids"
    by (rule sorted_wrt_mono_rel [rotated]) (use key in auto)
  then show ?thesis unfolding cell_moorings_def by (simp add: sorted_wrt_map sorted_wrt_filter)
qed

lemma filter_above_nth:
  fixes f :: "'a \<Rightarrow> 'b::linorder"
  assumes "sorted_wrt (<) (map f xs)" "k < length xs"
  shows "filter (\<lambda>x. f x > f (xs ! k)) xs = drop (Suc k) xs"
  using assms
proof (induction xs arbitrary: k)
  case (Cons y ys)
  show ?case
  proof (cases k)
    case 0
    with Cons.prems show ?thesis by (auto simp: filter_id_conv)
  next
    case (Suc j)
    with Cons.prems have "f y < f (ys ! j)" by auto
    then have "\<not> f (ys ! j) < f y" by simp
    with Suc Cons show ?thesis by auto
  qed
qed simp


text \<open>Keyset paging is offset paging. Continuing after the \<open>boat_id\<close> of the row at position
  \<open>k\<close> returns the rows from position \<open>k + 1\<close> on, so following the pages from the start lists
  every mooring of the cell once, in \<open>boat_id\<close> order, and a bad page size is an error.\<close>

theorem mooring_pages_exact:
  assumes "db_inv d" "db_faults d = []"
  shows "(limit \<notin> {1..8} \<longrightarrow> moorings_in_cell_after x z after limit d = (d, Inl InvalidParameterName))
    \<and> (limit \<in> {1..8} \<longrightarrow>
        moorings_in_cell_after x z None limit d = (d, Inr (take limit (cell_moorings x z d)))
        \<and> (\<forall>k < length (cell_moorings x z d).
             moorings_in_cell_after x z (Some (mr_boat_id (cell_moorings x z d ! k))) limit d
               = (d, Inr (take limit (drop (Suc k) (cell_moorings x z d))))))"
  using assms(2) filter_above_nth [OF cell_moorings_ids [OF assms(1)]]
  by (auto simp: moorings_in_cell_after_def stmt_def MAX_MOORINGS_PAGE_ROWS_def)

definition demo_mooring :: "int \<Rightarrow> mooring_row" where
  "demo_mooring b = \<lparr>mr_boat_id = b, mr_owner = 1, mr_cell_x = 0, mr_cell_z = 0, mr_pos = (0, 0, 0),
     mr_rot = (0, 0, 0, 0), mr_name = ''sloop'', mr_created_at = 0\<rparr>"

definition demo_harbour :: db where
  "demo_harbour = (db_empty [])\<lparr>db_moorings := fmupd 7 (demo_mooring 7) (fmupd 3 (demo_mooring 3) fmempty)\<rparr>"

theorem mooring_pages_exact_witness:
  "moorings_in_cell_after 0 0 None 1 demo_harbour = (demo_harbour, Inr [demo_mooring 3])
   \<and> moorings_in_cell_after 0 0 (Some 3) 1 demo_harbour = (demo_harbour, Inr [demo_mooring 7])"
proof -
  have inv: "db_inv demo_harbour" "db_faults demo_harbour = []"
    by (simp_all add: db_inv_def demo_harbour_def db_empty_def demo_mooring_def i64_max_def)
  have cell: "cell_moorings 0 0 demo_harbour = [demo_mooring 3, demo_mooring 7]"
    by (simp add: cell_moorings_def demo_harbour_def db_empty_def demo_mooring_def sorted_list_of_fset.rep_eq)
  show ?thesis
    using mooring_pages_exact [OF inv, where limit = 1 and x = 0 and z = 0] unfolding cell
    by (auto simp: demo_mooring_def dest: spec [of _ 0])
qed

text \<open>C22: admitting a player is all or nothing. An engine failure at any statement leaves every
  table as it was; a known token is always admitted with its balance and creation time kept and its
  name and last-seen time refreshed; an unknown token is refused exactly when the table is full and
  otherwise gets a new row with no gold. Other players, the ledger and the moorings are untouched
  and the tables stay consistent.\<close>

theorem player_admission_atomic:
  assumes "db_inv d"
  shows "admission_ok tok name now max_rows d (admit_player_by_token tok name now max_rows d)
    \<and> db_inv (fst (admit_player_by_token tok name now max_rows d))"
  by (rule admit_player_ok [OF assms])

theorem player_admission_atomic_witness:
  "admission_ok ''t'' ''ann'' 5 10 (db_empty []) (admit_player_by_token ''t'' ''ann'' 5 10 (db_empty []))"
  using player_admission_atomic [of "db_empty []"] by (simp add: db_inv_def db_empty_def i64_max_def)

section \<open>The one-statement upsert\<close>

lemma db_inv_seq: "db_inv d \<Longrightarrow> db_players_seq d < i64_max \<Longrightarrow> db_inv (d\<lparr>db_players_seq := db_players_seq d + 1\<rparr>)"
  unfolding db_inv_def by fastforce

lemma upsert_player_ok:
  assumes inv: "db_inv d" and eq: "upsert_player_by_token draws tok name now d = (d', r)"
  shows "db_inv d' \<and> admission_ok tok name now (Suc (fmlen (db_players d))) d (d', map_sum id Admitted r)"
  using eq unfolding upsert_player_by_token_def
proof (cases rule: stmt_cases)
  case (fault fs e)
  with inv show ?thesis by (auto simp: admission_ok_def)
next
  case (runs fs)
  have pt: "players_by_token tok (d\<lparr>db_faults := fs\<rparr>) = players_by_token tok d" by (simp add: players_by_token_def)
  show ?thesis
  proof (cases "players_by_token tok d")
    case Nil
    let ?p = "\<lparr>pr_id = db_players_seq d + 1, pr_name = name, pr_token_hash = tok, pr_gold = 0, pr_created_at = now, pr_last_seen = now\<rparr>"
    have new: "\<forall>i r. fmlookup (db_players d) i = Some r \<longrightarrow> pr_token_hash r \<noteq> tok" using Nil by (simp add: players_by_token_Nil)
    have none: "fmlookup (db_players d) (db_players_seq d + 1) = None"
      using db_inv_player(3) [OF inv, of "db_players_seq d + 1"] by (cases "fmlookup (db_players d) (db_players_seq d + 1)") auto
    show ?thesis
      using runs Nil pt inv new none insert_row_inv [of "d\<lparr>db_faults := fs\<rparr>" ?p] by (auto simp: Let_def admission_ok_def split: if_splits)
  next
    case (Cons i rest)
    then have "i \<in> set (players_by_token tok d)" by simp
    then obtain p where p: "fmlookup (db_players d) i = Some p" "pr_token_hash p = tok" by (auto simp: players_by_token_set)
    let ?q = "p\<lparr>pr_name := name, pr_last_seen := now\<rparr>"
    let ?d = "d\<lparr>db_faults := fs\<rparr>"
    have "db_inv (?d\<lparr>db_players := fmupd i ?q (db_players ?d)\<rparr>)"
      using inv p db_inv_player [OF inv p(1)] by (intro update_row_inv [of _ _ p]) auto
    with db_inv_seq [OF this] have "db_inv (?d\<lparr>db_players := fmupd i ?q (db_players d),
        db_players_seq := (if draws then db_players_seq d + 1 else db_players_seq d)\<rparr>)"
      if "\<not> (draws \<and> i64_max \<le> db_players_seq d)"
      using that by (cases draws) auto
    then show ?thesis
      using runs Cons pt p inv db_inv_player(1) [OF inv p(1)] by (auto simp: Let_def admission_ok_def split: if_splits)
  qed
qed

text \<open>Below the ceiling and without engine failures it does what the admitting transaction does.\<close>

lemma upsert_equals_admit:
  assumes "db_faults d = []" "fmlen (db_players d) < max_rows"
  shows "admit_player_by_token tok name now max_rows d = map_prod id (map_sum id Admitted) (upsert_player_by_token False tok name now d)"
proof (cases "players_by_token tok d")
  case Nil
  with assms show ?thesis
    by (simp add: admit_player_by_token_def upsert_player_by_token_def in_tx_def stmt_def sql_ok_def sql_bind_def
        select_player_by_token_def count_players_def insert_player_def Let_def)
next
  case (Cons i rest)
  then have "i \<in> set (players_by_token tok d)" by simp
  then obtain p where "fmlookup (db_players d) i = Some p" by (auto simp: players_by_token_set)
  with assms Cons show ?thesis
    by (simp add: admit_player_by_token_def upsert_player_by_token_def in_tx_def stmt_def sql_ok_def sql_bind_def
        select_player_by_token_def update_player_def player_def the_row_def Let_def)
qed

end
