(* ===== verification/Econ_Store.thy ===== *)
theory Econ_Store
  imports Persist Econ
begin

text \<open>
  The adapters that run the ledger and the market over SQLite,
  \<open>server/crates/sw-server/src/econ_store.rs\<close>, and that they keep the store contracts of
  \<open>Econ\<close> over every pattern of engine failures. The ledger's replay answer is the one place
  where the two stores differ: the SQL join returns the player's balance as it is now.
\<close>

section \<open>The adapters\<close>

definition db_balance :: "player_id \<Rightarrow> int sql" where
  "db_balance p = player_balance (i64_of_u64 p)"

definition map_sql :: "('a \<Rightarrow> 'b) \<Rightarrow> 'a sql \<Rightarrow> 'b sql" where
  "map_sql f m = sql_bind m (\<lambda>x. sql_ok (f x))"

definition db_lookup_txn :: "u64 \<Rightarrow> recorded_txn option sql" where
  "db_lookup_txn i =
     map_sql (map_option (\<lambda>(p, b). \<lparr>rec_player = u64_of_i64 p, rec_new_balance = b\<rparr>)) (lookup_txn (i64_of_u64 i))"

definition db_commit :: "int \<Rightarrow> player_id \<Rightarrow> txn \<Rightarrow> int \<Rightarrow> unit sql" where
  "db_commit now_ms p t new_balance =
     commit_txn (i64_of_u64 (txn_id t)) (i64_of_u64 p) (amount_gold t) (txn_kind t) (txn_note t) now_ms new_balance"

definition db_market_state :: "u32 \<Rightarrow> u32 \<Rightarrow> (int \<times> int) sql" where
  "db_market_state port item = map_sql (\<lambda>x. case x of None \<Rightarrow> (0, 0) | Some s \<Rightarrow> s) (market_state port item)"

definition db_lookup_trade :: "u64 \<Rightarrow> recorded_trade option sql" where
  "db_lookup_trade i =
     map_sql (map_option (\<lambda>(port, item, stock, price).
       \<lparr>rtr_port_id = port, rtr_item_id = item, rtr_stock = stock, rtr_price = price\<rparr>)) (lookup_trade i)"

definition db_market_commit :: "int \<Rightarrow> trade \<Rightarrow> int \<Rightarrow> int \<Rightarrow> unit sql" where
  "db_market_commit now_ms t new_stock new_price =
     commit_trade (trade_txn_id t) (trade_port_id t) (trade_item_id t) new_stock new_price now_ms"

text \<open>\<open>Ledger::new(DbLedgerStore::new(..)).apply(..)\<close> and the market's counterpart.\<close>

definition db_ledger_apply :: "int \<Rightarrow> player_id \<Rightarrow> txn \<Rightarrow> ledger_ack sql" where
  "db_ledger_apply now_ms = ledger_apply db_balance db_lookup_txn (db_commit now_ms)"

definition db_market_apply :: "int \<Rightarrow> trade \<Rightarrow> market_ack sql" where
  "db_market_apply now_ms = market_apply db_market_state db_lookup_trade (db_market_commit now_ms)"

section \<open>The ledger contract\<close>

definition db_ledger_view :: "db \<Rightarrow> ledger_view" where
  "db_ledger_view d =
     \<lparr>v_known = {p. fmlookup (db_players d) (i64_of_u64 p) \<noteq> None},
      v_bal = (\<lambda>p. case fmlookup (db_players d) (i64_of_u64 p) of None \<Rightarrow> 0 | Some r \<Rightarrow> pr_gold r),
      v_seen = {i. fmlookup (db_ledger d) (i64_of_u64 i) \<noteq> None}\<rparr>"

lemma db_ledger_view_faults [simp]: "db_ledger_view (d\<lparr>db_faults := fs\<rparr>) = db_ledger_view d"
  by (simp add: db_ledger_view_def)

lemma map_sql_read:
  assumes "map_sql f (stmt (\<lambda>d. (d, g d))) d = (d', r)"
  shows "\<exists>fs. d' = d\<lparr>db_faults := fs\<rparr> \<and> ((\<exists>e. r = Inl e) \<or> (\<exists>x. g d' = Inr x \<and> r = Inr (f x)))"
  using assms unfolding map_sql_def
proof (cases rule: bind_cases)
  case (err e)
  with stmt_read [OF err(1)] show ?thesis by auto
next
  case (ok d1 x)
  from stmt_read [OF ok(1)] obtain fs where "d1 = d\<lparr>db_faults := fs\<rparr>" "g d1 = Inr x" by auto
  moreover have "d' = d1" "r = Inr (f x)" using ok(2) by (simp_all add: sql_ok_def)
  ultimately show ?thesis by blast
qed

lemma db_inv_ledger:
  "db_inv d \<Longrightarrow> fmlookup (db_ledger d) k = Some l \<Longrightarrow> \<exists>p. fmlookup (db_players d) (lr_player_id l) = Some p"
  unfolding db_inv_def by blast

lemma insert_ledger_value:
  assumes "insert_ledger i l d = (d', r)"
  obtains (err) fs e where "r = Inl e" "d' = d\<lparr>db_faults := fs\<rparr>"
  | (ok) fs where "r = Inr ()" "fmlookup (db_ledger d) i = None" "d' = d\<lparr>db_ledger := fmupd i l (db_ledger d), db_faults := fs\<rparr>"
proof -
  from assms consider (f) fs e where "r = Inl e" "d' = d\<lparr>db_faults := fs\<rparr>"
    | (g) fs where "(if fmlookup (db_ledger (d\<lparr>db_faults := fs\<rparr>)) i \<noteq> None then (d\<lparr>db_faults := fs\<rparr>, Inl ConstraintViolation)
        else ((d\<lparr>db_faults := fs\<rparr>)\<lparr>db_ledger := fmupd i l (db_ledger (d\<lparr>db_faults := fs\<rparr>))\<rparr>, Inr ())) = (d', r)"
    unfolding insert_ledger_def by (cases rule: stmt_cases) auto
  then show ?thesis
  proof cases
    case f
    then show ?thesis by (rule err)
  next
    case g
    then show ?thesis using err [of ConstraintViolation fs] ok [of fs] by (cases "fmlookup (db_ledger d) i") auto
  qed
qed

lemma commit_txn_value:
  assumes p: "fmlookup (db_players d) pid = Some p" and eq: "commit_txn i pid amount kind note ts b d = (d', r)"
  obtains (err) fs e where "r = Inl e" "d' = d\<lparr>db_faults := fs\<rparr>"
  | (ok) fs where "r = Inr ()" "fmlookup (db_ledger d) i = None"
      "d' = d\<lparr>db_ledger := fmupd i \<lparr>lr_player_id = pid, lr_amount = amount, lr_kind = kind, lr_note = note, lr_applied_at = ts\<rparr> (db_ledger d),
          db_players := fmupd pid (p\<lparr>pr_gold := b\<rparr>) (db_players d), db_faults := fs\<rparr>"
  using eq unfolding commit_txn_def
proof (cases rule: in_tx_cases)
  case (err fs e)
  then show ?thesis by (rule that(1))
next
  case (ok x fs d1 gs)
  let ?l = "\<lparr>lr_player_id = pid, lr_amount = amount, lr_kind = kind, lr_note = note, lr_applied_at = ts\<rparr>"
  from ok(2) obtain d2 u where i: "insert_ledger i ?l (d\<lparr>db_faults := fs\<rparr>) = (d2, Inr u)"
      and up: "update_player pid (\<lambda>r. r\<lparr>pr_gold := b\<rparr>) d2 = (d1, Inr x)"
    by (cases rule: bind_cases) auto
  have "\<exists>hs. d2 = d\<lparr>db_ledger := fmupd i ?l (db_ledger d), db_faults := hs\<rparr> \<and> fmlookup (db_ledger d) i = None"
    using i
  proof (cases rule: insert_ledger_value)
    case (ok hs)
    then show ?thesis by (intro exI [of _ hs]) simp
  qed simp
  then obtain hs where d2: "d2 = d\<lparr>db_ledger := fmupd i ?l (db_ledger d), db_faults := hs\<rparr>" "fmlookup (db_ledger d) i = None"
    by blast
  from up p obtain ks where d1: "d1 = d2\<lparr>db_players := fmupd pid (p\<lparr>pr_gold := b\<rparr>) (db_players d2), db_faults := ks\<rparr>"
    by (cases rule: update_player_value) (simp_all add: d2(1))
  have "d' = d\<lparr>db_ledger := fmupd i ?l (db_ledger d),
          db_players := fmupd pid (p\<lparr>pr_gold := b\<rparr>) (db_players d), db_faults := gs\<rparr>"
    unfolding ok(3) d1 d2(1) by simp
  with ok(1) d2(2) show ?thesis by (intro that(2) [of gs]) simp_all
qed

lemma commit_inv:
  assumes inv: "db_inv d" and p: "fmlookup (db_players d) pid = Some p" and b: "0 \<le> b" "b \<le> i64_max"
  shows "db_inv (d\<lparr>db_ledger := fmupd i (l\<lparr>lr_player_id := pid\<rparr>) (db_ledger d),
    db_players := fmupd pid (p\<lparr>pr_gold := b\<rparr>) (db_players d), db_faults := fs\<rparr>)"
  using inv p b unfolding db_inv_def by (fastforce split: if_splits)

interpretation sql_ledger: ledger_store db_inv db_ledger_view db_balance db_lookup_txn "db_commit now_ms" for now_ms
proof unfold_locales
  fix p s s' r
  assume "db_inv s" "db_balance p s = (s', r)"
  with stmt_read [of _ s s' r] show "db_inv s' \<and> db_ledger_view s' = db_ledger_view s \<and> (\<forall>b. r = Inr b \<longrightarrow> b = v_bal (db_ledger_view s) p)"
    unfolding db_balance_def player_balance_def by (fastforce simp: db_ledger_view_def)
next
  fix i s s' q
  assume inv: "db_inv s" and "db_lookup_txn i s = (s', q)"
  from map_sql_read [OF this(2) [unfolded db_lookup_txn_def lookup_txn_def]] obtain fs where
    fs: "s' = s\<lparr>db_faults := fs\<rparr>" and q: "(\<exists>e. q = Inl e) \<or> q = Inr (map_option (\<lambda>(p, b). \<lparr>rec_player = u64_of_i64 p, rec_new_balance = b\<rparr>)
      (case fmlookup (db_ledger s') (i64_of_u64 i) of None \<Rightarrow> None
       | Some l \<Rightarrow> case fmlookup (db_players s') (lr_player_id l) of None \<Rightarrow> None | Some p \<Rightarrow> Some (lr_player_id l, pr_gold p)))"
    by blast
  have "\<exists>p. fmlookup (db_players s) (lr_player_id l) = Some p" if "fmlookup (db_ledger s) (i64_of_u64 i) = Some l" for l
    using db_inv_ledger [OF inv that] .
  with fs q inv show "db_inv s' \<and> db_ledger_view s' = db_ledger_view s
      \<and> (\<forall>x. q = Inr x \<longrightarrow> (x \<noteq> None) = (i \<in> v_seen (db_ledger_view s)))"
    by (cases "fmlookup (db_ledger s) (i64_of_u64 i)") (fastforce simp: db_ledger_view_def)+
next
  fix p t b s s' c
  assume inv: "db_inv s" and p: "p \<in> v_known (db_ledger_view s)" and b: "0 \<le> b" "b \<le> i64_max"
    and eq: "db_commit now_ms p t b s = (s', c)"
  from p obtain r where r: "fmlookup (db_players s) (i64_of_u64 p) = Some r" by (auto simp: db_ledger_view_def)
  from r eq [unfolded db_commit_def] show "db_inv s' \<and> (case c of Inl _ \<Rightarrow> db_ledger_view s' = db_ledger_view s
      | Inr _ \<Rightarrow> db_ledger_view s' = (db_ledger_view s)\<lparr>v_bal := (v_bal (db_ledger_view s))(p := b),
          v_seen := insert (txn_id t) (v_seen (db_ledger_view s))\<rparr>)"
  proof (cases rule: commit_txn_value)
    case (err fs e)
    with inv show ?thesis by simp
  next
    case (ok fs)
    let ?l = "\<lparr>lr_player_id = i64_of_u64 p, lr_amount = amount_gold t, lr_kind = txn_kind t, lr_note = txn_note t, lr_applied_at = now_ms\<rparr>"
    have "db_inv s'" using commit_inv [OF inv r b, where i = "i64_of_u64 (txn_id t)" and l = ?l and fs = fs] ok by simp
    moreover have "db_ledger_view s' = (db_ledger_view s)\<lparr>v_bal := (v_bal (db_ledger_view s))(p := b),
          v_seen := insert (txn_id t) (v_seen (db_ledger_view s))\<rparr>"
      using r ok by (auto simp: db_ledger_view_def fun_eq_iff)
    ultimately show ?thesis using ok by simp
  qed
qed

section \<open>The market contract\<close>

definition db_market_view :: "db \<Rightarrow> market_view" where
  "db_market_view d =
     \<lparr>mv_state = (\<lambda>k. fmget_or (db_market d) k (0, 0)),
      mv_trades = (\<lambda>i. case bind_u64 i of
         None \<Rightarrow> None
       | Some k \<Rightarrow> map_option (\<lambda>t. \<lparr>rtr_port_id = tr_port_id t, rtr_item_id = tr_item_id t, rtr_stock = tr_stock t,
                                   rtr_price = tr_price t\<rparr>) (fmlookup (db_market_trades d) k))\<rparr>"

lemma db_market_view_faults [simp]: "db_market_view (d\<lparr>db_faults := fs\<rparr>) = db_market_view d"
  by (simp add: db_market_view_def fun_eq_iff split: option.split)

lemma bind_u64_inj: "bind_u64 a = Some k \<Longrightarrow> bind_u64 b = Some k \<Longrightarrow> a = b"
  by (auto simp: bind_u64_def word_uint_eq_iff split: if_splits)

lemma insert_trade_value:
  assumes "insert_trade i t d = (d', r)"
  obtains (err) fs e where "r = Inl e" "d' = d\<lparr>db_faults := fs\<rparr>"
  | (ok) fs k where "r = Inr ()" "bind_u64 i = Some k" "d' = d\<lparr>db_market_trades := fmupd k t (db_market_trades d), db_faults := fs\<rparr>"
proof -
  from assms consider (f) fs e where "r = Inl e" "d' = d\<lparr>db_faults := fs\<rparr>"
    | (g) fs where "(case bind_u64 i of None \<Rightarrow> (d\<lparr>db_faults := fs\<rparr>, Inl ToSqlConversionFailure)
       | Some k \<Rightarrow> if fmlookup (db_market_trades (d\<lparr>db_faults := fs\<rparr>)) k \<noteq> None then (d\<lparr>db_faults := fs\<rparr>, Inl ConstraintViolation)
           else ((d\<lparr>db_faults := fs\<rparr>)\<lparr>db_market_trades := fmupd k t (db_market_trades (d\<lparr>db_faults := fs\<rparr>))\<rparr>, Inr ())) = (d', r)"
    unfolding insert_trade_def by (cases rule: stmt_cases) auto
  then show ?thesis
  proof cases
    case f
    then show ?thesis by (rule err)
  next
    case g
    show ?thesis
    proof (cases "bind_u64 i")
      case None
      with g err [of ToSqlConversionFailure fs] show ?thesis by simp
    next
      case (Some k)
      with g err [of ConstraintViolation fs] ok [of k fs] show ?thesis
        by (cases "fmlookup (db_market_trades d) k") auto
    qed
  qed
qed

lemma upsert_market_value:
  assumes "upsert_market p i s c d = (d', r)"
  obtains (err) fs e where "r = Inl e" "d' = d\<lparr>db_faults := fs\<rparr>"
  | (ok) fs where "r = Inr ()" "d' = d\<lparr>db_market := fmupd (p, i) (s, c) (db_market d), db_faults := fs\<rparr>"
  using assms unfolding upsert_market_def
proof (cases rule: stmt_cases)
  case (fault fs e)
  then show ?thesis by (rule err)
next
  case (runs fs)
  then show ?thesis by (intro ok [of fs]) auto
qed

lemma commit_trade_value:
  assumes "commit_trade i port item st pr ts d = (d', r)"
  obtains (err) fs e where "r = Inl e" "d' = d\<lparr>db_faults := fs\<rparr>"
  | (ok) fs k where "r = Inr ()" "bind_u64 i = Some k"
      "d' = d\<lparr>db_market_trades := fmupd k \<lparr>tr_port_id = port, tr_item_id = item, tr_stock = st, tr_price = pr, tr_applied_at = ts\<rparr> (db_market_trades d),
          db_market := fmupd (port, item) (st, pr) (db_market d), db_faults := fs\<rparr>"
  using assms unfolding commit_trade_def
proof (cases rule: in_tx_cases)
  case (err fs e)
  then show ?thesis by (rule that(1))
next
  case (ok x fs d1 gs)
  let ?t = "\<lparr>tr_port_id = port, tr_item_id = item, tr_stock = st, tr_price = pr, tr_applied_at = ts\<rparr>"
  from ok(2) obtain d2 u where i: "insert_trade i ?t (d\<lparr>db_faults := fs\<rparr>) = (d2, Inr u)"
      and up: "upsert_market port item st pr d2 = (d1, Inr x)"
    by (cases rule: bind_cases) auto
  have "\<exists>hs k. d2 = d\<lparr>db_market_trades := fmupd k ?t (db_market_trades d), db_faults := hs\<rparr> \<and> bind_u64 i = Some k"
    using i
  proof (cases rule: insert_trade_value)
    case (ok hs k)
    then show ?thesis by (intro exI [of _ hs] exI [of _ k]) simp
  qed simp
  then obtain hs k where d2: "d2 = d\<lparr>db_market_trades := fmupd k ?t (db_market_trades d), db_faults := hs\<rparr>" "bind_u64 i = Some k"
    by blast
  from up obtain ks where d1: "d1 = d2\<lparr>db_market := fmupd (port, item) (st, pr) (db_market d2), db_faults := ks\<rparr>"
    by (cases rule: upsert_market_value) simp_all
  have "d' = d\<lparr>db_market_trades := fmupd k ?t (db_market_trades d),
          db_market := fmupd (port, item) (st, pr) (db_market d), db_faults := gs\<rparr>"
    unfolding ok(3) d1 d2(1) by simp
  with ok(1) d2(2) show ?thesis by (intro that(2) [of k gs]) simp_all
qed

interpretation sql_market: market_store db_inv db_market_view db_market_state db_lookup_trade "db_market_commit now_ms" for now_ms
proof unfold_locales
  fix p i s s' r
  assume "db_inv s" "db_market_state p i s = (s', r)"
  with map_sql_read [OF this(2) [unfolded db_market_state_def market_state_def]]
  show "db_inv s' \<and> db_market_view s' = db_market_view s \<and> (\<forall>b. r = Inr b \<longrightarrow> b = mv_state (db_market_view s) (p, i))"
    by (auto simp: db_market_view_def fmget_or_def split: option.splits)
next
  fix n s s' q
  assume "db_inv s" "db_lookup_trade n s = (s', q)"
  with map_sql_read [OF this(2) [unfolded db_lookup_trade_def lookup_trade_def]]
  show "db_inv s' \<and> db_market_view s' = db_market_view s \<and> (\<forall>x. q = Inr x \<longrightarrow> x = mv_trades (db_market_view s) n)"
    by (auto simp: db_market_view_def option.map_comp comp_def split: option.splits)
next
  fix t st pr s s' c
  assume inv: "db_inv s" and eq: "db_market_commit now_ms t st pr s = (s', c)"
  let ?goal = "db_inv s' \<and> (case c of Inl _ \<Rightarrow> db_market_view s' = db_market_view s
      | Inr _ \<Rightarrow> db_market_view s' =
          \<lparr>mv_state = (mv_state (db_market_view s))((trade_port_id t, trade_item_id t) := (st, pr)),
           mv_trades = (mv_trades (db_market_view s))(trade_txn_id t \<mapsto>
             \<lparr>rtr_port_id = trade_port_id t, rtr_item_id = trade_item_id t, rtr_stock = st, rtr_price = pr\<rparr>)\<rparr>)"
  from eq [unfolded db_market_commit_def] show ?goal
  proof (cases rule: commit_trade_value)
    case (err fs e)
    with inv show ?thesis by simp
  next
    case (ok fs k)
    have "db_inv s'" using inv by (simp add: ok(3) db_inv_def)
    with ok(1) show ?thesis
      by (auto simp: ok(2,3) db_market_view_def fmget_or_def fun_eq_iff dest: bind_u64_inj [OF ok(2)] split: option.splits)
  qed
qed

section \<open>Properties\<close>

lemma db_view_ok: "db_inv d \<Longrightarrow> ledger_view_ok (db_ledger_view d)"
  by (auto simp: ledger_view_ok_def db_ledger_view_def machine_int dest: db_inv_player(4,5) split: option.split)

text \<open>C3: the ledger over SQLite conserves gold: over any run of requests of known players, with any
  engine failures, a player's balance changes by exactly the sum of the amounts applied to them,
  no balance is ever negative or out of range, and no transaction id is applied twice, in the run
  or before it.\<close>

theorem sql_ledger_conserves:
  assumes "db_inv d" "\<forall>x \<in> set reqs. fst x \<in> v_known (db_ledger_view d)"
  shows "case ledger_run (db_ledger_apply now_ms) reqs d of (d', ap) \<Rightarrow>
    db_inv d' \<and> ledger_view_ok (db_ledger_view d') \<and> accounted (db_ledger_view d) ap (db_ledger_view d') \<and> set ap \<subseteq> set reqs"
  using sql_ledger.run_accounted [OF assms db_view_ok [OF assms(1)], of now_ms]
  by (cases "ledger_run (db_ledger_apply now_ms) reqs d") (simp add: db_ledger_apply_def)

definition demo_db :: "sql_error option list \<Rightarrow> db" where
  "demo_db faults = (db_empty faults)\<lparr>db_version := 2, db_players_seq := 1,
     db_players := fmupd 1 \<lparr>pr_id = 1, pr_name = ''ann'', pr_token_hash = ''t'', pr_gold = 10, pr_created_at = 0,
       pr_last_seen = 0\<rparr> fmempty\<rparr>"

definition demo_txn :: "u64 \<Rightarrow> int \<Rightarrow> txn" where
  "demo_txn i a = \<lparr>txn_id = i, amount_gold = a, txn_kind = 0, txn_note = []\<rparr>"

lemma demo_db_inv: "db_inv (demo_db fs)"
  by (auto simp: db_inv_def demo_db_def db_empty_def machine_int split: if_splits)

theorem sql_ledger_conserves_witness:
  "case ledger_run (db_ledger_apply 5) [(1, demo_txn 7 100), (1, demo_txn 8 (- 300)), (1, demo_txn 7 100)] (demo_db [None, Some (EngineError 3)])
    of (d', ap) \<Rightarrow> db_inv d' \<and> ledger_view_ok (db_ledger_view d') \<and> accounted (db_ledger_view (demo_db [None, Some (EngineError 3)])) ap (db_ledger_view d')
      \<and> set ap \<subseteq> set [(1, demo_txn 7 100), (1, demo_txn 8 (- 300)), (1, demo_txn 7 100)]"
  by (rule sql_ledger_conserves [OF demo_db_inv]) (simp add: db_ledger_view_def demo_db_def i64_of_u64_def)

text \<open>One request against the SQLite ledger is one step of the specification, or an engine
  failure that changes nothing: applied, replayed or refused exactly as the balance, the amount
  and the transactions seen so far say.\<close>

theorem sql_ledger_refines:
  assumes "db_inv d" "p \<in> v_known (db_ledger_view d)"
  shows "case db_ledger_apply now_ms p t d of
      (d', Inl _) \<Rightarrow> db_inv d' \<and> db_ledger_view d' = db_ledger_view d
    | (d', Inr a) \<Rightarrow> db_inv d' \<and> ledger_spec p t (db_ledger_view d) = (db_ledger_view d', ack_outcome a)
        \<and> (ack_outcome a \<noteq> Replayed \<longrightarrow> ack_new_balance a = v_bal (db_ledger_view d') p)"
  using sql_ledger.apply_refines [OF assms, of now_ms t]
  by (cases "db_ledger_apply now_ms p t d") (auto simp: db_ledger_apply_def split: sum.splits)

theorem sql_ledger_refines_witness:
  "case db_ledger_apply 5 1 (demo_txn 7 100) (demo_db []) of
      (d', Inl _) \<Rightarrow> db_inv d' \<and> db_ledger_view d' = db_ledger_view (demo_db [])
    | (d', Inr a) \<Rightarrow> db_inv d' \<and> ledger_spec 1 (demo_txn 7 100) (db_ledger_view (demo_db [])) = (db_ledger_view d', ack_outcome a)"
proof -
  have "1 \<in> v_known (db_ledger_view (demo_db []))"
    by (simp add: db_ledger_view_def demo_db_def i64_of_u64_def)
  from sql_ledger_refines [OF demo_db_inv this, where now_ms = 5 and t = "demo_txn 7 100"]
  show ?thesis by (simp split: prod.splits sum.splits)
qed

text \<open>The market over SQLite is one step of its specification or an engine failure that changes
  nothing, and keeps every stock and price non-negative.\<close>

theorem sql_market_refines:
  assumes "db_inv d" "market_view_ok (db_market_view d)"
  shows "case db_market_apply now_ms t d of
      (d', Inl _) \<Rightarrow> db_inv d' \<and> db_market_view d' = db_market_view d
    | (d', Inr a) \<Rightarrow> db_inv d' \<and> market_spec t (db_market_view d) = (db_market_view d', a) \<and> market_view_ok (db_market_view d')"
  using sql_market.market_refines [OF assms(1), of now_ms t] market_spec_ok [OF assms(2), of t]
  by (cases "db_market_apply now_ms t d") (auto simp: db_market_apply_def split: sum.splits)

definition demo_trade :: trade where
  "demo_trade = \<lparr>trade_txn_id = 3, trade_port_id = 1, trade_item_id = 2, trade_qty = 40, trade_unit_price = 9\<rparr>"

theorem sql_market_refines_witness:
  "case db_market_apply 5 demo_trade (demo_db []) of
      (d', Inl _) \<Rightarrow> db_inv d' \<and> db_market_view d' = db_market_view (demo_db [])
    | (d', Inr a) \<Rightarrow> db_inv d' \<and> market_spec demo_trade (db_market_view (demo_db [])) = (db_market_view d', a) \<and> market_view_ok (db_market_view d')"
  by (rule sql_market_refines [OF demo_db_inv])
    (simp add: market_view_ok_def db_market_view_def demo_db_def db_empty_def fmget_or_def machine_int)

text \<open>C37: a replayed transaction is answered from the SQLite ledger with the recorded player's
  balance as it is now, not with the balance the transaction produced, and whoever replays
  it.\<close>

theorem sql_replay_reports_current_gold:
  assumes "db_faults d = []" "fmlookup (db_ledger d) (i64_of_u64 (txn_id t)) = Some l"
    "fmlookup (db_players d) (lr_player_id l) = Some p"
  shows "db_ledger_apply now_ms q t d =
    (d, Inr \<lparr>ack_txn_id = txn_id t, ack_accepted = True, ack_new_balance = pr_gold p,
             ack_reason = ''duplicate (idempotent replay)''\<rparr>)"
  using assms
  by (simp add: db_ledger_apply_def ledger_apply_def db_lookup_txn_def map_sql_def sql_bind_def lookup_txn_def
      stmt_def sql_ok_def)

theorem sql_replay_reports_current_gold_witness:
  "snd (db_ledger_apply 9 2 (demo_txn 7 100) ((demo_db [])\<lparr>db_ledger := fmupd 7 \<lparr>lr_player_id = 1, lr_amount = 4, lr_kind = 0,
      lr_note = [], lr_applied_at = 0\<rparr> fmempty\<rparr>))
    = Inr \<lparr>ack_txn_id = 7, ack_accepted = True, ack_new_balance = 10, ack_reason = ''duplicate (idempotent replay)''\<rparr>"
  by (subst sql_replay_reports_current_gold
        [where l = "\<lparr>lr_player_id = 1, lr_amount = 4, lr_kind = 0, lr_note = [], lr_applied_at = 0\<rparr>"
          and p = "\<lparr>pr_id = 1, pr_name = ''ann'', pr_token_hash = ''t'', pr_gold = 10, pr_created_at = 0, pr_last_seen = 0\<rparr>"])
    (simp_all add: demo_db_def db_empty_def demo_txn_def i64_of_u64_def)

end
