(* ===== verification/Host_Inv.thy ===== *)
theory Host_Inv
  imports Host
begin

text \<open>
  The invariant of the transport host and that every operation of \<open>Host\<close> keeps it: the slot
  index and the peer table describe each other, the free list is exactly the vacant slots, the
  per-source counters count the table, the configured ceilings hold, and the reconnect
  watermarks are bounded by their expiry order. \<open>slots_inv\<close> carries the slots that are
  allocated but not yet filled, so that allocation and insertion are separate steps.
\<close>

section \<open>The invariant\<close>

definition peer_ok :: "socket_addr option list \<Rightarrow> socket_addr \<Rightarrow> peer \<Rightarrow> bool" where
  "peer_ok slots a p \<longleftrightarrow>
     p_slot p < length slots \<and> slots ! p_slot p = Some a \<and> p_addr p = a \<and> p_id p = Suc (p_slot p)
     \<and> p_local_peer_id p = int (p_slot p) \<and> p_connection_number p < 4 \<and> in_i64 (p_connect_time p)"

definition slots_inv :: "nat set \<Rightarrow> host \<Rightarrow> bool" where
  "slots_inv R h \<longleftrightarrow>
     distinct (free_peer_slots h) \<and> R \<inter> set (free_peer_slots h) = {}
     \<and> {s. s < length (peer_slots h) \<and> peer_slots h ! s = None} = set (free_peer_slots h) \<union> R
     \<and> (\<forall>s a. s < length (peer_slots h) \<longrightarrow> peer_slots h ! s = Some a \<longrightarrow>
          (\<exists>p. fmlookup (peers h) a = Some p \<and> p_slot p = s))
     \<and> (\<forall>a p. fmlookup (peers h) a = Some p \<longrightarrow> peer_ok (peer_slots h) a p)
     \<and> length (peer_slots h) \<le> max_peers h
     \<and> available_free_peer_slots h \<le> length (free_peer_slots h)
     \<and> maintenance_cursor h \<le> length (peer_slots h)"

definition ip_count :: "host \<Rightarrow> ip_addr \<Rightarrow> nat" where
  "ip_count h ip = fcard (ffilter (\<lambda>a. addr_ip a = ip) (fmdom (peers h)))"

definition ip_inv :: "host \<Rightarrow> bool" where
  "ip_inv h \<longleftrightarrow>
     (\<forall>ip. fmlookup (peers_per_ip h) ip = (if ip_count h ip = 0 then None else Some (ip_count h ip)))
     \<and> (\<forall>ip. ip_count h ip \<le> max_peers_per_ip h)"

definition wm_inv :: "host \<Rightarrow> bool" where
  "wm_inv h \<longleftrightarrow>
     length (reconnect_watermark_order h) \<le> max_peers h
     \<and> distinct (map snd (reconnect_watermark_order h))
     \<and> (\<forall>g \<in> snd ` set (reconnect_watermark_order h). g \<le> next_reconnect_watermark_generation h)
     \<and> next_reconnect_watermark_generation h \<le> u64_max
     \<and> (\<forall>a w. fmlookup (reconnect_watermarks h) a = Some w \<longrightarrow>
          (a, wm_generation w) \<in> set (reconnect_watermark_order h) \<and> fmlookup (peers h) a = None)"

definition limits_ok :: "host \<Rightarrow> bool" where
  "limits_ok h \<longleftrightarrow> 0 < max_peers h \<and> max_peers h \<le> u16_max \<and> 0 < max_peers_per_ip h
     \<and> max_peers_per_ip h \<le> max_peers h"

definition host_inv :: "host \<Rightarrow> bool" where
  "host_inv h \<longleftrightarrow> slots_inv {} h \<and> ip_inv h \<and> wm_inv h \<and> limits_ok h"

section \<open>Frames: what does not concern the invariant\<close>

lemma send_to_simps [simp]:
  "peers (send_to b a h) = peers h" "peer_slots (send_to b a h) = peer_slots h"
  "free_peer_slots (send_to b a h) = free_peer_slots h"
  "available_free_peer_slots (send_to b a h) = available_free_peer_slots h"
  "peers_per_ip (send_to b a h) = peers_per_ip h"
  "reconnect_watermarks (send_to b a h) = reconnect_watermarks h"
  "reconnect_watermark_order (send_to b a h) = reconnect_watermark_order h"
  "next_reconnect_watermark_generation (send_to b a h) = next_reconnect_watermark_generation h"
  "maintenance_cursor (send_to b a h) = maintenance_cursor h"
  "connect_key (send_to b a h) = connect_key h" "host_timeout (send_to b a h) = host_timeout h"
  "max_peers (send_to b a h) = max_peers h" "max_peers_per_ip (send_to b a h) = max_peers_per_ip h"
  "rx_queue (socket (send_to b a h)) = rx_queue (socket h)"
  "tx_log (socket (send_to b a h)) = tx_log (socket h) @ [(a, b)]"
  by (simp_all add: send_to_def)

lemma socket_update_inv [simp]:
  "slots_inv R (h\<lparr>socket := s\<rparr>) = slots_inv R h" "ip_inv (h\<lparr>socket := s\<rparr>) = ip_inv h"
  "wm_inv (h\<lparr>socket := s\<rparr>) = wm_inv h" "limits_ok (h\<lparr>socket := s\<rparr>) = limits_ok h"
  "host_inv (h\<lparr>socket := s\<rparr>) = host_inv h"
  by (simp_all add: host_inv_def slots_inv_def ip_inv_def ip_count_def wm_inv_def limits_ok_def)

lemma send_to_inv [simp]:
  "slots_inv R (send_to b a h) = slots_inv R h" "ip_inv (send_to b a h) = ip_inv h"
  "wm_inv (send_to b a h) = wm_inv h" "limits_ok (send_to b a h) = limits_ok h"
  "host_inv (send_to b a h) = host_inv h"
  by (simp_all add: send_to_def)

lemma watermark_update_frame [simp]:
  "slots_inv R (h\<lparr>reconnect_watermarks := ws, reconnect_watermark_order := os\<rparr>) = slots_inv R h"
  "slots_inv R (h\<lparr>reconnect_watermarks := ws\<rparr>) = slots_inv R h"
  "slots_inv R (h\<lparr>reconnect_watermark_order := os\<rparr>) = slots_inv R h"
  "slots_inv R (h\<lparr>next_reconnect_watermark_generation := n\<rparr>) = slots_inv R h"
  "ip_inv (h\<lparr>reconnect_watermarks := ws, reconnect_watermark_order := os\<rparr>) = ip_inv h"
  "ip_inv (h\<lparr>reconnect_watermarks := ws\<rparr>) = ip_inv h"
  "ip_inv (h\<lparr>reconnect_watermark_order := os\<rparr>) = ip_inv h"
  "ip_inv (h\<lparr>next_reconnect_watermark_generation := n\<rparr>) = ip_inv h"
  by (simp_all add: slots_inv_def ip_inv_def ip_count_def)

section \<open>Elimination rules\<close>

lemma slots_inv_peer:
  "slots_inv R h \<Longrightarrow> fmlookup (peers h) a = Some p \<Longrightarrow> peer_ok (peer_slots h) a p"
  by (simp add: slots_inv_def)

lemma slots_inv_slot:
  "slots_inv R h \<Longrightarrow> s < length (peer_slots h) \<Longrightarrow> peer_slots h ! s = Some a \<Longrightarrow>
   \<exists>p. fmlookup (peers h) a = Some p \<and> p_slot p = s"
  by (simp add: slots_inv_def)

lemma slots_inv_bounds:
  "slots_inv R h \<Longrightarrow> length (peer_slots h) \<le> max_peers h"
  "slots_inv R h \<Longrightarrow> available_free_peer_slots h \<le> length (free_peer_slots h)"
  "slots_inv R h \<Longrightarrow> maintenance_cursor h \<le> length (peer_slots h)"
  by (simp_all add: slots_inv_def)

lemma slots_inv_vacant:
  "slots_inv R h \<Longrightarrow> {s. s < length (peer_slots h) \<and> peer_slots h ! s = None} = set (free_peer_slots h) \<union> R"
  "slots_inv R h \<Longrightarrow> R \<inter> set (free_peer_slots h) = {}"
  "slots_inv R h \<Longrightarrow> distinct (free_peer_slots h)"
  by (simp_all add: slots_inv_def)

text \<open>Refreshing the timing fields of a live peer.\<close>

definition peer_refresh :: "peer \<Rightarrow> peer \<Rightarrow> bool" where
  "peer_refresh p p' \<longleftrightarrow>
     p_slot p' = p_slot p \<and> p_addr p' = p_addr p \<and> p_id p' = p_id p
     \<and> p_local_peer_id p' = p_local_peer_id p \<and> p_connection_number p' = p_connection_number p
     \<and> p_connect_time p' = p_connect_time p"

lemma fmdom_upd_existing: "fmlookup m k = Some v \<Longrightarrow> fmdom (fmupd k v' m) = fmdom m"
  by (auto simp: fset_eq_iff fmdomI)

lemma refresh_inv:
  assumes "fmlookup (peers h) a = Some p" "peer_refresh p p'"
  shows "slots_inv R h \<Longrightarrow> slots_inv R (h\<lparr>peers := fmupd a p' (peers h)\<rparr>)"
    "ip_inv h \<Longrightarrow> ip_inv (h\<lparr>peers := fmupd a p' (peers h)\<rparr>)"
    "wm_inv h \<Longrightarrow> wm_inv (h\<lparr>peers := fmupd a p' (peers h)\<rparr>)"
    "limits_ok h \<Longrightarrow> limits_ok (h\<lparr>peers := fmupd a p' (peers h)\<rparr>)"
proof -
  have dom: "fmdom (fmupd a p' (peers h)) = fmdom (peers h)"
    using assms(1) by (rule fmdom_upd_existing)
  then have ipc: "ip_count (h\<lparr>peers := fmupd a p' (peers h)\<rparr>) = ip_count h"
    by (simp add: ip_count_def fun_eq_iff)
  show "slots_inv R h \<Longrightarrow> slots_inv R (h\<lparr>peers := fmupd a p' (peers h)\<rparr>)"
  proof -
    assume inv: "slots_inv R h"
    have ok: "peer_ok (peer_slots h) b q" if "fmlookup (fmupd a p' (peers h)) b = Some q" for b q
      using that slots_inv_peer [OF inv, of b] slots_inv_peer [OF inv assms(1)] assms(2)
      by (auto simp: peer_ok_def peer_refresh_def split: if_splits)
    have "\<exists>q. fmlookup (fmupd a p' (peers h)) b = Some q \<and> p_slot q = s"
      if "s < length (peer_slots h)" "peer_slots h ! s = Some b" for s b
      using slots_inv_slot [OF inv that] assms by (auto simp: peer_refresh_def)
    with inv ok show "slots_inv R (h\<lparr>peers := fmupd a p' (peers h)\<rparr>)"
      unfolding slots_inv_def by simp
  qed
  show "ip_inv h \<Longrightarrow> ip_inv (h\<lparr>peers := fmupd a p' (peers h)\<rparr>)"
    using ipc by (simp add: ip_inv_def)
  show "wm_inv h \<Longrightarrow> wm_inv (h\<lparr>peers := fmupd a p' (peers h)\<rparr>)"
    using assms unfolding wm_inv_def by fastforce
  show "limits_ok h \<Longrightarrow> limits_ok (h\<lparr>peers := fmupd a p' (peers h)\<rparr>)"
    by (simp add: limits_ok_def)
qed

lemma refresh_host_inv:
  "host_inv h \<Longrightarrow> fmlookup (peers h) a = Some p \<Longrightarrow> peer_refresh p p'
   \<Longrightarrow> host_inv (h\<lparr>peers := fmupd a p' (peers h)\<rparr>)"
  by (simp add: host_inv_def refresh_inv)

section \<open>Counting\<close>

lemma occupied_slots_card:
  assumes "slots_inv R h"
  shows "card {s. s < length (peer_slots h) \<and> peer_slots h ! s \<noteq> None} = fmlen (peers h)"
proof -
  let ?f = "\<lambda>a. p_slot (the (fmlookup (peers h) a))"
  have "inj_on ?f (fset (fmdom (peers h)))"
  proof (rule inj_onI)
    fix a b assume "a \<in> fset (fmdom (peers h))" "b \<in> fset (fmdom (peers h))" and eq: "?f a = ?f b"
    then obtain p q where pq: "fmlookup (peers h) a = Some p" "fmlookup (peers h) b = Some q"
      by (auto simp: fmlookup_dom_iff)
    with eq slots_inv_peer [OF assms] have "peer_slots h ! p_slot p = Some a" "peer_slots h ! p_slot p = Some b"
      by (fastforce simp: peer_ok_def)+
    then show "a = b" by simp
  qed
  moreover have "?f ` fset (fmdom (peers h)) = {s. s < length (peer_slots h) \<and> peer_slots h ! s \<noteq> None}"
  proof (intro equalityI subsetI)
    fix s assume "s \<in> ?f ` fset (fmdom (peers h))"
    then show "s \<in> {s. s < length (peer_slots h) \<and> peer_slots h ! s \<noteq> None}"
      using slots_inv_peer [OF assms] by (fastforce simp: fmlookup_dom_iff peer_ok_def)
  next
    fix s assume "s \<in> {s. s < length (peer_slots h) \<and> peer_slots h ! s \<noteq> None}"
    then obtain a p where "fmlookup (peers h) a = Some p" "p_slot p = s"
      using slots_inv_slot [OF assms] by blast
    then show "s \<in> ?f ` fset (fmdom (peers h))"
      by (force intro: rev_image_eqI fmdomI)
  qed
  ultimately show ?thesis
    by (metis card_image fcard.rep_eq fmlen_def)
qed

lemma slots_inv_count:
  assumes "slots_inv R h" "finite R"
  shows "length (peer_slots h) = length (free_peer_slots h) + card R + fmlen (peers h)"
proof -
  let ?n = "length (peer_slots h)"
  let ?V = "{s. s < ?n \<and> peer_slots h ! s = None}" and ?O = "{s. s < ?n \<and> peer_slots h ! s \<noteq> None}"
  have "{s. s < ?n} = ?V \<union> ?O" by auto
  then have "?n = card (?V \<union> ?O)" by (metis card_Collect_less_nat)
  also have "\<dots> = card ?V + card ?O" by (intro card_Un_disjoint) auto
  also have "card ?V = length (free_peer_slots h) + card R"
  proof -
    have "?V = set (free_peer_slots h) \<union> R" "set (free_peer_slots h) \<inter> R = {}" "distinct (free_peer_slots h)"
      using slots_inv_vacant [OF assms(1)] by auto
    then show ?thesis by (simp add: card_Un_disjoint assms(2) distinct_card)
  qed
  finally show ?thesis using occupied_slots_card [OF assms(1)] by simp
qed

lemma host_inv_peer_cap: "host_inv h \<Longrightarrow> fmlen (peers h) \<le> max_peers h"
  using slots_inv_count [of "{}" h] slots_inv_bounds(1) [of "{}" h] by (simp add: host_inv_def)

section \<open>Allocation, insertion, removal\<close>

lemma slots_invI:
  assumes "distinct (free_peer_slots h)" "R \<inter> set (free_peer_slots h) = {}"
    "{s. s < length (peer_slots h) \<and> peer_slots h ! s = None} = set (free_peer_slots h) \<union> R"
    "\<And>s a. s < length (peer_slots h) \<Longrightarrow> peer_slots h ! s = Some a \<Longrightarrow>
       \<exists>p. fmlookup (peers h) a = Some p \<and> p_slot p = s"
    "\<And>a p. fmlookup (peers h) a = Some p \<Longrightarrow> peer_ok (peer_slots h) a p"
    "length (peer_slots h) \<le> max_peers h" "available_free_peer_slots h \<le> length (free_peer_slots h)"
    "maintenance_cursor h \<le> length (peer_slots h)"
  shows "slots_inv R h"
  using assms by (simp add: slots_inv_def)

lemma allocate_frame:
  assumes "allocate_peer_slot h = (h', r)"
  shows "peers h' = peers h" "peers_per_ip h' = peers_per_ip h"
    "reconnect_watermarks h' = reconnect_watermarks h"
    "reconnect_watermark_order h' = reconnect_watermark_order h"
    "next_reconnect_watermark_generation h' = next_reconnect_watermark_generation h"
    "max_peers h' = max_peers h" "max_peers_per_ip h' = max_peers_per_ip h"
    "host_timeout h' = host_timeout h" "connect_key h' = connect_key h" "socket h' = socket h"
    "maintenance_cursor h' = maintenance_cursor h"
  using assms by (auto simp: allocate_peer_slot_def Let_def split: if_splits list.splits)

lemma allocate_inv_frame:
  assumes "allocate_peer_slot h = (h', r)"
  shows "ip_inv h' = ip_inv h" "wm_inv h' = wm_inv h" "limits_ok h' = limits_ok h"
  by (simp_all add: ip_inv_def ip_count_def wm_inv_def limits_ok_def allocate_frame [OF assms])

lemma slots_inv_push:
  assumes inv: "slots_inv {} h" and len: "length (peer_slots h) < max_peers h"
  shows "slots_inv {length (peer_slots h)} (h\<lparr>peer_slots := peer_slots h @ [None]\<rparr>)"
proof (rule slots_invI)
  let ?n = "length (peer_slots h)"
  have "?n \<notin> set (free_peer_slots h)" using slots_inv_vacant(1) [OF inv] by auto
  then show "{?n} \<inter> set (free_peer_slots (h\<lparr>peer_slots := peer_slots h @ [None]\<rparr>)) = {}" by simp
  have "{s. s < Suc ?n \<and> (peer_slots h @ [None]) ! s = None}
        = insert ?n {s. s < ?n \<and> peer_slots h ! s = None}"
    by (auto simp: nth_append less_Suc_eq)
  then show "{s. s < length (peer_slots (h\<lparr>peer_slots := peer_slots h @ [None]\<rparr>))
      \<and> peer_slots (h\<lparr>peer_slots := peer_slots h @ [None]\<rparr>) ! s = None}
    = set (free_peer_slots (h\<lparr>peer_slots := peer_slots h @ [None]\<rparr>)) \<union> {?n}"
    using slots_inv_vacant(1) [OF inv] by simp
next
  fix s a
  assume "s < length (peer_slots (h\<lparr>peer_slots := peer_slots h @ [None]\<rparr>))"
    "peer_slots (h\<lparr>peer_slots := peer_slots h @ [None]\<rparr>) ! s = Some a"
  then show "\<exists>p. fmlookup (peers (h\<lparr>peer_slots := peer_slots h @ [None]\<rparr>)) a = Some p \<and> p_slot p = s"
    using slots_inv_slot [OF inv, of s a] by (auto simp: nth_append less_Suc_eq split: if_splits)
next
  fix a p
  assume "fmlookup (peers (h\<lparr>peer_slots := peer_slots h @ [None]\<rparr>)) a = Some p"
  then show "peer_ok (peer_slots (h\<lparr>peer_slots := peer_slots h @ [None]\<rparr>)) a p"
    using slots_inv_peer [OF inv, of a p] by (auto simp: peer_ok_def nth_append)
qed (use len slots_inv_vacant(3) [OF inv] slots_inv_bounds [OF inv] in auto)

lemma slots_inv_pop:
  assumes inv: "slots_inv {} h" and free: "free_peer_slots h = s # r" and n: "n < available_free_peer_slots h"
  shows "slots_inv {s} (h\<lparr>available_free_peer_slots := n, free_peer_slots := r\<rparr>)"
proof (rule slots_invI)
  fix s' a
  assume "s' < length (peer_slots (h\<lparr>available_free_peer_slots := n, free_peer_slots := r\<rparr>))"
    "peer_slots (h\<lparr>available_free_peer_slots := n, free_peer_slots := r\<rparr>) ! s' = Some a"
  then show "\<exists>p. fmlookup (peers (h\<lparr>available_free_peer_slots := n, free_peer_slots := r\<rparr>)) a = Some p \<and> p_slot p = s'"
    using slots_inv_slot [OF inv] by simp
qed (use free n slots_inv_vacant [OF inv] slots_inv_bounds [OF inv] slots_inv_peer [OF inv] in auto)

lemma slots_inv_available:
  "slots_inv R h \<Longrightarrow> n \<le> length (free_peer_slots h) \<Longrightarrow> slots_inv R (h\<lparr>available_free_peer_slots := n\<rparr>)"
  by (simp add: slots_inv_def)

lemma allocate_slots_inv:
  assumes "slots_inv {} h" "allocate_peer_slot h = (h', r)"
  shows "case r of None \<Rightarrow> slots_inv {} h' | Some s \<Rightarrow> slots_inv {s} h' \<and> s < length (peer_slots h')"
proof -
  consider (push) "length (peer_slots h) < max_peers h"
    | (pop) "\<not> length (peer_slots h) < max_peers h" "available_free_peer_slots h > 0"
    | (full) "\<not> length (peer_slots h) < max_peers h" "available_free_peer_slots h = 0" by auto
  then show ?thesis
  proof cases
    case push
    with assms slots_inv_push [OF assms(1)] show ?thesis
      by (auto simp: allocate_peer_slot_def)
  next
    case pop
    with slots_inv_bounds(2) [OF assms(1)] obtain s r' where free: "free_peer_slots h = s # r'"
      by (cases "free_peer_slots h") auto
    then have "s < length (peer_slots h)" using slots_inv_vacant(1) [OF assms(1)] by auto
    with pop free assms slots_inv_pop [OF assms(1) free, of "available_free_peer_slots h - 1"]
    show ?thesis by (auto simp: allocate_peer_slot_def Let_def)
  next
    case full
    with assms show ?thesis by (auto simp: allocate_peer_slot_def)
  qed
qed

lemma insert_peer_slots_inv:
  assumes inv: "slots_inv {s} h" and new: "fmlookup (peers h) (p_addr p) = None"
    and p: "p_slot p = s" "p_id p = Suc s" "p_local_peer_id p = int s" "p_connection_number p < 4"
      "in_i64 (p_connect_time p)"
  shows "slots_inv {} (insert_peer p h)"
proof (rule slots_invI)
  let ?h = "insert_peer p h"
  have s: "s < length (peer_slots h)" "peer_slots h ! s = None" "s \<notin> set (free_peer_slots h)"
    using slots_inv_vacant(1,2) [OF inv] by auto
  have slots: "peer_slots ?h = (peer_slots h)[s := Some (p_addr p)]" "free_peer_slots ?h = free_peer_slots h"
    by (simp_all add: insert_peer_def Let_def p)
  show "{s'. s' < length (peer_slots ?h) \<and> peer_slots ?h ! s' = None} = set (free_peer_slots ?h) \<union> {}"
  proof -
    have "{s'. s' < length (peer_slots ?h) \<and> peer_slots ?h ! s' = None}
          = {s'. s' < length (peer_slots h) \<and> peer_slots h ! s' = None} - {s}"
      using s by (auto simp: slots nth_list_update)
    then show ?thesis using slots_inv_vacant(1) [OF inv] s by (simp add: slots)
  qed
  have lk: "fmlookup (peers ?h) b = (if b = p_addr p then Some p else fmlookup (peers h) b)" for b
    by (simp add: insert_peer_def Let_def)
  show "\<exists>q. fmlookup (peers ?h) b = Some q \<and> p_slot q = s'"
    if "s' < length (peer_slots ?h)" "peer_slots ?h ! s' = Some b" for s' b
    using that slots_inv_slot [OF inv, of s' b] s p new
    by (auto simp: slots lk nth_list_update split: if_splits)
  show "peer_ok (peer_slots ?h) b q" if "fmlookup (peers ?h) b = Some q" for b q
    using that slots_inv_peer [OF inv, of b q] s p
    by (auto simp: slots lk peer_ok_def nth_list_update split: if_splits)
  show "length (peer_slots ?h) \<le> max_peers ?h" "available_free_peer_slots ?h \<le> length (free_peer_slots ?h)"
    "maintenance_cursor ?h \<le> length (peer_slots ?h)" "distinct (free_peer_slots ?h)"
    "{} \<inter> set (free_peer_slots ?h) = {}"
    using slots_inv_bounds [OF inv] slots_inv_vacant(3) [OF inv] by (auto simp: insert_peer_def Let_def)
qed

lemma ip_count_card: "ip_count h ip = card {a \<in> fset (fmdom (peers h)). addr_ip a = ip}"
  by (simp add: ip_count_def fcard.rep_eq ffilter.rep_eq Set.filter_eq Int_def conj_commute)

lemma ip_count_insert:
  assumes "fmlookup (peers h) a = None" "peers h' = fmupd a p (peers h)"
  shows "ip_count h' ip = (if addr_ip a = ip then Suc (ip_count h ip) else ip_count h ip)"
proof -
  have "{b \<in> fset (fmdom (peers h')). addr_ip b = ip}
        = (if addr_ip a = ip then insert a {b \<in> fset (fmdom (peers h)). addr_ip b = ip}
           else {b \<in> fset (fmdom (peers h)). addr_ip b = ip})"
    using assms by auto
  then show ?thesis using assms(1) by (simp add: ip_count_card fmdom_notI)
qed

lemma ip_count_remove:
  assumes "fmlookup (peers h) a = Some p" "peers h' = fmdrop a (peers h)"
  shows "ip_count h' ip = (if addr_ip a = ip then ip_count h ip - 1 else ip_count h ip)"
proof -
  have "{b \<in> fset (fmdom (peers h')). addr_ip b = ip}
        = (if addr_ip a = ip then {b \<in> fset (fmdom (peers h)). addr_ip b = ip} - {a}
           else {b \<in> fset (fmdom (peers h)). addr_ip b = ip})"
    using assms by auto
  moreover have "a \<in> fset (fmdom (peers h))" using assms(1) by (rule fmdomI)
  ultimately show ?thesis by (simp add: ip_count_card)
qed

lemma ip_count_pos: "fmlookup (peers h) a = Some p \<Longrightarrow> 0 < ip_count h (addr_ip a)"
  by (auto simp: ip_count_card card_gt_0_iff intro: fmdomI)

lemma insert_peer_ip_inv:
  assumes inv: "ip_inv h" and new: "fmlookup (peers h) (p_addr p) = None"
    and room: "ip_count h (addr_ip (p_addr p)) < max_peers_per_ip h"
  shows "ip_inv (insert_peer p h)"
proof -
  have cnt: "ip_count (insert_peer p h) ip
      = (if addr_ip (p_addr p) = ip then Suc (ip_count h ip) else ip_count h ip)" for ip
    by (rule ip_count_insert [OF new]) (simp add: insert_peer_def Let_def)
  have "fmget_or (peers_per_ip h) ip 0 = ip_count h ip" for ip
    using inv by (simp add: ip_inv_def fmget_or_def)
  then have "fmlookup (peers_per_ip (insert_peer p h)) ip
      = (if addr_ip (p_addr p) = ip then Some (Suc (ip_count h ip)) else fmlookup (peers_per_ip h) ip)" for ip
    by (auto simp: insert_peer_def Let_def)
  moreover have "max_peers_per_ip (insert_peer p h) = max_peers_per_ip h"
    by (simp add: insert_peer_def Let_def)
  ultimately show ?thesis
    using inv room by (auto simp: ip_inv_def cnt)
qed

lemma remove_peer_at_None [simp]: "fmlookup (peers h) a = None \<Longrightarrow> remove_peer_at a h = (h, None)"
  by (simp add: remove_peer_at_def)

lemma remove_peer_at_Some:
  assumes inv: "ip_inv h" and p: "fmlookup (peers h) a = Some p"
  shows "\<exists>m. remove_peer_at a h =
      (h\<lparr>peers_per_ip := m, peers := fmdrop a (peers h), peer_slots := (peer_slots h)[p_slot p := None],
         free_peer_slots := free_peer_slots h @ [p_slot p]\<rparr>, Some p)
    \<and> (\<forall>ip. fmlookup m ip = (if ip = addr_ip a
         then (if ip_count h ip > 1 then Some (ip_count h ip - 1) else None)
         else fmlookup (peers_per_ip h) ip))"
proof -
  have "fmlookup (peers_per_ip h) (addr_ip a) = Some (ip_count h (addr_ip a))"
    using inv ip_count_pos [OF p] by (simp add: ip_inv_def)
  then show ?thesis
    using p by (auto simp: remove_peer_at_def Let_def)
qed

lemma remove_peer_at_result:
  assumes "ip_inv h" "fmlookup (peers h) a = Some p"
  shows "snd (remove_peer_at a h) = Some p"
    "peers (fst (remove_peer_at a h)) = fmdrop a (peers h)"
    "peer_slots (fst (remove_peer_at a h)) = (peer_slots h)[p_slot p := None]"
    "free_peer_slots (fst (remove_peer_at a h)) = free_peer_slots h @ [p_slot p]"
  using remove_peer_at_Some [OF assms] by auto

lemma remove_peer_at_frame [simp]:
  "available_free_peer_slots (fst (remove_peer_at a h)) = available_free_peer_slots h"
  "reconnect_watermarks (fst (remove_peer_at a h)) = reconnect_watermarks h"
  "reconnect_watermark_order (fst (remove_peer_at a h)) = reconnect_watermark_order h"
  "next_reconnect_watermark_generation (fst (remove_peer_at a h)) = next_reconnect_watermark_generation h"
  "maintenance_cursor (fst (remove_peer_at a h)) = maintenance_cursor h"
  "connect_key (fst (remove_peer_at a h)) = connect_key h"
  "host_timeout (fst (remove_peer_at a h)) = host_timeout h"
  "max_peers (fst (remove_peer_at a h)) = max_peers h"
  "max_peers_per_ip (fst (remove_peer_at a h)) = max_peers_per_ip h"
  "socket (fst (remove_peer_at a h)) = socket h"
  "length (peer_slots (fst (remove_peer_at a h))) = length (peer_slots h)"
  by (auto simp: remove_peer_at_def Let_def split: option.splits)

lemma remove_slots_inv:
  assumes inv: "slots_inv R h" "ip_inv h" and p: "fmlookup (peers h) a = Some p"
  shows "slots_inv R (fst (remove_peer_at a h))"
proof (rule slots_invI)
  let ?h = "fst (remove_peer_at a h)"
  note res = remove_peer_at_result [OF inv(2) p]
  have ok: "p_slot p < length (peer_slots h)" "peer_slots h ! p_slot p = Some a"
    using slots_inv_peer [OF inv(1) p] by (auto simp: peer_ok_def)
  have notin: "p_slot p \<notin> set (free_peer_slots h) \<union> R"
    using ok unfolding slots_inv_vacant(1) [OF inv(1), symmetric] by simp
  show "distinct (free_peer_slots ?h)" "R \<inter> set (free_peer_slots ?h) = {}"
    using slots_inv_vacant(2,3) [OF inv(1)] notin by (auto simp: res)
  have "{s. s < length (peer_slots ?h) \<and> peer_slots ?h ! s = None}
        = insert (p_slot p) {s. s < length (peer_slots h) \<and> peer_slots h ! s = None}"
    using ok by (auto simp: res nth_list_update)
  then show "{s. s < length (peer_slots ?h) \<and> peer_slots ?h ! s = None} = set (free_peer_slots ?h) \<union> R"
    using slots_inv_vacant(1) [OF inv(1)] by (simp add: res)
  show "\<exists>q. fmlookup (peers ?h) b = Some q \<and> p_slot q = s"
    if "s < length (peer_slots ?h)" "peer_slots ?h ! s = Some b" for s b
    using that slots_inv_slot [OF inv(1), of s b] p ok
    by (auto simp: res nth_list_update split: if_splits)
  show "peer_ok (peer_slots ?h) b q" if "fmlookup (peers ?h) b = Some q" for b q
    using that slots_inv_peer [OF inv(1), of b q] ok
    by (auto simp: res peer_ok_def nth_list_update split: if_splits)
  show "length (peer_slots ?h) \<le> max_peers ?h" "maintenance_cursor ?h \<le> length (peer_slots ?h)"
    using slots_inv_bounds [OF inv(1)] by simp_all
  show "available_free_peer_slots ?h \<le> length (free_peer_slots ?h)"
    using slots_inv_bounds(2) [OF inv(1)] by (simp add: res)
qed

lemma remove_ip_inv:
  assumes inv: "ip_inv h" and p: "fmlookup (peers h) a = Some p"
  shows "ip_inv (fst (remove_peer_at a h))"
proof -
  let ?h = "fst (remove_peer_at a h)"
  obtain m where m: "?h = h\<lparr>peers_per_ip := m, peers := fmdrop a (peers h),
        peer_slots := (peer_slots h)[p_slot p := None], free_peer_slots := free_peer_slots h @ [p_slot p]\<rparr>"
    and lk: "\<And>ip. fmlookup m ip = (if ip = addr_ip a
         then (if ip_count h ip > 1 then Some (ip_count h ip - 1) else None) else fmlookup (peers_per_ip h) ip)"
    using remove_peer_at_Some [OF assms] by auto
  have "ip_count ?h ip = (if addr_ip a = ip then ip_count h ip - 1 else ip_count h ip)" for ip
    by (rule ip_count_remove [OF p]) (simp add: m)
  then show ?thesis
    using inv by (auto simp: ip_inv_def lk m le_diff_conv intro: le_SucI)
qed

lemma remove_wm_inv:
  assumes "ip_inv h" "wm_inv h" "fmlookup (peers h) a = Some p"
  shows "wm_inv (fst (remove_peer_at a h))"
  using assms by (auto simp: wm_inv_def remove_peer_at_result)

lemma remove_limits [simp]: "limits_ok (fst (remove_peer_at a h)) = limits_ok h"
  by (simp add: limits_ok_def)

lemma remove_host_inv: "host_inv h \<Longrightarrow> host_inv (fst (remove_peer_at a h))"
  by (cases "fmlookup (peers h) a")
    (auto simp: host_inv_def intro: remove_slots_inv remove_ip_inv remove_wm_inv)

section \<open>Watermarks\<close>

lemma wm_stage_frame [simp]:
  "peers (wm_reset h) = peers h" "peers (wm_evict h) = peers h"
  "max_peers (wm_reset h) = max_peers h" "max_peers (wm_evict h) = max_peers h"
  "next_reconnect_watermark_generation (wm_evict h) = next_reconnect_watermark_generation h"
  by (simp_all add: wm_reset_def wm_evict_def Let_def split: option.split list.split prod.split)

lemma record_watermark_frame [simp]:
  "peers (record_reconnect_watermark a t now h) = peers h"
  "peer_slots (record_reconnect_watermark a t now h) = peer_slots h"
  "free_peer_slots (record_reconnect_watermark a t now h) = free_peer_slots h"
  "available_free_peer_slots (record_reconnect_watermark a t now h) = available_free_peer_slots h"
  "peers_per_ip (record_reconnect_watermark a t now h) = peers_per_ip h"
  "maintenance_cursor (record_reconnect_watermark a t now h) = maintenance_cursor h"
  "connect_key (record_reconnect_watermark a t now h) = connect_key h"
  "host_timeout (record_reconnect_watermark a t now h) = host_timeout h"
  "max_peers (record_reconnect_watermark a t now h) = max_peers h"
  "max_peers_per_ip (record_reconnect_watermark a t now h) = max_peers_per_ip h"
  "socket (record_reconnect_watermark a t now h) = socket h"
  by (simp_all add: record_reconnect_watermark_def wm_reset_def wm_evict_def Let_def
      split: option.split list.split prod.split)

lemma record_watermark_slots_ip [simp]:
  "slots_inv R (record_reconnect_watermark a t now h) = slots_inv R h"
  "ip_inv (record_reconnect_watermark a t now h) = ip_inv h"
  "limits_ok (record_reconnect_watermark a t now h) = limits_ok h"
  by (simp_all add: slots_inv_def ip_inv_def ip_count_def limits_ok_def)

lemma wm_reset_inv:
  "wm_inv h \<Longrightarrow> wm_inv (wm_reset h) \<and> next_reconnect_watermark_generation (wm_reset h) < u64_max"
  by (auto simp: wm_inv_def wm_reset_def u64_max_def)

lemma wm_evict_order:
  assumes inv: "distinct (map snd (reconnect_watermark_order h))"
      "\<forall>b w. fmlookup (reconnect_watermarks h) b = Some w \<longrightarrow> (b, wm_generation w) \<in> set (reconnect_watermark_order h)"
    and len: "length (reconnect_watermark_order h) \<le> max_peers h" "0 < max_peers h"
  shows "length (reconnect_watermark_order (wm_evict h)) < max_peers h"
    "set (reconnect_watermark_order (wm_evict h)) \<subseteq> set (reconnect_watermark_order h)"
    "distinct (map snd (reconnect_watermark_order (wm_evict h)))"
    "fmlookup (reconnect_watermarks (wm_evict h)) b = Some w \<Longrightarrow>
       fmlookup (reconnect_watermarks h) b = Some w
       \<and> (b, wm_generation w) \<in> set (reconnect_watermark_order (wm_evict h))"
proof -
  have "length (reconnect_watermark_order (wm_evict h)) < max_peers h
      \<and> set (reconnect_watermark_order (wm_evict h)) \<subseteq> set (reconnect_watermark_order h)
      \<and> distinct (map snd (reconnect_watermark_order (wm_evict h)))
      \<and> (fmlookup (reconnect_watermarks (wm_evict h)) b = Some w \<longrightarrow>
         fmlookup (reconnect_watermarks h) b = Some w
         \<and> (b, wm_generation w) \<in> set (reconnect_watermark_order (wm_evict h)))"
  proof (cases "length (reconnect_watermark_order h) = max_peers h")
    case False
    with assms show ?thesis by (auto simp: wm_evict_def)
  next
    case True
    with len obtain c g rest where ord: "reconnect_watermark_order h = (c, g) # rest"
      by (cases "reconnect_watermark_order h") auto
    have ord': "reconnect_watermark_order (wm_evict h) = rest"
      using True ord by (auto simp: wm_evict_def Let_def split: option.split)
    have wms: "reconnect_watermarks (wm_evict h) =
        (if map_option wm_generation (fmlookup (reconnect_watermarks h) c) = Some g
         then fmdrop c (reconnect_watermarks h) else reconnect_watermarks h)"
      using True ord by (auto simp: wm_evict_def Let_def split: option.split)
    have "fmlookup (reconnect_watermarks h) b = Some w \<and> (b, wm_generation w) \<in> set rest"
      if lk: "fmlookup (reconnect_watermarks (wm_evict h)) b = Some w"
    proof -
      from lk have w: "fmlookup (reconnect_watermarks h) b = Some w"
        by (simp add: wms split: if_splits)
      moreover from lk w have "(b, wm_generation w) \<noteq> (c, g)" by (auto simp: wms split: if_splits)
      ultimately show ?thesis using inv(2) w ord by force
    qed
    with True ord ord' inv(1) len show ?thesis by auto
  qed
  then show "length (reconnect_watermark_order (wm_evict h)) < max_peers h"
    "set (reconnect_watermark_order (wm_evict h)) \<subseteq> set (reconnect_watermark_order h)"
    "distinct (map snd (reconnect_watermark_order (wm_evict h)))"
    "fmlookup (reconnect_watermarks (wm_evict h)) b = Some w \<Longrightarrow>
       fmlookup (reconnect_watermarks h) b = Some w
       \<and> (b, wm_generation w) \<in> set (reconnect_watermark_order (wm_evict h))"
    by blast+
qed

lemma record_wm_inv:
  assumes inv: "wm_inv h" "limits_ok h" and a: "fmlookup (peers h) a = None"
  shows "wm_inv (record_reconnect_watermark a t now h)"
proof -
  define h1 where "h1 = wm_reset h"
  define g where "g = Suc (next_reconnect_watermark_generation h1)"
  define h2 where "h2 = h1\<lparr>next_reconnect_watermark_generation := g\<rparr>"
  define h3 where "h3 = wm_evict h2"
  have i1: "wm_inv h1" and g: "g \<le> u64_max"
    using wm_reset_inv [OF inv(1)] by (auto simp: h1_def g_def)
  have mp: "max_peers h2 = max_peers h" "peers h2 = peers h" "peers h1 = peers h" "max_peers h1 = max_peers h"
    by (simp_all add: h2_def h1_def)
  have h2: "distinct (map snd (reconnect_watermark_order h2))"
      "length (reconnect_watermark_order h2) \<le> max_peers h2" "0 < max_peers h2"
      "\<forall>b w. fmlookup (reconnect_watermarks h2) b = Some w \<longrightarrow> (b, wm_generation w) \<in> set (reconnect_watermark_order h2)"
    using i1 inv(2) by (auto simp: h2_def wm_inv_def limits_ok_def mp)
  note ev = wm_evict_order [OF h2(1,4,2,3), folded h3_def]
  have fresh: "x < g" if "x \<in> snd ` set (reconnect_watermark_order h3)" for x
    using that ev(2) i1 by (fastforce simp: h2_def wm_inv_def g_def)
  obtain w where w: "wm_generation w = g"
    and eq: "record_reconnect_watermark a t now h =
      h3\<lparr>reconnect_watermarks := fmupd a w (reconnect_watermarks h3),
         reconnect_watermark_order := reconnect_watermark_order h3 @ [(a, g)]\<rparr>"
    by (rule that [of "case fmlookup (reconnect_watermarks h3) a of
          Some w \<Rightarrow> w\<lparr>wm_connect_time := (if t > wm_connect_time w then t else wm_connect_time w),
            wm_expires_at := (case instant_checked_add now (host_timeout h3) of None \<Rightarrow> now | Some t \<Rightarrow> t),
            wm_generation := g\<rparr>
        | None \<Rightarrow> \<lparr>wm_connect_time = t,
            wm_expires_at = (case instant_checked_add now (host_timeout h3) of None \<Rightarrow> now | Some t \<Rightarrow> t),
            wm_generation = g\<rparr>"])
      (simp_all add: record_reconnect_watermark_def Let_def h3_def h2_def h1_def g_def split: option.split)
  have live: "fmlookup (peers h) b = None" if "fmlookup (reconnect_watermarks h3) b = Some v" for b v
    using ev(4) [OF that] i1 by (auto simp: wm_inv_def h2_def mp)
  have nxt: "next_reconnect_watermark_generation h3 = g" "peers h3 = peers h" "max_peers h3 = max_peers h"
    by (simp_all add: h3_def h2_def mp h1_def)
  show ?thesis
    unfolding eq wm_inv_def
    using ev(1,3) fresh g w a live ev(4)
    by (auto simp: nxt mp less_imp_le dest: fresh)
qed

lemma record_host_inv:
  "host_inv h \<Longrightarrow> fmlookup (peers h) a = None \<Longrightarrow> host_inv (record_reconnect_watermark a t now h)"
  by (simp add: host_inv_def record_wm_inv)

lemma watermarks_bounded:
  assumes "wm_inv h"
  shows "fmlen (reconnect_watermarks h) \<le> length (reconnect_watermark_order h)"
proof -
  have "fset (fmdom (reconnect_watermarks h)) \<subseteq> fst ` set (reconnect_watermark_order h)"
    using assms by (force simp: wm_inv_def fmlookup_dom_iff)
  then have "card (fset (fmdom (reconnect_watermarks h))) \<le> card (fst ` set (reconnect_watermark_order h))"
    by (intro card_mono) auto
  also have "\<dots> \<le> length (reconnect_watermark_order h)"
    by (meson card_image_le card_length finite_set le_trans)
  finally show ?thesis by (simp add: fmlen_def fcard.rep_eq)
qed

lemma expire_watermarks_inv:
  assumes "host_inv h" "expire_reconnect_watermarks now h w = (h', w')"
  shows "host_inv h'"
  using assms
proof (induction now h w arbitrary: h' w' rule: expire_reconnect_watermarks.induct)
  case (1 now h w)
  show ?case
  proof (cases "w_watermark_cleanups w < MAX_POLL_WATERMARK_CLEANUPS \<and> reconnect_watermark_order h \<noteq> []")
    case False
    with "1.prems" show ?thesis
      by (auto simp: expire_reconnect_watermarks.simps [of now h w] split: list.splits if_splits)
  next
    case True
    then obtain a g rest where ord: "reconnect_watermark_order h = (a, g) # rest"
      by (cases "reconnect_watermark_order h") auto
    define live where "live = (case fmlookup (reconnect_watermarks h) a of
        Some wm \<Rightarrow> if wm_generation wm = g then Some wm else None | None \<Rightarrow> None)"
    have wmi: "wm_inv h" using "1.prems" by (simp add: host_inv_def)
    have drop: "wm_inv (h\<lparr>reconnect_watermarks := fmdrop a (reconnect_watermarks h), reconnect_watermark_order := rest\<rparr>)"
      using wmi ord by (fastforce simp: wm_inv_def)
    have keep: "wm_inv (h\<lparr>reconnect_watermark_order := rest\<rparr>)" if "live = None"
      using wmi ord that by (fastforce simp: wm_inv_def live_def split: option.splits if_splits)
    have lims: "limits_ok (h\<lparr>reconnect_watermarks := m, reconnect_watermark_order := rest\<rparr>)"
      "limits_ok (h\<lparr>reconnect_watermark_order := rest\<rparr>)" for m
      using "1.prems" by (simp_all add: host_inv_def limits_ok_def)
    show ?thesis
      using "1.prems" True ord "1.IH" [OF _ ord refl live_def] drop keep lims
      by (auto simp: expire_reconnect_watermarks.simps [of now h w] host_inv_def
          simp flip: live_def split: option.splits if_splits)
  qed
qed

section \<open>Datagram handlers keep the invariant\<close>

lemma insert_peer_frame [simp]:
  "peers (insert_peer p h) = fmupd (p_addr p) p (peers h)"
  "reconnect_watermarks (insert_peer p h) = reconnect_watermarks h"
  "reconnect_watermark_order (insert_peer p h) = reconnect_watermark_order h"
  "next_reconnect_watermark_generation (insert_peer p h) = next_reconnect_watermark_generation h"
  "max_peers (insert_peer p h) = max_peers h" "max_peers_per_ip (insert_peer p h) = max_peers_per_ip h"
  "free_peer_slots (insert_peer p h) = free_peer_slots h"
  "available_free_peer_slots (insert_peer p h) = available_free_peer_slots h"
  "host_timeout (insert_peer p h) = host_timeout h" "connect_key (insert_peer p h) = connect_key h"
  "length (peer_slots (insert_peer p h)) = length (peer_slots h)"
  "socket (insert_peer p h) = socket h" "maintenance_cursor (insert_peer p h) = maintenance_cursor h"
  by (simp_all add: insert_peer_def Let_def)

lemma accept_connect_inv:
  assumes inv: "host_inv h" and new: "fmlookup (peers h) a = None"
    and room: "ip_count h (addr_ip a) < max_peers_per_ip h"
    and req: "req_connection_number req < 4" "in_i64 (req_connect_time req)"
  shows "host_inv (fst (accept_connect req a now rep h ev))"
proof -
  obtain h1 r where al: "allocate_peer_slot h = (h1, r)" by (cases "allocate_peer_slot h")
  note fr = allocate_frame [OF al] allocate_inv_frame [OF al]
  have sl: "case r of None \<Rightarrow> slots_inv {} h1 | Some s \<Rightarrow> slots_inv {s} h1 \<and> s < length (peer_slots h1)"
    using inv al by (auto simp: host_inv_def intro: allocate_slots_inv)
  show ?thesis
  proof (cases r)
    case None
    with sl inv have "host_inv h1" by (simp add: host_inv_def fr)
    with None new show ?thesis by (simp add: accept_connect_def al record_host_inv fr)
  next
    case (Some s)
    define p where "p = \<lparr>p_id = s + 1, p_slot = s, p_addr = a, p_connect_time = req_connect_time req,
        p_connection_number = req_connection_number req, p_local_peer_id = int s, p_last_recv = now,
        p_last_ping_sent = now, p_ping_seq = 0, p_ping_sent_at = None, p_rtt = None\<rparr>"
    define b where "b = build_connect_accept (req_connect_time req) (req_connection_number req) (int s) False"
    define h3 where "h3 = insert_peer p (send_to b a h1)"
    have "slots_inv {} h3" unfolding h3_def
      using sl Some req new by (intro insert_peer_slots_inv [where s = s]) (simp_all add: p_def fr)
    moreover have "ip_inv h3" unfolding h3_def
      using inv new room by (intro insert_peer_ip_inv) (simp_all add: p_def host_inv_def fr ip_count_def)
    moreover have "wm_inv (h3\<lparr>reconnect_watermarks := fmdrop a (reconnect_watermarks h3)\<rparr>)"
      using inv by (auto simp: h3_def wm_inv_def host_inv_def fr p_def)
    moreover have "limits_ok h3" using inv by (simp add: h3_def limits_ok_def host_inv_def fr)
    ultimately have "host_inv (h3\<lparr>reconnect_watermarks := fmdrop a (reconnect_watermarks h3)\<rparr>)"
      by (simp add: host_inv_def limits_ok_def)
    with Some show ?thesis by (simp add: accept_connect_def al h3_def p_def b_def Let_def)
  qed
qed

lemma wm_raise_inv:
  assumes "host_inv h" "fmlookup (reconnect_watermarks h) a = Some w"
  shows "host_inv (h\<lparr>reconnect_watermarks := fmupd a (w\<lparr>wm_connect_time := t\<rparr>) (reconnect_watermarks h)\<rparr>)"
  using assms by (auto simp: host_inv_def wm_inv_def limits_ok_def)

lemma fmget_or_ip: "ip_inv h \<Longrightarrow> fmget_or (peers_per_ip h) ip 0 = ip_count h ip"
  by (simp add: ip_inv_def fmget_or_def)

lemma handle_connect_request_inv:
  assumes inv: "host_inv h"
  shows "host_inv (fst (handle_connect_request data a now h ev))"
proof (cases "parse_connect_request data")
  case None
  with inv show ?thesis by (simp add: handle_connect_request_def)
next
  case (Some req)
  note rq = parse_connect_request_Some(3,4) [OF Some]
  show ?thesis
  proof (cases "fmlookup (peers h) a")
    case (Some p)
    let ?h = "fst (remove_peer_at a h)"
    have ii: "ip_inv h" using inv by (simp add: host_inv_def)
    have peers: "peers ?h = fmdrop a (peers h)" using ii Some by (rule remove_peer_at_result)
    have "ip_count ?h (addr_ip a) < max_peers_per_ip ?h"
      using ip_count_remove [OF Some peers] ip_count_pos [OF Some] ii
      by (auto simp: ip_inv_def intro: less_le_trans [of _ "ip_count h (addr_ip a)"])
    then have "host_inv (fst (accept_connect req a now True ?h (ev @ [Disconnected (p_id p) Remote])))"
      using remove_host_inv [OF inv] rq by (intro accept_connect_inv) (simp_all add: peers)
    with \<open>parse_connect_request data = Some req\<close> Some inv show ?thesis
      by (simp add: handle_connect_request_def)
  next
    case None
    define h1 where "h1 = (case fmlookup (reconnect_watermarks h) a of
        Some w \<Rightarrow> if req_connect_time req > wm_connect_time w
          then h\<lparr>reconnect_watermarks := fmupd a (w\<lparr>wm_connect_time := req_connect_time req\<rparr>) (reconnect_watermarks h)\<rparr>
          else h | None \<Rightarrow> h)"
    have i1: "host_inv h1" using inv by (auto simp: h1_def wm_raise_inv split: option.split)
    have p1: "fmlookup (peers h1) a = None" using None by (simp add: h1_def split: option.split)
    have "host_inv (fst (accept_connect req a now False h1 ev))"
      if "\<not> fmget_or (peers_per_ip h1) (addr_ip a) 0 \<ge> max_peers_per_ip h1"
      using that i1 p1 rq by (intro accept_connect_inv) (auto simp: fmget_or_ip host_inv_def)
    with \<open>parse_connect_request data = Some req\<close> None inv i1 show ?thesis
      by (auto simp: handle_connect_request_def Let_def simp flip: h1_def)
  qed
qed

lemma handle_ping_inv: "host_inv h \<Longrightarrow> host_inv (handle_ping data a now wall h)"
  by (auto simp: handle_ping_def peer_refresh_def intro: refresh_host_inv split: option.split)

lemma handle_pong_inv: "host_inv h \<Longrightarrow> host_inv (handle_pong data a now h)"
  by (auto simp: handle_pong_def Let_def peer_refresh_def intro: refresh_host_inv split: option.split)

lemma handle_disconnect_inv: "host_inv h \<Longrightarrow> host_inv (fst (handle_disconnect data a h ev))"
  by (auto simp: handle_disconnect_def intro: remove_host_inv split: option.split)

lemma handle_datagram_inv: "host_inv h \<Longrightarrow> host_inv (fst (handle_datagram data a now wall h ev))"
  by (auto simp: handle_datagram_def Let_def peer_refresh_def
      intro: refresh_host_inv handle_connect_request_inv handle_ping_inv handle_pong_inv handle_disconnect_inv
      split: option.split)

section \<open>The poll keeps the invariant\<close>

lemma peek_from_inv: "host_inv h \<Longrightarrow> peek_from h = (h', r) \<Longrightarrow> host_inv h'"
  by (auto simp: peek_from_def split: list.splits arrival.splits)

lemma recv_from_inv: "host_inv h \<Longrightarrow> recv_from h = (h', r) \<Longrightarrow> host_inv h'"
  by (auto simp: recv_from_def split: list.splits arrival.splits)

lemma drain_socket_inv: "host_inv h \<Longrightarrow> host_inv (fst (drain_socket now wall h ev w))"
proof (induction now wall h ev w rule: drain_socket.induct)
  case (1 now wall h ev w)
  obtain h1 r where pk: "peek_from h = (h1, r)" by (cases "peek_from h")
  obtain h2 q where rc: "recv_from h1 = (h2, q)" by (cases "recv_from h1")
  have i1: "host_inv h1" using "1.prems" pk by (rule peek_from_inv)
  have i2: "host_inv h2" using i1 rc by (rule recv_from_inv)
  show ?case
    using "1.prems" i1 i2 handle_datagram_inv [OF i2] "1.IH" pk rc
    by (subst drain_socket.simps) (auto simp: Let_def split: sum.split)
qed

lemma cursor_inv:
  "host_inv h \<Longrightarrow> n \<le> length (peer_slots h) \<Longrightarrow> host_inv (h\<lparr>maintenance_cursor := n\<rparr>)"
  by (simp add: host_inv_def slots_inv_def ip_inv_def ip_count_def wm_inv_def limits_ok_def)

lemma available_inv:
  "host_inv h \<Longrightarrow> host_inv (h\<lparr>available_free_peer_slots := length (free_peer_slots h)\<rparr>)"
  by (simp add: host_inv_def slots_inv_def ip_inv_def ip_count_def wm_inv_def limits_ok_def)

end
