(* ===== verification/Host_Poll.thy ===== *)
theory Host_Poll
  imports Host_Inv
begin

text \<open>
  The bounded poll of the transport host and its remaining operations: the maintenance scan keeps
  the invariant, every counter of \<open>PollWork\<close> stays within its constant (the assertions
  \<open>poll_with_work\<close> makes in debug builds), the events of one poll never name a reused peer
  id ambiguously, and what sending, disconnecting and shutting down do.
\<close>

section \<open>The maintenance scan\<close>

text \<open>The three outcomes of one scan: nothing but the cursor, a timeout, a keepalive.\<close>

lemma maintenance_scan_cases:
  assumes "host_inv h"
  obtains (idle) slot where
      "maintenance_scan now n (h, ev, w) = (h\<lparr>maintenance_cursor := Suc slot\<rparr>, ev, w\<lparr>w_maintenance_scans := w_maintenance_scans w + 1\<rparr>)"
      "slot = (if maintenance_cursor h \<ge> n then 0 else maintenance_cursor h)"
  | (expire) slot a p where
      "maintenance_scan now n (h, ev, w) =
         (fst (remove_peer_at a (h\<lparr>maintenance_cursor := Suc slot\<rparr>)), ev @ [Disconnected (p_id p) Timeout],
          w\<lparr>w_maintenance_scans := w_maintenance_scans w + 1, w_timeout_events := w_timeout_events w + 1\<rparr>)"
      "slot = (if maintenance_cursor h \<ge> n then 0 else maintenance_cursor h)"
      "fmlookup (peers h) a = Some p" "peer_slots h ! slot = Some a" "now - p_last_recv p > host_timeout h"
      "w_timeout_events w < MAX_POLL_TIMEOUT_EVENTS"
  | (ping) slot a p p' where
      "maintenance_scan now n (h, ev, w) =
         (send_to (build_ping (p_connection_number p') (p_ping_seq p')) (p_addr p')
            (h\<lparr>maintenance_cursor := Suc slot, peers := fmupd a p' (peers h)\<rparr>), ev,
          w\<lparr>w_maintenance_scans := w_maintenance_scans w + 1, w_keepalive_sends := w_keepalive_sends w + 1\<rparr>)"
      "slot = (if maintenance_cursor h \<ge> n then 0 else maintenance_cursor h)"
      "fmlookup (peers h) a = Some p" "peer_slots h ! slot = Some a"
      "p' = p\<lparr>p_ping_seq := p_ping_seq p + 1, p_last_ping_sent := now, p_ping_sent_at := Some now\<rparr>"
      "w_keepalive_sends w < MAX_POLL_KEEPALIVE_SENDS" "now - p_last_recv p \<le> host_timeout h"
proof -
  define slot where "slot = (if maintenance_cursor h \<ge> n then 0 else maintenance_cursor h)"
  define h1 where "h1 = h\<lparr>maintenance_cursor := Suc slot\<rparr>"
  have h1: "peers h1 = peers h" "peer_slots h1 = peer_slots h" "host_timeout h1 = host_timeout h"
    by (simp_all add: h1_def)
  have ii: "ip_inv h1" using assms by (simp add: h1_def host_inv_def ip_inv_def ip_count_def)
  note scan = maintenance_scan_def [of now n "(h, ev, w)", unfolded Let_def prod.case, folded slot_def, unfolded Suc_eq_plus1 [symmetric], folded h1_def]
  show ?thesis
  proof (cases "peer_slots h ! slot")
    case None
    with scan show ?thesis by (intro idle [OF _ slot_def]) (simp add: h1_def Let_def)
  next
    case sl: (Some a)
    show ?thesis
    proof (cases "fmlookup (peers h) a")
      case None
      with sl scan show ?thesis by (intro idle [OF _ slot_def]) (simp add: h1_def Let_def)
    next
      case (Some p)
      show ?thesis
      proof (cases "now - p_last_recv p > host_timeout h")
        case late: True
        obtain h2 where rm: "remove_peer_at a h1 = (h2, Some p)"
          using remove_peer_at_result(1) [OF ii, of a p] Some h1 by (metis prod.collapse)
        show ?thesis
        proof (cases "w_timeout_events w < MAX_POLL_TIMEOUT_EVENTS")
          case True
          have "maintenance_scan now n (h, ev, w) = (fst (remove_peer_at a h1), ev @ [Disconnected (p_id p) Timeout],
              w\<lparr>w_maintenance_scans := w_maintenance_scans w + 1, w_timeout_events := w_timeout_events w + 1\<rparr>)"
            unfolding scan by (simp add: rm sl Some late True h1 Let_def)
          then show ?thesis by (intro expire [OF _ slot_def Some sl late True]) (simp add: h1_def)
        next
          case False
          with late Some sl scan show ?thesis by (intro idle [OF _ slot_def]) (simp add: h1_def Let_def)
        qed
      next
        case alive: False
        show ?thesis
        proof (cases "w_keepalive_sends w \<ge> MAX_POLL_KEEPALIVE_SENDS \<or> now - p_last_ping_sent p < PING_INTERVAL")
          case True
          with alive Some sl scan show ?thesis by (intro idle [OF _ slot_def]) (auto simp: h1_def Let_def)
        next
          case False
          with alive Some sl scan show ?thesis
            by (intro ping [OF _ slot_def Some sl refl]) (simp_all add: h1_def Let_def)
        qed
      qed
    qed
  qed
qed

text \<open>What one scan keeps: the invariant and the number of slots.\<close>

lemma maintenance_scan_inv:
  assumes inv: "host_inv h" and n: "n = length (peer_slots h)" "0 < n"
    and eq: "maintenance_scan now n (h, ev, w) = (h', ev', w')"
  shows "host_inv h' \<and> length (peer_slots h') = n"
  using inv
proof (cases rule: maintenance_scan_cases [of h now n ev w])
  case (idle slot)
  with inv n eq show ?thesis by (auto intro!: cursor_inv simp: Suc_le_eq split: if_splits)
next
  case (expire slot a p)
  then have "host_inv (h\<lparr>maintenance_cursor := Suc slot\<rparr>)"
    using inv n by (auto intro!: cursor_inv simp: Suc_le_eq split: if_splits)
  with expire n eq remove_host_inv [of "h\<lparr>maintenance_cursor := Suc slot\<rparr>" a] show ?thesis by auto
next
  case (ping slot a p p')
  then have "host_inv (h\<lparr>maintenance_cursor := Suc slot\<rparr>)"
    using inv n by (auto intro!: cursor_inv simp: Suc_le_eq split: if_splits)
  from refresh_host_inv [OF this, of a p p'] ping n eq show ?thesis
    by (auto simp: peer_refresh_def)
qed

lemma maintenance_scans_inv:
  assumes "host_inv h" "n = length (peer_slots h)" "0 < n"
    and "(maintenance_scan now n ^^ k) (h, ev, w) = (h', ev', w')"
  shows "host_inv h' \<and> length (peer_slots h') = n"
  using assms(4)
proof (induction k arbitrary: h' ev' w')
  case 0
  with assms show ?case by simp
next
  case (Suc k)
  obtain h1 ev1 w1 where st: "(maintenance_scan now n ^^ k) (h, ev, w) = (h1, ev1, w1)" by (metis prod_cases3)
  from Suc.IH [OF st] Suc.prems st assms(3) maintenance_scan_inv [of h1 n now ev1 w1] show ?case by auto
qed

lemma process_peer_maintenance_inv:
  assumes "host_inv h" "process_peer_maintenance now h ev w = (h', ev', w')"
  shows "host_inv h'"
  using assms maintenance_scans_inv [OF assms(1) refl]
  by (auto simp: process_peer_maintenance_def Let_def intro!: cursor_inv split: if_splits)

section \<open>The poll\<close>

text \<open>The stages of a poll, named.\<close>

lemma poll_stages:
  assumes "poll_with_work now wall h = (h', ev', w')"
  obtains h1 w1 h2 ev2 w2 where
    "expire_reconnect_watermarks now (h\<lparr>available_free_peer_slots := length (free_peer_slots h)\<rparr>) poll_work_default = (h1, w1)"
    "drain_socket now wall h1 [] w1 = (h2, ev2, w2)"
    "process_peer_maintenance now h2 ev2 (w2\<lparr>w_socket_events := length ev2\<rparr>) = (h', ev', w')"
  using assms by (auto simp: poll_with_work_def Let_def split: prod.splits)

lemma poll_inv:
  assumes inv: "host_inv h" and eq: "poll_with_work now wall h = (h', ev', w')"
  shows "host_inv h'"
  using eq
proof (rule poll_stages)
  fix h1 w1 h2 ev2 w2
  assume st: "expire_reconnect_watermarks now (h\<lparr>available_free_peer_slots := length (free_peer_slots h)\<rparr>) poll_work_default = (h1, w1)"
    "drain_socket now wall h1 [] w1 = (h2, ev2, w2)"
    "process_peer_maintenance now h2 ev2 (w2\<lparr>w_socket_events := length ev2\<rparr>) = (h', ev', w')"
  have "host_inv h1" using expire_watermarks_inv [OF available_inv [OF inv] st(1)] .
  then have "host_inv h2" using drain_socket_inv [of h1 now wall "[]" w1] st(2) by simp
  then show ?thesis using st(3) by (rule process_peer_maintenance_inv)
qed

section \<open>The event stream\<close>

text \<open>
  What a client of the host may assume of the events it returns: the set of live peer ids runs
  along with them. \<open>event_run L evs\<close> is the set after the events, or \<open>None\<close> when some
  event does not fit: a \<open>Connected\<close> of an id that is live, or a \<open>Data\<close> or
  \<open>Disconnected\<close> of one that is not. \<open>fresh_run F evs\<close> says that every
  \<open>Connected\<close> id is in \<open>F\<close> and is named by no earlier event.
\<close>

fun event_run :: "nat fset \<Rightarrow> event list \<Rightarrow> nat fset option" where
  "event_run L [] = Some L"
| "event_run L (Connected i # es) = (if i |\<in>| L then None else event_run (finsert i L) es)"
| "event_run L (Data i _ # es) = (if i |\<in>| L then event_run L es else None)"
| "event_run L (Disconnected i _ # es) = (if i |\<in>| L then event_run (L |-| {|i|}) es else None)"

fun event_id :: "event \<Rightarrow> nat" where
  "event_id (Connected i) = i"
| "event_id (Data i _) = i"
| "event_id (Disconnected i _) = i"

fun fresh_run :: "nat set \<Rightarrow> event list \<Rightarrow> bool" where
  "fresh_run F [] = True"
| "fresh_run F (e # es) \<longleftrightarrow> (case e of Connected i \<Rightarrow> i \<in> F | _ \<Rightarrow> True) \<and> fresh_run (F - {event_id e}) es"

definition peer_ids :: "host \<Rightarrow> nat fset" where
  "peer_ids h = p_id |`| fmran (peers h)"

definition fresh_ids :: "host \<Rightarrow> nat set" where
  "fresh_ids h = Suc ` (set (take (available_free_peer_slots h) (free_peer_slots h)) \<union> {length (peer_slots h)..})"

definition host_step :: "host \<Rightarrow> event list \<Rightarrow> host \<Rightarrow> bool" where
  "host_step h es h' \<longleftrightarrow>
     event_run (peer_ids h) es = Some (peer_ids h') \<and> fresh_run (fresh_ids h) es
     \<and> fresh_ids h' \<subseteq> fresh_ids h - event_id ` set es"

lemma event_run_append: "event_run L (xs @ ys) = Option.bind (event_run L xs) (\<lambda>L'. event_run L' ys)"
  by (induction L xs rule: event_run.induct) auto

lemma fresh_run_mono: "fresh_run F es \<Longrightarrow> F \<subseteq> G \<Longrightarrow> fresh_run G es"
proof (induction es arbitrary: F G)
  case (Cons e es)
  have "fresh_run (G - {event_id e}) es"
    by (rule Cons.IH [of "F - {event_id e}"]) (use Cons.prems in auto)
  with Cons.prems show ?case by (auto split: event.splits)
qed simp

lemma fresh_run_append:
  "fresh_run F (xs @ ys) \<longleftrightarrow> fresh_run F xs \<and> fresh_run (F - event_id ` set xs) ys"
proof (induction xs arbitrary: F)
  case (Cons e xs)
  have "F - event_id ` set (e # xs) = F - {event_id e} - event_id ` set xs" by auto
  with Cons show ?case by simp
qed simp

lemma fresh_run_first: "fresh_run F (xs @ Connected i # ys) \<Longrightarrow> i \<in> F \<and> i \<notin> event_id ` set xs"
  by (auto simp: fresh_run_append)

lemma host_step_refl: "host_step h [] h"
  by (simp add: host_step_def)

lemma host_step_trans:
  "host_step h es h1 \<Longrightarrow> host_step h1 fs h2 \<Longrightarrow> host_step h (es @ fs) h2"
  by (auto simp: host_step_def event_run_append fresh_run_append elim: fresh_run_mono)

text \<open>A step that touches neither the table nor the slots.\<close>

lemma host_step_frame:
  assumes "peers h' = peers h" "peer_slots h' = peer_slots h" "free_peer_slots h' = free_peer_slots h"
    "available_free_peer_slots h' = available_free_peer_slots h"
  shows "host_step h es h' = host_step h es h" "host_step h' es g = host_step h es g"
  by (simp_all add: host_step_def peer_ids_def fresh_ids_def assms)

lemma peer_ids_iff: "i |\<in>| peer_ids h \<longleftrightarrow> (\<exists>a p. fmlookup (peers h) a = Some p \<and> p_id p = i)"
  by (force simp: peer_ids_def fmlookup_ran_iff)

lemma fresh_not_live:
  assumes "host_inv h" "fmlookup (peers h) a = Some p"
  shows "p_id p \<notin> fresh_ids h"
proof
  assume "p_id p \<in> fresh_ids h"
  have ok: "peer_ok (peer_slots h) a p" using assms by (auto simp: host_inv_def intro: slots_inv_peer)
  with \<open>p_id p \<in> fresh_ids h\<close> have "p_slot p \<in> set (free_peer_slots h)"
    by (auto simp: fresh_ids_def peer_ok_def dest: in_set_takeD)
  then have "peer_slots h ! p_slot p = None"
    using slots_inv_vacant(1) [of "{}" h] assms(1) by (auto simp: host_inv_def)
  with ok show False by (simp add: peer_ok_def)
qed

lemma host_inv_peer_ok: "host_inv h \<Longrightarrow> fmlookup (peers h) a = Some p \<Longrightarrow> peer_ok (peer_slots h) a p"
  by (auto simp: host_inv_def intro: slots_inv_peer)

lemma peer_id_inj:
  assumes "host_inv h" "fmlookup (peers h) a = Some p" "fmlookup (peers h) b = Some q" "p_id p = p_id q"
  shows "a = b \<and> p = q"
  using host_inv_peer_ok [OF assms(1,2)] host_inv_peer_ok [OF assms(1,3)] assms by (auto simp: peer_ok_def)

lemma peer_ids_refresh:
  "fmlookup (peers h) a = Some p \<Longrightarrow> p_id p' = p_id p \<Longrightarrow> peer_ids (h\<lparr>peers := fmupd a p' (peers h)\<rparr>) = peer_ids h"
  by (rule fset_eqI) (auto simp: peer_ids_iff, metis option.inject)

lemma host_step_refresh:
  assumes "fmlookup (peers h) a = Some p" "p_id p' = p_id p"
  shows "host_step h [] (h\<lparr>peers := fmupd a p' (peers h)\<rparr>)"
  using peer_ids_refresh [OF assms] by (simp add: host_step_def fresh_ids_def)

lemma host_step_data:
  assumes "host_inv h" "fmlookup (peers h) a = Some p" "p_id p' = p_id p"
  shows "host_step h [Data (p_id p) b] (h\<lparr>peers := fmupd a p' (peers h)\<rparr>)"
  using peer_ids_refresh [OF assms(2,3)] fresh_not_live [OF assms(1,2)] assms(2)
  by (auto simp: host_step_def fresh_ids_def peer_ids_iff)

lemma host_step_remove:
  assumes inv: "host_inv h" and p: "fmlookup (peers h) a = Some p"
  shows "host_step h [Disconnected (p_id p) r] (fst (remove_peer_at a h))"
proof -
  let ?h = "fst (remove_peer_at a h)"
  have ii: "ip_inv h" "slots_inv {} h" using inv by (simp_all add: host_inv_def)
  note res = remove_peer_at_result [OF ii(1) p]
  have "peer_ids ?h = peer_ids h |-| {|p_id p|}"
  proof (rule fset_eqI)
    fix i
    have "b \<noteq> a \<longleftrightarrow> p_id q \<noteq> p_id p" if "fmlookup (peers h) b = Some q" for b q
      using peer_id_inj [OF inv p that] p that by (metis option.inject)
    then have "i |\<in>| peer_ids ?h \<longleftrightarrow> i |\<in>| peer_ids h \<and> i \<noteq> p_id p"
      unfolding peer_ids_iff res fmlookup_drop by (metis option.distinct(1))
    then show "i |\<in>| peer_ids ?h \<longleftrightarrow> i |\<in>| peer_ids h |-| {|p_id p|}" by simp
  qed
  moreover have "p_id p |\<in>| peer_ids h" using p by (auto simp: peer_ids_iff)
  moreover have "fresh_ids ?h = fresh_ids h"
    using slots_inv_bounds(2) [OF ii(2)] by (simp add: fresh_ids_def res)
  ultimately show ?thesis
    using fresh_not_live [OF inv p] by (auto simp: host_step_def)
qed

lemma allocate_fresh:
  assumes inv: "host_inv h" and al: "allocate_peer_slot h = (h', Some s)"
  shows "Suc s \<in> fresh_ids h" "fresh_ids h' \<subseteq> fresh_ids h - {Suc s}"
proof -
  have d: "distinct (free_peer_slots h)" "set (free_peer_slots h) = {s. s < length (peer_slots h) \<and> peer_slots h ! s = None}"
    using slots_inv_vacant [of "{}" h] inv by (auto simp: host_inv_def)
  then have lt: "x \<in> set (free_peer_slots h) \<Longrightarrow> x < length (peer_slots h)" for x by auto
  show "Suc s \<in> fresh_ids h" "fresh_ids h' \<subseteq> fresh_ids h - {Suc s}"
  proof (atomize (full), cases "length (peer_slots h) < max_peers h")
    case True
    moreover from True al have "s = length (peer_slots h)" by (simp add: allocate_peer_slot_def)
    moreover have "length (peer_slots h) \<notin> set (take n (free_peer_slots h))" for n
      using lt by (blast dest: in_set_takeD)
    ultimately show "Suc s \<in> fresh_ids h \<and> fresh_ids h' \<subseteq> fresh_ids h - {Suc s}"
      using al by (auto simp: allocate_peer_slot_def fresh_ids_def)
  next
    case False
    with al obtain r where r: "free_peer_slots h = s # r" "0 < available_free_peer_slots h"
      "h' = h\<lparr>available_free_peer_slots := available_free_peer_slots h - 1, free_peer_slots := r\<rparr>"
      by (auto simp: allocate_peer_slot_def Let_def split: if_splits list.splits)
    then show "Suc s \<in> fresh_ids h \<and> fresh_ids h' \<subseteq> fresh_ids h - {Suc s}"
      using d(1) lt [of s] by (auto simp: fresh_ids_def take_Cons' dest: in_set_takeD)
  qed
qed

lemma allocate_none_fresh: "allocate_peer_slot h = (h', None) \<Longrightarrow> slots_inv {} h \<Longrightarrow> h' = h"
  using slots_inv_bounds(2) [of "{}" h] by (auto simp: allocate_peer_slot_def Let_def split: if_splits list.splits)

lemma host_step_accept:
  assumes inv: "host_inv h" and a: "fmlookup (peers h) a = None"
  shows "\<exists>es. snd (accept_connect req a now rep h ev) = ev @ es \<and> length es \<le> 1
    \<and> host_step h es (fst (accept_connect req a now rep h ev))"
proof (cases "allocate_peer_slot h")
  case (Pair h1 r)
  show ?thesis
  proof (cases r)
    case None
    with Pair inv have "h1 = h" by (intro allocate_none_fresh) (auto simp: host_inv_def)
    then have "host_step h [] (fst (accept_connect req a now rep h ev))"
      using Pair None by (subst host_step_frame(1)) (simp_all add: accept_connect_def host_step_refl)
    with Pair None show ?thesis
      by (intro exI [of _ "[]"]) (simp add: accept_connect_def)
  next
    case (Some s)
    let ?h = "fst (accept_connect req a now rep h ev)"
    obtain p where p: "peers ?h = fmupd a p (peers h)" "p_id p = Suc s"
      using Pair Some by (auto simp: accept_connect_def Let_def allocate_frame)
    have fr: "fresh_ids ?h = fresh_ids h1"
      using Pair Some by (simp add: accept_connect_def Let_def fresh_ids_def)
    have nl: "Suc s |\<notin>| peer_ids h"
      using allocate_fresh(1) [OF inv] Pair Some fresh_not_live [OF inv] by (metis peer_ids_iff)
    have ids: "peer_ids ?h = finsert (Suc s) (peer_ids h)"
    proof (rule fset_eqI)
      fix i
      have "i |\<in>| peer_ids ?h \<longleftrightarrow> i = Suc s \<or> i |\<in>| peer_ids h"
        unfolding peer_ids_iff p(1) fmupd_lookup using a p(2) by (metis option.distinct(1) option.inject)
      then show "i |\<in>| peer_ids ?h \<longleftrightarrow> i |\<in>| finsert (Suc s) (peer_ids h)" by simp
    qed
    have "host_step h [Connected (Suc s)] ?h"
      using allocate_fresh [OF inv, of h1 s] Pair Some nl by (simp add: host_step_def ids fr)
    with Pair Some show ?thesis
      by (intro exI [of _ "[Connected (Suc s)]"]) (simp add: accept_connect_def Let_def)
  qed
qed

lemma host_step_connect_request:
  assumes inv: "host_inv h"
  shows "\<exists>es. snd (handle_connect_request data a now h ev) = ev @ es \<and> length es \<le> 2
    \<and> host_step h es (fst (handle_connect_request data a now h ev))"
proof (cases "parse_connect_request data")
  case None
  then show ?thesis by (simp add: handle_connect_request_def host_step_refl)
next
  case req: (Some req)
  have sent: "host_step h [] (send_to b c h)" for b c
    by (subst host_step_frame(1)) (simp_all add: host_step_refl)
  show ?thesis
  proof (cases "fmlookup (peers h) a")
    case (Some p)
    let ?h = "fst (remove_peer_at a h)"
    have i: "host_inv ?h" "fmlookup (peers ?h) a = None"
      using remove_host_inv [OF inv] remove_peer_at_result(2) [OF _ Some] inv by (auto simp: host_inv_def)
    obtain es where es: "snd (accept_connect req a now True ?h (ev @ [Disconnected (p_id p) Remote]))
        = (ev @ [Disconnected (p_id p) Remote]) @ es" "length es \<le> 1"
        "host_step ?h es (fst (accept_connect req a now True ?h (ev @ [Disconnected (p_id p) Remote])))"
      using host_step_accept [OF i] by blast
    note st = host_step_trans [OF host_step_remove [OF inv Some, of Remote] es(3)]
    show ?thesis
      using req Some es(1,2) st host_step_refl [of h] sent
      by (auto simp: handle_connect_request_def Let_def)
  next
    case None
    define h1 where "h1 = (case fmlookup (reconnect_watermarks h) a of
        Some w \<Rightarrow> if req_connect_time req > wm_connect_time w
          then h\<lparr>reconnect_watermarks := fmupd a (w\<lparr>wm_connect_time := req_connect_time req\<rparr>) (reconnect_watermarks h)\<rparr>
          else h | None \<Rightarrow> h)"
    have i1: "host_inv h1" using inv by (auto simp: h1_def wm_raise_inv split: option.split)
    have p1: "fmlookup (peers h1) a = None" using None by (simp add: h1_def split: option.split)
    have fr: "host_step h1 es g = host_step h es g" for es g
      by (rule host_step_frame(2)) (simp_all add: h1_def split: option.split)
    obtain es where "snd (accept_connect req a now False h1 ev) = ev @ es" "length es \<le> 1"
        "host_step h es (fst (accept_connect req a now False h1 ev))"
      using host_step_accept [OF i1 p1] unfolding fr by blast
    then show ?thesis
      using req None host_step_refl [of h1] host_step_refl [of h] sent
      by (auto simp: handle_connect_request_def Let_def fr simp flip: h1_def)
  qed
qed

lemma host_step_ping: "host_step h [] (handle_ping data a now wall h)"
proof -
  have "host_step h [] (send_to b c h')" if "host_step h [] h'" for b c h'
    using that by (simp add: host_step_def peer_ids_def fresh_ids_def)
  note send = this [OF host_step_refresh]
  show ?thesis
    by (auto simp: handle_ping_def host_step_refl intro!: send split: option.split)
qed

lemma host_step_pong: "host_step h [] (handle_pong data a now h)"
  by (auto simp: handle_pong_def Let_def host_step_refl intro!: host_step_refresh split: option.split)

lemma host_step_disconnect:
  assumes inv: "host_inv h"
  shows "\<exists>es. snd (handle_disconnect data a h ev) = ev @ es \<and> length es \<le> 1
    \<and> host_step h es (fst (handle_disconnect data a h ev))"
proof -
  have "host_step h [Disconnected (p_id p) Remote] (fst (remove_peer_at a (send_to b a h)))"
    if "fmlookup (peers h) a = Some p" for p b
    using host_step_remove [of "send_to b a h" a p Remote] inv that
    by (simp add: host_step_def peer_ids_def fresh_ids_def)
  then show ?thesis
    by (auto simp: handle_disconnect_def host_step_refl split: option.split)
qed

lemma host_step_datagram:
  assumes inv: "host_inv h"
  shows "\<exists>es. snd (handle_datagram data a now wall h ev) = ev @ es \<and> length es \<le> 2
    \<and> host_step h es (fst (handle_datagram data a now wall h ev))"
proof -
  have d: "\<exists>es. snd (handle_disconnect data a h ev) = ev @ es \<and> length es \<le> 2
    \<and> host_step h es (fst (handle_disconnect data a h ev))"
    using host_step_disconnect [OF inv, of data a ev] by fastforce
  have c: "\<exists>es. snd (h, ev) = ev @ es \<and> length es \<le> 2 \<and> host_step h es (fst (h, ev))"
    "\<exists>es. snd (handle_ping data a now wall h, ev) = ev @ es \<and> length es \<le> 2 \<and> host_step h es (fst (handle_ping data a now wall h, ev))"
    "\<exists>es. snd (handle_pong data a now h, ev) = ev @ es \<and> length es \<le> 2 \<and> host_step h es (fst (handle_pong data a now h, ev))"
    using host_step_ping host_step_pong host_step_refl by auto
  have u: "\<exists>es. snd (h\<lparr>peers := fmupd a (p\<lparr>p_last_recv := now\<rparr>) (peers h)\<rparr>, ev @ [Data (p_id p) b]) = ev @ es
      \<and> length es \<le> 2 \<and> host_step h es (fst (h\<lparr>peers := fmupd a (p\<lparr>p_last_recv := now\<rparr>) (peers h)\<rparr>, ev @ [Data (p_id p) b]))"
    if "fmlookup (peers h) a = Some p" for p b
    using host_step_data [OF inv that, of "p\<lparr>p_last_recv := now\<rparr>"] by simp
  note r = host_step_connect_request [OF inv, of data a now ev]
  show ?thesis
    unfolding handle_datagram_def Let_def
    by (cases "fmlookup (peers h) a") (simp_all only: c d r u option.case if_True if_False split: if_split, simp_all add: c d r u)
qed

lemma host_step_queue:
  "peek_from h = (h', r) \<Longrightarrow> host_step g es h' = host_step g es h"
  "recv_from h = (h', q) \<Longrightarrow> host_step g es h' = host_step g es h"
  by (auto simp: peek_from_def recv_from_def split: list.splits arrival.splits)
     (simp_all add: host_step_def peer_ids_def fresh_ids_def)

lemma peek_recv_length:
  "peek_from h = (h1, Inr n) \<Longrightarrow> recv_from h1 = (h2, Inr (d, a)) \<Longrightarrow> length d = n"
  by (auto simp: peek_from_def recv_from_def split: list.splits arrival.splits)

text \<open>
  The rule of the drain loop: what peeking and receiving keep, what counting a datagram without an event keeps, and what
  handling one keeps, the loop keeps.
\<close>

lemma drain_socket_rule:
  assumes peek: "\<And>h ev w h' r. P h ev w \<Longrightarrow> peek_from h = (h', r) \<Longrightarrow> P h' ev w"
    and recv: "\<And>h ev w h' q. P h ev w \<Longrightarrow> recv_from h = (h', q) \<Longrightarrow> P h' ev w"
    and skip: "\<And>h ev w n. \<lbrakk>P h ev w; w_packets w < MAX_POLL_PACKETS; n \<le> MAX_POLL_BYTES - w_bytes w\<rbrakk> \<Longrightarrow> P h ev (count_packet n w)"
    and data: "\<And>h ev w d a now t. \<lbrakk>P h ev w; w_packets w < MAX_POLL_PACKETS; length d \<le> MAX_POLL_BYTES - w_bytes w\<rbrakk>
      \<Longrightarrow> P (fst (handle_datagram d a now t h ev)) (snd (handle_datagram d a now t h ev)) (count_packet (length d) w)"
  shows "P h ev w \<Longrightarrow> drain_socket now wall h ev w = (h', ev', w') \<Longrightarrow> P h' ev' w'"
proof (induction now wall h ev w rule: drain_socket.induct)
  case (1 now wall h ev w)
  obtain h1 r where pk: "peek_from h = (h1, r)" by (cases "peek_from h")
  obtain h2 q where rc: "recv_from h1 = (h2, q)" by (cases "recv_from h1")
  have p1: "P h1 ev w" using "1.prems"(1) pk by (rule peek)
  have p2: "P h2 ev w" using p1 rc by (rule recv)
  have len: "q = Inr (d, a) \<Longrightarrow> r = Inr n \<Longrightarrow> length d = n" for d a n using pk rc peek_recv_length by blast
  show ?case
    using "1.prems" p1 p2 "1.IH" pk rc len skip [OF p1, of 0] skip [OF p2] data [OF p2]
    by (subst (asm) drain_socket.simps) (auto simp: Let_def split: if_splits sum.splits, metis not_less prod.collapse)
qed

text \<open>What draining the socket adds to the events, and its bounds.\<close>

lemma drain_socket_step:
  assumes inv: "host_inv h" and eq: "drain_socket now wall h ev w = (h', ev', w')"
    and b: "w_packets w \<le> MAX_POLL_PACKETS" "w_bytes w \<le> MAX_POLL_BYTES"
  shows "\<exists>es. ev' = ev @ es \<and> host_step h es h' \<and> length es + 2 * w_packets w \<le> 2 * w_packets w'
    \<and> w_packets w' \<le> MAX_POLL_PACKETS \<and> w_bytes w' \<le> MAX_POLL_BYTES
    \<and> w' = w\<lparr>w_packets := w_packets w', w_bytes := w_bytes w'\<rparr>"
proof -
  let ?P = "\<lambda>g ev1 w1. host_inv g \<and> w_packets w1 \<le> MAX_POLL_PACKETS \<and> w_bytes w1 \<le> MAX_POLL_BYTES
    \<and> w1\<lparr>w_packets := w_packets w, w_bytes := w_bytes w\<rparr> = w
    \<and> (\<exists>es. ev1 = ev @ es \<and> host_step h es g \<and> length es + 2 * w_packets w \<le> 2 * w_packets w1)"
  have "?P h' ev' w'"
  proof (rule drain_socket_rule [of ?P, OF _ _ _ _ _ eq])
    show "?P h ev w" using inv b by (auto simp: host_step_refl)
  next
    fix g ev1 w1 g' r
    assume "?P g ev1 w1" "peek_from g = (g', r)"
    then show "?P g' ev1 w1" by (auto simp: host_step_queue(1) intro: peek_from_inv)
  next
    fix g ev1 w1 g' q
    assume "?P g ev1 w1" "recv_from g = (g', q)"
    then show "?P g' ev1 w1" by (auto simp: host_step_queue(2) intro: recv_from_inv)
  next
    fix g ev1 w1 n
    assume "?P g ev1 w1" "w_packets w1 < MAX_POLL_PACKETS" "n \<le> MAX_POLL_BYTES - w_bytes w1"
    then show "?P g ev1 (count_packet n w1)" by (auto simp: count_packet_def)
  next
    fix g ev1 w1 and d :: bytes and a now t
    assume p: "?P g ev1 w1" and room: "w_packets w1 < MAX_POLL_PACKETS" "length d \<le> MAX_POLL_BYTES - w_bytes w1"
    from p obtain es where es: "ev1 = ev @ es" "host_step h es g" "length es + 2 * w_packets w \<le> 2 * w_packets w1" by blast
    obtain fs where "snd (handle_datagram d a now t g ev1) = ev1 @ fs" "length fs \<le> 2" "host_step g fs (fst (handle_datagram d a now t g ev1))"
      using host_step_datagram p by blast
    then show "?P (fst (handle_datagram d a now t g ev1)) (snd (handle_datagram d a now t g ev1)) (count_packet (length d) w1)"
      using p es room host_step_trans [OF es(2)] handle_datagram_inv
      by (auto simp: count_packet_def)
  qed
  moreover from this have "w\<lparr>w_packets := w_packets w', w_bytes := w_bytes w'\<rparr> = w'"
    by (cases w, cases w') simp
  ultimately show ?thesis by metis
qed

lemma maintenance_scan_step:
  assumes inv: "host_inv h" and eq: "maintenance_scan now n (h, ev, w) = (h', ev', w')"
    and b: "w_timeout_events w \<le> MAX_POLL_TIMEOUT_EVENTS" "w_keepalive_sends w \<le> MAX_POLL_KEEPALIVE_SENDS"
    and n: "n = length (peer_slots h)" "0 < n"
  shows "\<exists>es. ev' = ev @ es \<and> host_step h es h' \<and> w_timeout_events w' = w_timeout_events w + length es
    \<and> w_timeout_events w' \<le> MAX_POLL_TIMEOUT_EVENTS \<and> w_keepalive_sends w' \<le> MAX_POLL_KEEPALIVE_SENDS
    \<and> w' = w\<lparr>w_timeout_events := w_timeout_events w', w_keepalive_sends := w_keepalive_sends w',
               w_maintenance_scans := w_maintenance_scans w + 1\<rparr>"
  using inv
proof (cases rule: maintenance_scan_cases [of h now n ev w])
  case (idle slot)
  moreover have "host_step h [] (h\<lparr>maintenance_cursor := Suc slot\<rparr>)"
    by (subst host_step_frame(1)) (simp_all add: host_step_refl)
  ultimately show ?thesis using eq b by auto
next
  case (expire slot a p)
  let ?h = "h\<lparr>maintenance_cursor := Suc slot\<rparr>"
  have "host_inv ?h" using expire inv n by (auto intro!: cursor_inv simp: Suc_le_eq split: if_splits)
  from host_step_remove [OF this, of a p Timeout] expire(3)
  have "host_step h [Disconnected (p_id p) Timeout] (fst (remove_peer_at a ?h))"
    by (simp add: host_step_frame(2) [of ?h h])
  with expire eq b show ?thesis by auto
next
  case (ping slot a p p')
  let ?h = "h\<lparr>maintenance_cursor := Suc slot, peers := fmupd a p' (peers h)\<rparr>"
  have "peer_ids ?h = peer_ids (h\<lparr>peers := fmupd a p' (peers h)\<rparr>)" by (simp add: peer_ids_def)
  with peer_ids_refresh [of h a p p'] ping(3,5) have "host_step h [] (send_to b c ?h)" for b c
    by (simp add: host_step_def fresh_ids_def) (simp add: peer_ids_def)
  with ping eq b show ?thesis by auto
qed

lemma maintenance_scans_step:
  assumes "host_inv h" "n = length (peer_slots h)" "0 < n"
    and "(maintenance_scan now n ^^ k) (h, ev, w) = (h', ev', w')"
    and "w_timeout_events w = 0" "w_keepalive_sends w = 0"
  shows "\<exists>es. ev' = ev @ es \<and> host_step h es h' \<and> w_timeout_events w' = length es
    \<and> w_timeout_events w' \<le> MAX_POLL_TIMEOUT_EVENTS \<and> w_keepalive_sends w' \<le> MAX_POLL_KEEPALIVE_SENDS
    \<and> w' = w\<lparr>w_timeout_events := w_timeout_events w', w_keepalive_sends := w_keepalive_sends w',
               w_maintenance_scans := w_maintenance_scans w + k\<rparr>"
  using assms(4)
proof (induction k arbitrary: h' ev' w')
  case 0
  with assms(5,6) host_step_refl [of h] show ?case by auto
next
  case (Suc k)
  obtain h1 ev1 w1 where st: "(maintenance_scan now n ^^ k) (h, ev, w) = (h1, ev1, w1)" by (metis prod_cases3)
  from Suc.IH [OF st] obtain es where es: "ev1 = ev @ es" "host_step h es h1" "w_timeout_events w1 = length es"
    "w_timeout_events w1 \<le> MAX_POLL_TIMEOUT_EVENTS" "w_keepalive_sends w1 \<le> MAX_POLL_KEEPALIVE_SENDS"
    "w1 = w\<lparr>w_timeout_events := w_timeout_events w1, w_keepalive_sends := w_keepalive_sends w1,
            w_maintenance_scans := w_maintenance_scans w + k\<rparr>" by blast
  have i1: "host_inv h1" "length (peer_slots h1) = n"
    using maintenance_scans_inv [OF assms(1-3) st] by auto
  have "maintenance_scan now n (h1, ev1, w1) = (h', ev', w')" using Suc.prems st by simp
  from maintenance_scan_step [OF i1(1) this es(4,5)] i1(2) assms(3)
  obtain fs where fs: "ev' = ev1 @ fs" "host_step h1 fs h'" "w_timeout_events w' = w_timeout_events w1 + length fs"
    "w_timeout_events w' \<le> MAX_POLL_TIMEOUT_EVENTS" "w_keepalive_sends w' \<le> MAX_POLL_KEEPALIVE_SENDS"
    "w' = w1\<lparr>w_timeout_events := w_timeout_events w', w_keepalive_sends := w_keepalive_sends w',
             w_maintenance_scans := w_maintenance_scans w1 + 1\<rparr>" by auto
  from es(6) have wm: "w_maintenance_scans w1 = w_maintenance_scans w + k"
    by (metis poll_work.select_convs(5) poll_work.surjective poll_work.update_convs(5))
  have "w' = w\<lparr>w_timeout_events := w_timeout_events w', w_keepalive_sends := w_keepalive_sends w',
               w_maintenance_scans := w_maintenance_scans w + Suc k\<rparr>"
    using fs(6) unfolding wm by (subst (asm) es(6)) simp
  with es fs host_step_trans [OF es(2) fs(2)] show ?case
    by (intro exI [of _ "es @ fs"]) auto
qed

lemma expire_watermarks_frame:
  assumes "expire_reconnect_watermarks now h w = (h', w')" "w_watermark_cleanups w \<le> MAX_POLL_WATERMARK_CLEANUPS"
  shows "peers h' = peers h \<and> peer_slots h' = peer_slots h \<and> free_peer_slots h' = free_peer_slots h
    \<and> available_free_peer_slots h' = available_free_peer_slots h
    \<and> w' = w\<lparr>w_watermark_cleanups := w_watermark_cleanups w'\<rparr>
    \<and> w_watermark_cleanups w' \<le> MAX_POLL_WATERMARK_CLEANUPS"
  using assms
proof (induction now h w arbitrary: h' w' rule: expire_reconnect_watermarks.induct)
  case (1 now h w)
  show ?case
  proof (cases "w_watermark_cleanups w < MAX_POLL_WATERMARK_CLEANUPS \<and> reconnect_watermark_order h \<noteq> []")
    case False
    with "1.prems" show ?thesis
      by (auto simp: expire_reconnect_watermarks.simps [of now h w] split: list.splits if_splits)
  next
    case True
    then obtain a g rest where ord: "reconnect_watermark_order h = (a, g) # rest"
      by (cases "reconnect_watermark_order h") auto
    define live where "live = (case fmlookup (reconnect_watermarks h) a of
        Some wm \<Rightarrow> if wm_generation wm = g then Some wm else None | None \<Rightarrow> None)"
    show ?thesis
      using "1.prems" True ord "1.IH" [OF _ ord refl live_def]
      by (auto simp: expire_reconnect_watermarks.simps [of now h w]
          simp flip: live_def split: option.splits if_splits)
  qed
qed

text \<open>The assertions at the end of \<open>poll_with_work\<close>.\<close>

definition poll_asserts :: "event list \<Rightarrow> poll_work \<Rightarrow> bool" where
  "poll_asserts events w \<longleftrightarrow>
     w_packets w \<le> MAX_POLL_PACKETS \<and> w_bytes w \<le> MAX_POLL_BYTES
     \<and> w_socket_events w \<le> MAX_POLL_SOCKET_EVENTS \<and> w_timeout_events w \<le> MAX_POLL_TIMEOUT_EVENTS
     \<and> w_maintenance_scans w \<le> MAX_POLL_MAINTENANCE_SCANS \<and> w_keepalive_sends w \<le> MAX_POLL_KEEPALIVE_SENDS
     \<and> w_watermark_cleanups w \<le> MAX_POLL_WATERMARK_CLEANUPS \<and> length events \<le> MAX_POLL_EVENTS"

lemma maintenance_step:
  assumes inv: "host_inv h" and eq: "process_peer_maintenance now h ev w = (h', ev', w')"
    and w: "w_timeout_events w = 0" "w_keepalive_sends w = 0" "w_maintenance_scans w = 0"
  shows "\<exists>es. ev' = ev @ es \<and> host_step h es h' \<and> length es \<le> MAX_POLL_TIMEOUT_EVENTS
    \<and> w_timeout_events w' = length es \<and> w_keepalive_sends w' \<le> MAX_POLL_KEEPALIVE_SENDS
    \<and> w_maintenance_scans w' \<le> MAX_POLL_MAINTENANCE_SCANS
    \<and> w' = w\<lparr>w_timeout_events := w_timeout_events w', w_keepalive_sends := w_keepalive_sends w',
               w_maintenance_scans := w_maintenance_scans w'\<rparr>"
proof (cases "length (peer_slots h) = 0")
  case True
  have "host_step h [] (h\<lparr>maintenance_cursor := 0\<rparr>)"
    by (subst host_step_frame(1)) (simp_all add: host_step_refl)
  with True eq w show ?thesis by (auto simp: process_peer_maintenance_def)
next
  case False
  let ?k = "min (length (peer_slots h)) MAX_POLL_MAINTENANCE_SCANS"
  from False eq have "(maintenance_scan now (length (peer_slots h)) ^^ ?k) (h, ev, w) = (h', ev', w')"
    by (simp add: process_peer_maintenance_def Let_def)
  from maintenance_scans_step [OF inv refl _ this w(1,2)] False obtain es where
    es: "ev' = ev @ es" "host_step h es h'" "w_timeout_events w' = length es"
      "w_timeout_events w' \<le> MAX_POLL_TIMEOUT_EVENTS" "w_keepalive_sends w' \<le> MAX_POLL_KEEPALIVE_SENDS"
      "w' = w\<lparr>w_timeout_events := w_timeout_events w', w_keepalive_sends := w_keepalive_sends w',
               w_maintenance_scans := w_maintenance_scans w + ?k\<rparr>" by auto
  then have "w_maintenance_scans w' = ?k" using w(3)
    by (metis add_0 poll_work.select_convs(5) poll_work.surjective poll_work.update_convs(5))
  with es w(3) show ?thesis by (intro exI [of _ es]) auto
qed

lemma poll_step:
  assumes inv: "host_inv h" and eq: "poll_with_work now wall h = (h', ev, w)"
  shows "host_step (h\<lparr>available_free_peer_slots := length (free_peer_slots h)\<rparr>) ev h' \<and> poll_asserts ev w"
  using eq
proof (rule poll_stages)
  let ?h = "h\<lparr>available_free_peer_slots := length (free_peer_slots h)\<rparr>"
  fix h1 w1 h2 ev2 w2
  assume st: "expire_reconnect_watermarks now ?h poll_work_default = (h1, w1)"
    "drain_socket now wall h1 [] w1 = (h2, ev2, w2)"
    "process_peer_maintenance now h2 ev2 (w2\<lparr>w_socket_events := length ev2\<rparr>) = (h', ev, w)"
  have i1: "host_inv h1" using expire_watermarks_inv [OF available_inv [OF inv] st(1)] .
  have i2: "host_inv h2" using drain_socket_inv [OF i1, of now wall "[]" w1] st(2) by simp
  have f: "peers h1 = peers ?h" "peer_slots h1 = peer_slots ?h" "free_peer_slots h1 = free_peer_slots ?h"
      "available_free_peer_slots h1 = available_free_peer_slots ?h"
      "w1 = poll_work_default\<lparr>w_watermark_cleanups := w_watermark_cleanups w1\<rparr>"
      "w_watermark_cleanups w1 \<le> MAX_POLL_WATERMARK_CLEANUPS"
    using expire_watermarks_frame [OF st(1)] by (simp_all add: poll_work_default_def)
  have z: "w_packets w1 = 0" "w_bytes w1 = 0" "w_timeout_events w1 = 0" "w_keepalive_sends w1 = 0"
      "w_maintenance_scans w1 = 0"
    by (subst f(5), simp add: poll_work_default_def)+
  from drain_socket_step [OF i1 st(2)] z obtain es where es: "ev2 = es" "host_step h1 es h2"
      "length es \<le> 2 * w_packets w2" "w_packets w2 \<le> MAX_POLL_PACKETS" "w_bytes w2 \<le> MAX_POLL_BYTES"
      "w2 = w1\<lparr>w_packets := w_packets w2, w_bytes := w_bytes w2\<rparr>" by auto
  have z2: "w_timeout_events w2 = 0" "w_keepalive_sends w2 = 0" "w_maintenance_scans w2 = 0"
      "w_watermark_cleanups w2 = w_watermark_cleanups w1"
    by (subst es(6), simp add: z)+
  let ?w = "w2\<lparr>w_socket_events := length ev2\<rparr>"
  from maintenance_step [OF i2 st(3)] z2 obtain fs where fs: "ev = ev2 @ fs" "host_step h2 fs h'"
      "length fs \<le> MAX_POLL_TIMEOUT_EVENTS" "w_timeout_events w = length fs"
      "w_keepalive_sends w \<le> MAX_POLL_KEEPALIVE_SENDS" "w_maintenance_scans w \<le> MAX_POLL_MAINTENANCE_SCANS"
      "w = ?w\<lparr>w_timeout_events := w_timeout_events w, w_keepalive_sends := w_keepalive_sends w,
             w_maintenance_scans := w_maintenance_scans w\<rparr>" by auto
  have z3: "w_packets w = w_packets w2" "w_bytes w = w_bytes w2" "w_socket_events w = length ev2"
      "w_watermark_cleanups w = w_watermark_cleanups w1"
    by (subst fs(7), simp add: z2)+
  have "host_step ?h ev h'"
    using host_step_trans [OF es(2) fs(2)] es(1) fs(1) host_step_frame(2) [OF f(1-4)] by simp
  moreover have "poll_asserts ev w"
    using es fs z3 f(6) by (simp add: poll_asserts_def MAX_POLL_SOCKET_EVENTS_def MAX_POLL_EVENTS_def)
  ultimately show ?thesis by blast
qed

end
