(* ===== verification/Transport.thy ===== *)
theory Transport
  imports Host_Poll
begin

text \<open>
  What the transport host promises its client, as the locale \<open>peer_transport\<close>: polling,
  sending and dropping a peer keep the host's invariant, and the ids a client tracks from the
  events are exactly the host's live peers. The locale is interpreted on the host of
  \<open>sw-net\<close>, and the host's properties are stated here.
\<close>

section \<open>Queries, sending, disconnecting, shutting down\<close>

lemma peer_addr_iff:
  assumes "host_inv h"
  shows "peer_addr i h = Some a \<longleftrightarrow> (\<exists>p. fmlookup (peers h) a = Some p \<and> p_id p = i)"
proof
  assume "peer_addr i h = Some a"
  then show "\<exists>p. fmlookup (peers h) a = Some p \<and> p_id p = i"
    by (auto simp: peer_addr_def split: option.splits if_splits)
next
  assume "\<exists>p. fmlookup (peers h) a = Some p \<and> p_id p = i"
  then obtain p where p: "fmlookup (peers h) a = Some p" "p_id p = i" by blast
  with host_inv_peer_ok [OF assms p(1)] show "peer_addr i h = Some a"
    by (auto simp: peer_addr_def checked_sub_nat_def peer_ok_def)
qed

lemma peer_addr_None: "host_inv h \<Longrightarrow> peer_addr i h = None \<longleftrightarrow> i |\<notin>| peer_ids h"
  by (metis not_None_eq peer_addr_iff peer_ids_iff)

lemma send_unreliable_frame:
  "host_inv h \<Longrightarrow> host_inv (fst (send_unreliable f i b h))"
  "peer_ids (fst (send_unreliable f i b h)) = peer_ids h"
  by (auto simp: send_unreliable_def peer_ids_def split: option.split)

lemma host_disconnect_live:
  assumes inv: "host_inv h"
  shows "host_inv (fst (host_disconnect i h))" "snd (host_disconnect i h) \<longleftrightarrow> i |\<in>| peer_ids h"
    "peer_ids (fst (host_disconnect i h)) = peer_ids h |-| {|i|}"
proof -
  have ii: "ip_inv h" using inv by (simp add: host_inv_def)
  show "host_inv (fst (host_disconnect i h))" "snd (host_disconnect i h) \<longleftrightarrow> i |\<in>| peer_ids h"
    "peer_ids (fst (host_disconnect i h)) = peer_ids h |-| {|i|}"
  proof (atomize (full), cases "peer_addr i h")
    case None
    with inv peer_addr_None [OF inv, of i]
    show "host_inv (fst (host_disconnect i h)) \<and> snd (host_disconnect i h) = (i |\<in>| peer_ids h)
      \<and> peer_ids (fst (host_disconnect i h)) = peer_ids h |-| {|i|}"
      by (simp add: host_disconnect_def)
  next
    case (Some a)
    then obtain p where p: "fmlookup (peers h) a = Some p" "p_id p = i" using peer_addr_iff [OF inv] by blast
    obtain h1 where rm: "remove_peer_at a h = (h1, Some p)"
      using remove_peer_at_result(1) [OF ii p(1)] by (metis prod.collapse)
    have "peer_ids h1 = peer_ids h |-| {|i|}" "i |\<in>| peer_ids h"
      using host_step_remove [OF inv p(1), of Timeout] p rm by (auto simp: host_step_def split: if_splits)
    moreover have "host_inv h1" using remove_host_inv [OF inv, of a] rm by simp
    ultimately show "host_inv (fst (host_disconnect i h)) \<and> snd (host_disconnect i h) = (i |\<in>| peer_ids h)
      \<and> peer_ids (fst (host_disconnect i h)) = peer_ids h |-| {|i|}"
      using Some rm by (simp add: host_disconnect_def peer_ids_def)
  qed
qed

lemma ffilter_none [simp]: "ffilter P {||} = {||}"
  by (rule fset_eqI) simp

lemma fcard_none [simp]: "fcard {||} = 0"
  by (simp add: fcard.rep_eq)

lemma host_shutdown_inv: "host_inv h \<Longrightarrow> host_inv (fst (host_shutdown order h))"
proof -
  have lim: "max_peers (fold (\<lambda>p. send_to (f p) (g p)) ps h) = max_peers h"
    "max_peers_per_ip (fold (\<lambda>p. send_to (f p) (g p)) ps h) = max_peers_per_ip h" for f g ps
    by (induction ps arbitrary: h) simp_all
  show "host_inv h \<Longrightarrow> host_inv (fst (host_shutdown order h))"
    by (simp add: host_shutdown_def Let_def host_inv_def slots_inv_def ip_inv_def ip_count_def wm_inv_def
        limits_ok_def lim)
qed

lemma bind_with_limits_inv: "bind_with_limits s key m mi = Inr h \<Longrightarrow> host_inv h \<and> peer_ids h = {||}"
  by (auto simp: bind_with_limits_def host_inv_def slots_inv_def ip_inv_def ip_count_def wm_inv_def
      limits_ok_def peer_ids_def u64_max_def split: if_splits option.splits)

section \<open>The interface\<close>

text \<open>What a client does with the transport between two ticks.\<close>

datatype 'e transport_op = PollOp 'e | SendOp nat bytes | DropOp nat

locale peer_transport =
  fixes inv :: "'h \<Rightarrow> bool"
    and live :: "'h \<Rightarrow> nat fset"
    and poll :: "'e \<Rightarrow> 'h \<Rightarrow> 'h \<times> event list"
    and send :: "nat \<Rightarrow> bytes \<Rightarrow> 'h \<Rightarrow> 'h"
    and drop_peer :: "nat \<Rightarrow> 'h \<Rightarrow> 'h"
  assumes poll_inv: "inv h \<Longrightarrow> inv (fst (poll e h))"
    and poll_live: "inv h \<Longrightarrow> event_run (live h) (snd (poll e h)) = Some (live (fst (poll e h)))"
    and send_inv: "inv h \<Longrightarrow> inv (send i b h)"
    and send_live: "inv h \<Longrightarrow> live (send i b h) = live h"
    and drop_inv: "inv h \<Longrightarrow> inv (drop_peer i h)"
    and drop_live: "inv h \<Longrightarrow> live (drop_peer i h) = live h |-| {|i|}"
begin

text \<open>The host and the set the client tracks from the events, run over a sequence of operations.\<close>

fun run_ops :: "'e transport_op list \<Rightarrow> 'h \<Rightarrow> nat fset \<Rightarrow> ('h \<times> nat fset) option" where
  "run_ops [] h L = Some (h, L)"
| "run_ops (PollOp e # ops) h L =
     (case event_run L (snd (poll e h)) of None \<Rightarrow> None | Some L' \<Rightarrow> run_ops ops (fst (poll e h)) L')"
| "run_ops (SendOp i b # ops) h L = run_ops ops (send i b h) L"
| "run_ops (DropOp i # ops) h L = run_ops ops (drop_peer i h) (L |-| {|i|})"

lemma tracked_is_live:
  "inv h \<Longrightarrow> \<exists>h'. run_ops ops h (live h) = Some (h', live h') \<and> inv h'"
proof (induction ops arbitrary: h)
  case (Cons op ops)
  then show ?case
    using poll_inv poll_live send_inv send_live drop_inv drop_live
    by (cases op) (auto, metis+)
qed simp

end

definition poll_env :: "instant \<times> (nat \<Rightarrow> nat option) \<Rightarrow> host \<Rightarrow> host \<times> event list" where
  "poll_env e h = host_poll (fst e) (snd e) h"

definition send_drop :: "nat \<Rightarrow> bytes \<Rightarrow> host \<Rightarrow> host" where
  "send_drop i b h = fst (send_unreliable None i b h)"

definition disconnect_peer :: "nat \<Rightarrow> host \<Rightarrow> host" where
  "disconnect_peer i h = fst (host_disconnect i h)"

lemma host_poll_live:
  "host_inv h \<Longrightarrow> event_run (peer_ids h) (snd (host_poll now wall h)) = Some (peer_ids (fst (host_poll now wall h)))"
  using poll_step [of h now wall]
  by (cases "poll_with_work now wall h") (auto simp: host_poll_def host_step_def peer_ids_def)

lemma host_poll_inv: "host_inv h \<Longrightarrow> host_inv (fst (host_poll now wall h))"
  using poll_inv [of h now wall] by (cases "poll_with_work now wall h") (auto simp: host_poll_def)

interpretation sw_net: peer_transport host_inv peer_ids poll_env send_drop disconnect_peer
  by unfold_locales
    (simp_all add: poll_env_def send_drop_def disconnect_peer_def host_poll_inv host_poll_live
      send_unreliable_frame host_disconnect_live)

lemma handle_connect_request_peer:
  assumes inv: "host_inv h" and p: "fmlookup (peers h) a = Some p"
    and q: "fmlookup (peers (fst (handle_connect_request data b now h ev))) a = Some q"
  shows "q = p \<or> p_connect_time p < p_connect_time q"
proof (cases "parse_connect_request data")
  case None
  with p q show ?thesis by (simp add: handle_connect_request_def)
next
  case (Some req)
  have acc: "fmlookup (peers (fst (accept_connect req b now r g ev'))) a = Some q \<Longrightarrow>
      fmlookup (peers g) a = Some q \<or> a = b \<and> p_connect_time q = req_connect_time req" for r g ev'
    by (auto simp: accept_connect_def Let_def allocate_frame split: prod.splits option.splits if_splits)
  have rem: "fmlookup (peers (fst (remove_peer_at b h))) a = Some q \<Longrightarrow> q = p"
    using p by (auto simp: remove_peer_at_def Let_def split: option.splits if_splits)
  show ?thesis
    using Some p q
    by (auto simp: handle_connect_request_def Let_def not_less dest!: acc dest: rem split: if_splits option.splits)
qed

text \<open>What any datagram can do to the peer at an address.\<close>

lemma handle_datagram_peer:
  assumes inv: "host_inv h" and p: "fmlookup (peers h) a = Some p"
    and q: "fmlookup (peers (fst (handle_datagram data b now wall h ev))) a = Some q"
  shows "peer_refresh p q \<or> p_connect_time p < p_connect_time q"
proof -
  have refl: "peer_refresh p p" by (simp add: peer_refresh_def)
  have ping: "fmlookup (peers (handle_ping data b now wall h)) a = Some q \<Longrightarrow> peer_refresh p q"
    using p by (auto simp: handle_ping_def peer_refresh_def split: option.splits if_splits)
  have pong: "fmlookup (peers (handle_pong data b now h)) a = Some q \<Longrightarrow> peer_refresh p q"
    using p by (auto simp: handle_pong_def peer_refresh_def Let_def split: option.splits if_splits)
  have rem: "fmlookup (peers (fst (remove_peer_at b g))) a = Some q \<Longrightarrow> fmlookup (peers g) a = Some q" for g
    by (auto simp: remove_peer_at_def Let_def split: option.splits if_splits)
  have disc: "fmlookup (peers (fst (handle_disconnect data b h ev))) a = Some q \<Longrightarrow> peer_refresh p q"
    using p by (auto simp: handle_disconnect_def peer_refresh_def dest!: rem split: option.splits if_splits)
  have conn: "fmlookup (peers (fst (handle_connect_request data b now h ev))) a = Some q \<Longrightarrow> ?thesis"
    using handle_connect_request_peer [OF inv p] refl by blast
  have data: "fmlookup (peers (h\<lparr>peers := fmupd b (r\<lparr>p_last_recv := now\<rparr>) (peers h)\<rparr>)) a = Some q \<Longrightarrow>
      fmlookup (peers h) b = Some r \<Longrightarrow> peer_refresh p q" for r
    using p by (auto simp: peer_refresh_def split: if_splits)
  show ?thesis
    using q p refl ping pong disc conn data
    unfolding handle_datagram_def Let_def by (auto split: if_splits option.splits)
qed

section \<open>Properties of the transport\<close>

text \<open>A bound host that a first client has just asked to connect to, for the witnesses.\<close>

definition demo_addr :: socket_addr where
  "demo_addr = SocketV4 0x7F000001 9050"

definition demo_socket :: udp_socket where
  "demo_socket =
     \<lparr>rx_queue = [Datagram (build_connect_request 1 638000000000000000 0 16 (write_litenet_string ''key'')) demo_addr],
      tx_log = [], bound_addr = Inr (SocketV4 0 9050)\<rparr>"

definition demo_host :: host where
  "demo_host = projr (bind_with_limits (Some demo_socket) ''key'' 8 2)"

lemma demo_host_inv: "host_inv demo_host"
  by (rule conjunct1 [OF bind_with_limits_inv [of "Some demo_socket" "''key''" 8 2]])
    (simp add: demo_host_def bind_with_limits_def u16_max_def)

definition demo_req :: connect_request where
  "demo_req = \<lparr>req_connection_number = 1, req_protocol_id = PROTOCOL_ID, req_connect_time = 638000000000000000,
     req_peer_id = 0, req_connect_data = write_litenet_string ''key''\<rparr>"

definition demo_connected :: host where
  "demo_connected = fst (accept_connect demo_req demo_addr 0 False demo_host [])"

definition demo_peer :: peer where
  "demo_peer = \<lparr>p_id = 1, p_slot = 0, p_addr = demo_addr, p_connect_time = 638000000000000000,
     p_connection_number = 1, p_local_peer_id = 0, p_last_recv = 0, p_last_ping_sent = 0, p_ping_seq = 0,
     p_ping_sent_at = None, p_rtt = None\<rparr>"

lemmas demo_host_simps = demo_host_def bind_with_limits_def u16_max_def

lemma demo_connected_inv: "host_inv demo_connected"
  unfolding demo_connected_def
  by (rule accept_connect_inv [OF demo_host_inv])
    (simp_all add: demo_host_simps demo_req_def ip_count_def in_i64_def machine_int)

lemma demo_connected_peer: "fmlookup (peers demo_connected) demo_addr = Some demo_peer"
  by (simp add: demo_connected_def accept_connect_def allocate_peer_slot_def demo_host_simps Let_def
      demo_req_def demo_peer_def)

lemma demo_connected_data:
  "fmlookup (peers (fst (handle_datagram (build_unreliable 1 [42]) demo_addr 9 None demo_connected []))) demo_addr
    = Some (demo_peer\<lparr>p_last_recv := 9\<rparr>)"
  by (simp add: handle_datagram_def Let_def build_unreliable_def demo_connected_peer header_connected_def
      header_from_to_byte property_defs demo_peer_def)

text \<open>C2: a poll of a consistent host, whatever the socket delivers and whatever the clock reads,
  leaves it consistent, respects every work bound it asserts, and never exceeds the configured
  ceilings on peers, on peers per source address and on reconnect watermarks.\<close>

theorem poll_sound:
  assumes "host_inv h"
  shows "case poll_with_work now wall h of (h', ev, w) \<Rightarrow>
    host_inv h' \<and> poll_asserts ev w \<and> peer_count h' \<le> max_peers h' \<and> (\<forall>ip. ip_count h' ip \<le> max_peers_per_ip h')
    \<and> fmlen (reconnect_watermarks h') \<le> max_peers h'"
proof (cases "poll_with_work now wall h")
  case (fields h' ev w)
  have i: "host_inv h'" using assms fields by (rule poll_inv)
  moreover have "poll_asserts ev w" using poll_step [OF assms fields] by blast
  moreover have "fmlen (reconnect_watermarks h') \<le> max_peers h'"
    using watermarks_bounded [of h'] i by (auto simp: host_inv_def wm_inv_def)
  ultimately show ?thesis
    using host_inv_peer_cap [OF i] fields by (simp add: peer_count_def host_inv_def ip_inv_def)
qed

theorem poll_sound_witness:
  "case poll_with_work 7 (\<lambda>_. Some 5) demo_host of (h', ev, w) \<Rightarrow>
    host_inv h' \<and> poll_asserts ev w \<and> peer_count h' \<le> max_peers h' \<and> (\<forall>ip. ip_count h' ip \<le> max_peers_per_ip h')
    \<and> fmlen (reconnect_watermarks h') \<le> max_peers h'"
  by (rule poll_sound [OF demo_host_inv])

text \<open>C6: the events of a poll are an exact account of the peer table: run over the ids that were
  live before it, every \<open>Connected\<close> is of an id not live, every \<open>Data\<close> and
  \<open>Disconnected\<close> of one that is, and the result is the set of ids live afterwards.\<close>

theorem poll_events_exact:
  assumes "host_inv h"
  shows "case host_poll now wall h of (h', ev) \<Rightarrow> event_run (peer_ids h) ev = Some (peer_ids h')"
  using host_poll_live [OF assms, of now wall] by (cases "host_poll now wall h") simp

theorem poll_events_exact_witness:
  "case host_poll 7 (\<lambda>_. None) demo_host of (h', ev) \<Rightarrow> event_run (peer_ids demo_host) ev = Some (peer_ids h')"
  by (rule poll_events_exact [OF demo_host_inv])

text \<open>A peer slot retired during a poll is not reused in it: no event before a
  \<open>Connected\<close> names the same id.\<close>

theorem poll_ids_unambiguous:
  assumes "host_inv h"
  shows "fresh_run UNIV (snd (host_poll now wall h))"
proof (cases "poll_with_work now wall h")
  case (fields h' ev w)
  with poll_step [OF assms(1) fields] show ?thesis
    by (auto simp: host_poll_def host_step_def elim: fresh_run_mono)
qed

theorem poll_ids_unambiguous_witness: "fresh_run UNIV (snd (host_poll 7 (\<lambda>_. None) demo_host))"
  by (rule poll_ids_unambiguous [OF demo_host_inv])

text \<open>A datagram from an unknown source, or with a connection number other than the peer's
  current one, changes nothing and raises no event unless it is a connect request.\<close>

theorem stale_datagram_ignored:
  assumes "data \<noteq> []" "hdr_property (header_from_byte (data ! 0)) \<noteq> CONNECT_REQUEST"
    and "\<forall>p. fmlookup (peers h) a = Some p \<longrightarrow> p_connection_number p \<noteq> hdr_connection_number (header_from_byte (data ! 0))"
  shows "handle_datagram data a now wall h ev = (h, ev)"
  using assms by (auto simp: handle_datagram_def Let_def split: option.split)

theorem stale_datagram_ignored_witness:
  "handle_datagram [UNRELIABLE, 1, 2] demo_addr 7 None demo_host [] = (demo_host, [])"
  by (rule stale_datagram_ignored)
    (simp_all add: demo_host_def bind_with_limits_def u16_max_def header_from_byte_def mask_defs property_defs)

text \<open>C33: whatever datagram arrives, from whatever source, the peer at an address keeps its
  identity or is replaced by a strictly newer connection: the connect time never decreases, and
  while it is the same so are the peer id and the connection number.\<close>

theorem connect_time_monotone:
  assumes "host_inv h" "fmlookup (peers h) a = Some p"
    "fmlookup (peers (fst (handle_datagram data b now wall h ev))) a = Some q"
  shows "p_connect_time p \<le> p_connect_time q
    \<and> (p_connect_time q = p_connect_time p \<longrightarrow> p_id q = p_id p \<and> p_connection_number q = p_connection_number p)"
  using handle_datagram_peer [OF assms] by (auto simp: peer_refresh_def)

theorem connect_time_monotone_witness:
  "638000000000000000 \<le> p_connect_time (demo_peer\<lparr>p_last_recv := 9\<rparr>) \<and> p_id (demo_peer\<lparr>p_last_recv := 9\<rparr>) = 1
    \<and> p_connection_number (demo_peer\<lparr>p_last_recv := 9\<rparr>) = 1"
  using connect_time_monotone [OF demo_connected_inv demo_connected_peer demo_connected_data]
  by (simp add: demo_peer_def)

end
