(* ===== verification/Server_State.thy ===== *)
theory Server_State
  imports Messages Config Ratelimit Econ_Store Transport
begin

text \<open>
  The state of the server, \<open>server/crates/sw-server/src/server.rs\<close>: sessions, their indexes and
  generations, the fanout queues, and the small functions the handlers share. Every operation
  takes the server and returns the new one. The clock readings a handler makes are arguments.
  A failed send is only logged by the source and leaves the host as a successful one does, so
  \<open>srv_send\<close> drops the result.

  An \<open>Arc<[FanoutRecipient]>\<close> is its content with the address that \<open>as_ptr\<close> compares;
  \<open>sv_next_arc\<close> supplies addresses no live audience has. Hash-set differences are listed in
  the order of the cells where the source sorts them next or looks at their emptiness only.
\<close>

section \<open>Constants\<close>

definition CONNECT_KEY :: string where "CONNECT_KEY = ''sailwind-online''"
definition FEATURES :: "string list" where
  "FEATURES = [''unreliable'', ''aoi'', ''econ'', ''market'', ''moorage'', ''chat'']"
definition KEY_CLOCK_EPOCH :: string where "KEY_CLOCK_EPOCH = ''clock_epoch_ms''"
definition KEY_WEATHER_SEED :: string where "KEY_WEATHER_SEED = ''weather_seed''"
definition FLUSH_INTERVAL :: duration where "FLUSH_INTERVAL = 5 * 10 ^ 9"
definition SNAPSHOT_ENTITY_SCAN_PER_PACKET :: nat where "SNAPSHOT_ENTITY_SCAN_PER_PACKET = DEFAULT_MAX_PEERS"
definition CHAT_QUEUE_ITEMS :: nat where "CHAT_QUEUE_ITEMS = 256"
definition CHAT_QUEUE_BYTES :: nat where "CHAT_QUEUE_BYTES = CHAT_QUEUE_ITEMS * (MTU - HEADER_SIZE)"
definition FANOUT_QUEUE_RECIPIENTS :: nat where
  "FANOUT_QUEUE_RECIPIENTS = (CHAT_QUEUE_ITEMS + 1) * DEFAULT_MAX_PEERS"
definition FANOUT_RECIPIENT_SCANS_PER_TICK :: nat where "FANOUT_RECIPIENT_SCANS_PER_TICK = DEFAULT_MAX_PEERS"
definition FANOUT_SENDS_PER_TICK :: nat where "FANOUT_SENDS_PER_TICK = DEFAULT_MAX_PEERS"
definition DIRTY_DB_UPDATES_PER_TICK :: nat where "DIRTY_DB_UPDATES_PER_TICK = 8"
definition SHUTDOWN_FLUSH_ATTEMPTS :: nat where "SHUTDOWN_FLUSH_ATTEMPTS = 3"
definition AOI_WORK_ITEMS_PER_TICK :: nat where "AOI_WORK_ITEMS_PER_TICK = 8"
definition AOI_CELLS_PER_UPDATE :: nat where "AOI_CELLS_PER_UPDATE = 32"
definition CELL_ENTITY_SCAN_PER_WORK :: nat where "CELL_ENTITY_SCAN_PER_WORK = 8"
definition CELL_ENTITIES_PER_PACKET :: nat where "CELL_ENTITIES_PER_PACKET = 5"
definition CELL_MOORINGS_PER_PACKET :: nat where "CELL_MOORINGS_PER_PACKET = 1"
definition MAX_MOORING_NAME_BYTES :: nat where "MAX_MOORING_NAME_BYTES = 835"
definition MOOR_NAME_TOO_LONG_REASON :: string where
  "MOOR_NAME_TOO_LONG_REASON = ''mooring name exceeds server limit''"

text \<open>\<open>protocol::MTU - protocol::HEADER_SIZE\<close>: the largest payload of one datagram.\<close>

definition MAX_PAYLOAD :: nat where "MAX_PAYLOAD = MTU - HEADER_SIZE"

section \<open>Data\<close>

record cell_hydration =
  hy_cell :: cell
  hy_player_cursor :: "u64 option"
  hy_players_remaining :: nat
  hy_mooring_cursor :: "int option"
  hy_players_complete :: bool
  hy_sent_any :: bool

type_synonym fanout_recipient = "nat \<times> nat"

record audience =
  au_ptr :: nat
  au_items :: "fanout_recipient list"

record fanout_job =
  fj_bytes :: bytes
  fj_sender_cell :: "cell option"
  fj_recipients :: audience
  fj_next_recipient :: nat

record session =
  ss_generation :: nat
  ss_player_id :: u64
  ss_identity_hash :: string
  ss_display_name :: string
  ss_aboard_boat :: u64
  ss_pos :: vec3
  ss_rot :: quat
  ss_vel :: vec3
  ss_t_ms :: u32
  ss_sub :: subscription
  ss_cell :: "cell option"
  ss_dirty :: bool
  ss_snapshot_cursor :: "u64 option"
  ss_snapshot_remaining :: nat
  ss_snapshot_last_visit_tick :: u32
  ss_published_cells :: "cell fset"
  ss_hydration_cells :: "cell fset"
  ss_hydration_cursor :: "cell option"
  ss_active_hydration :: "cell_hydration option"

record server =
  sv_cfg :: config
  sv_host :: host
  sv_db :: db
  sv_world :: world
  sv_sessions :: "(nat, session) fmap"
  sv_player_peers :: "(u64, nat) fmap"
  sv_player_order :: "u64 fset"
  sv_snapshot_recipients :: "nat fset"
  sv_snapshot_recipient_cursor :: "nat option"
  sv_aoi_recipients :: "nat fset"
  sv_aoi_recipient_cursor :: "nat option"
  sv_chat_fanout :: "fanout_job list"
  sv_chat_fanout_bytes :: nat
  sv_clock_fanout :: "fanout_job option"
  sv_fanout_audience_cache :: "audience option"
  sv_next_arc :: nat
  sv_fanout_prefer_clock :: bool
  sv_dirty_players :: "u64 fset"
  sv_flush_players :: "u64 fset"
  sv_flush_paused :: bool
  sv_identity_players :: "(string, u64) fmap"
  sv_next_session_generation :: nat
  sv_seq :: u32
  sv_snapshot_tick :: u32
  sv_boot :: instant
  sv_epoch_ms :: int
  sv_weather_seed :: u64
  sv_weather_epoch_day :: nat
  sv_hello_limiter :: "nat rate_limiter"
  sv_source_session_limiter :: "ip_addr bounded_rate_limiter"
  sv_reconnect_limiter :: "u64 bounded_rate_limiter"
  sv_new_session_limiter :: global_rate_limiter
  sv_trade_limiter :: "u64 rate_limiter"
  sv_client_state_limiter :: "u64 rate_limiter"
  sv_chat_limiter :: "u64 rate_limiter"
  sv_econ_limiter :: "u64 rate_limiter"
  sv_moor_limiter :: "u64 rate_limiter"

text \<open>The errors a handler can return.\<close>

datatype srv_error =
    SqlFailed sql_error
  | BindFailed
  | LocalAddrFailed io_error_kind
  | NegativePlayerId
  | IdentityIndexDisagrees
  | IdentityCeiling
  | TableCeiling
  | IdentityShape
  | EvictFailed
  | PeerOwnsSession
  | PlayerOwnsSession nat
  | TooManyLiveSessions
  | GenerationExhausted
  | ShutdownFlushFailed nat "sql_error option"

text \<open>The clock readings of one event: the instants of \<open>admission_ms\<close> and \<open>uptime_ms\<close>, and
  the Unix times of the persistence stamp and of \<open>clock_now\<close>.\<close>

record readings =
  rd_admission :: instant
  rd_uptime :: instant
  rd_persist :: int
  rd_clock :: int

section \<open>Helpers\<close>

definition take_cyclic :: "'a::linorder fset \<Rightarrow> 'a option \<Rightarrow> nat \<Rightarrow> 'a list" where
  "take_cyclic ps cursor limit = take (min limit (fcard ps)) (cyclic_after cursor ps)"

definition ordered_peers_after :: "nat fset \<Rightarrow> nat option \<Rightarrow> nat \<Rightarrow> nat list" where
  "ordered_peers_after ps cursor limit = take_cyclic ps cursor limit"

definition player_candidates_after :: "u64 option \<Rightarrow> nat \<Rightarrow> server \<Rightarrow> u64 list" where
  "player_candidates_after cursor limit s = take_cyclic (sv_player_order s) cursor limit"

definition player_snap_of :: "session \<Rightarrow> player_snap" where
  "player_snap_of x =
     \<lparr>ps_player_id = ss_player_id x, ps_pos = ss_pos x, ps_rot = ss_rot x, ps_aboard_boat = ss_aboard_boat x,
      ps_t_ms = ss_t_ms x\<rparr>"

definition boat_snap_of :: "session \<Rightarrow> boat_snap" where
  "boat_snap_of x =
     \<lparr>bs_boat_id = ss_aboard_boat x, bs_owner = ss_player_id x, bs_pos = ss_pos x, bs_rot = ss_rot x,
      bs_vel = ss_vel x, bs_t_ms = ss_t_ms x\<rparr>"

definition mooring_snap_of :: "mooring_row \<Rightarrow> mooring_snap" where
  "mooring_snap_of r =
     \<lparr>ms_boat_id = u64_of_i64 (mr_boat_id r), ms_owner = u64_of_i64 (mr_owner r),
      ms_cell = (mr_cell_x r, mr_cell_z r), ms_pos = mr_pos r, ms_rot = mr_rot r, ms_name = mr_name r,
      ms_created_at = u64_of_i64 (mr_created_at r)\<rparr>"

text \<open>The key cells are sorted by.\<close>

definition cell_key :: "cell \<Rightarrow> int \<times> int" where
  "cell_key c = (cz c, cx c)"

definition by_key :: "cell fset \<Rightarrow> cell list" where
  "by_key cs = sort_key cell_key (sorted_list_of_fset cs)"

definition min_cell :: "cell fset \<Rightarrow> cell option" where
  "min_cell cs = (case by_key cs of [] \<Rightarrow> None | c # _ \<Rightarrow> Some c)"

definition next_hydration_cell :: "cell fset \<Rightarrow> cell option \<Rightarrow> cell option" where
  "next_hydration_cell cs cursor =
     (case Option.bind cursor (\<lambda>c0. min_cell (ffilter (\<lambda>c. cell_key c > cell_key c0) cs)) of
        Some c \<Rightarrow> Some c
      | None \<Rightarrow> min_cell cs)"

definition vec3_of :: "vec3 option \<Rightarrow> vec3" where
  "vec3_of v = (case v of Some x \<Rightarrow> x | None \<Rightarrow> (0, 0, 0))"

definition quat_of :: "quat option \<Rightarrow> quat" where
  "quat_of q = (case q of Some x \<Rightarrow> x | None \<Rightarrow> (0, 0, 0, F32_ONE))"

definition fnv_step :: "u64 \<Rightarrow> char \<Rightarrow> u64" where
  "fnv_step h c = (h XOR ucast (char_byte c)) * 0x00000100000001b3"

definition hex_digit :: "nat \<Rightarrow> char" where
  "hex_digit n = char_of (if n < 10 then n + 48 else n + 87)"

text \<open>\<open>format!("{h:016x}")\<close>: sixteen lower-case digits, most significant first.\<close>

definition hex16 :: "u64 \<Rightarrow> string" where
  "hex16 h = map (\<lambda>i. hex_digit (unat (drop_bit (4 * (15 - i)) h AND 0xF))) [0..<16]"

definition token_hash :: "string \<Rightarrow> string" where
  "token_hash token = hex16 (foldl fnv_step 0xcbf29ce484222325 token)"

definition is_ascii_hexdigit :: "char \<Rightarrow> bool" where
  "is_ascii_hexdigit c \<longleftrightarrow>
     (let n = of_char c :: nat in 48 \<le> n \<and> n \<le> 57 \<or> 97 \<le> n \<and> n \<le> 102 \<or> 65 \<le> n \<and> n \<le> 70)"

fun check_identities :: "(string \<times> int) list \<Rightarrow> (string, u64) fmap \<Rightarrow> srv_error + (string, u64) fmap" where
  "check_identities [] m = Inr m"
| "check_identities ((h, i) # r) m =
     (if length h \<noteq> 16 \<or> \<not> list_all is_ascii_hexdigit h then Inl IdentityShape
      else if i < 0 then Inl NegativePlayerId
      else check_identities r (fmupd h (word_of_int i) m))"

definition load_identity_players_up_to :: "nat \<Rightarrow> db \<Rightarrow> db \<times> (srv_error + (string, u64) fmap)" where
  "load_identity_players_up_to max_players d =
     (case player_identities (min u32_max (max_players + 1)) d of
        (d1, Inl e) \<Rightarrow> (d1, Inl (SqlFailed e))
      | (d1, Inr rows) \<Rightarrow>
          (d1, if length rows > max_players then Inl TableCeiling else check_identities rows fmempty))"

definition load_identity_players :: "db \<Rightarrow> db \<times> (srv_error + (string, u64) fmap)" where
  "load_identity_players = load_identity_players_up_to MAX_PLAYER_ROWS"

definition show_nat_digit :: "nat \<Rightarrow> char" where
  "show_nat_digit n = char_of (n + 48)"

text \<open>\<open>to_string\<close> of an integer, and the messages built with \<open>format!\<close>.\<close>

fun show_nat :: "nat \<Rightarrow> string" where
  "show_nat n = (if n < 10 then [show_nat_digit n] else show_nat (n div 10) @ [show_nat_digit (n mod 10)])"

declare show_nat.simps [simp del]

definition show_int :: "int \<Rightarrow> string" where
  "show_int i = (if i < 0 then CHR ''-'' # show_nat (nat (- i)) else show_nat (nat i))"

definition digit_val :: "char \<Rightarrow> nat option" where
  "digit_val c = (let n = of_char c in if 48 \<le> n \<and> n \<le> 57 then Some (n - 48) else None)"

fun digits_val :: "nat \<Rightarrow> string \<Rightarrow> nat option" where
  "digits_val acc [] = Some acc"
| "digits_val acc (c # cs) = (case digit_val c of None \<Rightarrow> None | Some d \<Rightarrow> digits_val (acc * 10 + d) cs)"

text \<open>\<open>str::parse\<close> for \<open>i64\<close> and \<open>u64\<close>: an optional sign, at least one digit, in range.\<close>

definition parse_nat :: "string \<Rightarrow> nat option" where
  "parse_nat cs = (if cs = [] then None else digits_val 0 cs)"

definition parse_i64 :: "string \<Rightarrow> int option" where
  "parse_i64 cs =
     Option.bind
       (case cs of
          [] \<Rightarrow> None
        | c # r \<Rightarrow>
            if c = CHR ''-'' then map_option (\<lambda>n. - int n) (parse_nat r)
            else if c = CHR ''+'' then map_option int (parse_nat r)
            else map_option int (parse_nat cs))
       (\<lambda>i. if in_i64 i then Some i else None)"

definition parse_u64 :: "string \<Rightarrow> u64 option" where
  "parse_u64 cs =
     Option.bind
       (case cs of
          [] \<Rightarrow> None
        | c # r \<Rightarrow> if c = CHR ''+'' then parse_nat r else parse_nat cs)
       (\<lambda>n. if n \<le> u64_max then Some (word_of_nat n) else None)"

definition validate_hello_string :: "string option \<Rightarrow> string \<Rightarrow> bool \<Rightarrow> nat \<Rightarrow> string + string option" where
  "validate_hello_string v field required max_len =
     (if required \<and> (case v of None \<Rightarrow> True | Some x \<Rightarrow> x = []) then Inl (''missing '' @ field)
      else if (case v of None \<Rightarrow> False | Some x \<Rightarrow> \<not> string_within_limit x max_len)
      then Inl (field @ '' exceeds maximum length ('' @ show_nat max_len @ '' bytes)'')
      else Inr v)"

section \<open>Clocks, sequence numbers and sending\<close>

definition srv_caps :: "server \<Rightarrow> caps" where
  "srv_caps s =
     \<lparr>caps_tick_hz = the (tick_hz_u8 (sv_cfg s)), caps_snapshot_hz = the (snapshot_hz_u8 (sv_cfg s)),
      caps_aoi_radius_cells = word_of_nat (min (cfg_aoi_radius_cells (sv_cfg s)) u8_max),
      caps_cell_size_m = cell_size_m (world_grid (sv_world s)), caps_features = FEATURES\<rparr>"

definition clock_now :: "int \<Rightarrow> server \<Rightarrow> world_clock" where
  "clock_now wall s = clock_from_epoch (sv_epoch_ms s) wall"

definition next_seq :: "server \<Rightarrow> server \<times> u32" where
  "next_seq s = (let q = sv_seq s + 1 in (s\<lparr>sv_seq := q\<rparr>, q))"

definition uptime_ms :: "instant \<Rightarrow> server \<Rightarrow> u32" where
  "uptime_ms now s = word_of_nat ((now - sv_boot s) div 10 ^ 6)"

definition admission_ms :: "instant \<Rightarrow> server \<Rightarrow> int" where
  "admission_ms now s = min (int ((now - sv_boot s) div 10 ^ 6)) i64_max"

definition srv_send :: "nat \<Rightarrow> bytes \<Rightarrow> server \<Rightarrow> server" where
  "srv_send peer b s = s\<lparr>sv_host := fst (send_unreliable None peer b (sv_host s))\<rparr>"

definition send_bounded :: "nat \<Rightarrow> bytes \<Rightarrow> server \<Rightarrow> server \<times> bool" where
  "send_bounded peer b s =
     (if length b > MAX_PAYLOAD then (s, False) else (srv_send peer b s, True))"

definition session_by_player :: "u64 \<Rightarrow> server \<Rightarrow> session option" where
  "session_by_player pid s =
     (case fmlookup (sv_player_peers s) pid of
        None \<Rightarrow> None
      | Some peer \<Rightarrow>
          (case fmlookup (sv_sessions s) peer of
             Some x \<Rightarrow> if ss_player_id x = pid then Some x else None
           | None \<Rightarrow> None))"

text \<open>\<open>if let Some(session) = self.sessions.get_mut(&peer)\<close> with an assignment in its body.\<close>

definition upd_session :: "nat \<Rightarrow> (session \<Rightarrow> session) \<Rightarrow> server \<Rightarrow> server" where
  "upd_session peer f s =
     (case fmlookup (sv_sessions s) peer of
        None \<Rightarrow> s
      | Some x \<Rightarrow> s\<lparr>sv_sessions := fmupd peer (f x) (sv_sessions s)\<rparr>)"

section \<open>Sessions and their indexes\<close>

definition schedule_aoi :: "nat \<Rightarrow> server \<Rightarrow> server" where
  "schedule_aoi peer s =
     (if fmlookup (sv_sessions s) peer = None then s
      else s\<lparr>sv_aoi_recipients := finsert peer (sv_aoi_recipients s)\<rparr>)"

definition emit_aoi :: "nat \<Rightarrow> aoi_update \<Rightarrow> server \<Rightarrow> server" where
  "emit_aoi peer aoi s = (if aoi_is_empty aoi then s else schedule_aoi peer s)"

definition invalidate_fanout_jobs :: "server \<Rightarrow> server" where
  "invalidate_fanout_jobs s =
     s\<lparr>sv_chat_fanout := [], sv_chat_fanout_bytes := 0, sv_clock_fanout := None, sv_fanout_audience_cache := None\<rparr>"

text \<open>The peers in order, each with its position counted from one.\<close>

definition rekeyed :: "server \<Rightarrow> (nat \<times> nat) list" where
  "rekeyed s = zip (sorted_list_of_fset (fmdom (sv_sessions s))) [1..<Suc (fmlen (sv_sessions s))]"

definition rekey_live_session_generations :: "server \<Rightarrow> server \<times> (srv_error + unit)" where
  "rekey_live_session_generations s =
     (if fmlen (sv_sessions s) > max_transport_peers_usize (sv_cfg s) then (s, Inl TooManyLiveSessions)
      else
        let s1 = fold (\<lambda>(peer, g). upd_session peer (\<lambda>x. x\<lparr>ss_generation := g\<rparr>)) (rekeyed s) (invalidate_fanout_jobs s)
        in (s1\<lparr>sv_next_session_generation := fmlen (sv_sessions s)\<rparr>, Inr ()))"

definition allocate_session_generation :: "server \<Rightarrow> server \<times> (srv_error + nat)" where
  "allocate_session_generation s =
     (case (if sv_next_session_generation s = u64_max then rekey_live_session_generations s else (s, Inr ())) of
        (s1, Inl e) \<Rightarrow> (s1, Inl e)
      | (s1, Inr _) \<Rightarrow>
          (case checked_add_u64 (sv_next_session_generation s1) 1 of
             None \<Rightarrow> (s1, Inl GenerationExhausted)
           | Some g \<Rightarrow> (s1\<lparr>sv_next_session_generation := g\<rparr>, Inr g)))"

definition register_session :: "nat \<Rightarrow> session \<Rightarrow> server \<Rightarrow> server \<times> (srv_error + unit)" where
  "register_session peer x s =
     (if fmlookup (sv_sessions s) peer \<noteq> None then (s, Inl PeerOwnsSession)
      else
        (case fmlookup (sv_player_peers s) (ss_player_id x) of
           Some p \<Rightarrow> (s, Inl (PlayerOwnsSession p))
         | None \<Rightarrow>
             (case allocate_session_generation s of
                (s1, Inl e) \<Rightarrow> (s1, Inl e)
              | (s1, Inr g) \<Rightarrow>
                  let pid = ss_player_id x;
                      s2 = s1\<lparr>sv_sessions := fmupd peer (x\<lparr>ss_generation := g\<rparr>) (sv_sessions s1),
                              sv_player_peers := fmupd pid peer (sv_player_peers s1),
                              sv_player_order := finsert pid (sv_player_order s1),
                              sv_snapshot_recipients := finsert peer (sv_snapshot_recipients s1),
                              sv_fanout_audience_cache := None\<rparr>;
                      s3 = (if ss_dirty x then s2\<lparr>sv_dirty_players := finsert pid (sv_dirty_players s2)\<rparr> else s2)
                  in (schedule_aoi peer s3, Inr ()))))"

definition unregister_session :: "nat \<Rightarrow> server \<Rightarrow> server \<times> session option" where
  "unregister_session peer s =
     (case fmlookup (sv_sessions s) peer of
        None \<Rightarrow> (s, None)
      | Some x \<Rightarrow>
          let pid = ss_player_id x;
              s1 = s\<lparr>sv_sessions := fmdrop peer (sv_sessions s)\<rparr>;
              s2 = (if fmlookup (sv_player_peers s1) pid = Some peer
                    then s1\<lparr>sv_player_peers := fmdrop pid (sv_player_peers s1),
                            sv_player_order := sv_player_order s1 |-| {|pid|}\<rparr>
                    else s1)
          in (s2\<lparr>sv_snapshot_recipients := sv_snapshot_recipients s2 |-| {|peer|},
                 sv_aoi_recipients := sv_aoi_recipients s2 |-| {|peer|},
                 sv_fanout_audience_cache := None\<rparr>, Some x))"

section \<open>Starting\<close>

definition server_new ::
  "config \<Rightarrow> db \<Rightarrow> udp_socket option \<Rightarrow> int \<Rightarrow> u64 \<Rightarrow> instant \<Rightarrow> db \<times> (srv_error + server)" where
  "server_new cfg d sock now random boot =
     (case db_open d of
        (d1, Inl e) \<Rightarrow> (d1, Inl (SqlFailed e))
      | (d1, Inr _) \<Rightarrow>
     (case load_identity_players d1 of
        (d2, Inl e) \<Rightarrow> (d2, Inl e)
      | (d2, Inr ids) \<Rightarrow>
     (case world_get_or_init KEY_CLOCK_EPOCH (show_int now) d2 of
        (d3, Inl e) \<Rightarrow> (d3, Inl (SqlFailed e))
      | (d3, Inr epoch_str) \<Rightarrow>
     (case world_get_or_init KEY_WEATHER_SEED (show_nat (unat random)) d3 of
        (d4, Inl e) \<Rightarrow> (d4, Inl (SqlFailed e))
      | (d4, Inr seed_str) \<Rightarrow>
     (case bind_with_limits sock CONNECT_KEY (max_transport_peers_usize cfg) (max_transport_peers_per_ip_usize cfg) of
        Inl _ \<Rightarrow> (d4, Inl BindFailed)
      | Inr h \<Rightarrow>
          let epoch = (case parse_i64 epoch_str of Some i \<Rightarrow> i | None \<Rightarrow> now) in
          (d4, Inr
            \<lparr>sv_cfg = cfg, sv_host = h, sv_db = d4, sv_world = world_new (the (grid_new (cfg_cell_size_m cfg))),
             sv_sessions = fmempty, sv_player_peers = fmempty, sv_player_order = {||},
             sv_snapshot_recipients = {||}, sv_snapshot_recipient_cursor = None,
             sv_aoi_recipients = {||}, sv_aoi_recipient_cursor = None,
             sv_chat_fanout = [], sv_chat_fanout_bytes = 0, sv_clock_fanout = None, sv_fanout_audience_cache = None,
             sv_next_arc = 0, sv_fanout_prefer_clock = True,
             sv_dirty_players = {||}, sv_flush_players = {||}, sv_flush_paused = False,
             sv_identity_players = ids, sv_next_session_generation = 0, sv_seq = 0, sv_snapshot_tick = 0,
             sv_boot = boot, sv_epoch_ms = epoch,
             sv_weather_seed = (case parse_u64 seed_str of Some w \<Rightarrow> w | None \<Rightarrow> 0),
             sv_weather_epoch_day = clock_day (clock_from_epoch epoch epoch),
             sv_hello_limiter = limiter_new (hello_min_interval_ms_i64 cfg),
             sv_source_session_limiter =
               bounded_new (source_session_min_interval_ms_i64 cfg) (max_transport_peers_usize cfg),
             sv_reconnect_limiter = bounded_new (hello_min_interval_ms_i64 cfg) (max (fmlen ids) (max_player_rows_u32 cfg)),
             sv_new_session_limiter = global_new (new_session_min_interval_ms_i64 cfg),
             sv_trade_limiter = limiter_new (trade_min_interval_ms_i64 cfg),
             sv_client_state_limiter = limiter_new (client_state_min_interval_ms_i64 cfg),
             sv_chat_limiter = limiter_new (chat_min_interval_ms_i64 cfg),
             sv_econ_limiter = limiter_new (econ_min_interval_ms_i64 cfg),
             sv_moor_limiter = limiter_new (moor_min_interval_ms_i64 cfg)\<rparr>))))))"

end
