(* ===== verification/Server_Work.thy ===== *)
theory Server_Work
  imports Server_State
begin

text \<open>
  The work the server does on every tick besides handling events, from
  \<open>server/crates/sw-server/src/server.rs\<close>: the snapshot round, area-of-interest delivery and
  cell hydration, the fanout queues and the dirty flush. The per-tick budgets are the constants of
  the source, and the work records count what it counts.
\<close>

section \<open>Snapshots\<close>

record snapshot_work =
  sw_visits :: nat
  sw_candidates :: nat
  sw_encoded :: nat
  sw_packets :: nat
  sw_bytes :: nat

definition snapshot_work_default :: snapshot_work where
  "snapshot_work_default = \<lparr>sw_visits = 0, sw_candidates = 0, sw_encoded = 0, sw_packets = 0, sw_bytes = 0\<rparr>"

text \<open>\<open>iter().position\<close>.\<close>

fun index_of :: "'a \<Rightarrow> 'a list \<Rightarrow> nat option" where
  "index_of x [] = None"
| "index_of x (y # ys) = (if y = x then Some 0 else map_option Suc (index_of x ys))"

definition in_view :: "cell \<Rightarrow> server \<Rightarrow> u64 \<Rightarrow> bool" where
  "in_view c s pid \<longleftrightarrow>
     (case Option.bind (session_by_player pid s) ss_cell of
        None \<Rightarrow> False
      | Some d \<Rightarrow> chebyshev_distance d c \<le> aoi_radius_i32 (sv_cfg s))"

definition snapshot_selected :: "u64 \<Rightarrow> cell \<Rightarrow> server \<Rightarrow> u64 list" where
  "snapshot_selected self_pid c s =
     take SNAPSHOT_VISIBILITY_CEILING
       (filter (in_view c s) (filter (\<lambda>pid. pid \<noteq> self_pid)
         (player_candidates_after (Some self_pid) SNAPSHOT_ENTITY_SCAN_PER_PACKET s)))"

text \<open>The window of the selection one packet carries: how many players this round still owes, where the
  packet starts and which players it examines.\<close>

definition snapshot_window :: "u64 list \<Rightarrow> u64 option \<Rightarrow> nat \<Rightarrow> nat \<times> u64 list" where
  "snapshot_window sel cursor left =
     (let pos = Option.bind cursor (\<lambda>c. index_of c sel);
          remaining = (if left = 0 \<or> pos = None then length sel else min left (length sel));
          start = (case pos of None \<Rightarrow> 0 | Some k \<Rightarrow> (k + 1) mod length sel);
          emit_count = min remaining SNAPSHOT_ENTITIES_PER_PACKET
      in (remaining - emit_count, map (\<lambda>k. sel ! ((start + k) mod length sel)) [0..<emit_count]))"

definition last_opt :: "'a list \<Rightarrow> 'a option" where
  "last_opt xs = (if xs = [] then None else Some (last xs))"

text \<open>The cadence is a division that panics for a snapshot rate of zero. No configuration that validates has one, and a
  server is only started with such a configuration; a recipient would not be visited here.\<close>

definition snapshot_due :: "u32 \<Rightarrow> session \<Rightarrow> server \<Rightarrow> bool" where
  "snapshot_due tick x s \<longleftrightarrow>
     (case ticks_per_snapshot (sv_cfg s) of
        None \<Rightarrow> False
      | Some ticks \<Rightarrow>
          \<not> (ss_snapshot_last_visit_tick x \<noteq> 0 \<and> tick - ss_snapshot_last_visit_tick x < word_of_nat (min ticks u32_max)))"

definition snapshot_visit ::
  "flatbuffers \<Rightarrow> u32 \<Rightarrow> nat \<Rightarrow> server \<times> snapshot_work \<Rightarrow> server \<times> snapshot_work" where
  "snapshot_visit fb tick peer sw =
     (case sw of (s, w) \<Rightarrow>
     (case fmlookup (sv_sessions s) peer of
        None \<Rightarrow> (s, w)
      | Some x \<Rightarrow>
     (case ss_cell x of
        None \<Rightarrow> (s, w)
      | Some c \<Rightarrow>
     if \<not> snapshot_due tick x s then (s, w)
     else
       let s1 = upd_session peer (\<lambda>y. y\<lparr>ss_snapshot_last_visit_tick := tick\<rparr>) s;
           candidates = player_candidates_after (Some (ss_player_id x)) SNAPSHOT_ENTITY_SCAN_PER_PACKET s1;
           w1 = w\<lparr>sw_visits := sw_visits w + 1, sw_candidates := sw_candidates w + length candidates\<rparr>;
           sel = snapshot_selected (ss_player_id x) c s1
       in if sel = [] then
            (upd_session peer (\<lambda>y. y\<lparr>ss_snapshot_cursor := None, ss_snapshot_remaining := 0\<rparr>) s1, w1)
          else
            let (left, ids) = snapshot_window sel (ss_snapshot_cursor x) (ss_snapshot_remaining x);
                live = List.map_filter (\<lambda>pid. session_by_player pid s1) ids;
                ps = map player_snap_of live;
                bs = map boat_snap_of (filter (\<lambda>y. ss_aboard_boat y \<noteq> 0) live);
                s2 = upd_session peer (\<lambda>y. y\<lparr>ss_snapshot_cursor := last_opt ids, ss_snapshot_remaining := left\<rparr>) s1
            in if ps = [] \<and> bs = [] then (s2, w1)
               else
                 let (s3, sq) = next_seq s2;
                     b = snapshot_delta fb sq tick ps bs;
                     w2 = w1\<lparr>sw_encoded := sw_encoded w1 + length ps\<rparr>;
                     (s4, sent) = send_bounded peer b s3
                 in (s4, if sent then w2\<lparr>sw_packets := sw_packets w2 + 1, sw_bytes := sw_bytes w2 + length b\<rparr>
                         else w2))))"

definition broadcast_snapshots :: "flatbuffers \<Rightarrow> server \<Rightarrow> server \<times> snapshot_work" where
  "broadcast_snapshots fb s =
     (let tick = sv_snapshot_tick s + 1;
          s1 = s\<lparr>sv_snapshot_tick := tick\<rparr>;
          recipients = ordered_peers_after (sv_snapshot_recipients s1) (sv_snapshot_recipient_cursor s1)
                         SNAPSHOT_PACKETS_PER_TICK;
          s2 = (case last_opt recipients of None \<Rightarrow> s1 | Some p \<Rightarrow> s1\<lparr>sv_snapshot_recipient_cursor := Some p\<rparr>)
      in fold (snapshot_visit fb tick) recipients (s2, snapshot_work_default))"

section \<open>Area of interest\<close>

record aoi_work =
  aw_visits :: nat
  aw_queries :: nat
  aw_packets :: nat
  aw_cells_completed :: nat
  aw_moorings :: nat
  aw_corrupt :: nat

definition aoi_work_default :: aoi_work where
  "aoi_work_default =
     \<lparr>aw_visits = 0, aw_queries = 0, aw_packets = 0, aw_cells_completed = 0, aw_moorings = 0, aw_corrupt = 0\<rparr>"

text \<open>The chunk of cells the next update names: what to withdraw first, then what to add.\<close>

definition chunk_cells :: "session \<Rightarrow> cell list \<times> cell list" where
  "chunk_cells x =
     (let removed = take AOI_CELLS_PER_UPDATE (by_key (ss_published_cells x |-| sub_cells (ss_sub x)));
          added = take (AOI_CELLS_PER_UPDATE - length removed)
                    (by_key (sub_cells (ss_sub x) |-| ss_published_cells x))
      in (added, removed))"

definition apply_chunk :: "cell list \<Rightarrow> cell list \<Rightarrow> session \<Rightarrow> session" where
  "apply_chunk added removed x =
     x\<lparr>ss_published_cells := (ss_published_cells x |-| fset_of_list removed) |\<union>| fset_of_list added,
       ss_hydration_cells := (ss_hydration_cells x |-| fset_of_list removed) |\<union>| fset_of_list added,
       ss_active_hydration :=
         (case ss_active_hydration x of
            Some a \<Rightarrow> if hy_cell a \<in> set removed then None else Some a
          | None \<Rightarrow> None)\<rparr>"

definition next_aoi_chunk :: "nat \<Rightarrow> server \<Rightarrow> server \<times> (cell list \<times> cell list) option" where
  "next_aoi_chunk peer s =
     (case fmlookup (sv_sessions s) peer of
        None \<Rightarrow> (s, None)
      | Some x \<Rightarrow>
          let (added, removed) = chunk_cells x in
          if added = [] \<and> removed = [] then (s, None)
          else (upd_session peer (apply_chunk added removed) s, Some (added, removed)))"

definition begin_hydration :: "nat \<Rightarrow> session \<Rightarrow> session" where
  "begin_hydration active_players x =
     (let x1 = (case ss_active_hydration x of
                  Some a \<Rightarrow>
                    if \<not> sub_contains (hy_cell a) (ss_sub x) \<or> hy_cell a |\<notin>| ss_published_cells x
                    then x\<lparr>ss_active_hydration := None\<rparr> else x
                | None \<Rightarrow> x)
      in case ss_active_hydration x1 of
           Some _ \<Rightarrow> x1
         | None \<Rightarrow>
             (case next_hydration_cell (ss_hydration_cells x1) (ss_hydration_cursor x1) of
                None \<Rightarrow> x1
              | Some c \<Rightarrow>
                  x1\<lparr>ss_hydration_cells := ss_hydration_cells x1 |-| {|c|},
                     ss_hydration_cursor := Some c,
                     ss_active_hydration := Some
                       \<lparr>hy_cell = c, hy_player_cursor = None, hy_players_remaining = active_players,
                        hy_mooring_cursor = None, hy_players_complete = (active_players = 0), hy_sent_any = False\<rparr>\<rparr>))"

definition prepare_cell_hydration :: "nat \<Rightarrow> nat \<Rightarrow> server \<Rightarrow> server \<times> cell_hydration option" where
  "prepare_cell_hydration peer active_players s =
     (case fmlookup (sv_sessions s) peer of
        None \<Rightarrow> (s, None)
      | Some x \<Rightarrow>
          let x' = begin_hydration active_players x
          in (upd_session peer (\<lambda>_. x') s, ss_active_hydration x'))"

definition session_has_aoi_work :: "nat \<Rightarrow> server \<Rightarrow> bool" where
  "session_has_aoi_work peer s =
     (case fmlookup (sv_sessions s) peer of
        None \<Rightarrow> False
      | Some x \<Rightarrow>
          ss_published_cells x \<noteq> sub_cells (ss_sub x) \<or> ss_active_hydration x \<noteq> None \<or> ss_hydration_cells x \<noteq> {||})"

text \<open>The scan for players of one cell: it stops after five, and reports how many candidates it examined
  and the last of them.\<close>

fun cell_scan :: "server \<Rightarrow> cell \<Rightarrow> u64 list \<Rightarrow> session list \<Rightarrow> nat \<Rightarrow> u64 option \<Rightarrow> session list \<times> nat \<times> u64 option" where
  "cell_scan s c [] found n last_seen = (found, n, last_seen)"
| "cell_scan s c (pid # r) found n last_seen =
     (case session_by_player pid s of
        None \<Rightarrow> cell_scan s c r found (n + 1) (Some pid)
      | Some x \<Rightarrow>
          if ss_cell x \<noteq> Some c then cell_scan s c r found (n + 1) (Some pid)
          else if length (found @ [x]) = CELL_ENTITIES_PER_PACKET then (found @ [x], n + 1, Some pid)
          else cell_scan s c r (found @ [x]) (n + 1) (Some pid))"

definition upd_hydration :: "nat \<Rightarrow> (cell_hydration \<Rightarrow> cell_hydration) \<Rightarrow> server \<Rightarrow> server" where
  "upd_hydration peer f =
     upd_session peer (\<lambda>x. x\<lparr>ss_active_hydration := map_option f (ss_active_hydration x)\<rparr>)"

definition scan_done :: "nat \<Rightarrow> cell_hydration \<Rightarrow> bool" where
  "scan_done examined a \<longleftrightarrow> hy_players_remaining a - examined = 0 \<or> examined = 0"

definition scan_progress :: "nat \<Rightarrow> u64 option \<Rightarrow> cell_hydration \<Rightarrow> cell_hydration" where
  "scan_progress examined last_seen a =
     a\<lparr>hy_player_cursor := (case last_seen of Some p \<Rightarrow> Some p | None \<Rightarrow> hy_player_cursor a),
       hy_players_remaining := hy_players_remaining a - examined,
       hy_players_complete := hy_players_complete a \<or> scan_done examined a\<rparr>"

text \<open>A bounded packet of hydration content; when it is sent the cell counts as answered.\<close>

definition send_cell ::
  "flatbuffers \<Rightarrow> nat \<Rightarrow> cell \<Rightarrow> player_snap list \<Rightarrow> boat_snap list \<Rightarrow> mooring_snap list \<Rightarrow> server \<Rightarrow> server \<times> bool" where
  "send_cell fb peer c ps bs ms s =
     (let (s1, sq) = next_seq s; (s2, sent) = send_bounded peer (cell_snapshot fb sq c ps bs ms) s1
      in (s2, sent))"

definition hydrate_players ::
  "flatbuffers \<Rightarrow> nat \<Rightarrow> cell_hydration \<Rightarrow> server \<Rightarrow> aoi_work \<Rightarrow> server \<times> aoi_work \<times> bool" where
  "hydrate_players fb peer a s w =
     (let candidates = player_candidates_after (hy_player_cursor a)
                         (min (hy_players_remaining a) CELL_ENTITY_SCAN_PER_WORK) s;
          (found, examined, last_seen) = cell_scan s (hy_cell a) candidates [] 0 None;
          ps = map player_snap_of found;
          bs = map boat_snap_of (filter (\<lambda>y. ss_aboard_boat y \<noteq> 0) found);
          completed = scan_done examined a;
          s1 = upd_hydration peer (scan_progress examined last_seen) s;
          (s2, w2) =
            (if ps \<noteq> [] \<or> bs \<noteq> [] then
               let (s', sent) = send_cell fb peer (hy_cell a) ps bs [] s1
               in if sent then (upd_hydration peer (\<lambda>h. h\<lparr>hy_sent_any := True\<rparr>) s', w\<lparr>aw_packets := aw_packets w + 1\<rparr>)
                  else (s', w)
             else (s1, w))
      in (s2, w2, if completed then session_has_aoi_work peer s2 else True))"

definition hydrate_mooring ::
  "flatbuffers \<Rightarrow> nat \<Rightarrow> cell \<Rightarrow> mooring_row \<Rightarrow> server \<Rightarrow> aoi_work \<Rightarrow> server \<times> aoi_work" where
  "hydrate_mooring fb peer c row s w =
     (let s1 = upd_hydration peer (\<lambda>h. h\<lparr>hy_mooring_cursor := Some (mr_boat_id row)\<rparr>) s
      in if length (mr_name row) \<le> MAX_MOORING_NAME_BYTES then
           let (s2, sent) = send_cell fb peer c [] [] [mooring_snap_of row] s1
           in if sent then (upd_hydration peer (\<lambda>h. h\<lparr>hy_sent_any := True\<rparr>) s2,
                            w\<lparr>aw_packets := aw_packets w + 1, aw_moorings := aw_moorings w + 1\<rparr>)
              else (s2, w)
         else (s1, w\<lparr>aw_corrupt := aw_corrupt w + 1\<rparr>))"

definition finish_hydration ::
  "flatbuffers \<Rightarrow> nat \<Rightarrow> cell \<Rightarrow> server \<Rightarrow> aoi_work \<Rightarrow> server \<times> aoi_work" where
  "finish_hydration fb peer c s w =
     (let sent_any = (case Option.bind (fmlookup (sv_sessions s) peer) ss_active_hydration of
                        None \<Rightarrow> False | Some h \<Rightarrow> hy_sent_any h);
          (s1, w1) =
            (if sent_any then (s, w)
             else let (s', sent) = send_cell fb peer c [] [] [] s
                  in (s', if sent then w\<lparr>aw_packets := aw_packets w + 1\<rparr> else w))
      in (upd_session peer (\<lambda>x. x\<lparr>ss_active_hydration := None\<rparr>) s1,
          w1\<lparr>aw_cells_completed := aw_cells_completed w1 + 1\<rparr>))"

definition hydrate_moorings ::
  "flatbuffers \<Rightarrow> nat \<Rightarrow> cell \<Rightarrow> server \<Rightarrow> aoi_work \<Rightarrow> server \<times> aoi_work \<times> (srv_error + bool)" where
  "hydrate_moorings fb peer c s w =
     (let cursor = Option.bind (Option.bind (fmlookup (sv_sessions s) peer) ss_active_hydration) hy_mooring_cursor
      in case moorings_in_cell_after (cx c) (cz c) cursor (min CELL_MOORINGS_PER_PACKET MAX_MOORINGS_PAGE_ROWS) (sv_db s) of
           (d, Inl e) \<Rightarrow> (s\<lparr>sv_db := d\<rparr>, w, Inl (SqlFailed e))
         | (d, Inr rows) \<Rightarrow>
             let s1 = s\<lparr>sv_db := d\<rparr>; w1 = w\<lparr>aw_queries := aw_queries w + 1\<rparr>
             in case rows of
                  row # _ \<Rightarrow> (case hydrate_mooring fb peer c row s1 w1 of (s2, w2) \<Rightarrow> (s2, w2, Inr True))
                | [] \<Rightarrow> (case finish_hydration fb peer c s1 w1 of (s2, w2) \<Rightarrow> (s2, w2, Inr (session_has_aoi_work peer s2))))"

definition process_one_aoi_work ::
  "flatbuffers \<Rightarrow> nat \<Rightarrow> server \<Rightarrow> aoi_work \<Rightarrow> server \<times> aoi_work \<times> (srv_error + bool)" where
  "process_one_aoi_work fb peer s w =
     (case next_aoi_chunk peer s of
        (s1, Some (added, removed)) \<Rightarrow>
          let (s2, sq) = next_seq s1;
              (s3, sent) = send_bounded peer (aoi_update_msg fb sq added removed) s2
          in (s3, if sent then w\<lparr>aw_packets := aw_packets w + 1\<rparr> else w, Inr (session_has_aoi_work peer s3))
      | (s1, None) \<Rightarrow>
          (case prepare_cell_hydration peer (fcard (sv_player_order s1)) s1 of
             (s2, None) \<Rightarrow> (s2, w, Inr (session_has_aoi_work peer s2))
           | (s2, Some a) \<Rightarrow>
               if \<not> hy_players_complete a then
                 (case hydrate_players fb peer a s2 w of (s3, w3, needs) \<Rightarrow> (s3, w3, Inr needs))
               else hydrate_moorings fb peer (hy_cell a) s2 w))"

definition aoi_step :: "flatbuffers \<Rightarrow> nat \<Rightarrow> server \<times> aoi_work \<Rightarrow> server \<times> aoi_work" where
  "aoi_step fb peer sw =
     (case sw of (s, w) \<Rightarrow>
        let s1 = s\<lparr>sv_aoi_recipients := sv_aoi_recipients s |-| {|peer|}\<rparr> in
        if fmlookup (sv_sessions s1) peer = None then (s1, w)
        else
          (case process_one_aoi_work fb peer s1 (w\<lparr>aw_visits := aw_visits w + 1\<rparr>) of
             (s2, w2, r) \<Rightarrow> (if (case r of Inl _ \<Rightarrow> True | Inr needs \<Rightarrow> needs) then schedule_aoi peer s2 else s2, w2)))"

definition process_aoi_work :: "flatbuffers \<Rightarrow> server \<Rightarrow> server \<times> aoi_work" where
  "process_aoi_work fb s =
     (let recipients = ordered_peers_after (sv_aoi_recipients s) (sv_aoi_recipient_cursor s) AOI_WORK_ITEMS_PER_TICK;
          s1 = (case last_opt recipients of None \<Rightarrow> s | Some p \<Rightarrow> s\<lparr>sv_aoi_recipient_cursor := Some p\<rparr>)
      in fold (aoi_step fb) recipients (s1, aoi_work_default))"

section \<open>Fanout\<close>

record fanout_work =
  fw_scans :: nat
  fw_sends :: nat
  fw_bytes :: nat
  fw_jobs :: nat

definition fanout_work_default :: fanout_work where
  "fanout_work_default = \<lparr>fw_scans = 0, fw_sends = 0, fw_bytes = 0, fw_jobs = 0\<rparr>"

text \<open>The audiences the server keeps alive: the cached one and those of the queued jobs.\<close>

definition live_audiences :: "server \<Rightarrow> audience list" where
  "live_audiences s =
     (case sv_fanout_audience_cache s of None \<Rightarrow> [] | Some a \<Rightarrow> [a])
     @ map fj_recipients (sv_chat_fanout s)
     @ (case sv_clock_fanout s of None \<Rightarrow> [] | Some j \<Rightarrow> [fj_recipients j])"

fun distinct_entries :: "nat list \<Rightarrow> audience list \<Rightarrow> nat" where
  "distinct_entries seen [] = 0"
| "distinct_entries seen (a # r) =
     (if au_ptr a \<in> set seen then distinct_entries seen r
      else length (au_items a) + distinct_entries (au_ptr a # seen) r)"

definition retained_fanout_audience_entries :: "server \<Rightarrow> nat" where
  "retained_fanout_audience_entries s = distinct_entries [] (live_audiences s)"

definition current_audience :: "server \<Rightarrow> fanout_recipient list" where
  "current_audience s =
     take (max_transport_peers_usize (sv_cfg s))
       (List.map_filter (\<lambda>p. map_option (\<lambda>x. (p, ss_generation x)) (fmlookup (sv_sessions s) p))
         (sorted_list_of_fset (sv_snapshot_recipients s)))"

definition capture_fanout_recipients :: "server \<Rightarrow> server \<times> audience option" where
  "capture_fanout_recipients s =
     (case sv_fanout_audience_cache s of
        Some a \<Rightarrow> (s, Some a)
      | None \<Rightarrow>
          let recipients = current_audience s in
          if recipients = []
             \<or> (case checked_add_u64 (retained_fanout_audience_entries s) (length recipients) of
                  None \<Rightarrow> True | Some n \<Rightarrow> n > FANOUT_QUEUE_RECIPIENTS)
          then (s, None)
          else let a = \<lparr>au_ptr = sv_next_arc s, au_items = recipients\<rparr>
               in (s\<lparr>sv_fanout_audience_cache := Some a, sv_next_arc := sv_next_arc s + 1\<rparr>, Some a))"

definition broadcast_clock :: "flatbuffers \<Rightarrow> int \<Rightarrow> server \<Rightarrow> server" where
  "broadcast_clock fb wall s =
     (let clk = clock_now wall s;
          (s1, sq) = next_seq s;
          b = world_clock_msg fb sq clk;
          s2 = s1\<lparr>sv_clock_fanout := None\<rparr>
      in case capture_fanout_recipients s2 of
           (s3, None) \<Rightarrow> s3
         | (s3, Some a) \<Rightarrow>
             s3\<lparr>sv_clock_fanout := Some \<lparr>fj_bytes = b, fj_sender_cell = None, fj_recipients = a, fj_next_recipient = 0\<rparr>\<rparr>)"

definition should_send :: "fanout_job \<Rightarrow> fanout_recipient \<Rightarrow> server \<Rightarrow> bool" where
  "should_send job r s =
     (case fmlookup (sv_sessions s) (fst r) of
        None \<Rightarrow> False
      | Some x \<Rightarrow>
          ss_generation x = snd r
          \<and> (case fj_sender_cell job of None \<Rightarrow> True | Some c \<Rightarrow> sub_contains c (ss_sub x)))"

function fanout_job_run ::
  "nat \<Rightarrow> nat \<Rightarrow> server \<Rightarrow> fanout_job \<Rightarrow> fanout_work \<Rightarrow> server \<times> fanout_job \<times> fanout_work" where
  "fanout_job_run scan_budget send_budget s job w =
     (if fj_next_recipient job < length (au_items (fj_recipients job)) \<and> fw_scans w < scan_budget \<and> fw_sends w < send_budget
      then
        let r = au_items (fj_recipients job) ! fj_next_recipient job;
            job1 = job\<lparr>fj_next_recipient := fj_next_recipient job + 1\<rparr>;
            w1 = w\<lparr>fw_scans := fw_scans w + 1\<rparr>
        in if should_send job1 r s then
             fanout_job_run scan_budget send_budget (srv_send (fst r) (fj_bytes job1) s) job1
               (w1\<lparr>fw_sends := fw_sends w1 + 1, fw_bytes := fw_bytes w1 + length (fj_bytes job1)\<rparr>)
           else fanout_job_run scan_budget send_budget s job1 w1
      else (s, job, w))"
  by pat_completeness auto
termination
  by (relation "measure (\<lambda>(_, _, _, job, _). length (au_items (fj_recipients job)) - fj_next_recipient job)") auto

declare fanout_job_run.simps [simp del]

text \<open>Which queue the next job comes from, and the server without it.\<close>

definition take_job :: "server \<Rightarrow> bool \<times> (server \<times> fanout_job) option" where
  "take_job s =
     (let from_clock = (sv_clock_fanout s \<noteq> None \<and> (sv_fanout_prefer_clock s \<or> sv_chat_fanout s = []))
      in (from_clock,
          if from_clock then map_option (\<lambda>j. (s\<lparr>sv_clock_fanout := None\<rparr>, j)) (sv_clock_fanout s)
          else (case sv_chat_fanout s of [] \<Rightarrow> None | j # r \<Rightarrow> Some (s\<lparr>sv_chat_fanout := r\<rparr>, j))))"

definition job_done :: "bool \<Rightarrow> fanout_job \<Rightarrow> server \<Rightarrow> server" where
  "job_done from_clock job s =
     (if from_clock then s\<lparr>sv_fanout_prefer_clock := False\<rparr>
      else s\<lparr>sv_chat_fanout_bytes := sv_chat_fanout_bytes s - length (fj_bytes job), sv_fanout_prefer_clock := True\<rparr>)"

definition put_back :: "bool \<Rightarrow> fanout_job \<Rightarrow> server \<Rightarrow> server" where
  "put_back from_clock job s =
     (if from_clock then s\<lparr>sv_clock_fanout := Some job\<rparr> else s\<lparr>sv_chat_fanout := job # sv_chat_fanout s\<rparr>)"

definition queued_jobs :: "server \<Rightarrow> nat" where
  "queued_jobs s = length (sv_chat_fanout s) + (if sv_clock_fanout s = None then 0 else 1)"

lemma srv_send_fields [simp]:
  "sv_chat_fanout (srv_send p b s) = sv_chat_fanout s" "sv_clock_fanout (srv_send p b s) = sv_clock_fanout s"
  "sv_sessions (srv_send p b s) = sv_sessions s"
  by (simp_all add: srv_send_def)

lemma fanout_job_run_queues:
  "sv_chat_fanout (fst (fanout_job_run a b s job w)) = sv_chat_fanout s"
  "sv_clock_fanout (fst (fanout_job_run a b s job w)) = sv_clock_fanout s"
  by (induction a b s job w rule: fanout_job_run.induct; subst fanout_job_run.simps; simp add: Let_def)+

lemma take_job_fewer: "take_job s = (fc, Some (s1, j)) \<Longrightarrow> queued_jobs s = Suc (queued_jobs s1)"
  by (auto simp: take_job_def queued_jobs_def Let_def split: if_splits list.splits)

lemma take_job_None: "take_job s = (fc, None) \<Longrightarrow> sv_clock_fanout s = None \<and> sv_chat_fanout s = []"
  by (auto simp: take_job_def Let_def split: if_splits list.splits)

function fanout_loop :: "nat \<Rightarrow> nat \<Rightarrow> server \<Rightarrow> fanout_work \<Rightarrow> server \<times> fanout_work" where
  "fanout_loop scan_budget send_budget s w =
     (if fw_scans w < scan_budget \<and> fw_sends w < send_budget then
        (case take_job s of
           (from_clock, None) \<Rightarrow>
             if sv_clock_fanout s = None \<and> sv_chat_fanout s = [] then (s, w)
             else fanout_loop scan_budget send_budget (s\<lparr>sv_fanout_prefer_clock := \<not> sv_fanout_prefer_clock s\<rparr>) w
         | (from_clock, Some (s1, job)) \<Rightarrow>
             (case fanout_job_run scan_budget send_budget s1 job w of
                (s2, job2, w2) \<Rightarrow>
                  if fj_next_recipient job2 = length (au_items (fj_recipients job2)) then
                    fanout_loop scan_budget send_budget (job_done from_clock job2 s2) (w2\<lparr>fw_jobs := fw_jobs w2 + 1\<rparr>)
                  else (put_back from_clock job2 s2, w2)))
      else (s, w))"
  by pat_completeness auto
termination
proof (relation "measure (\<lambda>(_, _, s, _). queued_jobs s)")
  fix a b s w from_clock y x s1 job s2 z job2 w2
  assume "(from_clock, y) = take_job s" "y = Some x" "(s1, job) = x"
    and run: "(s2, z) = fanout_job_run a b s1 job w"
  then have "queued_jobs s = Suc (queued_jobs s1)" using take_job_fewer [of s from_clock s1 job] by simp
  moreover have "queued_jobs s2 = queued_jobs s1"
    using fanout_job_run_queues [of a b s1 job w] run by (metis fst_conv queued_jobs_def)
  moreover have "queued_jobs (job_done from_clock job2 s2) = queued_jobs s2"
    by (simp add: job_done_def queued_jobs_def)
  ultimately show "((a, b, job_done from_clock job2 s2, w2\<lparr>fw_jobs := fw_jobs w2 + 1\<rparr>), a, b, s, w)
      \<in> measure (\<lambda>(_, _, s, _). queued_jobs s)"
    by simp
qed (auto dest!: sym [of _ "take_job s" for s] take_job_None)

declare fanout_loop.simps [simp del]

definition process_fanout_work_with_budget :: "nat \<Rightarrow> nat \<Rightarrow> server \<Rightarrow> server \<times> fanout_work" where
  "process_fanout_work_with_budget scan_budget send_budget s = fanout_loop scan_budget send_budget s fanout_work_default"

definition process_fanout_work :: "server \<Rightarrow> server \<times> fanout_work" where
  "process_fanout_work = process_fanout_work_with_budget FANOUT_RECIPIENT_SCANS_PER_TICK FANOUT_SENDS_PER_TICK"

section \<open>Dirty flush\<close>

definition touch_last_seen_for_flush :: "u64 \<Rightarrow> int \<Rightarrow> server \<Rightarrow> server \<times> (sql_error + unit)" where
  "touch_last_seen_for_flush pid now s =
     (case touch_last_seen (i64_of_u64 pid) now (sv_db s) of (d, r) \<Rightarrow> (s\<lparr>sv_db := d\<rparr>, r))"

definition set_dirty :: "u64 \<Rightarrow> bool \<Rightarrow> server \<Rightarrow> server" where
  "set_dirty pid b s =
     (case fmlookup (sv_player_peers s) pid of
        None \<Rightarrow> s
      | Some peer \<Rightarrow> upd_session peer (\<lambda>x. if ss_player_id x = pid then x\<lparr>ss_dirty := b\<rparr> else x) s)"

definition begin_dirty_flush :: "server \<Rightarrow> server" where
  "begin_dirty_flush s =
     s\<lparr>sv_flush_paused := False, sv_flush_players := sv_flush_players s |\<union>| sv_dirty_players s, sv_dirty_players := {||}\<rparr>"

fun flush_ids :: "int \<Rightarrow> u64 list \<Rightarrow> server \<Rightarrow> nat \<Rightarrow> server \<times> (srv_error + nat)" where
  "flush_ids now [] s n = (s, Inr n)"
| "flush_ids now (pid # r) s n =
     (case touch_last_seen_for_flush pid now s of
        (s1, Inl e) \<Rightarrow> (s1\<lparr>sv_flush_paused := True\<rparr>, Inl (SqlFailed e))
      | (s1, Inr _) \<Rightarrow>
          let s2 = s1\<lparr>sv_flush_players := sv_flush_players s1 |-| {|pid|}\<rparr>
          in flush_ids now r (set_dirty pid (pid |\<in>| sv_dirty_players s2) s2) (n + 1))"

definition process_dirty_flush_at :: "int \<Rightarrow> server \<Rightarrow> server \<times> (srv_error + nat)" where
  "process_dirty_flush_at now s =
     (if sv_flush_paused s then (s, Inr 0)
      else flush_ids now (take DIRTY_DB_UPDATES_PER_TICK (sorted_list_of_fset (sv_flush_players s))) s 0)"

fun flush_attempt :: "int \<Rightarrow> u64 list \<Rightarrow> server \<times> u64 fset \<times> sql_error option \<Rightarrow> server \<times> u64 fset \<times> sql_error option" where
  "flush_attempt now [] st = st"
| "flush_attempt now (pid # r) (s, pending, err) =
     (case touch_last_seen_for_flush pid now s of
        (s1, Inl e) \<Rightarrow> flush_attempt now r (s1, pending, Some e)
      | (s1, Inr _) \<Rightarrow>
          let s2 = s1\<lparr>sv_flush_players := sv_flush_players s1 |-| {|pid|},
                      sv_dirty_players := sv_dirty_players s1 |-| {|pid|}\<rparr>
          in flush_attempt now r (set_dirty pid False s2, pending |-| {|pid|}, err))"

fun flush_attempts :: "nat \<Rightarrow> int \<Rightarrow> server \<times> u64 fset \<times> sql_error option \<Rightarrow> server \<times> (srv_error + unit)" where
  "flush_attempts 0 now (s, pending, err) = (s, Inl (ShutdownFlushFailed (fcard pending) err))"
| "flush_attempts (Suc k) now (s, pending, err) =
     (if pending = {||} then (s, Inr ())
      else flush_attempts k now (flush_attempt now (sorted_list_of_fset pending) (s, pending, err)))"

definition flush_all :: "int \<Rightarrow> server \<Rightarrow> server \<times> (srv_error + unit)" where
  "flush_all now s =
     (let pending = (ss_player_id |`| fmran (sv_sessions s)) |\<union>| sv_dirty_players s |\<union>| sv_flush_players s
      in flush_attempts SHUTDOWN_FLUSH_ATTEMPTS now
           (s\<lparr>sv_flush_players := sv_flush_players s |\<union>| pending\<rparr>, pending, None))"

end
