(* ===== verification/Server_Handlers.thy ===== *)
theory Server_Handlers
  imports Server_Work
begin

text \<open>
  The message handlers and the tick loop of \<open>server/crates/sw-server/src/server.rs\<close>. Each handler
  is the whole method, its early returns in their order; the FlatBuffers codec is the argument
  \<open>fb\<close>, the storage of REAL columns the argument \<open>col\<close>, and the clock readings the record
  \<open>rd\<close>. The trace and log calls are left out.
\<close>

section \<open>Hello\<close>

definition send_accepted_hello :: "flatbuffers \<Rightarrow> readings \<Rightarrow> nat \<Rightarrow> u64 \<Rightarrow> int \<Rightarrow> server \<Rightarrow> server" where
  "send_accepted_hello fb rd peer pid balance s =
     (let (s1, sq) = next_seq s in
      srv_send peer
        (server_hello fb sq True '''' pid (cfg_server_name (sv_cfg s1)) balance (srv_caps s1)
           (clock_now (rd_clock rd) s1) (sv_weather_seed s1) (sv_weather_epoch_day s1)) s1)"

definition reject_hello :: "flatbuffers \<Rightarrow> readings \<Rightarrow> nat \<Rightarrow> string \<Rightarrow> server \<Rightarrow> server" where
  "reject_hello fb rd peer reason s =
     (let (s1, sq) = next_seq s in
      srv_send peer
        (server_hello fb sq False reason 0 (cfg_server_name (sv_cfg s1)) 0 (srv_caps s1)
           (clock_now (rd_clock rd) s1) (sv_weather_seed s1) (sv_weather_epoch_day s1)) s1)"

text \<open>The checks on the content of a hello, in order: the reason to refuse it, or the token and name.\<close>

definition check_hello :: "client_hello \<Rightarrow> nat \<Rightarrow> string + string \<times> string" where
  "check_hello h max_len =
     (if ch_protocol_version h \<noteq> PROTOCOL_VERSION then
        Inl (''protocol version mismatch: client '' @ show_nat (unat (ch_protocol_version h))
             @ '', server '' @ show_nat (unat PROTOCOL_VERSION))
      else
     (case validate_hello_string (ch_api_surface_hash h) ''API surface hash'' True max_len of
        Inl reason \<Rightarrow> Inl reason
      | Inr _ \<Rightarrow>
     (case validate_hello_string (ch_token h) ''token'' True max_len of
        Inl reason \<Rightarrow> Inl reason
      | Inr token \<Rightarrow>
     (case validate_hello_string (ch_display_name h) ''display name'' False max_len of
        Inl reason \<Rightarrow> Inl reason
      | Inr display_name \<Rightarrow>
     (case validate_hello_string (ch_game_build h) ''game build'' False max_len of
        Inl reason \<Rightarrow> Inl reason
      | Inr _ \<Rightarrow>
     (case validate_hello_string (ch_mod_version h) ''mod version'' False max_len of
        Inl reason \<Rightarrow> Inl reason
      | Inr _ \<Rightarrow> Inr (the token, case display_name of Some n \<Rightarrow> n | None \<Rightarrow> ''sailor'')))))))"

text \<open>The session a hello opens, before it has a generation.\<close>

definition new_session :: "u64 \<Rightarrow> string \<Rightarrow> string \<Rightarrow> subscription \<Rightarrow> cell \<Rightarrow> session" where
  "new_session pid identity name sub origin =
     \<lparr>ss_generation = 0, ss_player_id = pid, ss_identity_hash = identity, ss_display_name = name,
      ss_aboard_boat = 0, ss_pos = (0, 0, 0), ss_rot = (0, 0, 0, F32_ONE), ss_vel = (0, 0, 0), ss_t_ms = 0,
      ss_sub = sub, ss_cell = Some origin, ss_dirty = True, ss_snapshot_cursor = None, ss_snapshot_remaining = 0,
      ss_snapshot_last_visit_tick = 0, ss_published_cells = {||}, ss_hydration_cells = {||},
      ss_hydration_cursor = None, ss_active_hydration = None\<rparr>"

text \<open>Dropping the session the identity has on another peer.\<close>

definition evict_prior :: "nat \<Rightarrow> u64 \<Rightarrow> server \<Rightarrow> server \<times> (srv_error + unit)" where
  "evict_prior peer pid s =
     (case fmlookup (sv_player_peers s) pid of
        None \<Rightarrow> (s, Inr ())
      | Some pp \<Rightarrow>
          if pp = peer then (s, Inr ())
          else
            let (h, gone) = (if peer_addr pp (sv_host s) \<noteq> None then host_disconnect pp (sv_host s) else (sv_host s, True));
                s1 = s\<lparr>sv_host := h\<rparr>
            in if \<not> gone then (s1, Inl EvictFailed)
               else let s2 = fst (unregister_session pp s1)
                    in (s2\<lparr>sv_hello_limiter := limiter_clear pp (sv_hello_limiter s2)\<rparr>, Inr ()))"

definition open_session ::
  "flatbuffers \<Rightarrow> readings \<Rightarrow> nat \<Rightarrow> u64 \<Rightarrow> string \<Rightarrow> string \<Rightarrow> int \<Rightarrow> server \<Rightarrow> server \<times> (srv_error + unit)" where
  "open_session fb rd peer pid identity name gold s =
     (let origin = grid_cell_of (world_grid (sv_world s)) 0 0;
          (sub, aoi) = recenter sorted_list_of_fset origin (the (subscription_new (aoi_radius_i32 (sv_cfg s))));
          s1 = s\<lparr>sv_world := fst (place_in_cell pid origin (sv_world s))\<rparr>
      in case register_session peer (new_session pid identity name sub origin) s1 of
           (s2, Inl e) \<Rightarrow> (s2, Inl e)
         | (s2, Inr _) \<Rightarrow> (emit_aoi peer aoi (send_accepted_hello fb rd peer pid gold s2), Inr ()))"

text \<open>Keeping the identity index in step with the table.\<close>

definition index_identity :: "int \<Rightarrow> string \<Rightarrow> u64 option \<Rightarrow> u64 \<Rightarrow> server \<Rightarrow> server \<times> (srv_error + unit)" where
  "index_identity adm identity known pid s =
     (case known of
        Some expected \<Rightarrow> if pid \<noteq> expected then (s, Inl IdentityIndexDisagrees) else (s, Inr ())
      | None \<Rightarrow>
          if fmlen (sv_identity_players s) \<ge> MAX_PLAYER_ROWS then (s, Inl IdentityCeiling)
          else (s\<lparr>sv_identity_players := fmupd identity pid (sv_identity_players s),
                  sv_reconnect_limiter := fst (bounded_allow pid adm (sv_reconnect_limiter s))\<rparr>, Inr ()))"

definition admit_hello ::
  "flatbuffers \<Rightarrow> readings \<Rightarrow> nat \<Rightarrow> int \<Rightarrow> string \<Rightarrow> string \<Rightarrow> u64 option \<Rightarrow> server \<Rightarrow> server \<times> (srv_error + unit)" where
  "admit_hello fb rd peer adm identity name known s =
     (case admit_player_by_token identity name (rd_persist rd) (max_player_rows_u32 (sv_cfg s)) (sv_db s) of
        (d, Inl e) \<Rightarrow> (s\<lparr>sv_db := d\<rparr>, Inl (SqlFailed e))
      | (d, Inr CapacityReached) \<Rightarrow>
          (reject_hello fb rd peer ''server player capacity reached'' (s\<lparr>sv_db := d\<rparr>), Inr ())
      | (d, Inr (Admitted row)) \<Rightarrow>
          if pr_id row < 0 then (s\<lparr>sv_db := d\<rparr>, Inl NegativePlayerId)
          else
            let pid = word_of_int (pr_id row) in
            (case index_identity adm identity known pid (s\<lparr>sv_db := d\<rparr>) of
               (s1, Inl e) \<Rightarrow> (s1, Inl e)
             | (s1, Inr _) \<Rightarrow>
                 (case evict_prior peer pid s1 of
                    (s2, Inl e) \<Rightarrow> (s2, Inl e)
                  | (s2, Inr _) \<Rightarrow> open_session fb rd peer pid identity name (pr_gold row) s2)))"

definition repeat_hello :: "flatbuffers \<Rightarrow> readings \<Rightarrow> nat \<Rightarrow> string \<Rightarrow> session \<Rightarrow> server \<Rightarrow> server \<times> (srv_error + unit)" where
  "repeat_hello fb rd peer identity x s =
     (if ss_identity_hash x \<noteq> identity then
        (reject_hello fb rd peer ''identity change requires a new connection'' s, Inr ())
      else
        (case player_balance (i64_of_u64 (ss_player_id x)) (sv_db s) of
           (d, Inl e) \<Rightarrow> (s\<lparr>sv_db := d\<rparr>, Inl (SqlFailed e))
         | (d, Inr balance) \<Rightarrow>
             (send_accepted_hello fb rd peer (ss_player_id x) balance (s\<lparr>sv_db := d\<rparr>), Inr ())))"

definition throttle_hello ::
  "flatbuffers \<Rightarrow> readings \<Rightarrow> nat \<Rightarrow> int \<Rightarrow> string \<Rightarrow> string \<Rightarrow> ip_addr \<Rightarrow> server \<Rightarrow> server \<times> (srv_error + unit)" where
  "throttle_hello fb rd peer adm identity name ip s =
     (case bounded_allow ip adm (sv_source_session_limiter s) of
        (l, ok) \<Rightarrow>
          let s1 = s\<lparr>sv_source_session_limiter := l\<rparr> in
          if \<not> ok then (reject_hello fb rd peer ''server busy; retry'' s1, Inr ())
          else
            (case fmlookup (sv_identity_players s1) identity of
               Some pid \<Rightarrow>
                 (case bounded_allow pid adm (sv_reconnect_limiter s1) of
                    (l2, ok2) \<Rightarrow>
                      let s2 = s1\<lparr>sv_reconnect_limiter := l2\<rparr> in
                      if \<not> ok2 then (reject_hello fb rd peer ''server busy; retry'' s2, Inr ())
                      else admit_hello fb rd peer adm identity name (Some pid) s2)
             | None \<Rightarrow>
                 (case global_allow adm (sv_new_session_limiter s1) of
                    (l2, ok2) \<Rightarrow>
                      let s2 = s1\<lparr>sv_new_session_limiter := l2\<rparr> in
                      if \<not> ok2 then (reject_hello fb rd peer ''server busy; retry'' s2, Inr ())
                      else admit_hello fb rd peer adm identity name None s2)))"

definition on_hello_at :: "flatbuffers \<Rightarrow> readings \<Rightarrow> nat \<Rightarrow> client_hello \<Rightarrow> int \<Rightarrow> server \<Rightarrow> server \<times> (srv_error + unit)" where
  "on_hello_at fb rd peer hello adm s =
     (case limiter_allow peer adm (sv_hello_limiter s) of
        (l, ok) \<Rightarrow>
          let s1 = s\<lparr>sv_hello_limiter := l\<rparr> in
          if \<not> ok then (s1, Inr ())
          else
            (case check_hello hello (max_wire_string_len_usize (sv_cfg s1)) of
               Inl reason \<Rightarrow> (reject_hello fb rd peer reason s1, Inr ())
             | Inr (token, name) \<Rightarrow>
                 let identity = token_hash token in
                 (case fmlookup (sv_sessions s1) peer of
                    Some x \<Rightarrow> repeat_hello fb rd peer identity x s1
                  | None \<Rightarrow>
                      (case peer_addr peer (sv_host s1) of
                         None \<Rightarrow> (s1, Inr ())
                       | Some a \<Rightarrow> throttle_hello fb rd peer adm identity name (addr_ip a) s1))))"

section \<open>Client state\<close>

definition move_session :: "motion \<Rightarrow> client_state \<Rightarrow> cell \<Rightarrow> session \<Rightarrow> session" where
  "move_session m cs c x =
     x\<lparr>ss_pos := m_pos m, ss_rot := m_rot m, ss_vel := m_vel m, ss_aboard_boat := cs_aboard_boat cs,
       ss_t_ms := cs_t_ms cs, ss_dirty := True, ss_sub := fst (recenter sorted_list_of_fset c (ss_sub x)),
       ss_cell := Some c\<rparr>"

definition on_client_state :: "nat \<Rightarrow> client_state \<Rightarrow> int \<Rightarrow> server \<Rightarrow> server" where
  "on_client_state peer cs now s =
     (case fmlookup (sv_sessions s) peer of
        None \<Rightarrow> s
      | Some x \<Rightarrow>
          let pid = ss_player_id x;
              (l, ok) = limiter_allow pid now (sv_client_state_limiter s);
              s1 = s\<lparr>sv_client_state_limiter := l\<rparr>
          in if \<not> ok then s1
             else
               (case sanitize_motion (vec3_of (cs_pos cs)) (quat_of (cs_rot cs)) (vec3_of (cs_vel cs)) of
                  None \<Rightarrow> s1
                | Some m \<Rightarrow>
                    let px = fst (m_pos m); pz = snd (snd (m_pos m));
                        w = fst (world_place pid px pz (sv_world s1));
                        c = (case cell_of_entity pid w of Some c \<Rightarrow> c | None \<Rightarrow> grid_cell_of (world_grid w) px pz);
                        aoi = snd (recenter sorted_list_of_fset c (ss_sub x));
                        s2 = upd_session peer (move_session m cs c) (s1\<lparr>sv_world := w\<rparr>)
                    in emit_aoi peer aoi (s2\<lparr>sv_dirty_players := finsert pid (sv_dirty_players s2)\<rparr>)))"

section \<open>Economy\<close>

text \<open>A reply with the next sequence number.\<close>

definition reply :: "(u32 \<Rightarrow> bytes) \<Rightarrow> nat \<Rightarrow> server \<Rightarrow> server" where
  "reply msg peer s = (let (s1, sq) = next_seq s in srv_send peer (msg sq) s1)"

definition econ_apply :: "flatbuffers \<Rightarrow> readings \<Rightarrow> nat \<Rightarrow> u64 \<Rightarrow> txn \<Rightarrow> server \<Rightarrow> server \<times> (srv_error + unit)" where
  "econ_apply fb rd peer pid t s =
     (case db_ledger_apply (rd_persist rd) pid t (sv_db s) of
        (d, Inl e) \<Rightarrow> (s\<lparr>sv_db := d\<rparr>, Inl (SqlFailed e))
      | (d, Inr ack) \<Rightarrow> (reply (\<lambda>sq. ledger_ack_msg fb sq ack) peer (s\<lparr>sv_db := d\<rparr>), Inr ()))"

definition on_econ :: "flatbuffers \<Rightarrow> readings \<Rightarrow> nat \<Rightarrow> econ_txn \<Rightarrow> int \<Rightarrow> server \<Rightarrow> server \<times> (srv_error + unit)" where
  "on_econ fb rd peer m adm s =
     (case fmlookup (sv_sessions s) peer of
        None \<Rightarrow> (s, Inr ())
      | Some x \<Rightarrow>
          let pid = ss_player_id x; note = (case et_note m of Some n \<Rightarrow> n | None \<Rightarrow> '''') in
          if \<not> string_within_limit note (max_wire_string_len_usize (sv_cfg s)) then (s, Inr ())
          else
            (case lookup_txn (i64_of_u64 (et_txn_id m)) (sv_db s) of
               (d, Inl e) \<Rightarrow> (s\<lparr>sv_db := d\<rparr>, Inl (SqlFailed e))
             | (d, Inr prior) \<Rightarrow>
                 let s1 = s\<lparr>sv_db := d\<rparr>;
                     (l, ok) = (if prior \<noteq> None then (sv_econ_limiter s1, True) else limiter_allow pid adm (sv_econ_limiter s1));
                     s2 = s1\<lparr>sv_econ_limiter := l\<rparr>
                 in if \<not> ok then (s2, Inr ())
                    else econ_apply fb rd peer pid
                           \<lparr>txn_id = et_txn_id m, amount_gold = et_amount_gold m, txn_kind = et_kind m, txn_note = note\<rparr> s2))"

definition trade_of :: "market_trade_request \<Rightarrow> trade" where
  "trade_of m =
     \<lparr>trade_txn_id = mt_txn_id m, trade_port_id = mt_port_id m, trade_item_id = mt_item_id m, trade_qty = mt_qty m,
      trade_unit_price = mt_unit_price m\<rparr>"

definition trade_limited :: "flatbuffers \<Rightarrow> nat \<Rightarrow> trade \<Rightarrow> server \<Rightarrow> server \<times> (srv_error + unit)" where
  "trade_limited fb peer t s =
     (case market_state (trade_port_id t) (trade_item_id t) (sv_db s) of
        (d, Inl e) \<Rightarrow> (s\<lparr>sv_db := d\<rparr>, Inl (SqlFailed e))
      | (d, Inr st) \<Rightarrow>
          let (stock, price) = (case st of Some x \<Rightarrow> x | None \<Rightarrow> (0, 0));
              ack = \<lparr>mack_txn_id = trade_txn_id t, mack_accepted = False, mack_port_id = trade_port_id t,
                     mack_item_id = trade_item_id t, mack_stock = stock, mack_price = price, mack_reason = ''rate limited''\<rparr>
          in (reply (\<lambda>sq. market_state_ack fb sq ack) peer (s\<lparr>sv_db := d\<rparr>), Inr ()))"

definition trade_apply :: "flatbuffers \<Rightarrow> readings \<Rightarrow> nat \<Rightarrow> trade \<Rightarrow> server \<Rightarrow> server \<times> (srv_error + unit)" where
  "trade_apply fb rd peer t s =
     (case db_market_apply (rd_persist rd) t (sv_db s) of
        (d, Inl e) \<Rightarrow> (s\<lparr>sv_db := d\<rparr>, Inl (SqlFailed e))
      | (d, Inr ack) \<Rightarrow> (reply (\<lambda>sq. market_state_ack fb sq ack) peer (s\<lparr>sv_db := d\<rparr>), Inr ()))"

definition on_trade :: "flatbuffers \<Rightarrow> readings \<Rightarrow> nat \<Rightarrow> market_trade_request \<Rightarrow> int \<Rightarrow> server \<Rightarrow> server \<times> (srv_error + unit)" where
  "on_trade fb rd peer m adm s =
     (case fmlookup (sv_sessions s) peer of
        None \<Rightarrow> (s, Inr ())
      | Some x \<Rightarrow>
          (case lookup_trade (mt_txn_id m) (sv_db s) of
             (d, Inl e) \<Rightarrow> (s\<lparr>sv_db := d\<rparr>, Inl (SqlFailed e))
           | (d, Inr prior) \<Rightarrow>
               let s1 = s\<lparr>sv_db := d\<rparr>;
                   (l, ok) = (if prior \<noteq> None then (sv_trade_limiter s1, True)
                              else limiter_allow (ss_player_id x) adm (sv_trade_limiter s1));
                   s2 = s1\<lparr>sv_trade_limiter := l\<rparr>
               in if \<not> ok then trade_limited fb peer (trade_of m) s2
                  else trade_apply fb rd peer (trade_of m) s2))"

section \<open>Mooring\<close>

definition moor_row :: "int \<Rightarrow> u64 \<Rightarrow> u64 \<Rightarrow> cell \<Rightarrow> motion \<Rightarrow> string \<Rightarrow> mooring_row" where
  "moor_row created boat owner c m name =
     \<lparr>mr_boat_id = i64_of_u64 boat, mr_owner = i64_of_u64 owner, mr_cell_x = cx c, mr_cell_z = cz c,
      mr_pos = m_pos m, mr_rot = m_rot m, mr_name = name, mr_created_at = created\<rparr>"

definition moor_save ::
  "flatbuffers \<Rightarrow> (f32 \<Rightarrow> f32 option) \<Rightarrow> readings \<Rightarrow> nat \<Rightarrow> u64 \<Rightarrow> u64 \<Rightarrow> motion \<Rightarrow> string \<Rightarrow> server \<Rightarrow> server \<times> (srv_error + unit)" where
  "moor_save fb col rd peer boat owner m name s =
     (let c = grid_cell_of (world_grid (sv_world s)) (fst (m_pos m)) (snd (snd (m_pos m)));
          created = rd_persist rd
      in case upsert_mooring col (moor_row created boat owner c m name) (sv_db s) of
           (d, Inl e) \<Rightarrow> (s\<lparr>sv_db := d\<rparr>, Inl (SqlFailed e))
         | (d, Inr _) \<Rightarrow>
             let snap = \<lparr>ms_boat_id = boat, ms_owner = owner, ms_cell = (cx c, cz c), ms_pos = m_pos m,
                         ms_rot = m_rot m, ms_name = name, ms_created_at = u64_of_i64 created\<rparr>
             in (reply (\<lambda>sq. moor_ack fb sq True (Some snap) '''') peer (s\<lparr>sv_db := d\<rparr>), Inr ()))"

definition on_moor ::
  "flatbuffers \<Rightarrow> (f32 \<Rightarrow> f32 option) \<Rightarrow> readings \<Rightarrow> nat \<Rightarrow> moor_request \<Rightarrow> int \<Rightarrow> server \<Rightarrow> server \<times> (srv_error + unit)" where
  "on_moor fb col rd peer req adm s =
     (case fmlookup (sv_sessions s) peer of
        None \<Rightarrow> (s, Inr ())
      | Some x \<Rightarrow>
          let owner = ss_player_id x;
              boat = (if ss_aboard_boat x \<noteq> 0 then ss_aboard_boat x else owner)
          in (case sanitize_motion (vec3_of (mq_pos req)) (quat_of (mq_rot req)) (0, 0, 0) of
                None \<Rightarrow> (s, Inr ())
              | Some m \<Rightarrow>
                  let name = (case mq_name req of Some n \<Rightarrow> n | None \<Rightarrow> ''mooring'');
                      limit = min (max_wire_string_len_usize (sv_cfg s)) MAX_MOORING_NAME_BYTES
                  in if \<not> string_within_limit name limit then
                       let (s1, sq) = next_seq s
                       in (fst (send_bounded peer (moor_ack fb sq False None MOOR_NAME_TOO_LONG_REASON) s1), Inr ())
                     else
                       let (l, ok) = limiter_allow owner adm (sv_moor_limiter s);
                           s1 = s\<lparr>sv_moor_limiter := l\<rparr>
                       in if \<not> ok then (s1, Inr ()) else moor_save fb col rd peer boat owner m name s1))"

section \<open>Chat\<close>

definition queue_chat :: "bytes \<Rightarrow> cell \<Rightarrow> server \<Rightarrow> server" where
  "queue_chat b c s =
     (if length b > MAX_PAYLOAD then s
      else
        (case capture_fanout_recipients s of
           (s1, None) \<Rightarrow> s1
         | (s1, Some a) \<Rightarrow>
             s1\<lparr>sv_chat_fanout_bytes := sv_chat_fanout_bytes s1 + length b,
                sv_chat_fanout := sv_chat_fanout s1
                  @ [\<lparr>fj_bytes = b, fj_sender_cell = Some c, fj_recipients = a, fj_next_recipient = 0\<rparr>]\<rparr>))"

definition chat_queue_full :: "server \<Rightarrow> bool" where
  "chat_queue_full s \<longleftrightarrow>
     length (sv_chat_fanout s) \<ge> CHAT_QUEUE_ITEMS \<or> sv_chat_fanout_bytes s > CHAT_QUEUE_BYTES - MAX_PAYLOAD"

definition on_chat :: "flatbuffers \<Rightarrow> readings \<Rightarrow> nat \<Rightarrow> chat_send \<Rightarrow> int \<Rightarrow> server \<Rightarrow> server" where
  "on_chat fb rd peer chat now s =
     (case fmlookup (sv_sessions s) peer of
        None \<Rightarrow> s
      | Some x \<Rightarrow>
     (case ss_cell x of
        None \<Rightarrow> s
      | Some c \<Rightarrow>
          let txt = (case cd_text chat of Some t \<Rightarrow> t | None \<Rightarrow> '''') in
          if \<not> string_within_limit txt (max_wire_string_len_usize (sv_cfg s)) \<or> chat_queue_full s then s
          else
            let (l, ok) = limiter_allow (ss_player_id x) now (sv_chat_limiter s);
                s1 = s\<lparr>sv_chat_limiter := l\<rparr>
            in if \<not> ok then s1
               else
                 let (s2, sq) = next_seq s1
                 in queue_chat (chat_broadcast fb sq (ss_player_id x) (ss_display_name x) txt (cd_channel chat)
                                  (uptime_ms (rd_uptime rd) s1)) c s2))"

section \<open>Disconnects and dispatch\<close>

definition clear_player_limiters :: "u64 \<Rightarrow> server \<Rightarrow> server" where
  "clear_player_limiters pid s =
     s\<lparr>sv_trade_limiter := limiter_clear pid (sv_trade_limiter s),
       sv_client_state_limiter := limiter_clear pid (sv_client_state_limiter s),
       sv_chat_limiter := limiter_clear pid (sv_chat_limiter s),
       sv_econ_limiter := limiter_clear pid (sv_econ_limiter s),
       sv_moor_limiter := limiter_clear pid (sv_moor_limiter s)\<rparr>"

definition on_disconnect :: "readings \<Rightarrow> nat \<Rightarrow> server \<Rightarrow> server \<times> (srv_error + unit)" where
  "on_disconnect rd peer s =
     (let s0 = s\<lparr>sv_hello_limiter := limiter_clear peer (sv_hello_limiter s)\<rparr> in
      case unregister_session peer s0 of
        (s1, None) \<Rightarrow> (s1, Inr ())
      | (s1, Some x) \<Rightarrow>
          let pid = ss_player_id x;
              s2 = clear_player_limiters pid (s1\<lparr>sv_world := world_remove pid (sv_world s1)\<rparr>);
              s3 = s2\<lparr>sv_flush_players := finsert pid (sv_flush_players s2)\<rparr>
          in case touch_last_seen_for_flush pid (rd_persist rd) s3 of
               (s4, Inl e) \<Rightarrow> (s4\<lparr>sv_flush_paused := True\<rparr>, Inl (SqlFailed e))
             | (s4, Inr _) \<Rightarrow>
                 (s4\<lparr>sv_flush_players := sv_flush_players s4 |-| {|pid|},
                     sv_dirty_players := sv_dirty_players s4 |-| {|pid|}\<rparr>, Inr ()))"

definition handle_data_at ::
  "flatbuffers \<Rightarrow> (f32 \<Rightarrow> f32 option) \<Rightarrow> readings \<Rightarrow> nat \<Rightarrow> bytes \<Rightarrow> int \<Rightarrow> server \<Rightarrow> server \<times> (srv_error + unit)" where
  "handle_data_at fb col rd peer b adm s =
     (case decode_envelope fb b of
        None \<Rightarrow> (s, Inr ())
      | Some e \<Rightarrow>
          (case env_payload e of
             Some (PClientHello h) \<Rightarrow> on_hello_at fb rd peer h adm s
           | Some (PClientState cs) \<Rightarrow> (on_client_state peer cs adm s, Inr ())
           | Some (PEconTxn t) \<Rightarrow> on_econ fb rd peer t adm s
           | Some (PMarketTradeRequest r) \<Rightarrow> on_trade fb rd peer r adm s
           | Some (PMoorRequest m) \<Rightarrow> on_moor fb col rd peer m adm s
           | Some (PChatSend c) \<Rightarrow> (on_chat fb rd peer c adm s, Inr ())
           | _ \<Rightarrow> (s, Inr ())))"

definition handle_data ::
  "flatbuffers \<Rightarrow> (f32 \<Rightarrow> f32 option) \<Rightarrow> readings \<Rightarrow> nat \<Rightarrow> bytes \<Rightarrow> server \<Rightarrow> server \<times> (srv_error + unit)" where
  "handle_data fb col rd peer b s = handle_data_at fb col rd peer b (admission_ms (rd_admission rd) s) s"

fun handle_event ::
  "flatbuffers \<Rightarrow> (f32 \<Rightarrow> f32 option) \<Rightarrow> readings \<Rightarrow> event \<Rightarrow> server \<Rightarrow> server \<times> (srv_error + unit)" where
  "handle_event fb col rd (Connected peer) s = (s, Inr ())"
| "handle_event fb col rd (Data peer b) s = handle_data fb col rd peer b s"
| "handle_event fb col rd (Disconnected peer reason) s = on_disconnect rd peer s"

section \<open>The tick\<close>

text \<open>Errors of events are logged; each event has its own clock readings.\<close>

fun handle_events ::
  "flatbuffers \<Rightarrow> (f32 \<Rightarrow> f32 option) \<Rightarrow> (nat \<Rightarrow> readings) \<Rightarrow> nat \<Rightarrow> event list \<Rightarrow> server \<Rightarrow> server" where
  "handle_events fb col rds k [] s = s"
| "handle_events fb col rds k (e # es) s = handle_events fb col rds (Suc k) es (fst (handle_event fb col (rds k) e s))"

text \<open>What the environment supplies to one turn of the loop.\<close>

record tick_env =
  te_frame_start :: instant
  te_pong_wall :: "nat \<Rightarrow> nat option"
  te_readings :: "nat \<Rightarrow> readings"
  te_flush_ms :: int
  te_clock_ms :: int

record run_state =
  rs_server :: server
  rs_tick :: u64
  rs_last_flush :: instant

definition tick_events :: "flatbuffers \<Rightarrow> (f32 \<Rightarrow> f32 option) \<Rightarrow> tick_env \<Rightarrow> server \<Rightarrow> server" where
  "tick_events fb col te s =
     (case host_poll (te_frame_start te) (te_pong_wall te) (sv_host s) of
        (h, events) \<Rightarrow> handle_events fb col (te_readings te) 0 events (s\<lparr>sv_host := h\<rparr>))"

definition tick_work :: "flatbuffers \<Rightarrow> tick_env \<Rightarrow> server \<Rightarrow> server" where
  "tick_work fb te s =
     (let s1 = fst (process_aoi_work fb s);
          s2 = fst (broadcast_snapshots fb s1);
          s3 = fst (process_fanout_work s2)
      in fst (process_dirty_flush_at (te_flush_ms te) s3))"

definition run_tick :: "flatbuffers \<Rightarrow> (f32 \<Rightarrow> f32 option) \<Rightarrow> tick_env \<Rightarrow> run_state \<Rightarrow> run_state" where
  "run_tick fb col te r =
     (let s1 = tick_work fb te (tick_events fb col te (rs_server r));
          s2 = (if unat (rs_tick r) mod ticks_per_clock_broadcast (sv_cfg s1) = 0
                then broadcast_clock fb (te_clock_ms te) s1 else s1);
          due = (te_frame_start te - rs_last_flush r \<ge> FLUSH_INTERVAL)
      in \<lparr>rs_server = (if due then begin_dirty_flush s2 else s2), rs_tick = rs_tick r + 1,
          rs_last_flush = (if due then te_frame_start te else rs_last_flush r)\<rparr>)"

text \<open>The address to announce, the loop over the ticks for which \<open>running\<close> is still set, then the shutdown.\<close>

definition server_run ::
  "flatbuffers \<Rightarrow> (f32 \<Rightarrow> f32 option) \<Rightarrow> tick_env list \<Rightarrow> instant \<Rightarrow> int \<Rightarrow> socket_addr list \<Rightarrow> server
   \<Rightarrow> server \<times> (srv_error + unit)" where
  "server_run fb col ticks start stop_ms order s =
     (case local_addr (sv_host s) of
        Inl e \<Rightarrow> (s, Inl (LocalAddrFailed e))
      | Inr addr \<Rightarrow>
          let r = fold (run_tick fb col) ticks \<lparr>rs_server = s, rs_tick = 0, rs_last_flush = start\<rparr>;
              (s1, flushed) = flush_all stop_ms (rs_server r)
          in (s1\<lparr>sv_host := fst (host_shutdown order (sv_host s1))\<rparr>, flushed))"

end
