(* ===== verification/Server_Inv.thy ===== *)
theory Server_Inv
  imports Server_Handlers
begin

text \<open>
  The invariant of the server state and the lemmas by which every operation keeps it. It has one
  part per concern, each a predicate of the fields it speaks about, so that an operation only
  meets the parts whose fields it writes: the session indexes, the session generations, the fanout
  queues with their audiences, the spatial index, the dirty marks, the identity index against the
  player table, and the shape of each session.
\<close>

section \<open>Updating one session\<close>

definition fmadj :: "'k \<Rightarrow> ('v \<Rightarrow> 'v) \<Rightarrow> ('k, 'v) fmap \<Rightarrow> ('k, 'v) fmap" where
  "fmadj k f m = (case fmlookup m k of None \<Rightarrow> m | Some v \<Rightarrow> fmupd k (f v) m)"

lemma fmlookup_adj [simp]: "fmlookup (fmadj k f m) j = (if j = k then map_option f (fmlookup m k) else fmlookup m j)"
  by (simp add: fmadj_def split: option.split)

lemma fmdom_adj [simp]: "fmdom (fmadj k f m) = fmdom m"
  by (rule fset_eqI) (simp add: fmlookup_dom_iff)

lemma upd_session_alt: "upd_session p f s = s\<lparr>sv_sessions := fmadj p f (sv_sessions s)\<rparr>"
  by (simp add: upd_session_def fmadj_def split: option.split)

lemmas srv_simps = upd_session_alt upd_hydration_def srv_send_def next_seq_def Let_def

section \<open>Parts of the invariant\<close>

definition index_inv ::
  "(nat, session) fmap \<Rightarrow> (u64, nat) fmap \<Rightarrow> u64 fset \<Rightarrow> nat fset \<Rightarrow> nat fset \<Rightarrow> bool" where
  "index_inv ses pp order snap aoi \<longleftrightarrow>
     (\<forall>p x. fmlookup ses p = Some x \<longrightarrow> fmlookup pp (ss_player_id x) = Some p)
     \<and> (\<forall>pid p. fmlookup pp pid = Some p \<longrightarrow> (\<exists>x. fmlookup ses p = Some x \<and> ss_player_id x = pid))
     \<and> order = fmdom pp \<and> snap = fmdom ses \<and> aoi |\<subseteq>| fmdom ses"

definition gen_inv :: "(nat, session) fmap \<Rightarrow> nat \<Rightarrow> audience list \<Rightarrow> bool" where
  "gen_inv ses g_top auds \<longleftrightarrow>
     (\<forall>p x. fmlookup ses p = Some x \<longrightarrow> 1 \<le> ss_generation x \<and> ss_generation x \<le> g_top)
     \<and> (\<forall>p q x y. fmlookup ses p = Some x \<longrightarrow> fmlookup ses q = Some y \<longrightarrow> ss_generation x = ss_generation y \<longrightarrow> p = q)
     \<and> g_top \<le> u64_max
     \<and> (\<forall>a \<in> set auds. \<forall>r \<in> set (au_items a). snd r \<le> g_top)"

definition job_inv :: "fanout_job \<Rightarrow> bool" where
  "job_inv j \<longleftrightarrow> fj_next_recipient j \<le> length (au_items (fj_recipients j))"

definition arcs_inv :: "audience list \<Rightarrow> nat \<Rightarrow> bool" where
  "arcs_inv auds fresh \<longleftrightarrow>
     (\<forall>a \<in> set auds. au_ptr a < fresh \<and> (\<forall>b \<in> set auds. au_ptr a = au_ptr b \<longrightarrow> a = b))"

definition queue_inv :: "fanout_job list \<Rightarrow> nat \<Rightarrow> fanout_job option \<Rightarrow> bool" where
  "queue_inv chat n clk \<longleftrightarrow>
     length chat \<le> CHAT_QUEUE_ITEMS \<and> n = sum_list (map (\<lambda>j. length (fj_bytes j)) chat)
     \<and> (\<forall>j \<in> set chat. length (fj_bytes j) \<le> MAX_PAYLOAD \<and> job_inv j)
     \<and> (\<forall>j. clk = Some j \<longrightarrow> job_inv j)"

definition fanout_inv :: "server \<Rightarrow> bool" where
  "fanout_inv s \<longleftrightarrow>
     queue_inv (sv_chat_fanout s) (sv_chat_fanout_bytes s) (sv_clock_fanout s)
     \<and> arcs_inv (live_audiences s) (sv_next_arc s)
     \<and> retained_fanout_audience_entries s \<le> FANOUT_QUEUE_RECIPIENTS
     \<and> (\<forall>a. sv_fanout_audience_cache s = Some a \<longrightarrow> au_items a = current_audience s)"

definition view_inv :: "(nat, session) fmap \<Rightarrow> (u64, nat) fmap \<Rightarrow> world \<Rightarrow> bool" where
  "view_inv ses pp w \<longleftrightarrow>
     world_inv w
     \<and> (\<forall>pid. cell_of_entity pid w = Option.bind (fmlookup pp pid) (\<lambda>p. Option.bind (fmlookup ses p) ss_cell))"

definition dirty_inv :: "(nat, session) fmap \<Rightarrow> u64 fset \<Rightarrow> u64 fset \<Rightarrow> bool" where
  "dirty_inv ses dirty flush \<longleftrightarrow>
     (\<forall>p x. fmlookup ses p = Some x \<longrightarrow> ss_dirty x \<longrightarrow> ss_player_id x |\<in>| dirty |\<union>| flush)"

definition hydration_inv :: "session \<Rightarrow> bool" where
  "hydration_inv x \<longleftrightarrow>
     ss_hydration_cells x |\<subseteq>| ss_published_cells x
     \<and> (\<forall>a. ss_active_hydration x = Some a \<longrightarrow> hy_cell a |\<in>| ss_published_cells x \<and> hy_cell a |\<notin>| ss_hydration_cells x)"

definition session_inv :: "int \<Rightarrow> session \<Rightarrow> bool" where
  "session_inv radius x \<longleftrightarrow>
     (\<exists>c. ss_cell x = Some c
        \<and> ss_sub x = \<lparr>sub_radius = radius, sub_center = Some c, sub_cells = fset_of_list (cells_in_radius c radius)\<rparr>)
     \<and> hydration_inv x"

definition sessions_inv :: "config \<Rightarrow> (nat, session) fmap \<Rightarrow> bool" where
  "sessions_inv cfg ses \<longleftrightarrow> (\<forall>p x. fmlookup ses p = Some x \<longrightarrow> session_inv (aoi_radius_i32 cfg) x)"

text \<open>The identity index is the token column of the player table, and every session's player is in it.\<close>

definition identity_inv :: "(nat, session) fmap \<Rightarrow> (string, u64) fmap \<Rightarrow> db \<Rightarrow> bool" where
  "identity_inv ses ids d \<longleftrightarrow>
     db_inv d
     \<and> (\<forall>h pid. fmlookup ids h = Some pid \<longleftrightarrow> (\<exists>r. fmlookup (db_players d) (i64_of_u64 pid) = Some r \<and> pr_token_hash r = h))
     \<and> (\<forall>p x. fmlookup ses p = Some x \<longrightarrow> fmlookup ids (ss_identity_hash x) = Some (ss_player_id x))"

text \<open>Everything but the spatial index, which is out of step while a session is opened or closed.\<close>

definition core_inv :: "server \<Rightarrow> bool" where
  "core_inv s \<longleftrightarrow>
     validate (sv_cfg s) = Inr () \<and> host_inv (sv_host s)
     \<and> index_inv (sv_sessions s) (sv_player_peers s) (sv_player_order s) (sv_snapshot_recipients s) (sv_aoi_recipients s)
     \<and> gen_inv (sv_sessions s) (sv_next_session_generation s) (live_audiences s)
     \<and> fanout_inv s
     \<and> dirty_inv (sv_sessions s) (sv_dirty_players s) (sv_flush_players s)
     \<and> sessions_inv (sv_cfg s) (sv_sessions s)
     \<and> identity_inv (sv_sessions s) (sv_identity_players s) (sv_db s)"

definition srv_inv :: "server \<Rightarrow> bool" where
  "srv_inv s \<longleftrightarrow> core_inv s \<and> view_inv (sv_sessions s) (sv_player_peers s) (sv_world s)"

lemma core_invD:
  assumes "core_inv s"
  shows "validate (sv_cfg s) = Inr ()" "host_inv (sv_host s)"
    "index_inv (sv_sessions s) (sv_player_peers s) (sv_player_order s) (sv_snapshot_recipients s) (sv_aoi_recipients s)"
    "gen_inv (sv_sessions s) (sv_next_session_generation s) (live_audiences s)" "fanout_inv s"
    "dirty_inv (sv_sessions s) (sv_dirty_players s) (sv_flush_players s)"
    "sessions_inv (sv_cfg s) (sv_sessions s)" "identity_inv (sv_sessions s) (sv_identity_players s) (sv_db s)"
  using assms by (simp_all add: core_inv_def)

lemma srv_invD:
  assumes "srv_inv s"
  shows "core_inv s" "view_inv (sv_sessions s) (sv_player_peers s) (sv_world s)"
  using assms by (simp_all add: srv_inv_def)

text \<open>The audiences and the queue bounds read five fields only.\<close>

lemmas fanout_defs = fanout_inv_def live_audiences_def current_audience_def retained_fanout_audience_entries_def

lemma index_sessionD: "index_inv ses pp order snap aoi \<Longrightarrow> fmlookup ses p = Some x \<Longrightarrow> fmlookup pp (ss_player_id x) = Some p"
  by (simp add: index_inv_def)

lemma index_peerD: "index_inv ses pp order snap aoi \<Longrightarrow> fmlookup pp pid = Some p \<Longrightarrow> \<exists>x. fmlookup ses p = Some x \<and> ss_player_id x = pid"
  by (simp add: index_inv_def)

lemma session_by_player_iff:
  assumes "index_inv (sv_sessions s) (sv_player_peers s) order snap aoi"
  shows "session_by_player pid s = Some x \<longleftrightarrow> (\<exists>p. fmlookup (sv_sessions s) p = Some x \<and> ss_player_id x = pid)"
proof
  assume "session_by_player pid s = Some x"
  then show "\<exists>p. fmlookup (sv_sessions s) p = Some x \<and> ss_player_id x = pid"
    by (auto simp: session_by_player_def split: option.splits if_splits)
next
  assume "\<exists>p. fmlookup (sv_sessions s) p = Some x \<and> ss_player_id x = pid"
  then obtain p where p: "fmlookup (sv_sessions s) p = Some x" "ss_player_id x = pid" by blast
  with assms have "fmlookup (sv_player_peers s) pid = Some p" by (auto simp: index_inv_def)
  with p show "session_by_player pid s = Some x" by (simp add: session_by_player_def)
qed

section \<open>Changes that touch no invariant\<close>

text \<open>Fields no part of the invariant reads.\<close>

lemma core_inv_scalar [simp]:
  "core_inv (s\<lparr>sv_seq := q\<rparr>) = core_inv s"
  "core_inv (s\<lparr>sv_snapshot_tick := t\<rparr>) = core_inv s"
  "core_inv (s\<lparr>sv_snapshot_recipient_cursor := c\<rparr>) = core_inv s"
  "core_inv (s\<lparr>sv_aoi_recipient_cursor := c\<rparr>) = core_inv s"
  "core_inv (s\<lparr>sv_flush_paused := b\<rparr>) = core_inv s"
  "core_inv (s\<lparr>sv_fanout_prefer_clock := b\<rparr>) = core_inv s"
  "core_inv (s\<lparr>sv_hello_limiter := hl\<rparr>) = core_inv s"
  "core_inv (s\<lparr>sv_source_session_limiter := sl\<rparr>) = core_inv s"
  "core_inv (s\<lparr>sv_reconnect_limiter := rl\<rparr>) = core_inv s"
  "core_inv (s\<lparr>sv_new_session_limiter := gl\<rparr>) = core_inv s"
  "core_inv (s\<lparr>sv_trade_limiter := kl\<rparr>) = core_inv s"
  "core_inv (s\<lparr>sv_client_state_limiter := kl\<rparr>) = core_inv s"
  "core_inv (s\<lparr>sv_chat_limiter := kl\<rparr>) = core_inv s"
  "core_inv (s\<lparr>sv_econ_limiter := kl\<rparr>) = core_inv s"
  "core_inv (s\<lparr>sv_moor_limiter := kl\<rparr>) = core_inv s"
  by (simp_all add: core_inv_def fanout_defs cong: option.case_cong)

lemma srv_inv_scalar [simp]:
  "srv_inv (s\<lparr>sv_seq := q\<rparr>) = srv_inv s"
  "srv_inv (s\<lparr>sv_snapshot_tick := t\<rparr>) = srv_inv s"
  "srv_inv (s\<lparr>sv_snapshot_recipient_cursor := c\<rparr>) = srv_inv s"
  "srv_inv (s\<lparr>sv_aoi_recipient_cursor := c\<rparr>) = srv_inv s"
  "srv_inv (s\<lparr>sv_flush_paused := b\<rparr>) = srv_inv s"
  "srv_inv (s\<lparr>sv_fanout_prefer_clock := b\<rparr>) = srv_inv s"
  "srv_inv (s\<lparr>sv_hello_limiter := hl\<rparr>) = srv_inv s"
  "srv_inv (s\<lparr>sv_source_session_limiter := sl\<rparr>) = srv_inv s"
  "srv_inv (s\<lparr>sv_reconnect_limiter := rl\<rparr>) = srv_inv s"
  "srv_inv (s\<lparr>sv_new_session_limiter := gl\<rparr>) = srv_inv s"
  "srv_inv (s\<lparr>sv_trade_limiter := kl\<rparr>) = srv_inv s"
  "srv_inv (s\<lparr>sv_client_state_limiter := kl\<rparr>) = srv_inv s"
  "srv_inv (s\<lparr>sv_chat_limiter := kl\<rparr>) = srv_inv s"
  "srv_inv (s\<lparr>sv_econ_limiter := kl\<rparr>) = srv_inv s"
  "srv_inv (s\<lparr>sv_moor_limiter := kl\<rparr>) = srv_inv s"
  by (simp_all add: srv_inv_def)

lemma core_inv_world [simp]: "core_inv (s\<lparr>sv_world := w\<rparr>) = core_inv s"
  by (simp add: core_inv_def fanout_defs cong: option.case_cong)

lemma core_inv_host: "core_inv s \<Longrightarrow> host_inv h \<Longrightarrow> core_inv (s\<lparr>sv_host := h\<rparr>)"
  by (simp add: core_inv_def fanout_defs cong: option.case_cong)

lemma srv_inv_host: "srv_inv s \<Longrightarrow> host_inv h \<Longrightarrow> srv_inv (s\<lparr>sv_host := h\<rparr>)"
  by (simp add: srv_inv_def core_inv_host)

lemma srv_send_inv: "srv_inv s \<Longrightarrow> srv_inv (srv_send p b s)"
  by (simp add: srv_send_def srv_inv_host send_unreliable_frame srv_invD core_invD)

lemma send_bounded_inv: "srv_inv s \<Longrightarrow> srv_inv (fst (send_bounded p b s))"
  by (simp add: send_bounded_def srv_send_inv)

lemma reply_inv: "srv_inv s \<Longrightarrow> srv_inv (reply msg p s)"
  by (simp add: reply_def next_seq_def Let_def srv_send_inv)

lemma hello_reply_inv:
  "srv_inv s \<Longrightarrow> srv_inv (reject_hello fb rd p reason s)"
  "srv_inv s \<Longrightarrow> srv_inv (send_accepted_hello fb rd p pid g s)"
  by (simp_all add: reject_hello_def send_accepted_hello_def next_seq_def Let_def srv_send_inv)

text \<open>A change of the database that keeps its invariant and the players' tokens.\<close>

definition same_tokens :: "db \<Rightarrow> db \<Rightarrow> bool" where
  "same_tokens d d' \<longleftrightarrow>
     (\<forall>i. map_option pr_token_hash (fmlookup (db_players d') i) = map_option pr_token_hash (fmlookup (db_players d) i))"

lemma same_tokens_Some:
  assumes "same_tokens d d'"
  shows "(\<exists>r. fmlookup (db_players d') i = Some r \<and> pr_token_hash r = h)
    \<longleftrightarrow> (\<exists>r. fmlookup (db_players d) i = Some r \<and> pr_token_hash r = h)"
  using assms [unfolded same_tokens_def, rule_format, of i]
  by (cases "fmlookup (db_players d) i"; cases "fmlookup (db_players d') i") auto

lemma srv_inv_db:
  assumes "srv_inv s" "db_inv d" "same_tokens (sv_db s) d"
  shows "srv_inv (s\<lparr>sv_db := d\<rparr>)"
  using assms same_tokens_Some [OF assms(3)]
  by (simp add: srv_inv_def core_inv_def fanout_defs identity_inv_def cong: option.case_cong)

section \<open>Quiet updates of a session\<close>

text \<open>An update that keeps who the session is, where it is and its shape.\<close>

definition calm :: "(session \<Rightarrow> session) \<Rightarrow> session \<Rightarrow> bool" where
  "calm f x \<longleftrightarrow>
     ss_generation (f x) = ss_generation x \<and> ss_player_id (f x) = ss_player_id x
     \<and> ss_identity_hash (f x) = ss_identity_hash x \<and> ss_cell (f x) = ss_cell x \<and> ss_sub (f x) = ss_sub x
     \<and> (hydration_inv x \<longrightarrow> hydration_inv (f x))"

lemma map_filter_cong: "(\<And>x. x \<in> set xs \<Longrightarrow> f x = g x) \<Longrightarrow> List.map_filter f xs = List.map_filter g xs"
  by (induction xs) (simp_all add: List.map_filter_def)

lemma current_audience_adj:
  assumes "\<And>x. fmlookup (sv_sessions s) p = Some x \<Longrightarrow> ss_generation (f x) = ss_generation x"
  shows "current_audience (s\<lparr>sv_sessions := fmadj p f (sv_sessions s)\<rparr>) = current_audience s"
proof -
  have "map_option (\<lambda>x. (q, ss_generation x)) (fmlookup (fmadj p f (sv_sessions s)) q)
      = map_option (\<lambda>x. (q, ss_generation x)) (fmlookup (sv_sessions s) q)" for q
    using assms by (cases "fmlookup (sv_sessions s) q") auto
  then show ?thesis by (simp add: current_audience_def)
qed

text \<open>The part of the invariant without the spatial index needs less: the session may move.\<close>

definition tame :: "int \<Rightarrow> (session \<Rightarrow> session) \<Rightarrow> session \<Rightarrow> bool" where
  "tame r f x \<longleftrightarrow>
     ss_generation (f x) = ss_generation x \<and> ss_player_id (f x) = ss_player_id x
     \<and> ss_identity_hash (f x) = ss_identity_hash x \<and> (session_inv r x \<longrightarrow> session_inv r (f x))"

lemma calm_tame: "calm f x \<Longrightarrow> tame r f x"
  by (auto simp: calm_def tame_def session_inv_def)

lemma adj_core:
  assumes inv: "core_inv s" and f: "\<And>x. fmlookup (sv_sessions s) p = Some x \<Longrightarrow> tame (aoi_radius_i32 (sv_cfg s)) f x"
    and dirty: "dirty_inv (fmadj p f (sv_sessions s)) D F"
  shows "core_inv (s\<lparr>sv_sessions := fmadj p f (sv_sessions s), sv_dirty_players := D, sv_flush_players := F\<rparr>)"
proof -
  note parts = core_invD [OF inv]
  let ?m = "fmadj p f (sv_sessions s)"
  have look: "\<exists>x. fmlookup (sv_sessions s) q = Some x \<and> ss_generation y = ss_generation x \<and> ss_player_id y = ss_player_id x
      \<and> ss_identity_hash y = ss_identity_hash x
      \<and> (session_inv (aoi_radius_i32 (sv_cfg s)) x \<longrightarrow> session_inv (aoi_radius_i32 (sv_cfg s)) y)" if "fmlookup ?m q = Some y" for q y
    using that f by (auto simp: tame_def split: if_splits)
  have "index_inv ?m (sv_player_peers s) (sv_player_order s) (sv_snapshot_recipients s) (sv_aoi_recipients s)"
  proof -
    have "\<exists>y. fmlookup ?m q = Some y \<and> ss_player_id y = pid" if "fmlookup (sv_player_peers s) pid = Some q" for pid q
    proof -
      from index_peerD [OF parts(3) that] obtain x where "fmlookup (sv_sessions s) q = Some x" "ss_player_id x = pid" by blast
      with f show ?thesis by (auto simp: tame_def)
    qed
    moreover have "fmlookup (sv_player_peers s) (ss_player_id y) = Some q" if "fmlookup ?m q = Some y" for q y
      using parts(3) look [OF that] unfolding index_inv_def by auto
    ultimately show ?thesis using parts(3) unfolding index_inv_def by simp
  qed
  moreover have "gen_inv ?m (sv_next_session_generation s) (live_audiences s)"
  proof -
    have "1 \<le> ss_generation y \<and> ss_generation y \<le> sv_next_session_generation s" if "fmlookup ?m q = Some y" for q y
      using parts(4) look [OF that] unfolding gen_inv_def by auto
    moreover have "q = r" if "fmlookup ?m q = Some y" "fmlookup ?m r = Some z" "ss_generation y = ss_generation z" for q r y z
      using parts(4) look [OF that(1)] look [OF that(2)] that(3) unfolding gen_inv_def by metis
    ultimately show ?thesis using parts(4) unfolding gen_inv_def by blast
  qed
  moreover have "fanout_inv (s\<lparr>sv_sessions := ?m\<rparr>)"
    using parts(5) current_audience_adj [where f = f and s = s and p = p] f
    by (simp add: tame_def fanout_inv_def live_audiences_def retained_fanout_audience_entries_def cong: option.case_cong)
  moreover have "sessions_inv (sv_cfg s) ?m"
    unfolding sessions_inv_def
  proof (intro allI impI)
    fix q y assume "fmlookup ?m q = Some y"
    from look [OF this] parts(7) show "session_inv (aoi_radius_i32 (sv_cfg s)) y" by (auto simp: sessions_inv_def)
  qed
  moreover have "identity_inv ?m (sv_identity_players s) (sv_db s)"
  proof -
    have "fmlookup (sv_identity_players s) (ss_identity_hash y) = Some (ss_player_id y)" if "fmlookup ?m q = Some y" for q y
      using parts(8) look [OF that] unfolding identity_inv_def by auto
    with parts(8) show ?thesis unfolding identity_inv_def by blast
  qed
  ultimately show ?thesis
    using parts(1,2) dirty by (simp add: core_inv_def fanout_defs cong: option.case_cong)
qed

lemma adj_inv:
  assumes inv: "srv_inv s" and f: "\<And>x. fmlookup (sv_sessions s) p = Some x \<Longrightarrow> calm f x"
    and dirty: "dirty_inv (fmadj p f (sv_sessions s)) D F"
  shows "srv_inv (s\<lparr>sv_sessions := fmadj p f (sv_sessions s), sv_dirty_players := D, sv_flush_players := F\<rparr>)"
proof -
  have "Option.bind (fmlookup (fmadj p f (sv_sessions s)) r) ss_cell = Option.bind (fmlookup (sv_sessions s) r) ss_cell" for r
    using f by (cases "fmlookup (sv_sessions s) r") (auto simp: calm_def)
  with srv_invD(2) [OF inv] adj_core [OF srv_invD(1) [OF inv] calm_tame [OF f] dirty] show ?thesis
    by (simp add: srv_inv_def view_inv_def)
qed

definition quiet :: "(session \<Rightarrow> session) \<Rightarrow> session \<Rightarrow> bool" where
  "quiet f x \<longleftrightarrow> calm f x \<and> (ss_dirty (f x) \<longrightarrow> ss_dirty x)"

lemma quiet_inv:
  assumes inv: "srv_inv s" and q: "\<And>x. fmlookup (sv_sessions s) p = Some x \<Longrightarrow> quiet f x"
  shows "srv_inv (upd_session p f s)"
proof -
  have "dirty_inv (fmadj p f (sv_sessions s)) (sv_dirty_players s) (sv_flush_players s)"
    unfolding dirty_inv_def
  proof (intro allI impI)
    fix r y assume y: "fmlookup (fmadj p f (sv_sessions s)) r = Some y" "ss_dirty y"
    then obtain x where "fmlookup (sv_sessions s) r = Some x" "ss_dirty x" "ss_player_id y = ss_player_id x"
      using q by (auto simp: quiet_def calm_def split: if_splits)
    with core_invD(6) [OF srv_invD(1) [OF inv]] show "ss_player_id y |\<in>| sv_dirty_players s |\<union>| sv_flush_players s"
      by (simp add: dirty_inv_def)
  qed
  from adj_inv [OF inv _ this] q show ?thesis by (simp add: upd_session_alt quiet_def)
qed

lemma quiet_upd_inv: "srv_inv s \<Longrightarrow> (\<And>x. quiet f x) \<Longrightarrow> srv_inv (upd_session p f s)"
  by (rule quiet_inv)

end
