(* ===== verification/Server_Sessions.thy ===== *)
theory Server_Sessions
  imports Server_Inv
begin

text \<open>
  Opening and closing sessions: generations and their re-keying, registering, unregistering. The
  spatial index is excused for the one player involved until its entry is placed or removed.
\<close>

section \<open>Retained audience entries\<close>

lemma distinct_entries_sum:
  assumes "inj_on au_ptr (set auds)"
  shows "distinct_entries seen auds = (\<Sum>a | a \<in> set auds \<and> au_ptr a \<notin> set seen. length (au_items a))"
  using assms
proof (induction auds arbitrary: seen)
  case (Cons a auds)
  have inj: "inj_on au_ptr (set auds)" using Cons.prems by simp
  show ?case
  proof (cases "au_ptr a \<in> set seen")
    case True
    then have "{b \<in> set (a # auds). au_ptr b \<notin> set seen} = {b \<in> set auds. au_ptr b \<notin> set seen}" by auto
    with True Cons.IH [OF inj] show ?thesis by simp
  next
    case False
    have "{b \<in> set (a # auds). au_ptr b \<notin> set seen} = insert a {b \<in> set auds. au_ptr b \<notin> set (au_ptr a # seen)}"
      using False Cons.prems by (auto simp: inj_on_def)
    with False Cons.IH [OF inj, of "au_ptr a # seen"] show ?thesis by simp
  qed
qed simp

lemma arcs_inj: "arcs_inv auds n \<Longrightarrow> inj_on au_ptr (set auds)"
  by (auto simp: arcs_inv_def inj_on_def)

lemma retained_sum:
  "arcs_inv (live_audiences s) n \<Longrightarrow> retained_fanout_audience_entries s = (\<Sum>a \<in> set (live_audiences s). length (au_items a))"
  using distinct_entries_sum [OF arcs_inj, of "live_audiences s" n "[]"] by (simp add: retained_fanout_audience_entries_def)

lemma arcs_subset: "arcs_inv auds n \<Longrightarrow> set auds' \<subseteq> set auds \<Longrightarrow> arcs_inv auds' n"
  by (auto simp: arcs_inv_def)

lemma gen_subset: "gen_inv ses g auds \<Longrightarrow> set auds' \<subseteq> set auds \<Longrightarrow> gen_inv ses g auds'"
  unfolding gen_inv_def by blast

lemma fanout_shrink:
  assumes "fanout_inv s" "set (live_audiences s') \<subseteq> set (live_audiences s)" "sv_next_arc s' = sv_next_arc s"
    "queue_inv (sv_chat_fanout s') (sv_chat_fanout_bytes s') (sv_clock_fanout s')"
    "\<And>a. sv_fanout_audience_cache s' = Some a \<Longrightarrow> au_items a = current_audience s'"
  shows "fanout_inv s'"
proof -
  have arcs: "arcs_inv (live_audiences s) (sv_next_arc s)" and b: "retained_fanout_audience_entries s \<le> FANOUT_QUEUE_RECIPIENTS"
    using assms(1) by (simp_all add: fanout_inv_def)
  have arcs': "arcs_inv (live_audiences s') (sv_next_arc s')" using arcs_subset [OF arcs assms(2)] assms(3) by simp
  have "retained_fanout_audience_entries s' \<le> retained_fanout_audience_entries s"
    unfolding retained_sum [OF arcs] retained_sum [OF arcs'] using assms(2) by (intro sum_mono2) auto
  with assms b arcs' show ?thesis by (simp add: fanout_inv_def)
qed

section \<open>Unregistering\<close>

text \<open>The spatial index agrees with the sessions except about one player.\<close>

definition view_but :: "u64 \<Rightarrow> (nat, session) fmap \<Rightarrow> (u64, nat) fmap \<Rightarrow> world \<Rightarrow> bool" where
  "view_but pid ses pp w \<longleftrightarrow>
     world_inv w
     \<and> (\<forall>q. q \<noteq> pid \<longrightarrow> cell_of_entity q w = Option.bind (fmlookup pp q) (\<lambda>p. Option.bind (fmlookup ses p) ss_cell))"

lemma view_but_weaken: "view_inv ses pp w \<Longrightarrow> view_but pid ses pp w"
  by (simp add: view_inv_def view_but_def)

lemma unregister_value:
  assumes "core_inv s" "fmlookup (sv_sessions s) p = Some x"
  shows "unregister_session p s =
    (s\<lparr>sv_sessions := fmdrop p (sv_sessions s), sv_player_peers := fmdrop (ss_player_id x) (sv_player_peers s),
       sv_player_order := sv_player_order s |-| {|ss_player_id x|},
       sv_snapshot_recipients := sv_snapshot_recipients s |-| {|p|}, sv_aoi_recipients := sv_aoi_recipients s |-| {|p|},
       sv_fanout_audience_cache := None\<rparr>, Some x)"
proof -
  have "fmlookup (sv_player_peers s) (ss_player_id x) = Some p"
    using core_invD(3) [OF assms(1)] assms(2) by (simp add: index_inv_def)
  with assms(2) show ?thesis by (simp add: unregister_session_def Let_def)
qed

lemma index_other:
  assumes "index_inv ses pp order snap aoi" "fmlookup ses p = Some x" "fmlookup pp r = Some q" "r \<noteq> ss_player_id x"
  shows "q \<noteq> p"
proof -
  from assms(1,3) obtain y where "fmlookup ses q = Some y" "ss_player_id y = r" unfolding index_inv_def by blast
  with assms(2,4) show ?thesis by auto
qed

lemma index_unregister:
  assumes inv: "index_inv ses pp order snap aoi" and x: "fmlookup ses p = Some x"
  shows "index_inv (fmdrop p ses) (fmdrop (ss_player_id x) pp) (order |-| {|ss_player_id x|}) (snap |-| {|p|}) (aoi |-| {|p|})"
proof -
  note other = index_other [OF inv x]
  have fwd: "\<And>q y. fmlookup ses q = Some y \<Longrightarrow> fmlookup pp (ss_player_id y) = Some q" using inv by (simp add: index_inv_def)
  have "fmlookup (fmdrop (ss_player_id x) pp) (ss_player_id y) = Some q" if "fmlookup (fmdrop p ses) q = Some y" for q y
    using that fwd [of q y] fwd [OF x] by (auto split: if_splits)
  moreover have "\<exists>y. fmlookup (fmdrop p ses) q = Some y \<and> ss_player_id y = r" if "fmlookup (fmdrop (ss_player_id x) pp) r = Some q" for r q
    using that other [of r q] inv by (auto simp: index_inv_def split: if_splits)
  moreover have "aoi |-| {|p|} |\<subseteq>| fmdom ses |-| {|p|}" "order = fmdom pp" "snap = fmdom ses"
    using inv by (auto simp: index_inv_def)
  ultimately show ?thesis unfolding index_inv_def by simp
qed

lemma unregister_core:
  assumes inv: "core_inv s"
  shows "core_inv (fst (unregister_session p s))"
proof (cases "fmlookup (sv_sessions s) p")
  case None
  with inv show ?thesis by (simp add: unregister_session_def)
next
  case (Some x)
  define s' where "s' = fst (unregister_session p s)"
  note val = unregister_value [OF inv Some]
  note parts = core_invD [OF inv]
  have auds: "set (live_audiences s') \<subseteq> set (live_audiences s)" by (auto simp: s'_def val live_audiences_def)
  have "index_inv (sv_sessions s') (sv_player_peers s') (sv_player_order s') (sv_snapshot_recipients s') (sv_aoi_recipients s')"
    using index_unregister [OF parts(3) Some] by (simp add: s'_def val)
  moreover have "gen_inv (sv_sessions s') (sv_next_session_generation s') (live_audiences s')"
    using gen_subset [OF parts(4) auds] unfolding gen_inv_def by (auto simp: s'_def val)
  moreover have "fanout_inv s'"
  proof (rule fanout_shrink [OF parts(5) auds])
    show "sv_next_arc s' = sv_next_arc s" by (simp add: s'_def val)
    show "queue_inv (sv_chat_fanout s') (sv_chat_fanout_bytes s') (sv_clock_fanout s')"
      using parts(5) by (simp add: s'_def val fanout_inv_def)
  qed (simp add: s'_def val)
  moreover have "dirty_inv (sv_sessions s') (sv_dirty_players s') (sv_flush_players s')"
    using parts(6) unfolding dirty_inv_def by (auto simp: s'_def val)
  moreover have "sessions_inv (sv_cfg s') (sv_sessions s')"
    using parts(7) unfolding sessions_inv_def by (auto simp: s'_def val)
  moreover have "identity_inv (sv_sessions s') (sv_identity_players s') (sv_db s')"
    using parts(8) unfolding identity_inv_def by (auto simp: s'_def val)
  ultimately have "core_inv s'" using parts(1,2) by (simp add: core_inv_def s'_def val)
  then show ?thesis by (simp add: s'_def)
qed

lemma unregister_view:
  assumes inv: "srv_inv s" and x: "fmlookup (sv_sessions s) p = Some x"
  shows "view_but (ss_player_id x) (sv_sessions (fst (unregister_session p s)))
    (sv_player_peers (fst (unregister_session p s))) (sv_world s)"
proof -
  note val = unregister_value [OF srv_invD(1) [OF inv] x]
  note other = index_other [OF core_invD(3) [OF srv_invD(1) [OF inv]] x]
  have "Option.bind (fmlookup (fmdrop (ss_player_id x) (sv_player_peers s)) q) (\<lambda>r. Option.bind (fmlookup (fmdrop p (sv_sessions s)) r) ss_cell)
      = Option.bind (fmlookup (sv_player_peers s) q) (\<lambda>r. Option.bind (fmlookup (sv_sessions s) r) ss_cell)"
    if "q \<noteq> ss_player_id x" for q
    using that other [of q] by (cases "fmlookup (sv_player_peers s) q") auto
  with srv_invD(2) [OF inv] show ?thesis by (simp add: view_inv_def view_but_def val)
qed

lemma view_remove:
  assumes "view_but pid ses pp w" "fmlookup pp pid = None"
  shows "view_inv ses pp (world_remove pid w)"
  using assms by (simp add: view_but_def view_inv_def world_remove_inv cell_of_entity_def world_remove_cell)

section \<open>Generations\<close>

definition with_generations :: "(nat \<times> nat) list \<Rightarrow> nat \<Rightarrow> session \<Rightarrow> session" where
  "with_generations l p x = (case map_of l p of None \<Rightarrow> x | Some g \<Rightarrow> x\<lparr>ss_generation := g\<rparr>)"

lemma fold_generations:
  assumes "distinct (map fst l)"
  shows "\<exists>m. fold (\<lambda>(peer, g). upd_session peer (\<lambda>x. x\<lparr>ss_generation := g\<rparr>)) l s = s\<lparr>sv_sessions := m\<rparr>
    \<and> (\<forall>p. fmlookup m p = map_option (with_generations l p) (fmlookup (sv_sessions s) p))"
  using assms
proof (induction l arbitrary: s)
  case Nil
  show ?case by (intro exI [of _ "sv_sessions s"]) (simp add: with_generations_def option.map_ident)
next
  case (Cons e l)
  obtain p g where e: "e = (p, g)" by (cases e)
  let ?s = "upd_session p (\<lambda>x. x\<lparr>ss_generation := g\<rparr>) s"
  have "distinct (map fst l)" using Cons.prems by simp
  from Cons.IH [OF this, of ?s] obtain m
    where m: "fold (\<lambda>(peer, g). upd_session peer (\<lambda>x. x\<lparr>ss_generation := g\<rparr>)) l ?s = ?s\<lparr>sv_sessions := m\<rparr>"
      "\<forall>q. fmlookup m q = map_option (with_generations l q) (fmlookup (sv_sessions ?s) q)" by blast
  have "map_of l p = None" using Cons.prems e by (simp add: map_of_eq_None_iff)
  then have "fmlookup m q = map_option (with_generations (e # l) q) (fmlookup (sv_sessions s) q)" for q
    using m(2) e by (cases "fmlookup (sv_sessions s) q") (auto simp: upd_session_alt with_generations_def)
  moreover have "?s\<lparr>sv_sessions := m\<rparr> = s\<lparr>sv_sessions := m\<rparr>" by (simp add: upd_session_alt)
  ultimately show ?case using m(1) e by (intro exI [of _ m]) simp
qed

lemma rekeyed_facts:
  shows "distinct (map fst (rekeyed s))" "distinct (map snd (rekeyed s))"
    "\<And>p g. (p, g) \<in> set (rekeyed s) \<Longrightarrow> 1 \<le> g \<and> g \<le> fmlen (sv_sessions s)"
    "\<And>p x. fmlookup (sv_sessions s) p = Some x \<Longrightarrow> map_of (rekeyed s) p \<noteq> None"
proof -
  have len: "length (sorted_list_of_fset (fmdom (sv_sessions s))) = length [1..<Suc (fmlen (sv_sessions s))]"
    by (simp add: fmlen_def del: upt_Suc)
  show "distinct (map fst (rekeyed s))" "distinct (map snd (rekeyed s))"
    using len by (simp_all add: rekeyed_def map_fst_zip map_snd_zip del: upt_Suc)
  show "1 \<le> g \<and> g \<le> fmlen (sv_sessions s)" if "(p, g) \<in> set (rekeyed s)" for p g
    using set_zip_rightD [OF that [unfolded rekeyed_def]] by auto
  have "map fst (rekeyed s) = sorted_list_of_fset (fmdom (sv_sessions s))"
    using len by (simp add: rekeyed_def map_fst_zip del: upt_Suc)
  then have "fst ` set (rekeyed s) = fset (fmdom (sv_sessions s))"
    by (metis set_map sorted_list_of_fset_simps(1))
  then show "map_of (rekeyed s) p \<noteq> None" if "fmlookup (sv_sessions s) p = Some x" for p x
    using that by (auto simp: map_of_eq_None_iff intro: fmdomI)
qed

text \<open>A step that leaves alone where everyone is and everything outside the session bookkeeping.\<close>

definition same_places :: "server \<Rightarrow> server \<Rightarrow> bool" where
  "same_places s s' \<longleftrightarrow>
     sv_cfg s' = sv_cfg s \<and> sv_host s' = sv_host s \<and> sv_db s' = sv_db s \<and> sv_world s' = sv_world s
     \<and> sv_identity_players s' = sv_identity_players s \<and> sv_player_peers s' = sv_player_peers s
     \<and> (\<forall>p. map_option ss_cell (fmlookup (sv_sessions s') p) = map_option ss_cell (fmlookup (sv_sessions s) p))"

lemma same_places_refl [simp]: "same_places s s"
  by (simp add: same_places_def)

lemma with_generations_fields [simp]:
  "ss_player_id (with_generations l p x) = ss_player_id x" "ss_identity_hash (with_generations l p x) = ss_identity_hash x"
  "ss_cell (with_generations l p x) = ss_cell x" "ss_dirty (with_generations l p x) = ss_dirty x"
  "session_inv r (with_generations l p x) = session_inv r x"
  by (simp_all add: with_generations_def session_inv_def hydration_inv_def split: option.split)

lemma rekey_value:
  obtains (many) "fmlen (sv_sessions s) > max_transport_peers_usize (sv_cfg s)"
      "rekey_live_session_generations s = (s, Inl TooManyLiveSessions)"
  | (ok) m where "fmlen (sv_sessions s) \<le> max_transport_peers_usize (sv_cfg s)"
      "rekey_live_session_generations s = (s\<lparr>sv_chat_fanout := [], sv_chat_fanout_bytes := 0, sv_clock_fanout := None,
         sv_fanout_audience_cache := None, sv_sessions := m, sv_next_session_generation := fmlen (sv_sessions s)\<rparr>, Inr ())"
      "\<And>p. fmlookup m p = map_option (with_generations (rekeyed s) p) (fmlookup (sv_sessions s) p)"
proof (cases "fmlen (sv_sessions s) > max_transport_peers_usize (sv_cfg s)")
  case True
  with many show ?thesis by (simp add: rekey_live_session_generations_def)
next
  case False
  obtain m where m: "fold (\<lambda>(peer, g). upd_session peer (\<lambda>x. x\<lparr>ss_generation := g\<rparr>)) (rekeyed s) (invalidate_fanout_jobs s)
      = (invalidate_fanout_jobs s)\<lparr>sv_sessions := m\<rparr>"
    "\<forall>p. fmlookup m p = map_option (with_generations (rekeyed s) p) (fmlookup (sv_sessions (invalidate_fanout_jobs s)) p)"
    using fold_generations [OF rekeyed_facts(1)] by blast
  have "rekey_live_session_generations s = (s\<lparr>sv_chat_fanout := [], sv_chat_fanout_bytes := 0, sv_clock_fanout := None,
         sv_fanout_audience_cache := None, sv_sessions := m, sv_next_session_generation := fmlen (sv_sessions s)\<rparr>, Inr ())"
    using False m(1) by (simp add: rekey_live_session_generations_def Let_def invalidate_fanout_jobs_def)
  with False m(2) ok show ?thesis by (simp add: invalidate_fanout_jobs_def)
qed

lemma generations_gen_inv:
  assumes m: "\<And>p. fmlookup m p = map_option (with_generations (rekeyed s) p) (fmlookup (sv_sessions s) p)"
    and n: "fmlen (sv_sessions s) \<le> u64_max"
  shows "gen_inv m (fmlen (sv_sessions s)) []"
proof -
  have gen: "(p, ss_generation y) \<in> set (rekeyed s)" if y: "fmlookup m p = Some y" for p y
  proof -
    from y m obtain x where "fmlookup (sv_sessions s) p = Some x" "y = with_generations (rekeyed s) p x" by auto
    with rekeyed_facts(4) [of s p x] show ?thesis
      by (auto simp: with_generations_def intro: map_of_SomeD)
  qed
  have "p = q" if "fmlookup m p = Some x" "fmlookup m q = Some y" "ss_generation x = ss_generation y" for p q x y
    using gen [OF that(1)] gen [OF that(2)] that(3) rekeyed_facts(2) [of s]
    by (metis eq_snd_iff fst_conv inj_onD distinct_map)
  with gen rekeyed_facts(3) [of _ _ s] n show ?thesis unfolding gen_inv_def by fastforce
qed

lemma max_peers_small: "max_transport_peers_usize c \<le> 1024"
  by (simp add: max_transport_peers_usize_def MAX_TRANSPORT_PEERS_def DEFAULT_MAX_PEERS_def clamp_nat_def)

lemma rekey_core:
  assumes inv: "core_inv s" and r: "rekey_live_session_generations s = (s', r)"
  shows "core_inv s' \<and> same_places s s'
    \<and> (r = Inr () \<longrightarrow> sv_next_session_generation s' \<le> 1024)"
proof (cases rule: rekey_value [of s])
  case many
  with inv r show ?thesis by auto
next
  case (ok m)
  note parts = core_invD [OF inv]
  have s': "s' = s\<lparr>sv_chat_fanout := [], sv_chat_fanout_bytes := 0, sv_clock_fanout := None,
         sv_fanout_audience_cache := None, sv_sessions := m, sv_next_session_generation := fmlen (sv_sessions s)\<rparr>"
    using r ok(2) by simp
  have n: "fmlen (sv_sessions s) \<le> 1024" using ok(1) max_peers_small [of "sv_cfg s"] by simp
  have dom: "fmdom m = fmdom (sv_sessions s)" by (rule fset_eqI) (simp add: fmlookup_dom_iff ok(3))
  have "index_inv m (sv_player_peers s) (sv_player_order s) (sv_snapshot_recipients s) (sv_aoi_recipients s)"
    using parts(3) ok(3) unfolding index_inv_def dom by (auto, metis option.simps(9) with_generations_fields(1))
  moreover have "gen_inv m (fmlen (sv_sessions s)) []"
    using ok(3) n by (intro generations_gen_inv) (simp_all add: u64_max_def)
  moreover have "fanout_inv s'" by (simp add: s' fanout_defs queue_inv_def arcs_inv_def)
  moreover have "dirty_inv m (sv_dirty_players s) (sv_flush_players s)"
    using parts(6) unfolding dirty_inv_def ok(3) by (auto, blast)
  moreover have "sessions_inv (sv_cfg s) m"
    using parts(7) unfolding sessions_inv_def ok(3) by auto
  moreover have "identity_inv m (sv_identity_players s) (sv_db s)"
    using parts(8) unfolding identity_inv_def ok(3) by auto
  ultimately have "core_inv s'" using parts(1,2) by (simp add: core_inv_def s' live_audiences_def)
  with n show ?thesis by (simp add: s' ok(3) option.map_comp comp_def same_places_def)
qed

text \<open>The generation drawn for a new session is above every generation in use or captured.\<close>

lemma allocate_generation:
  assumes inv: "core_inv s" and r: "allocate_session_generation s = (s', r)"
  shows "core_inv s' \<and> same_places s s'
    \<and> (\<forall>g. r = Inr g \<longrightarrow> g = sv_next_session_generation s' \<and> gen_inv (sv_sessions s') (g - 1) (live_audiences s') \<and> 1 \<le> g)
    \<and> (sv_next_session_generation s < u64_max \<longrightarrow> (\<exists>g. r = Inr g))"
proof -
  obtain s1 q where q: "(if sv_next_session_generation s = u64_max then rekey_live_session_generations s else (s, Inr ())) = (s1, q)"
    by (cases "if sv_next_session_generation s = u64_max then rekey_live_session_generations s else (s, Inr ())")
  have s1: "core_inv s1 \<and> same_places s s1
    \<and> (q = Inr () \<longrightarrow> sv_next_session_generation s1 < u64_max)"
  proof (cases "sv_next_session_generation s = u64_max")
    case True
    with q rekey_core [OF inv, of s1 q] show ?thesis by (auto simp: u64_max_def)
  next
    case False
    with core_invD(4) [OF inv] q inv show ?thesis by (auto simp: gen_inv_def)
  qed
  show ?thesis
  proof (cases q)
    case (Inl e)
    with q r s1 show ?thesis by (auto simp: allocate_session_generation_def split: if_splits)
  next
    case (Inr u)
    let ?g = "sv_next_session_generation s1 + 1"
    have lt: "sv_next_session_generation s1 < u64_max" using s1 Inr by simp
    then have s': "s' = s1\<lparr>sv_next_session_generation := ?g\<rparr>" "r = Inr ?g"
      using r q Inr by (auto simp: allocate_session_generation_def checked_add_u64_def)
    have g: "gen_inv (sv_sessions s1) (sv_next_session_generation s1) (live_audiences s1)" using s1 core_invD(4) by blast
    then have "gen_inv (sv_sessions s1) ?g (live_audiences s1)" using lt unfolding gen_inv_def by fastforce
    moreover have c: "core_inv s1" using s1 by blast
    ultimately have "core_inv s'" by (simp add: core_inv_def s' fanout_defs cong: option.case_cong)
    moreover have "gen_inv (sv_sessions s') (?g - 1) (live_audiences s')"
      using g by (simp add: s' live_audiences_def cong: option.case_cong)
    ultimately show ?thesis using s1 s' by (simp add: same_places_def)
  qed
qed

section \<open>Registering\<close>

lemma index_register:
  assumes inv: "index_inv ses pp order snap aoi" and p: "fmlookup ses p = None" and pid: "fmlookup pp (ss_player_id x) = None"
  shows "index_inv (fmupd p x ses) (fmupd (ss_player_id x) p pp) (finsert (ss_player_id x) order) (finsert p snap) (finsert p aoi)"
proof -
  have fwd: "\<And>q y. fmlookup ses q = Some y \<Longrightarrow> fmlookup pp (ss_player_id y) = Some q"
    and bwd: "\<And>q r. fmlookup pp r = Some q \<Longrightarrow> \<exists>y. fmlookup ses q = Some y \<and> ss_player_id y = r"
    using inv unfolding index_inv_def by blast+
  have "fmlookup (fmupd (ss_player_id x) p pp) (ss_player_id y) = Some q" if "fmlookup (fmupd p x ses) q = Some y" for q y
    using that fwd [of q y] pid by (auto split: if_splits)
  moreover have "\<exists>y. fmlookup (fmupd p x ses) q = Some y \<and> ss_player_id y = r" if "fmlookup (fmupd (ss_player_id x) p pp) r = Some q" for r q
    using that bwd [of r q] p by (auto split: if_splits)
  moreover have "finsert p aoi |\<subseteq>| finsert p (fmdom ses)" "order = fmdom pp" "snap = fmdom ses"
    using inv by (auto simp: index_inv_def)
  ultimately show ?thesis unfolding index_inv_def by simp
qed

lemma gen_register:
  assumes "gen_inv ses (g - 1) auds" "1 \<le> g" "g \<le> u64_max" "ss_generation x = g"
  shows "gen_inv (fmupd p x ses) g auds"
proof -
  have old: "1 \<le> ss_generation y \<and> ss_generation y < g" if "fmlookup ses q = Some y" for q y
  proof -
    have "1 \<le> ss_generation y \<and> ss_generation y \<le> g - 1" using that assms(1) unfolding gen_inv_def by blast
    with assms(2) show ?thesis by auto
  qed
  have "q = r" if "fmlookup (fmupd p x ses) q = Some y" "fmlookup (fmupd p x ses) r = Some z" "ss_generation y = ss_generation z" for q r y z
    using that old [of q y] old [of r z] assms(1,4) unfolding gen_inv_def by (auto split: if_splits)
  moreover have "1 \<le> ss_generation y \<and> ss_generation y \<le> g" if "fmlookup (fmupd p x ses) q = Some y" for q y
    using that old [of q y] assms(2,4) by (auto split: if_splits)
  moreover have "\<forall>a \<in> set auds. \<forall>r \<in> set (au_items a). snd r \<le> g"
  proof (intro ballI)
    fix a r assume "a \<in> set auds" "r \<in> set (au_items a)"
    then have "snd r \<le> g - 1" using assms(1) unfolding gen_inv_def by blast
    then show "snd r \<le> g" by simp
  qed
  ultimately show ?thesis using assms(3) unfolding gen_inv_def by blast
qed

text \<open>What registering does to a consistent server: only the generations can run out, and otherwise the
  new session is in every index, with a generation that no captured audience names.\<close>

definition registered :: "nat \<Rightarrow> session \<Rightarrow> server \<Rightarrow> server \<Rightarrow> bool" where
  "registered p x s s' \<longleftrightarrow>
     sv_cfg s' = sv_cfg s \<and> sv_host s' = sv_host s \<and> sv_db s' = sv_db s \<and> sv_world s' = sv_world s
     \<and> sv_identity_players s' = sv_identity_players s
     \<and> sv_player_peers s' = fmupd (ss_player_id x) p (sv_player_peers s)
     \<and> (\<forall>q. q \<noteq> p \<longrightarrow> map_option ss_cell (fmlookup (sv_sessions s') q) = map_option ss_cell (fmlookup (sv_sessions s) q))
     \<and> (\<exists>g. fmlookup (sv_sessions s') p = Some (x\<lparr>ss_generation := g\<rparr>)
          \<and> (\<forall>a \<in> set (live_audiences s'). (p, g) \<notin> set (au_items a)))
     \<and> p |\<in>| sv_aoi_recipients s'"

lemma register_core:
  assumes inv: "core_inv s" and p: "fmlookup (sv_sessions s) p = None"
    and pid: "fmlookup (sv_player_peers s) (ss_player_id x) = None"
    and x: "session_inv (aoi_radius_i32 (sv_cfg s)) x"
    and id: "fmlookup (sv_identity_players s) (ss_identity_hash x) = Some (ss_player_id x)"
    and r: "register_session p x s = (s', r)"
  shows "core_inv s' \<and> (r = Inr () \<longrightarrow> registered p x s s') \<and> (r \<noteq> Inr () \<longrightarrow> same_places s s')
    \<and> (sv_next_session_generation s < u64_max \<longrightarrow> r = Inr ())"
proof -
  obtain s1 q where q: "allocate_session_generation s = (s1, q)" by (cases "allocate_session_generation s")
  note a = allocate_generation [OF inv q]
  show ?thesis
  proof (cases q)
    case (Inl e)
    with p pid r q a show ?thesis by (auto simp: register_session_def)
  next
    case (Inr g)
    let ?x = "x\<lparr>ss_generation := g\<rparr>"
    have c1: "core_inv s1" and sp: "same_places s s1" using a by auto
    note parts = core_invD [OF c1]
    have g: "g = sv_next_session_generation s1" "gen_inv (sv_sessions s1) (g - 1) (live_audiences s1)" "1 \<le> g"
      using a Inr by auto
    have none: "fmlookup (sv_sessions s1) p = None" "fmlookup (sv_player_peers s1) (ss_player_id ?x) = None"
      using sp p pid by (auto simp: same_places_def) (metis map_option_is_None)
    have gu: "g \<le> u64_max" using parts(4) g(1) by (simp add: gen_inv_def)
    have s': "s' = s1\<lparr>sv_sessions := fmupd p ?x (sv_sessions s1), sv_player_peers := fmupd (ss_player_id x) p (sv_player_peers s1),
        sv_player_order := finsert (ss_player_id x) (sv_player_order s1), sv_snapshot_recipients := finsert p (sv_snapshot_recipients s1),
        sv_fanout_audience_cache := None, sv_dirty_players := (if ss_dirty x then finsert (ss_player_id x) (sv_dirty_players s1) else sv_dirty_players s1),
        sv_aoi_recipients := finsert p (sv_aoi_recipients s1)\<rparr>" and rr: "r = Inr ()"
      using p pid r q Inr by (auto simp: register_session_def Let_def schedule_aoi_def)
    have auds: "set (live_audiences s') \<subseteq> set (live_audiences s1)" by (auto simp: s' live_audiences_def)
    have "index_inv (sv_sessions s') (sv_player_peers s') (sv_player_order s') (sv_snapshot_recipients s') (sv_aoi_recipients s')"
      using index_register [OF parts(3) none] by (simp add: s')
    moreover have "gen_inv (sv_sessions s') (sv_next_session_generation s') (live_audiences s')"
      using gen_subset [OF gen_register [OF g(2,3) gu, of ?x p] auds] g(1) by (simp add: s')
    moreover have "fanout_inv s'"
    proof (rule fanout_shrink [OF parts(5) auds])
      show "queue_inv (sv_chat_fanout s') (sv_chat_fanout_bytes s') (sv_clock_fanout s')"
        using parts(5) by (simp add: s' fanout_inv_def)
    qed (simp_all add: s')
    moreover have "dirty_inv (sv_sessions s') (sv_dirty_players s') (sv_flush_players s')"
      using parts(6) unfolding dirty_inv_def by (auto simp: s')
    moreover have "sessions_inv (sv_cfg s') (sv_sessions s')"
      using parts(7) x sp unfolding sessions_inv_def
      by (auto simp: s' session_inv_def hydration_inv_def same_places_def)
    moreover have "identity_inv (sv_sessions s') (sv_identity_players s') (sv_db s')"
      using parts(8) id sp unfolding identity_inv_def by (auto simp: s' same_places_def)
    ultimately have "core_inv s'" using parts(1,2) by (simp add: core_inv_def s')
    moreover have "(p, g) \<notin> set (au_items a)" if "a \<in> set (live_audiences s')" for a
    proof
      assume "(p, g) \<in> set (au_items a)"
      with auds that g(2) have "g \<le> g - 1" unfolding gen_inv_def by fastforce
      with g(3) show False by simp
    qed
    ultimately show ?thesis using sp rr by (auto simp: registered_def same_places_def s')
  qed
qed

lemma register_view:
  assumes idx: "index_inv (sv_sessions s) (sv_player_peers s) order snap aoi"
    and v: "view_but (ss_player_id x) (sv_sessions s) (sv_player_peers s) w"
    and x: "cell_of_entity (ss_player_id x) w = ss_cell x"
    and p: "fmlookup (sv_sessions s) p = None" and r: "registered p x s s'"
  shows "view_inv (sv_sessions s') (sv_player_peers s') w"
proof -
  have cells: "Option.bind (fmlookup (sv_sessions s') q) ss_cell = Option.bind (fmlookup (sv_sessions s) q) ss_cell" if "q \<noteq> p" for q
    using r that unfolding registered_def by (metis bind_map_option comp_def id_comp)
  have "cell_of_entity pid w = Option.bind (fmlookup (sv_player_peers s') pid) (\<lambda>q. Option.bind (fmlookup (sv_sessions s') q) ss_cell)" for pid
  proof (cases "pid = ss_player_id x")
    case True
    with r x show ?thesis by (auto simp: registered_def)
  next
    case False
    have "q \<noteq> p" if "fmlookup (sv_player_peers s) pid = Some q" for q
      using idx p that unfolding index_inv_def by fastforce
    with False cells v r show ?thesis
      by (cases "fmlookup (sv_player_peers s) pid") (auto simp: registered_def view_but_def)
  qed
  with v show ?thesis by (simp add: view_inv_def view_but_def)
qed

end
