(* ===== verification/Server_Work_Inv.thy ===== *)
theory Server_Work_Inv
  imports Server_Sessions
begin

text \<open>The per-tick work keeps the invariant, whatever the codec produces and whichever statements fail.\<close>

section \<open>Snapshots\<close>

lemma quiet_snapshot [simp]:
  "quiet (\<lambda>y. y\<lparr>ss_snapshot_last_visit_tick := t\<rparr>) x"
  "quiet (\<lambda>y. y\<lparr>ss_snapshot_cursor := c, ss_snapshot_remaining := n\<rparr>) x"
  by (simp_all add: quiet_def calm_def hydration_inv_def)

lemma snapshot_visit_inv: "srv_inv (fst sw) \<Longrightarrow> srv_inv (fst (snapshot_visit fb tick peer sw))"
  by (cases sw) (simp add: snapshot_visit_def Let_def next_seq_def split_beta quiet_upd_inv send_bounded_inv split: option.split)

lemma fold_inv: "(\<And>x st. I st \<Longrightarrow> I (f x st)) \<Longrightarrow> I st \<Longrightarrow> I (fold f xs st)"
  by (induction xs arbitrary: st) simp_all

lemma broadcast_snapshots_inv: "srv_inv s \<Longrightarrow> srv_inv (fst (broadcast_snapshots fb s))"
  by (simp add: broadcast_snapshots_def Let_def, rule fold_inv [where I = "\<lambda>sw. srv_inv (fst sw)"])
    (auto intro: snapshot_visit_inv split: option.split)

section \<open>Area of interest\<close>

lemma aoi_recipients_inv:
  assumes "srv_inv s" "A |\<subseteq>| fmdom (sv_sessions s)"
  shows "srv_inv (s\<lparr>sv_aoi_recipients := A\<rparr>)"
  using assms by (simp add: srv_inv_def core_inv_def index_inv_def fanout_defs cong: option.case_cong)

lemma aoi_subset: "srv_inv s \<Longrightarrow> sv_aoi_recipients s |\<subseteq>| fmdom (sv_sessions s)"
  by (simp add: srv_inv_def core_inv_def index_inv_def)

lemma schedule_aoi_inv: "srv_inv s \<Longrightarrow> srv_inv (schedule_aoi p s)"
  using aoi_subset [of s] by (auto simp: schedule_aoi_def fmlookup_dom_iff intro!: aoi_recipients_inv)

lemma emit_aoi_inv: "srv_inv s \<Longrightarrow> srv_inv (emit_aoi p u s)"
  by (simp add: emit_aoi_def schedule_aoi_inv)

lemma by_key_set [simp]: "set (by_key cs) = fset cs"
  by (simp add: by_key_def)

lemma by_key_distinct [simp]: "distinct (by_key cs)"
  by (simp add: by_key_def)

lemma length_by_key [simp]: "length (by_key cs) = fcard cs"
  by (simp add: by_key_def)

lemma chunk_cells_sets:
  assumes "chunk_cells x = (added, removed)"
  shows "set added \<subseteq> fset (sub_cells (ss_sub x) |-| ss_published_cells x)"
    "set removed \<subseteq> fset (ss_published_cells x |-| sub_cells (ss_sub x))"
  using assms set_take_subset [of _ "by_key (sub_cells (ss_sub x) |-| ss_published_cells x)"]
    set_take_subset [of _ "by_key (ss_published_cells x |-| sub_cells (ss_sub x))"]
  unfolding chunk_cells_def Let_def prod.inject by (metis by_key_set)+

lemma quiet_chunk:
  assumes "chunk_cells x = (added, removed)"
  shows "quiet (apply_chunk added removed) x"
proof -
  have "set added \<inter> fset (ss_published_cells x) = {}" using chunk_cells_sets(1) [OF assms] by auto
  then show ?thesis
    by (auto simp: quiet_def calm_def apply_chunk_def hydration_inv_def fset_of_list.rep_eq split: option.split)
qed

lemma next_aoi_chunk_inv: "srv_inv s \<Longrightarrow> srv_inv (fst (next_aoi_chunk p s))"
  by (auto simp: next_aoi_chunk_def Let_def intro!: quiet_inv quiet_chunk split: option.split prod.split)

lemma min_cell_in: "min_cell cs = Some c \<Longrightarrow> c |\<in>| cs"
  using by_key_set [of cs] by (auto simp: min_cell_def simp del: by_key_set split: list.splits)

lemma next_hydration_in: "next_hydration_cell cs cur = Some c \<Longrightarrow> c |\<in>| cs"
  by (auto simp: next_hydration_cell_def bind_eq_Some_conv dest!: min_cell_in split: option.splits)

lemma quiet_begin: "quiet (begin_hydration n) x"
proof -
  have "hydration_inv x \<Longrightarrow> hydration_inv (begin_hydration n x)"
    by (auto simp: begin_hydration_def Let_def hydration_inv_def dest!: next_hydration_in split: option.splits)
  then show ?thesis
    by (simp add: quiet_def calm_def) (simp add: begin_hydration_def Let_def split: option.split)
qed

lemma prepare_inv: "srv_inv s \<Longrightarrow> srv_inv (fst (prepare_cell_hydration p n s))"
  using quiet_begin by (auto simp: prepare_cell_hydration_def Let_def quiet_def calm_def intro!: quiet_inv split: option.split)

lemma upd_hydration_inv:
  assumes "srv_inv s" "\<And>h. hy_cell (f h) = hy_cell h"
  shows "srv_inv (upd_hydration p f s)"
  unfolding upd_hydration_def
  by (rule quiet_upd_inv [OF assms(1)]) (auto simp: quiet_def calm_def hydration_inv_def assms(2))

lemma send_cell_inv: "srv_inv s \<Longrightarrow> srv_inv (fst (send_cell fb p c ps bs ms s))"
  by (simp add: send_cell_def next_seq_def Let_def split_beta send_bounded_inv)

lemma hydrate_players_inv: "srv_inv s \<Longrightarrow> srv_inv (fst (hydrate_players fb p a s w))"
  by (simp add: hydrate_players_def Let_def split_beta upd_hydration_inv send_cell_inv scan_progress_def)

lemma hydrate_mooring_inv: "srv_inv s \<Longrightarrow> srv_inv (fst (hydrate_mooring fb p c row s w))"
  by (simp add: hydrate_mooring_def Let_def split_beta upd_hydration_inv send_cell_inv)

lemma finish_hydration_inv: "srv_inv s \<Longrightarrow> srv_inv (fst (finish_hydration fb p c s w))"
  by (auto simp: finish_hydration_def Let_def split_beta send_cell_inv quiet_def calm_def hydration_inv_def
      intro!: quiet_upd_inv split: option.split)

text \<open>Reading pages of moorings uses up engine verdicts only.\<close>

lemma same_tokens_faults [simp]: "same_tokens d (d\<lparr>db_faults := fs\<rparr>)"
  by (simp add: same_tokens_def)

lemma srv_inv_faults: "srv_inv s \<Longrightarrow> srv_inv (s\<lparr>sv_db := (sv_db s)\<lparr>db_faults := fs\<rparr>\<rparr>)"
  by (rule srv_inv_db) (simp_all add: srv_inv_def core_inv_def identity_inv_def)

lemma moorings_read:
  assumes "moorings_in_cell_after x z a l d = (d', r)"
  shows "\<exists>fs. d' = d\<lparr>db_faults := fs\<rparr>"
proof (cases "1 \<le> l \<and> l \<le> MAX_MOORINGS_PAGE_ROWS")
  case True
  with assms show ?thesis by (cases a) (auto simp: moorings_in_cell_after_def dest!: stmt_read)
next
  case False
  with assms have "d' = d\<lparr>db_faults := db_faults d\<rparr>" by (auto simp: moorings_in_cell_after_def)
  then show ?thesis by blast
qed

lemma hydrate_moorings_inv:
  assumes "srv_inv s"
  shows "srv_inv (fst (hydrate_moorings fb p c s w))"
proof -
  define cur where "cur = Option.bind (Option.bind (fmlookup (sv_sessions s) p) ss_active_hydration) hy_mooring_cursor"
  obtain d r where q: "moorings_in_cell_after (cx c) (cz c) cur (min CELL_MOORINGS_PER_PACKET MAX_MOORINGS_PAGE_ROWS) (sv_db s) = (d, r)"
    by (cases "moorings_in_cell_after (cx c) (cz c) cur (min CELL_MOORINGS_PER_PACKET MAX_MOORINGS_PAGE_ROWS) (sv_db s)")
  have "srv_inv (s\<lparr>sv_db := d\<rparr>)" using srv_inv_faults [OF assms] moorings_read [OF q] by auto
  then have "srv_inv (fst (hydrate_mooring fb p c row (s\<lparr>sv_db := d\<rparr>) w'))" "srv_inv (fst (finish_hydration fb p c (s\<lparr>sv_db := d\<rparr>) w'))"
    "srv_inv (s\<lparr>sv_db := d\<rparr>)" for row w'
    by (simp_all add: hydrate_mooring_inv finish_hydration_inv)
  then show ?thesis
    unfolding hydrate_moorings_def Let_def cur_def [symmetric] q
    by (simp add: split_beta split: sum.split list.split)
qed

lemma process_one_inv: "srv_inv s \<Longrightarrow> srv_inv (fst (process_one_aoi_work fb p s w))"
  using next_aoi_chunk_inv [of s p]
  by (auto simp: process_one_aoi_work_def Let_def next_seq_def split_beta send_bounded_inv prepare_inv
      hydrate_players_inv hydrate_moorings_inv split: option.split prod.split)

lemma aoi_step_inv: "srv_inv (fst sw) \<Longrightarrow> srv_inv (fst (aoi_step fb p sw))"
proof (cases sw)
  case (Pair s w)
  assume "srv_inv (fst sw)"
  with Pair have s: "srv_inv (s\<lparr>sv_aoi_recipients := sv_aoi_recipients s |-| {|p|}\<rparr>)"
    using aoi_subset [of s] by (intro aoi_recipients_inv) auto
  then show ?thesis
    using process_one_inv [OF s, of fb p] by (simp add: Pair aoi_step_def Let_def split_beta schedule_aoi_inv)
qed

lemma process_aoi_work_inv: "srv_inv s \<Longrightarrow> srv_inv (fst (process_aoi_work fb s))"
  by (simp add: process_aoi_work_def Let_def, rule fold_inv [where I = "\<lambda>sw. srv_inv (fst sw)"])
    (auto intro: aoi_step_inv split: option.split)

section \<open>Fanout\<close>

lemma capture_cases:
  obtains (cached) a where "sv_fanout_audience_cache s = Some a" "capture_fanout_recipients s = (s, Some a)"
  | (none) "sv_fanout_audience_cache s = None" "capture_fanout_recipients s = (s, None)"
  | (fresh) a where "sv_fanout_audience_cache s = None" "a = \<lparr>au_ptr = sv_next_arc s, au_items = current_audience s\<rparr>"
      "retained_fanout_audience_entries s + length (current_audience s) \<le> FANOUT_QUEUE_RECIPIENTS"
      "capture_fanout_recipients s = (s\<lparr>sv_fanout_audience_cache := Some a, sv_next_arc := sv_next_arc s + 1\<rparr>, Some a)"
proof (cases "sv_fanout_audience_cache s")
  case (Some a)
  with cached show ?thesis by (simp add: capture_fanout_recipients_def)
next
  case None
  show ?thesis
  proof (cases "current_audience s = [] \<or>
      (case checked_add_u64 (retained_fanout_audience_entries s) (length (current_audience s)) of
         None \<Rightarrow> True | Some n \<Rightarrow> n > FANOUT_QUEUE_RECIPIENTS)")
    case True
    then have "capture_fanout_recipients s = (s, None)" using None unfolding capture_fanout_recipients_def Let_def by simp
    with None none show ?thesis by simp
  next
    case False
    then have "retained_fanout_audience_entries s + length (current_audience s) \<le> FANOUT_QUEUE_RECIPIENTS"
      by (simp add: checked_add_u64_def split: if_splits)
    moreover have "capture_fanout_recipients s = (s\<lparr>sv_fanout_audience_cache := Some \<lparr>au_ptr = sv_next_arc s, au_items = current_audience s\<rparr>,
        sv_next_arc := sv_next_arc s + 1\<rparr>, Some \<lparr>au_ptr = sv_next_arc s, au_items = current_audience s\<rparr>)"
      using False None unfolding capture_fanout_recipients_def Let_def by simp
    ultimately show ?thesis using None fresh by blast
  qed
qed

lemma current_audience_gens:
  assumes "gen_inv (sv_sessions s) g auds" "r \<in> set (current_audience s)"
  shows "snd r \<le> g"
proof -
  from assms(2) have "r \<in> set (List.map_filter (\<lambda>p. map_option (\<lambda>x. (p, ss_generation x)) (fmlookup (sv_sessions s) p))
      (sorted_list_of_fset (sv_snapshot_recipients s)))"
    unfolding current_audience_def by (rule in_set_takeD)
  then obtain p x where "fmlookup (sv_sessions s) p = Some x" "r = (p, ss_generation x)"
    by (auto simp: List.map_filter_def)
  with assms(1) show ?thesis by (simp add: gen_inv_def)
qed

lemma capture_inv:
  assumes inv: "srv_inv s" and c: "capture_fanout_recipients s = (s', r)"
  shows "srv_inv s' \<and> (\<forall>a. r = Some a \<longrightarrow> sv_fanout_audience_cache s' = Some a)
    \<and> sv_chat_fanout s' = sv_chat_fanout s \<and> sv_chat_fanout_bytes s' = sv_chat_fanout_bytes s \<and> sv_clock_fanout s' = sv_clock_fanout s"
proof (cases rule: capture_cases [of s])
  case (fresh a)
  have s': "s' = s\<lparr>sv_fanout_audience_cache := Some a, sv_next_arc := sv_next_arc s + 1\<rparr>" and r: "r = Some a"
    using c fresh by auto
  note parts = core_invD [OF srv_invD(1) [OF inv]]
  have la: "live_audiences s' = a # live_audiences s" using fresh(1) by (simp add: s' live_audiences_def)
  have arcs: "arcs_inv (live_audiences s) (sv_next_arc s)" using parts(5) by (simp add: fanout_inv_def)
  then have new: "b \<in> set (live_audiences s) \<Longrightarrow> au_ptr b \<noteq> au_ptr a" for b
    by (auto simp: arcs_inv_def fresh(2))
  have arcs': "arcs_inv (live_audiences s') (sv_next_arc s')"
    using arcs new unfolding la by (auto simp: arcs_inv_def s' fresh(2) less_SucI)
  have "a \<notin> set (live_audiences s)" using new by blast
  then have "retained_fanout_audience_entries s' = length (current_audience s) + retained_fanout_audience_entries s"
    unfolding retained_sum [OF arcs] retained_sum [OF arcs'] la by (simp add: fresh(2))
  moreover have "current_audience s' = current_audience s" by (simp add: s' current_audience_def)
  ultimately have "fanout_inv s'"
    using parts(5) arcs' fresh(2,3) by (simp add: fanout_inv_def s')
  moreover have "gen_inv (sv_sessions s) (sv_next_session_generation s) (live_audiences s')"
    using parts(4) current_audience_gens [OF parts(4)] unfolding la gen_inv_def by (auto simp: fresh(2))
  ultimately have "srv_inv s'" using inv by (simp add: srv_inv_def core_inv_def s')
  then show ?thesis by (simp add: s' r)
qed (use inv c in auto)

text \<open>Queueing or replacing jobs whose audience is the cached one.\<close>

lemma queue_change_inv:
  assumes inv: "srv_inv s" and q: "queue_inv chat n clk"
    and auds: "fj_recipients ` set chat \<union> (case clk of None \<Rightarrow> {} | Some j \<Rightarrow> {fj_recipients j}) \<subseteq> set (live_audiences s)"
  shows "srv_inv (s\<lparr>sv_chat_fanout := chat, sv_chat_fanout_bytes := n, sv_clock_fanout := clk\<rparr>)"
proof -
  let ?s = "s\<lparr>sv_chat_fanout := chat, sv_chat_fanout_bytes := n, sv_clock_fanout := clk\<rparr>"
  note parts = core_invD [OF srv_invD(1) [OF inv]]
  have sub: "set (live_audiences ?s) \<subseteq> set (live_audiences s)"
    using auds by (auto simp: live_audiences_def split: option.splits)
  have "fanout_inv ?s"
  proof (rule fanout_shrink [OF parts(5) sub])
    show "\<And>a. sv_fanout_audience_cache ?s = Some a \<Longrightarrow> au_items a = current_audience ?s"
      using parts(5) by (simp add: fanout_inv_def current_audience_def)
  qed (use q in simp_all)
  with gen_subset [OF parts(4) sub] inv show ?thesis by (simp add: srv_inv_def core_inv_def)
qed

lemma broadcast_clock_inv:
  assumes inv: "srv_inv s"
  shows "srv_inv (broadcast_clock fb wall s)"
proof -
  let ?s1 = "s\<lparr>sv_seq := sv_seq s + 1, sv_clock_fanout := None\<rparr>"
  have q: "queue_inv (sv_chat_fanout s) (sv_chat_fanout_bytes s) (sv_clock_fanout s)"
    using core_invD(5) [OF srv_invD(1) [OF inv]] by (simp add: fanout_inv_def)
  have "srv_inv (s\<lparr>sv_chat_fanout := sv_chat_fanout s, sv_chat_fanout_bytes := sv_chat_fanout_bytes s, sv_clock_fanout := None\<rparr>)"
    using q by (intro queue_change_inv [OF inv]) (auto simp: queue_inv_def live_audiences_def)
  then have i0: "srv_inv (s\<lparr>sv_clock_fanout := None\<rparr>)" by simp
  have eq: "?s1 = (s\<lparr>sv_clock_fanout := None\<rparr>)\<lparr>sv_seq := sv_seq s + 1\<rparr>" by simp
  have i1: "srv_inv ?s1" unfolding eq by (rule iffD2 [OF srv_inv_scalar(1) i0])
  obtain s2 r where c: "capture_fanout_recipients ?s1 = (s2, r)" by (cases "capture_fanout_recipients ?s1")
  note cap = capture_inv [OF i1 c]
  show ?thesis
  proof (cases r)
    case None
    with c cap show ?thesis by (simp add: broadcast_clock_def next_seq_def Let_def)
  next
    case (Some a)
    let ?j = "\<lparr>fj_bytes = world_clock_msg fb (sv_seq s + 1) (clock_now wall s), fj_sender_cell = None, fj_recipients = a, fj_next_recipient = 0\<rparr>"
    have "srv_inv (s2\<lparr>sv_chat_fanout := sv_chat_fanout s2, sv_chat_fanout_bytes := sv_chat_fanout_bytes s2, sv_clock_fanout := Some ?j\<rparr>)"
      using cap q Some by (intro queue_change_inv) (auto simp: queue_inv_def live_audiences_def job_inv_def)
    with c Some show ?thesis by (simp add: broadcast_clock_def next_seq_def Let_def)
  qed
qed

lemma fanout_job_run_frame:
  assumes "fanout_job_run a b s job w = (s', job', w')"
  shows "\<exists>h n. s' = s\<lparr>sv_host := h\<rparr> \<and> job' = job\<lparr>fj_next_recipient := n\<rparr>
    \<and> (host_inv (sv_host s) \<longrightarrow> host_inv h \<and> peer_ids h = peer_ids (sv_host s))
    \<and> (job_inv job \<longrightarrow> job_inv job')"
  using assms
proof (induction a b s job w rule: fanout_job_run.induct)
  case (1 a b s job w)
  let ?r = "au_items (fj_recipients job) ! fj_next_recipient job"
  let ?job = "job\<lparr>fj_next_recipient := fj_next_recipient job + 1\<rparr>"
  show ?case
  proof (cases "fj_next_recipient job < length (au_items (fj_recipients job)) \<and> fw_scans w < a \<and> fw_sends w < b")
    case False
    then have "s' = s\<lparr>sv_host := sv_host s\<rparr>" "job' = job\<lparr>fj_next_recipient := fj_next_recipient job\<rparr>"
      using 1(3) by (auto simp: fanout_job_run.simps [of a b s job w])
    moreover have "job\<lparr>fj_next_recipient := fj_next_recipient job\<rparr> = job" by (cases job) simp
    ultimately show ?thesis by metis
  next
    case True
    then have ji: "job_inv ?job" by (simp add: job_inv_def)
    show ?thesis
    proof (cases "should_send ?job ?r s")
      case send: True
      from 1(3) True send obtain w1 where
        "fanout_job_run a b (srv_send (fst ?r) (fj_bytes ?job) s) ?job w1 = (s', job', w')"
        "w1 = w\<lparr>fw_scans := fw_scans w + 1, fw_sends := fw_sends w + 1, fw_bytes := fw_bytes w + length (fj_bytes job)\<rparr>"
        by (simp add: fanout_job_run.simps [of a b s job w] Let_def)
      with 1(1) [OF True refl refl refl] send obtain h n where "s' = (srv_send (fst ?r) (fj_bytes ?job) s)\<lparr>sv_host := h\<rparr>"
        "job' = ?job\<lparr>fj_next_recipient := n\<rparr>" "job_inv job'"
        "host_inv (sv_host (srv_send (fst ?r) (fj_bytes ?job) s)) \<longrightarrow> host_inv h \<and> peer_ids h = peer_ids (sv_host (srv_send (fst ?r) (fj_bytes ?job) s))"
        using ji by auto
      then show ?thesis by (intro exI [of _ h] exI [of _ n]) (simp add: srv_send_def send_unreliable_frame)
    next
      case False
      from 1(3) True False have "fanout_job_run a b s ?job (w\<lparr>fw_scans := fw_scans w + 1\<rparr>) = (s', job', w')"
        by (simp add: fanout_job_run.simps [of a b s job w] Let_def)
      with 1(2) [OF True refl refl refl False] ji obtain h n where "s' = s\<lparr>sv_host := h\<rparr>" "job' = ?job\<lparr>fj_next_recipient := n\<rparr>" "job_inv job'"
        "host_inv (sv_host s) \<longrightarrow> host_inv h \<and> peer_ids h = peer_ids (sv_host s)"
        by auto
      then show ?thesis by (intro exI [of _ h] exI [of _ n]) simp
    qed
  qed
qed

lemma queue_turn_inv:
  assumes inv: "srv_inv s" and q: "queue_inv chat n clk" and h: "host_inv h"
    and auds: "fj_recipients ` set chat \<union> (case clk of None \<Rightarrow> {} | Some j \<Rightarrow> {fj_recipients j}) \<subseteq> set (live_audiences s)"
  shows "srv_inv (s\<lparr>sv_host := h, sv_chat_fanout := chat, sv_chat_fanout_bytes := n, sv_clock_fanout := clk, sv_fanout_prefer_clock := b\<rparr>)"
proof -
  have "srv_inv (((s\<lparr>sv_chat_fanout := chat, sv_chat_fanout_bytes := n, sv_clock_fanout := clk\<rparr>)\<lparr>sv_host := h\<rparr>)\<lparr>sv_fanout_prefer_clock := b\<rparr>)"
    by (rule iffD2 [OF srv_inv_scalar(6)], rule srv_inv_host [OF _ h], rule queue_change_inv [OF inv q auds])
  then show ?thesis by (rule back_subst [where P = srv_inv]) simp
qed

lemma fanout_turn_inv:
  assumes inv: "srv_inv s" and tk: "take_job s = (fc, Some (s1, job))" and run: "fanout_job_run a b s1 job w = (s2, job2, w2)"
  shows "srv_inv (job_done fc job2 s2)" "srv_inv (put_back fc job2 s2)"
proof -
  have q: "queue_inv (sv_chat_fanout s) (sv_chat_fanout_bytes s) (sv_clock_fanout s)" and hi: "host_inv (sv_host s)"
    using core_invD [OF srv_invD(1) [OF inv]] by (simp_all add: fanout_inv_def)
  obtain h n where s2: "s2 = s1\<lparr>sv_host := h\<rparr>" "job2 = job\<lparr>fj_next_recipient := n\<rparr>" "host_inv (sv_host s1) \<longrightarrow> host_inv h"
    "job_inv job \<longrightarrow> job_inv job2"
    using fanout_job_run_frame [OF run] by blast
  show "srv_inv (job_done fc job2 s2)" "srv_inv (put_back fc job2 s2)"
  proof (atomize (full), cases fc)
    case True
    then have s1: "s1 = s\<lparr>sv_clock_fanout := None\<rparr>" "sv_clock_fanout s = Some job"
      using tk by (auto simp: take_job_def Let_def split: if_splits list.splits)
    have ji: "job_inv job2" and h: "host_inv h" using q s1 s2(3,4) hi by (auto simp: queue_inv_def)
    have "srv_inv (s\<lparr>sv_host := h, sv_chat_fanout := sv_chat_fanout s, sv_chat_fanout_bytes := sv_chat_fanout_bytes s,
        sv_clock_fanout := None, sv_fanout_prefer_clock := False\<rparr>)"
      using q h by (intro queue_turn_inv [OF inv]) (auto simp: queue_inv_def live_audiences_def)
    moreover have "srv_inv (s\<lparr>sv_host := h, sv_chat_fanout := sv_chat_fanout s, sv_chat_fanout_bytes := sv_chat_fanout_bytes s,
        sv_clock_fanout := Some job2, sv_fanout_prefer_clock := sv_fanout_prefer_clock s\<rparr>)"
      using q h ji s1(2) s2(2) by (intro queue_turn_inv [OF inv]) (auto simp: queue_inv_def live_audiences_def)
    moreover have "job_done fc job2 s2 = s\<lparr>sv_host := h, sv_chat_fanout := sv_chat_fanout s, sv_chat_fanout_bytes := sv_chat_fanout_bytes s,
        sv_clock_fanout := None, sv_fanout_prefer_clock := False\<rparr>"
      "put_back fc job2 s2 = s\<lparr>sv_host := h, sv_chat_fanout := sv_chat_fanout s, sv_chat_fanout_bytes := sv_chat_fanout_bytes s,
        sv_clock_fanout := Some job2, sv_fanout_prefer_clock := sv_fanout_prefer_clock s\<rparr>"
      using True by (simp_all add: job_done_def put_back_def s2(1) s1(1))
    ultimately show "srv_inv (job_done fc job2 s2) \<and> srv_inv (put_back fc job2 s2)" by (simp only: simp_thms)
  next
    case False
    then obtain r where s1: "s1 = s\<lparr>sv_chat_fanout := r\<rparr>" "sv_chat_fanout s = job # r"
      using tk by (auto simp: take_job_def Let_def split: if_splits list.splits)
    have ji: "job_inv job2" and h: "host_inv h" using q s1 s2(3,4) hi by (auto simp: queue_inv_def)
    have "srv_inv (s\<lparr>sv_host := h, sv_chat_fanout := r, sv_chat_fanout_bytes := sv_chat_fanout_bytes s - length (fj_bytes job),
        sv_clock_fanout := sv_clock_fanout s, sv_fanout_prefer_clock := True\<rparr>)"
      using q h s1(2) by (intro queue_turn_inv [OF inv]) (auto simp: queue_inv_def live_audiences_def split: option.splits)
    moreover have "srv_inv (s\<lparr>sv_host := h, sv_chat_fanout := job2 # r, sv_chat_fanout_bytes := sv_chat_fanout_bytes s,
        sv_clock_fanout := sv_clock_fanout s, sv_fanout_prefer_clock := sv_fanout_prefer_clock s\<rparr>)"
      using q h ji s1(2) s2(2) by (intro queue_turn_inv [OF inv]) (auto simp: queue_inv_def live_audiences_def split: option.splits)
    moreover have "job_done fc job2 s2 = s\<lparr>sv_host := h, sv_chat_fanout := r, sv_chat_fanout_bytes := sv_chat_fanout_bytes s - length (fj_bytes job),
        sv_clock_fanout := sv_clock_fanout s, sv_fanout_prefer_clock := True\<rparr>"
      "put_back fc job2 s2 = s\<lparr>sv_host := h, sv_chat_fanout := job2 # r, sv_chat_fanout_bytes := sv_chat_fanout_bytes s,
        sv_clock_fanout := sv_clock_fanout s, sv_fanout_prefer_clock := sv_fanout_prefer_clock s\<rparr>"
      using False s2(2) by (simp_all add: job_done_def put_back_def s2(1) s1(1))
    ultimately show "srv_inv (job_done fc job2 s2) \<and> srv_inv (put_back fc job2 s2)" by (simp only: simp_thms)
  qed
qed

text \<open>The loop as a rule: it stops, finishes a job and goes on, or puts an unfinished job back.\<close>

lemma fanout_loop_rule:
  assumes stop: "\<And>s w. (fw_scans w < a \<and> fw_sends w < b \<longrightarrow> sv_clock_fanout s = None \<and> sv_chat_fanout s = []) \<Longrightarrow> P s w (s, w)"
    and finish: "\<And>s w fc s1 job s2 job2 w2 res. take_job s = (fc, Some (s1, job)) \<Longrightarrow> fanout_job_run a b s1 job w = (s2, job2, w2) \<Longrightarrow>
      fj_next_recipient job2 = length (au_items (fj_recipients job2)) \<Longrightarrow>
      P (job_done fc job2 s2) (w2\<lparr>fw_jobs := fw_jobs w2 + 1\<rparr>) res \<Longrightarrow> P s w res"
    and pause: "\<And>s w fc s1 job s2 job2 w2. take_job s = (fc, Some (s1, job)) \<Longrightarrow> fanout_job_run a b s1 job w = (s2, job2, w2) \<Longrightarrow>
      fj_next_recipient job2 \<noteq> length (au_items (fj_recipients job2)) \<Longrightarrow> P s w (put_back fc job2 s2, w2)"
  shows "P s w (fanout_loop a b s w)"
proof (induction "queued_jobs s" arbitrary: s w rule: less_induct)
  case less
  show ?case
  proof (cases "fw_scans w < a \<and> fw_sends w < b")
    case False
    have "fanout_loop a b s w = (s, w)" by (subst fanout_loop.simps) (simp only: False if_False)
    moreover have "P s w (s, w)" by (rule stop) (use False in blast)
    ultimately show ?thesis by simp
  next
    case go: True
    obtain fc r where tk: "take_job s = (fc, r)" by (cases "take_job s")
    show ?thesis
    proof (cases r)
      case None
      have e: "sv_clock_fanout s = None" "sv_chat_fanout s = []" using take_job_None [of s fc] tk None by auto
      then have "fanout_loop a b s w = (s, w)"
        by (subst fanout_loop.simps) (simp only: go tk None if_True simp_thms prod.case option.case e)
      with e stop show ?thesis by simp
    next
      case (Some sj)
      obtain s1 job where sj: "sj = (s1, job)" by (cases sj)
      obtain s2 job2 w2 where run: "fanout_job_run a b s1 job w = (s2, job2, w2)" by (cases "fanout_job_run a b s1 job w")
      have "queued_jobs (job_done fc job2 s2) < queued_jobs s"
        using take_job_fewer [of s fc s1 job] fanout_job_run_queues [of a b s1 job w] tk Some sj run
        by (simp add: queued_jobs_def job_done_def)
      moreover have "fanout_loop a b s w = (if fj_next_recipient job2 = length (au_items (fj_recipients job2)) then
          fanout_loop a b (job_done fc job2 s2) (w2\<lparr>fw_jobs := fw_jobs w2 + 1\<rparr>) else (put_back fc job2 s2, w2))"
        by (subst fanout_loop.simps) (simp only: go tk Some sj run if_True simp_thms prod.case option.case)
      ultimately show ?thesis using less finish [OF _ run] pause [OF _ run] tk Some sj by simp
    qed
  qed
qed

lemma fanout_loop_inv: "srv_inv s \<Longrightarrow> srv_inv (fst (fanout_loop a b s w))"
  by (rule fanout_loop_rule [where P = "\<lambda>s w res. srv_inv s \<longrightarrow> srv_inv (fst res)", rule_format]) (auto dest: fanout_turn_inv)

lemma process_fanout_inv: "srv_inv s \<Longrightarrow> srv_inv (fst (process_fanout_work s))"
  by (simp add: process_fanout_work_def process_fanout_work_with_budget_def fanout_loop_inv)

section \<open>Dirty flush\<close>

lemma touch_tokens:
  assumes inv: "db_inv d" and t: "touch_last_seen i now d = (d', r)"
  shows "db_inv d' \<and> same_tokens d d'"
proof -
  have "db_inv d'" using touch_last_seen_inv [OF inv, of i now] t by simp
  moreover from t [unfolded touch_last_seen_def] have "same_tokens d d'"
    by (cases rule: update_player_value) (auto simp: same_tokens_def)
  ultimately show ?thesis by simp
qed

lemma touch_flush_inv:
  assumes inv: "srv_inv s" and t: "touch_last_seen_for_flush pid now s = (s', r)"
  shows "srv_inv s'" "\<exists>d. s' = s\<lparr>sv_db := d\<rparr>"
proof -
  have db: "db_inv (sv_db s)" using core_invD(8) [OF srv_invD(1) [OF inv]] by (simp add: identity_inv_def)
  obtain d q where d: "touch_last_seen (i64_of_u64 pid) now (sv_db s) = (d, q)" by (cases "touch_last_seen (i64_of_u64 pid) now (sv_db s)")
  have s': "s' = s\<lparr>sv_db := d\<rparr>" using t d by (simp add: touch_last_seen_for_flush_def)
  then show "\<exists>d. s' = s\<lparr>sv_db := d\<rparr>" by blast
  show "srv_inv s'" using srv_inv_db [OF inv] touch_tokens [OF db d] by (simp add: s')
qed

text \<open>Taking a player off the lists and setting its session's mark in one go.\<close>

lemma mark_inv:
  assumes inv: "srv_inv s" and D: "D |\<subseteq>| sv_dirty_players s" and F: "F |\<subseteq>| sv_flush_players s"
    and keep: "sv_dirty_players s |\<union>| sv_flush_players s |\<subseteq>| finsert pid (D |\<union>| F)"
    and b: "b \<longrightarrow> pid |\<in>| D |\<union>| F"
  shows "srv_inv (set_dirty pid b (s\<lparr>sv_dirty_players := D, sv_flush_players := F\<rparr>))"
proof -
  note idx = core_invD(3) [OF srv_invD(1) [OF inv]]
  have dirty: "dirty_inv (sv_sessions s) (sv_dirty_players s) (sv_flush_players s)" using core_invD(6) [OF srv_invD(1) [OF inv]] .
  show ?thesis
  proof (cases "fmlookup (sv_player_peers s) pid")
    case None
    have "dirty_inv (fmadj 0 id (sv_sessions s)) D F" unfolding dirty_inv_def
    proof (intro allI impI)
      fix p x assume "fmlookup (fmadj 0 id (sv_sessions s)) p = Some x" and d: "ss_dirty x"
      then have x: "fmlookup (sv_sessions s) p = Some x" by (auto split: if_splits simp: option.map_id)
      with None index_sessionD [OF idx x] have "ss_player_id x \<noteq> pid" by auto
      moreover have "ss_player_id x |\<in>| sv_dirty_players s |\<union>| sv_flush_players s" using dirty x d by (simp add: dirty_inv_def)
      ultimately show "ss_player_id x |\<in>| D |\<union>| F" using keep by auto
    qed
    from adj_inv [OF inv _ this] have "srv_inv (s\<lparr>sv_sessions := fmadj 0 id (sv_sessions s), sv_dirty_players := D, sv_flush_players := F\<rparr>)"
      by (simp add: calm_def)
    moreover have "fmadj 0 id (sv_sessions s) = sv_sessions s" by (rule fmap_ext) (simp add: option.map_id)
    ultimately show ?thesis using None by (simp add: set_dirty_def)
  next
    case (Some p)
    let ?f = "\<lambda>x. if ss_player_id x = pid then x\<lparr>ss_dirty := b\<rparr> else x"
    have "dirty_inv (fmadj p ?f (sv_sessions s)) D F" unfolding dirty_inv_def
    proof (intro allI impI)
      fix q y assume y: "fmlookup (fmadj p ?f (sv_sessions s)) q = Some y" "ss_dirty y"
      show "ss_player_id y |\<in>| D |\<union>| F"
      proof (cases "ss_player_id y = pid")
        case False
        then have "fmlookup (sv_sessions s) q = Some y" using y by (auto split: if_splits)
        then have "ss_player_id y |\<in>| sv_dirty_players s |\<union>| sv_flush_players s" using dirty y(2) by (simp add: dirty_inv_def)
        with keep False show ?thesis by auto
      next
        case True
        have "q = p"
        proof (rule ccontr)
          assume "q \<noteq> p"
          then have "fmlookup (sv_sessions s) q = Some y" using y by simp
          from index_sessionD [OF idx this] True Some \<open>q \<noteq> p\<close> show False by simp
        qed
        then obtain z where z: "y = ?f z" using y(1) by auto
        then have "ss_player_id z = pid" using True by (simp split: if_splits)
        with z y(2) have b by simp
        with assms(5) True show ?thesis by simp
      qed
    qed
    from adj_inv [OF inv _ this] have "srv_inv (s\<lparr>sv_sessions := fmadj p ?f (sv_sessions s), sv_dirty_players := D, sv_flush_players := F\<rparr>)"
      by (simp add: calm_def hydration_inv_def)
    moreover have "set_dirty pid b (s\<lparr>sv_dirty_players := D, sv_flush_players := F\<rparr>)
        = s\<lparr>sv_sessions := fmadj p ?f (sv_sessions s), sv_dirty_players := D, sv_flush_players := F\<rparr>"
      using Some by (simp add: set_dirty_def upd_session_alt)
    ultimately show ?thesis by (simp only:)
  qed
qed

lemma flush_ids_inv: "srv_inv s \<Longrightarrow> srv_inv (fst (flush_ids now ids s n))"
proof (induction now ids s n rule: flush_ids.induct)
  case (2 now pid r s n)
  obtain s1 q where t: "touch_last_seen_for_flush pid now s = (s1, q)" by (cases "touch_last_seen_for_flush pid now s")
  note s1 = touch_flush_inv(1) [OF 2(2) t]
  show ?case
  proof (cases q)
    case (Inl e)
    with t s1 show ?thesis by simp
  next
    case (Inr u)
    let ?s2 = "s1\<lparr>sv_flush_players := sv_flush_players s1 |-| {|pid|}\<rparr>"
    have "srv_inv (set_dirty pid (pid |\<in>| sv_dirty_players s1)
        (s1\<lparr>sv_dirty_players := sv_dirty_players s1, sv_flush_players := sv_flush_players s1 |-| {|pid|}\<rparr>))"
      by (rule mark_inv [OF s1]) auto
    then have "srv_inv (set_dirty pid (pid |\<in>| sv_dirty_players ?s2) ?s2)" by simp
    with 2(1) [OF t [symmetric] Inr refl] t Inr show ?thesis by (simp add: Let_def)
  qed
qed simp

lemma process_dirty_flush_inv: "srv_inv s \<Longrightarrow> srv_inv (fst (process_dirty_flush_at now s))"
  by (simp add: process_dirty_flush_at_def flush_ids_inv)

lemma begin_dirty_flush_inv:
  assumes "srv_inv s"
  shows "srv_inv (begin_dirty_flush s)"
  using assms
  by (auto simp: begin_dirty_flush_def srv_inv_def core_inv_def fanout_defs dirty_inv_def cong: option.case_cong)

lemma flush_attempt_inv: "srv_inv (fst st) \<Longrightarrow> srv_inv (fst (flush_attempt now ids st))"
proof (induction now ids st rule: flush_attempt.induct)
  case (2 now pid r s pending err)
  obtain s1 q where t: "touch_last_seen_for_flush pid now s = (s1, q)" by (cases "touch_last_seen_for_flush pid now s")
  have s1: "srv_inv s1" using touch_flush_inv(1) [OF _ t] 2(3) by simp
  show ?case
  proof (cases q)
    case (Inl e)
    with 2(1) [OF t [symmetric] Inl] t s1 show ?thesis by simp
  next
    case (Inr u)
    have "srv_inv (set_dirty pid False
        (s1\<lparr>sv_dirty_players := sv_dirty_players s1 |-| {|pid|}, sv_flush_players := sv_flush_players s1 |-| {|pid|}\<rparr>))"
      by (rule mark_inv [OF s1]) auto
    moreover have "s1\<lparr>sv_flush_players := sv_flush_players s1 |-| {|pid|}, sv_dirty_players := sv_dirty_players s1 |-| {|pid|}\<rparr>
      = s1\<lparr>sv_dirty_players := sv_dirty_players s1 |-| {|pid|}, sv_flush_players := sv_flush_players s1 |-| {|pid|}\<rparr>" by simp
    ultimately have "srv_inv (set_dirty pid False
        (s1\<lparr>sv_flush_players := sv_flush_players s1 |-| {|pid|}, sv_dirty_players := sv_dirty_players s1 |-| {|pid|}\<rparr>))" by (simp only:)
    with 2(2) [OF t [symmetric] Inr refl] t Inr show ?thesis by (simp add: Let_def)
  qed
qed simp

lemma flush_attempts_inv: "srv_inv (fst st) \<Longrightarrow> srv_inv (fst (flush_attempts k now st))"
proof (induction k now st rule: flush_attempts.induct)
  case (2 k now s pending err)
  then show ?case using flush_attempt_inv [of "(s, pending, err)" now "sorted_list_of_fset pending"] by simp
qed simp

lemma flush_all_inv:
  assumes "srv_inv s"
  shows "srv_inv (fst (flush_all now s))"
proof -
  have "srv_inv (s\<lparr>sv_flush_players := sv_flush_players s |\<union>| P\<rparr>)" for P
    using assms by (auto simp: srv_inv_def core_inv_def fanout_defs dirty_inv_def cong: option.case_cong)
  then show ?thesis by (simp add: flush_all_def Let_def flush_attempts_inv)
qed

lemma tick_work_inv: "srv_inv s \<Longrightarrow> srv_inv (tick_work fb te s)"
  by (simp add: tick_work_def Let_def process_aoi_work_inv broadcast_snapshots_inv process_fanout_inv process_dirty_flush_inv)

end
