(* ===== verification/Server_Handlers_Inv.thy ===== *)
theory Server_Handlers_Inv
  imports Server_Work_Inv
begin

text \<open>
  Every handler keeps the server's invariant, on every branch and under every engine failure, and the
  errors that would mean a broken index cannot occur.
\<close>

section \<open>The database operations of the handlers keep the player tokens\<close>

lemma same_tokens_refl [simp]: "same_tokens d d"
  by (simp add: same_tokens_def)

lemma same_tokens_trans: "same_tokens a b \<Longrightarrow> same_tokens b c \<Longrightarrow> same_tokens a c"
  by (simp add: same_tokens_def)

lemma ledger_apply_rel:
  assumes "\<And>x. R x x" "\<And>x y z. R x y \<Longrightarrow> R y z \<Longrightarrow> R x z" "\<And>p s. R s (fst (balance p s))" "\<And>i s. R s (fst (lookup i s))"
    "\<And>p t b s. R s (fst (commit p t b s))"
  shows "R s (fst (ledger_apply balance lookup commit p t s))"
proof -
  obtain s1 q where l: "lookup (txn_id t) s = (s1, q)" by (cases "lookup (txn_id t) s")
  then have r1: "R s s1" using assms(4) [of s "txn_id t"] by simp
  obtain s2 b where bl: "balance p s1 = (s2, b)" by (cases "balance p s1")
  then have r2: "R s s2" using assms(3) [of s1 p] assms(2) [OF r1] by simp
  have "R s s3" if "commit p t n s2 = (s3, c)" for n s3 c
    using assms(5) [of s2 p t n] assms(2) [OF r2] that by simp
  with r1 r2 l bl show ?thesis by (auto simp: ledger_apply_def split: sum.splits option.splits prod.splits)
qed

lemma market_apply_rel:
  assumes "\<And>x. R x x" "\<And>x y z. R x y \<Longrightarrow> R y z \<Longrightarrow> R x z" "\<And>p i s. R s (fst (state p i s))" "\<And>i s. R s (fst (lookup i s))"
    "\<And>t a b s. R s (fst (commit t a b s))"
  shows "R s (fst (market_apply state lookup commit t s))"
proof -
  obtain s1 q where l: "lookup (trade_txn_id t) s = (s1, q)" by (cases "lookup (trade_txn_id t) s")
  then have r1: "R s s1" using assms(4) [of s "trade_txn_id t"] by simp
  obtain s2 b where bl: "state (trade_port_id t) (trade_item_id t) s1 = (s2, b)"
    by (cases "state (trade_port_id t) (trade_item_id t) s1")
  then have r2: "R s s2" using assms(3) [of s1 "trade_port_id t" "trade_item_id t"] assms(2) [OF r1] by simp
  have "R s s3" if "commit t n m s2 = (s3, c)" for n m s3 c
    using assms(5) [of s2 t n m] assms(2) [OF r2] that by simp
  with r1 r2 l bl show ?thesis by (auto simp: market_apply_def split: sum.splits option.splits prod.splits)
qed

lemma read_tokens: "same_tokens d (fst (stmt (\<lambda>d. (d, g d)) d))"
  using stmt_read [of g d] by (cases "stmt (\<lambda>d. (d, g d)) d") fastforce

lemma map_sql_tokens: "same_tokens d (fst (m d)) \<Longrightarrow> same_tokens d (fst (map_sql f m d))"
  by (cases "m d") (simp add: map_sql_def sql_bind_def sql_ok_def split: sum.split)

lemma commit_txn_tokens: "same_tokens d (fst (commit_txn i pid a k n ts b d))"
proof (cases "commit_txn i pid a k n ts b d")
  case (Pair d' r)
  let ?l = "\<lparr>lr_player_id = pid, lr_amount = a, lr_kind = k, lr_note = n, lr_applied_at = ts\<rparr>"
  from Pair [unfolded commit_txn_def] have "same_tokens d d'"
  proof (cases rule: in_tx_cases)
    case (ok x fs d1 gs)
    from ok(2) obtain d2 u where i: "insert_ledger i ?l (d\<lparr>db_faults := fs\<rparr>) = (d2, Inr u)"
        and up: "update_player pid (\<lambda>r. r\<lparr>pr_gold := b\<rparr>) d2 = (d1, Inr x)"
      by (cases rule: bind_cases) auto
    from i have "db_players d2 = db_players d" by (cases rule: insert_ledger_value) auto
    with up have "same_tokens d d1" by (cases rule: update_player_value) (auto simp: same_tokens_def)
    with ok(3) show ?thesis by (simp add: same_tokens_def)
  qed simp
  with Pair show ?thesis by simp
qed

lemma commit_trade_tokens: "same_tokens d (fst (commit_trade i p it a b ts d))"
proof (cases "commit_trade i p it a b ts d")
  case (Pair d' r)
  from Pair have "same_tokens d d'" by (cases rule: commit_trade_value) (auto simp: same_tokens_def)
  with Pair show ?thesis by simp
qed

lemma ledger_tokens: "same_tokens d (fst (db_ledger_apply now p t d))"
  unfolding db_ledger_apply_def
  by (rule ledger_apply_rel [where R = same_tokens])
    (auto simp: db_balance_def player_balance_def db_lookup_txn_def lookup_txn_def db_commit_def
      intro: same_tokens_trans read_tokens map_sql_tokens commit_txn_tokens)

lemma market_tokens: "same_tokens d (fst (db_market_apply now t d))"
  unfolding db_market_apply_def
  by (rule market_apply_rel [where R = same_tokens])
    (auto simp: db_market_state_def market_state_def db_lookup_trade_def lookup_trade_def db_market_commit_def
      intro: same_tokens_trans read_tokens map_sql_tokens commit_trade_tokens)

lemma upsert_mooring_tokens: "same_tokens d (fst (upsert_mooring col m d))"
proof (cases "upsert_mooring col m d")
  case (Pair d' r)
  from Pair [unfolded upsert_mooring_def] have "same_tokens d d'"
    by (cases rule: stmt_cases) (auto simp: same_tokens_def Let_def split: option.splits prod.splits)
  with Pair show ?thesis by simp
qed

section \<open>Economy and mooring\<close>

lemma srv_db_inv: "srv_inv s \<Longrightarrow> db_inv (sv_db s)"
  by (simp add: srv_inv_def core_inv_def identity_inv_def)

lemma session_known:
  assumes "srv_inv s" "fmlookup (sv_sessions s) p = Some x"
  shows "ss_player_id x \<in> v_known (db_ledger_view (sv_db s))"
    "\<exists>r. fmlookup (db_players (sv_db s)) (i64_of_u64 (ss_player_id x)) = Some r \<and> pr_token_hash r = ss_identity_hash x"
proof -
  have "identity_inv (sv_sessions s) (sv_identity_players s) (sv_db s)" using assms(1) by (simp add: srv_inv_def core_inv_def)
  then show "\<exists>r. fmlookup (db_players (sv_db s)) (i64_of_u64 (ss_player_id x)) = Some r \<and> pr_token_hash r = ss_identity_hash x"
    using assms(2) unfolding identity_inv_def by blast
  then show "ss_player_id x \<in> v_known (db_ledger_view (sv_db s))" by (auto simp: db_ledger_view_def)
qed

lemma read_inv: "srv_inv s \<Longrightarrow> stmt (\<lambda>d. (d, g d)) (sv_db s) = (d, r) \<Longrightarrow> srv_inv (s\<lparr>sv_db := d\<rparr>)"
  using stmt_read [of g "sv_db s" d r] srv_inv_faults by auto

lemma econ_apply_inv:
  assumes inv: "srv_inv s" and p: "pid \<in> v_known (db_ledger_view (sv_db s))"
  shows "srv_inv (fst (econ_apply fb rd peer pid t s))"
proof -
  obtain d r where a: "db_ledger_apply (rd_persist rd) pid t (sv_db s) = (d, r)" by (cases "db_ledger_apply (rd_persist rd) pid t (sv_db s)")
  have "db_inv d" using sql_ledger.apply_refines [OF srv_db_inv [OF inv] p] a by (simp add: db_ledger_apply_def)
  with srv_inv_db [OF inv] ledger_tokens [of "sv_db s" "rd_persist rd" pid t] a have "srv_inv (s\<lparr>sv_db := d\<rparr>)" by simp
  with a show ?thesis by (simp add: econ_apply_def reply_inv split: sum.split)
qed

lemma on_econ_inv:
  assumes inv: "srv_inv s"
  shows "srv_inv (fst (on_econ fb rd peer m adm s))"
proof (cases "fmlookup (sv_sessions s) peer")
  case None
  with inv show ?thesis by (simp add: on_econ_def)
next
  case (Some x)
  obtain d r where l: "lookup_txn (i64_of_u64 (et_txn_id m)) (sv_db s) = (d, r)" by (cases "lookup_txn (i64_of_u64 (et_txn_id m)) (sv_db s)")
  have i1: "srv_inv (s\<lparr>sv_db := d\<rparr>)" by (rule read_inv [OF inv l [unfolded lookup_txn_def]])
  have "srv_inv (fst (econ_apply fb rd peer (ss_player_id x) t (s\<lparr>sv_db := d, sv_econ_limiter := k\<rparr>)))" for t k
    using session_known(1) [OF i1, of peer x] Some i1 by (intro econ_apply_inv) simp_all
  with Some l i1 inv show ?thesis
    by (simp add: on_econ_def Let_def split_beta split: sum.split)
qed

lemma trade_apply_inv:
  assumes inv: "srv_inv s"
  shows "srv_inv (fst (trade_apply fb rd peer t s))"
proof -
  obtain d r where a: "db_market_apply (rd_persist rd) t (sv_db s) = (d, r)" by (cases "db_market_apply (rd_persist rd) t (sv_db s)")
  have "db_inv d" using sql_market.market_refines [OF srv_db_inv [OF inv]] a by (simp add: db_market_apply_def)
  with srv_inv_db [OF inv] market_tokens [of "sv_db s" "rd_persist rd" t] a have "srv_inv (s\<lparr>sv_db := d\<rparr>)" by simp
  with a show ?thesis by (simp add: trade_apply_def reply_inv split: sum.split)
qed

lemma trade_limited_inv:
  assumes inv: "srv_inv s"
  shows "srv_inv (fst (trade_limited fb peer t s))"
proof -
  obtain d r where a: "market_state (trade_port_id t) (trade_item_id t) (sv_db s) = (d, r)"
    by (cases "market_state (trade_port_id t) (trade_item_id t) (sv_db s)")
  have "srv_inv (s\<lparr>sv_db := d\<rparr>)" by (rule read_inv [OF inv a [unfolded market_state_def]])
  with a show ?thesis by (simp add: trade_limited_def Let_def split_beta reply_inv split: sum.split)
qed

lemma on_trade_inv:
  assumes inv: "srv_inv s"
  shows "srv_inv (fst (on_trade fb rd peer m adm s))"
proof -
  obtain d r where l: "lookup_trade (mt_txn_id m) (sv_db s) = (d, r)" by (cases "lookup_trade (mt_txn_id m) (sv_db s)")
  have i1: "srv_inv (s\<lparr>sv_db := d\<rparr>)" by (rule read_inv [OF inv l [unfolded lookup_trade_def]])
  then have "srv_inv (fst (trade_apply fb rd peer t (s\<lparr>sv_db := d, sv_trade_limiter := k\<rparr>)))"
    "srv_inv (fst (trade_limited fb peer t (s\<lparr>sv_db := d, sv_trade_limiter := k\<rparr>)))" for t k
    by (simp_all add: trade_apply_inv trade_limited_inv)
  with l i1 inv show ?thesis
    by (simp add: on_trade_def Let_def split_beta split: sum.split option.split)
qed

lemma on_moor_inv:
  assumes inv: "srv_inv s"
  shows "srv_inv (fst (on_moor fb col rd peer req adm s))"
proof -
  have save: "srv_inv (fst (moor_save fb col rd peer boat owner m name s'))" if s': "srv_inv s'" for boat owner m name s'
  proof -
    define row where "row = moor_row (rd_persist rd) boat owner
      (grid_cell_of (world_grid (sv_world s')) (fst (m_pos m)) (snd (snd (m_pos m)))) m name"
    obtain d r where u: "upsert_mooring col row (sv_db s') = (d, r)" by (cases "upsert_mooring col row (sv_db s')")
    have "srv_inv (s'\<lparr>sv_db := d\<rparr>)"
      using srv_inv_db [OF s'] upsert_mooring_inv [OF srv_db_inv [OF s'], of col row] upsert_mooring_tokens [of "sv_db s'" col row] u
      by simp
    with u show ?thesis by (simp add: moor_save_def Let_def reply_inv flip: row_def split: sum.split)
  qed
  show ?thesis
    using inv by (simp add: on_moor_def Let_def split_beta next_seq_def send_bounded_inv save split: option.split)
qed

section \<open>Client state and chat\<close>

lemma recenter_block:
  "sub_radius sub = r \<Longrightarrow> sub_center sub = Some c0 \<Longrightarrow> sub_cells sub = fset_of_list (cells_in_radius c0 r) \<Longrightarrow>
   fst (recenter iter c sub) = \<lparr>sub_radius = r, sub_center = Some c, sub_cells = fset_of_list (cells_in_radius c r)\<rparr>"
  by (cases sub) (simp add: recenter_def Let_def)

lemma tame_move: "tame r (move_session m cs c) x"
  by (auto simp: tame_def move_session_def session_inv_def hydration_inv_def recenter_block)

lemma move_inv:
  assumes inv: "srv_inv s" and x: "fmlookup (sv_sessions s) p = Some x"
  shows "srv_inv (s\<lparr>sv_world := fst (place_in_cell (ss_player_id x) c (sv_world s)),
    sv_sessions := fmadj p (move_session m cs c) (sv_sessions s), sv_dirty_players := finsert (ss_player_id x) (sv_dirty_players s)\<rparr>)"
proof -
  let ?m = "fmadj p (move_session m cs c) (sv_sessions s)" and ?w = "fst (place_in_cell (ss_player_id x) c (sv_world s))"
  let ?D = "finsert (ss_player_id x) (sv_dirty_players s)"
  note core = srv_invD(1) [OF inv]
  have "dirty_inv ?m ?D (sv_flush_players s)"
    using core_invD(6) [OF core] x unfolding dirty_inv_def by (auto simp: move_session_def)
  from adj_core [OF core tame_move this]
  have "core_inv ((s\<lparr>sv_sessions := ?m, sv_dirty_players := ?D, sv_flush_players := sv_flush_players s\<rparr>)\<lparr>sv_world := ?w\<rparr>)"
    by (rule iffD2 [OF core_inv_world])
  then have c: "core_inv (s\<lparr>sv_world := ?w, sv_sessions := ?m, sv_dirty_players := ?D\<rparr>)"
    by (rule back_subst [where P = core_inv]) simp
  have idx: "fmlookup (sv_player_peers s) (ss_player_id x) = Some p" using core_invD(3) [OF core] x by (rule index_sessionD)
  have v: "world_inv (sv_world s)" "\<And>pid. cell_of_entity pid (sv_world s)
      = Option.bind (fmlookup (sv_player_peers s) pid) (\<lambda>p. Option.bind (fmlookup (sv_sessions s) p) ss_cell)"
    using srv_invD(2) [OF inv] by (simp_all add: view_inv_def)
  have "cell_of_entity pid ?w = Option.bind (fmlookup (sv_player_peers s) pid) (\<lambda>p. Option.bind (fmlookup ?m p) ss_cell)" for pid
  proof (cases "pid = ss_player_id x")
    case True
    with idx x show ?thesis by (simp add: cell_of_entity_def place_in_cell_cell move_session_def)
  next
    case False
    have "q \<noteq> p" if "fmlookup (sv_player_peers s) pid = Some q" for q
      using index_other [OF core_invD(3) [OF core] x that] False by simp
    with False v(2) [of pid] show ?thesis
      by (cases "fmlookup (sv_player_peers s) pid") (auto simp: cell_of_entity_def place_in_cell_cell)
  qed
  with v(1) c show ?thesis by (simp add: srv_inv_def view_inv_def place_in_cell_inv)
qed

lemma on_client_state_inv:
  assumes inv: "srv_inv s"
  shows "srv_inv (on_client_state peer cs now s)"
proof (cases "fmlookup (sv_sessions s) peer")
  case None
  with inv show ?thesis by (simp add: on_client_state_def)
next
  case (Some x)
  have "srv_inv (s\<lparr>sv_client_state_limiter := l, sv_world := fst (place_in_cell (ss_player_id x) c (sv_world s)),
      sv_sessions := fmadj peer (move_session m cs c) (sv_sessions s), sv_dirty_players := finsert (ss_player_id x) (sv_dirty_players s)\<rparr>)" for l c m
    using move_inv [where s = "s\<lparr>sv_client_state_limiter := l\<rparr>" and p = peer and x = x and c = c and m = m and cs = cs]
      inv Some by simp
  with Some inv show ?thesis
    by (simp add: on_client_state_def Let_def split_beta world_place_def cell_of_entity_def place_in_cell_cell upd_session_alt
        emit_aoi_inv split: option.split)
qed

lemma queue_chat_inv:
  assumes inv: "srv_inv s" and room: "\<not> chat_queue_full s"
  shows "srv_inv (queue_chat b c s)"
proof (cases "length b > MAX_PAYLOAD")
  case True
  with inv show ?thesis by (simp add: queue_chat_def)
next
  case False
  obtain s1 r where cap: "capture_fanout_recipients s = (s1, r)" by (cases "capture_fanout_recipients s")
  note i1 = capture_inv [OF inv cap]
  show ?thesis
  proof (cases r)
    case None
    with cap False i1 show ?thesis by (simp add: queue_chat_def)
  next
    case (Some a)
    let ?j = "\<lparr>fj_bytes = b, fj_sender_cell = Some c, fj_recipients = a, fj_next_recipient = 0\<rparr>"
    have "queue_inv (sv_chat_fanout s) (sv_chat_fanout_bytes s) (sv_clock_fanout s)"
      using core_invD(5) [OF srv_invD(1) [OF inv]] by (simp add: fanout_inv_def)
    then have "queue_inv (sv_chat_fanout s1 @ [?j]) (sv_chat_fanout_bytes s1 + length b) (sv_clock_fanout s1)"
      using i1 room False by (auto simp: queue_inv_def chat_queue_full_def job_inv_def)
    then have "srv_inv (s1\<lparr>sv_chat_fanout := sv_chat_fanout s1 @ [?j], sv_chat_fanout_bytes := sv_chat_fanout_bytes s1 + length b,
        sv_clock_fanout := sv_clock_fanout s1\<rparr>)"
      using i1 Some by (intro queue_change_inv) (auto simp: live_audiences_def split: option.split)
    moreover have "queue_chat b c s = s1\<lparr>sv_chat_fanout := sv_chat_fanout s1 @ [?j],
        sv_chat_fanout_bytes := sv_chat_fanout_bytes s1 + length b, sv_clock_fanout := sv_clock_fanout s1\<rparr>"
      using False cap Some by (simp add: queue_chat_def)
    ultimately show ?thesis by (simp only:)
  qed
qed

lemma on_chat_inv: "srv_inv s \<Longrightarrow> srv_inv (on_chat fb rd peer chat now s)"
  by (auto simp: on_chat_def Let_def next_seq_def split_beta chat_queue_full_def intro!: queue_chat_inv split: option.split)

section \<open>Disconnects\<close>

lemma on_disconnect_inv:
  assumes inv: "srv_inv s"
  shows "srv_inv (fst (on_disconnect rd peer s))"
proof -
  let ?s0 = "s\<lparr>sv_hello_limiter := limiter_clear peer (sv_hello_limiter s)\<rparr>"
  have i0: "srv_inv ?s0" using inv by simp
  show ?thesis
  proof (cases "fmlookup (sv_sessions s) peer")
    case None
    with i0 show ?thesis by (simp add: on_disconnect_def unregister_session_def Let_def)
  next
    case (Some x)
    then have x: "fmlookup (sv_sessions ?s0) peer = Some x" by simp
    define s1 where "s1 = fst (unregister_session peer ?s0)"
    note val = unregister_value [OF srv_invD(1) [OF i0] x]
    have u: "unregister_session peer ?s0 = (s1, Some x)" by (simp add: s1_def val)
    have c1: "core_inv s1" unfolding s1_def by (rule unregister_core [OF srv_invD(1) [OF i0]])
    have "view_but (ss_player_id x) (sv_sessions s1) (sv_player_peers s1) (sv_world s1)"
      using unregister_view [OF i0 x] unfolding s1_def by (simp add: val)
    moreover have "fmlookup (sv_player_peers s1) (ss_player_id x) = None" by (simp add: s1_def val)
    ultimately have v: "view_inv (sv_sessions s1) (sv_player_peers s1) (world_remove (ss_player_id x) (sv_world s1))"
      by (rule view_remove)
    let ?s2 = "clear_player_limiters (ss_player_id x) (s1\<lparr>sv_world := world_remove (ss_player_id x) (sv_world s1)\<rparr>)"
    let ?s3 = "?s2\<lparr>sv_flush_players := finsert (ss_player_id x) (sv_flush_players ?s2)\<rparr>"
    have "srv_inv (s1\<lparr>sv_world := world_remove (ss_player_id x) (sv_world s1)\<rparr>)" using c1 v by (simp add: srv_inv_def)
    then have "srv_inv ?s2" by (simp add: clear_player_limiters_def)
    then have i3: "srv_inv ?s3" by (auto simp: srv_inv_def core_inv_def fanout_defs dirty_inv_def cong: option.case_cong)
    obtain s4 r where t: "touch_last_seen_for_flush (ss_player_id x) (rd_persist rd) ?s3 = (s4, r)"
      by (cases "touch_last_seen_for_flush (ss_player_id x) (rd_persist rd) ?s3")
    note i4 = touch_flush_inv(1) [OF i3 t]
    obtain d where s4: "s4 = ?s3\<lparr>sv_db := d\<rparr>" using touch_flush_inv(2) [OF i3 t] by blast
    have none: "fmlookup (sv_player_peers s4) (ss_player_id x) = None"
      by (simp add: s4 clear_player_limiters_def s1_def val)
    have "srv_inv (set_dirty (ss_player_id x) False (s4\<lparr>sv_dirty_players := sv_dirty_players s4 |-| {|ss_player_id x|},
        sv_flush_players := sv_flush_players s4 |-| {|ss_player_id x|}\<rparr>))"
      by (rule mark_inv [OF i4]) auto
    then have "srv_inv (s4\<lparr>sv_dirty_players := sv_dirty_players s4 |-| {|ss_player_id x|},
        sv_flush_players := sv_flush_players s4 |-| {|ss_player_id x|}\<rparr>)"
      using none by (simp add: set_dirty_def)
    then have fin: "srv_inv (s4\<lparr>sv_flush_players := sv_flush_players s4 |-| {|ss_player_id x|},
        sv_dirty_players := sv_dirty_players s4 |-| {|ss_player_id x|}\<rparr>)"
      by (rule back_subst [where P = srv_inv]) simp
    have "fst (on_disconnect rd peer s) = (case r of Inl e \<Rightarrow> s4\<lparr>sv_flush_paused := True\<rparr>
      | Inr _ \<Rightarrow> s4\<lparr>sv_flush_players := sv_flush_players s4 |-| {|ss_player_id x|},
          sv_dirty_players := sv_dirty_players s4 |-| {|ss_player_id x|}\<rparr>)"
      unfolding on_disconnect_def Let_def u prod.case option.case t by (cases r) simp_all
    with i4 fin show ?thesis by (cases r) simp_all
  qed
qed

end
