(* ===== verification/Server_Track.thy ===== *)
theory Server_Track
  imports Server_Handlers_Inv
begin

text \<open>
  What the server's operations do to the set of sessions and to the set of live transport peers. Most
  leave both alone; the rest open a session only for a live peer and drop a peer only together with
  its session, which \<open>track\<close> says.
\<close>

section \<open>Operations that leave both alone\<close>

definition profile :: "server \<Rightarrow> nat \<times> nat fset \<times> nat fset" where
  "profile s = (sv_next_session_generation s, fmdom (sv_sessions s), peer_ids (sv_host s))"

lemma profile_fields [simp]:
  "profile (s\<lparr>sv_cfg := v0\<rparr>) = profile s"
  "profile (s\<lparr>sv_db := v1\<rparr>) = profile s"
  "profile (s\<lparr>sv_world := v2\<rparr>) = profile s"
  "profile (s\<lparr>sv_player_peers := v3\<rparr>) = profile s"
  "profile (s\<lparr>sv_player_order := v4\<rparr>) = profile s"
  "profile (s\<lparr>sv_snapshot_recipients := v5\<rparr>) = profile s"
  "profile (s\<lparr>sv_snapshot_recipient_cursor := v6\<rparr>) = profile s"
  "profile (s\<lparr>sv_aoi_recipients := v7\<rparr>) = profile s"
  "profile (s\<lparr>sv_aoi_recipient_cursor := v8\<rparr>) = profile s"
  "profile (s\<lparr>sv_chat_fanout := v9\<rparr>) = profile s"
  "profile (s\<lparr>sv_chat_fanout_bytes := v10\<rparr>) = profile s"
  "profile (s\<lparr>sv_clock_fanout := v11\<rparr>) = profile s"
  "profile (s\<lparr>sv_fanout_audience_cache := v12\<rparr>) = profile s"
  "profile (s\<lparr>sv_next_arc := v13\<rparr>) = profile s"
  "profile (s\<lparr>sv_fanout_prefer_clock := v14\<rparr>) = profile s"
  "profile (s\<lparr>sv_dirty_players := v15\<rparr>) = profile s"
  "profile (s\<lparr>sv_flush_players := v16\<rparr>) = profile s"
  "profile (s\<lparr>sv_flush_paused := v17\<rparr>) = profile s"
  "profile (s\<lparr>sv_identity_players := v18\<rparr>) = profile s"
  "profile (s\<lparr>sv_seq := v19\<rparr>) = profile s"
  "profile (s\<lparr>sv_snapshot_tick := v20\<rparr>) = profile s"
  "profile (s\<lparr>sv_boot := v21\<rparr>) = profile s"
  "profile (s\<lparr>sv_epoch_ms := v22\<rparr>) = profile s"
  "profile (s\<lparr>sv_weather_seed := v23\<rparr>) = profile s"
  "profile (s\<lparr>sv_weather_epoch_day := v24\<rparr>) = profile s"
  "profile (s\<lparr>sv_hello_limiter := v25\<rparr>) = profile s"
  "profile (s\<lparr>sv_source_session_limiter := v26\<rparr>) = profile s"
  "profile (s\<lparr>sv_reconnect_limiter := v27\<rparr>) = profile s"
  "profile (s\<lparr>sv_new_session_limiter := v28\<rparr>) = profile s"
  "profile (s\<lparr>sv_trade_limiter := v29\<rparr>) = profile s"
  "profile (s\<lparr>sv_client_state_limiter := v30\<rparr>) = profile s"
  "profile (s\<lparr>sv_chat_limiter := v31\<rparr>) = profile s"
  "profile (s\<lparr>sv_econ_limiter := v32\<rparr>) = profile s"
  "profile (s\<lparr>sv_moor_limiter := v33\<rparr>) = profile s"
  by (simp_all add: profile_def)

lemma profile_basic [simp]:
  "profile (upd_session p f s) = profile s" "profile (upd_hydration p g s) = profile s" "profile (srv_send p b s) = profile s"
  "profile (fst (next_seq s)) = profile s" "profile (fst (send_bounded p b s)) = profile s"
  "profile (schedule_aoi p s) = profile s" "profile (emit_aoi p u s) = profile s" "profile (set_dirty pid d s) = profile s"
  "profile (fst (touch_last_seen_for_flush pid now s)) = profile s"
  by (simp_all add: profile_def upd_session_alt upd_hydration_def srv_send_def next_seq_def send_bounded_def schedule_aoi_def
      emit_aoi_def set_dirty_def touch_last_seen_for_flush_def send_unreliable_frame Let_def split_beta split: option.split)

lemma profile_replies [simp]:
  "profile (reply msg p s) = profile s" "profile (reject_hello fb rd p reason s) = profile s"
  "profile (send_accepted_hello fb rd p pid g s) = profile s" "profile (fst (send_cell fb p c ps bs ms s)) = profile s"
  by (simp_all add: reply_def reject_hello_def send_accepted_hello_def send_cell_def Let_def split_beta)

lemma profile_snapshots [simp]: "profile (fst (broadcast_snapshots fb s)) = profile s"
proof -
  have step: "profile (fst (snapshot_visit fb t p sw)) = profile (fst sw)" for t p sw
    by (cases sw) (simp add: snapshot_visit_def Let_def split_beta split: option.split)
  show ?thesis
    unfolding broadcast_snapshots_def Let_def
    by (rule fold_inv [where I = "\<lambda>sw. profile (fst sw) = profile s"]) (simp_all add: step split: option.split)
qed

lemma profile_aoi [simp]: "profile (fst (process_aoi_work fb s)) = profile s"
proof -
  have ch: "profile (fst (next_aoi_chunk p s)) = profile s" "profile (fst (prepare_cell_hydration p n s)) = profile s"
    "profile (fst (hydrate_players fb p a s w)) = profile s" "profile (fst (hydrate_mooring fb p c row s w)) = profile s"
    "profile (fst (finish_hydration fb p c s w)) = profile s" for p n a s w c row
    by (simp_all add: next_aoi_chunk_def prepare_cell_hydration_def hydrate_players_def hydrate_mooring_def finish_hydration_def
        Let_def split_beta split: option.split)
  have hm: "profile (fst (hydrate_moorings fb p c s w)) = profile s" for p c s w
    by (simp add: hydrate_moorings_def Let_def split_beta ch split: sum.split list.split)
  have one: "profile (fst (process_one_aoi_work fb p s w)) = profile s" for p s w
    using ch(1) [of p s] by (simp add: process_one_aoi_work_def Let_def split_beta ch hm split: option.split prod.split)
  have step: "profile (fst (aoi_step fb p sw)) = profile (fst sw)" for p sw
    by (cases sw) (simp add: aoi_step_def Let_def split_beta one)
  show ?thesis
    unfolding process_aoi_work_def Let_def
    by (rule fold_inv [where I = "\<lambda>sw. profile (fst sw) = profile s"]) (simp_all add: step split: option.split)
qed

lemma profile_capture [simp]: "profile (fst (capture_fanout_recipients s)) = profile s"
  by (cases rule: capture_cases [of s]) simp_all

lemma profile_broadcast_clock [simp]: "profile (broadcast_clock fb wall s) = profile s"
proof -
  have "profile s2 = profile s" if "capture_fanout_recipients (s\<lparr>sv_seq := q, sv_clock_fanout := None\<rparr>) = (s2, r)" for s2 r q
    using that by (metis fst_conv profile_capture profile_fields)
  then show ?thesis by (simp add: broadcast_clock_def next_seq_def Let_def split: prod.split option.split)
qed

lemma profile_job_run: "profile (fst (fanout_job_run a b s job w)) = profile s"
proof (induction a b s job w rule: fanout_job_run.induct)
  case (1 a b s job w)
  note ih = 1(1) [OF _ refl refl refl, simplified] 1(2) [OF _ refl refl refl, simplified]
  show ?case
    by (subst fanout_job_run.simps) (simp add: Let_def ih)
qed

lemma profile_queues [simp]:
  "profile (job_done fc j s) = profile s" "profile (put_back fc j s) = profile s"
  by (simp_all add: job_done_def put_back_def)

lemma profile_take_job: "take_job s = (fc, Some (s1, j)) \<Longrightarrow> profile s1 = profile s"
  by (auto simp: take_job_def Let_def split: if_splits list.splits)

lemma profile_fanout_loop: "profile (fst (fanout_loop a b s w)) = profile s"
proof (rule fanout_loop_rule [where P = "\<lambda>s w res. profile (fst res) = profile s"])
  have "profile s2 = profile s" if "take_job s = (fc, Some (s1, job))" "fanout_job_run a b s1 job w = (s2, job2, w2)" for s fc s1 job w s2 job2 w2
    using profile_job_run [of a b s1 job w] profile_take_job [OF that(1)] that(2) by simp
  then show "profile (fst res) = profile s"
    if "take_job s = (fc, Some (s1, job))" "fanout_job_run a b s1 job w = (s2, job2, w2)"
      "profile (fst res) = profile (job_done fc job2 s2)" for s fc s1 job w s2 job2 w2 res
    using that by simp
  show "profile (fst (put_back fc job2 s2, w2)) = profile s"
    if "take_job s = (fc, Some (s1, job))" "fanout_job_run a b s1 job w = (s2, job2, w2)" for s fc s1 job w s2 job2 w2
    using profile_job_run [of a b s1 job w] profile_take_job [OF that(1)] that(2) by simp
qed simp

lemma profile_fanout [simp]: "profile (fst (process_fanout_work s)) = profile s"
  by (simp add: process_fanout_work_def process_fanout_work_with_budget_def profile_fanout_loop)

lemma profile_flush_ids: "profile (fst (flush_ids now ids s n)) = profile s"
proof (induction now ids s n rule: flush_ids.induct)
  case (2 now pid r s n)
  obtain s1 q where t: "touch_last_seen_for_flush pid now s = (s1, q)" by (cases "touch_last_seen_for_flush pid now s")
  then have p: "profile s1 = profile s" by (metis fst_conv profile_basic(9))
  show ?case
  proof (cases q)
    case (Inl e)
    with t p show ?thesis by simp
  next
    case (Inr u)
    with 2 [OF t [symmetric] Inr refl] t p show ?thesis by (simp add: Let_def)
  qed
qed simp

lemma profile_flush [simp]:
  "profile (fst (process_dirty_flush_at now s)) = profile s" "profile (begin_dirty_flush s) = profile s"
  by (simp_all add: process_dirty_flush_at_def begin_dirty_flush_def profile_flush_ids)

lemma profile_tick_work [simp]: "profile (tick_work fb te s) = profile s"
  by (simp add: tick_work_def Let_def)

lemma profile_messages [simp]:
  "profile (on_client_state p cs now s) = profile s" "profile (on_chat fb rd p c now s) = profile s"
  "profile (fst (on_econ fb rd p m adm s)) = profile s" "profile (fst (on_trade fb rd p tr adm s)) = profile s"
  "profile (fst (on_moor fb col rd p req adm s)) = profile s"
proof -
  have "profile (queue_chat b c s) = profile s" for b c s
  proof -
    obtain s1 r where c: "capture_fanout_recipients s = (s1, r)" by (cases "capture_fanout_recipients s")
    then have "profile s1 = profile s" by (metis fst_conv profile_capture)
    with c show ?thesis by (simp add: queue_chat_def split: option.split)
  qed
  then show "profile (on_chat fb rd p c now s) = profile s"
    by (simp add: on_chat_def next_seq_def Let_def split_beta split: option.split)
  show "profile (on_client_state p cs now s) = profile s" "profile (fst (on_econ fb rd p m adm s)) = profile s"
    "profile (fst (on_trade fb rd p tr adm s)) = profile s" "profile (fst (on_moor fb col rd p req adm s)) = profile s"
    by (simp_all add: on_client_state_def on_econ_def econ_apply_def on_trade_def trade_limited_def trade_apply_def on_moor_def
        moor_save_def Let_def split_beta split: option.split sum.split)
qed

section \<open>Sessions against live peers\<close>

definition track :: "server \<Rightarrow> server \<Rightarrow> bool" where
  "track s s' \<longleftrightarrow>
     fmdom (sv_sessions s') |\<subseteq>| fmdom (sv_sessions s) |\<union>| peer_ids (sv_host s')
     \<and> fmdom (sv_sessions s') |\<inter>| peer_ids (sv_host s) |\<subseteq>| peer_ids (sv_host s')"

lemma track_profile: "profile s' = profile s \<Longrightarrow> track s s'"
  by (auto simp: profile_def track_def)

lemma track_trans: "track a b \<Longrightarrow> track b c \<Longrightarrow> track a c"
  unfolding track_def fsubset_iff finter_iff funion_iff by blast

text \<open>Every session belongs to a live peer, or to one whose disconnect has yet to be handled.\<close>

definition covered :: "nat fset \<Rightarrow> server \<Rightarrow> bool" where
  "covered pending s \<longleftrightarrow> fmdom (sv_sessions s) |\<subseteq>| peer_ids (sv_host s) |\<union>| pending"

lemma covered_track: "covered P s \<Longrightarrow> track s s' \<Longrightarrow> covered P s'"
  unfolding track_def covered_def fsubset_iff finter_iff funion_iff by blast

end
