(* ===== verification/Server_Hello.thy ===== *)
theory Server_Hello
  imports Server_Track
begin

text \<open>
  The hello handler: admission of an identity, eviction of its prior session, opening of the new one.
\<close>

section \<open>Admission keeps the identity index in step\<close>

lemma i64_u64_id: "1 \<le> i \<Longrightarrow> i \<le> i64_max \<Longrightarrow> i64_of_u64 (word_of_int i) = i"
  using i64_u64_roundtrip [of i] by (simp add: in_i64_def u64_of_i64_def machine_int)

lemma identity_count:
  assumes "identity_inv ses ids d"
  shows "fmlen ids \<le> fmlen (db_players d)"
proof -
  have look: "fmlookup ids h = Some pid \<longleftrightarrow> (\<exists>r. fmlookup (db_players d) (i64_of_u64 pid) = Some r \<and> pr_token_hash r = h)" for h pid
    using assms by (simp add: identity_inv_def)
  let ?f = "\<lambda>h. i64_of_u64 (the (fmlookup ids h))"
  have row: "\<exists>r. fmlookup (db_players d) (?f h) = Some r \<and> pr_token_hash r = h" if "h |\<in>| fmdom ids" for h
  proof -
    from that obtain pid where "fmlookup ids h = Some pid" by (auto simp: fmlookup_dom_iff)
    with look [of h pid] show ?thesis by simp
  qed
  have "inj_on ?f (fset (fmdom ids))"
  proof (rule inj_onI)
    fix g h assume gh: "g \<in> fset (fmdom ids)" "h \<in> fset (fmdom ids)" "?f g = ?f h"
    from row [OF gh(1)] obtain q where "fmlookup (db_players d) (?f g) = Some q" "pr_token_hash q = g" by blast
    moreover from row [OF gh(2)] obtain r where "fmlookup (db_players d) (?f h) = Some r" "pr_token_hash r = h" by blast
    ultimately show "g = h" using gh(3) by simp
  qed
  moreover have "?f ` fset (fmdom ids) \<subseteq> fset (fmdom (db_players d))" using row by (force simp: fmlookup_dom_iff)
  ultimately have "card (fset (fmdom ids)) \<le> card (fset (fmdom (db_players d)))" by (intro card_inj_on_le) auto
  then show ?thesis by (simp add: fmlen_def fcard.rep_eq)
qed

lemma index_identity_ok:
  assumes inv: "srv_inv s" and adm: "admit_player_by_token identity name now (max_player_rows_u32 (sv_cfg s)) (sv_db s) = (d, Inr (Admitted row))"
  shows "0 \<le> pr_id row"
    and "\<exists>s'. index_identity t identity (fmlookup (sv_identity_players s) identity) (word_of_int (pr_id row)) (s\<lparr>sv_db := d\<rparr>) = (s', Inr ())
      \<and> srv_inv s' \<and> fmlookup (sv_identity_players s') identity = Some (word_of_int (pr_id row))
      \<and> profile s' = profile s \<and> sv_sessions s' = sv_sessions s \<and> sv_player_peers s' = sv_player_peers s"
proof -
  let ?pid = "word_of_int (pr_id row) :: u64"
  note ok = admit_player_ok [OF srv_db_inv [OF inv], of identity name now "max_player_rows_u32 (sv_cfg s)", unfolded adm]
  have dinv: "db_inv d" and a: "db_players d = fmupd (pr_id row) row (db_players (sv_db s))" "pr_token_hash row = identity"
    using ok by (auto simp: admission_ok_def)
  have "fmlookup (db_players d) (pr_id row) = Some row" by (simp add: a(1))
  note row = db_inv_player(2,3) [OF dinv this]
  have "db_players_seq d \<le> i64_max" using dinv by (simp add: db_inv_def)
  with row have "1 \<le> pr_id row" "pr_id row \<le> i64_max" by auto
  then have pid_id: "i64_of_u64 ?pid = pr_id row" by (rule i64_u64_id)
  show "0 \<le> pr_id row" using \<open>1 \<le> pr_id row\<close> by simp
  have ident: "identity_inv (sv_sessions s) (sv_identity_players s) (sv_db s)" using inv by (simp add: srv_inv_def core_inv_def)
  then have look: "fmlookup (sv_identity_players s) h = Some pid
      \<longleftrightarrow> (\<exists>r. fmlookup (db_players (sv_db s)) (i64_of_u64 pid) = Some r \<and> pr_token_hash r = h)" for h pid
    by (simp add: identity_inv_def)
  show "\<exists>s'. index_identity t identity (fmlookup (sv_identity_players s) identity) ?pid (s\<lparr>sv_db := d\<rparr>) = (s', Inr ())
      \<and> srv_inv s' \<and> fmlookup (sv_identity_players s') identity = Some ?pid
      \<and> profile s' = profile s \<and> sv_sessions s' = sv_sessions s \<and> sv_player_peers s' = sv_player_peers s"
  proof (cases "fmlookup (db_players (sv_db s)) (pr_id row)")
    case (Some old)
    with ok have old: "pr_token_hash old = identity" by (simp add: admission_ok_def)
    then have k: "fmlookup (sv_identity_players s) identity = Some ?pid" using Some pid_id by (simp add: look)
    have "same_tokens (sv_db s) d" using Some old a by (simp add: same_tokens_def)
    then have "srv_inv (s\<lparr>sv_db := d\<rparr>)" by (rule srv_inv_db [OF inv dinv])
    with k show ?thesis by (simp add: index_identity_def)
  next
    case None
    with ok have new: "fmlen (db_players (sv_db s)) < max_player_rows_u32 (sv_cfg s)"
      "\<forall>i r. fmlookup (db_players (sv_db s)) i = Some r \<longrightarrow> pr_token_hash r \<noteq> identity"
      by (auto simp: admission_ok_def)
    then have k: "fmlookup (sv_identity_players s) identity = None"
      using look [of identity "the (fmlookup (sv_identity_players s) identity)"]
      by (cases "fmlookup (sv_identity_players s) identity") auto
    have "max_player_rows_u32 (sv_cfg s) \<le> MAX_PLAYER_ROWS"
      by (simp add: max_player_rows_u32_def clamp_nat_def MAX_PLAYER_ROWS_def)
    then have room: "\<not> fmlen (sv_identity_players s) \<ge> MAX_PLAYER_ROWS" using identity_count [OF ident] new(1) by simp
    let ?s = "s\<lparr>sv_db := d, sv_identity_players := fmupd identity ?pid (sv_identity_players s),
      sv_reconnect_limiter := fst (bounded_allow ?pid t (sv_reconnect_limiter s))\<rparr>"
    have "identity_inv (sv_sessions s) (fmupd identity ?pid (sv_identity_players s)) d"
    proof -
      have "fmlookup (fmupd identity ?pid (sv_identity_players s)) h = Some pid
          \<longleftrightarrow> (\<exists>r. fmlookup (db_players d) (i64_of_u64 pid) = Some r \<and> pr_token_hash r = h)" for h pid
        using None new(2) k a pid_id look [of h pid] i64_of_u64_inj [of pid ?pid] by (auto simp: simp del: i64_of_u64_inj)
      moreover have "fmlookup (fmupd identity ?pid (sv_identity_players s)) (ss_identity_hash x) = Some (ss_player_id x)"
        if "fmlookup (sv_sessions s) p = Some x" for p x
        using ident k that by (auto simp: identity_inv_def)
      ultimately show ?thesis using dinv unfolding identity_inv_def by blast
    qed
    then have "srv_inv ?s" using inv by (simp add: srv_inv_def core_inv_def fanout_defs cong: option.case_cong)
    moreover have "index_identity t identity None ?pid (s\<lparr>sv_db := d\<rparr>) = (?s, Inr ())"
      using room by (simp add: index_identity_def)
    ultimately show ?thesis using k by simp
  qed
qed

section \<open>Evicting and opening\<close>

lemma evict_prior_ok:
  assumes inv: "srv_inv s" and p: "fmlookup (sv_sessions s) peer = None"
  shows "\<exists>s'. evict_prior peer pid s = (s', Inr ()) \<and> core_inv s' \<and> view_but pid (sv_sessions s') (sv_player_peers s') (sv_world s')
    \<and> fmlookup (sv_player_peers s') pid = None \<and> fmlookup (sv_sessions s') peer = None
    \<and> sv_identity_players s' = sv_identity_players s \<and> sv_next_session_generation s' = sv_next_session_generation s
    \<and> track s s' \<and> peer_ids (sv_host s) |-| peer_ids (sv_host s') |\<subseteq>| fmdom (sv_sessions s)"
proof (cases "fmlookup (sv_player_peers s) pid")
  case None
  with inv p show ?thesis
    by (intro exI [of _ s]) (auto simp: evict_prior_def srv_inv_def view_but_weaken track_profile)
next
  case (Some q)
  have hi: "host_inv (sv_host s)" using inv by (simp add: srv_inv_def core_inv_def)
  from index_peerD [OF core_invD(3) [OF srv_invD(1) [OF inv]] Some]
  obtain x where x: "fmlookup (sv_sessions s) q = Some x" "ss_player_id x = pid" by blast
  then have q: "q \<noteq> peer" using p by auto
  define h where "h = (if peer_addr q (sv_host s) \<noteq> None then fst (host_disconnect q (sv_host s)) else sv_host s)"
  have gone: "(if peer_addr q (sv_host s) \<noteq> None then host_disconnect q (sv_host s) else (sv_host s, True)) = (h, True)"
    using host_disconnect_live(2) [OF hi, of q] peer_addr_None [OF hi, of q] by (auto simp: h_def prod_eq_iff)
  have h: "host_inv h" "peer_ids h = peer_ids (sv_host s) |-| {|q|}"
    using host_disconnect_live [OF hi, of q] peer_addr_None [OF hi, of q] hi by (auto simp: h_def)
  have i1: "srv_inv (s\<lparr>sv_host := h\<rparr>)" by (rule srv_inv_host [OF inv h(1)])
  have x1: "fmlookup (sv_sessions (s\<lparr>sv_host := h\<rparr>)) q = Some x" using x by simp
  define s2 where "s2 = fst (unregister_session q (s\<lparr>sv_host := h\<rparr>))"
  note val = unregister_value [OF srv_invD(1) [OF i1] x1]
  have c2: "core_inv s2" unfolding s2_def by (rule unregister_core [OF srv_invD(1) [OF i1]])
  have v2: "view_but pid (sv_sessions s2) (sv_player_peers s2) (sv_world s2)"
    using unregister_view [OF i1 x1] x(2) by (simp add: s2_def val)
  let ?s' = "s2\<lparr>sv_hello_limiter := limiter_clear q (sv_hello_limiter s2)\<rparr>"
  have "evict_prior peer pid s = (?s', Inr ())"
    using Some q gone by (simp add: evict_prior_def Let_def s2_def)
  moreover have "fmlookup (sv_player_peers ?s') pid = None" "fmlookup (sv_sessions ?s') peer = None"
    using p x(2) by (simp_all add: s2_def val)
  moreover have hs: "sv_host ?s' = h" "fmdom (sv_sessions ?s') = fmdom (sv_sessions s) |-| {|q|}" by (simp_all add: s2_def val)
  then have "track s ?s'" unfolding track_def hs h(2) by auto
  moreover have "q |\<in>| fmdom (sv_sessions s)" using x(1) by (rule fmdomI)
  then have "peer_ids (sv_host s) |-| peer_ids (sv_host ?s') |\<subseteq>| fmdom (sv_sessions s)"
    unfolding hs h(2) by auto
  ultimately show ?thesis using c2 v2 by (intro exI [of _ ?s']) (simp add: s2_def val)
qed

lemma new_session_inv:
  assumes "radius \<ge> 0"
  shows "session_inv radius (new_session pid identity name (fst (recenter iter c (the (subscription_new radius)))) c)"
  using assms by (simp add: session_inv_def hydration_inv_def new_session_def subscription_new_def recenter_def Let_def)

lemma open_session_ok:
  assumes c: "core_inv s" and v: "view_but pid (sv_sessions s) (sv_player_peers s) (sv_world s)"
    and pid: "fmlookup (sv_player_peers s) pid = None" and p: "fmlookup (sv_sessions s) peer = None"
    and id: "fmlookup (sv_identity_players s) identity = Some pid" and g: "sv_next_session_generation s < u64_max"
    and live: "peer |\<in>| peer_ids (sv_host s)"
  shows "\<exists>s'. open_session fb rd peer pid identity name gold s = (s', Inr ()) \<and> srv_inv s' \<and> track s s'
    \<and> sv_next_session_generation s' \<le> sv_next_session_generation s + 1
    \<and> (\<exists>x. fmlookup (sv_sessions s') peer = Some x \<and> ss_player_id x = pid \<and> ss_identity_hash x = identity)"
proof -
  define origin where "origin = grid_cell_of (world_grid (sv_world s)) 0 0"
  define rc where "rc = recenter sorted_list_of_fset origin (the (subscription_new (aoi_radius_i32 (sv_cfg s))))"
  define x where "x = new_session pid identity name (fst rc) origin"
  define s1 where "s1 = s\<lparr>sv_world := fst (place_in_cell pid origin (sv_world s))\<rparr>"
  obtain s2 r where reg: "register_session peer x s1 = (s2, r)" by (cases "register_session peer x s1")
  have x: "ss_player_id x = pid" "ss_identity_hash x = identity" "ss_cell x = Some origin" by (simp_all add: x_def new_session_def)
  have xi: "session_inv (aoi_radius_i32 (sv_cfg s1)) x"
    unfolding x_def rc_def by (simp add: s1_def new_session_inv aoi_radius_i32_def)
  have c1: "core_inv s1" using c by (simp add: s1_def)
  have R: "core_inv s2 \<and> registered peer x s1 s2 \<and> r = Inr ()"
    using register_core [OF c1 _ _ xi _ reg] p pid id g x by (auto simp: s1_def)
  have w: "view_but (ss_player_id x) (sv_sessions s1) (sv_player_peers s1) (sv_world s1)"
    using v x by (simp add: s1_def view_but_def place_in_cell_inv cell_of_entity_def place_in_cell_cell)
  have "view_inv (sv_sessions s2) (sv_player_peers s2) (sv_world s1)"
    using core_invD(3) [OF c1] w _ _ conjunct1 [OF conjunct2 [OF R]]
    by (rule register_view) (use x p in \<open>simp_all add: s1_def cell_of_entity_def place_in_cell_cell\<close>)
  moreover have "sv_world s2 = sv_world s1" using R by (simp add: registered_def)
  ultimately have i2: "srv_inv s2" using R by (simp add: srv_inv_def)
  let ?s' = "emit_aoi peer (snd rc) (send_accepted_hello fb rd peer pid gold s2)"
  have "open_session fb rd peer pid identity name gold s = (?s', Inr ())"
    using reg R by (simp add: open_session_def Let_def split_beta flip: origin_def rc_def x_def s1_def)
  moreover have "srv_inv ?s'" using i2 by (simp add: emit_aoi_inv hello_reply_inv)
  moreover have pr: "profile ?s' = profile s2" by simp
  moreover have "track s s2"
  proof -
    have dom: "fmlookup (sv_sessions s2) q = None" if "q \<noteq> peer" "fmlookup (sv_sessions s) q = None" for q
      using R that unfolding registered_def by (auto simp: s1_def)
    have hs: "sv_host s2 = sv_host s" using R by (simp add: registered_def s1_def)
    have "q |\<in>| fmdom (sv_sessions s) |\<union>| peer_ids (sv_host s2)" if "q |\<in>| fmdom (sv_sessions s2)" for q
    proof (cases "q = peer")
      case True
      with live hs show ?thesis by simp
    next
      case False
      with dom [of q] that have "fmlookup (sv_sessions s) q \<noteq> None" by (metis fmdom_notI)
      then show ?thesis by (simp add: fmlookup_dom_iff)
    qed
    then show ?thesis unfolding track_def hs by auto
  qed
  moreover have "sv_next_session_generation s2 \<le> sv_next_session_generation s + 1"
    using reg g p pid x by (auto simp: register_session_def allocate_session_generation_def checked_add_u64_def s1_def Let_def
        schedule_aoi_def split: if_splits)
  moreover have "\<exists>y. fmlookup (sv_sessions ?s') peer = Some y \<and> ss_player_id y = pid \<and> ss_identity_hash y = identity"
    using R x by (auto simp: registered_def emit_aoi_def schedule_aoi_def send_accepted_hello_def next_seq_def Let_def srv_send_def)
  ultimately show ?thesis
    using track_trans [OF \<open>track s s2\<close> track_profile [OF pr]] by (auto simp: profile_def)
qed

section \<open>The handler\<close>

text \<open>
  What a hello may do: keep the invariant, use up at most one generation, open a session only for a
  live peer, and fail only with an error of the store.
\<close>

definition hello_ok :: "server \<Rightarrow> server \<times> (srv_error + unit) \<Rightarrow> bool" where
  "hello_ok s res \<longleftrightarrow>
     srv_inv (fst res) \<and> track s (fst res) \<and> sv_next_session_generation (fst res) \<le> sv_next_session_generation s + 1
     \<and> (snd res = Inr () \<or> (\<exists>e. snd res = Inl (SqlFailed e)))"

lemma hello_ok_quiet:
  assumes "srv_inv s'" "profile s' = profile s" "r = Inr () \<or> r = Inl (SqlFailed e)"
  shows "hello_ok s (s', r)"
  using assms track_profile [OF assms(2)] by (auto simp: hello_ok_def profile_def)

lemma hello_ok_from: "hello_ok s1 res \<Longrightarrow> profile s1 = profile s \<Longrightarrow> hello_ok s res"
  by (simp add: hello_ok_def profile_def track_def)

lemma admit_hello_ok:
  assumes inv: "srv_inv s" and p: "fmlookup (sv_sessions s) peer = None" and live: "peer |\<in>| peer_ids (sv_host s)"
    and g: "sv_next_session_generation s < u64_max"
  shows "hello_ok s (admit_hello fb rd peer adm identity name (fmlookup (sv_identity_players s) identity) s)"
proof -
  obtain d r where a: "admit_player_by_token identity name (rd_persist rd) (max_player_rows_u32 (sv_cfg s)) (sv_db s) = (d, r)"
    by (cases "admit_player_by_token identity name (rd_persist rd) (max_player_rows_u32 (sv_cfg s)) (sv_db s)")
  note ok = admit_player_ok [OF srv_db_inv [OF inv], of identity name "rd_persist rd" "max_player_rows_u32 (sv_cfg s)", unfolded a]
  have same: "srv_inv (s\<lparr>sv_db := d\<rparr>)" if "(\<exists>e. r = Inl e) \<or> r = Inr CapacityReached"
    using ok that srv_inv_faults [OF inv] by (auto simp: admission_ok_def)
  consider (err) e where "r = Inl e" | (full) "r = Inr CapacityReached" | (row) row where "r = Inr (Admitted row)"
    by (metis player_admission.exhaust sum.exhaust_sel)
  then show ?thesis
  proof cases
    case err
    with a same show ?thesis by (simp add: admit_hello_def hello_ok_quiet)
  next
    case full
    with a same show ?thesis by (simp add: admit_hello_def hello_ok_quiet hello_reply_inv)
  next
    case row
    let ?pid = "word_of_int (pr_id row) :: u64"
    note idx = index_identity_ok [OF inv a [unfolded row]]
    from idx(2) [of adm] obtain s1 where
      s1: "index_identity adm identity (fmlookup (sv_identity_players s) identity) ?pid (s\<lparr>sv_db := d\<rparr>) = (s1, Inr ())"
        "srv_inv s1" "fmlookup (sv_identity_players s1) identity = Some ?pid" "profile s1 = profile s" "sv_sessions s1 = sv_sessions s"
      by blast
    from p s1(5) have p1: "fmlookup (sv_sessions s1) peer = None" by simp
    from evict_prior_ok [OF s1(2) p1, of ?pid] obtain s2 where
      s2: "evict_prior peer ?pid s1 = (s2, Inr ())" "core_inv s2"
        "view_but ?pid (sv_sessions s2) (sv_player_peers s2) (sv_world s2)" "fmlookup (sv_player_peers s2) ?pid = None"
        "fmlookup (sv_sessions s2) peer = None" "sv_identity_players s2 = sv_identity_players s1"
        "sv_next_session_generation s2 = sv_next_session_generation s1" "track s1 s2"
        "peer_ids (sv_host s1) |-| peer_ids (sv_host s2) |\<subseteq>| fmdom (sv_sessions s1)"
      by blast
    have l2: "peer |\<in>| peer_ids (sv_host s2)"
      using s2(9) live p1 s1(4) fmdom_notI [OF p1] unfolding profile_def by auto
    have id2: "fmlookup (sv_identity_players s2) identity = Some ?pid" using s1(3) s2(6) by simp
    have g2: "sv_next_session_generation s2 < u64_max" using g s1(4) s2(7) by (simp add: profile_def)
    from open_session_ok [OF s2(2,3,4,5) id2 g2 l2, of fb rd name "pr_gold row"] obtain s3 where
      s3: "open_session fb rd peer ?pid identity name (pr_gold row) s2 = (s3, Inr ())" "srv_inv s3" "track s2 s3"
        "sv_next_session_generation s3 \<le> sv_next_session_generation s2 + 1"
      by blast
    have "admit_hello fb rd peer adm identity name (fmlookup (sv_identity_players s) identity) s = (s3, Inr ())"
      using idx(1) by (simp add: admit_hello_def a row s1(1) s2(1) s3(1) Let_def)
    moreover have "track s s3" using track_profile [OF s1(4)] s2(8) s3(3) track_trans by blast
    moreover have "sv_next_session_generation s3 \<le> sv_next_session_generation s + 1"
      using s3(4) s2(7) s1(4) by (simp add: profile_def)
    ultimately show ?thesis using s3(2) by (simp add: hello_ok_def)
  qed
qed

lemma throttle_hello_ok:
  assumes inv: "srv_inv s" and p: "fmlookup (sv_sessions s) peer = None" and live: "peer |\<in>| peer_ids (sv_host s)"
    and g: "sv_next_session_generation s < u64_max"
  shows "hello_ok s (throttle_hello fb rd peer adm identity name ip s)"
proof -
  have admit: "hello_ok s (admit_hello fb rd peer adm identity name k s1)"
    if "srv_inv s1" "profile s1 = profile s" "sv_sessions s1 = sv_sessions s" "k = fmlookup (sv_identity_players s1) identity" for k s1
    unfolding that(4) using that(2)
    by (intro hello_ok_from [OF admit_hello_ok [OF that(1)] that(2)]) (use p live g that in \<open>simp_all add: profile_def\<close>)
  show ?thesis
    using inv by (simp add: throttle_hello_def Let_def split_beta hello_ok_quiet hello_reply_inv admit split: option.split)
qed

lemma repeat_hello_ok: "srv_inv s \<Longrightarrow> hello_ok s (repeat_hello fb rd peer identity x s)"
  using read_inv
  by (auto simp: repeat_hello_def player_balance_def split: prod.split sum.split intro!: hello_ok_quiet hello_reply_inv)

lemma on_hello_ok:
  assumes inv: "srv_inv s" and g: "sv_next_session_generation s < u64_max"
  shows "hello_ok s (on_hello_at fb rd peer hello adm s)"
proof -
  obtain l ok where l: "limiter_allow peer adm (sv_hello_limiter s) = (l, ok)" by (cases "limiter_allow peer adm (sv_hello_limiter s)")
  let ?s = "s\<lparr>sv_hello_limiter := l\<rparr>"
  have i: "srv_inv ?s" using inv by simp
  have hi: "host_inv (sv_host s)" using inv by (simp add: srv_inv_def core_inv_def)
  have "hello_ok ?s (repeat_hello fb rd peer t x ?s)" for t x using i by (rule repeat_hello_ok)
  moreover have "hello_ok ?s (throttle_hello fb rd peer adm t n ip ?s)"
    if "peer_addr peer (sv_host s) = Some a" "fmlookup (sv_sessions s) peer = None" for t n ip a
    using that g peer_addr_None [OF hi, of peer] by (intro throttle_hello_ok [OF i]) auto
  ultimately have "hello_ok ?s (on_hello_at fb rd peer hello adm s)"
    using i by (simp add: on_hello_at_def l Let_def hello_ok_quiet hello_reply_inv split: sum.split option.split)
  then show ?thesis by (rule hello_ok_from) simp
qed

end
