(* ===== verification/Server_Run.thy ===== *)
theory Server_Run
  imports Server_Hello
begin

text \<open>
  The dispatch of events and the main loop: every handler keeps the invariant, a handler fails only
  with an error of the store, and between two ticks every session belongs to a live transport peer.
\<close>

section \<open>One event\<close>

lemma on_disconnect_profile:
  "profile (fst (on_disconnect rd peer s)) =
     (sv_next_session_generation s, fmdom (sv_sessions s) |-| {|peer|}, peer_ids (sv_host s))"
proof (cases "fmlookup (sv_sessions s) peer")
  case None
  then have "fmdom (sv_sessions s) |-| {|peer|} = fmdom (sv_sessions s)" by (auto simp: fmlookup_dom_iff)
  with None show ?thesis by (simp add: on_disconnect_def unregister_session_def profile_def)
next
  case (Some x)
  then show ?thesis
    by (simp add: on_disconnect_def unregister_session_def touch_last_seen_for_flush_def clear_player_limiters_def
        profile_def Let_def split_beta split: sum.split)
qed

text \<open>What an event leaves behind, and that its only error is one of the store.\<close>

definition store_error :: "srv_error + unit \<Rightarrow> bool" where
  "store_error r = (case r of Inl (SqlFailed _) \<Rightarrow> True | _ \<Rightarrow> False)"

lemma store_error_simps [simp]: "store_error (Inl (SqlFailed e))" "\<not> store_error (Inr u)"
  by (simp_all add: store_error_def)

lemma message_errors:
  "snd (on_econ fb rd p m adm s) = Inr () \<or> store_error (snd (on_econ fb rd p m adm s))"
  "snd (on_trade fb rd p tr adm s) = Inr () \<or> store_error (snd (on_trade fb rd p tr adm s))"
  "snd (on_moor fb col rd p req adm s) = Inr () \<or> store_error (snd (on_moor fb col rd p req adm s))"
  by (simp_all add: on_econ_def econ_apply_def on_trade_def trade_limited_def trade_apply_def on_moor_def
      moor_save_def Let_def split_beta split: option.split sum.split)

lemma on_disconnect_errors: "snd (on_disconnect rd p s) = Inr () \<or> store_error (snd (on_disconnect rd p s))"
  by (simp add: on_disconnect_def Let_def split_beta split: option.split sum.split)

text \<open>The ids whose disconnect is still to be handled.\<close>

fun pending :: "event list \<Rightarrow> nat fset" where
  "pending [] = {||}"
| "pending (Disconnected i _ # es) = finsert i (pending es)"
| "pending (_ # es) = pending es"

lemma event_run_pending: "event_run L es = Some L' \<Longrightarrow> L |\<subseteq>| L' |\<union>| pending es"
  by (induction L es rule: event_run.induct) (auto split: if_splits)

lemma handle_data_ok:
  assumes inv: "srv_inv s" and g: "sv_next_session_generation s < u64_max"
  shows "srv_inv (fst (handle_data fb col rd p b s))" "track s (fst (handle_data fb col rd p b s))"
    "sv_next_session_generation (fst (handle_data fb col rd p b s)) \<le> sv_next_session_generation s + 1"
    "snd (handle_data fb col rd p b s) = Inr () \<or> store_error (snd (handle_data fb col rd p b s))"
proof -
  let ?t = "admission_ms (rd_admission rd) s"
  have quiet: "track s s' \<and> sv_next_session_generation s' \<le> sv_next_session_generation s + 1" if "profile s' = profile s" for s'
    using track_profile [OF that] that by (simp add: profile_def)
  have hello: "srv_inv (fst (on_hello_at fb rd p h ?t s))" "track s (fst (on_hello_at fb rd p h ?t s))"
      "sv_next_session_generation (fst (on_hello_at fb rd p h ?t s)) \<le> sv_next_session_generation s + 1"
      "snd (on_hello_at fb rd p h ?t s) = Inr () \<or> store_error (snd (on_hello_at fb rd p h ?t s))" for h
    using on_hello_ok [OF inv g, of fb rd p h ?t] by (auto simp: hello_ok_def)
  note msgs = on_econ_inv [OF inv] on_trade_inv [OF inv] on_moor_inv [OF inv] on_client_state_inv [OF inv] on_chat_inv [OF inv]
  show "srv_inv (fst (handle_data fb col rd p b s))"
    using inv by (simp add: handle_data_def handle_data_at_def hello msgs split: option.split payload.split)
  show "track s (fst (handle_data fb col rd p b s))"
    using quiet by (simp add: handle_data_def handle_data_at_def hello split: option.split payload.split)
  show "sv_next_session_generation (fst (handle_data fb col rd p b s)) \<le> sv_next_session_generation s + 1"
    using quiet hello(3) by (simp add: handle_data_def handle_data_at_def split: option.split payload.split)
  show "snd (handle_data fb col rd p b s) = Inr () \<or> store_error (snd (handle_data fb col rd p b s))"
    using message_errors hello(4) by (simp add: handle_data_def handle_data_at_def split: option.split payload.split)
qed

lemma handle_event_ok:
  assumes inv: "srv_inv s" and g: "sv_next_session_generation s < u64_max" and cov: "covered (pending (e # es)) s"
  shows "srv_inv (fst (handle_event fb col rd e s))"
    "sv_next_session_generation (fst (handle_event fb col rd e s)) \<le> sv_next_session_generation s + 1"
    "covered (pending es) (fst (handle_event fb col rd e s))"
proof -
  have "srv_inv (fst (handle_event fb col rd e s))
    \<and> sv_next_session_generation (fst (handle_event fb col rd e s)) \<le> sv_next_session_generation s + 1
    \<and> covered (pending es) (fst (handle_event fb col rd e s))"
  proof (cases e)
    case (Connected p)
    with inv cov show ?thesis by simp
  next
    case (Data p b)
    with cov have "covered (pending es) s" by simp
    then have "covered (pending es) (fst (handle_data fb col rd p b s))" by (rule covered_track [OF _ handle_data_ok(2) [OF inv g]])
    with Data handle_data_ok(1,3) [OF inv g, of fb col rd p b] show ?thesis by simp
  next
    case (Disconnected p r)
    with on_disconnect_inv [OF inv] on_disconnect_profile [of rd p s] cov show ?thesis
      by (auto simp: profile_def covered_def)
  qed
  then show "srv_inv (fst (handle_event fb col rd e s))"
    "sv_next_session_generation (fst (handle_event fb col rd e s)) \<le> sv_next_session_generation s + 1"
    "covered (pending es) (fst (handle_event fb col rd e s))" by blast+
qed

lemma handle_event_errors:
  assumes "srv_inv s" "sv_next_session_generation s < u64_max"
  shows "snd (handle_event fb col rd e s) = Inr () \<or> store_error (snd (handle_event fb col rd e s))"
  using handle_data_ok(4) [OF assms] on_disconnect_errors by (cases e) auto

section \<open>The events of a tick\<close>

lemma handle_events_ok:
  assumes "srv_inv s" "sv_next_session_generation s + length es \<le> u64_max" "covered (pending es) s"
  shows "srv_inv (handle_events fb col rds k es s)
    \<and> sv_next_session_generation (handle_events fb col rds k es s) \<le> sv_next_session_generation s + length es
    \<and> covered {||} (handle_events fb col rds k es s)"
  using assms
proof (induction fb col rds k es s rule: handle_events.induct)
  case (2 fb col rds k e es s)
  let ?s = "fst (handle_event fb col (rds k) e s)"
  have g: "sv_next_session_generation s < u64_max" using 2(3) by simp
  note ok = handle_event_ok [OF 2(2) g 2(4), of fb col "rds k"]
  have "sv_next_session_generation ?s + length es \<le> u64_max" using ok(2) 2(3) by simp
  from 2(1) [OF ok(1) this ok(3)] ok(2) show ?case by auto
qed simp

text \<open>The invariant of the loop: between two ticks the sessions are those of live peers.\<close>

definition settled :: "server \<Rightarrow> bool" where
  "settled s \<longleftrightarrow> srv_inv s \<and> fmdom (sv_sessions s) |\<subseteq>| peer_ids (sv_host s)"

lemma settled_covered: "settled s \<longleftrightarrow> srv_inv s \<and> covered {||} s"
  by (simp add: settled_def covered_def)

lemma settled_quiet: "settled s \<Longrightarrow> srv_inv s' \<Longrightarrow> profile s' = profile s \<Longrightarrow> settled s'"
  by (simp add: settled_def profile_def)

lemma tick_events_ok:
  assumes st: "settled s" and g: "sv_next_session_generation s + MAX_POLL_EVENTS \<le> u64_max"
  shows "settled (tick_events fb col te s)
    \<and> sv_next_session_generation (tick_events fb col te s) \<le> sv_next_session_generation s + MAX_POLL_EVENTS"
proof -
  have inv: "srv_inv s" and hi: "host_inv (sv_host s)" using st by (simp_all add: settled_def srv_inv_def core_inv_def)
  obtain h es w where p: "poll_with_work (te_frame_start te) (te_pong_wall te) (sv_host s) = (h, es, w)"
    by (cases "poll_with_work (te_frame_start te) (te_pong_wall te) (sv_host s)")
  then have hp: "host_poll (te_frame_start te) (te_pong_wall te) (sv_host s) = (h, es)" by (simp add: host_poll_def)
  have len: "length es \<le> MAX_POLL_EVENTS" using poll_step [OF hi p] by (simp add: poll_asserts_def)
  let ?s = "s\<lparr>sv_host := h\<rparr>"
  have "host_inv h" using host_poll_inv [OF hi, of "te_frame_start te" "te_pong_wall te"] hp by simp
  then have i: "srv_inv ?s" by (rule srv_inv_host [OF inv])
  have "event_run (peer_ids (sv_host s)) es = Some (peer_ids h)"
    using host_poll_live [OF hi, of "te_frame_start te" "te_pong_wall te"] hp by simp
  then have "peer_ids (sv_host s) |\<subseteq>| peer_ids h |\<union>| pending es" by (rule event_run_pending)
  with st have cov: "covered (pending es) ?s" unfolding covered_def settled_def by simp (meson order_trans)
  have "sv_next_session_generation ?s + length es \<le> u64_max" using len g by simp
  from handle_events_ok [OF i this cov, of fb col "te_readings te" 0]
  have "settled (handle_events fb col (te_readings te) 0 es ?s)
    \<and> sv_next_session_generation (handle_events fb col (te_readings te) 0 es ?s) \<le> sv_next_session_generation s + MAX_POLL_EVENTS"
    using len by (simp add: settled_covered)
  then show ?thesis by (simp add: tick_events_def hp)
qed

section \<open>Ticks\<close>

lemma run_tick_ok:
  assumes "settled (rs_server r)" "sv_next_session_generation (rs_server r) + MAX_POLL_EVENTS \<le> u64_max"
  shows "settled (rs_server (run_tick fb col te r))
    \<and> sv_next_session_generation (rs_server (run_tick fb col te r)) \<le> sv_next_session_generation (rs_server r) + MAX_POLL_EVENTS"
proof -
  let ?s = "tick_events fb col te (rs_server r)"
  note te = tick_events_ok [OF assms, of fb col te]
  have st: "settled ?s" using te by blast
  have w: "settled (tick_work fb te ?s)" by (rule settled_quiet [OF st]) (use st in \<open>simp_all add: tick_work_inv settled_def\<close>)
  have "settled (broadcast_clock fb t (tick_work fb te ?s))" for t
    by (rule settled_quiet [OF w]) (use w in \<open>simp_all add: broadcast_clock_inv settled_def\<close>)
  moreover have "settled (begin_dirty_flush x)" if "settled x" for x
    by (rule settled_quiet [OF that]) (use that in \<open>simp_all add: begin_dirty_flush_inv settled_def\<close>)
  moreover have "profile (rs_server (run_tick fb col te r)) = profile ?s" by (simp add: run_tick_def Let_def)
  ultimately show ?thesis using te w by (simp add: run_tick_def Let_def profile_def)
qed

lemma run_ticks_ok:
  assumes "settled (rs_server r)" "sv_next_session_generation (rs_server r) + length ticks * MAX_POLL_EVENTS \<le> u64_max"
  shows "settled (rs_server (fold (run_tick fb col) ticks r))"
  using assms
proof (induction ticks arbitrary: r)
  case (Cons te ticks)
  have g: "sv_next_session_generation (rs_server r) + MAX_POLL_EVENTS \<le> u64_max" using Cons.prems(2) by simp
  note ok = run_tick_ok [OF Cons.prems(1) g, of fb col te]
  show ?case using Cons.IH [OF conjunct1 [OF ok]] ok Cons.prems(2) by simp
qed simp

end
