(* ===== verification/Server_Boot.thy ===== *)
theory Server_Boot
  imports Server_Run
begin

text \<open>
  \<open>Server::new\<close>: opening the database, reading the identity index back and restoring the
  clock epoch and the weather seed.
\<close>

section \<open>Printing and parsing integers\<close>

lemma digit_round: "n < 10 \<Longrightarrow> digit_val (show_nat_digit n) = Some n"
  by (simp add: digit_val_def show_nat_digit_def Let_def)

lemma digits_val_snoc:
  "digits_val acc (cs @ [c]) = Option.bind (digits_val acc cs) (\<lambda>a. map_option (\<lambda>d. a * 10 + d) (digit_val c))"
  by (induction cs arbitrary: acc) (auto split: option.split)

lemma digits_show: "digits_val 0 (show_nat n) = Some n"
proof (induction n rule: show_nat.induct)
  case (1 n)
  then show ?case by (subst show_nat.simps) (simp add: digits_val_snoc digit_round)
qed

lemma show_nat_first: "\<exists>d r. show_nat n = show_nat_digit d # r \<and> d < 10"
proof (induction n rule: show_nat.induct)
  case (1 n)
  then show ?case by (cases "n < 10") (auto simp: show_nat.simps [of n])
qed

lemma digit_no_sign: "d < 10 \<Longrightarrow> show_nat_digit d \<noteq> CHR ''-'' \<and> show_nat_digit d \<noteq> CHR ''+''"
proof -
  assume "d < 10"
  then have "of_char (show_nat_digit d) = d + 48" by (simp add: show_nat_digit_def)
  moreover have "of_char CHR ''-'' = (45::nat)" "of_char CHR ''+'' = (43::nat)" by simp_all
  ultimately show ?thesis by auto
qed

lemma parse_show_nat: "parse_nat (show_nat n) = Some n"
  using show_nat_first [of n] digits_show [of n] by (auto simp: parse_nat_def)

lemma parse_show_i64: "in_i64 i \<Longrightarrow> parse_i64 (show_int i) = Some i"
proof -
  assume i: "in_i64 i"
  obtain d r where d: "show_nat (nat i) = show_nat_digit d # r" "d < 10" using show_nat_first by blast
  show ?thesis
    using i parse_show_nat [of "nat i"] parse_show_nat [of "nat (- i)"] digit_no_sign [OF d(2)] d(1)
    by (auto simp: parse_i64_def show_int_def)
qed

lemma parse_show_u64: "parse_u64 (show_nat (unat w)) = Some w"
proof -
  obtain d r where d: "show_nat (unat w) = show_nat_digit d # r" "d < 10" using show_nat_first by blast
  have "unat w \<le> u64_max" using unsigned_less [of w, where 'a = nat] by (simp add: u64_max_def)
  with parse_show_nat [of "unat w"] digit_no_sign [OF d(2)] d(1) show ?thesis
    by (simp add: parse_u64_def)
qed

section \<open>The identity index\<close>

lemma check_identities_lookup:
  assumes "check_identities rows m = Inr ids" "distinct (map fst rows)"
  shows "fmlookup ids h = (case map_of rows h of Some i \<Rightarrow> Some (word_of_int i) | None \<Rightarrow> fmlookup m h)"
  using assms
proof (induction rows m rule: check_identities.induct)
  case (2 g i r m)
  then have ih: "fmlookup ids h = (case map_of r h of Some i \<Rightarrow> Some (word_of_int i) | None \<Rightarrow> fmlookup (fmupd g (word_of_int i) m) h)"
    by (auto split: if_splits)
  have "map_of r g = None" using 2(3) by (auto simp: map_of_eq_None_iff)
  with ih show ?case by (auto split: option.split)
qed simp

lemma check_identities_shape:
  "check_identities rows m = Inr ids \<Longrightarrow> (h, i) \<in> set rows \<Longrightarrow> length h = 16 \<and> list_all is_ascii_hexdigit h \<and> 0 \<le> i"
  by (induction rows m rule: check_identities.induct) (auto split: if_splits)

lemma check_identities_ok:
  assumes "\<And>h i. (h, i) \<in> set rows \<Longrightarrow> length h = 16 \<and> list_all is_ascii_hexdigit h \<and> 0 \<le> i"
  shows "\<exists>ids. check_identities rows m = Inr ids"
  using assms
proof (induction rows m rule: check_identities.induct)
  case (2 h i r m)
  have "length h = 16 \<and> list_all is_ascii_hexdigit h \<and> 0 \<le> i" by (rule 2(2)) simp
  moreover have "\<exists>ids. check_identities r (fmupd h (word_of_int i) m) = Inr ids" if "length h = 16 \<and> list_all is_ascii_hexdigit h \<and> 0 \<le> i"
    by (rule 2(1)) (use that 2(2) in auto)
  ultimately show ?case by simp
qed simp

lemma token_hash_shape: "length (token_hash t) = 16 \<and> list_all is_ascii_hexdigit (token_hash t)"
proof -
  have "is_ascii_hexdigit (hex_digit n)" if "n < 16" for n
    using that by (auto simp: hex_digit_def is_ascii_hexdigit_def Let_def)
  moreover have "unat (w AND 0xF :: u64) < 16" for w
  proof -
    have "unat (w AND 0xF) = unat w mod 2 ^ 4"
      using take_bit_eq_mask [of 4 "unat w"] by (simp add: unsigned_and_eq take_bit_eq_mod mask_eq_exp_minus_1)
    then show ?thesis by simp
  qed
  ultimately show ?thesis by (simp add: token_hash_def hex16_def list_all_iff)
qed

text \<open>The rows of the player table in the order of their ids, as the index reads them.\<close>

definition player_tokens :: "db \<Rightarrow> (string \<times> int) list" where
  "player_tokens d = map (\<lambda>i. (pr_token_hash (the (fmlookup (db_players d) i)), i)) (sorted_list_of_fset (fmdom (db_players d)))"

lemma player_tokens_length: "length (player_tokens d) = fmlen (db_players d)"
  by (simp add: player_tokens_def fmlen_def fcard.rep_eq sorted_list_of_fset.rep_eq)

lemma player_tokens_iff: "(h, i) \<in> set (player_tokens d) \<longleftrightarrow> (\<exists>q. fmlookup (db_players d) i = Some q \<and> pr_token_hash q = h)"
  by (force simp: player_tokens_def fmlookup_dom_iff image_iff)

lemma player_tokens_distinct:
  assumes "db_inv d"
  shows "distinct (map fst (player_tokens d))"
proof -
  have "i = j" if "i |\<in>| fmdom (db_players d)" "j |\<in>| fmdom (db_players d)"
      "pr_token_hash (the (fmlookup (db_players d) i)) = pr_token_hash (the (fmlookup (db_players d) j))" for i j
  proof -
    from that(1,2) obtain a b where "fmlookup (db_players d) i = Some a" "fmlookup (db_players d) j = Some b"
      by (auto simp: fmlookup_dom_iff)
    with that(3) assms show ?thesis unfolding db_inv_def by (metis option.sel)
  qed
  then show ?thesis by (auto simp: player_tokens_def distinct_map inj_on_def comp_def)
qed

lemma load_identities_cases:
  assumes eq: "load_identity_players d = (d', r)"
  obtains (fault) fs e where "d' = d\<lparr>db_faults := fs\<rparr>" "r = Inl (SqlFailed e)"
  | (rows) fs where "d' = d\<lparr>db_faults := fs\<rparr>"
      "r = (if fmlen (db_players d) > MAX_PLAYER_ROWS then Inl TableCeiling else check_identities (player_tokens d) fmempty)"
proof -
  have lim: "min u32_max (MAX_PLAYER_ROWS + 1) = MAX_PLAYER_ROWS + 1" by (simp add: u32_max_def MAX_PLAYER_ROWS_def)
  obtain d1 q where q: "player_identities (MAX_PLAYER_ROWS + 1) d = (d1, q)" by (cases "player_identities (MAX_PLAYER_ROWS + 1) d")
  from stmt_read [OF q [unfolded player_identities_def]] obtain fs where
    d1: "d1 = d\<lparr>db_faults := fs\<rparr>" and v: "(\<exists>e. q = Inl e) \<or> q = Inr (take (MAX_PLAYER_ROWS + 1) (player_tokens d))"
    by (auto simp: player_tokens_def take_map)
  have res: "d' = d1" "r = (case q of Inl e \<Rightarrow> Inl (SqlFailed e)
      | Inr l \<Rightarrow> if length l > MAX_PLAYER_ROWS then Inl TableCeiling else check_identities l fmempty)"
    using eq unfolding load_identity_players_def load_identity_players_up_to_def lim q by (auto split: sum.splits)
  from v show ?thesis
  proof
    assume "\<exists>e. q = Inl e"
    with res d1 fault show ?thesis by auto
  next
    assume "q = Inr (take (MAX_PLAYER_ROWS + 1) (player_tokens d))"
    with res d1 rows [of fs] show ?thesis by (auto simp: player_tokens_length)
  qed
qed

lemma load_identities_index:
  assumes inv: "db_inv d" and eq: "load_identity_players d = (d', Inr ids)"
  shows "fmlookup ids h = Some pid \<longleftrightarrow> (\<exists>q. fmlookup (db_players d) (i64_of_u64 pid) = Some q \<and> pr_token_hash q = h)"
proof -
  from eq have ck: "check_identities (player_tokens d) fmempty = Inr ids" by (rule load_identities_cases) (auto split: if_splits)
  have val: "i64_of_u64 (word_of_int i) = i" if "fmlookup (db_players d) i = Some q" for i q
    using db_inv_player [OF inv that] inv i64_u64_id [of i] by (simp add: db_inv_def)
  have "fmlookup ids h = Some pid \<longleftrightarrow> (\<exists>i. (h, i) \<in> set (player_tokens d) \<and> pid = word_of_int i)"
  proof (cases "map_of (player_tokens d) h")
    case None
    with check_identities_lookup [OF ck player_tokens_distinct [OF inv], of h] show ?thesis
      by (force simp: map_of_eq_None_iff)
  next
    case (Some j)
    with check_identities_lookup [OF ck player_tokens_distinct [OF inv], of h]
      map_of_eq_Some_iff [OF player_tokens_distinct [OF inv], of h j] show ?thesis
      by (auto dest: map_of_is_SomeI [OF player_tokens_distinct [OF inv]])
  qed
  also have "\<dots> \<longleftrightarrow> (\<exists>q. fmlookup (db_players d) (i64_of_u64 pid) = Some q \<and> pr_token_hash q = h)"
  proof
    assume "\<exists>i. (h, i) \<in> set (player_tokens d) \<and> pid = word_of_int i"
    then show "\<exists>q. fmlookup (db_players d) (i64_of_u64 pid) = Some q \<and> pr_token_hash q = h"
      using val by (auto simp: player_tokens_iff)
  next
    assume "\<exists>q. fmlookup (db_players d) (i64_of_u64 pid) = Some q \<and> pr_token_hash q = h"
    then obtain q where q: "fmlookup (db_players d) (i64_of_u64 pid) = Some q" "pr_token_hash q = h" by blast
    then have "word_of_int (i64_of_u64 pid) = pid" using val [OF q(1)] i64_of_u64_inj [of "word_of_int (i64_of_u64 pid)" pid] by simp
    with q show "\<exists>i. (h, i) \<in> set (player_tokens d) \<and> pid = word_of_int i"
      by (intro exI [of _ "i64_of_u64 pid"]) (simp add: player_tokens_iff)
  qed
  finally show ?thesis .
qed

lemma load_identities_accepts:
  assumes inv: "db_inv d" and n: "fmlen (db_players d) \<le> MAX_PLAYER_ROWS"
    and hashed: "\<And>i q. fmlookup (db_players d) i = Some q \<Longrightarrow> \<exists>t. pr_token_hash q = token_hash t"
  shows "(\<exists>e. snd (load_identity_players d) = Inl (SqlFailed e)) \<or> (\<exists>ids. snd (load_identity_players d) = Inr ids)"
proof -
  obtain d' r where eq: "load_identity_players d = (d', r)" by (cases "load_identity_players d")
  have "length h = 16 \<and> list_all is_ascii_hexdigit h \<and> 0 \<le> i" if "(h, i) \<in> set (player_tokens d)" for h i
  proof -
    from that obtain q where q: "fmlookup (db_players d) i = Some q" "pr_token_hash q = h" by (auto simp: player_tokens_iff)
    with hashed [OF q(1)] token_hash_shape db_inv_player(2) [OF inv q(1)] show ?thesis by auto
  qed
  then obtain ids where "check_identities (player_tokens d) fmempty = Inr ids" using check_identities_ok by blast
  moreover from eq have "(\<exists>e. r = Inl (SqlFailed e)) \<or> r = check_identities (player_tokens d) fmempty"
    by (rule load_identities_cases) (use n in auto)
  ultimately show ?thesis using eq by auto
qed

section \<open>Opening the store\<close>

text \<open>Rules for what a program of statements keeps, whether or not it fails.\<close>

definition keeps :: "(db \<Rightarrow> bool) \<Rightarrow> 'a sql \<Rightarrow> bool" where
  "keeps P m \<longleftrightarrow> (\<forall>d. P d \<longrightarrow> P (fst (m d)))"

lemma keeps_ok: "keeps P (sql_ok x)"
  by (simp add: keeps_def sql_ok_def)

lemma keeps_bind: "keeps P m \<Longrightarrow> (\<And>x. keeps P (f x)) \<Longrightarrow> keeps P (sql_bind m f)"
  by (force simp: keeps_def sql_bind_def split: prod.split sum.split)

lemma keeps_stmt:
  assumes "\<And>d fs. P (d\<lparr>db_faults := fs\<rparr>) = P d" "keeps P f"
  shows "keeps P (stmt f)"
  unfolding keeps_def
proof (intro allI impI)
  fix d assume d: "P d"
  show "P (fst (stmt f d))"
  proof (cases "stmt f d")
    case (Pair d' r)
    from Pair show ?thesis
    proof (cases rule: stmt_cases)
      case (runs fs)
      have "P (fst (f (d\<lparr>db_faults := fs\<rparr>)))" using assms d by (simp add: keeps_def)
      with runs Pair show ?thesis by simp
    qed (use assms d Pair in simp)
  qed
qed

lemma keeps_if: "(b \<Longrightarrow> keeps P m) \<Longrightarrow> (\<not> b \<Longrightarrow> keeps P n) \<Longrightarrow> keeps P (if b then m else n)"
  by simp

lemma keeps_option: "keeps P m \<Longrightarrow> (\<And>x. keeps P (f x)) \<Longrightarrow> keeps P (case v of None \<Rightarrow> m | Some x \<Rightarrow> f x)"
  by (simp split: option.split)

lemma keeps_upd: "(\<And>d. P d \<Longrightarrow> P (g d)) \<Longrightarrow> keeps P (\<lambda>d. (g d, h d))"
  by (simp add: keeps_def)

lemma keeps_guard: "(\<And>d. P d \<Longrightarrow> Q d \<Longrightarrow> P (g d)) \<Longrightarrow> keeps P (\<lambda>d. if Q d then (g d, h d) else (d, k d))"
  by (simp add: keeps_def)

lemmas keeps_rules = keeps_guard keeps_bind keeps_if keeps_option keeps_stmt keeps_ok keeps_upd

lemma db_open_inv: "keeps db_inv db_open"
  unfolding db_open_def migrate_def by (intro keeps_rules) (simp_all add: db_inv_def v1_absent_def)

lemma world_get_or_init_keeps:
  assumes "\<And>d fs. P (d\<lparr>db_faults := fs\<rparr>) = P d" "\<And>d w. P (d\<lparr>db_world := w\<rparr>) = P d"
  shows "keeps P (world_get_or_init k v)"
  unfolding world_get_or_init_def world_get_def world_set_def by (intro keeps_rules) (simp_all add: assms)

lemma world_get_or_init_value:
  assumes "world_get_or_init k v d = (d', Inr x)"
  shows "x = (case fmlookup (db_world d) k of Some y \<Rightarrow> y | None \<Rightarrow> v)" "db_world d' = fmupd k x (db_world d)"
proof -
  have "x = (case fmlookup (db_world d) k of Some y \<Rightarrow> y | None \<Rightarrow> v) \<and> (\<forall>j. fmlookup (db_world d') j = fmlookup (fmupd k x (db_world d)) j)"
    using assms unfolding world_get_or_init_def world_get_def world_set_def sql_ok_def
    by (auto elim!: bind_cases stmt_cases split: option.splits)
  then show "x = (case fmlookup (db_world d) k of Some y \<Rightarrow> y | None \<Rightarrow> v)" "db_world d' = fmupd k x (db_world d)"
    by (auto intro: fmap_ext)
qed

lemma db_open_world:
  assumes "db_open d = (d', Inr u)"
  shows "1 \<le> db_version d \<Longrightarrow> db_world d' = db_world d" "fmlookup (db_world d) k = None \<Longrightarrow> fmlookup (db_world d') k = None"
proof -
  have "db_world d' = db_world d"
    using assms unfolding db_open_def migrate_def sql_ok_def
    by (auto elim!: bind_cases stmt_cases split: if_splits)
  then show "1 \<le> db_version d \<Longrightarrow> db_world d' = db_world d" "fmlookup (db_world d) k = None \<Longrightarrow> fmlookup (db_world d') k = None"
    by auto
qed

section \<open>A new server\<close>

lemma server_new_parts:
  assumes "server_new cfg d sock now random boot = (d', Inr s)"
  obtains d1 u d2 ids d3 e d4 w h where
    "db_open d = (d1, Inr u)" "load_identity_players d1 = (d2, Inr ids)"
    "world_get_or_init KEY_CLOCK_EPOCH (show_int now) d2 = (d3, Inr e)"
    "world_get_or_init KEY_WEATHER_SEED (show_nat (unat random)) d3 = (d4, Inr w)"
    "bind_with_limits sock CONNECT_KEY (max_transport_peers_usize cfg) (max_transport_peers_per_ip_usize cfg) = Inr h"
    "d' = d4" "sv_db s = d4" "sv_host s = h" "sv_cfg s = cfg" "sv_identity_players s = ids"
    "sv_epoch_ms s = (case parse_i64 e of Some i \<Rightarrow> i | None \<Rightarrow> now)"
    "sv_weather_seed s = (case parse_u64 w of Some q \<Rightarrow> q | None \<Rightarrow> 0)"
    "sv_sessions s = fmempty" "sv_player_peers s = fmempty" "sv_player_order s = {||}" "sv_snapshot_recipients s = {||}"
    "sv_aoi_recipients s = {||}" "sv_chat_fanout s = []" "sv_chat_fanout_bytes s = 0" "sv_clock_fanout s = None"
    "sv_fanout_audience_cache s = None" "sv_dirty_players s = {||}" "sv_flush_players s = {||}" "sv_next_session_generation s = 0"
    "sv_world s = world_new (the (grid_new (cfg_cell_size_m cfg)))"
  using assms by (auto simp: server_new_def Let_def split: prod.splits sum.splits)

lemma server_new_settled:
  assumes inv: "db_inv d" and cfg: "validate cfg = Inr ()" and eq: "server_new cfg d sock now random boot = (d', Inr s)"
  shows "settled s"
  using eq
proof (rule server_new_parts, goal_cases)
  case (1 d1 u d2 ids d3 e d4 w h)
  let ?P = "\<lambda>x. db_inv x \<and> db_players x = db_players d1"
  have d1: "db_inv d1" using db_open_inv inv 1(1) unfolding keeps_def by (metis fst_conv)
  from 1(2) have "?P d2" by (rule load_identities_cases) (use d1 in auto)
  moreover have k: "keeps ?P (world_get_or_init a b)" for a b by (rule world_get_or_init_keeps) (simp_all add: db_inv_def)
  ultimately have "?P d3" using 1(3) unfolding keeps_def by (metis fst_conv)
  with k have d4: "?P d4" using 1(4) unfolding keeps_def by (metis fst_conv)
  have "identity_inv fmempty ids d4"
    unfolding identity_inv_def using load_identities_index [OF d1 1(2)] d4 by simp
  moreover have "host_inv h" "peer_ids h = {||}" using bind_with_limits_inv [OF 1(5)] by auto
  ultimately show ?case
    using 1 cfg world_new_inv
    by (simp add: settled_def srv_inv_def core_inv_def index_inv_def gen_inv_def fanout_defs queue_inv_def arcs_inv_def
        dirty_inv_def sessions_inv_def view_inv_def cell_of_entity_def world_new_def FANOUT_QUEUE_RECIPIENTS_def)
qed

lemma server_new_generation: "server_new cfg d sock now random boot = (d', Inr s) \<Longrightarrow> sv_next_session_generation s = 0"
  by (erule server_new_parts)

section \<open>A server to apply the theorems to\<close>

text \<open>A store that refuses nothing and has no players yet.\<close>

definition calm_store :: "db \<Rightarrow> bool" where
  "calm_store d \<longleftrightarrow> db_faults d = [] \<and> db_players d = fmempty \<and> (db_version d < 2 \<longrightarrow> v1_absent d \<and> v2_absent d)"

lemma calm_open: "calm_store d \<Longrightarrow> \<exists>d'. db_open d = (d', Inr ()) \<and> calm_store d' \<and> 2 \<le> db_version d'"
  by (auto simp: calm_store_def v1_absent_def v2_absent_def db_open_def migrate_def sql_bind_def sql_ok_def stmt_def split: if_splits)

lemma calm_load: "calm_store d \<Longrightarrow> load_identity_players d = (d, Inr fmempty)"
  by (simp add: calm_store_def load_identity_players_def load_identity_players_up_to_def player_identities_def stmt_def
      sorted_list_of_fset.rep_eq)

lemma calm_world:
  "calm_store d \<Longrightarrow> 2 \<le> db_version d \<Longrightarrow> \<exists>d' x. world_get_or_init k v d = (d', Inr x) \<and> calm_store d' \<and> 2 \<le> db_version d'"
  by (cases "fmlookup (db_world d) k")
    (auto simp: calm_store_def world_get_or_init_def world_get_def world_set_def sql_bind_def sql_ok_def stmt_def)

lemma demo_bind:
  "\<exists>h. bind_with_limits (Some demo_socket) CONNECT_KEY (max_transport_peers_usize config_default)
    (max_transport_peers_per_ip_usize config_default) = Inr h"
  by (simp add: bind_with_limits_def CONNECT_KEY_def max_transport_peers_usize_def max_transport_peers_per_ip_usize_def
      config_default_def u16_max_def clamp_nat_def DEFAULT_MAX_PEERS_def MAX_TRANSPORT_PEERS_def DEFAULT_MAX_PEERS_PER_IP_def)

lemma calm_boot:
  assumes "calm_store d"
  shows "\<exists>d' s. server_new config_default d (Some demo_socket) now random boot = (d', Inr s) \<and> calm_store d' \<and> 2 \<le> db_version d'"
proof -
  from calm_open [OF assms] obtain d1 where o: "db_open d = (d1, Inr ())" "calm_store d1" "2 \<le> db_version d1" by blast
  from calm_world [OF o(2,3)] obtain d3 e where
    c: "world_get_or_init KEY_CLOCK_EPOCH (show_int now) d1 = (d3, Inr e)" "calm_store d3" "2 \<le> db_version d3" by blast
  from calm_world [OF c(2,3)] obtain d4 x where
    x: "world_get_or_init KEY_WEATHER_SEED (show_nat (unat random)) d3 = (d4, Inr x)" "calm_store d4" "2 \<le> db_version d4" by blast
  from demo_bind obtain h where h: "bind_with_limits (Some demo_socket) CONNECT_KEY (max_transport_peers_usize config_default)
      (max_transport_peers_per_ip_usize config_default) = Inr h" by blast
  have "\<exists>s. server_new config_default d (Some demo_socket) now random boot = (d4, Inr s)"
    by (simp only: server_new_def o calm_load [OF o(2)] c x h prod.case sum.case Let_def) (rule exI, rule refl)
  with x(2,3) show ?thesis by blast
qed

definition demo_boot :: "db \<times> (srv_error + server)" where
  "demo_boot = server_new config_default (db_empty []) (Some demo_socket) 1000 7 0"

definition demo_server :: server where
  "demo_server = projr (snd demo_boot)"

lemma demo_boot: "server_new config_default (db_empty []) (Some demo_socket) 1000 7 0 = (fst demo_boot, Inr demo_server)"
  "calm_store (fst demo_boot)" "2 \<le> db_version (fst demo_boot)"
proof -
  have "calm_store (db_empty [])" by (simp add: calm_store_def db_empty_def v1_absent_def v2_absent_def)
  from calm_boot [OF this, of 1000 7 0] obtain d s where
    "server_new config_default (db_empty []) (Some demo_socket) 1000 7 0 = (d, Inr s)" "calm_store d" "2 \<le> db_version d" by blast
  then show "server_new config_default (db_empty []) (Some demo_socket) 1000 7 0 = (fst demo_boot, Inr demo_server)"
    "calm_store (fst demo_boot)" "2 \<le> db_version (fst demo_boot)"
    by (simp_all add: demo_boot_def demo_server_def)
qed

definition demo_hello :: client_hello where
  "demo_hello = \<lparr>ch_protocol_version = PROTOCOL_VERSION, ch_display_name = Some ''ann'', ch_token = Some ''tok'',
     ch_game_build = None, ch_mod_version = None, ch_api_surface_hash = None\<rparr>"

definition demo_fb :: flatbuffers where
  "demo_fb = \<lparr>fb_encode = (\<lambda>_. [7]),
     fb_decode = (\<lambda>b. if b = [42] then Some \<lparr>env_seq = 0, env_payload = Some (PClientHello demo_hello)\<rparr> else None)\<rparr>"

definition demo_readings :: readings where
  "demo_readings = \<lparr>rd_admission = 10 ^ 9, rd_uptime = 10 ^ 9, rd_persist = 2000, rd_clock = 2000\<rparr>"

definition demo_tick :: tick_env where
  "demo_tick = \<lparr>te_frame_start = 10 ^ 9, te_pong_wall = (\<lambda>_. Some 0), te_readings = (\<lambda>_. demo_readings), te_flush_ms = 2000,
     te_clock_ms = 2000\<rparr>"

lemma db_empty_inv: "db_inv (db_empty fs)"
  by (simp add: db_inv_def db_empty_def i64_max_def)

lemma demo_server_settled: "settled demo_server" "sv_next_session_generation demo_server = 0"
  using server_new_settled [OF db_empty_inv config_default_valid demo_boot(1)] server_new_generation [OF demo_boot(1)] by simp_all

text \<open>Whole runs: the bound on the number of ticks keeps the 64-bit generation counter from running out.\<close>

lemma server_run_settled:
  assumes "db_inv d" "validate cfg = Inr ()" "server_new cfg d sock now random boot = (d', Inr s)" "length ticks \<le> 2 ^ 55"
  shows "settled (rs_server (fold (run_tick fb col) ticks \<lparr>rs_server = s, rs_tick = 0, rs_last_flush = start\<rparr>))"
proof (rule run_ticks_ok)
  show "settled (rs_server \<lparr>rs_server = s, rs_tick = 0, rs_last_flush = start\<rparr>)"
    using server_new_settled [OF assms(1-3)] by simp
  have "length ticks * MAX_POLL_EVENTS \<le> 2 ^ 55 * 320" by (rule mult_le_mono) (use assms(4) in \<open>simp_all add: MAX_POLL_EVENTS_def MAX_POLL_SOCKET_EVENTS_def MAX_POLL_TIMEOUT_EVENTS_def MAX_POLL_PACKETS_def\<close>)
  also have "\<dots> \<le> u64_max" by (simp add: u64_max_def)
  finally show "sv_next_session_generation (rs_server \<lparr>rs_server = s, rs_tick = 0, rs_last_flush = start\<rparr>)
      + length ticks * MAX_POLL_EVENTS \<le> u64_max"
    using server_new_generation [OF assms(3)] by simp
qed

section \<open>Properties\<close>

text \<open>C4: in a consistent state no event is refused for a reason of the server's own bookkeeping: the only
  error a handler can return is one of the store.\<close>

theorem events_fail_only_on_store:
  assumes "srv_inv s" "sv_next_session_generation s < u64_max"
  shows "case snd (handle_event fb col rd e s) of Inr _ \<Rightarrow> True | Inl err \<Rightarrow> (\<exists>x. err = SqlFailed x)"
  using handle_event_errors [OF assms, of fb col rd e] by (auto simp: store_error_def split: sum.splits srv_error.splits)

theorem events_fail_only_on_store_witness:
  "case snd (handle_event demo_fb (\<lambda>_. None) demo_readings (Data 1 [42]) demo_server) of
     Inr _ \<Rightarrow> True | Inl err \<Rightarrow> (\<exists>x. err = SqlFailed x)"
  by (rule events_fail_only_on_store) (use demo_server_settled in \<open>simp_all add: settled_def u64_max_def\<close>)

text \<open>C28: the identity index a server loads when it starts is exactly the token column of the player table.\<close>

theorem load_identities_exact:
  assumes "db_inv d" "load_identity_players d = (d', Inr ids)"
  shows "fmlookup ids h = Some pid \<longleftrightarrow> (\<exists>q. fmlookup (db_players d) (i64_of_u64 pid) = Some q \<and> pr_token_hash q = h)"
  by (rule load_identities_index [OF assms])

definition demo_roster :: db where
  "demo_roster = (db_empty [])\<lparr>db_version := 2, db_players_seq := 1, db_players := fmupd 1
     \<lparr>pr_id = 1, pr_name = ''ann'', pr_token_hash = ''00c0ffee00c0ffee'', pr_gold = 5, pr_created_at = 0, pr_last_seen = 0\<rparr> fmempty\<rparr>"

lemma demo_roster_inv: "db_inv demo_roster"
  by (simp add: db_inv_def demo_roster_def db_empty_def i64_max_def)

theorem load_identities_exact_witness:
  "fmlookup (fmupd ''00c0ffee00c0ffee'' (1 :: u64) fmempty) ''00c0ffee00c0ffee'' = Some 1
    \<longleftrightarrow> (\<exists>q. fmlookup (db_players demo_roster) (i64_of_u64 1) = Some q \<and> pr_token_hash q = ''00c0ffee00c0ffee'')"
  by (rule load_identities_exact [OF demo_roster_inv, where d' = demo_roster])
    (simp add: load_identity_players_def load_identity_players_up_to_def player_identities_def stmt_def demo_roster_def db_empty_def
      sorted_list_of_fset.rep_eq MAX_PLAYER_ROWS_def is_ascii_hexdigit_def u32_max_def)

text \<open>The hash the server files a token under is sixteen hexadecimal digits, the shape it insists on
  when it reads the player table back.\<close>

theorem token_hash_well_formed: "length (token_hash t) = 16 \<and> list_all is_ascii_hexdigit (token_hash t)"
  by (rule token_hash_shape)

text \<open>A table within its ceiling whose rows were all filed under such hashes is never refused at start.\<close>

theorem hashed_roster_loads:
  assumes "db_inv d" "fmlen (db_players d) \<le> MAX_PLAYER_ROWS"
    and "\<And>i q. fmlookup (db_players d) i = Some q \<Longrightarrow> \<exists>t. pr_token_hash q = token_hash t"
  shows "case snd (load_identity_players d) of Inr _ \<Rightarrow> True | Inl e \<Rightarrow> (\<exists>x. e = SqlFailed x)"
  using load_identities_accepts [OF assms(1,2)] assms(3) by fastforce

theorem hashed_roster_loads_witness:
  "case snd (load_identity_players (demo_roster\<lparr>db_players := fmmap (\<lambda>r. r\<lparr>pr_token_hash := token_hash ''tok''\<rparr>) (db_players demo_roster)\<rparr>)) of
     Inr _ \<Rightarrow> True | Inl e \<Rightarrow> (\<exists>x. e = SqlFailed x)"
  by (rule hashed_roster_loads)
    (auto simp: db_inv_def demo_roster_def db_empty_def i64_max_def MAX_PLAYER_ROWS_def fmlen_def fcard.rep_eq split: if_splits)

text \<open>C25: the clock epoch and the weather seed chosen at the first start are those of every later start on
  the same world table, whatever the clock and the random source say then.\<close>

lemma server_new_world:
  assumes "server_new cfg d sock now random boot = (d', Inr s)"
  shows "\<exists>e w. sv_epoch_ms s = (case parse_i64 e of Some i \<Rightarrow> i | None \<Rightarrow> now)
    \<and> sv_weather_seed s = (case parse_u64 w of Some q \<Rightarrow> q | None \<Rightarrow> 0)
    \<and> fmlookup (db_world d') KEY_CLOCK_EPOCH = Some e \<and> fmlookup (db_world d') KEY_WEATHER_SEED = Some w
    \<and> (fmlookup (db_world d) KEY_CLOCK_EPOCH = None \<longrightarrow> e = show_int now)
    \<and> (fmlookup (db_world d) KEY_WEATHER_SEED = None \<longrightarrow> w = show_nat (unat random))
    \<and> (1 \<le> db_version d \<longrightarrow> fmlookup (db_world d) KEY_CLOCK_EPOCH \<in> {None, Some e} \<and> fmlookup (db_world d) KEY_WEATHER_SEED \<in> {None, Some w})"
  using assms
proof (rule server_new_parts, goal_cases)
  case (1 d1 u d2 ids d3 e d4 w h)
  have keys: "KEY_WEATHER_SEED \<noteq> KEY_CLOCK_EPOCH" "KEY_CLOCK_EPOCH \<noteq> KEY_WEATHER_SEED" by (simp_all add: KEY_CLOCK_EPOCH_def KEY_WEATHER_SEED_def)
  from 1(2) have d2: "db_world d2 = db_world d1" by (rule load_identities_cases) auto
  note e = world_get_or_init_value [OF 1(3)] and w = world_get_or_init_value [OF 1(4)]
  have old: "fmlookup (db_world d) k = None \<longrightarrow> fmlookup (db_world d1) k = None" "1 \<le> db_version d \<longrightarrow> fmlookup (db_world d1) k = fmlookup (db_world d) k" for k
    using db_open_world [OF 1(1)] by auto
  have "fmlookup (db_world d4) KEY_CLOCK_EPOCH = Some e" "fmlookup (db_world d4) KEY_WEATHER_SEED = Some w"
    "fmlookup (db_world d1) KEY_CLOCK_EPOCH = None \<longrightarrow> e = show_int now"
    "fmlookup (db_world d1) KEY_WEATHER_SEED = None \<longrightarrow> w = show_nat (unat random)"
    "fmlookup (db_world d1) KEY_CLOCK_EPOCH \<in> {None, Some e}" "fmlookup (db_world d1) KEY_WEATHER_SEED \<in> {None, Some w}"
    using e w keys by (auto simp: d2 split: option.splits)
  then show ?case unfolding 1(6,11,12)
    using old [of KEY_CLOCK_EPOCH] old [of KEY_WEATHER_SEED]
    by - (rule exI [of _ e], rule exI [of _ w], simp, metis)
qed

theorem epoch_survives_restart:
  assumes "fmlookup (db_world d) KEY_CLOCK_EPOCH = None" "fmlookup (db_world d) KEY_WEATHER_SEED = None" "in_i64 now"
    and "server_new cfg d sock now random boot = (d1, Inr s1)"
    and "db_world d2 = db_world d1" "1 \<le> db_version d2"
    and "server_new cfg' d2 sock' now' random' boot' = (d3, Inr s2)"
  shows "sv_epoch_ms s1 = now \<and> sv_epoch_ms s2 = now \<and> sv_weather_seed s1 = random \<and> sv_weather_seed s2 = random"
proof -
  from server_new_world [OF assms(4)] assms(1,2) have
    one: "sv_epoch_ms s1 = now" "sv_weather_seed s1 = random"
      "fmlookup (db_world d1) KEY_CLOCK_EPOCH = Some (show_int now)" "fmlookup (db_world d1) KEY_WEATHER_SEED = Some (show_nat (unat random))"
    using parse_show_i64 [OF assms(3)] parse_show_u64 [of random] by auto
  from server_new_world [OF assms(7)] assms(6) one(3,4) have "sv_epoch_ms s2 = now" "sv_weather_seed s2 = random"
    unfolding assms(5) [symmetric] using parse_show_i64 [OF assms(3)] parse_show_u64 [of random] by auto
  with one show ?thesis by simp
qed

definition demo_restart :: server where
  "demo_restart = projr (snd (server_new config_default (fst demo_boot) (Some demo_socket) 99 5 0))"

theorem epoch_survives_restart_witness:
  "sv_epoch_ms demo_server = 1000 \<and> sv_epoch_ms demo_restart = 1000 \<and> sv_weather_seed demo_server = 7 \<and> sv_weather_seed demo_restart = 7"
proof (rule epoch_survives_restart [OF _ _ _ demo_boot(1) refl])
  from calm_boot [OF demo_boot(2), of 99 5 0] obtain d s where
    "server_new config_default (fst demo_boot) (Some demo_socket) 99 5 0 = (d, Inr s)" by blast
  then show "server_new config_default (fst demo_boot) (Some demo_socket) 99 5 0
      = (fst (server_new config_default (fst demo_boot) (Some demo_socket) 99 5 0), Inr demo_restart)"
    by (simp add: demo_restart_def)
qed (use demo_boot(3) in \<open>simp_all add: db_empty_def in_i64_def machine_int\<close>)

text \<open>The same server with one player known and in session.\<close>

definition demo_lobby :: server where
  "demo_lobby = demo_server\<lparr>sv_host := demo_connected, sv_db := demo_roster,
     sv_identity_players := fmupd ''00c0ffee00c0ffee'' 1 fmempty\<rparr>"

definition demo_online :: server where
  "demo_online = fst (open_session demo_fb demo_readings 1 1 ''00c0ffee00c0ffee'' ''ann'' 5 demo_lobby)"

lemma demo_server_empty: "sv_sessions demo_server = fmempty" "sv_player_peers demo_server = fmempty"
  using demo_boot(1) by (auto elim: server_new_parts)

lemma demo_lobby_inv: "srv_inv demo_lobby"
proof -
  have id1: "i64_of_u64 pid = 1 \<longleftrightarrow> pid = 1" for pid :: u64 using i64_of_u64_inj [of pid 1] by (simp add: i64_of_u64_def)
  then have "identity_inv fmempty (fmupd ''00c0ffee00c0ffee'' 1 fmempty) demo_roster"
    using demo_roster_inv by (auto simp: identity_inv_def demo_roster_def db_empty_def)
  moreover have "srv_inv demo_server" using demo_server_settled by (simp add: settled_def)
  ultimately show ?thesis
    using demo_server_empty demo_connected_inv
    by (simp add: demo_lobby_def srv_inv_def core_inv_def fanout_defs cong: option.case_cong)
qed

lemma demo_online_opens:
  "open_session demo_fb demo_readings 1 1 ''00c0ffee00c0ffee'' ''ann'' 5 demo_lobby = (demo_online, Inr ())"
  "srv_inv demo_online" "track demo_lobby demo_online"
  "\<exists>x. fmlookup (sv_sessions demo_online) 1 = Some x \<and> ss_player_id x = 1 \<and> ss_identity_hash x = ''00c0ffee00c0ffee''"
proof -
  have p: "fmlookup (sv_player_peers demo_lobby) 1 = None" "fmlookup (sv_sessions demo_lobby) 1 = None"
    "fmlookup (sv_identity_players demo_lobby) ''00c0ffee00c0ffee'' = Some 1" "sv_next_session_generation demo_lobby < u64_max"
    using demo_server_empty demo_server_settled(2) by (simp_all add: demo_lobby_def u64_max_def)
  have live: "1 |\<in>| peer_ids (sv_host demo_lobby)"
  proof -
    have "p_id demo_peer = 1" by (simp add: demo_peer_def)
    with demo_connected_peer show ?thesis unfolding demo_lobby_def peer_ids_iff by auto
  qed
  have v: "view_but 1 (sv_sessions demo_lobby) (sv_player_peers demo_lobby) (sv_world demo_lobby)"
    using srv_invD(2) [OF demo_lobby_inv] by (rule view_but_weaken)
  from open_session_ok [OF srv_invD(1) [OF demo_lobby_inv] v p live, of demo_fb demo_readings "''ann''" 5] obtain s' where
    s': "open_session demo_fb demo_readings 1 1 ''00c0ffee00c0ffee'' ''ann'' 5 demo_lobby = (s', Inr ())" "srv_inv s'" "track demo_lobby s'"
      "\<exists>x. fmlookup (sv_sessions s') 1 = Some x \<and> ss_player_id x = 1 \<and> ss_identity_hash x = ''00c0ffee00c0ffee''" by blast
  moreover have "demo_online = s'" using s'(1) by (simp add: demo_online_def)
  ultimately show "open_session demo_fb demo_readings 1 1 ''00c0ffee00c0ffee'' ''ann'' 5 demo_lobby = (demo_online, Inr ())"
    "srv_inv demo_online" "track demo_lobby demo_online"
    "\<exists>x. fmlookup (sv_sessions demo_online) 1 = Some x \<and> ss_player_id x = 1 \<and> ss_identity_hash x = ''00c0ffee00c0ffee''"
    by simp_all
qed

lemma demo_online_settled:
  "settled demo_online" "\<exists>x. fmlookup (sv_sessions demo_online) 1 = Some x \<and> ss_player_id x = 1 \<and> ss_identity_hash x = ''00c0ffee00c0ffee''"
  using demo_online_opens demo_server_empty by (simp_all add: settled_def track_def demo_lobby_def)

lemma settled_owner:
  assumes "settled s" "fmlookup (sv_sessions s) p = Some x"
  shows "p |\<in>| peer_ids (sv_host s)"
    "fmlookup (sv_sessions s) q = Some y \<Longrightarrow> ss_player_id y = ss_player_id x \<Longrightarrow> q = p"
    "\<exists>row. fmlookup (db_players (sv_db s)) (i64_of_u64 (ss_player_id x)) = Some row \<and> pr_token_hash row = ss_identity_hash x"
proof -
  have inv: "srv_inv s" and dom: "fmdom (sv_sessions s) |\<subseteq>| peer_ids (sv_host s)" using assms(1) by (simp_all add: settled_def)
  note idx = index_sessionD [OF core_invD(3) [OF srv_invD(1) [OF inv]]]
  show "q = p" if "fmlookup (sv_sessions s) q = Some y" "ss_player_id y = ss_player_id x"
    using idx [OF that(1)] idx [OF assms(2)] that(2) by simp
  show "p |\<in>| peer_ids (sv_host s)" using dom fmdomI [OF assms(2)] by blast
  show "\<exists>row. fmlookup (db_players (sv_db s)) (i64_of_u64 (ss_player_id x)) = Some row \<and> pr_token_hash row = ss_identity_hash x"
    by (rule session_known(2) [OF inv assms(2)])
qed

text \<open>C5: after any ticks of a server started on a consistent database, with whatever datagrams, hellos, reconnects and
  disconnects they bring, whoever owns a session is connected, owns only that one, and is the player its token is filed
  under; and the session is the one found under that player.\<close>

theorem session_ownership:
  assumes "db_inv d" "validate cfg = Inr ()" "server_new cfg d sock now random boot = (d', Inr s0)" "length ticks \<le> 2 ^ 55"
  shows "let s = rs_server (fold (run_tick fb col) ticks \<lparr>rs_server = s0, rs_tick = 0, rs_last_flush = start\<rparr>)
    in \<forall>p x. fmlookup (sv_sessions s) p = Some x \<longrightarrow>
         p |\<in>| peer_ids (sv_host s)
         \<and> (\<forall>q y. fmlookup (sv_sessions s) q = Some y \<longrightarrow> ss_player_id y = ss_player_id x \<longrightarrow> q = p)
         \<and> session_by_player (ss_player_id x) s = Some x
         \<and> (\<exists>row. fmlookup (db_players (sv_db s)) (i64_of_u64 (ss_player_id x)) = Some row \<and> pr_token_hash row = ss_identity_hash x)"
proof -
  define s where "s = rs_server (fold (run_tick fb col) ticks \<lparr>rs_server = s0, rs_tick = 0, rs_last_flush = start\<rparr>)"
  have set: "settled s" unfolding s_def by (rule server_run_settled [OF assms])
  then have "core_inv s" by (simp add: settled_def srv_invD(1))
  then have "session_by_player (ss_player_id x) s = Some x" if "fmlookup (sv_sessions s) p = Some x" for p x
    using that by (auto simp: session_by_player_def index_sessionD [OF core_invD(3)] split: option.split)
  then show ?thesis unfolding s_def [symmetric] Let_def using settled_owner [OF set] by meson
qed

theorem session_ownership_witness:
  "let s = rs_server (fold (run_tick demo_fb (\<lambda>_. None)) [demo_tick, demo_tick] \<lparr>rs_server = demo_server, rs_tick = 0, rs_last_flush = 0\<rparr>)
   in \<forall>p x. fmlookup (sv_sessions s) p = Some x \<longrightarrow> p |\<in>| peer_ids (sv_host s)"
proof -
  have "length [demo_tick, demo_tick] \<le> 2 ^ 55" by simp
  from session_ownership [OF db_empty_inv config_default_valid demo_boot(1) this, of demo_fb "\<lambda>_. None" 0]
  show ?thesis unfolding Let_def by blast
qed

end
