(* ===== verification/Server_View.thy ===== *)
theory Server_View
  imports Server_Boot
begin

text \<open>
  What a session gets to see: the cells its area-of-interest updates publish, and the players its
  snapshots carry.
\<close>

section \<open>Publishing the subscribed cells\<close>

text \<open>How many cells the published set differs from the subscription by.\<close>

definition backlog :: "session \<Rightarrow> nat" where
  "backlog x = fcard (ss_published_cells x |-| sub_cells (ss_sub x)) + fcard (sub_cells (ss_sub x) |-| ss_published_cells x)"

definition publish_step :: "session \<Rightarrow> session" where
  "publish_step x = (case chunk_cells x of (added, removed) \<Rightarrow> apply_chunk added removed x)"

lemma publish_step_backlog:
  "backlog (publish_step x) = backlog x - AOI_CELLS_PER_UPDATE" "ss_sub (publish_step x) = ss_sub x"
proof -
  define P where "P = ss_published_cells x"
  define Q where "Q = sub_cells (ss_sub x)"
  define removed where "removed = take AOI_CELLS_PER_UPDATE (by_key (P |-| Q))"
  define added where "added = take (AOI_CELLS_PER_UPDATE - length removed) (by_key (Q |-| P))"
  have c: "chunk_cells x = (added, removed)" by (simp add: chunk_cells_def added_def removed_def P_def Q_def Let_def)
  show "ss_sub (publish_step x) = ss_sub x" by (simp add: publish_step_def c apply_chunk_def)
  have R: "fset_of_list removed |\<subseteq>| P |-| Q" and A: "fset_of_list added |\<subseteq>| Q |-| P"
    by (auto simp: removed_def added_def fset_of_list_elem dest!: in_set_takeD)
  have P': "ss_published_cells (publish_step x) = (P |-| fset_of_list removed) |\<union>| fset_of_list added"
    by (simp add: publish_step_def c apply_chunk_def P_def)
  have one: "ss_published_cells (publish_step x) |-| Q = P |-| Q |-| fset_of_list removed" unfolding P' using A by auto
  have two: "Q |-| ss_published_cells (publish_step x) = Q |-| P |-| fset_of_list added" unfolding P' using R by auto
  have "backlog (publish_step x) = (fcard (P |-| Q) - AOI_CELLS_PER_UPDATE) + (fcard (Q |-| P) - (AOI_CELLS_PER_UPDATE - length removed))"
    unfolding backlog_def \<open>ss_sub (publish_step x) = ss_sub x\<close> Q_def [symmetric] one two removed_def added_def
    by (simp add: fcard_minus_take)
  moreover have "length removed = min AOI_CELLS_PER_UPDATE (fcard (P |-| Q))" by (simp add: removed_def min.commute)
  moreover have "backlog x = fcard (P |-| Q) + fcard (Q |-| P)" by (simp add: backlog_def P_def Q_def)
  ultimately show "backlog (publish_step x) = backlog x - AOI_CELLS_PER_UPDATE" by auto
qed

lemma publish_steps: "backlog ((publish_step ^^ m) x) = backlog x - m * AOI_CELLS_PER_UPDATE" "ss_sub ((publish_step ^^ m) x) = ss_sub x"
  by (induction m) (simp_all add: publish_step_backlog)

lemma backlog_zero: "backlog x = 0 \<longleftrightarrow> ss_published_cells x = sub_cells (ss_sub x)"
  by (auto simp: backlog_def)

lemma next_aoi_chunk_step:
  assumes "fmlookup (sv_sessions s) p = Some x"
  shows "fmlookup (sv_sessions (fst (next_aoi_chunk p s))) p = Some (publish_step x)"
proof -
  obtain a r where c: "chunk_cells x = (a, r)" by (cases "chunk_cells x")
  have "apply_chunk [] [] x = x" by (cases x) (simp add: apply_chunk_def split: option.split)
  with assms c show ?thesis by (auto simp: next_aoi_chunk_def publish_step_def upd_session_alt)
qed

lemma chunk_size: "chunk_cells x = (a, r) \<Longrightarrow> length a + length r \<le> AOI_CELLS_PER_UPDATE"
  by (auto simp: chunk_cells_def Let_def)

lemma chunks_session:
  assumes "fmlookup (sv_sessions s) p = Some x"
  shows "fmlookup (sv_sessions (((\<lambda>s. fst (next_aoi_chunk p s)) ^^ m) s)) p = Some ((publish_step ^^ m) x)"
  using assms by (induction m) (simp_all add: next_aoi_chunk_step)

section \<open>What a snapshot carries\<close>

lemma index_of_nth: "distinct xs \<Longrightarrow> k < length xs \<Longrightarrow> index_of (xs ! k) xs = Some k"
  by (induction xs arbitrary: k) (auto simp: nth_Cons split: nat.split)

text \<open>The packets of one round over an unchanging selection, each started from what the last one left.\<close>

fun windows :: "nat \<Rightarrow> u64 list \<Rightarrow> u64 option \<Rightarrow> nat \<Rightarrow> u64 list list" where
  "windows 0 sel cursor left = []"
| "windows (Suc m) sel cursor left =
     (case snapshot_window sel cursor left of (left', ids) \<Rightarrow> ids # windows m sel (last_opt ids) left')"

lemma window_after:
  assumes "distinct sel" "k < length sel" "0 < left" "left \<le> length sel"
  shows "snapshot_window sel (Some (sel ! k)) left
    = (left - SNAPSHOT_ENTITIES_PER_PACKET, take (min left SNAPSHOT_ENTITIES_PER_PACKET) (rotate (Suc k) sel))"
proof -
  have ids: "map (\<lambda>j. sel ! ((Suc k mod length sel + j) mod length sel)) [0..<n] = take n (rotate (Suc k) sel)" if "n \<le> length sel" for n
    using that assms(2) by (intro nth_equalityI) (simp_all add: nth_rotate mod_add_left_eq del: rotate_Suc)
  have m: "min left (length sel) = left" "left - min left SNAPSHOT_ENTITIES_PER_PACKET = left - SNAPSHOT_ENTITIES_PER_PACKET"
    "min left SNAPSHOT_ENTITIES_PER_PACKET \<le> length sel" using assms(4) by auto
  show ?thesis
    using assms(3) ids [OF m(3)]
    by (simp add: snapshot_window_def index_of_nth [OF assms(1,2)] Let_def m(1,2) del: rotate_Suc)
qed

lemma windows_after:
  assumes "distinct sel" "k < length sel" "left \<le> length sel" "left \<le> m * SNAPSHOT_ENTITIES_PER_PACKET" "0 < left"
  shows "take left (concat (windows m sel (Some (sel ! k)) left)) = take left (rotate (Suc k) sel)"
  using assms
proof (induction m arbitrary: k left)
  case (Suc m)
  let ?e = SNAPSHOT_ENTITIES_PER_PACKET
  let ?n = "min left ?e"
  let ?ids = "take ?n (rotate (Suc k) sel)"
  have n: "0 < ?n" "?n \<le> length sel" using Suc.prems by (auto simp: SNAPSHOT_ENTITIES_PER_PACKET_def)
  have w: "windows (Suc m) sel (Some (sel ! k)) left = ?ids # windows m sel (last_opt ?ids) (left - ?e)"
    using window_after [OF Suc.prems(1,2,5,3)] by simp
  show ?case
  proof (cases "left \<le> ?e")
    case True
    then show ?thesis using Suc.prems(3) unfolding w by (simp add: min_def)
  next
    case False
    then have ne: "?n = ?e" by simp
    let ?k = "(Suc k + (?e - 1)) mod length sel"
    have ids: "last_opt ?ids = Some (sel ! ?k)"
    proof -
      have "?ids \<noteq> []" using n Suc.prems(2) by auto
      then have "last ?ids = rotate (Suc k) sel ! (?e - 1)" using n unfolding ne by (subst last_conv_nth) auto
      also have "\<dots> = sel ! ?k" using n unfolding ne by (subst nth_rotate) (auto simp: SNAPSHOT_ENTITIES_PER_PACKET_def)
      finally show ?thesis using \<open>?ids \<noteq> []\<close> by (simp add: last_opt_def)
    qed
    have "take (left - ?e) (concat (windows m sel (Some (sel ! ?k)) (left - ?e))) = take (left - ?e) (rotate (Suc ?k) sel)"
      proof (rule Suc.IH)
      show "?k < length sel" using Suc.prems(2) by (intro mod_less_divisor) auto
    qed (use Suc.prems False in auto)
    moreover have "rotate (Suc ?k) sel = rotate (?e + Suc k) sel"
    proof -
      have "Suc ?k mod length sel = (?e + Suc k) mod length sel"
        by (simp add: mod_Suc_eq SNAPSHOT_ENTITIES_PER_PACKET_def)
      then show ?thesis by (metis rotate_conv_mod)
    qed
    moreover have "take (left - ?e) (rotate (?e + Suc k) sel) = take (left - ?e) (drop ?e (rotate (Suc k) sel))"
      using False Suc.prems(3) by (subst rotate_rotate [symmetric]) (simp add: rotate_drop_take)
    moreover have "take left (rotate (Suc k) sel) = take ?e (rotate (Suc k) sel) @ take (left - ?e) (drop ?e (rotate (Suc k) sel))"
      using False by (metis le_add_diff_inverse linear take_add)
    ultimately show ?thesis unfolding w using ne ids n by simp
  qed
qed simp

lemma index_of_Some: "index_of c xs = Some k \<Longrightarrow> k < length xs \<and> xs ! k = c"
  by (induction xs arbitrary: k) (auto split: if_splits)

lemma window_start:
  assumes "distinct sel" "sel \<noteq> []"
  shows "\<exists>k < length sel. snapshot_window sel cursor 0 = snapshot_window sel (Some (sel ! k)) (length sel)
    \<and> rotate (Suc k) sel = rotate (case Option.bind cursor (\<lambda>c. index_of c sel) of None \<Rightarrow> 0 | Some j \<Rightarrow> Suc j) sel"
proof (cases "Option.bind cursor (\<lambda>c. index_of c sel)")
  case None
  let ?k = "length sel - 1"
  have k: "?k < length sel" "Suc ?k = length sel" using assms(2) by (cases sel; simp)+
  have "snapshot_window sel cursor 0 = snapshot_window sel (Some (sel ! ?k)) (length sel)"
    using None assms(2) index_of_nth [OF assms(1) k(1)] k(2) by (simp add: snapshot_window_def Let_def)
  moreover have "rotate (Suc ?k) sel = sel" unfolding k(2) by (rule rotate_id) simp
  ultimately show ?thesis using None k(1) by (intro exI [of _ ?k]) (simp del: rotate_Suc)
next
  case (Some k)
  then obtain c where c: "cursor = Some c" "index_of c sel = Some k" by (auto simp: Option.bind_eq_Some_conv)
  with index_of_Some [OF c(2)] Some assms(2) show ?thesis
    by (intro exI [of _ k]) (auto simp: snapshot_window_def Let_def)
qed

lemma windows_round:
  assumes "distinct sel" "sel \<noteq> []" "length sel \<le> m * SNAPSHOT_ENTITIES_PER_PACKET"
  shows "take (length sel) (concat (windows m sel cursor 0))
    = rotate (case Option.bind cursor (\<lambda>c. index_of c sel) of None \<Rightarrow> 0 | Some j \<Rightarrow> Suc j) sel"
proof -
  from window_start [OF assms(1,2), of cursor] obtain k where k: "k < length sel"
    "snapshot_window sel cursor 0 = snapshot_window sel (Some (sel ! k)) (length sel)"
    "rotate (Suc k) sel = rotate (case Option.bind cursor (\<lambda>c. index_of c sel) of None \<Rightarrow> 0 | Some j \<Rightarrow> Suc j) sel" by blast
  obtain n where m: "m = Suc n" using assms(2,3) by (cases m) auto
  have "windows m sel cursor 0 = windows m sel (Some (sel ! k)) (length sel)" unfolding m by (simp add: k(2))
  moreover have "take (length sel) (concat (windows m sel (Some (sel ! k)) (length sel))) = take (length sel) (rotate (Suc k) sel)"
    using assms k(1) by (intro windows_after) auto
  ultimately show ?thesis using k(3) by (simp del: rotate_Suc)
qed

lemma in_view_iff:
  assumes "srv_inv s"
  shows "in_view c s pid \<longleftrightarrow> (\<exists>p x d. fmlookup (sv_sessions s) p = Some x \<and> ss_player_id x = pid \<and> ss_cell x = Some d
    \<and> chebyshev_distance d c \<le> aoi_radius_i32 (sv_cfg s))"
proof -
  have sb: "session_by_player pid s = Some x \<longleftrightarrow> (\<exists>p. fmlookup (sv_sessions s) p = Some x \<and> ss_player_id x = pid)" for x
    by (rule session_by_player_iff [OF core_invD(3) [OF srv_invD(1) [OF assms]]])
  have "in_view c s pid \<longleftrightarrow> (\<exists>x d. session_by_player pid s = Some x \<and> ss_cell x = Some d \<and> chebyshev_distance d c \<le> aoi_radius_i32 (sv_cfg s))"
    by (auto simp: in_view_def Option.bind_eq_Some_conv Option.bind_eq_None_conv split: option.split)
  then show ?thesis unfolding sb by blast
qed

section \<open>Properties\<close>

text \<open>C17: the updates of a session's area of interest name at most 32 cells each, and as many updates as the
  difference takes at 32 a time bring the published cells to the subscribed ones; then there is
  nothing left to say.\<close>

theorem aoi_updates_converge:
  assumes "fmlookup (sv_sessions s) p = Some x"
    and "fcard (ss_published_cells x |-| sub_cells (ss_sub x)) + fcard (sub_cells (ss_sub x) |-| ss_published_cells x)
      \<le> m * AOI_CELLS_PER_UPDATE"
  shows "let t = ((\<lambda>s. fst (next_aoi_chunk p s)) ^^ m) s
    in map_option ss_published_cells (fmlookup (sv_sessions t) p) = Some (sub_cells (ss_sub x))
       \<and> snd (next_aoi_chunk p t) = None
       \<and> (\<forall>added removed. snd (next_aoi_chunk p s) = Some (added, removed) \<longrightarrow> length added + length removed \<le> AOI_CELLS_PER_UPDATE)"
proof -
  let ?t = "((\<lambda>s. fst (next_aoi_chunk p s)) ^^ m) s" and ?y = "(publish_step ^^ m) x"
  have y: "fmlookup (sv_sessions ?t) p = Some ?y" by (rule chunks_session [OF assms(1)])
  have pub: "ss_published_cells ?y = sub_cells (ss_sub ?y)"
  proof -
    have "backlog ?y = 0" using publish_steps(1) [of m x] assms(2) by (simp add: backlog_def [of x])
    then show ?thesis by (simp only: backlog_zero)
  qed
  moreover have "chunk_cells ?y = ([], [])" by (simp add: chunk_cells_def pub by_key_def sorted_list_of_fset.rep_eq)
  moreover have "length added + length removed \<le> AOI_CELLS_PER_UPDATE" if "snd (next_aoi_chunk p s) = Some (added, removed)" for added removed
    using that assms(1) chunk_size [of x] by (auto simp: next_aoi_chunk_def split: prod.splits if_splits)
  ultimately show ?thesis using y publish_steps(2) [of m x] by (simp add: Let_def next_aoi_chunk_def)
qed

text \<open>C24: a snapshot packet is chosen among the other players whose cell is within the radius of interest, each at
  most once and no more than the ceiling; when fewer than the ceiling are chosen, nobody in view was left out.\<close>

theorem snapshot_selection_exact:
  assumes "srv_inv s" "fcard (sv_player_order s) \<le> SNAPSHOT_ENTITY_SCAN_PER_PACKET"
  shows "let sel = snapshot_selected pid c s;
             visible = {q. q \<noteq> pid \<and> (\<exists>p x d. fmlookup (sv_sessions s) p = Some x \<and> ss_player_id x = q \<and> ss_cell x = Some d
                \<and> chebyshev_distance d c \<le> aoi_radius_i32 (sv_cfg s))}
    in distinct sel \<and> length sel \<le> SNAPSHOT_VISIBILITY_CEILING \<and> set sel \<subseteq> visible
       \<and> (length sel < SNAPSHOT_VISIBILITY_CEILING \<longrightarrow> set sel = visible)"
proof -
  let ?cand = "player_candidates_after (Some pid) SNAPSHOT_ENTITY_SCAN_PER_PACKET s"
  let ?all = "filter (in_view c s) (filter (\<lambda>q. q \<noteq> pid) ?cand)"
  have cand: "set ?cand = fset (sv_player_order s)" "distinct ?cand"
    using assms(2) by (simp_all add: player_candidates_after_def take_cyclic_def)
  have idx: "index_inv (sv_sessions s) (sv_player_peers s) (sv_player_order s) (sv_snapshot_recipients s) (sv_aoi_recipients s)"
    by (rule core_invD(3) [OF srv_invD(1) [OF assms(1)]])
  have known: "q |\<in>| sv_player_order s" if "in_view c s q" for q
  proof -
    from that in_view_iff [OF assms(1), of c q] obtain p x where "fmlookup (sv_sessions s) p = Some x" "ss_player_id x = q" by blast
    with index_sessionD [OF idx] have "fmlookup (sv_player_peers s) q = Some p" by blast
    with idx show ?thesis by (simp add: index_inv_def fmdomI)
  qed
  have all: "set ?all = {q. q \<noteq> pid \<and> in_view c s q}" using cand(1) known by auto
  have "distinct (snapshot_selected pid c s)" "length (snapshot_selected pid c s) \<le> SNAPSHOT_VISIBILITY_CEILING"
    using cand(2) by (simp_all add: snapshot_selected_def)
  moreover have "set (snapshot_selected pid c s) \<subseteq> set ?all" unfolding snapshot_selected_def by (rule set_take_subset)
  moreover have "set (snapshot_selected pid c s) = set ?all" if "length (snapshot_selected pid c s) < SNAPSHOT_VISIBILITY_CEILING"
    using that by (auto simp: snapshot_selected_def min_def split: if_splits)
  ultimately show ?thesis unfolding all Let_def in_view_iff [OF assms(1)] by blast
qed

text \<open>While the selection stays the same, the packets of one round carry every selected player exactly once, in
  order from the one after the cursor.\<close>

theorem snapshot_round_covers:
  assumes "distinct sel" "sel \<noteq> []" "length sel \<le> m * SNAPSHOT_ENTITIES_PER_PACKET"
  shows "take (length sel) (concat (windows m sel cursor 0))
    = rotate (case Option.bind cursor (\<lambda>c. index_of c sel) of None \<Rightarrow> 0 | Some j \<Rightarrow> Suc j) sel"
  by (rule windows_round [OF assms])

theorem snapshot_round_covers_witness:
  "take 7 (concat (windows 2 [3, 5, 8, 9, 11, 20, 21] (Some 8) 0)) = [9, 11, 20, 21, 3, 5, 8]"
proof -
  let ?sel = "[3, 5, 8, 9, 11, 20, 21] :: u64 list"
  have seven: "7 = length ?sel" by simp
  have "take 7 (concat (windows 2 ?sel (Some 8) 0))
      = rotate (case Option.bind (Some 8) (\<lambda>c. index_of c ?sel) of None \<Rightarrow> 0 | Some j \<Rightarrow> Suc j) ?sel"
    unfolding seven by (rule snapshot_round_covers) (simp_all add: SNAPSHOT_ENTITIES_PER_PACKET_def)
  moreover have "index_of 8 ?sel = Some 2" by simp
  ultimately show ?thesis by (simp add: rotate_drop_take)
qed

text \<open>A server with one session, whose area of interest is still to be published.\<close>

definition demo_session :: session where
  "demo_session = new_session 1 ''00c0ffee00c0ffee'' ''ann''
     (fst (recenter sorted_list_of_fset (Cell 0 0) (the (subscription_new 2)))) (Cell 0 0)"

theorem aoi_updates_converge_witness:
  "map_option ss_published_cells (fmlookup (sv_sessions (((\<lambda>s. fst (next_aoi_chunk 1 s)) ^^ 1)
     (demo_server\<lparr>sv_sessions := fmupd 1 demo_session fmempty\<rparr>))) 1) = Some (sub_cells (ss_sub demo_session))"
proof -
  have pub: "ss_published_cells demo_session = {||}" by (simp add: demo_session_def new_session_def)
  have "sub_cells (ss_sub demo_session) = fset_of_list (cells_in_radius (Cell 0 0) 2)"
    by (simp add: demo_session_def new_session_def subscription_new_def recenter_def Let_def)
  then have "fcard (sub_cells (ss_sub demo_session)) \<le> length (cells_in_radius (Cell 0 0) 2)"
    by (simp add: fcard.rep_eq fset_of_list.rep_eq card_length)
  also have "length (cells_in_radius (Cell 0 0) 2) \<le> AOI_CELLS_PER_UPDATE" by code_simp
  finally have "fcard (sub_cells (ss_sub demo_session)) \<le> AOI_CELLS_PER_UPDATE" .
  then show ?thesis
    using aoi_updates_converge [where s = "demo_server\<lparr>sv_sessions := fmupd 1 demo_session fmempty\<rparr>" and p = 1 and x = demo_session and m = 1]
    by (simp add: Let_def pub)
qed

theorem snapshot_selection_exact_witness:
  "length (snapshot_selected 1 (Cell 0 0) demo_server) \<le> SNAPSHOT_VISIBILITY_CEILING"
proof -
  have "sv_player_order demo_server = {||}" using demo_boot(1) by (rule server_new_parts)
  then have "fcard (sv_player_order demo_server) \<le> SNAPSHOT_ENTITY_SCAN_PER_PACKET" by simp
  from snapshot_selection_exact [OF _ this, of 1 "Cell 0 0"] demo_server_settled show ?thesis by (simp add: settled_def Let_def)
qed

end
