(* ===== verification/Fairness.thy ===== *)
theory Fairness
  imports Server_State
begin

text \<open>
  The turn order the server uses for snapshots, area-of-interest work and cell scans: the members
  after a cursor, then those up to it, a bounded number per round, the cursor moving to the last one
  served. The locale says what a round has to do for every member that keeps waiting to be served
  within a bounded number of rounds.
\<close>

section \<open>The order after a cursor is a rotation\<close>

lemma sorted_split:
  assumes "sorted xs"
  shows "filter (\<lambda>y. x < y) xs = drop (length (takeWhile (\<lambda>y. y \<le> x) xs)) xs"
    "filter (\<lambda>y. y \<le> (x :: 'a :: linorder)) xs = take (length (takeWhile (\<lambda>y. y \<le> x) xs)) xs"
proof -
  have "filter (\<lambda>y. x < y) xs = dropWhile (\<lambda>y. y \<le> x) xs \<and> filter (\<lambda>y. y \<le> x) xs = takeWhile (\<lambda>y. y \<le> x) xs"
    using assms
  proof (induction xs)
    case (Cons y ys)
    show ?case
    proof (cases "y \<le> x")
      case False
      then have "\<forall>z \<in> set (y # ys). x < z" using Cons.prems by auto
      then have "filter (\<lambda>z. x < z) (y # ys) = y # ys" "filter (\<lambda>z. z \<le> x) (y # ys) = []"
        by (auto simp: filter_empty_conv not_le intro: filter_True)
      with False show ?thesis by simp
    qed (use Cons in auto)
  qed simp
  then show "filter (\<lambda>y. x < y) xs = drop (length (takeWhile (\<lambda>y. y \<le> x) xs)) xs"
    "filter (\<lambda>y. y \<le> x) xs = take (length (takeWhile (\<lambda>y. y \<le> x) xs)) xs"
    by (simp_all only: dropWhile_eq_drop takeWhile_eq_take [symmetric])
qed

lemma cyclic_rotate: "\<exists>i. cyclic_after c S = rotate i (sorted_list_of_fset S)"
proof (cases c)
  case None
  then show ?thesis by (intro exI [of _ 0]) (simp add: cyclic_after_def)
next
  case (Some x)
  let ?L = "sorted_list_of_fset S" and ?i = "length (takeWhile (\<lambda>y. y \<le> x) (sorted_list_of_fset S))"
  have "?i \<le> length ?L" by (rule length_takeWhile_le)
  then have "rotate ?i ?L = drop ?i ?L @ take ?i ?L"
    by (cases "?i = length ?L") (simp_all add: rotate_drop_take)
  with Some sorted_split [OF sorted_fset_sorted, of x S] show ?thesis
    by (intro exI [of _ ?i]) (simp add: cyclic_after_def)
qed

lemma cyclic_after_nth:
  assumes "m < fcard S"
  shows "cyclic_after (Some (sorted_list_of_fset S ! m)) S = rotate (Suc m) (sorted_list_of_fset S)"
proof -
  let ?L = "sorted_list_of_fset S"
  have m: "m < length ?L" using assms by simp
  have "takeWhile (\<lambda>y. y \<le> ?L ! m) ?L = take (Suc m) ?L"
  proof (rule takeWhile_eq_take_P_nth)
    show "?L ! i \<le> ?L ! m" if "i < Suc m" "i < length ?L" for i
      using that m by (intro sorted_nth_mono) auto
    show "\<not> ?L ! Suc m \<le> ?L ! m" if "Suc m < length ?L"
    proof -
      have "?L ! m \<le> ?L ! Suc m" using that by (intro sorted_nth_mono) auto
      moreover have "?L ! m \<noteq> ?L ! Suc m" using that nth_eq_iff_index_eq [of ?L m "Suc m"] by simp
      ultimately show ?thesis by simp
    qed
  qed
  then have "length (takeWhile (\<lambda>y. y \<le> ?L ! m) ?L) = Suc m" using m by simp
  then have "cyclic_after (Some (?L ! m)) S = drop (Suc m) ?L @ take (Suc m) ?L"
    by (simp add: cyclic_after_def sorted_split [OF sorted_fset_sorted])
  with m show ?thesis by (cases "Suc m = length ?L") (simp_all add: rotate_drop_take)
qed

lemma cyclic_after_served:
  assumes "0 < k" "k \<le> fcard S"
  shows "cyclic_after (Some (last (take k (cyclic_after c S)))) S = rotate k (cyclic_after c S)"
proof -
  let ?L = "sorted_list_of_fset S"
  obtain i where i: "cyclic_after c S = rotate i ?L" using cyclic_rotate by blast
  have n: "0 < fcard S" using assms by simp
  then have ne: "?L \<noteq> []" by (metis length_sorted_fset length_greater_0_conv)
  have "last (take k (rotate i ?L)) = rotate i ?L ! (k - 1)" using assms ne by (subst last_conv_nth) auto
  also have "\<dots> = ?L ! ((i + (k - 1)) mod fcard S)" using assms by (simp add: nth_rotate)
  finally have x: "last (take k (rotate i ?L)) = ?L ! ((i + (k - 1)) mod fcard S)" .
  have "cyclic_after (Some (?L ! ((i + (k - 1)) mod fcard S))) S = rotate (Suc ((i + (k - 1)) mod fcard S)) ?L"
    by (rule cyclic_after_nth) (use n in simp)
  also have "\<dots> = rotate (k + i) ?L"
  proof -
    have "Suc ((i + (k - 1)) mod fcard S) mod fcard S = (k + i) mod fcard S"
      using assms by (simp add: mod_Suc_eq add.commute)
    then show ?thesis by (metis length_sorted_fset rotate_conv_mod)
  qed
  finally show ?thesis using x by (simp add: i rotate_rotate)
qed

lemma cyclic_after_subset:
  assumes "T |\<subseteq>| S"
  shows "cyclic_after c T = filter (\<lambda>x. x |\<in>| T) (cyclic_after c S)"
proof -
  have "sorted_list_of_fset T = filter (\<lambda>x. x |\<in>| T) (sorted_list_of_fset S)"
    by (rule sorted_distinct_set_unique) (use assms in \<open>auto simp: sorted_wrt_filter\<close>)
  then show ?thesis by (auto simp: cyclic_after_def conj_commute split: option.split intro: filter_cong)
qed

section \<open>Waiting\<close>

text \<open>How many members come before one.\<close>

definition ahead :: "'a \<Rightarrow> 'a :: linorder option \<Rightarrow> 'a fset \<Rightarrow> nat" where
  "ahead p c S = length (takeWhile (\<lambda>y. y \<noteq> p) (cyclic_after c S))"

lemma takeWhile_filter_length: "P p \<Longrightarrow> length (takeWhile (\<lambda>y. y \<noteq> p) (filter P xs)) \<le> length (takeWhile (\<lambda>y. y \<noteq> p) xs)"
  by (induction xs) auto

lemma takeWhile_rotate:
  assumes "p \<in> set xs" "p \<notin> set (take k xs)"
  shows "k + length (takeWhile (\<lambda>y. y \<noteq> p) (drop k xs @ take k xs)) = length (takeWhile (\<lambda>y. y \<noteq> p) xs)"
proof -
  have d: "p \<in> set (drop k xs)" and k: "k \<le> length xs" using assms
    by (metis append_take_drop_id set_append Un_iff, metis assms linorder_not_le take_all_iff nless_le)
  have "takeWhile (\<lambda>y. y \<noteq> p) (take k xs @ drop k xs) = take k xs @ takeWhile (\<lambda>y. y \<noteq> p) (drop k xs)"
    using assms(2) by (intro takeWhile_append2) auto
  then show ?thesis using d k by (simp add: takeWhile_append1 [where x = p])
qed

lemma ahead_step:
  assumes p: "p |\<in>| T" "T |\<subseteq>| S" and un: "p \<notin> set (take_cyclic S c k)" and k: "0 < k"
  shows "k + ahead p (Some (last (take_cyclic S c k))) T \<le> ahead p c S"
proof -
  let ?L = "cyclic_after c S"
  have pS: "p \<in> set ?L" using p by auto
  have lt: "k < fcard S"
  proof (rule ccontr)
    assume "\<not> k < fcard S"
    then have "set (take_cyclic S c k) = fset S" by (simp add: take_cyclic_def)
    with un p show False by auto
  qed
  then have tk: "take_cyclic S c k = take k ?L" by (simp add: take_cyclic_def)
  have "ahead p (Some (last (take k ?L))) T \<le> length (takeWhile (\<lambda>y. y \<noteq> p) (cyclic_after (Some (last (take k ?L))) S))"
    unfolding ahead_def cyclic_after_subset [OF p(2)] using p(1) by (rule takeWhile_filter_length)
  also have "cyclic_after (Some (last (take k ?L))) S = drop k ?L @ take k ?L"
    using cyclic_after_served [of k S c] k lt by (simp add: rotate_drop_take)
  finally show ?thesis using takeWhile_rotate [OF pS, of k] un unfolding tk ahead_def by simp
qed

lemma ahead_less: "p |\<in>| S \<Longrightarrow> ahead p c S < fcard S"
proof -
  assume "p |\<in>| S"
  then have "dropWhile (\<lambda>y. y \<noteq> p) (cyclic_after c S) \<noteq> []" by (auto simp: dropWhile_eq_Nil_conv)
  moreover have "length (takeWhile (\<lambda>y. y \<noteq> p) (cyclic_after c S)) + length (dropWhile (\<lambda>y. y \<noteq> p) (cyclic_after c S)) = fcard S"
    by (metis length_append length_cyclic_after takeWhile_dropWhile_id)
  ultimately show ?thesis unfolding ahead_def by (cases "dropWhile (\<lambda>y. y \<noteq> p) (cyclic_after c S)") auto
qed

section \<open>The interface\<close>

text \<open>
  A step serves the next \<open>quota\<close> members after the cursor and moves the cursor to the last of
  them. A member it does not serve stays, and nobody joins.
\<close>

locale round_robin =
  fixes step :: "'s \<Rightarrow> 's"
    and members :: "'s \<Rightarrow> 'a :: linorder fset"
    and cursor :: "'s \<Rightarrow> 'a option"
    and quota :: nat
  assumes quota_pos: "0 < quota"
    and nobody_joins: "members (step s) |\<subseteq>| members s"
    and waiting_stay: "members s |-| fset_of_list (take_cyclic (members s) (cursor s) quota) |\<subseteq>| members (step s)"
    and cursor_moves: "members s \<noteq> {||} \<Longrightarrow> cursor (step s) = Some (last (take_cyclic (members s) (cursor s) quota))"
begin

definition served :: "'s \<Rightarrow> 'a list" where
  "served s = take_cyclic (members s) (cursor s) quota"

lemma waits_less:
  assumes "p |\<in>| members s" "p \<notin> set (served s)"
  shows "p |\<in>| members (step s)" "quota + ahead p (cursor (step s)) (members (step s)) \<le> ahead p (cursor s) (members s)"
proof -
  show m: "p |\<in>| members (step s)" using waiting_stay [of s] assms unfolding served_def by (auto simp: fset_of_list_elem)
  have "members s \<noteq> {||}" using assms(1) by auto
  from cursor_moves [OF this] ahead_step [OF m nobody_joins assms(2) [unfolded served_def] quota_pos]
  show "quota + ahead p (cursor (step s)) (members (step s)) \<le> ahead p (cursor s) (members s)" by simp
qed

lemma served_within:
  "p |\<in>| members s \<Longrightarrow> ahead p (cursor s) (members s) < m * quota \<Longrightarrow> \<exists>j<m. p \<in> set (served ((step ^^ j) s))"
proof (induction m arbitrary: s)
  case (Suc m)
  show ?case
  proof (cases "p \<in> set (served s)")
    case True
    then show ?thesis by (intro exI [of _ 0]) simp
  next
    case False
    note w = waits_less [OF Suc.prems(1) False]
    with Suc.prems(2) have "ahead p (cursor (step s)) (members (step s)) < m * quota" by simp
    from Suc.IH [OF w(1) this] obtain j where "j < m" "p \<in> set (served ((step ^^ j) (step s)))" by blast
    then show ?thesis by (intro exI [of _ "Suc j"]) (simp add: funpow_swap1)
  qed
qed simp

lemma fair: "p |\<in>| members s \<Longrightarrow> fcard (members s) \<le> m * quota \<Longrightarrow> \<exists>j<m. p \<in> set (served ((step ^^ j) s))"
  using ahead_less [of p "members s" "cursor s"] by (intro served_within) auto

text \<open>The first time a member is served it was not served before.\<close>

lemma first_served:
  assumes "p |\<in>| members s" "fcard (members s) \<le> m * quota"
  shows "\<exists>j<m. p \<in> set (served ((step ^^ j) s)) \<and> (\<forall>i<j. p \<notin> set (served ((step ^^ i) s)))"
proof -
  from fair [OF assms] obtain j where j: "j < m" "p \<in> set (served ((step ^^ j) s))" by blast
  define k where "k = (LEAST k. p \<in> set (served ((step ^^ k) s)))"
  have "p \<in> set (served ((step ^^ k) s))" unfolding k_def using j(2) by (rule LeastI)
  moreover have "k \<le> j" unfolding k_def using j(2) by (rule Least_le)
  moreover have "p \<notin> set (served ((step ^^ i) s))" if "i < k" for i using that not_less_Least unfolding k_def by blast
  ultimately show ?thesis using j(1) by (meson order_le_less_trans)
qed

end

text \<open>
  A service: what a step does to the part of the state it keeps for each member. It gives the members it serves what they
  are due and leaves everyone else's part alone.
\<close>

locale fair_service = round_robin step members cursor quota
  for step :: "'s \<Rightarrow> 's" and members :: "'s \<Rightarrow> 'a :: linorder fset" and cursor :: "'s \<Rightarrow> 'a option" and quota :: nat +
  fixes part :: "'s \<Rightarrow> 'a \<Rightarrow> 'p"
    and due :: "'s \<Rightarrow> 'p \<Rightarrow> 'p"
  assumes serves: "p \<in> set (take_cyclic (members s) (cursor s) quota) \<Longrightarrow> part (step s) p = due s (part s p)"
    and leaves: "p \<notin> set (take_cyclic (members s) (cursor s) quota) \<Longrightarrow> part (step s) p = part s p"
begin

lemma part_waits: "\<forall>i<j. p \<notin> set (served ((step ^^ i) s)) \<Longrightarrow> part ((step ^^ j) s) p = part s p"
  by (induction j) (auto simp: served_def leaves)

lemma gets_due:
  assumes "p |\<in>| members s" "fcard (members s) \<le> m * quota"
  shows "\<exists>j<m. p \<in> set (take_cyclic (members ((step ^^ j) s)) (cursor ((step ^^ j) s)) quota)
    \<and> part ((step ^^ j) s) p = part s p \<and> part ((step ^^ Suc j) s) p = due ((step ^^ j) s) (part s p)"
proof -
  from first_served [OF assms] obtain j where j: "j < m" "p \<in> set (served ((step ^^ j) s))" "\<forall>i<j. p \<notin> set (served ((step ^^ i) s))" by blast
  then have w: "part ((step ^^ j) s) p = part s p" by (intro part_waits)
  moreover have "part ((step ^^ Suc j) s) p = due ((step ^^ j) s) (part s p)"
    using serves [of p "(step ^^ j) s"] j(2) w by (simp add: served_def)
  ultimately show ?thesis using j(1) j(2) [unfolded served_def] by blast
qed

end

end
