(* ===== verification/Server_Fair.thy ===== *)
theory Server_Fair
  imports Server_View Fairness
begin

text \<open>
  The snapshot round and the area-of-interest round both take turns as \<open>round_robin\<close> asks and do for each
  member what \<open>fair_service\<close> asks, so every recipient gets what it is due within a bounded number of ticks.
\<close>

section \<open>What the work of a tick does to the turn order\<close>

definition turns :: "server \<Rightarrow> nat fset \<times> nat option \<times> nat fset \<times> nat option" where
  "turns s = (sv_snapshot_recipients s, sv_snapshot_recipient_cursor s, sv_aoi_recipients s, sv_aoi_recipient_cursor s)"

lemma turns_fields [simp]:
  "turns (s\<lparr>sv_db := d\<rparr>) = turns s" "turns (s\<lparr>sv_seq := q\<rparr>) = turns s" "turns (s\<lparr>sv_host := h\<rparr>) = turns s"
  "turns (s\<lparr>sv_sessions := m\<rparr>) = turns s" "turns (s\<lparr>sv_snapshot_tick := t\<rparr>) = turns s"
  by (simp_all add: turns_def)

lemma turns_basic [simp]:
  "turns (upd_session p f s) = turns s" "turns (upd_hydration p g s) = turns s" "turns (srv_send p b s) = turns s"
  "turns (fst (next_seq s)) = turns s" "turns (fst (send_bounded p b s)) = turns s"
  "turns (fst (send_cell fb p c ps bs ms s)) = turns s"
  by (simp_all add: upd_session_alt upd_hydration_def srv_send_def next_seq_def send_bounded_def send_cell_def Let_def split_beta)

lemma turns_visit: "turns (fst (snapshot_visit fb t p sw)) = turns (fst sw)"
  by (cases sw) (simp add: snapshot_visit_def Let_def split_beta split: option.split)

lemma turns_one_aoi: "turns (fst (process_one_aoi_work fb p s w)) = turns s"
proof -
  have ch: "turns (fst (next_aoi_chunk p s)) = turns s" "turns (fst (prepare_cell_hydration p n s)) = turns s"
    "turns (fst (hydrate_players fb p a s w)) = turns s" "turns (fst (hydrate_mooring fb p c row s w)) = turns s"
    "turns (fst (finish_hydration fb p c s w)) = turns s" for p n a s w c row
    by (simp_all add: next_aoi_chunk_def prepare_cell_hydration_def hydrate_players_def hydrate_mooring_def finish_hydration_def
        Let_def split_beta split: option.split)
  have hm: "turns (fst (hydrate_moorings fb p c s w)) = turns s" for p c s w
    by (simp add: hydrate_moorings_def Let_def split_beta ch split: sum.split list.split)
  show ?thesis
    using ch(1) [of p s] by (simp add: process_one_aoi_work_def Let_def split_beta ch hm split: option.split prod.split)
qed

lemma last_opt_cyclic: "S \<noteq> {||} \<Longrightarrow> 0 < k \<Longrightarrow> last_opt (take_cyclic S c k) = Some (last (take_cyclic S c k))"
proof -
  assume "S \<noteq> {||}" "0 < k"
  then have "0 < fcard S" "0 < k" by (auto intro: gr0I)
  then have "length (take_cyclic S c k) \<noteq> 0" by (simp add: take_cyclic_def)
  then show ?thesis by (auto simp: last_opt_def)
qed

section \<open>The rounds\<close>

definition snapshot_round :: "flatbuffers \<Rightarrow> server \<Rightarrow> server" where
  "snapshot_round fb s = fst (broadcast_snapshots fb s)"

definition aoi_round :: "flatbuffers \<Rightarrow> server \<Rightarrow> server" where
  "aoi_round fb s = fst (process_aoi_work fb s)"

lemma snapshot_round_turns:
  "sv_snapshot_recipients (snapshot_round fb s) = sv_snapshot_recipients s"
  "sv_snapshot_recipients s \<noteq> {||} \<Longrightarrow>
     sv_snapshot_recipient_cursor (snapshot_round fb s)
       = Some (last (take_cyclic (sv_snapshot_recipients s) (sv_snapshot_recipient_cursor s) SNAPSHOT_PACKETS_PER_TICK))"
proof -
  let ?r = "take_cyclic (sv_snapshot_recipients s) (sv_snapshot_recipient_cursor s) SNAPSHOT_PACKETS_PER_TICK"
  have fold: "turns (fst (fold (snapshot_visit fb t) ps sw)) = turns (fst sw)" for t ps sw
    by (rule fold_inv [where I = "\<lambda>x. turns (fst x) = turns (fst sw)"]) (simp_all add: turns_visit)
  have t: "turns (snapshot_round fb s) = (sv_snapshot_recipients s,
      (case last_opt ?r of None \<Rightarrow> sv_snapshot_recipient_cursor s | Some p \<Rightarrow> Some p), sv_aoi_recipients s, sv_aoi_recipient_cursor s)"
    by (simp add: snapshot_round_def broadcast_snapshots_def Let_def ordered_peers_after_def fold)
      (simp add: turns_def split: option.split)
  then show "sv_snapshot_recipients (snapshot_round fb s) = sv_snapshot_recipients s" by (simp add: turns_def)
  show "sv_snapshot_recipient_cursor (snapshot_round fb s) = Some (last ?r)" if "sv_snapshot_recipients s \<noteq> {||}"
    using t last_opt_cyclic [OF that, of SNAPSHOT_PACKETS_PER_TICK "sv_snapshot_recipient_cursor s"]
    by (simp add: turns_def SNAPSHOT_PACKETS_PER_TICK_def)
qed

lemma aoi_step_turns:
  "sv_aoi_recipient_cursor (fst (aoi_step fb p sw)) = sv_aoi_recipient_cursor (fst sw)"
  "sv_aoi_recipients (fst (aoi_step fb p sw)) |-| {|p|} = sv_aoi_recipients (fst sw) |-| {|p|}"
proof -
  obtain s w where sw: "sw = (s, w)" by (cases sw)
  let ?s = "s\<lparr>sv_aoi_recipients := sv_aoi_recipients s |-| {|p|}\<rparr>"
  obtain s2 w2 r where one: "process_one_aoi_work fb p ?s (w\<lparr>aw_visits := aw_visits w + 1\<rparr>) = (s2, w2, r)"
    by (cases "process_one_aoi_work fb p ?s (w\<lparr>aw_visits := aw_visits w + 1\<rparr>)")
  have t: "sv_aoi_recipient_cursor s2 = sv_aoi_recipient_cursor s" "sv_aoi_recipients s2 = sv_aoi_recipients s |-| {|p|}"
    using turns_one_aoi [of fb p ?s "w\<lparr>aw_visits := aw_visits w + 1\<rparr>"] one by (simp_all add: turns_def)
  have "fst (aoi_step fb p sw) = ?s \<or> fst (aoi_step fb p sw) = s2 \<or> fst (aoi_step fb p sw) = schedule_aoi p s2"
    unfolding sw aoi_step_def Let_def prod.case one by simp
  moreover have "A |-| {|p|} |-| {|p|} = A |-| {|p|}" "finsert p (A |-| {|p|}) |-| {|p|} = A |-| {|p|}" for A by auto
  ultimately have "sv_aoi_recipient_cursor (fst (aoi_step fb p sw)) = sv_aoi_recipient_cursor s
      \<and> sv_aoi_recipients (fst (aoi_step fb p sw)) |-| {|p|} = sv_aoi_recipients s |-| {|p|}"
    using t by (elim disjE) (simp_all add: schedule_aoi_def)
  then show "sv_aoi_recipient_cursor (fst (aoi_step fb p sw)) = sv_aoi_recipient_cursor (fst sw)"
    "sv_aoi_recipients (fst (aoi_step fb p sw)) |-| {|p|} = sv_aoi_recipients (fst sw) |-| {|p|}" by (simp_all add: sw)
qed

lemma aoi_fold_turns:
  "sv_aoi_recipient_cursor (fst (fold (aoi_step fb) ps sw)) = sv_aoi_recipient_cursor (fst sw)
   \<and> sv_aoi_recipients (fst (fold (aoi_step fb) ps sw)) |-| fset_of_list ps = sv_aoi_recipients (fst sw) |-| fset_of_list ps"
proof (induction ps arbitrary: sw)
  case (Cons p ps)
  have "A |-| finsert p B = A |-| B |-| {|p|}" "A |-| finsert p B = A |-| {|p|} |-| B" for A B by auto
  then show ?case using Cons.IH [of "aoi_step fb p sw"] aoi_step_turns [of fb p sw] by (metis fold_simps(2) fset_of_list_simps(2))
qed simp

lemma aoi_round_turns:
  "sv_aoi_recipients (aoi_round fb s) |\<subseteq>| sv_aoi_recipients s"
  "sv_aoi_recipients s |-| fset_of_list (take_cyclic (sv_aoi_recipients s) (sv_aoi_recipient_cursor s) AOI_WORK_ITEMS_PER_TICK)
     |\<subseteq>| sv_aoi_recipients (aoi_round fb s)"
  "sv_aoi_recipients s \<noteq> {||} \<Longrightarrow>
     sv_aoi_recipient_cursor (aoi_round fb s)
       = Some (last (take_cyclic (sv_aoi_recipients s) (sv_aoi_recipient_cursor s) AOI_WORK_ITEMS_PER_TICK))"
proof -
  let ?r = "take_cyclic (sv_aoi_recipients s) (sv_aoi_recipient_cursor s) AOI_WORK_ITEMS_PER_TICK"
  define s1 where "s1 = (case last_opt ?r of None \<Rightarrow> s | Some p \<Rightarrow> s\<lparr>sv_aoi_recipient_cursor := Some p\<rparr>)"
  have r: "aoi_round fb s = fst (fold (aoi_step fb) ?r (s1, aoi_work_default))"
    by (simp add: aoi_round_def process_aoi_work_def Let_def ordered_peers_after_def s1_def)
  have s1: "sv_aoi_recipients s1 = sv_aoi_recipients s"
    "sv_aoi_recipient_cursor s1 = (case last_opt ?r of None \<Rightarrow> sv_aoi_recipient_cursor s | Some p \<Rightarrow> Some p)"
    by (simp_all add: s1_def split: option.split)
  note f = aoi_fold_turns [of fb ?r "(s1, aoi_work_default)", unfolded fst_conv s1, folded r]
  have sub: "fset_of_list ?r |\<subseteq>| sv_aoi_recipients s"
    using set_take_subset [of "min AOI_WORK_ITEMS_PER_TICK (fcard (sv_aoi_recipients s))"
        "cyclic_after (sv_aoi_recipient_cursor s) (sv_aoi_recipients s)"]
    by (auto simp: take_cyclic_def fset_of_list_elem simp del: set_take_subset)
  from f have eq: "sv_aoi_recipients (aoi_round fb s) |-| fset_of_list ?r = sv_aoi_recipients s |-| fset_of_list ?r" by blast
  then have "x |\<in>| sv_aoi_recipients s" if "x |\<in>| sv_aoi_recipients (aoi_round fb s)" for x
    using that sub by (cases "x |\<in>| fset_of_list ?r") auto
  then show "sv_aoi_recipients (aoi_round fb s) |\<subseteq>| sv_aoi_recipients s" by blast
  show "sv_aoi_recipients s |-| fset_of_list ?r |\<subseteq>| sv_aoi_recipients (aoi_round fb s)" unfolding eq [symmetric] by auto
  show "sv_aoi_recipient_cursor (aoi_round fb s) = Some (last ?r)" if "sv_aoi_recipients s \<noteq> {||}"
    using f last_opt_cyclic [OF that, of AOI_WORK_ITEMS_PER_TICK "sv_aoi_recipient_cursor s"] by (simp add: AOI_WORK_ITEMS_PER_TICK_def)
qed

interpretation snap: round_robin "snapshot_round fb" sv_snapshot_recipients sv_snapshot_recipient_cursor SNAPSHOT_PACKETS_PER_TICK for fb
  by unfold_locales (auto simp: snapshot_round_turns SNAPSHOT_PACKETS_PER_TICK_def)

interpretation aoi: round_robin "aoi_round fb" sv_aoi_recipients sv_aoi_recipient_cursor AOI_WORK_ITEMS_PER_TICK for fb
  by unfold_locales (rule aoi_round_turns | simp add: AOI_WORK_ITEMS_PER_TICK_def)+

section \<open>What a turn sends\<close>

text \<open>Where the datagrams of a peer go, a host that has done nothing but send since, and a message sent to a peer on the
  way: one the peer table does not have gets none.\<close>

definition route :: "nat \<Rightarrow> host \<Rightarrow> (socket_addr \<times> u8) option" where
  "route p h =
     (case peer_addr p h of None \<Rightarrow> None | Some a \<Rightarrow> map_option (\<lambda>x. (a, p_connection_number x)) (fmlookup (peers h) a))"

definition posts :: "host \<Rightarrow> host \<Rightarrow> bool" where
  "posts h h' \<longleftrightarrow> (\<forall>p. route p h' = route p h) \<and> (\<exists>l. tx_log (socket h') = tx_log (socket h) @ l)"

definition delivered :: "nat \<Rightarrow> bytes \<Rightarrow> host \<Rightarrow> host \<Rightarrow> bool" where
  "delivered p b h h' \<longleftrightarrow>
     (\<forall>a n. route p h = Some (a, n) \<longrightarrow> (a, build_unreliable n b) \<in> set (drop (length (tx_log (socket h))) (tx_log (socket h'))))"

lemma posts_refl [simp]: "posts h h"
  by (simp add: posts_def)

lemma posts_trans [trans]: "posts h1 h2 \<Longrightarrow> posts h2 h3 \<Longrightarrow> posts h1 h3"
  by (auto simp: posts_def)

lemma route_send_to [simp]: "route p (send_to b a h) = route p h"
proof -
  have f: "peers (send_to b a h) = peers h" "peer_slots (send_to b a h) = peer_slots h" by (simp_all add: send_to_def)
  show ?thesis unfolding route_def peer_addr_def f ..
qed

lemma send_posts:
  "posts h (fst (send_unreliable None p b h))"
  "length b \<le> MAX_PAYLOAD \<Longrightarrow> delivered p b h (fst (send_unreliable None p b h))"
proof -
  have "fst (send_unreliable None p b h) = (if length b > MAX_PAYLOAD then h
      else case route p h of None \<Rightarrow> h | Some (a, n) \<Rightarrow> send_to (build_unreliable n b) a h)"
    by (simp add: send_unreliable_def route_def MAX_PAYLOAD_def split: option.split)
  moreover have "tx_log (socket (send_to d a h)) = tx_log (socket h) @ [(a, d)]" for d a by (simp add: send_to_def)
  ultimately show "posts h (fst (send_unreliable None p b h))"
    "length b \<le> MAX_PAYLOAD \<Longrightarrow> delivered p b h (fst (send_unreliable None p b h))"
    by (auto simp: posts_def delivered_def split: option.split)
qed

lemma send_bounded_posts:
  "posts (sv_host s) (sv_host (fst (send_bounded p b s)))"
  "length b \<le> MAX_PAYLOAD \<Longrightarrow> delivered p b (sv_host s) (sv_host (fst (send_bounded p b s)))"
  by (simp_all add: send_bounded_def srv_send_def send_posts)

lemma delivered_within:
  assumes "posts h1 h2" "delivered p b h2 h3" "posts h3 h4"
  shows "delivered p b h1 h4"
proof -
  from assms(1,3) obtain l1 l3 where l: "tx_log (socket h2) = tx_log (socket h1) @ l1" "tx_log (socket h4) = tx_log (socket h3) @ l3"
    by (auto simp: posts_def)
  show ?thesis unfolding delivered_def
  proof (intro allI impI)
    fix a n
    assume "route p h1 = Some (a, n)"
    then have "route p h2 = Some (a, n)" using assms(1) by (simp add: posts_def)
    with assms(2) have "(a, build_unreliable n b) \<in> set (drop (length (tx_log (socket h1)) + length l1) (tx_log (socket h3)))"
      by (simp add: delivered_def l(1))
    then have "(a, build_unreliable n b) \<in> set (drop (length (tx_log (socket h1))) (tx_log (socket h3)))"
      using set_drop_subset_set_drop [of "length (tx_log (socket h1))" "length (tx_log (socket h1)) + length l1" "tx_log (socket h3)"] by auto
    then show "(a, build_unreliable n b) \<in> set (drop (length (tx_log (socket h1))) (tx_log (socket h4)))"
      by (auto simp: l(2) drop_append)
  qed
qed

text \<open>The state in which a member of a round gets its turn: everyone before it has only sent, and its own part is
  still as it was.\<close>

lemma fold_turn:
  assumes "p \<in> set ps" "I sw" "\<And>q sw. I sw \<Longrightarrow> I (f q sw)" "\<And>q sw. posts (sv_host (fst sw)) (sv_host (fst (f q sw)))"
    and "\<And>q sw. q \<noteq> p \<Longrightarrow> part (fst (f q sw)) p = part (fst sw) p"
  shows "\<exists>u. I u \<and> part (fst u) p = part (fst sw) p \<and> posts (sv_host (fst sw)) (sv_host (fst u))
    \<and> posts (sv_host (fst (f p u))) (sv_host (fst (fold f ps sw)))"
proof -
  have all: "posts (sv_host (fst sw)) (sv_host (fst (fold f qs sw)))" for qs sw
  proof (induction qs arbitrary: sw)
    case (Cons q qs)
    then show ?case using posts_trans [OF assms(4) [of sw q]] by simp
  qed simp
  have inv: "I (fold f qs sw)" for qs by (rule fold_inv) (use assms(2,3) in auto)
  have keep: "part (fst (fold f qs sw)) p = part (fst sw) p" if "p \<notin> set qs" for qs sw
    using that
  proof (induction qs arbitrary: sw)
    case (Cons q qs)
    then show ?case using assms(5) [of q sw] by auto
  qed simp
  obtain l1 l2 where l: "ps = l1 @ p # l2" "p \<notin> set l1" using split_list_first [OF assms(1)] by blast
  show ?thesis
    by (rule exI [of _ "fold f l1 sw"]) (simp add: inv keep l all)
qed

section \<open>What a turn gives\<close>

lemma fold_parts:
  assumes "distinct ps" "I sw" "\<And>p sw. I sw \<Longrightarrow> I (f p sw)"
    and "\<And>p q sw. I sw \<Longrightarrow> part (fst (f p sw)) q = (if q = p then d (part (fst sw) q) else part (fst sw) q)"
  shows "part (fst (fold f ps sw)) q = (if q \<in> set ps then d (part (fst sw) q) else part (fst sw) q)"
  using assms(1,2)
proof (induction ps arbitrary: sw)
  case (Cons p ps)
  then show ?case using assms(3,4) [of sw p] Cons.IH [of "f p sw"] by auto
qed simp

lemma take_cyclic_distinct: "distinct (take_cyclic S c k)"
  by (simp add: take_cyclic_def)

text \<open>What decides whom a snapshot shows: no visit changes it.\<close>

definition sight :: "server \<Rightarrow> config \<times> u64 fset \<times> (u64, nat) fmap \<times> (nat \<Rightarrow> (u64 \<times> cell option \<times> player_snap \<times> boat_snap) option)" where
  "sight s = (sv_cfg s, sv_player_order s, sv_player_peers s,
     \<lambda>p. map_option (\<lambda>x. (ss_player_id x, ss_cell x, player_snap_of x, boat_snap_of x)) (fmlookup (sv_sessions s) p))"


lemma sight_basic [simp]:
  "sight (s\<lparr>sv_seq := q\<rparr>) = sight s" "sight (s\<lparr>sv_host := h\<rparr>) = sight s" "sight (s\<lparr>sv_snapshot_tick := t\<rparr>) = sight s"
  "sight (s\<lparr>sv_snapshot_recipient_cursor := c\<rparr>) = sight s" "sight (srv_send p b s) = sight s"
  "sight (fst (next_seq s)) = sight s" "sight (fst (send_bounded p b s)) = sight s"
  by (simp_all add: sight_def srv_send_def next_seq_def send_bounded_def Let_def split: option.split)















text \<open>What has been announced to a session, and what an update of at most 32 cells makes of it.\<close>

definition announced :: "session \<Rightarrow> subscription \<times> cell fset" where
  "announced x = (ss_sub x, ss_published_cells x)"

definition announce_next :: "subscription \<times> cell fset \<Rightarrow> subscription \<times> cell fset" where
  "announce_next a =
     (case a of (sub, published) \<Rightarrow>
        let removed = take AOI_CELLS_PER_UPDATE (by_key (published |-| sub_cells sub));
            added = take (AOI_CELLS_PER_UPDATE - length removed) (by_key (sub_cells sub |-| published))
        in (sub, (published |-| fset_of_list removed) |\<union>| fset_of_list added))"

lemma announced_publish: "announced (publish_step x) = announce_next (announced x)"
  by (simp add: announced_def announce_next_def publish_step_def chunk_cells_def apply_chunk_def Let_def split_beta)

definition announcements :: "server \<Rightarrow> nat \<Rightarrow> (subscription \<times> cell fset) option" where
  "announcements s p = map_option announced (fmlookup (sv_sessions s) p)"

lemma announcements_basic [simp]:
  "announcements (s\<lparr>sv_db := d\<rparr>) = announcements s" "announcements (s\<lparr>sv_seq := q\<rparr>) = announcements s"
  "announcements (s\<lparr>sv_host := h\<rparr>) = announcements s" "announcements (s\<lparr>sv_aoi_recipients := r\<rparr>) = announcements s"
  "announcements (s\<lparr>sv_aoi_recipient_cursor := k\<rparr>) = announcements s"
  "announcements (srv_send p b s) = announcements s" "announcements (fst (next_seq s)) = announcements s"
  "announcements (fst (send_bounded p b s)) = announcements s" "announcements (fst (send_cell fb p c ps bs ms s)) = announcements s"
  "announcements (schedule_aoi p s) = announcements s"
  by (simp_all add: announcements_def fun_eq_iff srv_send_def next_seq_def send_bounded_def send_cell_def schedule_aoi_def Let_def split_beta)

lemma announcements_upd: "(\<And>x. announced (f x) = announced x) \<Longrightarrow> announcements (upd_session p f s) = announcements s"
  by (auto simp: announcements_def upd_session_alt fun_eq_iff option.map_comp comp_def)

lemma announcements_hydration [simp]:
  "announcements (upd_hydration p g s) = announcements s" "announcements (fst (prepare_cell_hydration p n s)) = announcements s"
  "announcements (fst (hydrate_players fb p a s w)) = announcements s" "announcements (fst (hydrate_moorings fb p c s w)) = announcements s"
proof -
  show u: "announcements (upd_hydration p g s) = announcements s" for p g s
    by (simp add: upd_hydration_def announcements_upd announced_def)
  have "announced (begin_hydration n x) = announced x" for x
    by (simp add: begin_hydration_def announced_def Let_def split: option.split)
  then show "announcements (fst (prepare_cell_hydration p n s)) = announcements s"
    by (auto simp: prepare_cell_hydration_def announcements_def upd_session_alt fun_eq_iff Let_def split: option.split)
  show "announcements (fst (hydrate_players fb p a s w)) = announcements s"
    by (simp add: hydrate_players_def Let_def split_beta u)
  have "announcements (fst (hydrate_mooring fb p c row s w)) = announcements s" "announcements (fst (finish_hydration fb p c s w)) = announcements s" for row s w
    by (simp_all add: hydrate_mooring_def finish_hydration_def Let_def split_beta u announcements_upd announced_def)
  then show "announcements (fst (hydrate_moorings fb p c s w)) = announcements s"
    by (simp add: hydrate_moorings_def Let_def split_beta split: sum.split list.split)
qed

lemma chunk_announcements:
  "announcements (fst (next_aoi_chunk p s)) q = (if q = p then map_option announce_next (announcements s q) else announcements s q)"
proof (cases "fmlookup (sv_sessions s) p")
  case (Some x)
  then show ?thesis using next_aoi_chunk_step [OF Some] announced_publish [of x]
    by (auto simp: announcements_def next_aoi_chunk_def upd_session_alt split_beta)
qed (simp add: announcements_def next_aoi_chunk_def)

lemma one_aoi_announcements:
  "announcements (fst (process_one_aoi_work fb p s w)) q = (if q = p then map_option announce_next (announcements s q) else announcements s q)"
proof -
  obtain s1 r where c: "next_aoi_chunk p s = (s1, r)" by (cases "next_aoi_chunk p s")
  have "announcements (fst (process_one_aoi_work fb p s w)) = announcements s1"
    using announcements_hydration(2) [of p "fcard (sv_player_order s1)" s1]
    by (auto simp: process_one_aoi_work_def c Let_def split_beta split: option.split prod.split)
  then show ?thesis using chunk_announcements [of p s q] by (simp add: c)
qed

lemma aoi_step_announcements:
  "announcements (fst (aoi_step fb p sw)) q = (if q = p then map_option announce_next (announcements (fst sw) q) else announcements (fst sw) q)"
proof (cases sw)
  case (Pair s w)
  show ?thesis
  proof (cases "fmlookup (sv_sessions s) p")
    case None
    then show ?thesis by (simp add: Pair aoi_step_def Let_def) (simp add: announcements_def)
  next
    case (Some x)
    obtain s2 w2 r where one: "process_one_aoi_work fb p (s\<lparr>sv_aoi_recipients := sv_aoi_recipients s |-| {|p|}\<rparr>) (w\<lparr>aw_visits := aw_visits w + 1\<rparr>) = (s2, w2, r)"
      by (cases "process_one_aoi_work fb p (s\<lparr>sv_aoi_recipients := sv_aoi_recipients s |-| {|p|}\<rparr>) (w\<lparr>aw_visits := aw_visits w + 1\<rparr>)")
    show ?thesis
      using one_aoi_announcements [of fb p "s\<lparr>sv_aoi_recipients := sv_aoi_recipients s |-| {|p|}\<rparr>" "w\<lparr>aw_visits := aw_visits w + 1\<rparr>" q] Some
      unfolding Pair aoi_step_def prod.case Let_def one by (simp split: if_splits)
  qed
qed

lemma hydration_posts:
  "posts (sv_host s) (sv_host (fst (hydrate_players fb p a s w)))" "posts (sv_host s) (sv_host (fst (hydrate_moorings fb p c s w)))"
proof -
  have send: "posts (sv_host s) (sv_host (fst (send_cell fb p c ps bs ms s')))" if "sv_host s' = sv_host s" for c ps bs ms s s'
    using that by (simp add: send_cell_def next_seq_def Let_def split_beta send_bounded_def srv_send_def send_posts)
  have h: "sv_host (upd_hydration p g s) = sv_host s" "sv_host (upd_session p f s) = sv_host s" for g f s
    by (simp_all add: upd_hydration_def upd_session_alt)
  show "posts (sv_host s) (sv_host (fst (hydrate_players fb p a s w)))"
    by (simp add: hydrate_players_def Let_def split_beta h send)
  have "posts (sv_host s) (sv_host (fst (hydrate_mooring fb p c row s w)))" "posts (sv_host s) (sv_host (fst (finish_hydration fb p c s w)))" for row s w
    by (simp_all add: hydrate_mooring_def finish_hydration_def Let_def split_beta h send)
  from this [of "s\<lparr>sv_db := d\<rparr>" for d] show "posts (sv_host s) (sv_host (fst (hydrate_moorings fb p c s w)))"
    by (simp add: hydrate_moorings_def Let_def split_beta split: sum.split list.split)
qed

lemma one_aoi_posts: "posts (sv_host s) (sv_host (fst (process_one_aoi_work fb p s w)))"
proof -
  have h: "sv_host (fst (next_aoi_chunk p s)) = sv_host s" "sv_host (fst (prepare_cell_hydration p n s)) = sv_host s" for n s
    by (simp_all add: next_aoi_chunk_def prepare_cell_hydration_def upd_session_alt Let_def split_beta split: option.split)
  obtain s1 r where c: "next_aoi_chunk p s = (s1, r)" by (cases "next_aoi_chunk p s")
  obtain s2 a where d: "prepare_cell_hydration p (fcard (sv_player_order s1)) s1 = (s2, a)"
    by (cases "prepare_cell_hydration p (fcard (sv_player_order s1)) s1")
  have "sv_host s1 = sv_host s" "sv_host s2 = sv_host s" using h(1) [of s] h(2) [of "fcard (sv_player_order s1)" s1] c d by simp_all
  then show ?thesis
    using hydration_posts [of s2 fb p _ w] send_posts(1)
    by (auto simp: process_one_aoi_work_def c d next_seq_def send_bounded_def srv_send_def Let_def split_beta split: option.split)
qed

lemma aoi_step_posts: "posts (sv_host (fst sw)) (sv_host (fst (aoi_step fb p sw)))"
proof (cases sw)
  case (Pair s w)
  show ?thesis
    using one_aoi_posts [of "s\<lparr>sv_aoi_recipients := sv_aoi_recipients s |-| {|p|}\<rparr>" fb p "w\<lparr>aw_visits := aw_visits w + 1\<rparr>"]
    by (simp add: Pair aoi_step_def schedule_aoi_def Let_def split_beta)
qed

lemma aoi_step_delivers:
  assumes "fmlookup (sv_sessions s) p = Some x" "chunk_cells x = (added, removed)" "added \<noteq> [] \<or> removed \<noteq> []"
  shows "\<exists>sq. let b = aoi_update_msg fb sq added removed
    in length b \<le> MAX_PAYLOAD \<longrightarrow> delivered p b (sv_host s) (sv_host (fst (aoi_step fb p (s, w))))"
proof -
  let ?s = "s\<lparr>sv_aoi_recipients := sv_aoi_recipients s |-| {|p|}\<rparr>"
  define s2 where "s2 = fst (next_seq (upd_session p (apply_chunk added removed) ?s))"
  have "next_aoi_chunk p ?s = (upd_session p (apply_chunk added removed) ?s, Some (added, removed))"
    using assms by (auto simp: next_aoi_chunk_def)
  then have "sv_host (fst (aoi_step fb p (s, w)))
      = sv_host (fst (send_bounded p (aoi_update_msg fb (snd (next_seq (upd_session p (apply_chunk added removed) ?s))) added removed) s2))"
    using assms(1) by (simp add: aoi_step_def process_one_aoi_work_def schedule_aoi_def s2_def Let_def split_beta)
  moreover have "sv_host s2 = sv_host s" by (simp add: s2_def next_seq_def upd_session_alt Let_def)
  ultimately show ?thesis using send_bounded_posts(2) [of _ p s2] unfolding Let_def by metis
qed

lemma chunk_announced: "announced x = announced y \<Longrightarrow> chunk_cells x = chunk_cells y"
  by (simp add: announced_def chunk_cells_def)

lemma aoi_round_announcements:
  "announcements (aoi_round fb s) q =
     (if q \<in> set (take_cyclic (sv_aoi_recipients s) (sv_aoi_recipient_cursor s) AOI_WORK_ITEMS_PER_TICK)
      then map_option announce_next (announcements s q) else announcements s q)"
proof -
  let ?r = "take_cyclic (sv_aoi_recipients s) (sv_aoi_recipient_cursor s) AOI_WORK_ITEMS_PER_TICK"
  have "announcements (case last_opt ?r of None \<Rightarrow> s | Some p \<Rightarrow> s\<lparr>sv_aoi_recipient_cursor := Some p\<rparr>) = announcements s"
    by (simp split: option.split)
  then show ?thesis
    using fold_parts [where part = announcements and I = "\<lambda>_. True" and f = "aoi_step fb" and d = "map_option announce_next",
        OF take_cyclic_distinct TrueI TrueI aoi_step_announcements]
    by (simp add: aoi_round_def process_aoi_work_def Let_def ordered_peers_after_def)
qed

lemma aoi_round_delivers:
  assumes p: "p \<in> set (take_cyclic (sv_aoi_recipients s) (sv_aoi_recipient_cursor s) AOI_WORK_ITEMS_PER_TICK)"
    and a: "announcements s p = Some (announced x)" "chunk_cells x = (added, removed)" "added \<noteq> [] \<or> removed \<noteq> []"
  shows "\<exists>sq. let b = aoi_update_msg fb sq added removed
    in length b \<le> MAX_PAYLOAD \<longrightarrow> delivered p b (sv_host s) (sv_host (aoi_round fb s))"
proof -
  let ?r = "take_cyclic (sv_aoi_recipients s) (sv_aoi_recipient_cursor s) AOI_WORK_ITEMS_PER_TICK"
  define s1 where "s1 = (case last_opt ?r of None \<Rightarrow> s | Some p \<Rightarrow> s\<lparr>sv_aoi_recipient_cursor := Some p\<rparr>)"
  have s1: "announcements s1 = announcements s" "sv_host s1 = sv_host s" by (simp_all add: s1_def split: option.split)
  have r: "aoi_round fb s = fst (fold (aoi_step fb) ?r (s1, aoi_work_default))"
    by (simp add: aoi_round_def process_aoi_work_def Let_def ordered_peers_after_def s1_def)
  obtain u where u: "announcements (fst u) p = Some (announced x)" "posts (sv_host s) (sv_host (fst u))"
    "posts (sv_host (fst (aoi_step fb p u))) (sv_host (aoi_round fb s))"
    using fold_turn [where f = "aoi_step fb" and I = "\<lambda>_. True" and part = announcements and sw = "(s1, aoi_work_default)", OF p]
    by (auto simp: s1 aoi_step_posts aoi_step_announcements a(1) r)
  obtain t w where tw: "u = (t, w)" by (cases u)
  from u(1) obtain y where y: "fmlookup (sv_sessions t) p = Some y" "announced y = announced x" by (auto simp: announcements_def tw)
  from aoi_step_delivers [OF y(1) _ a(3), of fb w] chunk_announced [OF y(2)] a(2)
  obtain sq where "let b = aoi_update_msg fb sq added removed in length b \<le> MAX_PAYLOAD \<longrightarrow> delivered p b (sv_host t) (sv_host (fst (aoi_step fb p u)))"
    by (auto simp: tw)
  with delivered_within [OF u(2) _ u(3)] show ?thesis unfolding Let_def tw fst_conv by blast
qed


interpretation aoi_service: fair_service "aoi_round fb" sv_aoi_recipients sv_aoi_recipient_cursor AOI_WORK_ITEMS_PER_TICK
  announcements "\<lambda>_. map_option announce_next" for fb
  by unfold_locales (simp_all add: aoi_round_announcements)


section \<open>Properties\<close>


definition demo_waiting :: session where
  "demo_waiting = new_session 7 ''id'' ''Ann'' \<lparr>sub_radius = 1, sub_center = Some (Cell 0 0), sub_cells = {|Cell 0 0, Cell 0 1|}\<rparr> (Cell 0 0)"

definition demo_crowd :: server where
  "demo_crowd = demo_server\<lparr>sv_snapshot_recipients := fset_of_list [0..<40], sv_aoi_recipients := fset_of_list [1..<20],
     sv_sessions := fmupd 35 demo_waiting (fmupd 19 demo_waiting fmempty)\<rparr>"


text \<open>C21: likewise every session in the queue of area-of-interest work gets its next update within a bounded number of
  ticks, although the sessions served meanwhile may leave the queue or return to it. What is announced to it stays as it
  was until then; the round then brings it nearer to its subscription by up to 32 cells, withdrawals first, and sends it the
  update that names exactly those cells.\<close>

theorem aoi_turns_fair:
  assumes "p |\<in>| sv_aoi_recipients s" "fcard (sv_aoi_recipients s) \<le> m * AOI_WORK_ITEMS_PER_TICK"
    and "fmlookup (sv_sessions s) p = Some x" "chunk_cells x = (added, removed)"
  shows "\<exists>j<m. let t = (aoi_round fb ^^ j) s; t' = (aoi_round fb ^^ Suc j) s
    in announcements t p = Some (announced x)
       \<and> (\<exists>y. fmlookup (sv_sessions t') p = Some y \<and> announced y = announce_next (announced x)
            \<and> ss_sub y = ss_sub x \<and> backlog y = backlog x - AOI_CELLS_PER_UPDATE)
       \<and> (added \<noteq> [] \<or> removed \<noteq> [] \<longrightarrow>
            (\<exists>sq. let b = aoi_update_msg fb sq added removed in length b \<le> MAX_PAYLOAD \<longrightarrow> delivered p b (sv_host t) (sv_host t')))"
proof -
  have p: "announcements s p = Some (announced x)" using assms(3) by (simp add: announcements_def)
  from aoi_service.gets_due [where fb = fb, OF assms(1,2)] p obtain j where j: "j < m"
    "p \<in> set (take_cyclic (sv_aoi_recipients ((aoi_round fb ^^ j) s)) (sv_aoi_recipient_cursor ((aoi_round fb ^^ j) s)) AOI_WORK_ITEMS_PER_TICK)"
    "announcements ((aoi_round fb ^^ j) s) p = Some (announced x)"
    "announcements ((aoi_round fb ^^ Suc j) s) p = Some (announce_next (announced x))" by auto
  from j(4) obtain y where y: "fmlookup (sv_sessions ((aoi_round fb ^^ Suc j) s)) p = Some y" "announced y = announce_next (announced x)"
    by (auto simp: announcements_def)
  from y(2) have "ss_sub y = ss_sub (publish_step x)" "ss_published_cells y = ss_published_cells (publish_step x)"
    unfolding announced_publish [symmetric] by (simp_all add: announced_def)
  then have "backlog y = backlog (publish_step x)" "ss_sub y = ss_sub x" by (simp_all add: backlog_def publish_step_backlog(2))
  then have "backlog y = backlog x - AOI_CELLS_PER_UPDATE" "ss_sub y = ss_sub x" by (simp_all only: publish_step_backlog(1))
  moreover have "\<exists>sq. let b = aoi_update_msg fb sq added removed
      in length b \<le> MAX_PAYLOAD \<longrightarrow> delivered p b (sv_host ((aoi_round fb ^^ j) s)) (sv_host ((aoi_round fb ^^ Suc j) s))"
    if "added \<noteq> [] \<or> removed \<noteq> []"
    using aoi_round_delivers [OF j(2,3) assms(4) that, of fb] by simp
  ultimately show ?thesis using j(1,3) y unfolding Let_def by blast
qed

theorem aoi_turns_fair_witness:
  "\<exists>j<3. \<exists>y. fmlookup (sv_sessions ((aoi_round demo_fb ^^ Suc j) demo_crowd)) 19 = Some y \<and> ss_published_cells y = {|Cell 0 0, Cell 0 1|}"
proof -
  have "fcard (fset_of_list [1..<20]) \<le> length [1..<20]" by (metis card_length fcard.rep_eq fset_of_list.rep_eq)
  then have "fcard (sv_aoi_recipients demo_crowd) \<le> 3 * AOI_WORK_ITEMS_PER_TICK"
    by (simp add: AOI_WORK_ITEMS_PER_TICK_def demo_crowd_def)
  moreover have "19 |\<in>| sv_aoi_recipients demo_crowd" "fmlookup (sv_sessions demo_crowd) 19 = Some demo_waiting"
    by (simp_all add: demo_crowd_def fset_of_list_elem)
  ultimately obtain j y where y: "j < 3" "fmlookup (sv_sessions ((aoi_round demo_fb ^^ Suc j) demo_crowd)) 19 = Some y"
    "ss_sub y = ss_sub demo_waiting" "backlog y = backlog demo_waiting - AOI_CELLS_PER_UPDATE"
    using aoi_turns_fair [of 19 demo_crowd 3 demo_waiting "fst (chunk_cells demo_waiting)" "snd (chunk_cells demo_waiting)" demo_fb]
    unfolding Let_def prod.collapse by blast
  have "backlog demo_waiting \<le> 2"
    by (simp add: backlog_def demo_waiting_def new_session_def fcard_finsert_if)
  then have "ss_published_cells y = sub_cells (ss_sub y)" using y(4) by (simp add: AOI_CELLS_PER_UPDATE_def flip: backlog_zero)
  with y show ?thesis by (auto simp: demo_waiting_def new_session_def)
qed

end
