(* ===== verification/Server_Fanout.thy ===== *)
theory Server_Fanout
  imports Server_Boot
begin

text \<open>
  Delivery of queued broadcasts: which recipients of a job get the bytes, how far one tick gets and
  that it never stops early.
\<close>

section \<open>One job\<close>

definition deliver :: "bytes \<Rightarrow> fanout_recipient list \<Rightarrow> server \<Rightarrow> server" where
  "deliver b rs s = fold (\<lambda>r. srv_send (fst r) b) rs s"

text \<open>The part of the audience one run of a job examines.\<close>

definition slice :: "fanout_job \<Rightarrow> nat \<Rightarrow> fanout_recipient list" where
  "slice job k = take k (drop (fj_next_recipient job) (au_items (fj_recipients job)))"

definition wanted :: "fanout_job \<Rightarrow> nat \<Rightarrow> server \<Rightarrow> fanout_recipient list" where
  "wanted job k s = filter (\<lambda>r. should_send job r s) (slice job k)"

lemma should_send_frame [simp]:
  "should_send job r (srv_send p b s) = should_send job r s"
  "should_send (job\<lparr>fj_next_recipient := n\<rparr>) r s = should_send job r s"
  by (simp_all add: should_send_def cong: option.case_cong)

lemma slice_Suc:
  "fj_next_recipient job < length (au_items (fj_recipients job)) \<Longrightarrow>
   slice job (Suc k) = au_items (fj_recipients job) ! fj_next_recipient job
     # slice (job\<lparr>fj_next_recipient := fj_next_recipient job + 1\<rparr>) k"
  by (simp add: slice_def Cons_nth_drop_Suc [symmetric])

lemma wanted_frame [simp]: "wanted job k (srv_send p b s) = wanted job k s"
  by (simp add: wanted_def)

lemma job_run_value:
  assumes "fanout_job_run a b s job w = (s', job', w')"
  shows "\<exists>k. job' = job\<lparr>fj_next_recipient := fj_next_recipient job + k\<rparr>
    \<and> s' = deliver (fj_bytes job) (wanted job k s) s
    \<and> fw_scans w' = fw_scans w + k \<and> fw_sends w' = fw_sends w + length (wanted job k s) \<and> fw_jobs w' = fw_jobs w
    \<and> (job_inv job \<longrightarrow> job_inv job')
    \<and> (fw_scans w \<le> a \<longrightarrow> fw_scans w' \<le> a) \<and> (fw_sends w \<le> b \<longrightarrow> fw_sends w' \<le> b)
    \<and> (fj_next_recipient job' < length (au_items (fj_recipients job')) \<longrightarrow> fw_scans w' \<ge> a \<or> fw_sends w' \<ge> b)"
  using assms
proof (induction a b s job w arbitrary: s' job' w' rule: fanout_job_run.induct)
  case (1 a b s job w)
  let ?r = "au_items (fj_recipients job) ! fj_next_recipient job"
  let ?j = "job\<lparr>fj_next_recipient := fj_next_recipient job + 1\<rparr>"
  let ?w = "w\<lparr>fw_scans := fw_scans w + 1\<rparr>"
  show ?case
  proof (cases "fj_next_recipient job < length (au_items (fj_recipients job)) \<and> fw_scans w < a \<and> fw_sends w < b")
    case False
    then have "(s', job', w') = (s, job, w)" using 1(3) by (subst (asm) fanout_job_run.simps) (simp only: if_False)
    with False show ?thesis by (intro exI [of _ 0]) (auto simp: deliver_def wanted_def slice_def)
  next
    case go: True
    have next_inv: "job_inv ?j" using go by (simp add: job_inv_def)
    have sl: "slice job (Suc k) = ?r # slice ?j k" for k by (rule slice_Suc) (use go in simp)
    show ?thesis
    proof (cases "should_send job ?r s")
      case True
      let ?w2 = "?w\<lparr>fw_sends := fw_sends ?w + 1, fw_bytes := fw_bytes ?w + length (fj_bytes ?j)\<rparr>"
      have run: "fanout_job_run a b (srv_send (fst ?r) (fj_bytes ?j) s) ?j ?w2 = (s', job', w')"
        using 1(3) go True by (subst (asm) fanout_job_run.simps) (simp add: Let_def)
      from 1(1) [OF go refl refl refl _ run] True obtain k where k: "job' = ?j\<lparr>fj_next_recipient := fj_next_recipient ?j + k\<rparr>"
        "s' = deliver (fj_bytes job) (wanted ?j k s) (srv_send (fst ?r) (fj_bytes job) s)"
        "fw_scans w' = fw_scans w + 1 + k" "fw_sends w' = fw_sends w + 1 + length (wanted ?j k s)" "fw_jobs w' = fw_jobs w"
        "job_inv ?j \<longrightarrow> job_inv job'" "fw_scans w + 1 \<le> a \<longrightarrow> fw_scans w' \<le> a" "fw_sends w + 1 \<le> b \<longrightarrow> fw_sends w' \<le> b"
        "fj_next_recipient job' < length (au_items (fj_recipients job')) \<longrightarrow> fw_scans w' \<ge> a \<or> fw_sends w' \<ge> b"
        by auto
      have "wanted job (Suc k) s = ?r # wanted ?j k s" using True by (simp add: wanted_def sl)
      with k go next_inv show ?thesis by (intro exI [of _ "Suc k"]) (simp add: deliver_def)
    next
      case False
      have run: "fanout_job_run a b s ?j ?w = (s', job', w')"
        using 1(3) go False by (subst (asm) fanout_job_run.simps) (simp add: Let_def)
      from 1(2) [OF go refl refl refl _ run] False obtain k where k: "job' = ?j\<lparr>fj_next_recipient := fj_next_recipient ?j + k\<rparr>"
        "s' = deliver (fj_bytes job) (wanted ?j k s) s"
        "fw_scans w' = fw_scans w + 1 + k" "fw_sends w' = fw_sends w + length (wanted ?j k s)" "fw_jobs w' = fw_jobs w"
        "job_inv ?j \<longrightarrow> job_inv job'" "fw_scans w + 1 \<le> a \<longrightarrow> fw_scans w' \<le> a" "fw_sends w \<le> b \<longrightarrow> fw_sends w' \<le> b"
        "fj_next_recipient job' < length (au_items (fj_recipients job')) \<longrightarrow> fw_scans w' \<ge> a \<or> fw_sends w' \<ge> b"
        by auto
      have "wanted job (Suc k) s = wanted ?j k s" using False by (simp add: wanted_def sl)
      with k go next_inv show ?thesis by (intro exI [of _ "Suc k"]) simp
    qed
  qed
qed

section \<open>One tick\<close>

lemma take_job_inv: "srv_inv s \<Longrightarrow> take_job s = (fc, Some (s1, job)) \<Longrightarrow> job_inv job"
  using core_invD(5) [OF srv_invD(1)]
  by (fastforce simp: fanout_inv_def queue_inv_def take_job_def Let_def split: if_splits list.splits)

definition fanout_idle :: "server \<Rightarrow> bool" where
  "fanout_idle s \<longleftrightarrow> sv_clock_fanout s = None \<and> sv_chat_fanout s = []"

lemma fanout_loop_budget:
  assumes "srv_inv s" "fw_scans w \<le> a" "fw_sends w \<le> b"
  shows "let (s', w') = fanout_loop a b s w
    in fw_scans w' \<le> a \<and> fw_sends w' \<le> b \<and> (fanout_idle s' \<or> fw_scans w' = a \<or> fw_sends w' = b)"
proof (rule fanout_loop_rule [where P = "\<lambda>s w res. srv_inv s \<longrightarrow> fw_scans w \<le> a \<longrightarrow> fw_sends w \<le> b \<longrightarrow>
    (let (s', w') = res in fw_scans w' \<le> a \<and> fw_sends w' \<le> b \<and> (fanout_idle s' \<or> fw_scans w' = a \<or> fw_sends w' = b))",
    rule_format], goal_cases)
  case (2 s w fc s1 job s2 job2 w2 res)
  obtain k where "fw_scans w \<le> a \<longrightarrow> fw_scans w2 \<le> a" "fw_sends w \<le> b \<longrightarrow> fw_sends w2 \<le> b" using job_run_value [OF 2(2)] by blast
  with 2 fanout_turn_inv(1) [OF 2(5) 2(1) 2(2)] show ?case by simp
next
  case (3 s w fc s1 job s2 job2 w2)
  from job_run_value [OF 3(2)] take_job_inv [OF 3(4,1)] have
    "fw_scans w2 \<le> a" "fw_sends w2 \<le> b" "job_inv job2"
    "fj_next_recipient job2 < length (au_items (fj_recipients job2)) \<longrightarrow> fw_scans w2 \<ge> a \<or> fw_sends w2 \<ge> b"
    using 3(5,6) by blast+
  with 3(3) show ?case by (auto simp: job_inv_def)
qed (use assms in \<open>auto simp: fanout_idle_def\<close>)

section \<open>Properties\<close>

text \<open>C16: a run of a fanout job sends its bytes to exactly the recipients it examined whose session still has
  the generation the audience was captured with and, for chat, sees the sender's cell; it examines
  them in order, and stops before the end only when a budget is used up.\<close>

theorem fanout_job_delivers:
  "\<exists>k. let (s', job', w') = fanout_job_run scan_budget send_budget s job w;
           examined = take k (drop (fj_next_recipient job) (au_items (fj_recipients job)));
           wanted = filter (\<lambda>r. case fmlookup (sv_sessions s) (fst r) of
             None \<Rightarrow> False
           | Some x \<Rightarrow> ss_generation x = snd r \<and> (\<forall>c. fj_sender_cell job = Some c \<longrightarrow> c |\<in>| sub_cells (ss_sub x))) examined
       in s' = fold (\<lambda>r. srv_send (fst r) (fj_bytes job)) wanted s
          \<and> job' = job\<lparr>fj_next_recipient := fj_next_recipient job + k\<rparr>
          \<and> fw_sends w' = fw_sends w + length wanted \<and> fw_scans w' = fw_scans w + k
          \<and> (fj_next_recipient job' < length (au_items (fj_recipients job')) \<longrightarrow> fw_scans w' \<ge> scan_budget \<or> fw_sends w' \<ge> send_budget)"
proof -
  obtain s' job' w' where run: "fanout_job_run scan_budget send_budget s job w = (s', job', w')"
    by (cases "fanout_job_run scan_budget send_budget s job w")
  have f: "(\<lambda>r. should_send job r s) = (\<lambda>r. case fmlookup (sv_sessions s) (fst r) of
      None \<Rightarrow> False | Some x \<Rightarrow> ss_generation x = snd r \<and> (\<forall>c. fj_sender_cell job = Some c \<longrightarrow> c |\<in>| sub_cells (ss_sub x)))"
    by (rule ext) (auto simp: should_send_def sub_contains_def split: option.split)
  from job_run_value [OF run] obtain k where k: "job' = job\<lparr>fj_next_recipient := fj_next_recipient job + k\<rparr>"
    "s' = deliver (fj_bytes job) (wanted job k s) s" "fw_scans w' = fw_scans w + k" "fw_sends w' = fw_sends w + length (wanted job k s)"
    "fj_next_recipient job' < length (au_items (fj_recipients job')) \<longrightarrow> fw_scans w' \<ge> scan_budget \<or> fw_sends w' \<ge> send_budget"
    by blast
  then show ?thesis unfolding run f [symmetric] deliver_def wanted_def slice_def Let_def prod.case by (intro exI [of _ k]) blast
qed

theorem fanout_job_delivers_witness:
  "\<exists>k. let (s', job', w') = fanout_job_run 5 5 demo_server
             \<lparr>fj_bytes = [1], fj_sender_cell = None, fj_recipients = \<lparr>au_ptr = 0, au_items = [(1, 1)]\<rparr>, fj_next_recipient = 0\<rparr> fanout_work_default
       in job' = \<lparr>fj_bytes = [1], fj_sender_cell = None, fj_recipients = \<lparr>au_ptr = 0, au_items = [(1, 1)]\<rparr>, fj_next_recipient = k\<rparr>"
  using fanout_job_delivers [where scan_budget = 5 and send_budget = 5 and s = demo_server and w = fanout_work_default
      and job = "\<lparr>fj_bytes = [1], fj_sender_cell = None, fj_recipients = \<lparr>au_ptr = 0, au_items = [(1, 1)]\<rparr>, fj_next_recipient = 0\<rparr>"]
  by (fastforce simp: Let_def)

text \<open>C36: a tick's fanout work stays within its scan and send budgets, and it is never left undone: the queues are
  empty or a budget is used up.\<close>

theorem fanout_work_conserving:
  assumes "srv_inv s"
  shows "let (s', w) = process_fanout_work s
    in fw_scans w \<le> FANOUT_RECIPIENT_SCANS_PER_TICK \<and> fw_sends w \<le> FANOUT_SENDS_PER_TICK
       \<and> (sv_clock_fanout s' = None \<and> sv_chat_fanout s' = []
          \<or> fw_scans w = FANOUT_RECIPIENT_SCANS_PER_TICK \<or> fw_sends w = FANOUT_SENDS_PER_TICK)"
  using fanout_loop_budget [OF assms, of fanout_work_default]
  by (simp add: process_fanout_work_def process_fanout_work_with_budget_def fanout_work_default_def fanout_idle_def)

theorem fanout_work_conserving_witness:
  "let (s', w) = process_fanout_work demo_server
    in fw_scans w \<le> FANOUT_RECIPIENT_SCANS_PER_TICK \<and> fw_sends w \<le> FANOUT_SENDS_PER_TICK
       \<and> (sv_clock_fanout s' = None \<and> sv_chat_fanout s' = []
          \<or> fw_scans w = FANOUT_RECIPIENT_SCANS_PER_TICK \<or> fw_sends w = FANOUT_SENDS_PER_TICK)"
  by (rule fanout_work_conserving) (use demo_server_settled in \<open>simp add: settled_def\<close>)

text \<open>C15: a broadcast queued before a session was registered never reaches it, even when the transport reuses the
  id of a peer the broadcast was meant for.\<close>

theorem stale_fanout_skips_new_session:
  assumes "core_inv s" "fmlookup (sv_sessions s) p = None" "fmlookup (sv_player_peers s) (ss_player_id x) = None"
    and "session_inv (aoi_radius_i32 (sv_cfg s)) x" "fmlookup (sv_identity_players s) (ss_identity_hash x) = Some (ss_player_id x)"
    and "register_session p x s = (s', Inr ())"
  shows "\<forall>job r. (job \<in> set (sv_chat_fanout s') \<or> sv_clock_fanout s' = Some job) \<and> r \<in> set (au_items (fj_recipients job)) \<and> fst r = p
    \<longrightarrow> \<not> should_send job r s'"
proof (intro allI impI)
  fix job r
  assume j: "(job \<in> set (sv_chat_fanout s') \<or> sv_clock_fanout s' = Some job) \<and> r \<in> set (au_items (fj_recipients job)) \<and> fst r = p"
  from register_core [OF assms] have "registered p x s s'" by simp
  then obtain g where g: "fmlookup (sv_sessions s') p = Some (x\<lparr>ss_generation := g\<rparr>)"
    "\<forall>a \<in> set (live_audiences s'). (p, g) \<notin> set (au_items a)" unfolding registered_def by blast
  from j have "fj_recipients job \<in> set (live_audiences s')" by (auto simp: live_audiences_def)
  with g(2) j have "snd r \<noteq> g" by (metis prod.collapse)
  with g(1) j show "\<not> should_send job r s'" by (simp add: should_send_def)
qed

theorem stale_fanout_skips_new_session_witness:
  "\<exists>x s'. register_session 1 x demo_lobby = (s', Inr ()) \<and>
    (\<forall>job r. (job \<in> set (sv_chat_fanout s') \<or> sv_clock_fanout s' = Some job) \<and> r \<in> set (au_items (fj_recipients job)) \<and> fst r = 1
      \<longrightarrow> \<not> should_send job r s')"
proof -
  let ?x = "new_session 1 ''00c0ffee00c0ffee'' ''ann''
    (fst (recenter sorted_list_of_fset (Cell 0 0) (the (subscription_new (aoi_radius_i32 (sv_cfg demo_lobby)))))) (Cell 0 0)"
  have x: "ss_player_id ?x = 1" "ss_identity_hash ?x = ''00c0ffee00c0ffee''" by (simp_all add: new_session_def)
  have xi: "session_inv (aoi_radius_i32 (sv_cfg demo_lobby)) ?x" by (rule new_session_inv) (simp add: aoi_radius_i32_def)
  have p: "fmlookup (sv_sessions demo_lobby) 1 = None" "fmlookup (sv_player_peers demo_lobby) (ss_player_id ?x) = None"
    "fmlookup (sv_identity_players demo_lobby) (ss_identity_hash ?x) = Some (ss_player_id ?x)" "sv_next_session_generation demo_lobby < u64_max"
    using demo_server_empty demo_server_settled(2) x by (simp_all add: demo_lobby_def u64_max_def)
  obtain s' r where r: "register_session 1 ?x demo_lobby = (s', r)" by (cases "register_session 1 ?x demo_lobby")
  with register_core [OF srv_invD(1) [OF demo_lobby_inv] p(1,2) xi p(3) r] p(4) have "register_session 1 ?x demo_lobby = (s', Inr ())" by simp
  with stale_fanout_skips_new_session [OF srv_invD(1) [OF demo_lobby_inv] p(1,2) xi p(3)] show ?thesis by blast
qed

end
