(* ===== verification/Server_Flush.thy ===== *)
theory Server_Flush
  imports Server_Boot
begin

text \<open>
  The dirty flush of the main loop and the flush at shutdown: what reaches the player table, how much
  per tick, and when everything has.
\<close>

section \<open>A store that refuses nothing\<close>

text \<open>The player's row, if there is one, was last stamped at one of the given times.\<close>

definition seen_in :: "int set \<Rightarrow> db \<Rightarrow> u64 \<Rightarrow> bool" where
  "seen_in T d pid \<longleftrightarrow> (\<forall>r. fmlookup (db_players d) (i64_of_u64 pid) = Some r \<longrightarrow> pr_last_seen r \<in> T)"

lemma touch_calm:
  assumes "db_faults (sv_db s) = []" "now \<in> T"
  shows "\<exists>d. touch_last_seen_for_flush pid now s = (s\<lparr>sv_db := d\<rparr>, Inr ()) \<and> db_faults d = []
    \<and> (\<forall>q. q = pid \<or> seen_in T (sv_db s) q \<longrightarrow> seen_in T d q)"
proof (cases "fmlookup (db_players (sv_db s)) (i64_of_u64 pid)")
  case None
  then show ?thesis
    using assms
    by (intro exI [of _ "sv_db s"]) (auto simp: touch_last_seen_for_flush_def touch_last_seen_def update_player_def stmt_def seen_in_def)
next
  case (Some r)
  then show ?thesis
    using assms
    by (intro exI [of _ "(sv_db s)\<lparr>db_players := fmupd (i64_of_u64 pid) (r\<lparr>pr_last_seen := now\<rparr>) (db_players (sv_db s))\<rparr>"])
      (auto simp: touch_last_seen_for_flush_def touch_last_seen_def update_player_def stmt_def seen_in_def)
qed

lemma set_dirty_frame [simp]:
  "sv_db (set_dirty pid b s) = sv_db s" "sv_flush_players (set_dirty pid b s) = sv_flush_players s"
  "sv_dirty_players (set_dirty pid b s) = sv_dirty_players s" "sv_flush_paused (set_dirty pid b s) = sv_flush_paused s"
  by (simp_all add: set_dirty_def upd_session_alt split: option.split)

text \<open>What a flush leaves: no refusals left, the given players no longer pending and all stamped.\<close>

definition flushed :: "int set \<Rightarrow> u64 list \<Rightarrow> server \<Rightarrow> server \<Rightarrow> bool" where
  "flushed T ids s s' \<longleftrightarrow>
     db_faults (sv_db s') = [] \<and> sv_flush_players s' = sv_flush_players s |-| fset_of_list ids
     \<and> sv_flush_paused s' = sv_flush_paused s
     \<and> (\<forall>q. q \<in> set ids \<or> seen_in T (sv_db s) q \<longrightarrow> seen_in T (sv_db s') q)"

lemma flushed_append: "flushed T ids s s1 \<Longrightarrow> flushed T jds s1 s2 \<Longrightarrow> flushed T (ids @ jds) s s2"
  by (auto simp: flushed_def)

lemma flush_ids_calm:
  assumes "db_faults (sv_db s) = []" "now \<in> T"
  shows "\<exists>s'. flush_ids now ids s n = (s', Inr (n + length ids)) \<and> flushed T ids s s'"
  using assms(1)
proof (induction ids arbitrary: s n)
  case Nil
  then show ?case by (simp add: flushed_def)
next
  case (Cons pid ids)
  from touch_calm [OF Cons.prems assms(2), of pid] obtain d where
    d: "touch_last_seen_for_flush pid now s = (s\<lparr>sv_db := d\<rparr>, Inr ())" "db_faults d = []"
      "\<forall>q. q = pid \<or> seen_in T (sv_db s) q \<longrightarrow> seen_in T d q" by blast
  define s2 where "s2 = set_dirty pid (pid |\<in>| sv_dirty_players s) (s\<lparr>sv_db := d, sv_flush_players := sv_flush_players s |-| {|pid|}\<rparr>)"
  have "flushed T [pid] s s2" using d(2,3) by (auto simp: s2_def flushed_def)
  moreover have "db_faults (sv_db s2) = []" using d(2) by (simp add: s2_def)
  from Cons.IH [OF this, of "n + 1"] obtain s' where "flush_ids now ids s2 (n + 1) = (s', Inr (n + 1 + length ids))" "flushed T ids s2 s'" by blast
  ultimately show ?case using d(1) flushed_append [of T "[pid]" s s2 ids s'] by (auto simp: s2_def)
qed

lemma flush_tick_calm:
  assumes "db_faults (sv_db s) = []" "\<not> sv_flush_paused s" "now \<in> T"
  shows "flushed T (take DIRTY_DB_UPDATES_PER_TICK (sorted_list_of_fset (sv_flush_players s))) s (fst (process_dirty_flush_at now s))"
  using flush_ids_calm [OF assms(1,3), of "take DIRTY_DB_UPDATES_PER_TICK (sorted_list_of_fset (sv_flush_players s))" 0] assms(2)
  by (auto simp: process_dirty_flush_at_def)

definition flush_ticks :: "int list \<Rightarrow> server \<Rightarrow> server" where
  "flush_ticks nows s = fold (\<lambda>now s. fst (process_dirty_flush_at now s)) nows s"

lemma flush_ticks_calm:
  assumes "db_faults (sv_db s) = []" "\<not> sv_flush_paused s" "set nows \<subseteq> T"
  shows "fcard (sv_flush_players (flush_ticks nows s)) = fcard (sv_flush_players s) - length nows * DIRTY_DB_UPDATES_PER_TICK
    \<and> (\<forall>q. seen_in T (sv_db s) q \<or> q |\<in>| sv_flush_players s |-| sv_flush_players (flush_ticks nows s)
        \<longrightarrow> seen_in T (sv_db (flush_ticks nows s)) q)"
  using assms
proof (induction nows arbitrary: s)
  case (Cons now nows)
  let ?s = "fst (process_dirty_flush_at now s)"
  note f = flush_tick_calm [OF Cons.prems(1,2), of now T]
  have fl: "flushed T (take DIRTY_DB_UPDATES_PER_TICK (sorted_list_of_fset (sv_flush_players s))) s ?s" using f Cons.prems(3) by simp
  then have c: "db_faults (sv_db ?s) = []" "\<not> sv_flush_paused ?s"
    "fcard (sv_flush_players ?s) = fcard (sv_flush_players s) - DIRTY_DB_UPDATES_PER_TICK"
    using Cons.prems(2) by (simp_all add: flushed_def fcard_minus_take)
  have keep: "seen_in T (sv_db ?s) q" if "seen_in T (sv_db s) q \<or> q |\<in>| sv_flush_players s |-| sv_flush_players ?s" for q
    using fl that by (auto simp: flushed_def fset_of_list_elem)
  note ih = Cons.IH [OF c(1,2)]
  show ?case using ih Cons.prems(3) c(3) keep by (auto simp: flush_ticks_def)
qed (simp add: flush_ticks_def)

section \<open>Shutdown\<close>

lemma flush_attempt_calm:
  assumes "db_faults (sv_db s) = []"
  shows "\<exists>s'. flush_attempt now ids (s, todo, err) = (s', todo |-| fset_of_list ids, err)
    \<and> sv_flush_players s' = sv_flush_players s |-| fset_of_list ids \<and> sv_dirty_players s' = sv_dirty_players s |-| fset_of_list ids
    \<and> (\<forall>q. q \<in> set ids \<or> seen_in {now} (sv_db s) q \<longrightarrow> seen_in {now} (sv_db s') q)"
  using assms
proof (induction ids arbitrary: s todo)
  case (Cons pid ids)
  from touch_calm [OF Cons.prems, of now "{now}" pid] obtain d where
    d: "touch_last_seen_for_flush pid now s = (s\<lparr>sv_db := d\<rparr>, Inr ())" "db_faults d = []"
      "\<forall>q. q = pid \<or> seen_in {now} (sv_db s) q \<longrightarrow> seen_in {now} d q" by auto
  define s2 where "s2 = set_dirty pid False (s\<lparr>sv_db := d, sv_flush_players := sv_flush_players s |-| {|pid|},
      sv_dirty_players := sv_dirty_players s |-| {|pid|}\<rparr>)"
  have s2: "db_faults (sv_db s2) = []" "sv_db s2 = d" "sv_flush_players s2 = sv_flush_players s |-| {|pid|}"
    "sv_dirty_players s2 = sv_dirty_players s |-| {|pid|}" using d(2) by (simp_all add: s2_def)
  from Cons.IH [OF s2(1), of "todo |-| {|pid|}"] obtain s' where s':
    "flush_attempt now ids (s2, todo |-| {|pid|}, err) = (s', todo |-| {|pid|} |-| fset_of_list ids, err)"
    "sv_flush_players s' = sv_flush_players s2 |-| fset_of_list ids" "sv_dirty_players s' = sv_dirty_players s2 |-| fset_of_list ids"
    "\<forall>q. q \<in> set ids \<or> seen_in {now} (sv_db s2) q \<longrightarrow> seen_in {now} (sv_db s') q" by blast
  have minus: "A |-| {|pid|} |-| fset_of_list ids = A |-| fset_of_list (pid # ids)" for A by auto
  have "flush_attempt now (pid # ids) (s, todo, err) = (s', todo |-| fset_of_list (pid # ids), err)"
    using s'(1) d(1) by (simp add: s2_def minus)
  then show ?case using s'(2-4) s2 d(3) minus by (intro exI [of _ s']) auto
qed simp

lemma flush_all_calm:
  assumes "db_faults (sv_db s) = []"
  shows "snd (flush_all now s) = Inr ()" "sv_flush_players (fst (flush_all now s)) = {||}" "sv_dirty_players (fst (flush_all now s)) = {||}"
    "pid |\<in>| (ss_player_id |`| fmran (sv_sessions s)) |\<union>| sv_dirty_players s |\<union>| sv_flush_players s \<Longrightarrow>
      seen_in {now} (sv_db (fst (flush_all now s))) pid"
proof -
  let ?P = "(ss_player_id |`| fmran (sv_sessions s)) |\<union>| sv_dirty_players s |\<union>| sv_flush_players s"
  let ?s = "s\<lparr>sv_flush_players := sv_flush_players s |\<union>| ?P\<rparr>"
  have "db_faults (sv_db ?s) = []" using assms by simp
  from flush_attempt_calm [OF this, of now "sorted_list_of_fset ?P" ?P None] obtain s' where s':
    "flush_attempt now (sorted_list_of_fset ?P) (?s, ?P, None) = (s', ?P |-| fset_of_list (sorted_list_of_fset ?P), None)"
    "sv_flush_players s' = sv_flush_players ?s |-| fset_of_list (sorted_list_of_fset ?P)"
    "sv_dirty_players s' = sv_dirty_players ?s |-| fset_of_list (sorted_list_of_fset ?P)"
    "\<forall>q. q \<in> set (sorted_list_of_fset ?P) \<or> seen_in {now} (sv_db ?s) q \<longrightarrow> seen_in {now} (sv_db s') q" by blast
  have all: "fset_of_list (sorted_list_of_fset ?P) = ?P" by (rule fset_eqI) (simp add: fset_of_list_elem)
  have "flush_all now s = (if ?P = {||} then (?s, Inr ()) else (s', Inr ()))"
    unfolding flush_all_def Let_def SHUTDOWN_FLUSH_ATTEMPTS_def numeral_3_eq_3 by (simp add: s'(1) all)
  then show "snd (flush_all now s) = Inr ()" "sv_flush_players (fst (flush_all now s)) = {||}" "sv_dirty_players (fst (flush_all now s)) = {||}"
    "pid |\<in>| ?P \<Longrightarrow> seen_in {now} (sv_db (fst (flush_all now s))) pid"
    using s'(2-4) all by auto
qed

section \<open>Properties\<close>

text \<open>C19: when the store refuses nothing, the players due for a flush are all stamped with the time of one of the
  ticks after as many ticks as it takes at eight a tick, and none is left.\<close>

theorem dirty_flush_drains:
  assumes "db_faults (sv_db s) = []" "\<not> sv_flush_paused s"
    and "fcard (sv_flush_players s) \<le> length nows * DIRTY_DB_UPDATES_PER_TICK"
  shows "let s' = fold (\<lambda>now s. fst (process_dirty_flush_at now s)) nows s
    in sv_flush_players s' = {||}
       \<and> (\<forall>pid r. pid |\<in>| sv_flush_players s \<longrightarrow> fmlookup (db_players (sv_db s')) (i64_of_u64 pid) = Some r \<longrightarrow> pr_last_seen r \<in> set nows)"
proof -
  note t = flush_ticks_calm [OF assms(1,2), of nows "set nows"]
  have e: "sv_flush_players (flush_ticks nows s) = {||}" using t assms(3) by simp
  then have "seen_in (set nows) (sv_db (flush_ticks nows s)) pid" if "pid |\<in>| sv_flush_players s" for pid using t that by auto
  with e show ?thesis by (auto simp: flush_ticks_def seen_in_def)
qed

theorem dirty_flush_drains_witness:
  "let s' = fold (\<lambda>now s. fst (process_dirty_flush_at now s)) [50] (demo_server\<lparr>sv_db := demo_roster, sv_flush_players := {|1|}, sv_flush_paused := False\<rparr>)
    in sv_flush_players s' = {||}
       \<and> (\<forall>pid r. pid |\<in>| {|1|} \<longrightarrow> fmlookup (db_players (sv_db s')) (i64_of_u64 pid) = Some r \<longrightarrow> pr_last_seen r \<in> set [50])"
  using dirty_flush_drains [where s = "demo_server\<lparr>sv_db := demo_roster, sv_flush_players := {|1|}, sv_flush_paused := False\<rparr>" and nows = "[50]"]
  by (simp add: demo_roster_def db_empty_def DIRTY_DB_UPDATES_PER_TICK_def fcard.rep_eq)

text \<open>C23: at shutdown, when the store refuses nothing, every live session, every dirty player and every player
  awaiting a flush is stamped with the shutdown time, and nothing is left marked.\<close>

theorem shutdown_flushes_all:
  assumes "db_faults (sv_db s) = []"
  shows "case flush_all now s of (s', r) \<Rightarrow>
    r = Inr () \<and> sv_flush_players s' = {||} \<and> sv_dirty_players s' = {||}
    \<and> (\<forall>pid row. (\<exists>p x. fmlookup (sv_sessions s) p = Some x \<and> ss_player_id x = pid) \<or> pid |\<in>| sv_dirty_players s \<or> pid |\<in>| sv_flush_players s
         \<longrightarrow> fmlookup (db_players (sv_db s')) (i64_of_u64 pid) = Some row \<longrightarrow> pr_last_seen row = now)"
proof (cases "flush_all now s")
  case (Pair s' r)
  have "pr_last_seen row = now"
    if "(\<exists>p x. fmlookup (sv_sessions s) p = Some x \<and> ss_player_id x = pid) \<or> pid |\<in>| sv_dirty_players s \<or> pid |\<in>| sv_flush_players s"
      "fmlookup (db_players (sv_db s')) (i64_of_u64 pid) = Some row" for pid row
  proof -
    have "pid |\<in>| (ss_player_id |`| fmran (sv_sessions s)) |\<union>| sv_dirty_players s |\<union>| sv_flush_players s"
      using that(1) by (auto dest: fmranI)
    with flush_all_calm(4) [OF assms, of pid now] Pair that(2) show ?thesis by (simp add: seen_in_def)
  qed
  with flush_all_calm(1-3) [OF assms, of now] Pair show ?thesis by auto
qed

theorem shutdown_flushes_all_witness:
  "snd (flush_all 60 (demo_server\<lparr>sv_db := demo_roster, sv_dirty_players := {|1|}\<rparr>)) = Inr ()"
  using shutdown_flushes_all [where s = "demo_server\<lparr>sv_db := demo_roster, sv_dirty_players := {|1|}\<rparr>" and now = 60]
  by (simp add: demo_roster_def db_empty_def split_beta)

text \<open>C38: the shutdown reports a failure for zero players when its third and last attempt is the one that
  succeeds: the loop ends without looking again at what is still pending.\<close>

theorem shutdown_false_alarm:
  assumes "sv_sessions s = fmempty" "sv_dirty_players s = {|pid|}" "sv_flush_players s = {||}"
    and "db_faults (sv_db s) = [Some e1, Some e2]" "fmlookup (db_players (sv_db s)) (i64_of_u64 pid) = Some row"
  shows "case flush_all now s of (s', r) \<Rightarrow>
    r = Inl (ShutdownFlushFailed 0 (Some e2)) \<and> sv_flush_players s' = {||} \<and> sv_dirty_players s' = {||}
    \<and> fmlookup (db_players (sv_db s')) (i64_of_u64 pid) = Some (row\<lparr>pr_last_seen := now\<rparr>)"
proof -
  have one: "sorted_list_of_fset {|pid|} = [pid]" by (simp add: sorted_list_of_fset.rep_eq)
  have fail: "touch_last_seen_for_flush pid now x = (x\<lparr>sv_db := (sv_db x)\<lparr>db_faults := fs\<rparr>\<rparr>, Inl e)" if "db_faults (sv_db x) = Some e # fs" for x e fs
    using that by (simp add: touch_last_seen_for_flush_def touch_last_seen_def update_player_def stmt_def)
  have ok: "touch_last_seen_for_flush pid now x
      = (x\<lparr>sv_db := (sv_db x)\<lparr>db_players := fmupd (i64_of_u64 pid) (row\<lparr>pr_last_seen := now\<rparr>) (db_players (sv_db x))\<rparr>\<rparr>, Inr ())"
    if "db_faults (sv_db x) = []" "fmlookup (db_players (sv_db x)) (i64_of_u64 pid) = Some row" for x
    using that by (simp add: touch_last_seen_for_flush_def touch_last_seen_def update_player_def stmt_def)
  show ?thesis
    unfolding flush_all_def Let_def SHUTDOWN_FLUSH_ATTEMPTS_def numeral_3_eq_3
    using assms by (simp add: one fail ok)
qed

definition demo_busy :: server where
  "demo_busy = demo_server\<lparr>sv_db := demo_roster\<lparr>db_faults := [Some (EngineError 5), Some (EngineError 5)]\<rparr>,
     sv_sessions := fmempty, sv_dirty_players := {|1|}, sv_flush_players := {||}\<rparr>"

theorem shutdown_false_alarm_witness:
  "snd (flush_all 70 demo_busy) = Inl (ShutdownFlushFailed 0 (Some (EngineError 5)))
    \<and> map_option pr_last_seen (fmlookup (db_players (sv_db (fst (flush_all 70 demo_busy)))) 1) = Some 70"
proof -
  have "i64_of_u64 1 = 1" by (simp add: i64_of_u64_def)
  then have "fmlookup (db_players (sv_db demo_busy)) (i64_of_u64 1)
      = Some \<lparr>pr_id = 1, pr_name = ''ann'', pr_token_hash = ''00c0ffee00c0ffee'', pr_gold = 5, pr_created_at = 0, pr_last_seen = 0\<rparr>"
    by (simp add: demo_busy_def demo_roster_def)
  from shutdown_false_alarm [OF _ _ _ _ this, where now = 70 and ?e1.0 = "EngineError 5" and ?e2.0 = "EngineError 5"] show ?thesis
    using \<open>i64_of_u64 1 = 1\<close> by (simp add: demo_busy_def split_beta)
qed

end
