(* ===== verification/Fb_Runtime.thy ===== *)
theory Fb_Runtime
  imports Ieee "HOL-Library.State_Monad"
begin

text \<open>
  The FlatBuffers runtime as the generated bindings see it. The crate is not part of the
  repository, so its operations are the fields of the record \<open>runtime\<close>, an argument of every
  binding: the builder (a state the calls thread), offsets and table handles are type variables the
  bindings never look into. \<open>runtime_laws\<close> states what the crate documents of them, relative to a
  view: what object an offset of a builder denotes, which table is under construction, what a
  verified table handle reads. Contents are \<open>fbtree\<close>s; \<open>fty\<close> is the type argument of
  \<open>get\<close> and \<open>visit_field\<close>, a table type being the list of checks its
  \<open>run_verifier\<close> makes.
\<close>

section \<open>Values, contents and types\<close>

type_synonym voffset = u16

text \<open>The scalars a slot holds; \<open>i64\<close> is an integer with its range checked by the type.\<close>

datatype scalar =
    ScBool bool | ScU8 u8 | ScU16 u16 | ScU32 u32 | ScU64 u64 | ScI64 int | ScF32 f32

text \<open>What \<open>push_slot_always\<close> and \<open>create_vector\<close> are given.\<close>

datatype 'o slot = Struct bytes | Offset 'o

text \<open>The contents of a buffer.\<close>

datatype fbtree =
    TScalar scalar
  | TStruct bytes
  | TStr string
  | TVec "fbtree list"
  | TTab "(voffset \<times> fbtree) list"

text \<open>What \<open>get\<close> returns; tables stay behind their handles.\<close>

datatype 't rval =
    RScalar scalar
  | RStruct bytes
  | RStr string
  | RVec "'t rval list"
  | RTab 't

datatype fty =
    TyBool | TyU8 | TyU16 | TyU32 | TyU64 | TyI64 | TyF32
  | TyStruct nat
  | TyStr
  | TyVec fty
  | TyTable "field_check list"
and field_check =
    Field string voffset fty bool
  | UnionField string voffset string voffset bool "(u8 \<times> fty) list"

fun scalar_type :: "fty \<Rightarrow> scalar \<Rightarrow> bool" where
  "scalar_type TyBool (ScBool _) = True"
| "scalar_type TyU8 (ScU8 _) = True"
| "scalar_type TyU16 (ScU16 _) = True"
| "scalar_type TyU32 (ScU32 _) = True"
| "scalar_type TyU64 (ScU64 _) = True"
| "scalar_type TyI64 (ScI64 i) = in_i64 i"
| "scalar_type TyF32 (ScF32 _) = True"
| "scalar_type _ _ = False"

text \<open>
  What a verifier accepts: a present field has the type it is visited at, a required one is
  present; both halves of a union are present or both absent, and the value has the type of its
  discriminant, any value being accepted for a discriminant the closure does not list.
\<close>

fun has_type :: "fty \<Rightarrow> fbtree \<Rightarrow> bool"
  and passes :: "field_check \<Rightarrow> (voffset \<times> fbtree) list \<Rightarrow> bool" where
  "has_type (TyStruct n) x = (case x of TStruct bs \<Rightarrow> length bs = n | _ \<Rightarrow> False)"
| "has_type TyStr x = (case x of TStr s \<Rightarrow> utf8_valid (str_bytes s) | _ \<Rightarrow> False)"
| "has_type (TyVec ty) x = (case x of TVec xs \<Rightarrow> list_all (has_type ty) xs | _ \<Rightarrow> False)"
| "has_type (TyTable cs) x = (case x of TTab fs \<Rightarrow> list_all (\<lambda>c. passes c fs) cs | _ \<Rightarrow> False)"
| "has_type TyBool x = (case x of TScalar s \<Rightarrow> scalar_type TyBool s | _ \<Rightarrow> False)"
| "has_type TyU8 x = (case x of TScalar s \<Rightarrow> scalar_type TyU8 s | _ \<Rightarrow> False)"
| "has_type TyU16 x = (case x of TScalar s \<Rightarrow> scalar_type TyU16 s | _ \<Rightarrow> False)"
| "has_type TyU32 x = (case x of TScalar s \<Rightarrow> scalar_type TyU32 s | _ \<Rightarrow> False)"
| "has_type TyU64 x = (case x of TScalar s \<Rightarrow> scalar_type TyU64 s | _ \<Rightarrow> False)"
| "has_type TyI64 x = (case x of TScalar s \<Rightarrow> scalar_type TyI64 s | _ \<Rightarrow> False)"
| "has_type TyF32 x = (case x of TScalar s \<Rightarrow> scalar_type TyF32 s | _ \<Rightarrow> False)"
| "passes (Field nm vo ty req) fs = (case map_of fs vo of None \<Rightarrow> \<not> req | Some x \<Rightarrow> has_type ty x)"
| "passes (UnionField kn kvo vn vvo req alts) fs =
     (case (map_of fs kvo, map_of fs vvo) of
        (None, None) \<Rightarrow> \<not> req
      | (Some (TScalar (ScU8 k)), Some x) \<Rightarrow> list_all (\<lambda>(k', ty). k' = k \<longrightarrow> has_type ty x) alts
      | _ \<Rightarrow> False)"

text \<open>\<open>PartialEq\<close> of the scalar types: \<open>-0.0 == 0.0\<close>, and NaN equals nothing.\<close>

fun scalar_eq :: "scalar \<Rightarrow> scalar \<Rightarrow> bool" where
  "scalar_eq (ScF32 a) (ScF32 b) = (f32_val a = f32_val b \<and> f32_val a \<noteq> NaN)"
| "scalar_eq a b = (a = b)"

section \<open>The runtime\<close>

record ('b, 'o, 't) runtime =
  rt_new :: 'b
  rt_start_table :: "('b, 'o) state"
  rt_push_slot :: "voffset \<Rightarrow> scalar \<Rightarrow> scalar \<Rightarrow> ('b, unit) state"
  rt_push_slot_always :: "voffset \<Rightarrow> 'o slot \<Rightarrow> ('b, unit) state"
  rt_end_table :: "'o \<Rightarrow> ('b, 'o) state"
  rt_create_string :: "string \<Rightarrow> ('b, 'o) state"
  rt_create_vector :: "'o slot list \<Rightarrow> ('b, 'o) state"
  rt_finish :: "'o \<Rightarrow> string \<Rightarrow> ('b, unit) state"
  rt_finish_size_prefixed :: "'o \<Rightarrow> string \<Rightarrow> ('b, unit) state"
  rt_finished_data :: "'b \<Rightarrow> bytes"
  rt_reset :: "('b, unit) state"
  rt_has_identifier :: "bytes \<Rightarrow> string \<Rightarrow> bool \<Rightarrow> bool"
  rt_root :: "field_check list \<Rightarrow> bytes \<Rightarrow> 't option"
  rt_size_prefixed_root :: "field_check list \<Rightarrow> bytes \<Rightarrow> 't option"
  rt_get :: "'t \<Rightarrow> fty \<Rightarrow> voffset \<Rightarrow> 't rval option \<Rightarrow> 't rval option"

text \<open>
  A view of a runtime: the table under construction, the object at an offset, the contents behind
  a handle, and the contents within the size limits of builder and verifier.
\<close>

record ('b, 'o, 't) fb_view =
  v_open :: "'b \<Rightarrow> ('o \<times> (voffset \<times> fbtree) list) option"
  v_obj :: "'b \<Rightarrow> 'o \<Rightarrow> fbtree option"
  v_tab :: "'t \<Rightarrow> (voffset \<times> fbtree) list"
  v_fits :: "fbtree \<Rightarrow> bool"

fun rval_tree :: "('t \<Rightarrow> (voffset \<times> fbtree) list) \<Rightarrow> 't rval \<Rightarrow> fbtree" where
  "rval_tree tab (RScalar s) = TScalar s"
| "rval_tree tab (RStruct bs) = TStruct bs"
| "rval_tree tab (RStr s) = TStr s"
| "rval_tree tab (RVec rs) = TVec (map (rval_tree tab) rs)"
| "rval_tree tab (RTab t) = TTab (tab t)"

text \<open>What a slot denotes in a builder.\<close>

fun slot_tree :: "('o \<Rightarrow> fbtree option) \<Rightarrow> 'o slot \<Rightarrow> fbtree option" where
  "slot_tree ob (Struct bs) = Some (TStruct bs)"
| "slot_tree ob (Offset p) = ob p"

text \<open>Finished objects stay where they are.\<close>

definition keeps_objects :: "('b, 'o, 't) fb_view \<Rightarrow> 'b \<Rightarrow> 'b \<Rightarrow> bool" where
  "keeps_objects V b b' \<longleftrightarrow> v_obj V b \<subseteq>\<^sub>m v_obj V b'"

definition law_new :: "('b, 'o, 't) runtime \<Rightarrow> ('b, 'o, 't) fb_view \<Rightarrow> bool" where
  "law_new rt V \<longleftrightarrow> v_open V (rt_new rt) = None"

definition law_start_table :: "('b, 'o, 't) runtime \<Rightarrow> ('b, 'o, 't) fb_view \<Rightarrow> bool" where
  "law_start_table rt V \<longleftrightarrow>
     (\<forall>b s b'. v_open V b = None \<longrightarrow> run_state (rt_start_table rt) b = (s, b') \<longrightarrow>
        v_open V b' = Some (s, []) \<and> keeps_objects V b b')"

definition law_push_slot :: "('b, 'o, 't) runtime \<Rightarrow> ('b, 'o, 't) fb_view \<Rightarrow> bool" where
  "law_push_slot rt V \<longleftrightarrow>
     (\<forall>b s fs vo x d b'. v_open V b = Some (s, fs) \<longrightarrow> vo \<notin> fst ` set fs \<longrightarrow>
        run_state (rt_push_slot rt vo x d) b = ((), b') \<longrightarrow>
        v_open V b' = Some (s, if scalar_eq x d then fs else fs @ [(vo, TScalar x)]) \<and> keeps_objects V b b')"

definition law_push_slot_always :: "('b, 'o, 't) runtime \<Rightarrow> ('b, 'o, 't) fb_view \<Rightarrow> bool" where
  "law_push_slot_always rt V \<longleftrightarrow>
     (\<forall>b s fs vo sl x b'. v_open V b = Some (s, fs) \<longrightarrow> vo \<notin> fst ` set fs \<longrightarrow> slot_tree (v_obj V b) sl = Some x \<longrightarrow>
        run_state (rt_push_slot_always rt vo sl) b = ((), b') \<longrightarrow>
        v_open V b' = Some (s, fs @ [(vo, x)]) \<and> keeps_objects V b b')"

definition law_end_table :: "('b, 'o, 't) runtime \<Rightarrow> ('b, 'o, 't) fb_view \<Rightarrow> bool" where
  "law_end_table rt V \<longleftrightarrow>
     (\<forall>b s fs p b'. v_open V b = Some (s, fs) \<longrightarrow> run_state (rt_end_table rt s) b = (p, b') \<longrightarrow>
        v_open V b' = None \<and> v_obj V b' p = Some (TTab fs) \<and> keeps_objects V b b')"

definition law_create_string :: "('b, 'o, 't) runtime \<Rightarrow> ('b, 'o, 't) fb_view \<Rightarrow> bool" where
  "law_create_string rt V \<longleftrightarrow>
     (\<forall>b str p b'. v_open V b = None \<longrightarrow> run_state (rt_create_string rt str) b = (p, b') \<longrightarrow>
        v_open V b' = None \<and> v_obj V b' p = Some (TStr str) \<and> keeps_objects V b b')"

definition law_create_vector :: "('b, 'o, 't) runtime \<Rightarrow> ('b, 'o, 't) fb_view \<Rightarrow> bool" where
  "law_create_vector rt V \<longleftrightarrow>
     (\<forall>b sls xs p b'. v_open V b = None \<longrightarrow> map (slot_tree (v_obj V b)) sls = map Some xs \<longrightarrow>
        run_state (rt_create_vector rt sls) b = (p, b') \<longrightarrow>
        v_open V b' = None \<and> v_obj V b' p = Some (TVec xs) \<and> keeps_objects V b b')"

text \<open>A finished buffer carries its identifier, and verifies to a handle on what was finished.\<close>

definition law_finish :: "('b, 'o, 't) runtime \<Rightarrow> ('b, 'o, 't) fb_view \<Rightarrow> bool" where
  "law_finish rt V \<longleftrightarrow>
     (\<forall>b p x ident b' cs. v_open V b = None \<longrightarrow> v_obj V b p = Some x \<longrightarrow>
        run_state (rt_finish rt p ident) b = ((), b') \<longrightarrow> has_type (TyTable cs) x \<longrightarrow> v_fits V x \<longrightarrow>
        (\<exists>t. rt_root rt cs (rt_finished_data rt b') = Some t \<and> TTab (v_tab V t) = x)
        \<and> rt_has_identifier rt (rt_finished_data rt b') ident False)"

definition law_root :: "('b, 'o, 't) runtime \<Rightarrow> ('b, 'o, 't) fb_view \<Rightarrow> bool" where
  "law_root rt V \<longleftrightarrow> (\<forall>cs buf t. rt_root rt cs buf = Some t \<longrightarrow> has_type (TyTable cs) (TTab (v_tab V t)))"

text \<open>A read is specified only at the type of the field.\<close>

definition law_get :: "('b, 'o, 't) runtime \<Rightarrow> ('b, 'o, 't) fb_view \<Rightarrow> bool" where
  "law_get rt V \<longleftrightarrow>
     (\<forall>t ty vo d.
        (case map_of (v_tab V t) vo of
           None \<Rightarrow> rt_get rt t ty vo d = d
         | Some x \<Rightarrow> has_type ty x \<longrightarrow> (\<exists>r. rt_get rt t ty vo d = Some r \<and> rval_tree (v_tab V) r = x)))"

definition runtime_laws :: "('b, 'o, 't) runtime \<Rightarrow> ('b, 'o, 't) fb_view \<Rightarrow> bool" where
  "runtime_laws rt V \<longleftrightarrow>
     law_new rt V \<and> law_start_table rt V \<and> law_push_slot rt V \<and> law_push_slot_always rt V \<and> law_end_table rt V
     \<and> law_create_string rt V \<and> law_create_vector rt V \<and> law_finish rt V \<and> law_root rt V \<and> law_get rt V"

end
