(* ===== verification/Fb_Lib.thy ===== *)
theory Fb_Lib
  imports Fb_Runtime
begin

text \<open>
  The library the generated bindings are proved with, over a runtime that keeps
  \<open>runtime_laws\<close>: typed reads, which are reads of the contents when the slot was verified at
  the type it is read at; builder programs and what they produce (\<open>builds\<close>), with one rule for
  a generated \<open>create\<close>; and the contents of built tables.
\<close>

section \<open>Reads\<close>

text \<open>
  A scalar accessor is \<open>get::<T>(slot, Some(default)).unwrap()\<close>, an optional one
  \<open>get::<T>(slot, None)\<close>. Both are unsafe calls, sound when the slot holds a \<open>T\<close>: reading
  anything else gives \<open>None\<close> here.
\<close>

fun as_bool :: "'t rval option \<Rightarrow> bool option" where
  "as_bool (Some (RScalar (ScBool x))) = Some x"
| "as_bool _ = None"

fun as_u8 :: "'t rval option \<Rightarrow> u8 option" where
  "as_u8 (Some (RScalar (ScU8 x))) = Some x"
| "as_u8 _ = None"

fun as_u16 :: "'t rval option \<Rightarrow> u16 option" where
  "as_u16 (Some (RScalar (ScU16 x))) = Some x"
| "as_u16 _ = None"

fun as_u32 :: "'t rval option \<Rightarrow> u32 option" where
  "as_u32 (Some (RScalar (ScU32 x))) = Some x"
| "as_u32 _ = None"

fun as_u64 :: "'t rval option \<Rightarrow> u64 option" where
  "as_u64 (Some (RScalar (ScU64 x))) = Some x"
| "as_u64 _ = None"

fun as_i64 :: "'t rval option \<Rightarrow> int option" where
  "as_i64 (Some (RScalar (ScI64 x))) = Some x"
| "as_i64 _ = None"

fun as_f32 :: "'t rval option \<Rightarrow> f32 option" where
  "as_f32 (Some (RScalar (ScF32 x))) = Some x"
| "as_f32 _ = None"

fun r_struct :: "'t rval \<Rightarrow> bytes option" where
  "r_struct (RStruct bs) = Some bs"
| "r_struct _ = None"

fun r_str :: "'t rval \<Rightarrow> string option" where
  "r_str (RStr s) = Some s"
| "r_str _ = None"

fun r_tab :: "'t rval \<Rightarrow> 't option" where
  "r_tab (RTab t) = Some t"
| "r_tab _ = None"

fun r_vec :: "('t rval \<Rightarrow> 'a option) \<Rightarrow> 't rval \<Rightarrow> 'a list option" where
  "r_vec f (RVec rs) = those (map f rs)"
| "r_vec f _ = None"

fun as_opt :: "('t rval \<Rightarrow> 'a option) \<Rightarrow> 't rval option \<Rightarrow> 'a option option" where
  "as_opt f None = Some None"
| "as_opt f (Some r) = map_option Some (f r)"

text \<open>Following handles: an optional table, a vector of tables.\<close>

fun follow_opt :: "('t \<Rightarrow> 'a option) \<Rightarrow> 't option \<Rightarrow> 'a option option" where
  "follow_opt f None = Some None"
| "follow_opt f (Some t) = map_option Some (f t)"

definition follow_vec :: "('t \<Rightarrow> 'a option) \<Rightarrow> 't list option \<Rightarrow> 'a list option option" where
  "follow_vec f = follow_opt (\<lambda>ts. those (map f ts))"

text \<open>The same reads on contents.\<close>

fun g_bool :: "bool \<Rightarrow> fbtree option \<Rightarrow> bool" where
  "g_bool d (Some (TScalar (ScBool x))) = x" | "g_bool d _ = d"

fun g_u8 :: "u8 \<Rightarrow> fbtree option \<Rightarrow> u8" where
  "g_u8 d (Some (TScalar (ScU8 x))) = x" | "g_u8 d _ = d"

fun g_u16 :: "u16 \<Rightarrow> fbtree option \<Rightarrow> u16" where
  "g_u16 d (Some (TScalar (ScU16 x))) = x" | "g_u16 d _ = d"

fun g_u32 :: "u32 \<Rightarrow> fbtree option \<Rightarrow> u32" where
  "g_u32 d (Some (TScalar (ScU32 x))) = x" | "g_u32 d _ = d"

fun g_u64 :: "u64 \<Rightarrow> fbtree option \<Rightarrow> u64" where
  "g_u64 d (Some (TScalar (ScU64 x))) = x" | "g_u64 d _ = d"

fun g_i64 :: "int \<Rightarrow> fbtree option \<Rightarrow> int" where
  "g_i64 d (Some (TScalar (ScI64 x))) = x" | "g_i64 d _ = d"

fun g_f32 :: "f32 \<Rightarrow> fbtree option \<Rightarrow> f32" where
  "g_f32 d (Some (TScalar (ScF32 x))) = x" | "g_f32 d _ = d"

fun g_struct :: "fbtree \<Rightarrow> bytes" where
  "g_struct (TStruct bs) = bs" | "g_struct _ = []"

fun g_str :: "fbtree \<Rightarrow> string" where
  "g_str (TStr s) = s" | "g_str _ = []"

fun g_vec :: "(fbtree \<Rightarrow> 'a) \<Rightarrow> fbtree \<Rightarrow> 'a list" where
  "g_vec f (TVec xs) = map f xs" | "g_vec f _ = []"

fun tab_fields :: "fbtree \<Rightarrow> (voffset \<times> fbtree) list" where
  "tab_fields (TTab fs) = fs" | "tab_fields _ = []"

abbreviation field_ok :: "fty \<Rightarrow> fbtree option \<Rightarrow> bool" where
  "field_ok ty xo \<equiv> pred_option (has_type ty) xo"

lemma passes_Field [simp]: "passes (Field nm vo ty False) fs = field_ok ty (map_of fs vo)"
  by (cases "map_of fs vo") simp_all

declare passes.simps(1) [simp del]

lemma table_typeE:
  assumes "has_type (TyTable cs) x"
  obtains fs where "x = TTab fs" "list_all (\<lambda>c. passes c fs) cs"
  using assms by (cases x) auto

text \<open>Reads through a lawful runtime are reads of the contents.\<close>

lemma get_law:
  "runtime_laws rt V \<Longrightarrow>
   (case map_of (v_tab V t) vo of None \<Rightarrow> rt_get rt t ty vo d = d
    | Some x \<Rightarrow> has_type ty x \<longrightarrow> (\<exists>r. rt_get rt t ty vo d = Some r \<and> rval_tree (v_tab V) r = x))"
  unfolding runtime_laws_def law_get_def by blast

lemma get_absent:
  "\<lbrakk>runtime_laws rt V; map_of (v_tab V t) vo = None\<rbrakk> \<Longrightarrow> rt_get rt t ty vo d = d"
  using get_law [where rt = rt and V = V and t = t and vo = vo and ty = ty and d = d] by simp

lemma get_present:
  assumes "runtime_laws rt V" "map_of (v_tab V t) vo = Some x" "has_type ty x"
  obtains r where "rt_get rt t ty vo d = Some r" "rval_tree (v_tab V) r = x"
  using get_law [OF assms(1), where t = t and vo = vo and ty = ty and d = d] assms(2,3) that by auto

lemma has_type_scalars:
  "has_type TyBool x \<longleftrightarrow> (\<exists>b. x = TScalar (ScBool b))"
  "has_type TyU8 x \<longleftrightarrow> (\<exists>w. x = TScalar (ScU8 w))"
  "has_type TyU16 x \<longleftrightarrow> (\<exists>w. x = TScalar (ScU16 w))"
  "has_type TyU32 x \<longleftrightarrow> (\<exists>w. x = TScalar (ScU32 w))"
  "has_type TyU64 x \<longleftrightarrow> (\<exists>w. x = TScalar (ScU64 w))"
  "has_type TyI64 x \<longleftrightarrow> (\<exists>i. x = TScalar (ScI64 i) \<and> in_i64 i)"
  "has_type TyF32 x \<longleftrightarrow> (\<exists>w. x = TScalar (ScF32 w))"
  by (cases x; simp; rename_tac s; case_tac s; simp)+

lemma rval_tree_shapes [simp]:
  "rval_tree tab r = TScalar s \<longleftrightarrow> r = RScalar s"
  "rval_tree tab r = TStruct bs \<longleftrightarrow> r = RStruct bs"
  "rval_tree tab r = TStr st \<longleftrightarrow> r = RStr st"
  "rval_tree tab r = TVec xs \<longleftrightarrow> (\<exists>rs. r = RVec rs \<and> map (rval_tree tab) rs = xs)"
  "rval_tree tab r = TTab fs \<longleftrightarrow> (\<exists>t. r = RTab t \<and> tab t = fs)"
  by (cases r; auto)+

text \<open>Scalars: the rule needs only the type and the projections of one constructor.\<close>

lemma get_scalar:
  assumes "runtime_laws rt V" "field_ok ty (map_of (v_tab V t) vo)"
    and "\<And>x. has_type ty x \<Longrightarrow> \<exists>s. x = TScalar s \<and> f (Some (RScalar s)) = Some (g (Some x))"
    and "f d = Some (g None)"
  shows "f (rt_get rt t ty vo d) = Some (g (map_of (v_tab V t) vo))"
proof (cases "map_of (v_tab V t) vo")
  case None
  then show ?thesis using get_absent [OF assms(1) None] assms(4) by simp
next
  case (Some x)
  with assms(2) have ty: "has_type ty x" by simp
  obtain r where r: "rt_get rt t ty vo d = Some r" "rval_tree (v_tab V) r = x"
    by (rule get_present [OF assms(1) Some ty])
  from assms(3) [OF ty] obtain s where "x = TScalar s" "f (Some (RScalar s)) = Some (g (Some x))" by blast
  with r Some show ?thesis by simp
qed

lemma get_scalars:
  assumes "runtime_laws rt V"
  shows
    "field_ok TyBool (map_of (v_tab V t) vo) \<Longrightarrow> as_bool (rt_get rt t TyBool vo (Some (RScalar (ScBool b)))) = Some (g_bool b (map_of (v_tab V t) vo))"
    "field_ok TyU8 (map_of (v_tab V t) vo) \<Longrightarrow> as_u8 (rt_get rt t TyU8 vo (Some (RScalar (ScU8 d8)))) = Some (g_u8 d8 (map_of (v_tab V t) vo))"
    "field_ok TyU16 (map_of (v_tab V t) vo) \<Longrightarrow> as_u16 (rt_get rt t TyU16 vo (Some (RScalar (ScU16 d16)))) = Some (g_u16 d16 (map_of (v_tab V t) vo))"
    "field_ok TyU32 (map_of (v_tab V t) vo) \<Longrightarrow> as_u32 (rt_get rt t TyU32 vo (Some (RScalar (ScU32 d32)))) = Some (g_u32 d32 (map_of (v_tab V t) vo))"
    "field_ok TyU64 (map_of (v_tab V t) vo) \<Longrightarrow> as_u64 (rt_get rt t TyU64 vo (Some (RScalar (ScU64 d64)))) = Some (g_u64 d64 (map_of (v_tab V t) vo))"
    "field_ok TyI64 (map_of (v_tab V t) vo) \<Longrightarrow> as_i64 (rt_get rt t TyI64 vo (Some (RScalar (ScI64 i)))) = Some (g_i64 i (map_of (v_tab V t) vo))"
    "field_ok TyF32 (map_of (v_tab V t) vo) \<Longrightarrow> as_f32 (rt_get rt t TyF32 vo (Some (RScalar (ScF32 q)))) = Some (g_f32 q (map_of (v_tab V t) vo))"
  by (rule get_scalar [OF assms]; auto simp: has_type_scalars simp del: has_type.simps)+

text \<open>Optional fields other than tables.\<close>

lemma get_opt:
  assumes "runtime_laws rt V" "field_ok ty (map_of (v_tab V t) vo)"
    and "\<And>r. has_type ty (rval_tree (v_tab V) r) \<Longrightarrow> f r = Some (g (rval_tree (v_tab V) r))"
  shows "as_opt f (rt_get rt t ty vo None) = Some (map_option g (map_of (v_tab V t) vo))"
proof (cases "map_of (v_tab V t) vo")
  case None
  then show ?thesis using get_absent [OF assms(1) None] by simp
next
  case (Some x)
  with assms(2) have ty: "has_type ty x" by simp
  obtain r where r: "rt_get rt t ty vo None = Some r" "rval_tree (v_tab V) r = x"
    by (rule get_present [OF assms(1) Some ty])
  with Some ty show ?thesis by (simp add: assms(3))
qed

lemma r_struct_ok: "has_type (TyStruct n) (rval_tree tab r) \<Longrightarrow> r_struct r = Some (g_struct (rval_tree tab r))"
  by (cases r) auto

lemma r_str_ok: "has_type TyStr (rval_tree tab r) \<Longrightarrow> r_str r = Some (g_str (rval_tree tab r))"
  by (cases r) auto

lemma those_map_Some: "(\<And>x. x \<in> set xs \<Longrightarrow> f x = Some (g x)) \<Longrightarrow> those (map f xs) = Some (map g xs)"
  by (induction xs) auto

lemma r_vec_ok:
  assumes "has_type (TyVec ty) (rval_tree tab r)"
    and "\<And>r. has_type ty (rval_tree tab r) \<Longrightarrow> f r = Some (g (rval_tree tab r))"
  shows "r_vec f r = Some (g_vec g (rval_tree tab r))"
  using assms by (cases r) (auto simp: list_all_iff intro!: those_map_Some)

lemma r_strs_ok:
  "has_type (TyVec TyStr) (rval_tree tab r) \<Longrightarrow> r_vec r_str r = Some (g_vec g_str (rval_tree tab r))"
  by (rule r_vec_ok) (auto intro: r_str_ok)

lemma r_structs_ok:
  "has_type (TyVec (TyStruct n)) (rval_tree tab r) \<Longrightarrow> r_vec r_struct r = Some (g_vec g_struct (rval_tree tab r))"
  by (rule r_vec_ok) (auto intro: r_struct_ok)

lemma get_opts:
  assumes "runtime_laws rt V"
  shows
    "field_ok TyStr (map_of (v_tab V t) vo) \<Longrightarrow>
     as_opt r_str (rt_get rt t TyStr vo None) = Some (map_option g_str (map_of (v_tab V t) vo))"
    "field_ok (TyStruct n) (map_of (v_tab V t) vo) \<Longrightarrow>
     as_opt r_struct (rt_get rt t (TyStruct n) vo None) = Some (map_option g_struct (map_of (v_tab V t) vo))"
    "field_ok (TyVec TyStr) (map_of (v_tab V t) vo) \<Longrightarrow>
     as_opt (r_vec r_str) (rt_get rt t (TyVec TyStr) vo None) = Some (map_option (g_vec g_str) (map_of (v_tab V t) vo))"
    "field_ok (TyVec (TyStruct n)) (map_of (v_tab V t) vo) \<Longrightarrow>
     as_opt (r_vec r_struct) (rt_get rt t (TyVec (TyStruct n)) vo None) = Some (map_option (g_vec g_struct) (map_of (v_tab V t) vo))"
  by (rule get_opt [OF assms], assumption, erule r_str_ok r_struct_ok r_strs_ok r_structs_ok)+

text \<open>A nested table, a vector of tables: handles on contents the verifier accepted, read by \<open>f\<close>.\<close>

definition reads :: "('b, 'o, 't) fb_view \<Rightarrow> field_check list \<Rightarrow> ('t \<Rightarrow> 'a option) \<Rightarrow> (fbtree \<Rightarrow> 'a) \<Rightarrow> bool" where
  "reads V cs f g \<longleftrightarrow> (\<forall>t. has_type (TyTable cs) (TTab (v_tab V t)) \<longrightarrow> f t = Some (g (TTab (v_tab V t))))"

lemma readsI:
  "(\<And>t. has_type (TyTable cs) (TTab (v_tab V t)) \<Longrightarrow> f t = Some (g (TTab (v_tab V t)))) \<Longrightarrow> reads V cs f g"
  by (simp add: reads_def)

lemma readsD: "\<lbrakk>reads V cs f g; has_type (TyTable cs) (TTab (v_tab V t))\<rbrakk> \<Longrightarrow> f t = Some (g (TTab (v_tab V t)))"
  by (simp add: reads_def)

lemma get_table:
  assumes "runtime_laws rt V" "field_ok (TyTable cs) (map_of (v_tab V t) vo)"
    and "reads V cs f g"
  shows "Option.bind (as_opt r_tab (rt_get rt t (TyTable cs) vo None)) (follow_opt f)
    = Some (map_option g (map_of (v_tab V t) vo))"
proof (cases "map_of (v_tab V t) vo")
  case None
  then show ?thesis using get_absent [OF assms(1) None] by simp
next
  case (Some x)
  with assms(2) have ty: "has_type (TyTable cs) x" by simp
  obtain r where r: "rt_get rt t (TyTable cs) vo None = Some r" "rval_tree (v_tab V) r = x"
    by (rule get_present [OF assms(1) Some ty])
  from ty r(2) obtain t' where "r = RTab t'" "x = TTab (v_tab V t')" by (cases r) auto
  with r(1) Some ty show ?thesis using readsD [OF assms(3), of t'] by simp
qed

lemma get_tables:
  assumes "runtime_laws rt V" "field_ok (TyVec (TyTable cs)) (map_of (v_tab V t) vo)"
    and "reads V cs f g"
  shows "Option.bind (as_opt (r_vec r_tab) (rt_get rt t (TyVec (TyTable cs)) vo None)) (follow_vec f)
    = Some (map_option (g_vec g) (map_of (v_tab V t) vo))"
proof (cases "map_of (v_tab V t) vo")
  case None
  then show ?thesis using get_absent [OF assms(1) None] by (simp add: follow_vec_def)
next
  case (Some x)
  with assms(2) have ty: "has_type (TyVec (TyTable cs)) x" by simp
  obtain r where r: "rt_get rt t (TyVec (TyTable cs)) vo None = Some r" "rval_tree (v_tab V) r = x"
    by (rule get_present [OF assms(1) Some ty])
  from ty r(2) obtain rs where rs: "r = RVec rs" "x = TVec (map (rval_tree (v_tab V)) rs)" by (cases r) auto
  have "\<exists>t'. r' = RTab t'" if "r' \<in> set rs" for r'
    using ty that unfolding rs by (cases r') (auto simp: list_all_iff)
  then have "\<forall>r'\<in>set rs. \<exists>t'. r' = RTab t'" by blast
  then have "\<exists>ts. rs = map RTab ts" by (induction rs) (auto, metis list.simps(9))
  then obtain ts where ts: "rs = map RTab ts" by blast
  have th: "those (map (r_tab \<circ> RTab) ts) = Some ts" using those_map_Some [of ts "r_tab \<circ> RTab" id] by simp
  have "those (map f ts) = Some (map (g \<circ> (\<lambda>t. TTab (v_tab V t))) ts)"
    using ty unfolding rs ts by (intro those_map_Some) (auto simp: list_all_iff comp_def readsD [OF assms(3)])
  with r(1) Some rs th show ?thesis by (simp add: ts follow_vec_def comp_def)
qed

section \<open>Builder programs\<close>

text \<open>
  A generated \<open>create\<close> opens a table, pushes its slots and closes it. \<open>slot_op\<close> is one such
  push, \<open>content_op\<close> the content it gives; a scalar equal to its default is elided.
\<close>

datatype 'o slot_op = PushSlot voffset scalar scalar | PushOpt voffset "'o slot option"

datatype content_op = CSlot voffset scalar scalar | COpt voffset "fbtree option"

fun run_op :: "('b, 'o, 't) runtime \<Rightarrow> 'o slot_op \<Rightarrow> ('b, unit) state" where
  "run_op rt (PushSlot vo x d) = rt_push_slot rt vo x d"
| "run_op rt (PushOpt vo None) = State_Monad.return ()"
| "run_op rt (PushOpt vo (Some sl)) = rt_push_slot_always rt vo sl"

fun run_ops :: "('b, 'o, 't) runtime \<Rightarrow> 'o slot_op list \<Rightarrow> ('b, 'a) state \<Rightarrow> ('b, 'a) state" where
  "run_ops rt [] k = k"
| "run_ops rt (p # ops) k = do { run_op rt p; run_ops rt ops k }"

definition table_prog :: "('b, 'o, 't) runtime \<Rightarrow> 'o slot_op list \<Rightarrow> ('b, 'o) state" where
  "table_prog rt ops = do { s \<leftarrow> rt_start_table rt; run_ops rt ops (rt_end_table rt s) }"

fun cop_vo :: "content_op \<Rightarrow> voffset" where
  "cop_vo (CSlot vo x d) = vo"
| "cop_vo (COpt vo xo) = vo"

fun cop_val :: "content_op \<Rightarrow> fbtree option" where
  "cop_val (CSlot vo x d) = (if scalar_eq x d then None else Some (TScalar x))"
| "cop_val (COpt vo xo) = xo"

definition cops_fields :: "content_op list \<Rightarrow> (voffset \<times> fbtree) list" where
  "cops_fields cs = concat (map (\<lambda>c. case cop_val c of None \<Rightarrow> [] | Some x \<Rightarrow> [(cop_vo c, x)]) cs)"

definition table_of :: "content_op list \<Rightarrow> fbtree" where
  "table_of cs = TTab (cops_fields cs)"

lemma cops_fields_simps [simp]:
  "cops_fields [] = []"
  "cops_fields (c # cs) = (case cop_val c of None \<Rightarrow> [] | Some x \<Rightarrow> [(cop_vo c, x)]) @ cops_fields cs"
  by (simp_all add: cops_fields_def)

lemma cops_fields_dom: "fst ` set (cops_fields cs) \<subseteq> cop_vo ` set cs"
  by (induction cs) (auto split: option.splits)

text \<open>With every slot pushed at most once, a lookup finds the slot's own push.\<close>

lemma map_of_cops:
  assumes "distinct (map cop_vo cs)"
  shows "map_of (cops_fields cs) vo = Option.bind (find (\<lambda>c. cop_vo c = vo) cs) cop_val"
  using assms
proof (induction cs)
  case (Cons c cs)
  have "map_of (cops_fields cs) vo = None" if "cop_vo c = vo"
    using Cons.prems cops_fields_dom [of cs] that by (auto simp: map_of_eq_None_iff)
  with Cons show ?case by (auto split: option.splits)
qed simp

text \<open>What is known of a builder: no table is open, and what the offsets at hand denote.\<close>

type_synonym 'o objects = "('o option \<times> fbtree option) set"

definition denotes :: "('b, 'o, 't) fb_view \<Rightarrow> 'b \<Rightarrow> 'o option \<Rightarrow> fbtree option \<Rightarrow> bool" where
  "denotes V b po xo \<longleftrightarrow> rel_option (\<lambda>p x. v_obj V b p = Some x) po xo"

definition objs_hold :: "('b, 'o, 't) fb_view \<Rightarrow> 'o objects \<Rightarrow> 'b \<Rightarrow> bool" where
  "objs_hold V G b \<longleftrightarrow> (\<forall>(po, xo) \<in> G. denotes V b po xo)"

definition knows :: "('b, 'o, 't) fb_view \<Rightarrow> 'o objects \<Rightarrow> 'b \<Rightarrow> bool" where
  "knows V G b \<longleftrightarrow> v_open V b = None \<and> objs_hold V G b"

definition builds :: "('b, 'o, 't) fb_view \<Rightarrow> 'o objects \<Rightarrow> ('b, 'o) state \<Rightarrow> fbtree \<Rightarrow> bool" where
  "builds V G m x \<longleftrightarrow>
     (\<forall>b p b'. knows V G b \<longrightarrow> run_state m b = (p, b') \<longrightarrow> knows V (insert (Some p, Some x) G) b')"

definition builds_opt :: "('b, 'o, 't) fb_view \<Rightarrow> 'o objects \<Rightarrow> ('b, 'o option) state \<Rightarrow> fbtree option \<Rightarrow> bool" where
  "builds_opt V G m xo \<longleftrightarrow>
     (\<forall>b po b'. knows V G b \<longrightarrow> run_state m b = (po, b') \<longrightarrow> knows V (insert (po, xo) G) b')"

definition builds_list :: "('b, 'o, 't) fb_view \<Rightarrow> 'o objects \<Rightarrow> ('b, 'o list) state \<Rightarrow> fbtree list \<Rightarrow> bool" where
  "builds_list V G m xs \<longleftrightarrow>
     (\<forall>b ps b'. knows V G b \<longrightarrow> run_state m b = (ps, b') \<longrightarrow>
        length ps = length xs \<and> knows V ((\<lambda>(p, x). (Some p, Some x)) ` set (zip ps xs) \<union> G) b')"

lemma denotes_simps [simp]:
  "denotes V b (Some p) (Some x) \<longleftrightarrow> v_obj V b p = Some x"
  "denotes V b None xo \<longleftrightarrow> xo = None"
  "denotes V b po None \<longleftrightarrow> po = None"
  by (cases xo; cases po; simp add: denotes_def)+

lemma denotes_keeps: "\<lbrakk>denotes V b po xo; keeps_objects V b b'\<rbrakk> \<Longrightarrow> denotes V b' po xo"
  by (cases po; cases xo) (auto simp: denotes_def keeps_objects_def map_le_def dest!: bspec)

lemma objs_hold_keeps: "\<lbrakk>objs_hold V G b; keeps_objects V b b'\<rbrakk> \<Longrightarrow> objs_hold V G b'"
  unfolding objs_hold_def by (auto intro: denotes_keeps)

lemma objs_hold_insert: "objs_hold V (insert (po, xo) G) b \<longleftrightarrow> denotes V b po xo \<and> objs_hold V G b"
  by (simp add: objs_hold_def)

lemma objs_hold_mem: "\<lbrakk>objs_hold V G b; (po, xo) \<in> G\<rbrakk> \<Longrightarrow> denotes V b po xo"
  unfolding objs_hold_def by blast

lemma knows_add:
  "\<lbrakk>knows V G b; keeps_objects V b b'; v_open V b' = None; v_obj V b' p = Some x\<rbrakk> \<Longrightarrow> knows V (insert (Some p, Some x) G) b'"
  by (auto simp: knows_def objs_hold_insert intro: objs_hold_keeps)

lemma knows_open: "knows V G b \<Longrightarrow> v_open V b = None"
  by (simp add: knows_def)

lemma knows_mem: "\<lbrakk>knows V G b; (po, xo) \<in> G\<rbrakk> \<Longrightarrow> denotes V b po xo"
  unfolding knows_def by (blast intro: objs_hold_mem)

lemma knows_subset: "\<lbrakk>knows V G b; H \<subseteq> G\<rbrakk> \<Longrightarrow> knows V H b"
  unfolding knows_def objs_hold_def by blast

lemma buildsI:
  "(\<And>b p b'. \<lbrakk>knows V G b; run_state m b = (p, b')\<rbrakk> \<Longrightarrow> knows V (insert (Some p, Some x) G) b') \<Longrightarrow> builds V G m x"
  by (simp add: builds_def)

lemma buildsD: "\<lbrakk>builds V G m x; knows V G b; run_state m b = (p, b')\<rbrakk> \<Longrightarrow> knows V (insert (Some p, Some x) G) b'"
  by (simp add: builds_def)

lemma builds_optD: "\<lbrakk>builds_opt V G m xo; knows V G b; run_state m b = (po, b')\<rbrakk> \<Longrightarrow> knows V (insert (po, xo) G) b'"
  by (simp add: builds_opt_def)

lemma builds_bind:
  assumes "builds V G m x" "\<And>p. builds V (insert (Some p, Some x) G) (k p) y"
  shows "builds V G (State_Monad.bind m k) y"
proof (rule buildsI)
  fix b q b'
  assume b: "knows V G b" and run: "run_state (State_Monad.bind m k) b = (q, b')"
  obtain p b1 where p: "run_state m b = (p, b1)" by force
  with run have "run_state (k p) b1 = (q, b')" by simp
  then have "knows V (insert (Some q, Some y) (insert (Some p, Some x) G)) b'"
    using buildsD [OF assms(1) b p] buildsD [OF assms(2)] by blast
  then show "knows V (insert (Some q, Some y) G) b'" by (rule knows_subset) blast
qed

lemma builds_opt_bind:
  assumes "builds_opt V G m xo" "\<And>po. builds V (insert (po, xo) G) (k po) y"
  shows "builds V G (State_Monad.bind m k) y"
proof (rule buildsI)
  fix b q b'
  assume b: "knows V G b" and run: "run_state (State_Monad.bind m k) b = (q, b')"
  obtain po b1 where p: "run_state m b = (po, b1)" by force
  with run have "run_state (k po) b1 = (q, b')" by simp
  then have "knows V (insert (Some q, Some y) (insert (po, xo) G)) b'"
    using builds_optD [OF assms(1) b p] buildsD [OF assms(2)] by blast
  then show "knows V (insert (Some q, Some y) G) b'" by (rule knows_subset) blast
qed

fun option_state :: "('a \<Rightarrow> ('b, 'o) state) \<Rightarrow> 'a option \<Rightarrow> ('b, 'o option) state" where
  "option_state f None = State_Monad.return None"
| "option_state f (Some a) = do { p \<leftarrow> f a; State_Monad.return (Some p) }"

lemma builds_option:
  assumes "\<And>a. ao = Some a \<Longrightarrow> builds V G (f a) (g a)"
  shows "builds_opt V G (option_state f ao) (map_option g ao)"
proof (cases ao)
  case None
  then show ?thesis by (simp add: builds_opt_def knows_def objs_hold_insert)
next
  case (Some a)
  then have "builds V G (f a) (g a)" by (rule assms)
  with Some show ?thesis by (auto simp: builds_opt_def split: prod.splits dest: buildsD)
qed

lemma builds_traverse:
  assumes "\<And>a G. a \<in> set as \<Longrightarrow> builds V G (f a) (g a)"
  shows "builds_list V G (traverse_list f as) (map g as)"
  using assms
proof (induction as arbitrary: G)
  case Nil
  then show ?case by (simp add: builds_list_def)
next
  case (Cons a as)
  show ?case
    unfolding builds_list_def
  proof (intro allI impI)
    fix b qs b''
    assume b: "knows V G b" and run: "run_state (traverse_list f (a # as)) b = (qs, b'')"
    obtain p b1 where p: "run_state (f a) b = (p, b1)" by force
    obtain ps b2 where ps: "run_state (traverse_list f as) b1 = (ps, b2)" by force
    have q: "qs = p # ps" "b'' = b2" using run p ps by auto
    have "knows V (insert (Some p, Some (g a)) G) b1" by (rule buildsD [OF _ b p]) (simp add: Cons.prems)
    then have "length ps = length (map g as)"
      "knows V ((\<lambda>(p, x). (Some p, Some x)) ` set (zip ps (map g as)) \<union> insert (Some p, Some (g a)) G) b2"
      using Cons.IH [of "insert (Some p, Some (g a)) G"] Cons.prems ps unfolding builds_list_def by auto
    then show "length qs = length (map g (a # as))
        \<and> knows V ((\<lambda>(p, x). (Some p, Some x)) ` set (zip qs (map g (a # as))) \<union> G) b''"
      by (simp add: q insert_commute Un_commute)
  qed
qed

text \<open>Rules for the calls of the runtime.\<close>

lemma builds_string: "runtime_laws rt V \<Longrightarrow> builds V G (rt_create_string rt s) (TStr s)"
  unfolding runtime_laws_def law_create_string_def
  by (rule buildsI) (blast intro: knows_add dest: knows_open)

lemma builds_vector:
  assumes "runtime_laws rt V" "list_all2 (\<lambda>sl x. case sl of Struct bs \<Rightarrow> x = TStruct bs | Offset p \<Rightarrow> (Some p, Some x) \<in> G) sls xs"
  shows "builds V G (rt_create_vector rt sls) (TVec xs)"
  unfolding builds_def
proof (intro allI impI)
  fix b p b'
  assume b: "knows V G b" and run: "run_state (rt_create_vector rt sls) b = (p, b')"
  have "list_all2 (\<lambda>sl x. slot_tree (v_obj V b) sl = Some x) sls xs"
    using assms(2) b by (elim list_all2_mono) (auto dest: knows_mem split: slot.splits)
  then have sl: "map (slot_tree (v_obj V b)) sls = map Some xs"
    by (induction rule: list_all2_induct) auto
  have op: "v_open V b = None" using b by (simp add: knows_def)
  have "v_open V b' = None \<and> v_obj V b' p = Some (TVec xs) \<and> keeps_objects V b b'"
    using assms(1) op sl run unfolding runtime_laws_def law_create_vector_def by blast
  then show "knows V (insert (Some p, Some (TVec xs)) G) b'" using b by (blast intro: knows_add)
qed

lemma builds_structs:
  "runtime_laws rt V \<Longrightarrow> builds V G (rt_create_vector rt (map Struct bss)) (TVec (map TStruct bss))"
  by (rule builds_vector) (simp_all add: list_all2_map1 list_all2_map2 list.rel_refl)

lemma builds_offsets:
  assumes "runtime_laws rt V" "builds_list V G m xs"
  shows "builds V G (do { ps \<leftarrow> m; rt_create_vector rt (map Offset ps) }) (TVec xs)"
  unfolding builds_def
proof (intro allI impI)
  fix b p b'
  let ?H = "\<lambda>ps. (\<lambda>(p, x). (Some p, Some x)) ` set (zip ps xs) \<union> G"
  assume b: "knows V G b" and run: "run_state (do { ps \<leftarrow> m; rt_create_vector rt (map Offset ps) }) b = (p, b')"
  obtain ps b1 where ps: "run_state m b = (ps, b1)" by force
  with assms(2) b have l: "length ps = length xs" and k: "knows V (?H ps) b1" unfolding builds_list_def by auto
  have "list_all2 (\<lambda>sl x. case sl of Struct bs \<Rightarrow> x = TStruct bs | Offset p \<Rightarrow> (Some p, Some x) \<in> ?H ps) (map Offset ps) xs"
    using l by (auto simp: list_all2_conv_all_nth set_zip)
  then have "builds V (?H ps) (rt_create_vector rt (map Offset ps)) (TVec xs)" by (rule builds_vector [OF assms(1)])
  moreover have "run_state (rt_create_vector rt (map Offset ps)) b1 = (p, b')" using run ps by simp
  ultimately have "knows V (insert (Some p, Some (TVec xs)) (?H ps)) b'" using k by (blast dest: buildsD)
  then show "knows V (insert (Some p, Some (TVec xs)) G) b'" by (rule knows_subset) blast
qed

text \<open>The rule for a generated \<open>create\<close>.\<close>

definition slot_gives :: "'o objects \<Rightarrow> 'o slot option \<Rightarrow> fbtree option \<Rightarrow> bool" where
  "slot_gives G so xo \<longleftrightarrow>
     (\<exists>bo. so = map_option Struct bo \<and> xo = map_option TStruct bo) \<or> (\<exists>po. so = map_option Offset po \<and> (po, xo) \<in> G)"

fun op_gives :: "'o objects \<Rightarrow> 'o slot_op \<Rightarrow> content_op \<Rightarrow> bool" where
  "op_gives G (PushSlot vo x d) c = (c = CSlot vo x d)"
| "op_gives G (PushOpt vo so) c = (\<exists>xo. c = COpt vo xo \<and> slot_gives G so xo)"

lemma slot_gives_intros [simp]:
  "slot_gives G (map_option Struct bo) (map_option TStruct bo)"
  "(po, xo) \<in> G \<Longrightarrow> slot_gives G (map_option Offset po) xo"
  "(Some p, xo) \<in> G \<Longrightarrow> slot_gives G (Some (Offset p)) xo"
  unfolding slot_gives_def by (auto intro: exI [of _ "Some p"])

lemma slot_gives_tree:
  assumes "slot_gives G so xo" "objs_hold V G b"
  shows "rel_option (\<lambda>sl x. slot_tree (v_obj V b) sl = Some x) so xo"
  using assms unfolding slot_gives_def
proof (elim disjE exE conjE)
  fix po
  assume "so = map_option Offset po" "(po, xo) \<in> G"
  with assms(2) show ?thesis by (cases po; cases xo) (auto dest!: objs_hold_mem)
qed (auto simp: option.rel_map option.rel_refl)

definition pushing :: "('b, 'o, 't) fb_view \<Rightarrow> 'o objects \<Rightarrow> 'o \<Rightarrow> (voffset \<times> fbtree) list \<Rightarrow> 'b \<Rightarrow> bool" where
  "pushing V G s fs b \<longleftrightarrow> v_open V b = Some (s, fs) \<and> objs_hold V G b"

lemma pushing_keeps:
  "\<lbrakk>pushing V G s fs b; keeps_objects V b b'; v_open V b' = Some (s, fs')\<rbrakk> \<Longrightarrow> pushing V G s fs' b'"
  by (auto simp: pushing_def intro: objs_hold_keeps)

lemma push_slotD:
  "\<lbrakk>runtime_laws rt V; v_open V b = Some (s, fs); vo \<notin> fst ` set fs; run_state (rt_push_slot rt vo x d) b = ((), b')\<rbrakk>
   \<Longrightarrow> v_open V b' = Some (s, if scalar_eq x d then fs else fs @ [(vo, TScalar x)]) \<and> keeps_objects V b b'"
  unfolding runtime_laws_def law_push_slot_def by blast

lemma push_slot_alwaysD:
  "\<lbrakk>runtime_laws rt V; v_open V b = Some (s, fs); vo \<notin> fst ` set fs; slot_tree (v_obj V b) sl = Some x;
    run_state (rt_push_slot_always rt vo sl) b = ((), b')\<rbrakk>
   \<Longrightarrow> v_open V b' = Some (s, fs @ [(vo, x)]) \<and> keeps_objects V b b'"
  unfolding runtime_laws_def law_push_slot_always_def by blast

lemma run_op_pushes:
  assumes "runtime_laws rt V" "op_gives G p c" "cop_vo c \<notin> fst ` set fs"
    and "pushing V G s fs b" "run_state (run_op rt p) b = ((), b')"
  shows "pushing V G s (fs @ cops_fields [c]) b'"
proof (cases p)
  case (PushSlot vo x d)
  with assms(2) have c: "c = CSlot vo x d" by simp
  have "v_open V b' = Some (s, if scalar_eq x d then fs else fs @ [(vo, TScalar x)]) \<and> keeps_objects V b b'"
    using assms(3-) PushSlot c by (intro push_slotD [OF assms(1)]) (auto simp: pushing_def)
  with c show ?thesis using pushing_keeps [OF assms(4)] by simp
next
  case (PushOpt vo so)
  with assms(2) obtain xo where c: "c = COpt vo xo" and "slot_gives G so xo" by auto
  then have rel: "rel_option (\<lambda>sl x. slot_tree (v_obj V b) sl = Some x) so xo"
    using assms(4) by (auto simp: pushing_def dest: slot_gives_tree)
  show ?thesis
  proof (cases so)
    case None
    with rel PushOpt c assms(4,5) show ?thesis by auto
  next
    case (Some sl)
    with rel obtain x where x: "xo = Some x" "slot_tree (v_obj V b) sl = Some x" by (cases xo) auto
    with PushOpt Some assms(3-) c have "v_open V b' = Some (s, fs @ [(vo, x)]) \<and> keeps_objects V b b'"
      by (intro push_slot_alwaysD [OF assms(1)]) (auto simp: pushing_def)
    with c x show ?thesis using pushing_keeps [OF assms(4)] by simp
  qed
qed

lemma disjoint_within: "\<lbrakk>A \<subseteq> F \<union> {v}; v \<notin> S; S \<inter> F = {}\<rbrakk> \<Longrightarrow> S \<inter> A = {}"
  by blast

lemma run_ops_pushes:
  assumes "runtime_laws rt V" "list_all2 (op_gives G) ops cs" "distinct (map cop_vo cs)"
    and "cop_vo ` set cs \<inter> fst ` set fs = {}" "pushing V G s fs b"
    and "run_state (run_ops rt ops (rt_end_table rt s)) b = (p, b')"
  shows "knows V (insert (Some p, Some (TTab (fs @ cops_fields cs))) G) b'"
  using assms(2-)
proof (induction ops cs arbitrary: fs b rule: list_all2_induct)
  case Nil
  then have "v_open V b' = None \<and> v_obj V b' p = Some (TTab fs) \<and> keeps_objects V b b'"
    using assms(1) unfolding runtime_laws_def law_end_table_def by (auto simp: pushing_def)
  with Nil.prems(3) show ?case by (auto simp: knows_def pushing_def objs_hold_insert intro: objs_hold_keeps)
next
  case (Cons q ops c cs)
  obtain b1 where r: "run_state (run_op rt q) b = ((), b1)" by (cases "run_state (run_op rt q) b") auto
  have "pushing V G s (fs @ cops_fields [c]) b1"
    using Cons.prems by (intro run_op_pushes [OF assms(1) Cons.hyps(1) _ _ r]) auto
  moreover have "cop_vo ` set cs \<inter> fst ` set (fs @ cops_fields [c]) = {}"
  proof -
    have "fst ` set (fs @ cops_fields [c]) \<subseteq> fst ` set fs \<union> {cop_vo c}"
      using cops_fields_dom [of "[c]"] unfolding set_append image_Un by auto
    moreover have "cop_vo c \<notin> cop_vo ` set cs" using Cons.prems(1) by simp
    moreover have "cop_vo ` set cs \<inter> fst ` set fs = {}" using Cons.prems(2) by auto
    ultimately show ?thesis by (rule disjoint_within)
  qed
  moreover have "run_state (run_ops rt ops (rt_end_table rt s)) b1 = (p, b')" using Cons.prems(4) r by simp
  ultimately have "knows V (insert (Some p, Some (TTab ((fs @ cops_fields [c]) @ cops_fields cs))) G) b'"
    using Cons.prems(1) by (intro Cons.IH) auto
  then show ?case by simp
qed

lemma builds_table:
  assumes "runtime_laws rt V" "list_all2 (op_gives G) ops cs" "distinct (map cop_vo cs)"
  shows "builds V G (table_prog rt ops) (table_of cs)"
  unfolding builds_def
proof (intro allI impI)
  fix b p b'
  assume b: "knows V G b" and run: "run_state (table_prog rt ops) b = (p, b')"
  obtain s b1 where s: "run_state (rt_start_table rt) b = (s, b1)" by force
  with assms(1) b have "v_open V b1 = Some (s, []) \<and> keeps_objects V b b1"
    unfolding runtime_laws_def law_start_table_def by (auto simp: knows_def)
  then have "pushing V G s [] b1"
    using b by (auto simp: knows_def pushing_def intro: objs_hold_keeps)
  moreover have "run_state (run_ops rt ops (rt_end_table rt s)) b1 = (p, b')"
    using run s by (simp add: table_prog_def)
  ultimately have "knows V (insert (Some p, Some (TTab ([] @ cops_fields cs))) G) b'"
    by (intro run_ops_pushes [OF assms(1,2,3)]) auto
  then show "knows V (insert (Some p, Some (table_of cs)) G) b'" by (simp add: table_of_def)
qed

section \<open>Contents of built tables\<close>

text \<open>A zero of either sign is elided, and reads back as \<open>0.0\<close>.\<close>

definition f32_unsign_zero :: "f32 \<Rightarrow> f32" where
  "f32_unsign_zero w = (if w = 0x80000000 then 0 else w)"

lemma g_slots [simp]:
  "g_bool d (cop_val (CSlot vo (ScBool x) (ScBool d))) = x"
  "g_u8 d8 (cop_val (CSlot vo (ScU8 x8) (ScU8 d8))) = x8"
  "g_u16 d16 (cop_val (CSlot vo (ScU16 x16) (ScU16 d16))) = x16"
  "g_u32 d32 (cop_val (CSlot vo (ScU32 x32) (ScU32 d32))) = x32"
  "g_u64 d64 (cop_val (CSlot vo (ScU64 x64) (ScU64 d64))) = x64"
  "g_i64 di (cop_val (CSlot vo (ScI64 xi) (ScI64 di))) = xi"
  by simp_all

lemma g_opts [simp]:
  "map_option (g_struct \<circ> TStruct) bo = bo"
  "map_option (g_str \<circ> TStr) so = so"
  by (cases bo; simp) (cases so; simp)

lemma field_ok_slots [simp]:
  "field_ok TyBool (cop_val (CSlot vo (ScBool x) d))"
  "field_ok TyU8 (cop_val (CSlot vo (ScU8 x8) d))"
  "field_ok TyU16 (cop_val (CSlot vo (ScU16 x16) d))"
  "field_ok TyU32 (cop_val (CSlot vo (ScU32 x32) d))"
  "field_ok TyU64 (cop_val (CSlot vo (ScU64 x64) d))"
  "in_i64 i \<Longrightarrow> field_ok TyI64 (cop_val (CSlot vo (ScI64 i) d))"
  "field_ok TyF32 (cop_val (CSlot vo (ScF32 q) d))"
  by simp_all

lemma g_f32_slot [simp]: "g_f32 0 (cop_val (CSlot vo (ScF32 x) (ScF32 0))) = f32_unsign_zero x"
proof -
  have z: "f32_val 0 = Fin 0" "f32_val 0x80000000 = Fin 0" by (simp_all add: f32_val_zero_iff)
  show ?thesis by (simp add: z f32_unsign_zero_def f32_val_zero_iff)
qed

text \<open>Optional strings, structs, tables and vectors as contents.\<close>

definition utf8_ok :: "string \<Rightarrow> bool" where
  "utf8_ok s \<longleftrightarrow> utf8_valid (str_bytes s)"

lemma field_ok_opts [simp]:
  "field_ok TyStr (map_option TStr so) \<longleftrightarrow> pred_option utf8_ok so"
  "field_ok (TyStruct n) (map_option TStruct bo) \<longleftrightarrow> pred_option (\<lambda>bs. length bs = n) bo"
  "field_ok (TyVec ty) (map_option (\<lambda>xs. TVec (map f xs)) xso) \<longleftrightarrow> pred_option (list_all (\<lambda>x. has_type ty (f x))) xso"
  "field_ok (TyTable cs) (map_option g ao) \<longleftrightarrow> pred_option (\<lambda>a. has_type (TyTable cs) (g a)) ao"
  by (simp_all add: option.pred_map comp_def utf8_ok_def [abs_def] list.pred_map del: has_type.simps(4))

lemma has_type_str [simp]: "has_type TyStr (TStr s) \<longleftrightarrow> utf8_ok s"
  by (simp add: utf8_ok_def)

definition inverts :: "('a \<Rightarrow> bool) \<Rightarrow> ('c \<Rightarrow> 'a) \<Rightarrow> ('a \<Rightarrow> 'c) \<Rightarrow> bool" where
  "inverts ok h g \<longleftrightarrow> (\<forall>a. ok a \<longrightarrow> h (g a) = a)"

lemma invertsI: "(\<And>a. ok a \<Longrightarrow> h (g a) = a) \<Longrightarrow> inverts ok h g"
  by (simp add: inverts_def)

lemma invertsD: "\<lbrakk>inverts ok h g; ok a\<rbrakk> \<Longrightarrow> h (g a) = a"
  by (simp add: inverts_def)

lemma read_back_opt: "\<lbrakk>inverts ok h g; pred_option ok ao\<rbrakk> \<Longrightarrow> map_option h (map_option g ao) = ao"
  by (cases ao) (auto dest: invertsD)

lemma read_back_vec:
  "\<lbrakk>inverts ok h g; pred_option (list_all ok) xso\<rbrakk> \<Longrightarrow>
   map_option (g_vec h) (map_option (\<lambda>xs. TVec (map g xs)) xso) = xso"
  by (cases xso) (auto simp: list_all_iff dest: invertsD intro!: map_idI)

lemma read_back_data:
  "map_option g_str (map_option TStr so) = so"
  "map_option g_struct (map_option TStruct bo) = bo"
  "map_option (g_vec g_str) (map_option (\<lambda>xs. TVec (map TStr xs)) sso) = sso"
  by (cases so; simp; fail | cases bo; simp; fail | cases sso; simp add: comp_def; fail)+

definition write_vec :: "('b, 'o, 't) runtime \<Rightarrow> ('a \<Rightarrow> ('b, 'o) state) \<Rightarrow> 'a list \<Rightarrow> ('b, 'o) state" where
  "write_vec rt f xs = do { ps \<leftarrow> traverse_list f xs; rt_create_vector rt (map Offset ps) }"

lemma builds_write_vec:
  "\<lbrakk>runtime_laws rt V; \<And>a G. builds V G (f a) (g a)\<rbrakk> \<Longrightarrow> builds V G (write_vec rt f xs) (TVec (map g xs))"
  unfolding write_vec_def by (rule builds_offsets, assumption, rule builds_traverse)

declare cop_val.simps(1) [simp del]

end
