(* ===== verification/Bindings_Data.thy ===== *)
theory Bindings_Data
  imports Fb_Lib Validate World
begin

text \<open>
  The data of the generated bindings,
  \<open>server/crates/sw-contracts/src/generated/envelope_generated.rs\<close> lines 1 to 642: the payload
  discriminants and the three structs, which are byte arrays read and written in place. Each struct
  is a bijection between its fields and its bytes.
\<close>

named_theorems payload \<open>the payload discriminants\<close>
named_theorems struct_defs \<open>the accessors of the structs\<close>

section \<open>Payload\<close>

definition Payload_NONE :: u8 where [payload]: "Payload_NONE = 0"
definition Payload_ClientHello :: u8 where [payload]: "Payload_ClientHello = 1"
definition Payload_ServerHello :: u8 where [payload]: "Payload_ServerHello = 2"
definition Payload_ClientState :: u8 where [payload]: "Payload_ClientState = 3"
definition Payload_SnapshotDelta :: u8 where [payload]: "Payload_SnapshotDelta = 4"
definition Payload_AoiUpdate :: u8 where [payload]: "Payload_AoiUpdate = 5"
definition Payload_CellSnapshot :: u8 where [payload]: "Payload_CellSnapshot = 6"
definition Payload_MoorRequest :: u8 where [payload]: "Payload_MoorRequest = 7"
definition Payload_MoorAck :: u8 where [payload]: "Payload_MoorAck = 8"
definition Payload_EconTxn :: u8 where [payload]: "Payload_EconTxn = 9"
definition Payload_LedgerAck :: u8 where [payload]: "Payload_LedgerAck = 10"
definition Payload_ChatSend :: u8 where [payload]: "Payload_ChatSend = 11"
definition Payload_ChatBroadcast :: u8 where [payload]: "Payload_ChatBroadcast = 12"
definition Payload_WorldClock :: u8 where [payload]: "Payload_WorldClock = 13"
definition Payload_MarketTradeRequest :: u8 where [payload]: "Payload_MarketTradeRequest = 14"
definition Payload_MarketStateAck :: u8 where [payload]: "Payload_MarketStateAck = 15"

definition Payload_ENUM_VALUES :: "u8 list" where
  "Payload_ENUM_VALUES = [Payload_NONE, Payload_ClientHello, Payload_ServerHello, Payload_ClientState, Payload_SnapshotDelta, Payload_AoiUpdate, Payload_CellSnapshot, Payload_MoorRequest, Payload_MoorAck, Payload_EconTxn, Payload_LedgerAck, Payload_ChatSend, Payload_ChatBroadcast, Payload_WorldClock, Payload_MarketTradeRequest, Payload_MarketStateAck]"

definition Payload_variant_name :: "u8 \<Rightarrow> string option" where
  "Payload_variant_name p =
     (if p = Payload_NONE then Some ''NONE''
      else if p = Payload_ClientHello then Some ''ClientHello''
      else if p = Payload_ServerHello then Some ''ServerHello''
      else if p = Payload_ClientState then Some ''ClientState''
      else if p = Payload_SnapshotDelta then Some ''SnapshotDelta''
      else if p = Payload_AoiUpdate then Some ''AoiUpdate''
      else if p = Payload_CellSnapshot then Some ''CellSnapshot''
      else if p = Payload_MoorRequest then Some ''MoorRequest''
      else if p = Payload_MoorAck then Some ''MoorAck''
      else if p = Payload_EconTxn then Some ''EconTxn''
      else if p = Payload_LedgerAck then Some ''LedgerAck''
      else if p = Payload_ChatSend then Some ''ChatSend''
      else if p = Payload_ChatBroadcast then Some ''ChatBroadcast''
      else if p = Payload_WorldClock then Some ''WorldClock''
      else if p = Payload_MarketTradeRequest then Some ''MarketTradeRequest''
      else if p = Payload_MarketStateAck then Some ''MarketStateAck''
      else None)"

text \<open>\<open>copy_nonoverlapping\<close> into a byte array from position \<open>i\<close>.\<close>

definition copy_at :: "nat \<Rightarrow> bytes \<Rightarrow> bytes \<Rightarrow> bytes" where
  "copy_at i src s = take i s @ src @ drop (i + length src) s"

section \<open>Vec3\<close>

definition Vec3_default :: bytes where "Vec3_default = replicate 12 0"

definition Vec3_x :: "bytes \<Rightarrow> f32" where
  "Vec3_x s = from_le (subslice 0 4 s)"

definition Vec3_set_x :: "f32 \<Rightarrow> bytes \<Rightarrow> bytes" where
  "Vec3_set_x v s = copy_at 0 (le_bytes 4 v) s"

definition Vec3_y :: "bytes \<Rightarrow> f32" where
  "Vec3_y s = from_le (subslice 4 8 s)"

definition Vec3_set_y :: "f32 \<Rightarrow> bytes \<Rightarrow> bytes" where
  "Vec3_set_y v s = copy_at 4 (le_bytes 4 v) s"

definition Vec3_z :: "bytes \<Rightarrow> f32" where
  "Vec3_z s = from_le (subslice 8 12 s)"

definition Vec3_set_z :: "f32 \<Rightarrow> bytes \<Rightarrow> bytes" where
  "Vec3_set_z v s = copy_at 8 (le_bytes 4 v) s"

definition Vec3_new :: "f32 \<Rightarrow> f32 \<Rightarrow> f32 \<Rightarrow> bytes" where
  "Vec3_new x y z = Vec3_set_z z (Vec3_set_y y (Vec3_set_x x (replicate 12 0)))"

definition Vec3_run_verifier :: fty where "Vec3_run_verifier = TyStruct 12"

section \<open>QuatC\<close>

definition QuatC_default :: bytes where "QuatC_default = replicate 16 0"

definition QuatC_x :: "bytes \<Rightarrow> f32" where
  "QuatC_x s = from_le (subslice 0 4 s)"

definition QuatC_set_x :: "f32 \<Rightarrow> bytes \<Rightarrow> bytes" where
  "QuatC_set_x v s = copy_at 0 (le_bytes 4 v) s"

definition QuatC_y :: "bytes \<Rightarrow> f32" where
  "QuatC_y s = from_le (subslice 4 8 s)"

definition QuatC_set_y :: "f32 \<Rightarrow> bytes \<Rightarrow> bytes" where
  "QuatC_set_y v s = copy_at 4 (le_bytes 4 v) s"

definition QuatC_z :: "bytes \<Rightarrow> f32" where
  "QuatC_z s = from_le (subslice 8 12 s)"

definition QuatC_set_z :: "f32 \<Rightarrow> bytes \<Rightarrow> bytes" where
  "QuatC_set_z v s = copy_at 8 (le_bytes 4 v) s"

definition QuatC_w :: "bytes \<Rightarrow> f32" where
  "QuatC_w s = from_le (subslice 12 16 s)"

definition QuatC_set_w :: "f32 \<Rightarrow> bytes \<Rightarrow> bytes" where
  "QuatC_set_w v s = copy_at 12 (le_bytes 4 v) s"

definition QuatC_new :: "f32 \<Rightarrow> f32 \<Rightarrow> f32 \<Rightarrow> f32 \<Rightarrow> bytes" where
  "QuatC_new x y z w = QuatC_set_w w (QuatC_set_z z (QuatC_set_y y (QuatC_set_x x (replicate 16 0))))"

definition QuatC_run_verifier :: fty where "QuatC_run_verifier = TyStruct 16"

section \<open>GridCell\<close>

definition GridCell_default :: bytes where "GridCell_default = replicate 8 0"

definition GridCell_cx :: "bytes \<Rightarrow> int" where
  "GridCell_cx s = sint (from_le (subslice 0 4 s) :: u32)"

definition GridCell_set_cx :: "int \<Rightarrow> bytes \<Rightarrow> bytes" where
  "GridCell_set_cx v s = copy_at 0 (le_bytes 4 (word_of_int v :: u32)) s"

definition GridCell_cz :: "bytes \<Rightarrow> int" where
  "GridCell_cz s = sint (from_le (subslice 4 8 s) :: u32)"

definition GridCell_set_cz :: "int \<Rightarrow> bytes \<Rightarrow> bytes" where
  "GridCell_set_cz v s = copy_at 4 (le_bytes 4 (word_of_int v :: u32)) s"

definition GridCell_new :: "int \<Rightarrow> int \<Rightarrow> bytes" where
  "GridCell_new x z = GridCell_set_cz z (GridCell_set_cx x (replicate 8 0))"

definition GridCell_run_verifier :: fty where "GridCell_run_verifier = TyStruct 8"

section \<open>Lemmas\<close>

lemma length_copy_at [simp]: "i + length src \<le> length s \<Longrightarrow> length (copy_at i src s) = length s"
  by (simp add: copy_at_def)

lemma subslice_copy_at_same [simp]: "i + 4 \<le> length s \<Longrightarrow> j = i + 4 \<Longrightarrow> subslice i j (copy_at i (le_bytes 4 w) s) = le_bytes 4 w"
  by (simp add: copy_at_def subslice_def)

lemma subslice_copy_at_other [simp]:
  assumes "i + 4 \<le> length s" "k \<le> i \<or> i + 4 \<le> j"
  shows "subslice j k (copy_at i (le_bytes 4 w) s) = subslice j k s"
proof -
  have "drop (j - i - 4) (drop (i + 4) s) = drop j s" if "i + 4 \<le> j" using that by (simp add: add.commute)
  then show ?thesis
    using assms by (auto simp: copy_at_def subslice_def drop_take min_def)
qed

lemma le_bytes_subslice:
  "i + 4 \<le> length s \<Longrightarrow> le_bytes 4 (from_le (subslice i (i + 4) s) :: u32) = subslice i (i + 4) s"
  using le_bytes_from_le [of "subslice i (i + 4) s", where ?'a = 32] by (simp add: subslice_def)

lemma sint_word_of_sint: "word_of_int (sint w) = (w :: u32)"
  by simp

lemmas Vec3_defs = Vec3_new_def Vec3_set_x_def Vec3_set_y_def Vec3_set_z_def Vec3_x_def Vec3_y_def Vec3_z_def

lemmas QuatC_defs =
  QuatC_new_def QuatC_set_x_def QuatC_set_y_def QuatC_set_z_def QuatC_set_w_def QuatC_x_def QuatC_y_def QuatC_z_def QuatC_w_def

lemmas GridCell_defs = GridCell_new_def GridCell_set_cx_def GridCell_set_cz_def GridCell_cx_def GridCell_cz_def

lemma Vec3_new_reads [simp]:
  "length (Vec3_new x y z) = 12" "Vec3_x (Vec3_new x y z) = x" "Vec3_y (Vec3_new x y z) = y" "Vec3_z (Vec3_new x y z) = z"
  by (simp_all add: Vec3_defs)

lemma QuatC_new_reads [simp]:
  "length (QuatC_new x y z w) = 16" "QuatC_x (QuatC_new x y z w) = x" "QuatC_y (QuatC_new x y z w) = y"
  "QuatC_z (QuatC_new x y z w) = z" "QuatC_w (QuatC_new x y z w) = w"
  by (simp_all add: QuatC_defs)

lemma GridCell_new_reads [simp]:
  "length (GridCell_new x z) = 8"
  "in_i32 x \<Longrightarrow> GridCell_cx (GridCell_new x z) = x" "in_i32 z \<Longrightarrow> GridCell_cz (GridCell_new x z) = z"
  by (simp_all add: GridCell_defs sint_word_of_int_i32)

lemma GridCell_in_range [simp]: "in_i32 (GridCell_cx s)" "in_i32 (GridCell_cz s)"
  by (simp_all add: GridCell_cx_def GridCell_cz_def sint_u32_range)

text \<open>The lanes of an array, in order, are the array.\<close>

lemma subslice_chain: "\<lbrakk>i \<le> j; j \<le> k\<rbrakk> \<Longrightarrow> subslice i j s @ subslice j k s = subslice i k s"
  using take_add [of "j - i" "k - j" "drop i s"] by (simp add: subslice_def add.commute)

lemma length_lane [simp]: "i + 4 \<le> length s \<Longrightarrow> length (subslice i (i + 4) s) = 4"
  by (simp add: subslice_def)

lemma copy_lanes:
  "\<lbrakk>length a = 4; length b = 4\<rbrakk> \<Longrightarrow> copy_at 4 b (copy_at 0 a (replicate 8 z)) = a @ b"
  "\<lbrakk>length a = 4; length b = 4; length c = 4\<rbrakk> \<Longrightarrow> copy_at 8 c (copy_at 4 b (copy_at 0 a (replicate 12 z))) = a @ b @ c"
  "\<lbrakk>length a = 4; length b = 4; length c = 4; length d = 4\<rbrakk> \<Longrightarrow>
   copy_at 12 d (copy_at 8 c (copy_at 4 b (copy_at 0 a (replicate 16 z)))) = a @ b @ c @ d"
  by (simp_all add: copy_at_def)

lemma Vec3_reads_new: "length s = 12 \<Longrightarrow> Vec3_new (Vec3_x s) (Vec3_y s) (Vec3_z s) = s"
  using le_bytes_subslice [of 0 s] le_bytes_subslice [of 4 s] le_bytes_subslice [of 8 s]
    length_lane [of 0 s] length_lane [of 4 s] length_lane [of 8 s]
  by (simp add: Vec3_defs copy_lanes subslice_chain del: length_lane) (simp add: subslice_def)

lemma QuatC_reads_new: "length s = 16 \<Longrightarrow> QuatC_new (QuatC_x s) (QuatC_y s) (QuatC_z s) (QuatC_w s) = s"
  using le_bytes_subslice [of 0 s] le_bytes_subslice [of 4 s] le_bytes_subslice [of 8 s] le_bytes_subslice [of 12 s]
    length_lane [of 0 s] length_lane [of 4 s] length_lane [of 8 s] length_lane [of 12 s]
  by (simp add: QuatC_defs copy_lanes subslice_chain del: length_lane) (simp add: subslice_def)

lemma GridCell_reads_new: "length s = 8 \<Longrightarrow> GridCell_new (GridCell_cx s) (GridCell_cz s) = s"
  using le_bytes_subslice [of 0 s] le_bytes_subslice [of 4 s] length_lane [of 0 s] length_lane [of 4 s]
  by (simp add: GridCell_defs copy_lanes subslice_chain del: length_lane) (simp add: subslice_def)

text \<open>The values of the model as structs and back.\<close>

definition vec3_struct :: "vec3 \<Rightarrow> bytes" where
  "vec3_struct v = (case v of (x, y, z) \<Rightarrow> Vec3_new x y z)"

definition struct_vec3 :: "bytes \<Rightarrow> vec3" where
  "struct_vec3 s = (Vec3_x s, Vec3_y s, Vec3_z s)"

definition quat_struct :: "quat \<Rightarrow> bytes" where
  "quat_struct v = (case v of (x, y, z, w) \<Rightarrow> QuatC_new x y z w)"

definition struct_quat :: "bytes \<Rightarrow> quat" where
  "struct_quat s = (QuatC_x s, QuatC_y s, QuatC_z s, QuatC_w s)"

definition cell_struct :: "cell \<Rightarrow> bytes" where
  "cell_struct c = GridCell_new (cx c) (cz c)"

definition struct_cell :: "bytes \<Rightarrow> cell" where
  "struct_cell s = Cell (GridCell_cx s) (GridCell_cz s)"

definition cell_ok :: "cell \<Rightarrow> bool" where
  "cell_ok c \<longleftrightarrow> in_i32 (cx c) \<and> in_i32 (cz c)"

lemma struct_roundtrips [simp]:
  "struct_vec3 (vec3_struct v) = v" "struct_quat (quat_struct q) = q" "cell_ok c \<Longrightarrow> struct_cell (cell_struct c) = c"
  "length (vec3_struct v) = 12" "length (quat_struct q) = 16" "length (cell_struct c) = 8"
  by (simp_all add: vec3_struct_def struct_vec3_def quat_struct_def struct_quat_def cell_struct_def struct_cell_def cell_ok_def
      split: prod.splits)

lemma Payload_values_distinct: "distinct Payload_ENUM_VALUES"
  by (simp add: Payload_ENUM_VALUES_def payload)

lemma Payload_named_iff: "Payload_variant_name p \<noteq> None \<longleftrightarrow> p \<in> set Payload_ENUM_VALUES"
  by (simp add: Payload_variant_name_def Payload_ENUM_VALUES_def)

end
