(* ===== verification/Bindings_State.thy ===== *)
theory Bindings_State
  imports Bindings_Data
begin

text \<open>
  The generated tables of \<open>envelope_generated.rs\<close>, lines 644 to 2310: handshake, clock, presence
  and moorage. For each table, in the order of the file: the slot offsets, the arguments with their
  defaults, what its \<open>run_verifier\<close> visits, the builder with one \<open>add_\<close> per field, \<open>create\<close>,
  and the accessors. All of them are calls of the runtime, which is the argument \<open>rt\<close>. An
  accessor gives \<open>None\<close> when its unsafe read meets a slot of another type.
\<close>

named_theorems vt \<open>the slot offsets\<close>
named_theorems bind_create \<open>the builders of the generated tables\<close>
named_theorems bind_read \<open>the accessors of the generated tables\<close>
named_theorems bind_check \<open>the verifiers of the generated tables and structs\<close>

lemmas [bind_check] = Vec3_run_verifier_def QuatC_run_verifier_def GridCell_run_verifier_def

section \<open>WorldClock\<close>

definition WorldClock_VT_DAY :: voffset where [vt]: "WorldClock_VT_DAY = 4"
definition WorldClock_VT_TIME_OF_DAY :: voffset where [vt]: "WorldClock_VT_TIME_OF_DAY = 6"
definition WorldClock_VT_MOON_PHASE :: voffset where [vt]: "WorldClock_VT_MOON_PHASE = 8"

record WorldClockArgs =
  WorldClockArgs_day :: u32
  WorldClockArgs_time_of_day :: f32
  WorldClockArgs_moon_phase :: f32

definition WorldClockArgs_default :: "WorldClockArgs" where
  "WorldClockArgs_default =
     \<lparr>WorldClockArgs_day = 0,
      WorldClockArgs_time_of_day = 0,
      WorldClockArgs_moon_phase = 0\<rparr>"

definition WorldClock_run_verifier :: "field_check list" where [bind_check]:
  "WorldClock_run_verifier =
     [Field ''day'' WorldClock_VT_DAY TyU32 False,
      Field ''time_of_day'' WorldClock_VT_TIME_OF_DAY TyF32 False,
      Field ''moon_phase'' WorldClock_VT_MOON_PHASE TyF32 False]"

definition WorldClockBuilder_new :: "('b, 'o, 't) runtime \<Rightarrow> ('b, 'o) state" where [bind_create]:
  "WorldClockBuilder_new rt = rt_start_table rt"

definition WorldClockBuilder_add_day :: "('b, 'o, 't) runtime \<Rightarrow> u32 \<Rightarrow> ('b, unit) state" where [bind_create]:
  "WorldClockBuilder_add_day rt v = rt_push_slot rt WorldClock_VT_DAY (ScU32 v) (ScU32 0)"

definition WorldClockBuilder_add_time_of_day :: "('b, 'o, 't) runtime \<Rightarrow> f32 \<Rightarrow> ('b, unit) state" where [bind_create]:
  "WorldClockBuilder_add_time_of_day rt v = rt_push_slot rt WorldClock_VT_TIME_OF_DAY (ScF32 v) (ScF32 0)"

definition WorldClockBuilder_add_moon_phase :: "('b, 'o, 't) runtime \<Rightarrow> f32 \<Rightarrow> ('b, unit) state" where [bind_create]:
  "WorldClockBuilder_add_moon_phase rt v = rt_push_slot rt WorldClock_VT_MOON_PHASE (ScF32 v) (ScF32 0)"

definition WorldClockBuilder_finish :: "('b, 'o, 't) runtime \<Rightarrow> 'o \<Rightarrow> ('b, 'o) state" where [bind_create]:
  "WorldClockBuilder_finish rt start = rt_end_table rt start"

definition WorldClock_create :: "('b, 'o, 't) runtime \<Rightarrow> WorldClockArgs \<Rightarrow> ('b, 'o) state" where
  "WorldClock_create rt args = do {
     start \<leftarrow> WorldClockBuilder_new rt;
     WorldClockBuilder_add_moon_phase rt (WorldClockArgs_moon_phase args);
     WorldClockBuilder_add_time_of_day rt (WorldClockArgs_time_of_day args);
     WorldClockBuilder_add_day rt (WorldClockArgs_day args);
     WorldClockBuilder_finish rt start
   }"

definition WorldClock_day :: "('b, 'o, 't) runtime \<Rightarrow> 't \<Rightarrow> u32 option" where [bind_read]:
  "WorldClock_day rt t = as_u32 (rt_get rt t TyU32 WorldClock_VT_DAY (Some (RScalar (ScU32 0))))"

definition WorldClock_time_of_day :: "('b, 'o, 't) runtime \<Rightarrow> 't \<Rightarrow> f32 option" where [bind_read]:
  "WorldClock_time_of_day rt t = as_f32 (rt_get rt t TyF32 WorldClock_VT_TIME_OF_DAY (Some (RScalar (ScF32 0))))"

definition WorldClock_moon_phase :: "('b, 'o, 't) runtime \<Rightarrow> 't \<Rightarrow> f32 option" where [bind_read]:
  "WorldClock_moon_phase rt t = as_f32 (rt_get rt t TyF32 WorldClock_VT_MOON_PHASE (Some (RScalar (ScF32 0))))"

section \<open>WeatherSeed\<close>

definition WeatherSeed_VT_SEED :: voffset where [vt]: "WeatherSeed_VT_SEED = 4"
definition WeatherSeed_VT_EPOCH_DAY :: voffset where [vt]: "WeatherSeed_VT_EPOCH_DAY = 6"

record WeatherSeedArgs =
  WeatherSeedArgs_seed :: u64
  WeatherSeedArgs_epoch_day :: u32

definition WeatherSeedArgs_default :: "WeatherSeedArgs" where
  "WeatherSeedArgs_default =
     \<lparr>WeatherSeedArgs_seed = 0,
      WeatherSeedArgs_epoch_day = 0\<rparr>"

definition WeatherSeed_run_verifier :: "field_check list" where [bind_check]:
  "WeatherSeed_run_verifier =
     [Field ''seed'' WeatherSeed_VT_SEED TyU64 False,
      Field ''epoch_day'' WeatherSeed_VT_EPOCH_DAY TyU32 False]"

definition WeatherSeedBuilder_new :: "('b, 'o, 't) runtime \<Rightarrow> ('b, 'o) state" where [bind_create]:
  "WeatherSeedBuilder_new rt = rt_start_table rt"

definition WeatherSeedBuilder_add_seed :: "('b, 'o, 't) runtime \<Rightarrow> u64 \<Rightarrow> ('b, unit) state" where [bind_create]:
  "WeatherSeedBuilder_add_seed rt v = rt_push_slot rt WeatherSeed_VT_SEED (ScU64 v) (ScU64 0)"

definition WeatherSeedBuilder_add_epoch_day :: "('b, 'o, 't) runtime \<Rightarrow> u32 \<Rightarrow> ('b, unit) state" where [bind_create]:
  "WeatherSeedBuilder_add_epoch_day rt v = rt_push_slot rt WeatherSeed_VT_EPOCH_DAY (ScU32 v) (ScU32 0)"

definition WeatherSeedBuilder_finish :: "('b, 'o, 't) runtime \<Rightarrow> 'o \<Rightarrow> ('b, 'o) state" where [bind_create]:
  "WeatherSeedBuilder_finish rt start = rt_end_table rt start"

definition WeatherSeed_create :: "('b, 'o, 't) runtime \<Rightarrow> WeatherSeedArgs \<Rightarrow> ('b, 'o) state" where
  "WeatherSeed_create rt args = do {
     start \<leftarrow> WeatherSeedBuilder_new rt;
     WeatherSeedBuilder_add_seed rt (WeatherSeedArgs_seed args);
     WeatherSeedBuilder_add_epoch_day rt (WeatherSeedArgs_epoch_day args);
     WeatherSeedBuilder_finish rt start
   }"

definition WeatherSeed_seed :: "('b, 'o, 't) runtime \<Rightarrow> 't \<Rightarrow> u64 option" where [bind_read]:
  "WeatherSeed_seed rt t = as_u64 (rt_get rt t TyU64 WeatherSeed_VT_SEED (Some (RScalar (ScU64 0))))"

definition WeatherSeed_epoch_day :: "('b, 'o, 't) runtime \<Rightarrow> 't \<Rightarrow> u32 option" where [bind_read]:
  "WeatherSeed_epoch_day rt t = as_u32 (rt_get rt t TyU32 WeatherSeed_VT_EPOCH_DAY (Some (RScalar (ScU32 0))))"

section \<open>CapabilityManifest\<close>

definition CapabilityManifest_VT_PROTOCOL_VERSION :: voffset where [vt]: "CapabilityManifest_VT_PROTOCOL_VERSION = 4"
definition CapabilityManifest_VT_FEATURES :: voffset where [vt]: "CapabilityManifest_VT_FEATURES = 6"
definition CapabilityManifest_VT_TICK_HZ :: voffset where [vt]: "CapabilityManifest_VT_TICK_HZ = 8"
definition CapabilityManifest_VT_SNAPSHOT_HZ :: voffset where [vt]: "CapabilityManifest_VT_SNAPSHOT_HZ = 10"
definition CapabilityManifest_VT_AOI_RADIUS_CELLS :: voffset where [vt]: "CapabilityManifest_VT_AOI_RADIUS_CELLS = 12"
definition CapabilityManifest_VT_CELL_SIZE_M :: voffset where [vt]: "CapabilityManifest_VT_CELL_SIZE_M = 14"

record 'o CapabilityManifestArgs =
  CapabilityManifestArgs_protocol_version :: u16
  CapabilityManifestArgs_features :: "'o option"
  CapabilityManifestArgs_tick_hz :: u8
  CapabilityManifestArgs_snapshot_hz :: u8
  CapabilityManifestArgs_aoi_radius_cells :: u8
  CapabilityManifestArgs_cell_size_m :: f32

definition CapabilityManifestArgs_default :: "'o CapabilityManifestArgs" where
  "CapabilityManifestArgs_default =
     \<lparr>CapabilityManifestArgs_protocol_version = 0,
      CapabilityManifestArgs_features = None,
      CapabilityManifestArgs_tick_hz = 0,
      CapabilityManifestArgs_snapshot_hz = 0,
      CapabilityManifestArgs_aoi_radius_cells = 0,
      CapabilityManifestArgs_cell_size_m = 0\<rparr>"

definition CapabilityManifest_run_verifier :: "field_check list" where [bind_check]:
  "CapabilityManifest_run_verifier =
     [Field ''protocol_version'' CapabilityManifest_VT_PROTOCOL_VERSION TyU16 False,
      Field ''features'' CapabilityManifest_VT_FEATURES (TyVec TyStr) False,
      Field ''tick_hz'' CapabilityManifest_VT_TICK_HZ TyU8 False,
      Field ''snapshot_hz'' CapabilityManifest_VT_SNAPSHOT_HZ TyU8 False,
      Field ''aoi_radius_cells'' CapabilityManifest_VT_AOI_RADIUS_CELLS TyU8 False,
      Field ''cell_size_m'' CapabilityManifest_VT_CELL_SIZE_M TyF32 False]"

definition CapabilityManifestBuilder_new :: "('b, 'o, 't) runtime \<Rightarrow> ('b, 'o) state" where [bind_create]:
  "CapabilityManifestBuilder_new rt = rt_start_table rt"

definition CapabilityManifestBuilder_add_protocol_version :: "('b, 'o, 't) runtime \<Rightarrow> u16 \<Rightarrow> ('b, unit) state" where [bind_create]:
  "CapabilityManifestBuilder_add_protocol_version rt v = rt_push_slot rt CapabilityManifest_VT_PROTOCOL_VERSION (ScU16 v) (ScU16 0)"

definition CapabilityManifestBuilder_add_features :: "('b, 'o, 't) runtime \<Rightarrow> 'o \<Rightarrow> ('b, unit) state" where [bind_create]:
  "CapabilityManifestBuilder_add_features rt v = rt_push_slot_always rt CapabilityManifest_VT_FEATURES (Offset v)"

definition CapabilityManifestBuilder_add_tick_hz :: "('b, 'o, 't) runtime \<Rightarrow> u8 \<Rightarrow> ('b, unit) state" where [bind_create]:
  "CapabilityManifestBuilder_add_tick_hz rt v = rt_push_slot rt CapabilityManifest_VT_TICK_HZ (ScU8 v) (ScU8 0)"

definition CapabilityManifestBuilder_add_snapshot_hz :: "('b, 'o, 't) runtime \<Rightarrow> u8 \<Rightarrow> ('b, unit) state" where [bind_create]:
  "CapabilityManifestBuilder_add_snapshot_hz rt v = rt_push_slot rt CapabilityManifest_VT_SNAPSHOT_HZ (ScU8 v) (ScU8 0)"

definition CapabilityManifestBuilder_add_aoi_radius_cells :: "('b, 'o, 't) runtime \<Rightarrow> u8 \<Rightarrow> ('b, unit) state" where [bind_create]:
  "CapabilityManifestBuilder_add_aoi_radius_cells rt v = rt_push_slot rt CapabilityManifest_VT_AOI_RADIUS_CELLS (ScU8 v) (ScU8 0)"

definition CapabilityManifestBuilder_add_cell_size_m :: "('b, 'o, 't) runtime \<Rightarrow> f32 \<Rightarrow> ('b, unit) state" where [bind_create]:
  "CapabilityManifestBuilder_add_cell_size_m rt v = rt_push_slot rt CapabilityManifest_VT_CELL_SIZE_M (ScF32 v) (ScF32 0)"

definition CapabilityManifestBuilder_finish :: "('b, 'o, 't) runtime \<Rightarrow> 'o \<Rightarrow> ('b, 'o) state" where [bind_create]:
  "CapabilityManifestBuilder_finish rt start = rt_end_table rt start"

definition CapabilityManifest_create :: "('b, 'o, 't) runtime \<Rightarrow> 'o CapabilityManifestArgs \<Rightarrow> ('b, 'o) state" where
  "CapabilityManifest_create rt args = do {
     start \<leftarrow> CapabilityManifestBuilder_new rt;
     CapabilityManifestBuilder_add_cell_size_m rt (CapabilityManifestArgs_cell_size_m args);
     (case CapabilityManifestArgs_features args of None \<Rightarrow> State_Monad.return () | Some x \<Rightarrow> CapabilityManifestBuilder_add_features rt x);
     CapabilityManifestBuilder_add_protocol_version rt (CapabilityManifestArgs_protocol_version args);
     CapabilityManifestBuilder_add_aoi_radius_cells rt (CapabilityManifestArgs_aoi_radius_cells args);
     CapabilityManifestBuilder_add_snapshot_hz rt (CapabilityManifestArgs_snapshot_hz args);
     CapabilityManifestBuilder_add_tick_hz rt (CapabilityManifestArgs_tick_hz args);
     CapabilityManifestBuilder_finish rt start
   }"

definition CapabilityManifest_protocol_version :: "('b, 'o, 't) runtime \<Rightarrow> 't \<Rightarrow> u16 option" where [bind_read]:
  "CapabilityManifest_protocol_version rt t = as_u16 (rt_get rt t TyU16 CapabilityManifest_VT_PROTOCOL_VERSION (Some (RScalar (ScU16 0))))"

definition CapabilityManifest_features :: "('b, 'o, 't) runtime \<Rightarrow> 't \<Rightarrow> string list option option" where [bind_read]:
  "CapabilityManifest_features rt t = as_opt (r_vec r_str) (rt_get rt t (TyVec TyStr) CapabilityManifest_VT_FEATURES None)"

definition CapabilityManifest_tick_hz :: "('b, 'o, 't) runtime \<Rightarrow> 't \<Rightarrow> u8 option" where [bind_read]:
  "CapabilityManifest_tick_hz rt t = as_u8 (rt_get rt t TyU8 CapabilityManifest_VT_TICK_HZ (Some (RScalar (ScU8 0))))"

definition CapabilityManifest_snapshot_hz :: "('b, 'o, 't) runtime \<Rightarrow> 't \<Rightarrow> u8 option" where [bind_read]:
  "CapabilityManifest_snapshot_hz rt t = as_u8 (rt_get rt t TyU8 CapabilityManifest_VT_SNAPSHOT_HZ (Some (RScalar (ScU8 0))))"

definition CapabilityManifest_aoi_radius_cells :: "('b, 'o, 't) runtime \<Rightarrow> 't \<Rightarrow> u8 option" where [bind_read]:
  "CapabilityManifest_aoi_radius_cells rt t = as_u8 (rt_get rt t TyU8 CapabilityManifest_VT_AOI_RADIUS_CELLS (Some (RScalar (ScU8 0))))"

definition CapabilityManifest_cell_size_m :: "('b, 'o, 't) runtime \<Rightarrow> 't \<Rightarrow> f32 option" where [bind_read]:
  "CapabilityManifest_cell_size_m rt t = as_f32 (rt_get rt t TyF32 CapabilityManifest_VT_CELL_SIZE_M (Some (RScalar (ScF32 0))))"

section \<open>ClientHello\<close>

definition ClientHello_VT_PROTOCOL_VERSION :: voffset where [vt]: "ClientHello_VT_PROTOCOL_VERSION = 4"
definition ClientHello_VT_DISPLAY_NAME :: voffset where [vt]: "ClientHello_VT_DISPLAY_NAME = 6"
definition ClientHello_VT_TOKEN :: voffset where [vt]: "ClientHello_VT_TOKEN = 8"
definition ClientHello_VT_GAME_BUILD :: voffset where [vt]: "ClientHello_VT_GAME_BUILD = 10"
definition ClientHello_VT_MOD_VERSION :: voffset where [vt]: "ClientHello_VT_MOD_VERSION = 12"
definition ClientHello_VT_API_SURFACE_HASH :: voffset where [vt]: "ClientHello_VT_API_SURFACE_HASH = 14"

record 'o ClientHelloArgs =
  ClientHelloArgs_protocol_version :: u16
  ClientHelloArgs_display_name :: "'o option"
  ClientHelloArgs_token :: "'o option"
  ClientHelloArgs_game_build :: "'o option"
  ClientHelloArgs_mod_version :: "'o option"
  ClientHelloArgs_api_surface_hash :: "'o option"

definition ClientHelloArgs_default :: "'o ClientHelloArgs" where
  "ClientHelloArgs_default =
     \<lparr>ClientHelloArgs_protocol_version = 0,
      ClientHelloArgs_display_name = None,
      ClientHelloArgs_token = None,
      ClientHelloArgs_game_build = None,
      ClientHelloArgs_mod_version = None,
      ClientHelloArgs_api_surface_hash = None\<rparr>"

definition ClientHello_run_verifier :: "field_check list" where [bind_check]:
  "ClientHello_run_verifier =
     [Field ''protocol_version'' ClientHello_VT_PROTOCOL_VERSION TyU16 False,
      Field ''display_name'' ClientHello_VT_DISPLAY_NAME TyStr False,
      Field ''token'' ClientHello_VT_TOKEN TyStr False,
      Field ''game_build'' ClientHello_VT_GAME_BUILD TyStr False,
      Field ''mod_version'' ClientHello_VT_MOD_VERSION TyStr False,
      Field ''api_surface_hash'' ClientHello_VT_API_SURFACE_HASH TyStr False]"

definition ClientHelloBuilder_new :: "('b, 'o, 't) runtime \<Rightarrow> ('b, 'o) state" where [bind_create]:
  "ClientHelloBuilder_new rt = rt_start_table rt"

definition ClientHelloBuilder_add_protocol_version :: "('b, 'o, 't) runtime \<Rightarrow> u16 \<Rightarrow> ('b, unit) state" where [bind_create]:
  "ClientHelloBuilder_add_protocol_version rt v = rt_push_slot rt ClientHello_VT_PROTOCOL_VERSION (ScU16 v) (ScU16 0)"

definition ClientHelloBuilder_add_display_name :: "('b, 'o, 't) runtime \<Rightarrow> 'o \<Rightarrow> ('b, unit) state" where [bind_create]:
  "ClientHelloBuilder_add_display_name rt v = rt_push_slot_always rt ClientHello_VT_DISPLAY_NAME (Offset v)"

definition ClientHelloBuilder_add_token :: "('b, 'o, 't) runtime \<Rightarrow> 'o \<Rightarrow> ('b, unit) state" where [bind_create]:
  "ClientHelloBuilder_add_token rt v = rt_push_slot_always rt ClientHello_VT_TOKEN (Offset v)"

definition ClientHelloBuilder_add_game_build :: "('b, 'o, 't) runtime \<Rightarrow> 'o \<Rightarrow> ('b, unit) state" where [bind_create]:
  "ClientHelloBuilder_add_game_build rt v = rt_push_slot_always rt ClientHello_VT_GAME_BUILD (Offset v)"

definition ClientHelloBuilder_add_mod_version :: "('b, 'o, 't) runtime \<Rightarrow> 'o \<Rightarrow> ('b, unit) state" where [bind_create]:
  "ClientHelloBuilder_add_mod_version rt v = rt_push_slot_always rt ClientHello_VT_MOD_VERSION (Offset v)"

definition ClientHelloBuilder_add_api_surface_hash :: "('b, 'o, 't) runtime \<Rightarrow> 'o \<Rightarrow> ('b, unit) state" where [bind_create]:
  "ClientHelloBuilder_add_api_surface_hash rt v = rt_push_slot_always rt ClientHello_VT_API_SURFACE_HASH (Offset v)"

definition ClientHelloBuilder_finish :: "('b, 'o, 't) runtime \<Rightarrow> 'o \<Rightarrow> ('b, 'o) state" where [bind_create]:
  "ClientHelloBuilder_finish rt start = rt_end_table rt start"

definition ClientHello_create :: "('b, 'o, 't) runtime \<Rightarrow> 'o ClientHelloArgs \<Rightarrow> ('b, 'o) state" where
  "ClientHello_create rt args = do {
     start \<leftarrow> ClientHelloBuilder_new rt;
     (case ClientHelloArgs_api_surface_hash args of None \<Rightarrow> State_Monad.return () | Some x \<Rightarrow> ClientHelloBuilder_add_api_surface_hash rt x);
     (case ClientHelloArgs_mod_version args of None \<Rightarrow> State_Monad.return () | Some x \<Rightarrow> ClientHelloBuilder_add_mod_version rt x);
     (case ClientHelloArgs_game_build args of None \<Rightarrow> State_Monad.return () | Some x \<Rightarrow> ClientHelloBuilder_add_game_build rt x);
     (case ClientHelloArgs_token args of None \<Rightarrow> State_Monad.return () | Some x \<Rightarrow> ClientHelloBuilder_add_token rt x);
     (case ClientHelloArgs_display_name args of None \<Rightarrow> State_Monad.return () | Some x \<Rightarrow> ClientHelloBuilder_add_display_name rt x);
     ClientHelloBuilder_add_protocol_version rt (ClientHelloArgs_protocol_version args);
     ClientHelloBuilder_finish rt start
   }"

definition ClientHello_protocol_version :: "('b, 'o, 't) runtime \<Rightarrow> 't \<Rightarrow> u16 option" where [bind_read]:
  "ClientHello_protocol_version rt t = as_u16 (rt_get rt t TyU16 ClientHello_VT_PROTOCOL_VERSION (Some (RScalar (ScU16 0))))"

definition ClientHello_display_name :: "('b, 'o, 't) runtime \<Rightarrow> 't \<Rightarrow> string option option" where [bind_read]:
  "ClientHello_display_name rt t = as_opt r_str (rt_get rt t TyStr ClientHello_VT_DISPLAY_NAME None)"

definition ClientHello_token :: "('b, 'o, 't) runtime \<Rightarrow> 't \<Rightarrow> string option option" where [bind_read]:
  "ClientHello_token rt t = as_opt r_str (rt_get rt t TyStr ClientHello_VT_TOKEN None)"

definition ClientHello_game_build :: "('b, 'o, 't) runtime \<Rightarrow> 't \<Rightarrow> string option option" where [bind_read]:
  "ClientHello_game_build rt t = as_opt r_str (rt_get rt t TyStr ClientHello_VT_GAME_BUILD None)"

definition ClientHello_mod_version :: "('b, 'o, 't) runtime \<Rightarrow> 't \<Rightarrow> string option option" where [bind_read]:
  "ClientHello_mod_version rt t = as_opt r_str (rt_get rt t TyStr ClientHello_VT_MOD_VERSION None)"

definition ClientHello_api_surface_hash :: "('b, 'o, 't) runtime \<Rightarrow> 't \<Rightarrow> string option option" where [bind_read]:
  "ClientHello_api_surface_hash rt t = as_opt r_str (rt_get rt t TyStr ClientHello_VT_API_SURFACE_HASH None)"

section \<open>ServerHello\<close>

definition ServerHello_VT_ACCEPTED :: voffset where [vt]: "ServerHello_VT_ACCEPTED = 4"
definition ServerHello_VT_REASON :: voffset where [vt]: "ServerHello_VT_REASON = 6"
definition ServerHello_VT_PLAYER_ID :: voffset where [vt]: "ServerHello_VT_PLAYER_ID = 8"
definition ServerHello_VT_SERVER_NAME :: voffset where [vt]: "ServerHello_VT_SERVER_NAME = 10"
definition ServerHello_VT_BALANCE_GOLD :: voffset where [vt]: "ServerHello_VT_BALANCE_GOLD = 12"
definition ServerHello_VT_CAPABILITIES :: voffset where [vt]: "ServerHello_VT_CAPABILITIES = 14"
definition ServerHello_VT_CLOCK :: voffset where [vt]: "ServerHello_VT_CLOCK = 16"
definition ServerHello_VT_WEATHER :: voffset where [vt]: "ServerHello_VT_WEATHER = 18"

record 'o ServerHelloArgs =
  ServerHelloArgs_accepted :: bool
  ServerHelloArgs_reason :: "'o option"
  ServerHelloArgs_player_id :: u64
  ServerHelloArgs_server_name :: "'o option"
  ServerHelloArgs_balance_gold :: int
  ServerHelloArgs_capabilities :: "'o option"
  ServerHelloArgs_clock :: "'o option"
  ServerHelloArgs_weather :: "'o option"

definition ServerHelloArgs_default :: "'o ServerHelloArgs" where
  "ServerHelloArgs_default =
     \<lparr>ServerHelloArgs_accepted = False,
      ServerHelloArgs_reason = None,
      ServerHelloArgs_player_id = 0,
      ServerHelloArgs_server_name = None,
      ServerHelloArgs_balance_gold = 0,
      ServerHelloArgs_capabilities = None,
      ServerHelloArgs_clock = None,
      ServerHelloArgs_weather = None\<rparr>"

definition ServerHello_run_verifier :: "field_check list" where [bind_check]:
  "ServerHello_run_verifier =
     [Field ''accepted'' ServerHello_VT_ACCEPTED TyBool False,
      Field ''reason'' ServerHello_VT_REASON TyStr False,
      Field ''player_id'' ServerHello_VT_PLAYER_ID TyU64 False,
      Field ''server_name'' ServerHello_VT_SERVER_NAME TyStr False,
      Field ''balance_gold'' ServerHello_VT_BALANCE_GOLD TyI64 False,
      Field ''capabilities'' ServerHello_VT_CAPABILITIES (TyTable CapabilityManifest_run_verifier) False,
      Field ''clock'' ServerHello_VT_CLOCK (TyTable WorldClock_run_verifier) False,
      Field ''weather'' ServerHello_VT_WEATHER (TyTable WeatherSeed_run_verifier) False]"

definition ServerHelloBuilder_new :: "('b, 'o, 't) runtime \<Rightarrow> ('b, 'o) state" where [bind_create]:
  "ServerHelloBuilder_new rt = rt_start_table rt"

definition ServerHelloBuilder_add_accepted :: "('b, 'o, 't) runtime \<Rightarrow> bool \<Rightarrow> ('b, unit) state" where [bind_create]:
  "ServerHelloBuilder_add_accepted rt v = rt_push_slot rt ServerHello_VT_ACCEPTED (ScBool v) (ScBool False)"

definition ServerHelloBuilder_add_reason :: "('b, 'o, 't) runtime \<Rightarrow> 'o \<Rightarrow> ('b, unit) state" where [bind_create]:
  "ServerHelloBuilder_add_reason rt v = rt_push_slot_always rt ServerHello_VT_REASON (Offset v)"

definition ServerHelloBuilder_add_player_id :: "('b, 'o, 't) runtime \<Rightarrow> u64 \<Rightarrow> ('b, unit) state" where [bind_create]:
  "ServerHelloBuilder_add_player_id rt v = rt_push_slot rt ServerHello_VT_PLAYER_ID (ScU64 v) (ScU64 0)"

definition ServerHelloBuilder_add_server_name :: "('b, 'o, 't) runtime \<Rightarrow> 'o \<Rightarrow> ('b, unit) state" where [bind_create]:
  "ServerHelloBuilder_add_server_name rt v = rt_push_slot_always rt ServerHello_VT_SERVER_NAME (Offset v)"

definition ServerHelloBuilder_add_balance_gold :: "('b, 'o, 't) runtime \<Rightarrow> int \<Rightarrow> ('b, unit) state" where [bind_create]:
  "ServerHelloBuilder_add_balance_gold rt v = rt_push_slot rt ServerHello_VT_BALANCE_GOLD (ScI64 v) (ScI64 0)"

definition ServerHelloBuilder_add_capabilities :: "('b, 'o, 't) runtime \<Rightarrow> 'o \<Rightarrow> ('b, unit) state" where [bind_create]:
  "ServerHelloBuilder_add_capabilities rt v = rt_push_slot_always rt ServerHello_VT_CAPABILITIES (Offset v)"

definition ServerHelloBuilder_add_clock :: "('b, 'o, 't) runtime \<Rightarrow> 'o \<Rightarrow> ('b, unit) state" where [bind_create]:
  "ServerHelloBuilder_add_clock rt v = rt_push_slot_always rt ServerHello_VT_CLOCK (Offset v)"

definition ServerHelloBuilder_add_weather :: "('b, 'o, 't) runtime \<Rightarrow> 'o \<Rightarrow> ('b, unit) state" where [bind_create]:
  "ServerHelloBuilder_add_weather rt v = rt_push_slot_always rt ServerHello_VT_WEATHER (Offset v)"

definition ServerHelloBuilder_finish :: "('b, 'o, 't) runtime \<Rightarrow> 'o \<Rightarrow> ('b, 'o) state" where [bind_create]:
  "ServerHelloBuilder_finish rt start = rt_end_table rt start"

definition ServerHello_create :: "('b, 'o, 't) runtime \<Rightarrow> 'o ServerHelloArgs \<Rightarrow> ('b, 'o) state" where
  "ServerHello_create rt args = do {
     start \<leftarrow> ServerHelloBuilder_new rt;
     ServerHelloBuilder_add_balance_gold rt (ServerHelloArgs_balance_gold args);
     ServerHelloBuilder_add_player_id rt (ServerHelloArgs_player_id args);
     (case ServerHelloArgs_weather args of None \<Rightarrow> State_Monad.return () | Some x \<Rightarrow> ServerHelloBuilder_add_weather rt x);
     (case ServerHelloArgs_clock args of None \<Rightarrow> State_Monad.return () | Some x \<Rightarrow> ServerHelloBuilder_add_clock rt x);
     (case ServerHelloArgs_capabilities args of None \<Rightarrow> State_Monad.return () | Some x \<Rightarrow> ServerHelloBuilder_add_capabilities rt x);
     (case ServerHelloArgs_server_name args of None \<Rightarrow> State_Monad.return () | Some x \<Rightarrow> ServerHelloBuilder_add_server_name rt x);
     (case ServerHelloArgs_reason args of None \<Rightarrow> State_Monad.return () | Some x \<Rightarrow> ServerHelloBuilder_add_reason rt x);
     ServerHelloBuilder_add_accepted rt (ServerHelloArgs_accepted args);
     ServerHelloBuilder_finish rt start
   }"

definition ServerHello_accepted :: "('b, 'o, 't) runtime \<Rightarrow> 't \<Rightarrow> bool option" where [bind_read]:
  "ServerHello_accepted rt t = as_bool (rt_get rt t TyBool ServerHello_VT_ACCEPTED (Some (RScalar (ScBool False))))"

definition ServerHello_reason :: "('b, 'o, 't) runtime \<Rightarrow> 't \<Rightarrow> string option option" where [bind_read]:
  "ServerHello_reason rt t = as_opt r_str (rt_get rt t TyStr ServerHello_VT_REASON None)"

definition ServerHello_player_id :: "('b, 'o, 't) runtime \<Rightarrow> 't \<Rightarrow> u64 option" where [bind_read]:
  "ServerHello_player_id rt t = as_u64 (rt_get rt t TyU64 ServerHello_VT_PLAYER_ID (Some (RScalar (ScU64 0))))"

definition ServerHello_server_name :: "('b, 'o, 't) runtime \<Rightarrow> 't \<Rightarrow> string option option" where [bind_read]:
  "ServerHello_server_name rt t = as_opt r_str (rt_get rt t TyStr ServerHello_VT_SERVER_NAME None)"

definition ServerHello_balance_gold :: "('b, 'o, 't) runtime \<Rightarrow> 't \<Rightarrow> int option" where [bind_read]:
  "ServerHello_balance_gold rt t = as_i64 (rt_get rt t TyI64 ServerHello_VT_BALANCE_GOLD (Some (RScalar (ScI64 0))))"

definition ServerHello_capabilities :: "('b, 'o, 't) runtime \<Rightarrow> 't \<Rightarrow> 't option option" where [bind_read]:
  "ServerHello_capabilities rt t = as_opt r_tab (rt_get rt t (TyTable CapabilityManifest_run_verifier) ServerHello_VT_CAPABILITIES None)"

definition ServerHello_clock :: "('b, 'o, 't) runtime \<Rightarrow> 't \<Rightarrow> 't option option" where [bind_read]:
  "ServerHello_clock rt t = as_opt r_tab (rt_get rt t (TyTable WorldClock_run_verifier) ServerHello_VT_CLOCK None)"

definition ServerHello_weather :: "('b, 'o, 't) runtime \<Rightarrow> 't \<Rightarrow> 't option option" where [bind_read]:
  "ServerHello_weather rt t = as_opt r_tab (rt_get rt t (TyTable WeatherSeed_run_verifier) ServerHello_VT_WEATHER None)"

section \<open>PlayerState\<close>

definition PlayerState_VT_PLAYER_ID :: voffset where [vt]: "PlayerState_VT_PLAYER_ID = 4"
definition PlayerState_VT_POS :: voffset where [vt]: "PlayerState_VT_POS = 6"
definition PlayerState_VT_ROT :: voffset where [vt]: "PlayerState_VT_ROT = 8"
definition PlayerState_VT_ABOARD_BOAT :: voffset where [vt]: "PlayerState_VT_ABOARD_BOAT = 10"
definition PlayerState_VT_T_MS :: voffset where [vt]: "PlayerState_VT_T_MS = 12"

record PlayerStateArgs =
  PlayerStateArgs_player_id :: u64
  PlayerStateArgs_pos :: "bytes option"
  PlayerStateArgs_rot :: "bytes option"
  PlayerStateArgs_aboard_boat :: u64
  PlayerStateArgs_t_ms :: u32

definition PlayerStateArgs_default :: "PlayerStateArgs" where
  "PlayerStateArgs_default =
     \<lparr>PlayerStateArgs_player_id = 0,
      PlayerStateArgs_pos = None,
      PlayerStateArgs_rot = None,
      PlayerStateArgs_aboard_boat = 0,
      PlayerStateArgs_t_ms = 0\<rparr>"

definition PlayerState_run_verifier :: "field_check list" where [bind_check]:
  "PlayerState_run_verifier =
     [Field ''player_id'' PlayerState_VT_PLAYER_ID TyU64 False,
      Field ''pos'' PlayerState_VT_POS Vec3_run_verifier False,
      Field ''rot'' PlayerState_VT_ROT QuatC_run_verifier False,
      Field ''aboard_boat'' PlayerState_VT_ABOARD_BOAT TyU64 False,
      Field ''t_ms'' PlayerState_VT_T_MS TyU32 False]"

definition PlayerStateBuilder_new :: "('b, 'o, 't) runtime \<Rightarrow> ('b, 'o) state" where [bind_create]:
  "PlayerStateBuilder_new rt = rt_start_table rt"

definition PlayerStateBuilder_add_player_id :: "('b, 'o, 't) runtime \<Rightarrow> u64 \<Rightarrow> ('b, unit) state" where [bind_create]:
  "PlayerStateBuilder_add_player_id rt v = rt_push_slot rt PlayerState_VT_PLAYER_ID (ScU64 v) (ScU64 0)"

definition PlayerStateBuilder_add_pos :: "('b, 'o, 't) runtime \<Rightarrow> bytes \<Rightarrow> ('b, unit) state" where [bind_create]:
  "PlayerStateBuilder_add_pos rt v = rt_push_slot_always rt PlayerState_VT_POS (Struct v)"

definition PlayerStateBuilder_add_rot :: "('b, 'o, 't) runtime \<Rightarrow> bytes \<Rightarrow> ('b, unit) state" where [bind_create]:
  "PlayerStateBuilder_add_rot rt v = rt_push_slot_always rt PlayerState_VT_ROT (Struct v)"

definition PlayerStateBuilder_add_aboard_boat :: "('b, 'o, 't) runtime \<Rightarrow> u64 \<Rightarrow> ('b, unit) state" where [bind_create]:
  "PlayerStateBuilder_add_aboard_boat rt v = rt_push_slot rt PlayerState_VT_ABOARD_BOAT (ScU64 v) (ScU64 0)"

definition PlayerStateBuilder_add_t_ms :: "('b, 'o, 't) runtime \<Rightarrow> u32 \<Rightarrow> ('b, unit) state" where [bind_create]:
  "PlayerStateBuilder_add_t_ms rt v = rt_push_slot rt PlayerState_VT_T_MS (ScU32 v) (ScU32 0)"

definition PlayerStateBuilder_finish :: "('b, 'o, 't) runtime \<Rightarrow> 'o \<Rightarrow> ('b, 'o) state" where [bind_create]:
  "PlayerStateBuilder_finish rt start = rt_end_table rt start"

definition PlayerState_create :: "('b, 'o, 't) runtime \<Rightarrow> PlayerStateArgs \<Rightarrow> ('b, 'o) state" where
  "PlayerState_create rt args = do {
     start \<leftarrow> PlayerStateBuilder_new rt;
     PlayerStateBuilder_add_aboard_boat rt (PlayerStateArgs_aboard_boat args);
     PlayerStateBuilder_add_player_id rt (PlayerStateArgs_player_id args);
     PlayerStateBuilder_add_t_ms rt (PlayerStateArgs_t_ms args);
     (case PlayerStateArgs_rot args of None \<Rightarrow> State_Monad.return () | Some x \<Rightarrow> PlayerStateBuilder_add_rot rt x);
     (case PlayerStateArgs_pos args of None \<Rightarrow> State_Monad.return () | Some x \<Rightarrow> PlayerStateBuilder_add_pos rt x);
     PlayerStateBuilder_finish rt start
   }"

definition PlayerState_player_id :: "('b, 'o, 't) runtime \<Rightarrow> 't \<Rightarrow> u64 option" where [bind_read]:
  "PlayerState_player_id rt t = as_u64 (rt_get rt t TyU64 PlayerState_VT_PLAYER_ID (Some (RScalar (ScU64 0))))"

definition PlayerState_pos :: "('b, 'o, 't) runtime \<Rightarrow> 't \<Rightarrow> bytes option option" where [bind_read]:
  "PlayerState_pos rt t = as_opt r_struct (rt_get rt t Vec3_run_verifier PlayerState_VT_POS None)"

definition PlayerState_rot :: "('b, 'o, 't) runtime \<Rightarrow> 't \<Rightarrow> bytes option option" where [bind_read]:
  "PlayerState_rot rt t = as_opt r_struct (rt_get rt t QuatC_run_verifier PlayerState_VT_ROT None)"

definition PlayerState_aboard_boat :: "('b, 'o, 't) runtime \<Rightarrow> 't \<Rightarrow> u64 option" where [bind_read]:
  "PlayerState_aboard_boat rt t = as_u64 (rt_get rt t TyU64 PlayerState_VT_ABOARD_BOAT (Some (RScalar (ScU64 0))))"

definition PlayerState_t_ms :: "('b, 'o, 't) runtime \<Rightarrow> 't \<Rightarrow> u32 option" where [bind_read]:
  "PlayerState_t_ms rt t = as_u32 (rt_get rt t TyU32 PlayerState_VT_T_MS (Some (RScalar (ScU32 0))))"

section \<open>BoatState\<close>

definition BoatState_VT_BOAT_ID :: voffset where [vt]: "BoatState_VT_BOAT_ID = 4"
definition BoatState_VT_OWNER :: voffset where [vt]: "BoatState_VT_OWNER = 6"
definition BoatState_VT_POS :: voffset where [vt]: "BoatState_VT_POS = 8"
definition BoatState_VT_ROT :: voffset where [vt]: "BoatState_VT_ROT = 10"
definition BoatState_VT_VEL :: voffset where [vt]: "BoatState_VT_VEL = 12"
definition BoatState_VT_T_MS :: voffset where [vt]: "BoatState_VT_T_MS = 14"

record BoatStateArgs =
  BoatStateArgs_boat_id :: u64
  BoatStateArgs_owner :: u64
  BoatStateArgs_pos :: "bytes option"
  BoatStateArgs_rot :: "bytes option"
  BoatStateArgs_vel :: "bytes option"
  BoatStateArgs_t_ms :: u32

definition BoatStateArgs_default :: "BoatStateArgs" where
  "BoatStateArgs_default =
     \<lparr>BoatStateArgs_boat_id = 0,
      BoatStateArgs_owner = 0,
      BoatStateArgs_pos = None,
      BoatStateArgs_rot = None,
      BoatStateArgs_vel = None,
      BoatStateArgs_t_ms = 0\<rparr>"

definition BoatState_run_verifier :: "field_check list" where [bind_check]:
  "BoatState_run_verifier =
     [Field ''boat_id'' BoatState_VT_BOAT_ID TyU64 False,
      Field ''owner'' BoatState_VT_OWNER TyU64 False,
      Field ''pos'' BoatState_VT_POS Vec3_run_verifier False,
      Field ''rot'' BoatState_VT_ROT QuatC_run_verifier False,
      Field ''vel'' BoatState_VT_VEL Vec3_run_verifier False,
      Field ''t_ms'' BoatState_VT_T_MS TyU32 False]"

definition BoatStateBuilder_new :: "('b, 'o, 't) runtime \<Rightarrow> ('b, 'o) state" where [bind_create]:
  "BoatStateBuilder_new rt = rt_start_table rt"

definition BoatStateBuilder_add_boat_id :: "('b, 'o, 't) runtime \<Rightarrow> u64 \<Rightarrow> ('b, unit) state" where [bind_create]:
  "BoatStateBuilder_add_boat_id rt v = rt_push_slot rt BoatState_VT_BOAT_ID (ScU64 v) (ScU64 0)"

definition BoatStateBuilder_add_owner :: "('b, 'o, 't) runtime \<Rightarrow> u64 \<Rightarrow> ('b, unit) state" where [bind_create]:
  "BoatStateBuilder_add_owner rt v = rt_push_slot rt BoatState_VT_OWNER (ScU64 v) (ScU64 0)"

definition BoatStateBuilder_add_pos :: "('b, 'o, 't) runtime \<Rightarrow> bytes \<Rightarrow> ('b, unit) state" where [bind_create]:
  "BoatStateBuilder_add_pos rt v = rt_push_slot_always rt BoatState_VT_POS (Struct v)"

definition BoatStateBuilder_add_rot :: "('b, 'o, 't) runtime \<Rightarrow> bytes \<Rightarrow> ('b, unit) state" where [bind_create]:
  "BoatStateBuilder_add_rot rt v = rt_push_slot_always rt BoatState_VT_ROT (Struct v)"

definition BoatStateBuilder_add_vel :: "('b, 'o, 't) runtime \<Rightarrow> bytes \<Rightarrow> ('b, unit) state" where [bind_create]:
  "BoatStateBuilder_add_vel rt v = rt_push_slot_always rt BoatState_VT_VEL (Struct v)"

definition BoatStateBuilder_add_t_ms :: "('b, 'o, 't) runtime \<Rightarrow> u32 \<Rightarrow> ('b, unit) state" where [bind_create]:
  "BoatStateBuilder_add_t_ms rt v = rt_push_slot rt BoatState_VT_T_MS (ScU32 v) (ScU32 0)"

definition BoatStateBuilder_finish :: "('b, 'o, 't) runtime \<Rightarrow> 'o \<Rightarrow> ('b, 'o) state" where [bind_create]:
  "BoatStateBuilder_finish rt start = rt_end_table rt start"

definition BoatState_create :: "('b, 'o, 't) runtime \<Rightarrow> BoatStateArgs \<Rightarrow> ('b, 'o) state" where
  "BoatState_create rt args = do {
     start \<leftarrow> BoatStateBuilder_new rt;
     BoatStateBuilder_add_owner rt (BoatStateArgs_owner args);
     BoatStateBuilder_add_boat_id rt (BoatStateArgs_boat_id args);
     BoatStateBuilder_add_t_ms rt (BoatStateArgs_t_ms args);
     (case BoatStateArgs_vel args of None \<Rightarrow> State_Monad.return () | Some x \<Rightarrow> BoatStateBuilder_add_vel rt x);
     (case BoatStateArgs_rot args of None \<Rightarrow> State_Monad.return () | Some x \<Rightarrow> BoatStateBuilder_add_rot rt x);
     (case BoatStateArgs_pos args of None \<Rightarrow> State_Monad.return () | Some x \<Rightarrow> BoatStateBuilder_add_pos rt x);
     BoatStateBuilder_finish rt start
   }"

definition BoatState_boat_id :: "('b, 'o, 't) runtime \<Rightarrow> 't \<Rightarrow> u64 option" where [bind_read]:
  "BoatState_boat_id rt t = as_u64 (rt_get rt t TyU64 BoatState_VT_BOAT_ID (Some (RScalar (ScU64 0))))"

definition BoatState_owner :: "('b, 'o, 't) runtime \<Rightarrow> 't \<Rightarrow> u64 option" where [bind_read]:
  "BoatState_owner rt t = as_u64 (rt_get rt t TyU64 BoatState_VT_OWNER (Some (RScalar (ScU64 0))))"

definition BoatState_pos :: "('b, 'o, 't) runtime \<Rightarrow> 't \<Rightarrow> bytes option option" where [bind_read]:
  "BoatState_pos rt t = as_opt r_struct (rt_get rt t Vec3_run_verifier BoatState_VT_POS None)"

definition BoatState_rot :: "('b, 'o, 't) runtime \<Rightarrow> 't \<Rightarrow> bytes option option" where [bind_read]:
  "BoatState_rot rt t = as_opt r_struct (rt_get rt t QuatC_run_verifier BoatState_VT_ROT None)"

definition BoatState_vel :: "('b, 'o, 't) runtime \<Rightarrow> 't \<Rightarrow> bytes option option" where [bind_read]:
  "BoatState_vel rt t = as_opt r_struct (rt_get rt t Vec3_run_verifier BoatState_VT_VEL None)"

definition BoatState_t_ms :: "('b, 'o, 't) runtime \<Rightarrow> 't \<Rightarrow> u32 option" where [bind_read]:
  "BoatState_t_ms rt t = as_u32 (rt_get rt t TyU32 BoatState_VT_T_MS (Some (RScalar (ScU32 0))))"

section \<open>ClientState\<close>

definition ClientState_VT_POS :: voffset where [vt]: "ClientState_VT_POS = 4"
definition ClientState_VT_ROT :: voffset where [vt]: "ClientState_VT_ROT = 6"
definition ClientState_VT_VEL :: voffset where [vt]: "ClientState_VT_VEL = 8"
definition ClientState_VT_ABOARD_BOAT :: voffset where [vt]: "ClientState_VT_ABOARD_BOAT = 10"
definition ClientState_VT_T_MS :: voffset where [vt]: "ClientState_VT_T_MS = 12"

record ClientStateArgs =
  ClientStateArgs_pos :: "bytes option"
  ClientStateArgs_rot :: "bytes option"
  ClientStateArgs_vel :: "bytes option"
  ClientStateArgs_aboard_boat :: u64
  ClientStateArgs_t_ms :: u32

definition ClientStateArgs_default :: "ClientStateArgs" where
  "ClientStateArgs_default =
     \<lparr>ClientStateArgs_pos = None,
      ClientStateArgs_rot = None,
      ClientStateArgs_vel = None,
      ClientStateArgs_aboard_boat = 0,
      ClientStateArgs_t_ms = 0\<rparr>"

definition ClientState_run_verifier :: "field_check list" where [bind_check]:
  "ClientState_run_verifier =
     [Field ''pos'' ClientState_VT_POS Vec3_run_verifier False,
      Field ''rot'' ClientState_VT_ROT QuatC_run_verifier False,
      Field ''vel'' ClientState_VT_VEL Vec3_run_verifier False,
      Field ''aboard_boat'' ClientState_VT_ABOARD_BOAT TyU64 False,
      Field ''t_ms'' ClientState_VT_T_MS TyU32 False]"

definition ClientStateBuilder_new :: "('b, 'o, 't) runtime \<Rightarrow> ('b, 'o) state" where [bind_create]:
  "ClientStateBuilder_new rt = rt_start_table rt"

definition ClientStateBuilder_add_pos :: "('b, 'o, 't) runtime \<Rightarrow> bytes \<Rightarrow> ('b, unit) state" where [bind_create]:
  "ClientStateBuilder_add_pos rt v = rt_push_slot_always rt ClientState_VT_POS (Struct v)"

definition ClientStateBuilder_add_rot :: "('b, 'o, 't) runtime \<Rightarrow> bytes \<Rightarrow> ('b, unit) state" where [bind_create]:
  "ClientStateBuilder_add_rot rt v = rt_push_slot_always rt ClientState_VT_ROT (Struct v)"

definition ClientStateBuilder_add_vel :: "('b, 'o, 't) runtime \<Rightarrow> bytes \<Rightarrow> ('b, unit) state" where [bind_create]:
  "ClientStateBuilder_add_vel rt v = rt_push_slot_always rt ClientState_VT_VEL (Struct v)"

definition ClientStateBuilder_add_aboard_boat :: "('b, 'o, 't) runtime \<Rightarrow> u64 \<Rightarrow> ('b, unit) state" where [bind_create]:
  "ClientStateBuilder_add_aboard_boat rt v = rt_push_slot rt ClientState_VT_ABOARD_BOAT (ScU64 v) (ScU64 0)"

definition ClientStateBuilder_add_t_ms :: "('b, 'o, 't) runtime \<Rightarrow> u32 \<Rightarrow> ('b, unit) state" where [bind_create]:
  "ClientStateBuilder_add_t_ms rt v = rt_push_slot rt ClientState_VT_T_MS (ScU32 v) (ScU32 0)"

definition ClientStateBuilder_finish :: "('b, 'o, 't) runtime \<Rightarrow> 'o \<Rightarrow> ('b, 'o) state" where [bind_create]:
  "ClientStateBuilder_finish rt start = rt_end_table rt start"

definition ClientState_create :: "('b, 'o, 't) runtime \<Rightarrow> ClientStateArgs \<Rightarrow> ('b, 'o) state" where
  "ClientState_create rt args = do {
     start \<leftarrow> ClientStateBuilder_new rt;
     ClientStateBuilder_add_aboard_boat rt (ClientStateArgs_aboard_boat args);
     ClientStateBuilder_add_t_ms rt (ClientStateArgs_t_ms args);
     (case ClientStateArgs_vel args of None \<Rightarrow> State_Monad.return () | Some x \<Rightarrow> ClientStateBuilder_add_vel rt x);
     (case ClientStateArgs_rot args of None \<Rightarrow> State_Monad.return () | Some x \<Rightarrow> ClientStateBuilder_add_rot rt x);
     (case ClientStateArgs_pos args of None \<Rightarrow> State_Monad.return () | Some x \<Rightarrow> ClientStateBuilder_add_pos rt x);
     ClientStateBuilder_finish rt start
   }"

definition ClientState_pos :: "('b, 'o, 't) runtime \<Rightarrow> 't \<Rightarrow> bytes option option" where [bind_read]:
  "ClientState_pos rt t = as_opt r_struct (rt_get rt t Vec3_run_verifier ClientState_VT_POS None)"

definition ClientState_rot :: "('b, 'o, 't) runtime \<Rightarrow> 't \<Rightarrow> bytes option option" where [bind_read]:
  "ClientState_rot rt t = as_opt r_struct (rt_get rt t QuatC_run_verifier ClientState_VT_ROT None)"

definition ClientState_vel :: "('b, 'o, 't) runtime \<Rightarrow> 't \<Rightarrow> bytes option option" where [bind_read]:
  "ClientState_vel rt t = as_opt r_struct (rt_get rt t Vec3_run_verifier ClientState_VT_VEL None)"

definition ClientState_aboard_boat :: "('b, 'o, 't) runtime \<Rightarrow> 't \<Rightarrow> u64 option" where [bind_read]:
  "ClientState_aboard_boat rt t = as_u64 (rt_get rt t TyU64 ClientState_VT_ABOARD_BOAT (Some (RScalar (ScU64 0))))"

definition ClientState_t_ms :: "('b, 'o, 't) runtime \<Rightarrow> 't \<Rightarrow> u32 option" where [bind_read]:
  "ClientState_t_ms rt t = as_u32 (rt_get rt t TyU32 ClientState_VT_T_MS (Some (RScalar (ScU32 0))))"

section \<open>SnapshotDelta\<close>

definition SnapshotDelta_VT_SERVER_TICK :: voffset where [vt]: "SnapshotDelta_VT_SERVER_TICK = 4"
definition SnapshotDelta_VT_PLAYERS :: voffset where [vt]: "SnapshotDelta_VT_PLAYERS = 6"
definition SnapshotDelta_VT_BOATS :: voffset where [vt]: "SnapshotDelta_VT_BOATS = 8"

record 'o SnapshotDeltaArgs =
  SnapshotDeltaArgs_server_tick :: u32
  SnapshotDeltaArgs_players :: "'o option"
  SnapshotDeltaArgs_boats :: "'o option"

definition SnapshotDeltaArgs_default :: "'o SnapshotDeltaArgs" where
  "SnapshotDeltaArgs_default =
     \<lparr>SnapshotDeltaArgs_server_tick = 0,
      SnapshotDeltaArgs_players = None,
      SnapshotDeltaArgs_boats = None\<rparr>"

definition SnapshotDelta_run_verifier :: "field_check list" where [bind_check]:
  "SnapshotDelta_run_verifier =
     [Field ''server_tick'' SnapshotDelta_VT_SERVER_TICK TyU32 False,
      Field ''players'' SnapshotDelta_VT_PLAYERS (TyVec (TyTable PlayerState_run_verifier)) False,
      Field ''boats'' SnapshotDelta_VT_BOATS (TyVec (TyTable BoatState_run_verifier)) False]"

definition SnapshotDeltaBuilder_new :: "('b, 'o, 't) runtime \<Rightarrow> ('b, 'o) state" where [bind_create]:
  "SnapshotDeltaBuilder_new rt = rt_start_table rt"

definition SnapshotDeltaBuilder_add_server_tick :: "('b, 'o, 't) runtime \<Rightarrow> u32 \<Rightarrow> ('b, unit) state" where [bind_create]:
  "SnapshotDeltaBuilder_add_server_tick rt v = rt_push_slot rt SnapshotDelta_VT_SERVER_TICK (ScU32 v) (ScU32 0)"

definition SnapshotDeltaBuilder_add_players :: "('b, 'o, 't) runtime \<Rightarrow> 'o \<Rightarrow> ('b, unit) state" where [bind_create]:
  "SnapshotDeltaBuilder_add_players rt v = rt_push_slot_always rt SnapshotDelta_VT_PLAYERS (Offset v)"

definition SnapshotDeltaBuilder_add_boats :: "('b, 'o, 't) runtime \<Rightarrow> 'o \<Rightarrow> ('b, unit) state" where [bind_create]:
  "SnapshotDeltaBuilder_add_boats rt v = rt_push_slot_always rt SnapshotDelta_VT_BOATS (Offset v)"

definition SnapshotDeltaBuilder_finish :: "('b, 'o, 't) runtime \<Rightarrow> 'o \<Rightarrow> ('b, 'o) state" where [bind_create]:
  "SnapshotDeltaBuilder_finish rt start = rt_end_table rt start"

definition SnapshotDelta_create :: "('b, 'o, 't) runtime \<Rightarrow> 'o SnapshotDeltaArgs \<Rightarrow> ('b, 'o) state" where
  "SnapshotDelta_create rt args = do {
     start \<leftarrow> SnapshotDeltaBuilder_new rt;
     (case SnapshotDeltaArgs_boats args of None \<Rightarrow> State_Monad.return () | Some x \<Rightarrow> SnapshotDeltaBuilder_add_boats rt x);
     (case SnapshotDeltaArgs_players args of None \<Rightarrow> State_Monad.return () | Some x \<Rightarrow> SnapshotDeltaBuilder_add_players rt x);
     SnapshotDeltaBuilder_add_server_tick rt (SnapshotDeltaArgs_server_tick args);
     SnapshotDeltaBuilder_finish rt start
   }"

definition SnapshotDelta_server_tick :: "('b, 'o, 't) runtime \<Rightarrow> 't \<Rightarrow> u32 option" where [bind_read]:
  "SnapshotDelta_server_tick rt t = as_u32 (rt_get rt t TyU32 SnapshotDelta_VT_SERVER_TICK (Some (RScalar (ScU32 0))))"

definition SnapshotDelta_players :: "('b, 'o, 't) runtime \<Rightarrow> 't \<Rightarrow> 't list option option" where [bind_read]:
  "SnapshotDelta_players rt t = as_opt (r_vec r_tab) (rt_get rt t (TyVec (TyTable PlayerState_run_verifier)) SnapshotDelta_VT_PLAYERS None)"

definition SnapshotDelta_boats :: "('b, 'o, 't) runtime \<Rightarrow> 't \<Rightarrow> 't list option option" where [bind_read]:
  "SnapshotDelta_boats rt t = as_opt (r_vec r_tab) (rt_get rt t (TyVec (TyTable BoatState_run_verifier)) SnapshotDelta_VT_BOATS None)"

section \<open>MoorageRecord\<close>

definition MoorageRecord_VT_BOAT_ID :: voffset where [vt]: "MoorageRecord_VT_BOAT_ID = 4"
definition MoorageRecord_VT_OWNER :: voffset where [vt]: "MoorageRecord_VT_OWNER = 6"
definition MoorageRecord_VT_CELL :: voffset where [vt]: "MoorageRecord_VT_CELL = 8"
definition MoorageRecord_VT_POS :: voffset where [vt]: "MoorageRecord_VT_POS = 10"
definition MoorageRecord_VT_ROT :: voffset where [vt]: "MoorageRecord_VT_ROT = 12"
definition MoorageRecord_VT_NAME :: voffset where [vt]: "MoorageRecord_VT_NAME = 14"
definition MoorageRecord_VT_CREATED_AT :: voffset where [vt]: "MoorageRecord_VT_CREATED_AT = 16"

record 'o MoorageRecordArgs =
  MoorageRecordArgs_boat_id :: u64
  MoorageRecordArgs_owner :: u64
  MoorageRecordArgs_cell :: "bytes option"
  MoorageRecordArgs_pos :: "bytes option"
  MoorageRecordArgs_rot :: "bytes option"
  MoorageRecordArgs_name :: "'o option"
  MoorageRecordArgs_created_at :: u64

definition MoorageRecordArgs_default :: "'o MoorageRecordArgs" where
  "MoorageRecordArgs_default =
     \<lparr>MoorageRecordArgs_boat_id = 0,
      MoorageRecordArgs_owner = 0,
      MoorageRecordArgs_cell = None,
      MoorageRecordArgs_pos = None,
      MoorageRecordArgs_rot = None,
      MoorageRecordArgs_name = None,
      MoorageRecordArgs_created_at = 0\<rparr>"

definition MoorageRecord_run_verifier :: "field_check list" where [bind_check]:
  "MoorageRecord_run_verifier =
     [Field ''boat_id'' MoorageRecord_VT_BOAT_ID TyU64 False,
      Field ''owner'' MoorageRecord_VT_OWNER TyU64 False,
      Field ''cell'' MoorageRecord_VT_CELL GridCell_run_verifier False,
      Field ''pos'' MoorageRecord_VT_POS Vec3_run_verifier False,
      Field ''rot'' MoorageRecord_VT_ROT QuatC_run_verifier False,
      Field ''name'' MoorageRecord_VT_NAME TyStr False,
      Field ''created_at'' MoorageRecord_VT_CREATED_AT TyU64 False]"

definition MoorageRecordBuilder_new :: "('b, 'o, 't) runtime \<Rightarrow> ('b, 'o) state" where [bind_create]:
  "MoorageRecordBuilder_new rt = rt_start_table rt"

definition MoorageRecordBuilder_add_boat_id :: "('b, 'o, 't) runtime \<Rightarrow> u64 \<Rightarrow> ('b, unit) state" where [bind_create]:
  "MoorageRecordBuilder_add_boat_id rt v = rt_push_slot rt MoorageRecord_VT_BOAT_ID (ScU64 v) (ScU64 0)"

definition MoorageRecordBuilder_add_owner :: "('b, 'o, 't) runtime \<Rightarrow> u64 \<Rightarrow> ('b, unit) state" where [bind_create]:
  "MoorageRecordBuilder_add_owner rt v = rt_push_slot rt MoorageRecord_VT_OWNER (ScU64 v) (ScU64 0)"

definition MoorageRecordBuilder_add_cell :: "('b, 'o, 't) runtime \<Rightarrow> bytes \<Rightarrow> ('b, unit) state" where [bind_create]:
  "MoorageRecordBuilder_add_cell rt v = rt_push_slot_always rt MoorageRecord_VT_CELL (Struct v)"

definition MoorageRecordBuilder_add_pos :: "('b, 'o, 't) runtime \<Rightarrow> bytes \<Rightarrow> ('b, unit) state" where [bind_create]:
  "MoorageRecordBuilder_add_pos rt v = rt_push_slot_always rt MoorageRecord_VT_POS (Struct v)"

definition MoorageRecordBuilder_add_rot :: "('b, 'o, 't) runtime \<Rightarrow> bytes \<Rightarrow> ('b, unit) state" where [bind_create]:
  "MoorageRecordBuilder_add_rot rt v = rt_push_slot_always rt MoorageRecord_VT_ROT (Struct v)"

definition MoorageRecordBuilder_add_name :: "('b, 'o, 't) runtime \<Rightarrow> 'o \<Rightarrow> ('b, unit) state" where [bind_create]:
  "MoorageRecordBuilder_add_name rt v = rt_push_slot_always rt MoorageRecord_VT_NAME (Offset v)"

definition MoorageRecordBuilder_add_created_at :: "('b, 'o, 't) runtime \<Rightarrow> u64 \<Rightarrow> ('b, unit) state" where [bind_create]:
  "MoorageRecordBuilder_add_created_at rt v = rt_push_slot rt MoorageRecord_VT_CREATED_AT (ScU64 v) (ScU64 0)"

definition MoorageRecordBuilder_finish :: "('b, 'o, 't) runtime \<Rightarrow> 'o \<Rightarrow> ('b, 'o) state" where [bind_create]:
  "MoorageRecordBuilder_finish rt start = rt_end_table rt start"

definition MoorageRecord_create :: "('b, 'o, 't) runtime \<Rightarrow> 'o MoorageRecordArgs \<Rightarrow> ('b, 'o) state" where
  "MoorageRecord_create rt args = do {
     start \<leftarrow> MoorageRecordBuilder_new rt;
     MoorageRecordBuilder_add_created_at rt (MoorageRecordArgs_created_at args);
     MoorageRecordBuilder_add_owner rt (MoorageRecordArgs_owner args);
     MoorageRecordBuilder_add_boat_id rt (MoorageRecordArgs_boat_id args);
     (case MoorageRecordArgs_name args of None \<Rightarrow> State_Monad.return () | Some x \<Rightarrow> MoorageRecordBuilder_add_name rt x);
     (case MoorageRecordArgs_rot args of None \<Rightarrow> State_Monad.return () | Some x \<Rightarrow> MoorageRecordBuilder_add_rot rt x);
     (case MoorageRecordArgs_pos args of None \<Rightarrow> State_Monad.return () | Some x \<Rightarrow> MoorageRecordBuilder_add_pos rt x);
     (case MoorageRecordArgs_cell args of None \<Rightarrow> State_Monad.return () | Some x \<Rightarrow> MoorageRecordBuilder_add_cell rt x);
     MoorageRecordBuilder_finish rt start
   }"

definition MoorageRecord_boat_id :: "('b, 'o, 't) runtime \<Rightarrow> 't \<Rightarrow> u64 option" where [bind_read]:
  "MoorageRecord_boat_id rt t = as_u64 (rt_get rt t TyU64 MoorageRecord_VT_BOAT_ID (Some (RScalar (ScU64 0))))"

definition MoorageRecord_owner :: "('b, 'o, 't) runtime \<Rightarrow> 't \<Rightarrow> u64 option" where [bind_read]:
  "MoorageRecord_owner rt t = as_u64 (rt_get rt t TyU64 MoorageRecord_VT_OWNER (Some (RScalar (ScU64 0))))"

definition MoorageRecord_cell :: "('b, 'o, 't) runtime \<Rightarrow> 't \<Rightarrow> bytes option option" where [bind_read]:
  "MoorageRecord_cell rt t = as_opt r_struct (rt_get rt t GridCell_run_verifier MoorageRecord_VT_CELL None)"

definition MoorageRecord_pos :: "('b, 'o, 't) runtime \<Rightarrow> 't \<Rightarrow> bytes option option" where [bind_read]:
  "MoorageRecord_pos rt t = as_opt r_struct (rt_get rt t Vec3_run_verifier MoorageRecord_VT_POS None)"

definition MoorageRecord_rot :: "('b, 'o, 't) runtime \<Rightarrow> 't \<Rightarrow> bytes option option" where [bind_read]:
  "MoorageRecord_rot rt t = as_opt r_struct (rt_get rt t QuatC_run_verifier MoorageRecord_VT_ROT None)"

definition MoorageRecord_name :: "('b, 'o, 't) runtime \<Rightarrow> 't \<Rightarrow> string option option" where [bind_read]:
  "MoorageRecord_name rt t = as_opt r_str (rt_get rt t TyStr MoorageRecord_VT_NAME None)"

definition MoorageRecord_created_at :: "('b, 'o, 't) runtime \<Rightarrow> 't \<Rightarrow> u64 option" where [bind_read]:
  "MoorageRecord_created_at rt t = as_u64 (rt_get rt t TyU64 MoorageRecord_VT_CREATED_AT (Some (RScalar (ScU64 0))))"

section \<open>What \<open>create\<close> pushes\<close>

lemma run_op_opt:
  "(case vo of None \<Rightarrow> State_Monad.return () | Some x \<Rightarrow> rt_push_slot_always rt k (Offset x)) = run_op rt (PushOpt k (map_option Offset vo))"
  "(case so of None \<Rightarrow> State_Monad.return () | Some x \<Rightarrow> rt_push_slot_always rt k (Struct x)) = run_op rt (PushOpt k (map_option Struct so))"
  by (cases vo; simp) (cases so; simp)

lemma WorldClock_create_prog:
  "WorldClock_create rt args = table_prog rt
     [PushSlot WorldClock_VT_MOON_PHASE (ScF32 (WorldClockArgs_moon_phase args)) (ScF32 0),
      PushSlot WorldClock_VT_TIME_OF_DAY (ScF32 (WorldClockArgs_time_of_day args)) (ScF32 0),
      PushSlot WorldClock_VT_DAY (ScU32 (WorldClockArgs_day args)) (ScU32 0)]"
  unfolding WorldClock_create_def table_prog_def bind_create run_op_opt by simp

lemma WeatherSeed_create_prog:
  "WeatherSeed_create rt args = table_prog rt
     [PushSlot WeatherSeed_VT_SEED (ScU64 (WeatherSeedArgs_seed args)) (ScU64 0),
      PushSlot WeatherSeed_VT_EPOCH_DAY (ScU32 (WeatherSeedArgs_epoch_day args)) (ScU32 0)]"
  unfolding WeatherSeed_create_def table_prog_def bind_create run_op_opt by simp

lemma CapabilityManifest_create_prog:
  "CapabilityManifest_create rt args = table_prog rt
     [PushSlot CapabilityManifest_VT_CELL_SIZE_M (ScF32 (CapabilityManifestArgs_cell_size_m args)) (ScF32 0),
      PushOpt CapabilityManifest_VT_FEATURES (map_option Offset (CapabilityManifestArgs_features args)),
      PushSlot CapabilityManifest_VT_PROTOCOL_VERSION (ScU16 (CapabilityManifestArgs_protocol_version args)) (ScU16 0),
      PushSlot CapabilityManifest_VT_AOI_RADIUS_CELLS (ScU8 (CapabilityManifestArgs_aoi_radius_cells args)) (ScU8 0),
      PushSlot CapabilityManifest_VT_SNAPSHOT_HZ (ScU8 (CapabilityManifestArgs_snapshot_hz args)) (ScU8 0),
      PushSlot CapabilityManifest_VT_TICK_HZ (ScU8 (CapabilityManifestArgs_tick_hz args)) (ScU8 0)]"
  unfolding CapabilityManifest_create_def table_prog_def bind_create run_op_opt by simp

lemma ClientHello_create_prog:
  "ClientHello_create rt args = table_prog rt
     [PushOpt ClientHello_VT_API_SURFACE_HASH (map_option Offset (ClientHelloArgs_api_surface_hash args)),
      PushOpt ClientHello_VT_MOD_VERSION (map_option Offset (ClientHelloArgs_mod_version args)),
      PushOpt ClientHello_VT_GAME_BUILD (map_option Offset (ClientHelloArgs_game_build args)),
      PushOpt ClientHello_VT_TOKEN (map_option Offset (ClientHelloArgs_token args)),
      PushOpt ClientHello_VT_DISPLAY_NAME (map_option Offset (ClientHelloArgs_display_name args)),
      PushSlot ClientHello_VT_PROTOCOL_VERSION (ScU16 (ClientHelloArgs_protocol_version args)) (ScU16 0)]"
  unfolding ClientHello_create_def table_prog_def bind_create run_op_opt by simp

lemma ServerHello_create_prog:
  "ServerHello_create rt args = table_prog rt
     [PushSlot ServerHello_VT_BALANCE_GOLD (ScI64 (ServerHelloArgs_balance_gold args)) (ScI64 0),
      PushSlot ServerHello_VT_PLAYER_ID (ScU64 (ServerHelloArgs_player_id args)) (ScU64 0),
      PushOpt ServerHello_VT_WEATHER (map_option Offset (ServerHelloArgs_weather args)),
      PushOpt ServerHello_VT_CLOCK (map_option Offset (ServerHelloArgs_clock args)),
      PushOpt ServerHello_VT_CAPABILITIES (map_option Offset (ServerHelloArgs_capabilities args)),
      PushOpt ServerHello_VT_SERVER_NAME (map_option Offset (ServerHelloArgs_server_name args)),
      PushOpt ServerHello_VT_REASON (map_option Offset (ServerHelloArgs_reason args)),
      PushSlot ServerHello_VT_ACCEPTED (ScBool (ServerHelloArgs_accepted args)) (ScBool False)]"
  unfolding ServerHello_create_def table_prog_def bind_create run_op_opt by simp

lemma PlayerState_create_prog:
  "PlayerState_create rt args = table_prog rt
     [PushSlot PlayerState_VT_ABOARD_BOAT (ScU64 (PlayerStateArgs_aboard_boat args)) (ScU64 0),
      PushSlot PlayerState_VT_PLAYER_ID (ScU64 (PlayerStateArgs_player_id args)) (ScU64 0),
      PushSlot PlayerState_VT_T_MS (ScU32 (PlayerStateArgs_t_ms args)) (ScU32 0),
      PushOpt PlayerState_VT_ROT (map_option Struct (PlayerStateArgs_rot args)),
      PushOpt PlayerState_VT_POS (map_option Struct (PlayerStateArgs_pos args))]"
  unfolding PlayerState_create_def table_prog_def bind_create run_op_opt by simp

lemma BoatState_create_prog:
  "BoatState_create rt args = table_prog rt
     [PushSlot BoatState_VT_OWNER (ScU64 (BoatStateArgs_owner args)) (ScU64 0),
      PushSlot BoatState_VT_BOAT_ID (ScU64 (BoatStateArgs_boat_id args)) (ScU64 0),
      PushSlot BoatState_VT_T_MS (ScU32 (BoatStateArgs_t_ms args)) (ScU32 0),
      PushOpt BoatState_VT_VEL (map_option Struct (BoatStateArgs_vel args)),
      PushOpt BoatState_VT_ROT (map_option Struct (BoatStateArgs_rot args)),
      PushOpt BoatState_VT_POS (map_option Struct (BoatStateArgs_pos args))]"
  unfolding BoatState_create_def table_prog_def bind_create run_op_opt by simp

lemma ClientState_create_prog:
  "ClientState_create rt args = table_prog rt
     [PushSlot ClientState_VT_ABOARD_BOAT (ScU64 (ClientStateArgs_aboard_boat args)) (ScU64 0),
      PushSlot ClientState_VT_T_MS (ScU32 (ClientStateArgs_t_ms args)) (ScU32 0),
      PushOpt ClientState_VT_VEL (map_option Struct (ClientStateArgs_vel args)),
      PushOpt ClientState_VT_ROT (map_option Struct (ClientStateArgs_rot args)),
      PushOpt ClientState_VT_POS (map_option Struct (ClientStateArgs_pos args))]"
  unfolding ClientState_create_def table_prog_def bind_create run_op_opt by simp

lemma SnapshotDelta_create_prog:
  "SnapshotDelta_create rt args = table_prog rt
     [PushOpt SnapshotDelta_VT_BOATS (map_option Offset (SnapshotDeltaArgs_boats args)),
      PushOpt SnapshotDelta_VT_PLAYERS (map_option Offset (SnapshotDeltaArgs_players args)),
      PushSlot SnapshotDelta_VT_SERVER_TICK (ScU32 (SnapshotDeltaArgs_server_tick args)) (ScU32 0)]"
  unfolding SnapshotDelta_create_def table_prog_def bind_create run_op_opt by simp

lemma MoorageRecord_create_prog:
  "MoorageRecord_create rt args = table_prog rt
     [PushSlot MoorageRecord_VT_CREATED_AT (ScU64 (MoorageRecordArgs_created_at args)) (ScU64 0),
      PushSlot MoorageRecord_VT_OWNER (ScU64 (MoorageRecordArgs_owner args)) (ScU64 0),
      PushSlot MoorageRecord_VT_BOAT_ID (ScU64 (MoorageRecordArgs_boat_id args)) (ScU64 0),
      PushOpt MoorageRecord_VT_NAME (map_option Offset (MoorageRecordArgs_name args)),
      PushOpt MoorageRecord_VT_ROT (map_option Struct (MoorageRecordArgs_rot args)),
      PushOpt MoorageRecord_VT_POS (map_option Struct (MoorageRecordArgs_pos args)),
      PushOpt MoorageRecord_VT_CELL (map_option Struct (MoorageRecordArgs_cell args))]"
  unfolding MoorageRecord_create_def table_prog_def bind_create run_op_opt by simp

end
