(* ===== verification/Bindings_Message.thy ===== *)
theory Bindings_Message
  imports Bindings_State
begin

text \<open>
  The generated tables of \<open>envelope_generated.rs\<close>, lines 2311 to 4342: the requests and
  replies, chat and the envelope, laid out as in \<open>Bindings_State\<close>, then the payload accessors of
  the envelope and the functions that read and finish a buffer.
\<close>

section \<open>MoorRequest\<close>

definition MoorRequest_VT_POS :: voffset where [vt]: "MoorRequest_VT_POS = 4"
definition MoorRequest_VT_ROT :: voffset where [vt]: "MoorRequest_VT_ROT = 6"
definition MoorRequest_VT_NAME :: voffset where [vt]: "MoorRequest_VT_NAME = 8"

record 'o MoorRequestArgs =
  MoorRequestArgs_pos :: "bytes option"
  MoorRequestArgs_rot :: "bytes option"
  MoorRequestArgs_name :: "'o option"

definition MoorRequestArgs_default :: "'o MoorRequestArgs" where
  "MoorRequestArgs_default =
     \<lparr>MoorRequestArgs_pos = None,
      MoorRequestArgs_rot = None,
      MoorRequestArgs_name = None\<rparr>"

definition MoorRequest_run_verifier :: "field_check list" where [bind_check]:
  "MoorRequest_run_verifier =
     [Field ''pos'' MoorRequest_VT_POS Vec3_run_verifier False,
      Field ''rot'' MoorRequest_VT_ROT QuatC_run_verifier False,
      Field ''name'' MoorRequest_VT_NAME TyStr False]"

definition MoorRequestBuilder_new :: "('b, 'o, 't) runtime \<Rightarrow> ('b, 'o) state" where [bind_create]:
  "MoorRequestBuilder_new rt = rt_start_table rt"

definition MoorRequestBuilder_add_pos :: "('b, 'o, 't) runtime \<Rightarrow> bytes \<Rightarrow> ('b, unit) state" where [bind_create]:
  "MoorRequestBuilder_add_pos rt v = rt_push_slot_always rt MoorRequest_VT_POS (Struct v)"

definition MoorRequestBuilder_add_rot :: "('b, 'o, 't) runtime \<Rightarrow> bytes \<Rightarrow> ('b, unit) state" where [bind_create]:
  "MoorRequestBuilder_add_rot rt v = rt_push_slot_always rt MoorRequest_VT_ROT (Struct v)"

definition MoorRequestBuilder_add_name :: "('b, 'o, 't) runtime \<Rightarrow> 'o \<Rightarrow> ('b, unit) state" where [bind_create]:
  "MoorRequestBuilder_add_name rt v = rt_push_slot_always rt MoorRequest_VT_NAME (Offset v)"

definition MoorRequestBuilder_finish :: "('b, 'o, 't) runtime \<Rightarrow> 'o \<Rightarrow> ('b, 'o) state" where [bind_create]:
  "MoorRequestBuilder_finish rt start = rt_end_table rt start"

definition MoorRequest_create :: "('b, 'o, 't) runtime \<Rightarrow> 'o MoorRequestArgs \<Rightarrow> ('b, 'o) state" where
  "MoorRequest_create rt args = do {
     start \<leftarrow> MoorRequestBuilder_new rt;
     (case MoorRequestArgs_name args of None \<Rightarrow> State_Monad.return () | Some x \<Rightarrow> MoorRequestBuilder_add_name rt x);
     (case MoorRequestArgs_rot args of None \<Rightarrow> State_Monad.return () | Some x \<Rightarrow> MoorRequestBuilder_add_rot rt x);
     (case MoorRequestArgs_pos args of None \<Rightarrow> State_Monad.return () | Some x \<Rightarrow> MoorRequestBuilder_add_pos rt x);
     MoorRequestBuilder_finish rt start
   }"

definition MoorRequest_pos :: "('b, 'o, 't) runtime \<Rightarrow> 't \<Rightarrow> bytes option option" where [bind_read]:
  "MoorRequest_pos rt t = as_opt r_struct (rt_get rt t Vec3_run_verifier MoorRequest_VT_POS None)"

definition MoorRequest_rot :: "('b, 'o, 't) runtime \<Rightarrow> 't \<Rightarrow> bytes option option" where [bind_read]:
  "MoorRequest_rot rt t = as_opt r_struct (rt_get rt t QuatC_run_verifier MoorRequest_VT_ROT None)"

definition MoorRequest_name :: "('b, 'o, 't) runtime \<Rightarrow> 't \<Rightarrow> string option option" where [bind_read]:
  "MoorRequest_name rt t = as_opt r_str (rt_get rt t TyStr MoorRequest_VT_NAME None)"

section \<open>MoorAck\<close>

definition MoorAck_VT_ACCEPTED :: voffset where [vt]: "MoorAck_VT_ACCEPTED = 4"
definition MoorAck_VT_RECORD :: voffset where [vt]: "MoorAck_VT_RECORD = 6"
definition MoorAck_VT_REASON :: voffset where [vt]: "MoorAck_VT_REASON = 8"

record 'o MoorAckArgs =
  MoorAckArgs_accepted :: bool
  MoorAckArgs_record :: "'o option"
  MoorAckArgs_reason :: "'o option"

definition MoorAckArgs_default :: "'o MoorAckArgs" where
  "MoorAckArgs_default =
     \<lparr>MoorAckArgs_accepted = False,
      MoorAckArgs_record = None,
      MoorAckArgs_reason = None\<rparr>"

definition MoorAck_run_verifier :: "field_check list" where [bind_check]:
  "MoorAck_run_verifier =
     [Field ''accepted'' MoorAck_VT_ACCEPTED TyBool False,
      Field ''record'' MoorAck_VT_RECORD (TyTable MoorageRecord_run_verifier) False,
      Field ''reason'' MoorAck_VT_REASON TyStr False]"

definition MoorAckBuilder_new :: "('b, 'o, 't) runtime \<Rightarrow> ('b, 'o) state" where [bind_create]:
  "MoorAckBuilder_new rt = rt_start_table rt"

definition MoorAckBuilder_add_accepted :: "('b, 'o, 't) runtime \<Rightarrow> bool \<Rightarrow> ('b, unit) state" where [bind_create]:
  "MoorAckBuilder_add_accepted rt v = rt_push_slot rt MoorAck_VT_ACCEPTED (ScBool v) (ScBool False)"

definition MoorAckBuilder_add_record :: "('b, 'o, 't) runtime \<Rightarrow> 'o \<Rightarrow> ('b, unit) state" where [bind_create]:
  "MoorAckBuilder_add_record rt v = rt_push_slot_always rt MoorAck_VT_RECORD (Offset v)"

definition MoorAckBuilder_add_reason :: "('b, 'o, 't) runtime \<Rightarrow> 'o \<Rightarrow> ('b, unit) state" where [bind_create]:
  "MoorAckBuilder_add_reason rt v = rt_push_slot_always rt MoorAck_VT_REASON (Offset v)"

definition MoorAckBuilder_finish :: "('b, 'o, 't) runtime \<Rightarrow> 'o \<Rightarrow> ('b, 'o) state" where [bind_create]:
  "MoorAckBuilder_finish rt start = rt_end_table rt start"

definition MoorAck_create :: "('b, 'o, 't) runtime \<Rightarrow> 'o MoorAckArgs \<Rightarrow> ('b, 'o) state" where
  "MoorAck_create rt args = do {
     start \<leftarrow> MoorAckBuilder_new rt;
     (case MoorAckArgs_reason args of None \<Rightarrow> State_Monad.return () | Some x \<Rightarrow> MoorAckBuilder_add_reason rt x);
     (case MoorAckArgs_record args of None \<Rightarrow> State_Monad.return () | Some x \<Rightarrow> MoorAckBuilder_add_record rt x);
     MoorAckBuilder_add_accepted rt (MoorAckArgs_accepted args);
     MoorAckBuilder_finish rt start
   }"

definition MoorAck_accepted :: "('b, 'o, 't) runtime \<Rightarrow> 't \<Rightarrow> bool option" where [bind_read]:
  "MoorAck_accepted rt t = as_bool (rt_get rt t TyBool MoorAck_VT_ACCEPTED (Some (RScalar (ScBool False))))"

definition MoorAck_record :: "('b, 'o, 't) runtime \<Rightarrow> 't \<Rightarrow> 't option option" where [bind_read]:
  "MoorAck_record rt t = as_opt r_tab (rt_get rt t (TyTable MoorageRecord_run_verifier) MoorAck_VT_RECORD None)"

definition MoorAck_reason :: "('b, 'o, 't) runtime \<Rightarrow> 't \<Rightarrow> string option option" where [bind_read]:
  "MoorAck_reason rt t = as_opt r_str (rt_get rt t TyStr MoorAck_VT_REASON None)"

section \<open>AoiUpdate\<close>

definition AoiUpdate_VT_ADDED :: voffset where [vt]: "AoiUpdate_VT_ADDED = 4"
definition AoiUpdate_VT_REMOVED :: voffset where [vt]: "AoiUpdate_VT_REMOVED = 6"

record 'o AoiUpdateArgs =
  AoiUpdateArgs_added :: "'o option"
  AoiUpdateArgs_removed :: "'o option"

definition AoiUpdateArgs_default :: "'o AoiUpdateArgs" where
  "AoiUpdateArgs_default =
     \<lparr>AoiUpdateArgs_added = None,
      AoiUpdateArgs_removed = None\<rparr>"

definition AoiUpdate_run_verifier :: "field_check list" where [bind_check]:
  "AoiUpdate_run_verifier =
     [Field ''added'' AoiUpdate_VT_ADDED (TyVec GridCell_run_verifier) False,
      Field ''removed'' AoiUpdate_VT_REMOVED (TyVec GridCell_run_verifier) False]"

definition AoiUpdateBuilder_new :: "('b, 'o, 't) runtime \<Rightarrow> ('b, 'o) state" where [bind_create]:
  "AoiUpdateBuilder_new rt = rt_start_table rt"

definition AoiUpdateBuilder_add_added :: "('b, 'o, 't) runtime \<Rightarrow> 'o \<Rightarrow> ('b, unit) state" where [bind_create]:
  "AoiUpdateBuilder_add_added rt v = rt_push_slot_always rt AoiUpdate_VT_ADDED (Offset v)"

definition AoiUpdateBuilder_add_removed :: "('b, 'o, 't) runtime \<Rightarrow> 'o \<Rightarrow> ('b, unit) state" where [bind_create]:
  "AoiUpdateBuilder_add_removed rt v = rt_push_slot_always rt AoiUpdate_VT_REMOVED (Offset v)"

definition AoiUpdateBuilder_finish :: "('b, 'o, 't) runtime \<Rightarrow> 'o \<Rightarrow> ('b, 'o) state" where [bind_create]:
  "AoiUpdateBuilder_finish rt start = rt_end_table rt start"

definition AoiUpdate_create :: "('b, 'o, 't) runtime \<Rightarrow> 'o AoiUpdateArgs \<Rightarrow> ('b, 'o) state" where
  "AoiUpdate_create rt args = do {
     start \<leftarrow> AoiUpdateBuilder_new rt;
     (case AoiUpdateArgs_removed args of None \<Rightarrow> State_Monad.return () | Some x \<Rightarrow> AoiUpdateBuilder_add_removed rt x);
     (case AoiUpdateArgs_added args of None \<Rightarrow> State_Monad.return () | Some x \<Rightarrow> AoiUpdateBuilder_add_added rt x);
     AoiUpdateBuilder_finish rt start
   }"

definition AoiUpdate_added :: "('b, 'o, 't) runtime \<Rightarrow> 't \<Rightarrow> bytes list option option" where [bind_read]:
  "AoiUpdate_added rt t = as_opt (r_vec r_struct) (rt_get rt t (TyVec GridCell_run_verifier) AoiUpdate_VT_ADDED None)"

definition AoiUpdate_removed :: "('b, 'o, 't) runtime \<Rightarrow> 't \<Rightarrow> bytes list option option" where [bind_read]:
  "AoiUpdate_removed rt t = as_opt (r_vec r_struct) (rt_get rt t (TyVec GridCell_run_verifier) AoiUpdate_VT_REMOVED None)"

section \<open>CellSnapshot\<close>

definition CellSnapshot_VT_CELL :: voffset where [vt]: "CellSnapshot_VT_CELL = 4"
definition CellSnapshot_VT_PLAYERS :: voffset where [vt]: "CellSnapshot_VT_PLAYERS = 6"
definition CellSnapshot_VT_BOATS :: voffset where [vt]: "CellSnapshot_VT_BOATS = 8"
definition CellSnapshot_VT_MOORINGS :: voffset where [vt]: "CellSnapshot_VT_MOORINGS = 10"

record 'o CellSnapshotArgs =
  CellSnapshotArgs_cell :: "bytes option"
  CellSnapshotArgs_players :: "'o option"
  CellSnapshotArgs_boats :: "'o option"
  CellSnapshotArgs_moorings :: "'o option"

definition CellSnapshotArgs_default :: "'o CellSnapshotArgs" where
  "CellSnapshotArgs_default =
     \<lparr>CellSnapshotArgs_cell = None,
      CellSnapshotArgs_players = None,
      CellSnapshotArgs_boats = None,
      CellSnapshotArgs_moorings = None\<rparr>"

definition CellSnapshot_run_verifier :: "field_check list" where [bind_check]:
  "CellSnapshot_run_verifier =
     [Field ''cell'' CellSnapshot_VT_CELL GridCell_run_verifier False,
      Field ''players'' CellSnapshot_VT_PLAYERS (TyVec (TyTable PlayerState_run_verifier)) False,
      Field ''boats'' CellSnapshot_VT_BOATS (TyVec (TyTable BoatState_run_verifier)) False,
      Field ''moorings'' CellSnapshot_VT_MOORINGS (TyVec (TyTable MoorageRecord_run_verifier)) False]"

definition CellSnapshotBuilder_new :: "('b, 'o, 't) runtime \<Rightarrow> ('b, 'o) state" where [bind_create]:
  "CellSnapshotBuilder_new rt = rt_start_table rt"

definition CellSnapshotBuilder_add_cell :: "('b, 'o, 't) runtime \<Rightarrow> bytes \<Rightarrow> ('b, unit) state" where [bind_create]:
  "CellSnapshotBuilder_add_cell rt v = rt_push_slot_always rt CellSnapshot_VT_CELL (Struct v)"

definition CellSnapshotBuilder_add_players :: "('b, 'o, 't) runtime \<Rightarrow> 'o \<Rightarrow> ('b, unit) state" where [bind_create]:
  "CellSnapshotBuilder_add_players rt v = rt_push_slot_always rt CellSnapshot_VT_PLAYERS (Offset v)"

definition CellSnapshotBuilder_add_boats :: "('b, 'o, 't) runtime \<Rightarrow> 'o \<Rightarrow> ('b, unit) state" where [bind_create]:
  "CellSnapshotBuilder_add_boats rt v = rt_push_slot_always rt CellSnapshot_VT_BOATS (Offset v)"

definition CellSnapshotBuilder_add_moorings :: "('b, 'o, 't) runtime \<Rightarrow> 'o \<Rightarrow> ('b, unit) state" where [bind_create]:
  "CellSnapshotBuilder_add_moorings rt v = rt_push_slot_always rt CellSnapshot_VT_MOORINGS (Offset v)"

definition CellSnapshotBuilder_finish :: "('b, 'o, 't) runtime \<Rightarrow> 'o \<Rightarrow> ('b, 'o) state" where [bind_create]:
  "CellSnapshotBuilder_finish rt start = rt_end_table rt start"

definition CellSnapshot_create :: "('b, 'o, 't) runtime \<Rightarrow> 'o CellSnapshotArgs \<Rightarrow> ('b, 'o) state" where
  "CellSnapshot_create rt args = do {
     start \<leftarrow> CellSnapshotBuilder_new rt;
     (case CellSnapshotArgs_moorings args of None \<Rightarrow> State_Monad.return () | Some x \<Rightarrow> CellSnapshotBuilder_add_moorings rt x);
     (case CellSnapshotArgs_boats args of None \<Rightarrow> State_Monad.return () | Some x \<Rightarrow> CellSnapshotBuilder_add_boats rt x);
     (case CellSnapshotArgs_players args of None \<Rightarrow> State_Monad.return () | Some x \<Rightarrow> CellSnapshotBuilder_add_players rt x);
     (case CellSnapshotArgs_cell args of None \<Rightarrow> State_Monad.return () | Some x \<Rightarrow> CellSnapshotBuilder_add_cell rt x);
     CellSnapshotBuilder_finish rt start
   }"

definition CellSnapshot_cell :: "('b, 'o, 't) runtime \<Rightarrow> 't \<Rightarrow> bytes option option" where [bind_read]:
  "CellSnapshot_cell rt t = as_opt r_struct (rt_get rt t GridCell_run_verifier CellSnapshot_VT_CELL None)"

definition CellSnapshot_players :: "('b, 'o, 't) runtime \<Rightarrow> 't \<Rightarrow> 't list option option" where [bind_read]:
  "CellSnapshot_players rt t = as_opt (r_vec r_tab) (rt_get rt t (TyVec (TyTable PlayerState_run_verifier)) CellSnapshot_VT_PLAYERS None)"

definition CellSnapshot_boats :: "('b, 'o, 't) runtime \<Rightarrow> 't \<Rightarrow> 't list option option" where [bind_read]:
  "CellSnapshot_boats rt t = as_opt (r_vec r_tab) (rt_get rt t (TyVec (TyTable BoatState_run_verifier)) CellSnapshot_VT_BOATS None)"

definition CellSnapshot_moorings :: "('b, 'o, 't) runtime \<Rightarrow> 't \<Rightarrow> 't list option option" where [bind_read]:
  "CellSnapshot_moorings rt t = as_opt (r_vec r_tab) (rt_get rt t (TyVec (TyTable MoorageRecord_run_verifier)) CellSnapshot_VT_MOORINGS None)"

section \<open>EconTxn\<close>

definition EconTxn_VT_TXN_ID :: voffset where [vt]: "EconTxn_VT_TXN_ID = 4"
definition EconTxn_VT_AMOUNT_GOLD :: voffset where [vt]: "EconTxn_VT_AMOUNT_GOLD = 6"
definition EconTxn_VT_KIND :: voffset where [vt]: "EconTxn_VT_KIND = 8"
definition EconTxn_VT_NOTE :: voffset where [vt]: "EconTxn_VT_NOTE = 10"

record 'o EconTxnArgs =
  EconTxnArgs_txn_id :: u64
  EconTxnArgs_amount_gold :: int
  EconTxnArgs_kind :: u8
  EconTxnArgs_note :: "'o option"

definition EconTxnArgs_default :: "'o EconTxnArgs" where
  "EconTxnArgs_default =
     \<lparr>EconTxnArgs_txn_id = 0,
      EconTxnArgs_amount_gold = 0,
      EconTxnArgs_kind = 0,
      EconTxnArgs_note = None\<rparr>"

definition EconTxn_run_verifier :: "field_check list" where [bind_check]:
  "EconTxn_run_verifier =
     [Field ''txn_id'' EconTxn_VT_TXN_ID TyU64 False,
      Field ''amount_gold'' EconTxn_VT_AMOUNT_GOLD TyI64 False,
      Field ''kind'' EconTxn_VT_KIND TyU8 False,
      Field ''note'' EconTxn_VT_NOTE TyStr False]"

definition EconTxnBuilder_new :: "('b, 'o, 't) runtime \<Rightarrow> ('b, 'o) state" where [bind_create]:
  "EconTxnBuilder_new rt = rt_start_table rt"

definition EconTxnBuilder_add_txn_id :: "('b, 'o, 't) runtime \<Rightarrow> u64 \<Rightarrow> ('b, unit) state" where [bind_create]:
  "EconTxnBuilder_add_txn_id rt v = rt_push_slot rt EconTxn_VT_TXN_ID (ScU64 v) (ScU64 0)"

definition EconTxnBuilder_add_amount_gold :: "('b, 'o, 't) runtime \<Rightarrow> int \<Rightarrow> ('b, unit) state" where [bind_create]:
  "EconTxnBuilder_add_amount_gold rt v = rt_push_slot rt EconTxn_VT_AMOUNT_GOLD (ScI64 v) (ScI64 0)"

definition EconTxnBuilder_add_kind :: "('b, 'o, 't) runtime \<Rightarrow> u8 \<Rightarrow> ('b, unit) state" where [bind_create]:
  "EconTxnBuilder_add_kind rt v = rt_push_slot rt EconTxn_VT_KIND (ScU8 v) (ScU8 0)"

definition EconTxnBuilder_add_note :: "('b, 'o, 't) runtime \<Rightarrow> 'o \<Rightarrow> ('b, unit) state" where [bind_create]:
  "EconTxnBuilder_add_note rt v = rt_push_slot_always rt EconTxn_VT_NOTE (Offset v)"

definition EconTxnBuilder_finish :: "('b, 'o, 't) runtime \<Rightarrow> 'o \<Rightarrow> ('b, 'o) state" where [bind_create]:
  "EconTxnBuilder_finish rt start = rt_end_table rt start"

definition EconTxn_create :: "('b, 'o, 't) runtime \<Rightarrow> 'o EconTxnArgs \<Rightarrow> ('b, 'o) state" where
  "EconTxn_create rt args = do {
     start \<leftarrow> EconTxnBuilder_new rt;
     EconTxnBuilder_add_amount_gold rt (EconTxnArgs_amount_gold args);
     EconTxnBuilder_add_txn_id rt (EconTxnArgs_txn_id args);
     (case EconTxnArgs_note args of None \<Rightarrow> State_Monad.return () | Some x \<Rightarrow> EconTxnBuilder_add_note rt x);
     EconTxnBuilder_add_kind rt (EconTxnArgs_kind args);
     EconTxnBuilder_finish rt start
   }"

definition EconTxn_txn_id :: "('b, 'o, 't) runtime \<Rightarrow> 't \<Rightarrow> u64 option" where [bind_read]:
  "EconTxn_txn_id rt t = as_u64 (rt_get rt t TyU64 EconTxn_VT_TXN_ID (Some (RScalar (ScU64 0))))"

definition EconTxn_amount_gold :: "('b, 'o, 't) runtime \<Rightarrow> 't \<Rightarrow> int option" where [bind_read]:
  "EconTxn_amount_gold rt t = as_i64 (rt_get rt t TyI64 EconTxn_VT_AMOUNT_GOLD (Some (RScalar (ScI64 0))))"

definition EconTxn_kind :: "('b, 'o, 't) runtime \<Rightarrow> 't \<Rightarrow> u8 option" where [bind_read]:
  "EconTxn_kind rt t = as_u8 (rt_get rt t TyU8 EconTxn_VT_KIND (Some (RScalar (ScU8 0))))"

definition EconTxn_note :: "('b, 'o, 't) runtime \<Rightarrow> 't \<Rightarrow> string option option" where [bind_read]:
  "EconTxn_note rt t = as_opt r_str (rt_get rt t TyStr EconTxn_VT_NOTE None)"

section \<open>LedgerAck\<close>

definition LedgerAck_VT_TXN_ID :: voffset where [vt]: "LedgerAck_VT_TXN_ID = 4"
definition LedgerAck_VT_ACCEPTED :: voffset where [vt]: "LedgerAck_VT_ACCEPTED = 6"
definition LedgerAck_VT_NEW_BALANCE :: voffset where [vt]: "LedgerAck_VT_NEW_BALANCE = 8"
definition LedgerAck_VT_REASON :: voffset where [vt]: "LedgerAck_VT_REASON = 10"

record 'o LedgerAckArgs =
  LedgerAckArgs_txn_id :: u64
  LedgerAckArgs_accepted :: bool
  LedgerAckArgs_new_balance :: int
  LedgerAckArgs_reason :: "'o option"

definition LedgerAckArgs_default :: "'o LedgerAckArgs" where
  "LedgerAckArgs_default =
     \<lparr>LedgerAckArgs_txn_id = 0,
      LedgerAckArgs_accepted = False,
      LedgerAckArgs_new_balance = 0,
      LedgerAckArgs_reason = None\<rparr>"

definition LedgerAck_run_verifier :: "field_check list" where [bind_check]:
  "LedgerAck_run_verifier =
     [Field ''txn_id'' LedgerAck_VT_TXN_ID TyU64 False,
      Field ''accepted'' LedgerAck_VT_ACCEPTED TyBool False,
      Field ''new_balance'' LedgerAck_VT_NEW_BALANCE TyI64 False,
      Field ''reason'' LedgerAck_VT_REASON TyStr False]"

definition LedgerAckBuilder_new :: "('b, 'o, 't) runtime \<Rightarrow> ('b, 'o) state" where [bind_create]:
  "LedgerAckBuilder_new rt = rt_start_table rt"

definition LedgerAckBuilder_add_txn_id :: "('b, 'o, 't) runtime \<Rightarrow> u64 \<Rightarrow> ('b, unit) state" where [bind_create]:
  "LedgerAckBuilder_add_txn_id rt v = rt_push_slot rt LedgerAck_VT_TXN_ID (ScU64 v) (ScU64 0)"

definition LedgerAckBuilder_add_accepted :: "('b, 'o, 't) runtime \<Rightarrow> bool \<Rightarrow> ('b, unit) state" where [bind_create]:
  "LedgerAckBuilder_add_accepted rt v = rt_push_slot rt LedgerAck_VT_ACCEPTED (ScBool v) (ScBool False)"

definition LedgerAckBuilder_add_new_balance :: "('b, 'o, 't) runtime \<Rightarrow> int \<Rightarrow> ('b, unit) state" where [bind_create]:
  "LedgerAckBuilder_add_new_balance rt v = rt_push_slot rt LedgerAck_VT_NEW_BALANCE (ScI64 v) (ScI64 0)"

definition LedgerAckBuilder_add_reason :: "('b, 'o, 't) runtime \<Rightarrow> 'o \<Rightarrow> ('b, unit) state" where [bind_create]:
  "LedgerAckBuilder_add_reason rt v = rt_push_slot_always rt LedgerAck_VT_REASON (Offset v)"

definition LedgerAckBuilder_finish :: "('b, 'o, 't) runtime \<Rightarrow> 'o \<Rightarrow> ('b, 'o) state" where [bind_create]:
  "LedgerAckBuilder_finish rt start = rt_end_table rt start"

definition LedgerAck_create :: "('b, 'o, 't) runtime \<Rightarrow> 'o LedgerAckArgs \<Rightarrow> ('b, 'o) state" where
  "LedgerAck_create rt args = do {
     start \<leftarrow> LedgerAckBuilder_new rt;
     LedgerAckBuilder_add_new_balance rt (LedgerAckArgs_new_balance args);
     LedgerAckBuilder_add_txn_id rt (LedgerAckArgs_txn_id args);
     (case LedgerAckArgs_reason args of None \<Rightarrow> State_Monad.return () | Some x \<Rightarrow> LedgerAckBuilder_add_reason rt x);
     LedgerAckBuilder_add_accepted rt (LedgerAckArgs_accepted args);
     LedgerAckBuilder_finish rt start
   }"

definition LedgerAck_txn_id :: "('b, 'o, 't) runtime \<Rightarrow> 't \<Rightarrow> u64 option" where [bind_read]:
  "LedgerAck_txn_id rt t = as_u64 (rt_get rt t TyU64 LedgerAck_VT_TXN_ID (Some (RScalar (ScU64 0))))"

definition LedgerAck_accepted :: "('b, 'o, 't) runtime \<Rightarrow> 't \<Rightarrow> bool option" where [bind_read]:
  "LedgerAck_accepted rt t = as_bool (rt_get rt t TyBool LedgerAck_VT_ACCEPTED (Some (RScalar (ScBool False))))"

definition LedgerAck_new_balance :: "('b, 'o, 't) runtime \<Rightarrow> 't \<Rightarrow> int option" where [bind_read]:
  "LedgerAck_new_balance rt t = as_i64 (rt_get rt t TyI64 LedgerAck_VT_NEW_BALANCE (Some (RScalar (ScI64 0))))"

definition LedgerAck_reason :: "('b, 'o, 't) runtime \<Rightarrow> 't \<Rightarrow> string option option" where [bind_read]:
  "LedgerAck_reason rt t = as_opt r_str (rt_get rt t TyStr LedgerAck_VT_REASON None)"

section \<open>MarketTradeRequest\<close>

definition MarketTradeRequest_VT_TXN_ID :: voffset where [vt]: "MarketTradeRequest_VT_TXN_ID = 4"
definition MarketTradeRequest_VT_PORT_ID :: voffset where [vt]: "MarketTradeRequest_VT_PORT_ID = 6"
definition MarketTradeRequest_VT_ITEM_ID :: voffset where [vt]: "MarketTradeRequest_VT_ITEM_ID = 8"
definition MarketTradeRequest_VT_QTY :: voffset where [vt]: "MarketTradeRequest_VT_QTY = 10"
definition MarketTradeRequest_VT_UNIT_PRICE :: voffset where [vt]: "MarketTradeRequest_VT_UNIT_PRICE = 12"

record MarketTradeRequestArgs =
  MarketTradeRequestArgs_txn_id :: u64
  MarketTradeRequestArgs_port_id :: u32
  MarketTradeRequestArgs_item_id :: u32
  MarketTradeRequestArgs_qty :: int
  MarketTradeRequestArgs_unit_price :: int

definition MarketTradeRequestArgs_default :: "MarketTradeRequestArgs" where
  "MarketTradeRequestArgs_default =
     \<lparr>MarketTradeRequestArgs_txn_id = 0,
      MarketTradeRequestArgs_port_id = 0,
      MarketTradeRequestArgs_item_id = 0,
      MarketTradeRequestArgs_qty = 0,
      MarketTradeRequestArgs_unit_price = 0\<rparr>"

definition MarketTradeRequest_run_verifier :: "field_check list" where [bind_check]:
  "MarketTradeRequest_run_verifier =
     [Field ''txn_id'' MarketTradeRequest_VT_TXN_ID TyU64 False,
      Field ''port_id'' MarketTradeRequest_VT_PORT_ID TyU32 False,
      Field ''item_id'' MarketTradeRequest_VT_ITEM_ID TyU32 False,
      Field ''qty'' MarketTradeRequest_VT_QTY TyI64 False,
      Field ''unit_price'' MarketTradeRequest_VT_UNIT_PRICE TyI64 False]"

definition MarketTradeRequestBuilder_new :: "('b, 'o, 't) runtime \<Rightarrow> ('b, 'o) state" where [bind_create]:
  "MarketTradeRequestBuilder_new rt = rt_start_table rt"

definition MarketTradeRequestBuilder_add_txn_id :: "('b, 'o, 't) runtime \<Rightarrow> u64 \<Rightarrow> ('b, unit) state" where [bind_create]:
  "MarketTradeRequestBuilder_add_txn_id rt v = rt_push_slot rt MarketTradeRequest_VT_TXN_ID (ScU64 v) (ScU64 0)"

definition MarketTradeRequestBuilder_add_port_id :: "('b, 'o, 't) runtime \<Rightarrow> u32 \<Rightarrow> ('b, unit) state" where [bind_create]:
  "MarketTradeRequestBuilder_add_port_id rt v = rt_push_slot rt MarketTradeRequest_VT_PORT_ID (ScU32 v) (ScU32 0)"

definition MarketTradeRequestBuilder_add_item_id :: "('b, 'o, 't) runtime \<Rightarrow> u32 \<Rightarrow> ('b, unit) state" where [bind_create]:
  "MarketTradeRequestBuilder_add_item_id rt v = rt_push_slot rt MarketTradeRequest_VT_ITEM_ID (ScU32 v) (ScU32 0)"

definition MarketTradeRequestBuilder_add_qty :: "('b, 'o, 't) runtime \<Rightarrow> int \<Rightarrow> ('b, unit) state" where [bind_create]:
  "MarketTradeRequestBuilder_add_qty rt v = rt_push_slot rt MarketTradeRequest_VT_QTY (ScI64 v) (ScI64 0)"

definition MarketTradeRequestBuilder_add_unit_price :: "('b, 'o, 't) runtime \<Rightarrow> int \<Rightarrow> ('b, unit) state" where [bind_create]:
  "MarketTradeRequestBuilder_add_unit_price rt v = rt_push_slot rt MarketTradeRequest_VT_UNIT_PRICE (ScI64 v) (ScI64 0)"

definition MarketTradeRequestBuilder_finish :: "('b, 'o, 't) runtime \<Rightarrow> 'o \<Rightarrow> ('b, 'o) state" where [bind_create]:
  "MarketTradeRequestBuilder_finish rt start = rt_end_table rt start"

definition MarketTradeRequest_create :: "('b, 'o, 't) runtime \<Rightarrow> MarketTradeRequestArgs \<Rightarrow> ('b, 'o) state" where
  "MarketTradeRequest_create rt args = do {
     start \<leftarrow> MarketTradeRequestBuilder_new rt;
     MarketTradeRequestBuilder_add_unit_price rt (MarketTradeRequestArgs_unit_price args);
     MarketTradeRequestBuilder_add_qty rt (MarketTradeRequestArgs_qty args);
     MarketTradeRequestBuilder_add_txn_id rt (MarketTradeRequestArgs_txn_id args);
     MarketTradeRequestBuilder_add_item_id rt (MarketTradeRequestArgs_item_id args);
     MarketTradeRequestBuilder_add_port_id rt (MarketTradeRequestArgs_port_id args);
     MarketTradeRequestBuilder_finish rt start
   }"

definition MarketTradeRequest_txn_id :: "('b, 'o, 't) runtime \<Rightarrow> 't \<Rightarrow> u64 option" where [bind_read]:
  "MarketTradeRequest_txn_id rt t = as_u64 (rt_get rt t TyU64 MarketTradeRequest_VT_TXN_ID (Some (RScalar (ScU64 0))))"

definition MarketTradeRequest_port_id :: "('b, 'o, 't) runtime \<Rightarrow> 't \<Rightarrow> u32 option" where [bind_read]:
  "MarketTradeRequest_port_id rt t = as_u32 (rt_get rt t TyU32 MarketTradeRequest_VT_PORT_ID (Some (RScalar (ScU32 0))))"

definition MarketTradeRequest_item_id :: "('b, 'o, 't) runtime \<Rightarrow> 't \<Rightarrow> u32 option" where [bind_read]:
  "MarketTradeRequest_item_id rt t = as_u32 (rt_get rt t TyU32 MarketTradeRequest_VT_ITEM_ID (Some (RScalar (ScU32 0))))"

definition MarketTradeRequest_qty :: "('b, 'o, 't) runtime \<Rightarrow> 't \<Rightarrow> int option" where [bind_read]:
  "MarketTradeRequest_qty rt t = as_i64 (rt_get rt t TyI64 MarketTradeRequest_VT_QTY (Some (RScalar (ScI64 0))))"

definition MarketTradeRequest_unit_price :: "('b, 'o, 't) runtime \<Rightarrow> 't \<Rightarrow> int option" where [bind_read]:
  "MarketTradeRequest_unit_price rt t = as_i64 (rt_get rt t TyI64 MarketTradeRequest_VT_UNIT_PRICE (Some (RScalar (ScI64 0))))"

section \<open>MarketStateAck\<close>

definition MarketStateAck_VT_TXN_ID :: voffset where [vt]: "MarketStateAck_VT_TXN_ID = 4"
definition MarketStateAck_VT_ACCEPTED :: voffset where [vt]: "MarketStateAck_VT_ACCEPTED = 6"
definition MarketStateAck_VT_PORT_ID :: voffset where [vt]: "MarketStateAck_VT_PORT_ID = 8"
definition MarketStateAck_VT_ITEM_ID :: voffset where [vt]: "MarketStateAck_VT_ITEM_ID = 10"
definition MarketStateAck_VT_STOCK :: voffset where [vt]: "MarketStateAck_VT_STOCK = 12"
definition MarketStateAck_VT_PRICE :: voffset where [vt]: "MarketStateAck_VT_PRICE = 14"
definition MarketStateAck_VT_REASON :: voffset where [vt]: "MarketStateAck_VT_REASON = 16"

record 'o MarketStateAckArgs =
  MarketStateAckArgs_txn_id :: u64
  MarketStateAckArgs_accepted :: bool
  MarketStateAckArgs_port_id :: u32
  MarketStateAckArgs_item_id :: u32
  MarketStateAckArgs_stock :: int
  MarketStateAckArgs_price :: int
  MarketStateAckArgs_reason :: "'o option"

definition MarketStateAckArgs_default :: "'o MarketStateAckArgs" where
  "MarketStateAckArgs_default =
     \<lparr>MarketStateAckArgs_txn_id = 0,
      MarketStateAckArgs_accepted = False,
      MarketStateAckArgs_port_id = 0,
      MarketStateAckArgs_item_id = 0,
      MarketStateAckArgs_stock = 0,
      MarketStateAckArgs_price = 0,
      MarketStateAckArgs_reason = None\<rparr>"

definition MarketStateAck_run_verifier :: "field_check list" where [bind_check]:
  "MarketStateAck_run_verifier =
     [Field ''txn_id'' MarketStateAck_VT_TXN_ID TyU64 False,
      Field ''accepted'' MarketStateAck_VT_ACCEPTED TyBool False,
      Field ''port_id'' MarketStateAck_VT_PORT_ID TyU32 False,
      Field ''item_id'' MarketStateAck_VT_ITEM_ID TyU32 False,
      Field ''stock'' MarketStateAck_VT_STOCK TyI64 False,
      Field ''price'' MarketStateAck_VT_PRICE TyI64 False,
      Field ''reason'' MarketStateAck_VT_REASON TyStr False]"

definition MarketStateAckBuilder_new :: "('b, 'o, 't) runtime \<Rightarrow> ('b, 'o) state" where [bind_create]:
  "MarketStateAckBuilder_new rt = rt_start_table rt"

definition MarketStateAckBuilder_add_txn_id :: "('b, 'o, 't) runtime \<Rightarrow> u64 \<Rightarrow> ('b, unit) state" where [bind_create]:
  "MarketStateAckBuilder_add_txn_id rt v = rt_push_slot rt MarketStateAck_VT_TXN_ID (ScU64 v) (ScU64 0)"

definition MarketStateAckBuilder_add_accepted :: "('b, 'o, 't) runtime \<Rightarrow> bool \<Rightarrow> ('b, unit) state" where [bind_create]:
  "MarketStateAckBuilder_add_accepted rt v = rt_push_slot rt MarketStateAck_VT_ACCEPTED (ScBool v) (ScBool False)"

definition MarketStateAckBuilder_add_port_id :: "('b, 'o, 't) runtime \<Rightarrow> u32 \<Rightarrow> ('b, unit) state" where [bind_create]:
  "MarketStateAckBuilder_add_port_id rt v = rt_push_slot rt MarketStateAck_VT_PORT_ID (ScU32 v) (ScU32 0)"

definition MarketStateAckBuilder_add_item_id :: "('b, 'o, 't) runtime \<Rightarrow> u32 \<Rightarrow> ('b, unit) state" where [bind_create]:
  "MarketStateAckBuilder_add_item_id rt v = rt_push_slot rt MarketStateAck_VT_ITEM_ID (ScU32 v) (ScU32 0)"

definition MarketStateAckBuilder_add_stock :: "('b, 'o, 't) runtime \<Rightarrow> int \<Rightarrow> ('b, unit) state" where [bind_create]:
  "MarketStateAckBuilder_add_stock rt v = rt_push_slot rt MarketStateAck_VT_STOCK (ScI64 v) (ScI64 0)"

definition MarketStateAckBuilder_add_price :: "('b, 'o, 't) runtime \<Rightarrow> int \<Rightarrow> ('b, unit) state" where [bind_create]:
  "MarketStateAckBuilder_add_price rt v = rt_push_slot rt MarketStateAck_VT_PRICE (ScI64 v) (ScI64 0)"

definition MarketStateAckBuilder_add_reason :: "('b, 'o, 't) runtime \<Rightarrow> 'o \<Rightarrow> ('b, unit) state" where [bind_create]:
  "MarketStateAckBuilder_add_reason rt v = rt_push_slot_always rt MarketStateAck_VT_REASON (Offset v)"

definition MarketStateAckBuilder_finish :: "('b, 'o, 't) runtime \<Rightarrow> 'o \<Rightarrow> ('b, 'o) state" where [bind_create]:
  "MarketStateAckBuilder_finish rt start = rt_end_table rt start"

definition MarketStateAck_create :: "('b, 'o, 't) runtime \<Rightarrow> 'o MarketStateAckArgs \<Rightarrow> ('b, 'o) state" where
  "MarketStateAck_create rt args = do {
     start \<leftarrow> MarketStateAckBuilder_new rt;
     MarketStateAckBuilder_add_price rt (MarketStateAckArgs_price args);
     MarketStateAckBuilder_add_stock rt (MarketStateAckArgs_stock args);
     MarketStateAckBuilder_add_txn_id rt (MarketStateAckArgs_txn_id args);
     (case MarketStateAckArgs_reason args of None \<Rightarrow> State_Monad.return () | Some x \<Rightarrow> MarketStateAckBuilder_add_reason rt x);
     MarketStateAckBuilder_add_item_id rt (MarketStateAckArgs_item_id args);
     MarketStateAckBuilder_add_port_id rt (MarketStateAckArgs_port_id args);
     MarketStateAckBuilder_add_accepted rt (MarketStateAckArgs_accepted args);
     MarketStateAckBuilder_finish rt start
   }"

definition MarketStateAck_txn_id :: "('b, 'o, 't) runtime \<Rightarrow> 't \<Rightarrow> u64 option" where [bind_read]:
  "MarketStateAck_txn_id rt t = as_u64 (rt_get rt t TyU64 MarketStateAck_VT_TXN_ID (Some (RScalar (ScU64 0))))"

definition MarketStateAck_accepted :: "('b, 'o, 't) runtime \<Rightarrow> 't \<Rightarrow> bool option" where [bind_read]:
  "MarketStateAck_accepted rt t = as_bool (rt_get rt t TyBool MarketStateAck_VT_ACCEPTED (Some (RScalar (ScBool False))))"

definition MarketStateAck_port_id :: "('b, 'o, 't) runtime \<Rightarrow> 't \<Rightarrow> u32 option" where [bind_read]:
  "MarketStateAck_port_id rt t = as_u32 (rt_get rt t TyU32 MarketStateAck_VT_PORT_ID (Some (RScalar (ScU32 0))))"

definition MarketStateAck_item_id :: "('b, 'o, 't) runtime \<Rightarrow> 't \<Rightarrow> u32 option" where [bind_read]:
  "MarketStateAck_item_id rt t = as_u32 (rt_get rt t TyU32 MarketStateAck_VT_ITEM_ID (Some (RScalar (ScU32 0))))"

definition MarketStateAck_stock :: "('b, 'o, 't) runtime \<Rightarrow> 't \<Rightarrow> int option" where [bind_read]:
  "MarketStateAck_stock rt t = as_i64 (rt_get rt t TyI64 MarketStateAck_VT_STOCK (Some (RScalar (ScI64 0))))"

definition MarketStateAck_price :: "('b, 'o, 't) runtime \<Rightarrow> 't \<Rightarrow> int option" where [bind_read]:
  "MarketStateAck_price rt t = as_i64 (rt_get rt t TyI64 MarketStateAck_VT_PRICE (Some (RScalar (ScI64 0))))"

definition MarketStateAck_reason :: "('b, 'o, 't) runtime \<Rightarrow> 't \<Rightarrow> string option option" where [bind_read]:
  "MarketStateAck_reason rt t = as_opt r_str (rt_get rt t TyStr MarketStateAck_VT_REASON None)"

section \<open>ChatSend\<close>

definition ChatSend_VT_TEXT :: voffset where [vt]: "ChatSend_VT_TEXT = 4"
definition ChatSend_VT_CHANNEL :: voffset where [vt]: "ChatSend_VT_CHANNEL = 6"

record 'o ChatSendArgs =
  ChatSendArgs_text :: "'o option"
  ChatSendArgs_channel :: u8

definition ChatSendArgs_default :: "'o ChatSendArgs" where
  "ChatSendArgs_default =
     \<lparr>ChatSendArgs_text = None,
      ChatSendArgs_channel = 0\<rparr>"

definition ChatSend_run_verifier :: "field_check list" where [bind_check]:
  "ChatSend_run_verifier =
     [Field ''text'' ChatSend_VT_TEXT TyStr False,
      Field ''channel'' ChatSend_VT_CHANNEL TyU8 False]"

definition ChatSendBuilder_new :: "('b, 'o, 't) runtime \<Rightarrow> ('b, 'o) state" where [bind_create]:
  "ChatSendBuilder_new rt = rt_start_table rt"

definition ChatSendBuilder_add_text :: "('b, 'o, 't) runtime \<Rightarrow> 'o \<Rightarrow> ('b, unit) state" where [bind_create]:
  "ChatSendBuilder_add_text rt v = rt_push_slot_always rt ChatSend_VT_TEXT (Offset v)"

definition ChatSendBuilder_add_channel :: "('b, 'o, 't) runtime \<Rightarrow> u8 \<Rightarrow> ('b, unit) state" where [bind_create]:
  "ChatSendBuilder_add_channel rt v = rt_push_slot rt ChatSend_VT_CHANNEL (ScU8 v) (ScU8 0)"

definition ChatSendBuilder_finish :: "('b, 'o, 't) runtime \<Rightarrow> 'o \<Rightarrow> ('b, 'o) state" where [bind_create]:
  "ChatSendBuilder_finish rt start = rt_end_table rt start"

definition ChatSend_create :: "('b, 'o, 't) runtime \<Rightarrow> 'o ChatSendArgs \<Rightarrow> ('b, 'o) state" where
  "ChatSend_create rt args = do {
     start \<leftarrow> ChatSendBuilder_new rt;
     (case ChatSendArgs_text args of None \<Rightarrow> State_Monad.return () | Some x \<Rightarrow> ChatSendBuilder_add_text rt x);
     ChatSendBuilder_add_channel rt (ChatSendArgs_channel args);
     ChatSendBuilder_finish rt start
   }"

definition ChatSend_text :: "('b, 'o, 't) runtime \<Rightarrow> 't \<Rightarrow> string option option" where [bind_read]:
  "ChatSend_text rt t = as_opt r_str (rt_get rt t TyStr ChatSend_VT_TEXT None)"

definition ChatSend_channel :: "('b, 'o, 't) runtime \<Rightarrow> 't \<Rightarrow> u8 option" where [bind_read]:
  "ChatSend_channel rt t = as_u8 (rt_get rt t TyU8 ChatSend_VT_CHANNEL (Some (RScalar (ScU8 0))))"

section \<open>ChatBroadcast\<close>

definition ChatBroadcast_VT_PLAYER_ID :: voffset where [vt]: "ChatBroadcast_VT_PLAYER_ID = 4"
definition ChatBroadcast_VT_DISPLAY_NAME :: voffset where [vt]: "ChatBroadcast_VT_DISPLAY_NAME = 6"
definition ChatBroadcast_VT_TEXT :: voffset where [vt]: "ChatBroadcast_VT_TEXT = 8"
definition ChatBroadcast_VT_CHANNEL :: voffset where [vt]: "ChatBroadcast_VT_CHANNEL = 10"
definition ChatBroadcast_VT_T_MS :: voffset where [vt]: "ChatBroadcast_VT_T_MS = 12"

record 'o ChatBroadcastArgs =
  ChatBroadcastArgs_player_id :: u64
  ChatBroadcastArgs_display_name :: "'o option"
  ChatBroadcastArgs_text :: "'o option"
  ChatBroadcastArgs_channel :: u8
  ChatBroadcastArgs_t_ms :: u32

definition ChatBroadcastArgs_default :: "'o ChatBroadcastArgs" where
  "ChatBroadcastArgs_default =
     \<lparr>ChatBroadcastArgs_player_id = 0,
      ChatBroadcastArgs_display_name = None,
      ChatBroadcastArgs_text = None,
      ChatBroadcastArgs_channel = 0,
      ChatBroadcastArgs_t_ms = 0\<rparr>"

definition ChatBroadcast_run_verifier :: "field_check list" where [bind_check]:
  "ChatBroadcast_run_verifier =
     [Field ''player_id'' ChatBroadcast_VT_PLAYER_ID TyU64 False,
      Field ''display_name'' ChatBroadcast_VT_DISPLAY_NAME TyStr False,
      Field ''text'' ChatBroadcast_VT_TEXT TyStr False,
      Field ''channel'' ChatBroadcast_VT_CHANNEL TyU8 False,
      Field ''t_ms'' ChatBroadcast_VT_T_MS TyU32 False]"

definition ChatBroadcastBuilder_new :: "('b, 'o, 't) runtime \<Rightarrow> ('b, 'o) state" where [bind_create]:
  "ChatBroadcastBuilder_new rt = rt_start_table rt"

definition ChatBroadcastBuilder_add_player_id :: "('b, 'o, 't) runtime \<Rightarrow> u64 \<Rightarrow> ('b, unit) state" where [bind_create]:
  "ChatBroadcastBuilder_add_player_id rt v = rt_push_slot rt ChatBroadcast_VT_PLAYER_ID (ScU64 v) (ScU64 0)"

definition ChatBroadcastBuilder_add_display_name :: "('b, 'o, 't) runtime \<Rightarrow> 'o \<Rightarrow> ('b, unit) state" where [bind_create]:
  "ChatBroadcastBuilder_add_display_name rt v = rt_push_slot_always rt ChatBroadcast_VT_DISPLAY_NAME (Offset v)"

definition ChatBroadcastBuilder_add_text :: "('b, 'o, 't) runtime \<Rightarrow> 'o \<Rightarrow> ('b, unit) state" where [bind_create]:
  "ChatBroadcastBuilder_add_text rt v = rt_push_slot_always rt ChatBroadcast_VT_TEXT (Offset v)"

definition ChatBroadcastBuilder_add_channel :: "('b, 'o, 't) runtime \<Rightarrow> u8 \<Rightarrow> ('b, unit) state" where [bind_create]:
  "ChatBroadcastBuilder_add_channel rt v = rt_push_slot rt ChatBroadcast_VT_CHANNEL (ScU8 v) (ScU8 0)"

definition ChatBroadcastBuilder_add_t_ms :: "('b, 'o, 't) runtime \<Rightarrow> u32 \<Rightarrow> ('b, unit) state" where [bind_create]:
  "ChatBroadcastBuilder_add_t_ms rt v = rt_push_slot rt ChatBroadcast_VT_T_MS (ScU32 v) (ScU32 0)"

definition ChatBroadcastBuilder_finish :: "('b, 'o, 't) runtime \<Rightarrow> 'o \<Rightarrow> ('b, 'o) state" where [bind_create]:
  "ChatBroadcastBuilder_finish rt start = rt_end_table rt start"

definition ChatBroadcast_create :: "('b, 'o, 't) runtime \<Rightarrow> 'o ChatBroadcastArgs \<Rightarrow> ('b, 'o) state" where
  "ChatBroadcast_create rt args = do {
     start \<leftarrow> ChatBroadcastBuilder_new rt;
     ChatBroadcastBuilder_add_player_id rt (ChatBroadcastArgs_player_id args);
     ChatBroadcastBuilder_add_t_ms rt (ChatBroadcastArgs_t_ms args);
     (case ChatBroadcastArgs_text args of None \<Rightarrow> State_Monad.return () | Some x \<Rightarrow> ChatBroadcastBuilder_add_text rt x);
     (case ChatBroadcastArgs_display_name args of None \<Rightarrow> State_Monad.return () | Some x \<Rightarrow> ChatBroadcastBuilder_add_display_name rt x);
     ChatBroadcastBuilder_add_channel rt (ChatBroadcastArgs_channel args);
     ChatBroadcastBuilder_finish rt start
   }"

definition ChatBroadcast_player_id :: "('b, 'o, 't) runtime \<Rightarrow> 't \<Rightarrow> u64 option" where [bind_read]:
  "ChatBroadcast_player_id rt t = as_u64 (rt_get rt t TyU64 ChatBroadcast_VT_PLAYER_ID (Some (RScalar (ScU64 0))))"

definition ChatBroadcast_display_name :: "('b, 'o, 't) runtime \<Rightarrow> 't \<Rightarrow> string option option" where [bind_read]:
  "ChatBroadcast_display_name rt t = as_opt r_str (rt_get rt t TyStr ChatBroadcast_VT_DISPLAY_NAME None)"

definition ChatBroadcast_text :: "('b, 'o, 't) runtime \<Rightarrow> 't \<Rightarrow> string option option" where [bind_read]:
  "ChatBroadcast_text rt t = as_opt r_str (rt_get rt t TyStr ChatBroadcast_VT_TEXT None)"

definition ChatBroadcast_channel :: "('b, 'o, 't) runtime \<Rightarrow> 't \<Rightarrow> u8 option" where [bind_read]:
  "ChatBroadcast_channel rt t = as_u8 (rt_get rt t TyU8 ChatBroadcast_VT_CHANNEL (Some (RScalar (ScU8 0))))"

definition ChatBroadcast_t_ms :: "('b, 'o, 't) runtime \<Rightarrow> 't \<Rightarrow> u32 option" where [bind_read]:
  "ChatBroadcast_t_ms rt t = as_u32 (rt_get rt t TyU32 ChatBroadcast_VT_T_MS (Some (RScalar (ScU32 0))))"

section \<open>Envelope\<close>

definition Envelope_VT_SEQ :: voffset where [vt]: "Envelope_VT_SEQ = 4"
definition Envelope_VT_PAYLOAD_TYPE :: voffset where [vt]: "Envelope_VT_PAYLOAD_TYPE = 6"
definition Envelope_VT_PAYLOAD :: voffset where [vt]: "Envelope_VT_PAYLOAD = 8"

record 'o EnvelopeArgs =
  EnvelopeArgs_seq :: u32
  EnvelopeArgs_payload_type :: u8
  EnvelopeArgs_payload :: "'o option"

definition EnvelopeArgs_default :: "'o EnvelopeArgs" where
  "EnvelopeArgs_default =
     \<lparr>EnvelopeArgs_seq = 0,
      EnvelopeArgs_payload_type = Payload_NONE,
      EnvelopeArgs_payload = None\<rparr>"

definition Envelope_run_verifier :: "field_check list" where [bind_check]:
  "Envelope_run_verifier =
     [Field ''seq'' Envelope_VT_SEQ TyU32 False,
      UnionField ''payload_type'' Envelope_VT_PAYLOAD_TYPE ''payload'' Envelope_VT_PAYLOAD False
         [(Payload_ClientHello, TyTable ClientHello_run_verifier),
          (Payload_ServerHello, TyTable ServerHello_run_verifier),
          (Payload_ClientState, TyTable ClientState_run_verifier),
          (Payload_SnapshotDelta, TyTable SnapshotDelta_run_verifier),
          (Payload_AoiUpdate, TyTable AoiUpdate_run_verifier),
          (Payload_CellSnapshot, TyTable CellSnapshot_run_verifier),
          (Payload_MoorRequest, TyTable MoorRequest_run_verifier),
          (Payload_MoorAck, TyTable MoorAck_run_verifier),
          (Payload_EconTxn, TyTable EconTxn_run_verifier),
          (Payload_LedgerAck, TyTable LedgerAck_run_verifier),
          (Payload_ChatSend, TyTable ChatSend_run_verifier),
          (Payload_ChatBroadcast, TyTable ChatBroadcast_run_verifier),
          (Payload_WorldClock, TyTable WorldClock_run_verifier),
          (Payload_MarketTradeRequest, TyTable MarketTradeRequest_run_verifier),
          (Payload_MarketStateAck, TyTable MarketStateAck_run_verifier)]]"

definition EnvelopeBuilder_new :: "('b, 'o, 't) runtime \<Rightarrow> ('b, 'o) state" where [bind_create]:
  "EnvelopeBuilder_new rt = rt_start_table rt"

definition EnvelopeBuilder_add_seq :: "('b, 'o, 't) runtime \<Rightarrow> u32 \<Rightarrow> ('b, unit) state" where [bind_create]:
  "EnvelopeBuilder_add_seq rt v = rt_push_slot rt Envelope_VT_SEQ (ScU32 v) (ScU32 0)"

definition EnvelopeBuilder_add_payload_type :: "('b, 'o, 't) runtime \<Rightarrow> u8 \<Rightarrow> ('b, unit) state" where [bind_create]:
  "EnvelopeBuilder_add_payload_type rt v = rt_push_slot rt Envelope_VT_PAYLOAD_TYPE (ScU8 v) (ScU8 Payload_NONE)"

definition EnvelopeBuilder_add_payload :: "('b, 'o, 't) runtime \<Rightarrow> 'o \<Rightarrow> ('b, unit) state" where [bind_create]:
  "EnvelopeBuilder_add_payload rt v = rt_push_slot_always rt Envelope_VT_PAYLOAD (Offset v)"

definition EnvelopeBuilder_finish :: "('b, 'o, 't) runtime \<Rightarrow> 'o \<Rightarrow> ('b, 'o) state" where [bind_create]:
  "EnvelopeBuilder_finish rt start = rt_end_table rt start"

definition Envelope_create :: "('b, 'o, 't) runtime \<Rightarrow> 'o EnvelopeArgs \<Rightarrow> ('b, 'o) state" where
  "Envelope_create rt args = do {
     start \<leftarrow> EnvelopeBuilder_new rt;
     (case EnvelopeArgs_payload args of None \<Rightarrow> State_Monad.return () | Some x \<Rightarrow> EnvelopeBuilder_add_payload rt x);
     EnvelopeBuilder_add_seq rt (EnvelopeArgs_seq args);
     EnvelopeBuilder_add_payload_type rt (EnvelopeArgs_payload_type args);
     EnvelopeBuilder_finish rt start
   }"

definition Envelope_seq :: "('b, 'o, 't) runtime \<Rightarrow> 't \<Rightarrow> u32 option" where [bind_read]:
  "Envelope_seq rt t = as_u32 (rt_get rt t TyU32 Envelope_VT_SEQ (Some (RScalar (ScU32 0))))"

definition Envelope_payload_type :: "('b, 'o, 't) runtime \<Rightarrow> 't \<Rightarrow> u8 option" where [bind_read]:
  "Envelope_payload_type rt t = as_u8 (rt_get rt t TyU8 Envelope_VT_PAYLOAD_TYPE (Some (RScalar (ScU8 Payload_NONE))))"

definition Envelope_payload :: "('b, 'o, 't) runtime \<Rightarrow> 't \<Rightarrow> 't option option" where [bind_read]:
  "Envelope_payload rt t = as_opt r_tab (rt_get rt t (TyTable []) Envelope_VT_PAYLOAD None)"

definition Envelope_payload_as_client_hello :: "('b, 'o, 't) runtime \<Rightarrow> 't \<Rightarrow> 't option option" where
  "Envelope_payload_as_client_hello rt t = do {
     k \<leftarrow> Envelope_payload_type rt t;
     if k = Payload_ClientHello then Envelope_payload rt t else Some None
   }"

definition Envelope_payload_as_server_hello :: "('b, 'o, 't) runtime \<Rightarrow> 't \<Rightarrow> 't option option" where
  "Envelope_payload_as_server_hello rt t = do {
     k \<leftarrow> Envelope_payload_type rt t;
     if k = Payload_ServerHello then Envelope_payload rt t else Some None
   }"

definition Envelope_payload_as_client_state :: "('b, 'o, 't) runtime \<Rightarrow> 't \<Rightarrow> 't option option" where
  "Envelope_payload_as_client_state rt t = do {
     k \<leftarrow> Envelope_payload_type rt t;
     if k = Payload_ClientState then Envelope_payload rt t else Some None
   }"

definition Envelope_payload_as_snapshot_delta :: "('b, 'o, 't) runtime \<Rightarrow> 't \<Rightarrow> 't option option" where
  "Envelope_payload_as_snapshot_delta rt t = do {
     k \<leftarrow> Envelope_payload_type rt t;
     if k = Payload_SnapshotDelta then Envelope_payload rt t else Some None
   }"

definition Envelope_payload_as_aoi_update :: "('b, 'o, 't) runtime \<Rightarrow> 't \<Rightarrow> 't option option" where
  "Envelope_payload_as_aoi_update rt t = do {
     k \<leftarrow> Envelope_payload_type rt t;
     if k = Payload_AoiUpdate then Envelope_payload rt t else Some None
   }"

definition Envelope_payload_as_cell_snapshot :: "('b, 'o, 't) runtime \<Rightarrow> 't \<Rightarrow> 't option option" where
  "Envelope_payload_as_cell_snapshot rt t = do {
     k \<leftarrow> Envelope_payload_type rt t;
     if k = Payload_CellSnapshot then Envelope_payload rt t else Some None
   }"

definition Envelope_payload_as_moor_request :: "('b, 'o, 't) runtime \<Rightarrow> 't \<Rightarrow> 't option option" where
  "Envelope_payload_as_moor_request rt t = do {
     k \<leftarrow> Envelope_payload_type rt t;
     if k = Payload_MoorRequest then Envelope_payload rt t else Some None
   }"

definition Envelope_payload_as_moor_ack :: "('b, 'o, 't) runtime \<Rightarrow> 't \<Rightarrow> 't option option" where
  "Envelope_payload_as_moor_ack rt t = do {
     k \<leftarrow> Envelope_payload_type rt t;
     if k = Payload_MoorAck then Envelope_payload rt t else Some None
   }"

definition Envelope_payload_as_econ_txn :: "('b, 'o, 't) runtime \<Rightarrow> 't \<Rightarrow> 't option option" where
  "Envelope_payload_as_econ_txn rt t = do {
     k \<leftarrow> Envelope_payload_type rt t;
     if k = Payload_EconTxn then Envelope_payload rt t else Some None
   }"

definition Envelope_payload_as_ledger_ack :: "('b, 'o, 't) runtime \<Rightarrow> 't \<Rightarrow> 't option option" where
  "Envelope_payload_as_ledger_ack rt t = do {
     k \<leftarrow> Envelope_payload_type rt t;
     if k = Payload_LedgerAck then Envelope_payload rt t else Some None
   }"

definition Envelope_payload_as_chat_send :: "('b, 'o, 't) runtime \<Rightarrow> 't \<Rightarrow> 't option option" where
  "Envelope_payload_as_chat_send rt t = do {
     k \<leftarrow> Envelope_payload_type rt t;
     if k = Payload_ChatSend then Envelope_payload rt t else Some None
   }"

definition Envelope_payload_as_chat_broadcast :: "('b, 'o, 't) runtime \<Rightarrow> 't \<Rightarrow> 't option option" where
  "Envelope_payload_as_chat_broadcast rt t = do {
     k \<leftarrow> Envelope_payload_type rt t;
     if k = Payload_ChatBroadcast then Envelope_payload rt t else Some None
   }"

definition Envelope_payload_as_world_clock :: "('b, 'o, 't) runtime \<Rightarrow> 't \<Rightarrow> 't option option" where
  "Envelope_payload_as_world_clock rt t = do {
     k \<leftarrow> Envelope_payload_type rt t;
     if k = Payload_WorldClock then Envelope_payload rt t else Some None
   }"

definition Envelope_payload_as_market_trade_request :: "('b, 'o, 't) runtime \<Rightarrow> 't \<Rightarrow> 't option option" where
  "Envelope_payload_as_market_trade_request rt t = do {
     k \<leftarrow> Envelope_payload_type rt t;
     if k = Payload_MarketTradeRequest then Envelope_payload rt t else Some None
   }"

definition Envelope_payload_as_market_state_ack :: "('b, 'o, 't) runtime \<Rightarrow> 't \<Rightarrow> 't option option" where
  "Envelope_payload_as_market_state_ack rt t = do {
     k \<leftarrow> Envelope_payload_type rt t;
     if k = Payload_MarketStateAck then Envelope_payload rt t else Some None
   }"

section \<open>Buffers\<close>

definition root_as_envelope :: "('b, 'o, 't) runtime \<Rightarrow> bytes \<Rightarrow> 't option" where
  "root_as_envelope rt buf = rt_root rt Envelope_run_verifier buf"

definition size_prefixed_root_as_envelope :: "('b, 'o, 't) runtime \<Rightarrow> bytes \<Rightarrow> 't option" where
  "size_prefixed_root_as_envelope rt buf = rt_size_prefixed_root rt Envelope_run_verifier buf"

definition ENVELOPE_IDENTIFIER :: string where "ENVELOPE_IDENTIFIER = ''SWO0''"

definition envelope_buffer_has_identifier :: "('b, 'o, 't) runtime \<Rightarrow> bytes \<Rightarrow> bool" where
  "envelope_buffer_has_identifier rt buf = rt_has_identifier rt buf ENVELOPE_IDENTIFIER False"

definition envelope_size_prefixed_buffer_has_identifier :: "('b, 'o, 't) runtime \<Rightarrow> bytes \<Rightarrow> bool" where
  "envelope_size_prefixed_buffer_has_identifier rt buf = rt_has_identifier rt buf ENVELOPE_IDENTIFIER True"

definition finish_envelope_buffer :: "('b, 'o, 't) runtime \<Rightarrow> 'o \<Rightarrow> ('b, unit) state" where
  "finish_envelope_buffer rt r = rt_finish rt r ENVELOPE_IDENTIFIER"

definition finish_size_prefixed_envelope_buffer :: "('b, 'o, 't) runtime \<Rightarrow> 'o \<Rightarrow> ('b, unit) state" where
  "finish_size_prefixed_envelope_buffer rt r = rt_finish_size_prefixed rt r ENVELOPE_IDENTIFIER"

section \<open>What \<open>create\<close> pushes\<close>

lemma MoorRequest_create_prog:
  "MoorRequest_create rt args = table_prog rt
     [PushOpt MoorRequest_VT_NAME (map_option Offset (MoorRequestArgs_name args)),
      PushOpt MoorRequest_VT_ROT (map_option Struct (MoorRequestArgs_rot args)),
      PushOpt MoorRequest_VT_POS (map_option Struct (MoorRequestArgs_pos args))]"
  unfolding MoorRequest_create_def table_prog_def bind_create run_op_opt by simp

lemma MoorAck_create_prog:
  "MoorAck_create rt args = table_prog rt
     [PushOpt MoorAck_VT_REASON (map_option Offset (MoorAckArgs_reason args)),
      PushOpt MoorAck_VT_RECORD (map_option Offset (MoorAckArgs_record args)),
      PushSlot MoorAck_VT_ACCEPTED (ScBool (MoorAckArgs_accepted args)) (ScBool False)]"
  unfolding MoorAck_create_def table_prog_def bind_create run_op_opt by simp

lemma AoiUpdate_create_prog:
  "AoiUpdate_create rt args = table_prog rt
     [PushOpt AoiUpdate_VT_REMOVED (map_option Offset (AoiUpdateArgs_removed args)),
      PushOpt AoiUpdate_VT_ADDED (map_option Offset (AoiUpdateArgs_added args))]"
  unfolding AoiUpdate_create_def table_prog_def bind_create run_op_opt by simp

lemma CellSnapshot_create_prog:
  "CellSnapshot_create rt args = table_prog rt
     [PushOpt CellSnapshot_VT_MOORINGS (map_option Offset (CellSnapshotArgs_moorings args)),
      PushOpt CellSnapshot_VT_BOATS (map_option Offset (CellSnapshotArgs_boats args)),
      PushOpt CellSnapshot_VT_PLAYERS (map_option Offset (CellSnapshotArgs_players args)),
      PushOpt CellSnapshot_VT_CELL (map_option Struct (CellSnapshotArgs_cell args))]"
  unfolding CellSnapshot_create_def table_prog_def bind_create run_op_opt by simp

lemma EconTxn_create_prog:
  "EconTxn_create rt args = table_prog rt
     [PushSlot EconTxn_VT_AMOUNT_GOLD (ScI64 (EconTxnArgs_amount_gold args)) (ScI64 0),
      PushSlot EconTxn_VT_TXN_ID (ScU64 (EconTxnArgs_txn_id args)) (ScU64 0),
      PushOpt EconTxn_VT_NOTE (map_option Offset (EconTxnArgs_note args)),
      PushSlot EconTxn_VT_KIND (ScU8 (EconTxnArgs_kind args)) (ScU8 0)]"
  unfolding EconTxn_create_def table_prog_def bind_create run_op_opt by simp

lemma LedgerAck_create_prog:
  "LedgerAck_create rt args = table_prog rt
     [PushSlot LedgerAck_VT_NEW_BALANCE (ScI64 (LedgerAckArgs_new_balance args)) (ScI64 0),
      PushSlot LedgerAck_VT_TXN_ID (ScU64 (LedgerAckArgs_txn_id args)) (ScU64 0),
      PushOpt LedgerAck_VT_REASON (map_option Offset (LedgerAckArgs_reason args)),
      PushSlot LedgerAck_VT_ACCEPTED (ScBool (LedgerAckArgs_accepted args)) (ScBool False)]"
  unfolding LedgerAck_create_def table_prog_def bind_create run_op_opt by simp

lemma MarketTradeRequest_create_prog:
  "MarketTradeRequest_create rt args = table_prog rt
     [PushSlot MarketTradeRequest_VT_UNIT_PRICE (ScI64 (MarketTradeRequestArgs_unit_price args)) (ScI64 0),
      PushSlot MarketTradeRequest_VT_QTY (ScI64 (MarketTradeRequestArgs_qty args)) (ScI64 0),
      PushSlot MarketTradeRequest_VT_TXN_ID (ScU64 (MarketTradeRequestArgs_txn_id args)) (ScU64 0),
      PushSlot MarketTradeRequest_VT_ITEM_ID (ScU32 (MarketTradeRequestArgs_item_id args)) (ScU32 0),
      PushSlot MarketTradeRequest_VT_PORT_ID (ScU32 (MarketTradeRequestArgs_port_id args)) (ScU32 0)]"
  unfolding MarketTradeRequest_create_def table_prog_def bind_create run_op_opt by simp

lemma MarketStateAck_create_prog:
  "MarketStateAck_create rt args = table_prog rt
     [PushSlot MarketStateAck_VT_PRICE (ScI64 (MarketStateAckArgs_price args)) (ScI64 0),
      PushSlot MarketStateAck_VT_STOCK (ScI64 (MarketStateAckArgs_stock args)) (ScI64 0),
      PushSlot MarketStateAck_VT_TXN_ID (ScU64 (MarketStateAckArgs_txn_id args)) (ScU64 0),
      PushOpt MarketStateAck_VT_REASON (map_option Offset (MarketStateAckArgs_reason args)),
      PushSlot MarketStateAck_VT_ITEM_ID (ScU32 (MarketStateAckArgs_item_id args)) (ScU32 0),
      PushSlot MarketStateAck_VT_PORT_ID (ScU32 (MarketStateAckArgs_port_id args)) (ScU32 0),
      PushSlot MarketStateAck_VT_ACCEPTED (ScBool (MarketStateAckArgs_accepted args)) (ScBool False)]"
  unfolding MarketStateAck_create_def table_prog_def bind_create run_op_opt by simp

lemma ChatSend_create_prog:
  "ChatSend_create rt args = table_prog rt
     [PushOpt ChatSend_VT_TEXT (map_option Offset (ChatSendArgs_text args)),
      PushSlot ChatSend_VT_CHANNEL (ScU8 (ChatSendArgs_channel args)) (ScU8 0)]"
  unfolding ChatSend_create_def table_prog_def bind_create run_op_opt by simp

lemma ChatBroadcast_create_prog:
  "ChatBroadcast_create rt args = table_prog rt
     [PushSlot ChatBroadcast_VT_PLAYER_ID (ScU64 (ChatBroadcastArgs_player_id args)) (ScU64 0),
      PushSlot ChatBroadcast_VT_T_MS (ScU32 (ChatBroadcastArgs_t_ms args)) (ScU32 0),
      PushOpt ChatBroadcast_VT_TEXT (map_option Offset (ChatBroadcastArgs_text args)),
      PushOpt ChatBroadcast_VT_DISPLAY_NAME (map_option Offset (ChatBroadcastArgs_display_name args)),
      PushSlot ChatBroadcast_VT_CHANNEL (ScU8 (ChatBroadcastArgs_channel args)) (ScU8 0)]"
  unfolding ChatBroadcast_create_def table_prog_def bind_create run_op_opt by simp

lemma Envelope_create_prog:
  "Envelope_create rt args = table_prog rt
     [PushOpt Envelope_VT_PAYLOAD (map_option Offset (EnvelopeArgs_payload args)),
      PushSlot Envelope_VT_SEQ (ScU32 (EnvelopeArgs_seq args)) (ScU32 0),
      PushSlot Envelope_VT_PAYLOAD_TYPE (ScU8 (EnvelopeArgs_payload_type args)) (ScU8 Payload_NONE)]"
  unfolding Envelope_create_def table_prog_def bind_create run_op_opt by simp

end
