(* ===== verification/Wire_Tables.thy ===== *)
theory Wire_Tables
  imports Bindings_Message Messages
begin

text \<open>
  The messages of \<open>Messages\<close> through the generated bindings, one table at a time: \<open>write_X\<close>
  builds the strings, vectors and nested tables and calls the generated \<open>create\<close>, \<open>read_X\<close>
  calls every accessor. \<open>X_tree\<close> is what the builder then holds, \<open>X_of\<close> what is read of
  contents the verifier accepted, and a message that \<open>X_ok\<close> accepts (UTF-8 strings, integers in
  their range, no negative zero in a slot that elides zero) is read back as it was written.
\<close>

lemmas bind_struct = Vec3_run_verifier_def QuatC_run_verifier_def GridCell_run_verifier_def

lemma read_back_structs:
  "map_option struct_vec3 (map_option vec3_struct vo) = vo"
  "map_option struct_quat (map_option quat_struct qo) = qo"
  "pred_option cell_ok co \<Longrightarrow> map_option struct_cell (map_option cell_struct co) = co"
  "pred_option (list_all cell_ok) cso \<Longrightarrow>
   map_option (map struct_cell) (map_option (g_vec g_struct) (map_option (\<lambda>xs. TVec (map (\<lambda>c. TStruct (cell_struct c)) xs)) cso)) = cso"
  by (cases vo; simp; fail | cases qo; simp; fail | cases co; simp; fail | cases cso; simp add: list_all_iff map_idI; fail)+

lemma pred_opts [simp]:
  "pred_option (\<lambda>bs. length bs = 12) (map_option vec3_struct vo)"
  "pred_option (\<lambda>bs. length bs = 16) (map_option quat_struct qo)"
  "pred_option (\<lambda>bs. length bs = 8) (map_option cell_struct co)"
  by (cases vo; simp; fail | cases qo; simp; fail | cases co; simp; fail)+

lemma typed_cell [simp]: "has_type (TyStruct 8) (TStruct (cell_struct c))"
  by simp

lemma builds_cells:
  "runtime_laws rt V \<Longrightarrow>
   builds V G (rt_create_vector rt (map (\<lambda>c. Struct (cell_struct c)) cs)) (TVec (map (\<lambda>c. TStruct (cell_struct c)) cs))"
  using builds_structs [of rt V G "map cell_struct cs"] by (simp add: comp_def)

section \<open>WorldClock\<close>

definition WorldClock_ok :: "world_clock_table \<Rightarrow> bool" where
  "WorldClock_ok m \<longleftrightarrow> wc_time_of_day m \<noteq> 0x80000000 \<and> wc_moon_phase m \<noteq> 0x80000000"

definition WorldClock_cops :: "world_clock_table \<Rightarrow> content_op list" where
  "WorldClock_cops m =
     [CSlot WorldClock_VT_MOON_PHASE (ScF32 (wc_moon_phase m)) (ScF32 0),
      CSlot WorldClock_VT_TIME_OF_DAY (ScF32 (wc_time_of_day m)) (ScF32 0),
      CSlot WorldClock_VT_DAY (ScU32 (wc_day m)) (ScU32 0)]"

definition WorldClock_tree :: "world_clock_table \<Rightarrow> fbtree" where
  "WorldClock_tree m = table_of (WorldClock_cops m)"

definition WorldClock_of :: "fbtree \<Rightarrow> world_clock_table" where
  "WorldClock_of x =
     \<lparr>wc_day = g_u32 0 (map_of (tab_fields x) WorldClock_VT_DAY),
      wc_time_of_day = g_f32 0 (map_of (tab_fields x) WorldClock_VT_TIME_OF_DAY),
      wc_moon_phase = g_f32 0 (map_of (tab_fields x) WorldClock_VT_MOON_PHASE)\<rparr>"

definition read_WorldClock :: "('b, 'o, 't) runtime \<Rightarrow> 't \<Rightarrow> world_clock_table option" where
  "read_WorldClock rt t = do {
     v1 \<leftarrow> WorldClock_day rt t;
     v2 \<leftarrow> WorldClock_time_of_day rt t;
     v3 \<leftarrow> WorldClock_moon_phase rt t;
     Some \<lparr>wc_day = v1, wc_time_of_day = v2, wc_moon_phase = v3\<rparr>
   }"

definition write_WorldClock :: "('b, 'o, 't) runtime \<Rightarrow> world_clock_table \<Rightarrow> ('b, 'o) state" where
  "write_WorldClock rt m = WorldClock_create rt
       \<lparr>WorldClockArgs_day = wc_day m,
        WorldClockArgs_time_of_day = wc_time_of_day m,
        WorldClockArgs_moon_phase = wc_moon_phase m\<rparr>"

lemma WorldClock_distinct: "distinct (map cop_vo (WorldClock_cops m))"
  by (simp add: WorldClock_cops_def vt)

lemma reads_WorldClock:
  assumes laws: "runtime_laws rt V"
  shows "reads V WorldClock_run_verifier (read_WorldClock rt) WorldClock_of"
  by (rule readsI)
    (simp add: read_WorldClock_def WorldClock_of_def WorldClock_run_verifier_def bind_struct bind_read get_scalars [OF laws] get_opts [OF laws])

lemma typed_WorldClock: "WorldClock_ok m \<Longrightarrow> has_type (TyTable WorldClock_run_verifier) (WorldClock_tree m)"
  by (simp add: WorldClock_tree_def table_of_def WorldClock_run_verifier_def bind_struct map_of_cops [OF WorldClock_distinct] WorldClock_ok_def)
    (auto simp: WorldClock_cops_def vt pred_opts elim!: option.pred_mono_strong list.pred_mono_strong simp del: has_type.simps)

lemma WorldClock_of_tree: "inverts WorldClock_ok WorldClock_of WorldClock_tree"
  by (rule invertsI, simp add: WorldClock_of_def WorldClock_tree_def table_of_def map_of_cops [OF WorldClock_distinct] WorldClock_ok_def)
    (simp add: WorldClock_cops_def vt read_back_data read_back_structs f32_unsign_zero_def)

lemma builds_WorldClock: "runtime_laws rt V \<Longrightarrow> builds V G (write_WorldClock rt m) (WorldClock_tree m)"
  unfolding write_WorldClock_def WorldClock_tree_def WorldClock_create_prog
  by ((rule builds_opt_bind builds_option builds_string builds_cells builds_write_vec builds_table  | assumption)+,
      simp_all add: WorldClock_cops_def WorldClock_distinct vt)

section \<open>WeatherSeed\<close>

definition WeatherSeed_ok :: "weather_seed_table \<Rightarrow> bool" where
  "WeatherSeed_ok m \<longleftrightarrow> True"

definition WeatherSeed_cops :: "weather_seed_table \<Rightarrow> content_op list" where
  "WeatherSeed_cops m =
     [CSlot WeatherSeed_VT_SEED (ScU64 (ws_seed m)) (ScU64 0),
      CSlot WeatherSeed_VT_EPOCH_DAY (ScU32 (ws_epoch_day m)) (ScU32 0)]"

definition WeatherSeed_tree :: "weather_seed_table \<Rightarrow> fbtree" where
  "WeatherSeed_tree m = table_of (WeatherSeed_cops m)"

definition WeatherSeed_of :: "fbtree \<Rightarrow> weather_seed_table" where
  "WeatherSeed_of x =
     \<lparr>ws_seed = g_u64 0 (map_of (tab_fields x) WeatherSeed_VT_SEED),
      ws_epoch_day = g_u32 0 (map_of (tab_fields x) WeatherSeed_VT_EPOCH_DAY)\<rparr>"

definition read_WeatherSeed :: "('b, 'o, 't) runtime \<Rightarrow> 't \<Rightarrow> weather_seed_table option" where
  "read_WeatherSeed rt t = do {
     v1 \<leftarrow> WeatherSeed_seed rt t;
     v2 \<leftarrow> WeatherSeed_epoch_day rt t;
     Some \<lparr>ws_seed = v1, ws_epoch_day = v2\<rparr>
   }"

definition write_WeatherSeed :: "('b, 'o, 't) runtime \<Rightarrow> weather_seed_table \<Rightarrow> ('b, 'o) state" where
  "write_WeatherSeed rt m = WeatherSeed_create rt
       \<lparr>WeatherSeedArgs_seed = ws_seed m,
        WeatherSeedArgs_epoch_day = ws_epoch_day m\<rparr>"

lemma WeatherSeed_distinct: "distinct (map cop_vo (WeatherSeed_cops m))"
  by (simp add: WeatherSeed_cops_def vt)

lemma reads_WeatherSeed:
  assumes laws: "runtime_laws rt V"
  shows "reads V WeatherSeed_run_verifier (read_WeatherSeed rt) WeatherSeed_of"
  by (rule readsI)
    (simp add: read_WeatherSeed_def WeatherSeed_of_def WeatherSeed_run_verifier_def bind_struct bind_read get_scalars [OF laws] get_opts [OF laws])

lemma typed_WeatherSeed: "WeatherSeed_ok m \<Longrightarrow> has_type (TyTable WeatherSeed_run_verifier) (WeatherSeed_tree m)"
  by (simp add: WeatherSeed_tree_def table_of_def WeatherSeed_run_verifier_def bind_struct map_of_cops [OF WeatherSeed_distinct] WeatherSeed_ok_def)
    (auto simp: WeatherSeed_cops_def vt pred_opts elim!: option.pred_mono_strong list.pred_mono_strong simp del: has_type.simps)

lemma WeatherSeed_of_tree: "inverts WeatherSeed_ok WeatherSeed_of WeatherSeed_tree"
  by (rule invertsI, simp add: WeatherSeed_of_def WeatherSeed_tree_def table_of_def map_of_cops [OF WeatherSeed_distinct] WeatherSeed_ok_def)
    (simp add: WeatherSeed_cops_def vt read_back_data read_back_structs f32_unsign_zero_def)

lemma builds_WeatherSeed: "runtime_laws rt V \<Longrightarrow> builds V G (write_WeatherSeed rt m) (WeatherSeed_tree m)"
  unfolding write_WeatherSeed_def WeatherSeed_tree_def WeatherSeed_create_prog
  by ((rule builds_opt_bind builds_option builds_string builds_cells builds_write_vec builds_table  | assumption)+,
      simp_all add: WeatherSeed_cops_def WeatherSeed_distinct vt)

section \<open>CapabilityManifest\<close>

definition CapabilityManifest_ok :: "capability_manifest \<Rightarrow> bool" where
  "CapabilityManifest_ok m \<longleftrightarrow> pred_option (list_all utf8_ok) (cm_features m) \<and> cm_cell_size_m m \<noteq> 0x80000000"

definition CapabilityManifest_cops :: "capability_manifest \<Rightarrow> content_op list" where
  "CapabilityManifest_cops m =
     [CSlot CapabilityManifest_VT_CELL_SIZE_M (ScF32 (cm_cell_size_m m)) (ScF32 0),
      COpt CapabilityManifest_VT_FEATURES (map_option (\<lambda>xs. TVec (map TStr xs)) (cm_features m)),
      CSlot CapabilityManifest_VT_PROTOCOL_VERSION (ScU16 (cm_protocol_version m)) (ScU16 0),
      CSlot CapabilityManifest_VT_AOI_RADIUS_CELLS (ScU8 (cm_aoi_radius_cells m)) (ScU8 0),
      CSlot CapabilityManifest_VT_SNAPSHOT_HZ (ScU8 (cm_snapshot_hz m)) (ScU8 0),
      CSlot CapabilityManifest_VT_TICK_HZ (ScU8 (cm_tick_hz m)) (ScU8 0)]"

definition CapabilityManifest_tree :: "capability_manifest \<Rightarrow> fbtree" where
  "CapabilityManifest_tree m = table_of (CapabilityManifest_cops m)"

definition CapabilityManifest_of :: "fbtree \<Rightarrow> capability_manifest" where
  "CapabilityManifest_of x =
     \<lparr>cm_protocol_version = g_u16 0 (map_of (tab_fields x) CapabilityManifest_VT_PROTOCOL_VERSION),
      cm_features = map_option (g_vec g_str) (map_of (tab_fields x) CapabilityManifest_VT_FEATURES),
      cm_tick_hz = g_u8 0 (map_of (tab_fields x) CapabilityManifest_VT_TICK_HZ),
      cm_snapshot_hz = g_u8 0 (map_of (tab_fields x) CapabilityManifest_VT_SNAPSHOT_HZ),
      cm_aoi_radius_cells = g_u8 0 (map_of (tab_fields x) CapabilityManifest_VT_AOI_RADIUS_CELLS),
      cm_cell_size_m = g_f32 0 (map_of (tab_fields x) CapabilityManifest_VT_CELL_SIZE_M)\<rparr>"

definition read_CapabilityManifest :: "('b, 'o, 't) runtime \<Rightarrow> 't \<Rightarrow> capability_manifest option" where
  "read_CapabilityManifest rt t = do {
     v1 \<leftarrow> CapabilityManifest_protocol_version rt t;
     v2 \<leftarrow> CapabilityManifest_features rt t;
     v3 \<leftarrow> CapabilityManifest_tick_hz rt t;
     v4 \<leftarrow> CapabilityManifest_snapshot_hz rt t;
     v5 \<leftarrow> CapabilityManifest_aoi_radius_cells rt t;
     v6 \<leftarrow> CapabilityManifest_cell_size_m rt t;
     Some \<lparr>cm_protocol_version = v1, cm_features = v2, cm_tick_hz = v3, cm_snapshot_hz = v4, cm_aoi_radius_cells = v5, cm_cell_size_m = v6\<rparr>
   }"

definition write_CapabilityManifest :: "('b, 'o, 't) runtime \<Rightarrow> capability_manifest \<Rightarrow> ('b, 'o) state" where
  "write_CapabilityManifest rt m = do {
     p1 \<leftarrow> option_state (write_vec rt (rt_create_string rt)) (cm_features m);
     CapabilityManifest_create rt
       \<lparr>CapabilityManifestArgs_protocol_version = cm_protocol_version m,
        CapabilityManifestArgs_features = p1,
        CapabilityManifestArgs_tick_hz = cm_tick_hz m,
        CapabilityManifestArgs_snapshot_hz = cm_snapshot_hz m,
        CapabilityManifestArgs_aoi_radius_cells = cm_aoi_radius_cells m,
        CapabilityManifestArgs_cell_size_m = cm_cell_size_m m\<rparr>
   }"

lemma CapabilityManifest_distinct: "distinct (map cop_vo (CapabilityManifest_cops m))"
  by (simp add: CapabilityManifest_cops_def vt)

lemma reads_CapabilityManifest:
  assumes laws: "runtime_laws rt V"
  shows "reads V CapabilityManifest_run_verifier (read_CapabilityManifest rt) CapabilityManifest_of"
  by (rule readsI)
    (simp add: read_CapabilityManifest_def CapabilityManifest_of_def CapabilityManifest_run_verifier_def bind_struct bind_read get_scalars [OF laws] get_opts [OF laws])

lemma typed_CapabilityManifest: "CapabilityManifest_ok m \<Longrightarrow> has_type (TyTable CapabilityManifest_run_verifier) (CapabilityManifest_tree m)"
  by (simp add: CapabilityManifest_tree_def table_of_def CapabilityManifest_run_verifier_def bind_struct map_of_cops [OF CapabilityManifest_distinct] CapabilityManifest_ok_def)
    (auto simp: CapabilityManifest_cops_def vt pred_opts elim!: option.pred_mono_strong list.pred_mono_strong simp del: has_type.simps)

lemma CapabilityManifest_of_tree: "inverts CapabilityManifest_ok CapabilityManifest_of CapabilityManifest_tree"
  by (rule invertsI, simp add: CapabilityManifest_of_def CapabilityManifest_tree_def table_of_def map_of_cops [OF CapabilityManifest_distinct] CapabilityManifest_ok_def)
    (simp add: CapabilityManifest_cops_def vt read_back_data read_back_structs f32_unsign_zero_def)

lemma builds_CapabilityManifest: "runtime_laws rt V \<Longrightarrow> builds V G (write_CapabilityManifest rt m) (CapabilityManifest_tree m)"
  unfolding write_CapabilityManifest_def CapabilityManifest_tree_def CapabilityManifest_create_prog
  by ((rule builds_opt_bind builds_option builds_string builds_cells builds_write_vec builds_table  | assumption)+,
      simp_all add: CapabilityManifest_cops_def CapabilityManifest_distinct vt)

section \<open>ClientHello\<close>

definition ClientHello_ok :: "client_hello \<Rightarrow> bool" where
  "ClientHello_ok m \<longleftrightarrow> pred_option utf8_ok (ch_display_name m) \<and> pred_option utf8_ok (ch_token m) \<and> pred_option utf8_ok (ch_game_build m) \<and> pred_option utf8_ok (ch_mod_version m) \<and> pred_option utf8_ok (ch_api_surface_hash m)"

definition ClientHello_cops :: "client_hello \<Rightarrow> content_op list" where
  "ClientHello_cops m =
     [COpt ClientHello_VT_API_SURFACE_HASH (map_option TStr (ch_api_surface_hash m)),
      COpt ClientHello_VT_MOD_VERSION (map_option TStr (ch_mod_version m)),
      COpt ClientHello_VT_GAME_BUILD (map_option TStr (ch_game_build m)),
      COpt ClientHello_VT_TOKEN (map_option TStr (ch_token m)),
      COpt ClientHello_VT_DISPLAY_NAME (map_option TStr (ch_display_name m)),
      CSlot ClientHello_VT_PROTOCOL_VERSION (ScU16 (ch_protocol_version m)) (ScU16 0)]"

definition ClientHello_tree :: "client_hello \<Rightarrow> fbtree" where
  "ClientHello_tree m = table_of (ClientHello_cops m)"

definition ClientHello_of :: "fbtree \<Rightarrow> client_hello" where
  "ClientHello_of x =
     \<lparr>ch_protocol_version = g_u16 0 (map_of (tab_fields x) ClientHello_VT_PROTOCOL_VERSION),
      ch_display_name = map_option g_str (map_of (tab_fields x) ClientHello_VT_DISPLAY_NAME),
      ch_token = map_option g_str (map_of (tab_fields x) ClientHello_VT_TOKEN),
      ch_game_build = map_option g_str (map_of (tab_fields x) ClientHello_VT_GAME_BUILD),
      ch_mod_version = map_option g_str (map_of (tab_fields x) ClientHello_VT_MOD_VERSION),
      ch_api_surface_hash = map_option g_str (map_of (tab_fields x) ClientHello_VT_API_SURFACE_HASH)\<rparr>"

definition read_ClientHello :: "('b, 'o, 't) runtime \<Rightarrow> 't \<Rightarrow> client_hello option" where
  "read_ClientHello rt t = do {
     v1 \<leftarrow> ClientHello_protocol_version rt t;
     v2 \<leftarrow> ClientHello_display_name rt t;
     v3 \<leftarrow> ClientHello_token rt t;
     v4 \<leftarrow> ClientHello_game_build rt t;
     v5 \<leftarrow> ClientHello_mod_version rt t;
     v6 \<leftarrow> ClientHello_api_surface_hash rt t;
     Some \<lparr>ch_protocol_version = v1, ch_display_name = v2, ch_token = v3, ch_game_build = v4, ch_mod_version = v5, ch_api_surface_hash = v6\<rparr>
   }"

definition write_ClientHello :: "('b, 'o, 't) runtime \<Rightarrow> client_hello \<Rightarrow> ('b, 'o) state" where
  "write_ClientHello rt m = do {
     p1 \<leftarrow> option_state (rt_create_string rt) (ch_display_name m);
     p2 \<leftarrow> option_state (rt_create_string rt) (ch_token m);
     p3 \<leftarrow> option_state (rt_create_string rt) (ch_game_build m);
     p4 \<leftarrow> option_state (rt_create_string rt) (ch_mod_version m);
     p5 \<leftarrow> option_state (rt_create_string rt) (ch_api_surface_hash m);
     ClientHello_create rt
       \<lparr>ClientHelloArgs_protocol_version = ch_protocol_version m,
        ClientHelloArgs_display_name = p1,
        ClientHelloArgs_token = p2,
        ClientHelloArgs_game_build = p3,
        ClientHelloArgs_mod_version = p4,
        ClientHelloArgs_api_surface_hash = p5\<rparr>
   }"

lemma ClientHello_distinct: "distinct (map cop_vo (ClientHello_cops m))"
  by (simp add: ClientHello_cops_def vt)

lemma reads_ClientHello:
  assumes laws: "runtime_laws rt V"
  shows "reads V ClientHello_run_verifier (read_ClientHello rt) ClientHello_of"
  by (rule readsI)
    (simp add: read_ClientHello_def ClientHello_of_def ClientHello_run_verifier_def bind_struct bind_read get_scalars [OF laws] get_opts [OF laws])

lemma typed_ClientHello: "ClientHello_ok m \<Longrightarrow> has_type (TyTable ClientHello_run_verifier) (ClientHello_tree m)"
  by (simp add: ClientHello_tree_def table_of_def ClientHello_run_verifier_def bind_struct map_of_cops [OF ClientHello_distinct] ClientHello_ok_def)
    (auto simp: ClientHello_cops_def vt pred_opts elim!: option.pred_mono_strong list.pred_mono_strong simp del: has_type.simps)

lemma ClientHello_of_tree: "inverts ClientHello_ok ClientHello_of ClientHello_tree"
  by (rule invertsI, simp add: ClientHello_of_def ClientHello_tree_def table_of_def map_of_cops [OF ClientHello_distinct] ClientHello_ok_def)
    (simp add: ClientHello_cops_def vt read_back_data read_back_structs f32_unsign_zero_def)

lemma builds_ClientHello: "runtime_laws rt V \<Longrightarrow> builds V G (write_ClientHello rt m) (ClientHello_tree m)"
  unfolding write_ClientHello_def ClientHello_tree_def ClientHello_create_prog
  by ((rule builds_opt_bind builds_option builds_string builds_cells builds_write_vec builds_table  | assumption)+,
      simp_all add: ClientHello_cops_def ClientHello_distinct vt)

section \<open>ServerHello\<close>

definition ServerHello_ok :: "server_hello_table \<Rightarrow> bool" where
  "ServerHello_ok m \<longleftrightarrow> pred_option utf8_ok (sh_reason m) \<and> pred_option utf8_ok (sh_server_name m) \<and> in_i64 (sh_balance_gold m) \<and> pred_option CapabilityManifest_ok (sh_capabilities m) \<and> pred_option WorldClock_ok (sh_clock m) \<and> pred_option WeatherSeed_ok (sh_weather m)"

definition ServerHello_cops :: "server_hello_table \<Rightarrow> content_op list" where
  "ServerHello_cops m =
     [CSlot ServerHello_VT_BALANCE_GOLD (ScI64 (sh_balance_gold m)) (ScI64 0),
      CSlot ServerHello_VT_PLAYER_ID (ScU64 (sh_player_id m)) (ScU64 0),
      COpt ServerHello_VT_WEATHER (map_option WeatherSeed_tree (sh_weather m)),
      COpt ServerHello_VT_CLOCK (map_option WorldClock_tree (sh_clock m)),
      COpt ServerHello_VT_CAPABILITIES (map_option CapabilityManifest_tree (sh_capabilities m)),
      COpt ServerHello_VT_SERVER_NAME (map_option TStr (sh_server_name m)),
      COpt ServerHello_VT_REASON (map_option TStr (sh_reason m)),
      CSlot ServerHello_VT_ACCEPTED (ScBool (sh_accepted m)) (ScBool False)]"

definition ServerHello_tree :: "server_hello_table \<Rightarrow> fbtree" where
  "ServerHello_tree m = table_of (ServerHello_cops m)"

definition ServerHello_of :: "fbtree \<Rightarrow> server_hello_table" where
  "ServerHello_of x =
     \<lparr>sh_accepted = g_bool False (map_of (tab_fields x) ServerHello_VT_ACCEPTED),
      sh_reason = map_option g_str (map_of (tab_fields x) ServerHello_VT_REASON),
      sh_player_id = g_u64 0 (map_of (tab_fields x) ServerHello_VT_PLAYER_ID),
      sh_server_name = map_option g_str (map_of (tab_fields x) ServerHello_VT_SERVER_NAME),
      sh_balance_gold = g_i64 0 (map_of (tab_fields x) ServerHello_VT_BALANCE_GOLD),
      sh_capabilities = map_option CapabilityManifest_of (map_of (tab_fields x) ServerHello_VT_CAPABILITIES),
      sh_clock = map_option WorldClock_of (map_of (tab_fields x) ServerHello_VT_CLOCK),
      sh_weather = map_option WeatherSeed_of (map_of (tab_fields x) ServerHello_VT_WEATHER)\<rparr>"

definition read_ServerHello :: "('b, 'o, 't) runtime \<Rightarrow> 't \<Rightarrow> server_hello_table option" where
  "read_ServerHello rt t = do {
     v1 \<leftarrow> ServerHello_accepted rt t;
     v2 \<leftarrow> ServerHello_reason rt t;
     v3 \<leftarrow> ServerHello_player_id rt t;
     v4 \<leftarrow> ServerHello_server_name rt t;
     v5 \<leftarrow> ServerHello_balance_gold rt t;
     v6 \<leftarrow> Option.bind (ServerHello_capabilities rt t) (follow_opt (read_CapabilityManifest rt));
     v7 \<leftarrow> Option.bind (ServerHello_clock rt t) (follow_opt (read_WorldClock rt));
     v8 \<leftarrow> Option.bind (ServerHello_weather rt t) (follow_opt (read_WeatherSeed rt));
     Some \<lparr>sh_accepted = v1, sh_reason = v2, sh_player_id = v3, sh_server_name = v4, sh_balance_gold = v5, sh_capabilities = v6, sh_clock = v7, sh_weather = v8\<rparr>
   }"

definition write_ServerHello :: "('b, 'o, 't) runtime \<Rightarrow> server_hello_table \<Rightarrow> ('b, 'o) state" where
  "write_ServerHello rt m = do {
     p1 \<leftarrow> option_state (rt_create_string rt) (sh_reason m);
     p2 \<leftarrow> option_state (rt_create_string rt) (sh_server_name m);
     p3 \<leftarrow> option_state (write_CapabilityManifest rt) (sh_capabilities m);
     p4 \<leftarrow> option_state (write_WorldClock rt) (sh_clock m);
     p5 \<leftarrow> option_state (write_WeatherSeed rt) (sh_weather m);
     ServerHello_create rt
       \<lparr>ServerHelloArgs_accepted = sh_accepted m,
        ServerHelloArgs_reason = p1,
        ServerHelloArgs_player_id = sh_player_id m,
        ServerHelloArgs_server_name = p2,
        ServerHelloArgs_balance_gold = sh_balance_gold m,
        ServerHelloArgs_capabilities = p3,
        ServerHelloArgs_clock = p4,
        ServerHelloArgs_weather = p5\<rparr>
   }"

lemma ServerHello_distinct: "distinct (map cop_vo (ServerHello_cops m))"
  by (simp add: ServerHello_cops_def vt)

lemma reads_ServerHello:
  assumes laws: "runtime_laws rt V"
  shows "reads V ServerHello_run_verifier (read_ServerHello rt) ServerHello_of"
  by (rule readsI)
    (simp add: read_ServerHello_def ServerHello_of_def ServerHello_run_verifier_def bind_struct bind_read get_scalars [OF laws] get_opts [OF laws]
      get_table [OF laws _ reads_CapabilityManifest [OF laws]]
      get_table [OF laws _ reads_WeatherSeed [OF laws]]
      get_table [OF laws _ reads_WorldClock [OF laws]])

lemma typed_ServerHello: "ServerHello_ok m \<Longrightarrow> has_type (TyTable ServerHello_run_verifier) (ServerHello_tree m)"
  by (simp add: ServerHello_tree_def table_of_def ServerHello_run_verifier_def bind_struct map_of_cops [OF ServerHello_distinct] ServerHello_ok_def)
    (auto simp: ServerHello_cops_def vt pred_opts typed_CapabilityManifest typed_WeatherSeed typed_WorldClock elim!: option.pred_mono_strong list.pred_mono_strong simp del: has_type.simps)

lemma ServerHello_of_tree: "inverts ServerHello_ok ServerHello_of ServerHello_tree"
  by (rule invertsI, simp add: ServerHello_of_def ServerHello_tree_def table_of_def map_of_cops [OF ServerHello_distinct] ServerHello_ok_def)
    (simp add: ServerHello_cops_def vt read_back_data read_back_structs f32_unsign_zero_def
      read_back_opt [OF CapabilityManifest_of_tree]
      read_back_opt [OF WeatherSeed_of_tree]
      read_back_opt [OF WorldClock_of_tree])

lemma builds_ServerHello: "runtime_laws rt V \<Longrightarrow> builds V G (write_ServerHello rt m) (ServerHello_tree m)"
  unfolding write_ServerHello_def ServerHello_tree_def ServerHello_create_prog
  by ((rule builds_opt_bind builds_option builds_string builds_cells builds_write_vec builds_table builds_CapabilityManifest builds_WeatherSeed builds_WorldClock | assumption)+,
      simp_all add: ServerHello_cops_def ServerHello_distinct vt)

section \<open>PlayerState\<close>

definition PlayerState_ok :: "player_state \<Rightarrow> bool" where
  "PlayerState_ok m \<longleftrightarrow> True"

definition PlayerState_cops :: "player_state \<Rightarrow> content_op list" where
  "PlayerState_cops m =
     [CSlot PlayerState_VT_ABOARD_BOAT (ScU64 (pt_aboard_boat m)) (ScU64 0),
      CSlot PlayerState_VT_PLAYER_ID (ScU64 (pt_player_id m)) (ScU64 0),
      CSlot PlayerState_VT_T_MS (ScU32 (pt_t_ms m)) (ScU32 0),
      COpt PlayerState_VT_ROT (map_option TStruct (map_option quat_struct (pt_rot m))),
      COpt PlayerState_VT_POS (map_option TStruct (map_option vec3_struct (pt_pos m)))]"

definition PlayerState_tree :: "player_state \<Rightarrow> fbtree" where
  "PlayerState_tree m = table_of (PlayerState_cops m)"

definition PlayerState_of :: "fbtree \<Rightarrow> player_state" where
  "PlayerState_of x =
     \<lparr>pt_player_id = g_u64 0 (map_of (tab_fields x) PlayerState_VT_PLAYER_ID),
      pt_pos = map_option struct_vec3 (map_option g_struct (map_of (tab_fields x) PlayerState_VT_POS)),
      pt_rot = map_option struct_quat (map_option g_struct (map_of (tab_fields x) PlayerState_VT_ROT)),
      pt_aboard_boat = g_u64 0 (map_of (tab_fields x) PlayerState_VT_ABOARD_BOAT),
      pt_t_ms = g_u32 0 (map_of (tab_fields x) PlayerState_VT_T_MS)\<rparr>"

definition read_PlayerState :: "('b, 'o, 't) runtime \<Rightarrow> 't \<Rightarrow> player_state option" where
  "read_PlayerState rt t = do {
     v1 \<leftarrow> PlayerState_player_id rt t;
     v2 \<leftarrow> PlayerState_pos rt t;
     v3 \<leftarrow> PlayerState_rot rt t;
     v4 \<leftarrow> PlayerState_aboard_boat rt t;
     v5 \<leftarrow> PlayerState_t_ms rt t;
     Some \<lparr>pt_player_id = v1, pt_pos = map_option struct_vec3 v2, pt_rot = map_option struct_quat v3, pt_aboard_boat = v4, pt_t_ms = v5\<rparr>
   }"

definition write_PlayerState :: "('b, 'o, 't) runtime \<Rightarrow> player_state \<Rightarrow> ('b, 'o) state" where
  "write_PlayerState rt m = PlayerState_create rt
       \<lparr>PlayerStateArgs_player_id = pt_player_id m,
        PlayerStateArgs_pos = map_option vec3_struct (pt_pos m),
        PlayerStateArgs_rot = map_option quat_struct (pt_rot m),
        PlayerStateArgs_aboard_boat = pt_aboard_boat m,
        PlayerStateArgs_t_ms = pt_t_ms m\<rparr>"

lemma PlayerState_distinct: "distinct (map cop_vo (PlayerState_cops m))"
  by (simp add: PlayerState_cops_def vt)

lemma reads_PlayerState:
  assumes laws: "runtime_laws rt V"
  shows "reads V PlayerState_run_verifier (read_PlayerState rt) PlayerState_of"
  by (rule readsI)
    (simp add: read_PlayerState_def PlayerState_of_def PlayerState_run_verifier_def bind_struct bind_read get_scalars [OF laws] get_opts [OF laws])

lemma typed_PlayerState: "PlayerState_ok m \<Longrightarrow> has_type (TyTable PlayerState_run_verifier) (PlayerState_tree m)"
  by (simp add: PlayerState_tree_def table_of_def PlayerState_run_verifier_def bind_struct map_of_cops [OF PlayerState_distinct] PlayerState_ok_def)
    (auto simp: PlayerState_cops_def vt pred_opts elim!: option.pred_mono_strong list.pred_mono_strong simp del: has_type.simps)

lemma PlayerState_of_tree: "inverts PlayerState_ok PlayerState_of PlayerState_tree"
  by (rule invertsI, simp add: PlayerState_of_def PlayerState_tree_def table_of_def map_of_cops [OF PlayerState_distinct] PlayerState_ok_def)
    (simp add: PlayerState_cops_def vt read_back_data read_back_structs f32_unsign_zero_def)

lemma builds_PlayerState: "runtime_laws rt V \<Longrightarrow> builds V G (write_PlayerState rt m) (PlayerState_tree m)"
  unfolding write_PlayerState_def PlayerState_tree_def PlayerState_create_prog
  by ((rule builds_opt_bind builds_option builds_string builds_cells builds_write_vec builds_table  | assumption)+,
      simp_all add: PlayerState_cops_def PlayerState_distinct vt)

section \<open>BoatState\<close>

definition BoatState_ok :: "boat_state \<Rightarrow> bool" where
  "BoatState_ok m \<longleftrightarrow> True"

definition BoatState_cops :: "boat_state \<Rightarrow> content_op list" where
  "BoatState_cops m =
     [CSlot BoatState_VT_OWNER (ScU64 (bt_owner m)) (ScU64 0),
      CSlot BoatState_VT_BOAT_ID (ScU64 (bt_boat_id m)) (ScU64 0),
      CSlot BoatState_VT_T_MS (ScU32 (bt_t_ms m)) (ScU32 0),
      COpt BoatState_VT_VEL (map_option TStruct (map_option vec3_struct (bt_vel m))),
      COpt BoatState_VT_ROT (map_option TStruct (map_option quat_struct (bt_rot m))),
      COpt BoatState_VT_POS (map_option TStruct (map_option vec3_struct (bt_pos m)))]"

definition BoatState_tree :: "boat_state \<Rightarrow> fbtree" where
  "BoatState_tree m = table_of (BoatState_cops m)"

definition BoatState_of :: "fbtree \<Rightarrow> boat_state" where
  "BoatState_of x =
     \<lparr>bt_boat_id = g_u64 0 (map_of (tab_fields x) BoatState_VT_BOAT_ID),
      bt_owner = g_u64 0 (map_of (tab_fields x) BoatState_VT_OWNER),
      bt_pos = map_option struct_vec3 (map_option g_struct (map_of (tab_fields x) BoatState_VT_POS)),
      bt_rot = map_option struct_quat (map_option g_struct (map_of (tab_fields x) BoatState_VT_ROT)),
      bt_vel = map_option struct_vec3 (map_option g_struct (map_of (tab_fields x) BoatState_VT_VEL)),
      bt_t_ms = g_u32 0 (map_of (tab_fields x) BoatState_VT_T_MS)\<rparr>"

definition read_BoatState :: "('b, 'o, 't) runtime \<Rightarrow> 't \<Rightarrow> boat_state option" where
  "read_BoatState rt t = do {
     v1 \<leftarrow> BoatState_boat_id rt t;
     v2 \<leftarrow> BoatState_owner rt t;
     v3 \<leftarrow> BoatState_pos rt t;
     v4 \<leftarrow> BoatState_rot rt t;
     v5 \<leftarrow> BoatState_vel rt t;
     v6 \<leftarrow> BoatState_t_ms rt t;
     Some \<lparr>bt_boat_id = v1, bt_owner = v2, bt_pos = map_option struct_vec3 v3, bt_rot = map_option struct_quat v4, bt_vel = map_option struct_vec3 v5, bt_t_ms = v6\<rparr>
   }"

definition write_BoatState :: "('b, 'o, 't) runtime \<Rightarrow> boat_state \<Rightarrow> ('b, 'o) state" where
  "write_BoatState rt m = BoatState_create rt
       \<lparr>BoatStateArgs_boat_id = bt_boat_id m,
        BoatStateArgs_owner = bt_owner m,
        BoatStateArgs_pos = map_option vec3_struct (bt_pos m),
        BoatStateArgs_rot = map_option quat_struct (bt_rot m),
        BoatStateArgs_vel = map_option vec3_struct (bt_vel m),
        BoatStateArgs_t_ms = bt_t_ms m\<rparr>"

lemma BoatState_distinct: "distinct (map cop_vo (BoatState_cops m))"
  by (simp add: BoatState_cops_def vt)

lemma reads_BoatState:
  assumes laws: "runtime_laws rt V"
  shows "reads V BoatState_run_verifier (read_BoatState rt) BoatState_of"
  by (rule readsI)
    (simp add: read_BoatState_def BoatState_of_def BoatState_run_verifier_def bind_struct bind_read get_scalars [OF laws] get_opts [OF laws])

lemma typed_BoatState: "BoatState_ok m \<Longrightarrow> has_type (TyTable BoatState_run_verifier) (BoatState_tree m)"
  by (simp add: BoatState_tree_def table_of_def BoatState_run_verifier_def bind_struct map_of_cops [OF BoatState_distinct] BoatState_ok_def)
    (auto simp: BoatState_cops_def vt pred_opts elim!: option.pred_mono_strong list.pred_mono_strong simp del: has_type.simps)

lemma BoatState_of_tree: "inverts BoatState_ok BoatState_of BoatState_tree"
  by (rule invertsI, simp add: BoatState_of_def BoatState_tree_def table_of_def map_of_cops [OF BoatState_distinct] BoatState_ok_def)
    (simp add: BoatState_cops_def vt read_back_data read_back_structs f32_unsign_zero_def)

lemma builds_BoatState: "runtime_laws rt V \<Longrightarrow> builds V G (write_BoatState rt m) (BoatState_tree m)"
  unfolding write_BoatState_def BoatState_tree_def BoatState_create_prog
  by ((rule builds_opt_bind builds_option builds_string builds_cells builds_write_vec builds_table  | assumption)+,
      simp_all add: BoatState_cops_def BoatState_distinct vt)

section \<open>ClientState\<close>

definition ClientState_ok :: "client_state \<Rightarrow> bool" where
  "ClientState_ok m \<longleftrightarrow> True"

definition ClientState_cops :: "client_state \<Rightarrow> content_op list" where
  "ClientState_cops m =
     [CSlot ClientState_VT_ABOARD_BOAT (ScU64 (cs_aboard_boat m)) (ScU64 0),
      CSlot ClientState_VT_T_MS (ScU32 (cs_t_ms m)) (ScU32 0),
      COpt ClientState_VT_VEL (map_option TStruct (map_option vec3_struct (cs_vel m))),
      COpt ClientState_VT_ROT (map_option TStruct (map_option quat_struct (cs_rot m))),
      COpt ClientState_VT_POS (map_option TStruct (map_option vec3_struct (cs_pos m)))]"

definition ClientState_tree :: "client_state \<Rightarrow> fbtree" where
  "ClientState_tree m = table_of (ClientState_cops m)"

definition ClientState_of :: "fbtree \<Rightarrow> client_state" where
  "ClientState_of x =
     \<lparr>cs_pos = map_option struct_vec3 (map_option g_struct (map_of (tab_fields x) ClientState_VT_POS)),
      cs_rot = map_option struct_quat (map_option g_struct (map_of (tab_fields x) ClientState_VT_ROT)),
      cs_vel = map_option struct_vec3 (map_option g_struct (map_of (tab_fields x) ClientState_VT_VEL)),
      cs_aboard_boat = g_u64 0 (map_of (tab_fields x) ClientState_VT_ABOARD_BOAT),
      cs_t_ms = g_u32 0 (map_of (tab_fields x) ClientState_VT_T_MS)\<rparr>"

definition read_ClientState :: "('b, 'o, 't) runtime \<Rightarrow> 't \<Rightarrow> client_state option" where
  "read_ClientState rt t = do {
     v1 \<leftarrow> ClientState_pos rt t;
     v2 \<leftarrow> ClientState_rot rt t;
     v3 \<leftarrow> ClientState_vel rt t;
     v4 \<leftarrow> ClientState_aboard_boat rt t;
     v5 \<leftarrow> ClientState_t_ms rt t;
     Some \<lparr>cs_pos = map_option struct_vec3 v1, cs_rot = map_option struct_quat v2, cs_vel = map_option struct_vec3 v3, cs_aboard_boat = v4, cs_t_ms = v5\<rparr>
   }"

definition write_ClientState :: "('b, 'o, 't) runtime \<Rightarrow> client_state \<Rightarrow> ('b, 'o) state" where
  "write_ClientState rt m = ClientState_create rt
       \<lparr>ClientStateArgs_pos = map_option vec3_struct (cs_pos m),
        ClientStateArgs_rot = map_option quat_struct (cs_rot m),
        ClientStateArgs_vel = map_option vec3_struct (cs_vel m),
        ClientStateArgs_aboard_boat = cs_aboard_boat m,
        ClientStateArgs_t_ms = cs_t_ms m\<rparr>"

lemma ClientState_distinct: "distinct (map cop_vo (ClientState_cops m))"
  by (simp add: ClientState_cops_def vt)

lemma reads_ClientState:
  assumes laws: "runtime_laws rt V"
  shows "reads V ClientState_run_verifier (read_ClientState rt) ClientState_of"
  by (rule readsI)
    (simp add: read_ClientState_def ClientState_of_def ClientState_run_verifier_def bind_struct bind_read get_scalars [OF laws] get_opts [OF laws])

lemma typed_ClientState: "ClientState_ok m \<Longrightarrow> has_type (TyTable ClientState_run_verifier) (ClientState_tree m)"
  by (simp add: ClientState_tree_def table_of_def ClientState_run_verifier_def bind_struct map_of_cops [OF ClientState_distinct] ClientState_ok_def)
    (auto simp: ClientState_cops_def vt pred_opts elim!: option.pred_mono_strong list.pred_mono_strong simp del: has_type.simps)

lemma ClientState_of_tree: "inverts ClientState_ok ClientState_of ClientState_tree"
  by (rule invertsI, simp add: ClientState_of_def ClientState_tree_def table_of_def map_of_cops [OF ClientState_distinct] ClientState_ok_def)
    (simp add: ClientState_cops_def vt read_back_data read_back_structs f32_unsign_zero_def)

lemma builds_ClientState: "runtime_laws rt V \<Longrightarrow> builds V G (write_ClientState rt m) (ClientState_tree m)"
  unfolding write_ClientState_def ClientState_tree_def ClientState_create_prog
  by ((rule builds_opt_bind builds_option builds_string builds_cells builds_write_vec builds_table  | assumption)+,
      simp_all add: ClientState_cops_def ClientState_distinct vt)

section \<open>SnapshotDelta\<close>

definition SnapshotDelta_ok :: "snapshot_delta_table \<Rightarrow> bool" where
  "SnapshotDelta_ok m \<longleftrightarrow> pred_option (list_all PlayerState_ok) (sd_players m) \<and> pred_option (list_all BoatState_ok) (sd_boats m)"

definition SnapshotDelta_cops :: "snapshot_delta_table \<Rightarrow> content_op list" where
  "SnapshotDelta_cops m =
     [COpt SnapshotDelta_VT_BOATS (map_option (\<lambda>xs. TVec (map BoatState_tree xs)) (sd_boats m)),
      COpt SnapshotDelta_VT_PLAYERS (map_option (\<lambda>xs. TVec (map PlayerState_tree xs)) (sd_players m)),
      CSlot SnapshotDelta_VT_SERVER_TICK (ScU32 (sd_server_tick m)) (ScU32 0)]"

definition SnapshotDelta_tree :: "snapshot_delta_table \<Rightarrow> fbtree" where
  "SnapshotDelta_tree m = table_of (SnapshotDelta_cops m)"

definition SnapshotDelta_of :: "fbtree \<Rightarrow> snapshot_delta_table" where
  "SnapshotDelta_of x =
     \<lparr>sd_server_tick = g_u32 0 (map_of (tab_fields x) SnapshotDelta_VT_SERVER_TICK),
      sd_players = map_option (g_vec PlayerState_of) (map_of (tab_fields x) SnapshotDelta_VT_PLAYERS),
      sd_boats = map_option (g_vec BoatState_of) (map_of (tab_fields x) SnapshotDelta_VT_BOATS)\<rparr>"

definition read_SnapshotDelta :: "('b, 'o, 't) runtime \<Rightarrow> 't \<Rightarrow> snapshot_delta_table option" where
  "read_SnapshotDelta rt t = do {
     v1 \<leftarrow> SnapshotDelta_server_tick rt t;
     v2 \<leftarrow> Option.bind (SnapshotDelta_players rt t) (follow_vec (read_PlayerState rt));
     v3 \<leftarrow> Option.bind (SnapshotDelta_boats rt t) (follow_vec (read_BoatState rt));
     Some \<lparr>sd_server_tick = v1, sd_players = v2, sd_boats = v3\<rparr>
   }"

definition write_SnapshotDelta :: "('b, 'o, 't) runtime \<Rightarrow> snapshot_delta_table \<Rightarrow> ('b, 'o) state" where
  "write_SnapshotDelta rt m = do {
     p1 \<leftarrow> option_state (write_vec rt (write_PlayerState rt)) (sd_players m);
     p2 \<leftarrow> option_state (write_vec rt (write_BoatState rt)) (sd_boats m);
     SnapshotDelta_create rt
       \<lparr>SnapshotDeltaArgs_server_tick = sd_server_tick m,
        SnapshotDeltaArgs_players = p1,
        SnapshotDeltaArgs_boats = p2\<rparr>
   }"

lemma SnapshotDelta_distinct: "distinct (map cop_vo (SnapshotDelta_cops m))"
  by (simp add: SnapshotDelta_cops_def vt)

lemma reads_SnapshotDelta:
  assumes laws: "runtime_laws rt V"
  shows "reads V SnapshotDelta_run_verifier (read_SnapshotDelta rt) SnapshotDelta_of"
  by (rule readsI)
    (simp add: read_SnapshotDelta_def SnapshotDelta_of_def SnapshotDelta_run_verifier_def bind_struct bind_read get_scalars [OF laws] get_opts [OF laws]
      get_tables [OF laws _ reads_BoatState [OF laws]]
      get_tables [OF laws _ reads_PlayerState [OF laws]])

lemma typed_SnapshotDelta: "SnapshotDelta_ok m \<Longrightarrow> has_type (TyTable SnapshotDelta_run_verifier) (SnapshotDelta_tree m)"
  by (simp add: SnapshotDelta_tree_def table_of_def SnapshotDelta_run_verifier_def bind_struct map_of_cops [OF SnapshotDelta_distinct] SnapshotDelta_ok_def)
    (auto simp: SnapshotDelta_cops_def vt pred_opts typed_BoatState typed_PlayerState elim!: option.pred_mono_strong list.pred_mono_strong simp del: has_type.simps)

lemma SnapshotDelta_of_tree: "inverts SnapshotDelta_ok SnapshotDelta_of SnapshotDelta_tree"
  by (rule invertsI, simp add: SnapshotDelta_of_def SnapshotDelta_tree_def table_of_def map_of_cops [OF SnapshotDelta_distinct] SnapshotDelta_ok_def)
    (simp add: SnapshotDelta_cops_def vt read_back_data read_back_structs f32_unsign_zero_def
      read_back_vec [OF BoatState_of_tree]
      read_back_vec [OF PlayerState_of_tree])

lemma builds_SnapshotDelta: "runtime_laws rt V \<Longrightarrow> builds V G (write_SnapshotDelta rt m) (SnapshotDelta_tree m)"
  unfolding write_SnapshotDelta_def SnapshotDelta_tree_def SnapshotDelta_create_prog
  by ((rule builds_opt_bind builds_option builds_string builds_cells builds_write_vec builds_table builds_BoatState builds_PlayerState | assumption)+,
      simp_all add: SnapshotDelta_cops_def SnapshotDelta_distinct vt)

section \<open>MoorageRecord\<close>

definition MoorageRecord_ok :: "moorage_record \<Rightarrow> bool" where
  "MoorageRecord_ok m \<longleftrightarrow> pred_option cell_ok (mo_cell m) \<and> pred_option utf8_ok (mo_name m)"

definition MoorageRecord_cops :: "moorage_record \<Rightarrow> content_op list" where
  "MoorageRecord_cops m =
     [CSlot MoorageRecord_VT_CREATED_AT (ScU64 (mo_created_at m)) (ScU64 0),
      CSlot MoorageRecord_VT_OWNER (ScU64 (mo_owner m)) (ScU64 0),
      CSlot MoorageRecord_VT_BOAT_ID (ScU64 (mo_boat_id m)) (ScU64 0),
      COpt MoorageRecord_VT_NAME (map_option TStr (mo_name m)),
      COpt MoorageRecord_VT_ROT (map_option TStruct (map_option quat_struct (mo_rot m))),
      COpt MoorageRecord_VT_POS (map_option TStruct (map_option vec3_struct (mo_pos m))),
      COpt MoorageRecord_VT_CELL (map_option TStruct (map_option cell_struct (mo_cell m)))]"

definition MoorageRecord_tree :: "moorage_record \<Rightarrow> fbtree" where
  "MoorageRecord_tree m = table_of (MoorageRecord_cops m)"

definition MoorageRecord_of :: "fbtree \<Rightarrow> moorage_record" where
  "MoorageRecord_of x =
     \<lparr>mo_boat_id = g_u64 0 (map_of (tab_fields x) MoorageRecord_VT_BOAT_ID),
      mo_owner = g_u64 0 (map_of (tab_fields x) MoorageRecord_VT_OWNER),
      mo_cell = map_option struct_cell (map_option g_struct (map_of (tab_fields x) MoorageRecord_VT_CELL)),
      mo_pos = map_option struct_vec3 (map_option g_struct (map_of (tab_fields x) MoorageRecord_VT_POS)),
      mo_rot = map_option struct_quat (map_option g_struct (map_of (tab_fields x) MoorageRecord_VT_ROT)),
      mo_name = map_option g_str (map_of (tab_fields x) MoorageRecord_VT_NAME),
      mo_created_at = g_u64 0 (map_of (tab_fields x) MoorageRecord_VT_CREATED_AT)\<rparr>"

definition read_MoorageRecord :: "('b, 'o, 't) runtime \<Rightarrow> 't \<Rightarrow> moorage_record option" where
  "read_MoorageRecord rt t = do {
     v1 \<leftarrow> MoorageRecord_boat_id rt t;
     v2 \<leftarrow> MoorageRecord_owner rt t;
     v3 \<leftarrow> MoorageRecord_cell rt t;
     v4 \<leftarrow> MoorageRecord_pos rt t;
     v5 \<leftarrow> MoorageRecord_rot rt t;
     v6 \<leftarrow> MoorageRecord_name rt t;
     v7 \<leftarrow> MoorageRecord_created_at rt t;
     Some \<lparr>mo_boat_id = v1, mo_owner = v2, mo_cell = map_option struct_cell v3, mo_pos = map_option struct_vec3 v4, mo_rot = map_option struct_quat v5, mo_name = v6, mo_created_at = v7\<rparr>
   }"

definition write_MoorageRecord :: "('b, 'o, 't) runtime \<Rightarrow> moorage_record \<Rightarrow> ('b, 'o) state" where
  "write_MoorageRecord rt m = do {
     p1 \<leftarrow> option_state (rt_create_string rt) (mo_name m);
     MoorageRecord_create rt
       \<lparr>MoorageRecordArgs_boat_id = mo_boat_id m,
        MoorageRecordArgs_owner = mo_owner m,
        MoorageRecordArgs_cell = map_option cell_struct (mo_cell m),
        MoorageRecordArgs_pos = map_option vec3_struct (mo_pos m),
        MoorageRecordArgs_rot = map_option quat_struct (mo_rot m),
        MoorageRecordArgs_name = p1,
        MoorageRecordArgs_created_at = mo_created_at m\<rparr>
   }"

lemma MoorageRecord_distinct: "distinct (map cop_vo (MoorageRecord_cops m))"
  by (simp add: MoorageRecord_cops_def vt)

lemma reads_MoorageRecord:
  assumes laws: "runtime_laws rt V"
  shows "reads V MoorageRecord_run_verifier (read_MoorageRecord rt) MoorageRecord_of"
  by (rule readsI)
    (simp add: read_MoorageRecord_def MoorageRecord_of_def MoorageRecord_run_verifier_def bind_struct bind_read get_scalars [OF laws] get_opts [OF laws])

lemma typed_MoorageRecord: "MoorageRecord_ok m \<Longrightarrow> has_type (TyTable MoorageRecord_run_verifier) (MoorageRecord_tree m)"
  by (simp add: MoorageRecord_tree_def table_of_def MoorageRecord_run_verifier_def bind_struct map_of_cops [OF MoorageRecord_distinct] MoorageRecord_ok_def)
    (auto simp: MoorageRecord_cops_def vt pred_opts elim!: option.pred_mono_strong list.pred_mono_strong simp del: has_type.simps)

lemma MoorageRecord_of_tree: "inverts MoorageRecord_ok MoorageRecord_of MoorageRecord_tree"
  by (rule invertsI, simp add: MoorageRecord_of_def MoorageRecord_tree_def table_of_def map_of_cops [OF MoorageRecord_distinct] MoorageRecord_ok_def)
    (simp add: MoorageRecord_cops_def vt read_back_data read_back_structs f32_unsign_zero_def)

lemma builds_MoorageRecord: "runtime_laws rt V \<Longrightarrow> builds V G (write_MoorageRecord rt m) (MoorageRecord_tree m)"
  unfolding write_MoorageRecord_def MoorageRecord_tree_def MoorageRecord_create_prog
  by ((rule builds_opt_bind builds_option builds_string builds_cells builds_write_vec builds_table  | assumption)+,
      simp_all add: MoorageRecord_cops_def MoorageRecord_distinct vt)

section \<open>MoorRequest\<close>

definition MoorRequest_ok :: "moor_request \<Rightarrow> bool" where
  "MoorRequest_ok m \<longleftrightarrow> pred_option utf8_ok (mq_name m)"

definition MoorRequest_cops :: "moor_request \<Rightarrow> content_op list" where
  "MoorRequest_cops m =
     [COpt MoorRequest_VT_NAME (map_option TStr (mq_name m)),
      COpt MoorRequest_VT_ROT (map_option TStruct (map_option quat_struct (mq_rot m))),
      COpt MoorRequest_VT_POS (map_option TStruct (map_option vec3_struct (mq_pos m)))]"

definition MoorRequest_tree :: "moor_request \<Rightarrow> fbtree" where
  "MoorRequest_tree m = table_of (MoorRequest_cops m)"

definition MoorRequest_of :: "fbtree \<Rightarrow> moor_request" where
  "MoorRequest_of x =
     \<lparr>mq_pos = map_option struct_vec3 (map_option g_struct (map_of (tab_fields x) MoorRequest_VT_POS)),
      mq_rot = map_option struct_quat (map_option g_struct (map_of (tab_fields x) MoorRequest_VT_ROT)),
      mq_name = map_option g_str (map_of (tab_fields x) MoorRequest_VT_NAME)\<rparr>"

definition read_MoorRequest :: "('b, 'o, 't) runtime \<Rightarrow> 't \<Rightarrow> moor_request option" where
  "read_MoorRequest rt t = do {
     v1 \<leftarrow> MoorRequest_pos rt t;
     v2 \<leftarrow> MoorRequest_rot rt t;
     v3 \<leftarrow> MoorRequest_name rt t;
     Some \<lparr>mq_pos = map_option struct_vec3 v1, mq_rot = map_option struct_quat v2, mq_name = v3\<rparr>
   }"

definition write_MoorRequest :: "('b, 'o, 't) runtime \<Rightarrow> moor_request \<Rightarrow> ('b, 'o) state" where
  "write_MoorRequest rt m = do {
     p1 \<leftarrow> option_state (rt_create_string rt) (mq_name m);
     MoorRequest_create rt
       \<lparr>MoorRequestArgs_pos = map_option vec3_struct (mq_pos m),
        MoorRequestArgs_rot = map_option quat_struct (mq_rot m),
        MoorRequestArgs_name = p1\<rparr>
   }"

lemma MoorRequest_distinct: "distinct (map cop_vo (MoorRequest_cops m))"
  by (simp add: MoorRequest_cops_def vt)

lemma reads_MoorRequest:
  assumes laws: "runtime_laws rt V"
  shows "reads V MoorRequest_run_verifier (read_MoorRequest rt) MoorRequest_of"
  by (rule readsI)
    (simp add: read_MoorRequest_def MoorRequest_of_def MoorRequest_run_verifier_def bind_struct bind_read get_scalars [OF laws] get_opts [OF laws])

lemma typed_MoorRequest: "MoorRequest_ok m \<Longrightarrow> has_type (TyTable MoorRequest_run_verifier) (MoorRequest_tree m)"
  by (simp add: MoorRequest_tree_def table_of_def MoorRequest_run_verifier_def bind_struct map_of_cops [OF MoorRequest_distinct] MoorRequest_ok_def)
    (auto simp: MoorRequest_cops_def vt pred_opts elim!: option.pred_mono_strong list.pred_mono_strong simp del: has_type.simps)

lemma MoorRequest_of_tree: "inverts MoorRequest_ok MoorRequest_of MoorRequest_tree"
  by (rule invertsI, simp add: MoorRequest_of_def MoorRequest_tree_def table_of_def map_of_cops [OF MoorRequest_distinct] MoorRequest_ok_def)
    (simp add: MoorRequest_cops_def vt read_back_data read_back_structs f32_unsign_zero_def)

lemma builds_MoorRequest: "runtime_laws rt V \<Longrightarrow> builds V G (write_MoorRequest rt m) (MoorRequest_tree m)"
  unfolding write_MoorRequest_def MoorRequest_tree_def MoorRequest_create_prog
  by ((rule builds_opt_bind builds_option builds_string builds_cells builds_write_vec builds_table  | assumption)+,
      simp_all add: MoorRequest_cops_def MoorRequest_distinct vt)

section \<open>MoorAck\<close>

definition MoorAck_ok :: "moor_ack_table \<Rightarrow> bool" where
  "MoorAck_ok m \<longleftrightarrow> pred_option MoorageRecord_ok (ma_record m) \<and> pred_option utf8_ok (ma_reason m)"

definition MoorAck_cops :: "moor_ack_table \<Rightarrow> content_op list" where
  "MoorAck_cops m =
     [COpt MoorAck_VT_REASON (map_option TStr (ma_reason m)),
      COpt MoorAck_VT_RECORD (map_option MoorageRecord_tree (ma_record m)),
      CSlot MoorAck_VT_ACCEPTED (ScBool (ma_accepted m)) (ScBool False)]"

definition MoorAck_tree :: "moor_ack_table \<Rightarrow> fbtree" where
  "MoorAck_tree m = table_of (MoorAck_cops m)"

definition MoorAck_of :: "fbtree \<Rightarrow> moor_ack_table" where
  "MoorAck_of x =
     \<lparr>ma_accepted = g_bool False (map_of (tab_fields x) MoorAck_VT_ACCEPTED),
      ma_record = map_option MoorageRecord_of (map_of (tab_fields x) MoorAck_VT_RECORD),
      ma_reason = map_option g_str (map_of (tab_fields x) MoorAck_VT_REASON)\<rparr>"

definition read_MoorAck :: "('b, 'o, 't) runtime \<Rightarrow> 't \<Rightarrow> moor_ack_table option" where
  "read_MoorAck rt t = do {
     v1 \<leftarrow> MoorAck_accepted rt t;
     v2 \<leftarrow> Option.bind (MoorAck_record rt t) (follow_opt (read_MoorageRecord rt));
     v3 \<leftarrow> MoorAck_reason rt t;
     Some \<lparr>ma_accepted = v1, ma_record = v2, ma_reason = v3\<rparr>
   }"

definition write_MoorAck :: "('b, 'o, 't) runtime \<Rightarrow> moor_ack_table \<Rightarrow> ('b, 'o) state" where
  "write_MoorAck rt m = do {
     p1 \<leftarrow> option_state (rt_create_string rt) (ma_reason m);
     p2 \<leftarrow> option_state (write_MoorageRecord rt) (ma_record m);
     MoorAck_create rt
       \<lparr>MoorAckArgs_accepted = ma_accepted m,
        MoorAckArgs_record = p2,
        MoorAckArgs_reason = p1\<rparr>
   }"

lemma MoorAck_distinct: "distinct (map cop_vo (MoorAck_cops m))"
  by (simp add: MoorAck_cops_def vt)

lemma reads_MoorAck:
  assumes laws: "runtime_laws rt V"
  shows "reads V MoorAck_run_verifier (read_MoorAck rt) MoorAck_of"
  by (rule readsI)
    (simp add: read_MoorAck_def MoorAck_of_def MoorAck_run_verifier_def bind_struct bind_read get_scalars [OF laws] get_opts [OF laws]
      get_table [OF laws _ reads_MoorageRecord [OF laws]])

lemma typed_MoorAck: "MoorAck_ok m \<Longrightarrow> has_type (TyTable MoorAck_run_verifier) (MoorAck_tree m)"
  by (simp add: MoorAck_tree_def table_of_def MoorAck_run_verifier_def bind_struct map_of_cops [OF MoorAck_distinct] MoorAck_ok_def)
    (auto simp: MoorAck_cops_def vt pred_opts typed_MoorageRecord elim!: option.pred_mono_strong list.pred_mono_strong simp del: has_type.simps)

lemma MoorAck_of_tree: "inverts MoorAck_ok MoorAck_of MoorAck_tree"
  by (rule invertsI, simp add: MoorAck_of_def MoorAck_tree_def table_of_def map_of_cops [OF MoorAck_distinct] MoorAck_ok_def)
    (simp add: MoorAck_cops_def vt read_back_data read_back_structs f32_unsign_zero_def
      read_back_opt [OF MoorageRecord_of_tree])

lemma builds_MoorAck: "runtime_laws rt V \<Longrightarrow> builds V G (write_MoorAck rt m) (MoorAck_tree m)"
  unfolding write_MoorAck_def MoorAck_tree_def MoorAck_create_prog
  by ((rule builds_opt_bind builds_option builds_string builds_cells builds_write_vec builds_table builds_MoorageRecord | assumption)+,
      simp_all add: MoorAck_cops_def MoorAck_distinct vt)

section \<open>AoiUpdate\<close>

definition AoiUpdate_ok :: "aoi_update_table \<Rightarrow> bool" where
  "AoiUpdate_ok m \<longleftrightarrow> pred_option (list_all cell_ok) (aud_added m) \<and> pred_option (list_all cell_ok) (aud_removed m)"

definition AoiUpdate_cops :: "aoi_update_table \<Rightarrow> content_op list" where
  "AoiUpdate_cops m =
     [COpt AoiUpdate_VT_REMOVED (map_option (\<lambda>xs. TVec (map (\<lambda>c. TStruct (cell_struct c)) xs)) (aud_removed m)),
      COpt AoiUpdate_VT_ADDED (map_option (\<lambda>xs. TVec (map (\<lambda>c. TStruct (cell_struct c)) xs)) (aud_added m))]"

definition AoiUpdate_tree :: "aoi_update_table \<Rightarrow> fbtree" where
  "AoiUpdate_tree m = table_of (AoiUpdate_cops m)"

definition AoiUpdate_of :: "fbtree \<Rightarrow> aoi_update_table" where
  "AoiUpdate_of x =
     \<lparr>aud_added = map_option (map struct_cell) (map_option (g_vec g_struct) (map_of (tab_fields x) AoiUpdate_VT_ADDED)),
      aud_removed = map_option (map struct_cell) (map_option (g_vec g_struct) (map_of (tab_fields x) AoiUpdate_VT_REMOVED))\<rparr>"

definition read_AoiUpdate :: "('b, 'o, 't) runtime \<Rightarrow> 't \<Rightarrow> aoi_update_table option" where
  "read_AoiUpdate rt t = do {
     v1 \<leftarrow> AoiUpdate_added rt t;
     v2 \<leftarrow> AoiUpdate_removed rt t;
     Some \<lparr>aud_added = map_option (map struct_cell) v1, aud_removed = map_option (map struct_cell) v2\<rparr>
   }"

definition write_AoiUpdate :: "('b, 'o, 't) runtime \<Rightarrow> aoi_update_table \<Rightarrow> ('b, 'o) state" where
  "write_AoiUpdate rt m = do {
     p1 \<leftarrow> option_state (\<lambda>cs. rt_create_vector rt (map (\<lambda>c. Struct (cell_struct c)) cs)) (aud_added m);
     p2 \<leftarrow> option_state (\<lambda>cs. rt_create_vector rt (map (\<lambda>c. Struct (cell_struct c)) cs)) (aud_removed m);
     AoiUpdate_create rt
       \<lparr>AoiUpdateArgs_added = p1,
        AoiUpdateArgs_removed = p2\<rparr>
   }"

lemma AoiUpdate_distinct: "distinct (map cop_vo (AoiUpdate_cops m))"
  by (simp add: AoiUpdate_cops_def vt)

lemma reads_AoiUpdate:
  assumes laws: "runtime_laws rt V"
  shows "reads V AoiUpdate_run_verifier (read_AoiUpdate rt) AoiUpdate_of"
  by (rule readsI)
    (simp add: read_AoiUpdate_def AoiUpdate_of_def AoiUpdate_run_verifier_def bind_struct bind_read get_scalars [OF laws] get_opts [OF laws])

lemma typed_AoiUpdate: "AoiUpdate_ok m \<Longrightarrow> has_type (TyTable AoiUpdate_run_verifier) (AoiUpdate_tree m)"
  by (simp add: AoiUpdate_tree_def table_of_def AoiUpdate_run_verifier_def bind_struct map_of_cops [OF AoiUpdate_distinct] AoiUpdate_ok_def)
    (auto simp: AoiUpdate_cops_def vt pred_opts elim!: option.pred_mono_strong list.pred_mono_strong simp del: has_type.simps)

lemma AoiUpdate_of_tree: "inverts AoiUpdate_ok AoiUpdate_of AoiUpdate_tree"
  by (rule invertsI, simp add: AoiUpdate_of_def AoiUpdate_tree_def table_of_def map_of_cops [OF AoiUpdate_distinct] AoiUpdate_ok_def)
    (simp add: AoiUpdate_cops_def vt read_back_data read_back_structs f32_unsign_zero_def)

lemma builds_AoiUpdate: "runtime_laws rt V \<Longrightarrow> builds V G (write_AoiUpdate rt m) (AoiUpdate_tree m)"
  unfolding write_AoiUpdate_def AoiUpdate_tree_def AoiUpdate_create_prog
  by ((rule builds_opt_bind builds_option builds_string builds_cells builds_write_vec builds_table  | assumption)+,
      simp_all add: AoiUpdate_cops_def AoiUpdate_distinct vt)

section \<open>CellSnapshot\<close>

definition CellSnapshot_ok :: "cell_snapshot_table \<Rightarrow> bool" where
  "CellSnapshot_ok m \<longleftrightarrow> pred_option cell_ok (sn_cell m) \<and> pred_option (list_all PlayerState_ok) (sn_players m) \<and> pred_option (list_all BoatState_ok) (sn_boats m) \<and> pred_option (list_all MoorageRecord_ok) (sn_moorings m)"

definition CellSnapshot_cops :: "cell_snapshot_table \<Rightarrow> content_op list" where
  "CellSnapshot_cops m =
     [COpt CellSnapshot_VT_MOORINGS (map_option (\<lambda>xs. TVec (map MoorageRecord_tree xs)) (sn_moorings m)),
      COpt CellSnapshot_VT_BOATS (map_option (\<lambda>xs. TVec (map BoatState_tree xs)) (sn_boats m)),
      COpt CellSnapshot_VT_PLAYERS (map_option (\<lambda>xs. TVec (map PlayerState_tree xs)) (sn_players m)),
      COpt CellSnapshot_VT_CELL (map_option TStruct (map_option cell_struct (sn_cell m)))]"

definition CellSnapshot_tree :: "cell_snapshot_table \<Rightarrow> fbtree" where
  "CellSnapshot_tree m = table_of (CellSnapshot_cops m)"

definition CellSnapshot_of :: "fbtree \<Rightarrow> cell_snapshot_table" where
  "CellSnapshot_of x =
     \<lparr>sn_cell = map_option struct_cell (map_option g_struct (map_of (tab_fields x) CellSnapshot_VT_CELL)),
      sn_players = map_option (g_vec PlayerState_of) (map_of (tab_fields x) CellSnapshot_VT_PLAYERS),
      sn_boats = map_option (g_vec BoatState_of) (map_of (tab_fields x) CellSnapshot_VT_BOATS),
      sn_moorings = map_option (g_vec MoorageRecord_of) (map_of (tab_fields x) CellSnapshot_VT_MOORINGS)\<rparr>"

definition read_CellSnapshot :: "('b, 'o, 't) runtime \<Rightarrow> 't \<Rightarrow> cell_snapshot_table option" where
  "read_CellSnapshot rt t = do {
     v1 \<leftarrow> CellSnapshot_cell rt t;
     v2 \<leftarrow> Option.bind (CellSnapshot_players rt t) (follow_vec (read_PlayerState rt));
     v3 \<leftarrow> Option.bind (CellSnapshot_boats rt t) (follow_vec (read_BoatState rt));
     v4 \<leftarrow> Option.bind (CellSnapshot_moorings rt t) (follow_vec (read_MoorageRecord rt));
     Some \<lparr>sn_cell = map_option struct_cell v1, sn_players = v2, sn_boats = v3, sn_moorings = v4\<rparr>
   }"

definition write_CellSnapshot :: "('b, 'o, 't) runtime \<Rightarrow> cell_snapshot_table \<Rightarrow> ('b, 'o) state" where
  "write_CellSnapshot rt m = do {
     p1 \<leftarrow> option_state (write_vec rt (write_PlayerState rt)) (sn_players m);
     p2 \<leftarrow> option_state (write_vec rt (write_BoatState rt)) (sn_boats m);
     p3 \<leftarrow> option_state (write_vec rt (write_MoorageRecord rt)) (sn_moorings m);
     CellSnapshot_create rt
       \<lparr>CellSnapshotArgs_cell = map_option cell_struct (sn_cell m),
        CellSnapshotArgs_players = p1,
        CellSnapshotArgs_boats = p2,
        CellSnapshotArgs_moorings = p3\<rparr>
   }"

lemma CellSnapshot_distinct: "distinct (map cop_vo (CellSnapshot_cops m))"
  by (simp add: CellSnapshot_cops_def vt)

lemma reads_CellSnapshot:
  assumes laws: "runtime_laws rt V"
  shows "reads V CellSnapshot_run_verifier (read_CellSnapshot rt) CellSnapshot_of"
  by (rule readsI)
    (simp add: read_CellSnapshot_def CellSnapshot_of_def CellSnapshot_run_verifier_def bind_struct bind_read get_scalars [OF laws] get_opts [OF laws]
      get_tables [OF laws _ reads_BoatState [OF laws]]
      get_tables [OF laws _ reads_MoorageRecord [OF laws]]
      get_tables [OF laws _ reads_PlayerState [OF laws]])

lemma typed_CellSnapshot: "CellSnapshot_ok m \<Longrightarrow> has_type (TyTable CellSnapshot_run_verifier) (CellSnapshot_tree m)"
  by (simp add: CellSnapshot_tree_def table_of_def CellSnapshot_run_verifier_def bind_struct map_of_cops [OF CellSnapshot_distinct] CellSnapshot_ok_def)
    (auto simp: CellSnapshot_cops_def vt pred_opts typed_BoatState typed_MoorageRecord typed_PlayerState elim!: option.pred_mono_strong list.pred_mono_strong simp del: has_type.simps)

lemma CellSnapshot_of_tree: "inverts CellSnapshot_ok CellSnapshot_of CellSnapshot_tree"
  by (rule invertsI, simp add: CellSnapshot_of_def CellSnapshot_tree_def table_of_def map_of_cops [OF CellSnapshot_distinct] CellSnapshot_ok_def)
    (simp add: CellSnapshot_cops_def vt read_back_data read_back_structs f32_unsign_zero_def
      read_back_vec [OF BoatState_of_tree]
      read_back_vec [OF MoorageRecord_of_tree]
      read_back_vec [OF PlayerState_of_tree])

lemma builds_CellSnapshot: "runtime_laws rt V \<Longrightarrow> builds V G (write_CellSnapshot rt m) (CellSnapshot_tree m)"
  unfolding write_CellSnapshot_def CellSnapshot_tree_def CellSnapshot_create_prog
  by ((rule builds_opt_bind builds_option builds_string builds_cells builds_write_vec builds_table builds_BoatState builds_MoorageRecord builds_PlayerState | assumption)+,
      simp_all add: CellSnapshot_cops_def CellSnapshot_distinct vt)

section \<open>EconTxn\<close>

definition EconTxn_ok :: "econ_txn \<Rightarrow> bool" where
  "EconTxn_ok m \<longleftrightarrow> in_i64 (et_amount_gold m) \<and> pred_option utf8_ok (et_note m)"

definition EconTxn_cops :: "econ_txn \<Rightarrow> content_op list" where
  "EconTxn_cops m =
     [CSlot EconTxn_VT_AMOUNT_GOLD (ScI64 (et_amount_gold m)) (ScI64 0),
      CSlot EconTxn_VT_TXN_ID (ScU64 (et_txn_id m)) (ScU64 0),
      COpt EconTxn_VT_NOTE (map_option TStr (et_note m)),
      CSlot EconTxn_VT_KIND (ScU8 (et_kind m)) (ScU8 0)]"

definition EconTxn_tree :: "econ_txn \<Rightarrow> fbtree" where
  "EconTxn_tree m = table_of (EconTxn_cops m)"

definition EconTxn_of :: "fbtree \<Rightarrow> econ_txn" where
  "EconTxn_of x =
     \<lparr>et_txn_id = g_u64 0 (map_of (tab_fields x) EconTxn_VT_TXN_ID),
      et_amount_gold = g_i64 0 (map_of (tab_fields x) EconTxn_VT_AMOUNT_GOLD),
      et_kind = g_u8 0 (map_of (tab_fields x) EconTxn_VT_KIND),
      et_note = map_option g_str (map_of (tab_fields x) EconTxn_VT_NOTE)\<rparr>"

definition read_EconTxn :: "('b, 'o, 't) runtime \<Rightarrow> 't \<Rightarrow> econ_txn option" where
  "read_EconTxn rt t = do {
     v1 \<leftarrow> EconTxn_txn_id rt t;
     v2 \<leftarrow> EconTxn_amount_gold rt t;
     v3 \<leftarrow> EconTxn_kind rt t;
     v4 \<leftarrow> EconTxn_note rt t;
     Some \<lparr>et_txn_id = v1, et_amount_gold = v2, et_kind = v3, et_note = v4\<rparr>
   }"

definition write_EconTxn :: "('b, 'o, 't) runtime \<Rightarrow> econ_txn \<Rightarrow> ('b, 'o) state" where
  "write_EconTxn rt m = do {
     p1 \<leftarrow> option_state (rt_create_string rt) (et_note m);
     EconTxn_create rt
       \<lparr>EconTxnArgs_txn_id = et_txn_id m,
        EconTxnArgs_amount_gold = et_amount_gold m,
        EconTxnArgs_kind = et_kind m,
        EconTxnArgs_note = p1\<rparr>
   }"

lemma EconTxn_distinct: "distinct (map cop_vo (EconTxn_cops m))"
  by (simp add: EconTxn_cops_def vt)

lemma reads_EconTxn:
  assumes laws: "runtime_laws rt V"
  shows "reads V EconTxn_run_verifier (read_EconTxn rt) EconTxn_of"
  by (rule readsI)
    (simp add: read_EconTxn_def EconTxn_of_def EconTxn_run_verifier_def bind_struct bind_read get_scalars [OF laws] get_opts [OF laws])

lemma typed_EconTxn: "EconTxn_ok m \<Longrightarrow> has_type (TyTable EconTxn_run_verifier) (EconTxn_tree m)"
  by (simp add: EconTxn_tree_def table_of_def EconTxn_run_verifier_def bind_struct map_of_cops [OF EconTxn_distinct] EconTxn_ok_def)
    (auto simp: EconTxn_cops_def vt pred_opts elim!: option.pred_mono_strong list.pred_mono_strong simp del: has_type.simps)

lemma EconTxn_of_tree: "inverts EconTxn_ok EconTxn_of EconTxn_tree"
  by (rule invertsI, simp add: EconTxn_of_def EconTxn_tree_def table_of_def map_of_cops [OF EconTxn_distinct] EconTxn_ok_def)
    (simp add: EconTxn_cops_def vt read_back_data read_back_structs f32_unsign_zero_def)

lemma builds_EconTxn: "runtime_laws rt V \<Longrightarrow> builds V G (write_EconTxn rt m) (EconTxn_tree m)"
  unfolding write_EconTxn_def EconTxn_tree_def EconTxn_create_prog
  by ((rule builds_opt_bind builds_option builds_string builds_cells builds_write_vec builds_table  | assumption)+,
      simp_all add: EconTxn_cops_def EconTxn_distinct vt)

section \<open>LedgerAck\<close>

definition LedgerAck_ok :: "ledger_ack_table \<Rightarrow> bool" where
  "LedgerAck_ok m \<longleftrightarrow> in_i64 (la_new_balance m) \<and> pred_option utf8_ok (la_reason m)"

definition LedgerAck_cops :: "ledger_ack_table \<Rightarrow> content_op list" where
  "LedgerAck_cops m =
     [CSlot LedgerAck_VT_NEW_BALANCE (ScI64 (la_new_balance m)) (ScI64 0),
      CSlot LedgerAck_VT_TXN_ID (ScU64 (la_txn_id m)) (ScU64 0),
      COpt LedgerAck_VT_REASON (map_option TStr (la_reason m)),
      CSlot LedgerAck_VT_ACCEPTED (ScBool (la_accepted m)) (ScBool False)]"

definition LedgerAck_tree :: "ledger_ack_table \<Rightarrow> fbtree" where
  "LedgerAck_tree m = table_of (LedgerAck_cops m)"

definition LedgerAck_of :: "fbtree \<Rightarrow> ledger_ack_table" where
  "LedgerAck_of x =
     \<lparr>la_txn_id = g_u64 0 (map_of (tab_fields x) LedgerAck_VT_TXN_ID),
      la_accepted = g_bool False (map_of (tab_fields x) LedgerAck_VT_ACCEPTED),
      la_new_balance = g_i64 0 (map_of (tab_fields x) LedgerAck_VT_NEW_BALANCE),
      la_reason = map_option g_str (map_of (tab_fields x) LedgerAck_VT_REASON)\<rparr>"

definition read_LedgerAck :: "('b, 'o, 't) runtime \<Rightarrow> 't \<Rightarrow> ledger_ack_table option" where
  "read_LedgerAck rt t = do {
     v1 \<leftarrow> LedgerAck_txn_id rt t;
     v2 \<leftarrow> LedgerAck_accepted rt t;
     v3 \<leftarrow> LedgerAck_new_balance rt t;
     v4 \<leftarrow> LedgerAck_reason rt t;
     Some \<lparr>la_txn_id = v1, la_accepted = v2, la_new_balance = v3, la_reason = v4\<rparr>
   }"

definition write_LedgerAck :: "('b, 'o, 't) runtime \<Rightarrow> ledger_ack_table \<Rightarrow> ('b, 'o) state" where
  "write_LedgerAck rt m = do {
     p1 \<leftarrow> option_state (rt_create_string rt) (la_reason m);
     LedgerAck_create rt
       \<lparr>LedgerAckArgs_txn_id = la_txn_id m,
        LedgerAckArgs_accepted = la_accepted m,
        LedgerAckArgs_new_balance = la_new_balance m,
        LedgerAckArgs_reason = p1\<rparr>
   }"

lemma LedgerAck_distinct: "distinct (map cop_vo (LedgerAck_cops m))"
  by (simp add: LedgerAck_cops_def vt)

lemma reads_LedgerAck:
  assumes laws: "runtime_laws rt V"
  shows "reads V LedgerAck_run_verifier (read_LedgerAck rt) LedgerAck_of"
  by (rule readsI)
    (simp add: read_LedgerAck_def LedgerAck_of_def LedgerAck_run_verifier_def bind_struct bind_read get_scalars [OF laws] get_opts [OF laws])

lemma typed_LedgerAck: "LedgerAck_ok m \<Longrightarrow> has_type (TyTable LedgerAck_run_verifier) (LedgerAck_tree m)"
  by (simp add: LedgerAck_tree_def table_of_def LedgerAck_run_verifier_def bind_struct map_of_cops [OF LedgerAck_distinct] LedgerAck_ok_def)
    (auto simp: LedgerAck_cops_def vt pred_opts elim!: option.pred_mono_strong list.pred_mono_strong simp del: has_type.simps)

lemma LedgerAck_of_tree: "inverts LedgerAck_ok LedgerAck_of LedgerAck_tree"
  by (rule invertsI, simp add: LedgerAck_of_def LedgerAck_tree_def table_of_def map_of_cops [OF LedgerAck_distinct] LedgerAck_ok_def)
    (simp add: LedgerAck_cops_def vt read_back_data read_back_structs f32_unsign_zero_def)

lemma builds_LedgerAck: "runtime_laws rt V \<Longrightarrow> builds V G (write_LedgerAck rt m) (LedgerAck_tree m)"
  unfolding write_LedgerAck_def LedgerAck_tree_def LedgerAck_create_prog
  by ((rule builds_opt_bind builds_option builds_string builds_cells builds_write_vec builds_table  | assumption)+,
      simp_all add: LedgerAck_cops_def LedgerAck_distinct vt)

section \<open>MarketTradeRequest\<close>

definition MarketTradeRequest_ok :: "market_trade_request \<Rightarrow> bool" where
  "MarketTradeRequest_ok m \<longleftrightarrow> in_i64 (mt_qty m) \<and> in_i64 (mt_unit_price m)"

definition MarketTradeRequest_cops :: "market_trade_request \<Rightarrow> content_op list" where
  "MarketTradeRequest_cops m =
     [CSlot MarketTradeRequest_VT_UNIT_PRICE (ScI64 (mt_unit_price m)) (ScI64 0),
      CSlot MarketTradeRequest_VT_QTY (ScI64 (mt_qty m)) (ScI64 0),
      CSlot MarketTradeRequest_VT_TXN_ID (ScU64 (mt_txn_id m)) (ScU64 0),
      CSlot MarketTradeRequest_VT_ITEM_ID (ScU32 (mt_item_id m)) (ScU32 0),
      CSlot MarketTradeRequest_VT_PORT_ID (ScU32 (mt_port_id m)) (ScU32 0)]"

definition MarketTradeRequest_tree :: "market_trade_request \<Rightarrow> fbtree" where
  "MarketTradeRequest_tree m = table_of (MarketTradeRequest_cops m)"

definition MarketTradeRequest_of :: "fbtree \<Rightarrow> market_trade_request" where
  "MarketTradeRequest_of x =
     \<lparr>mt_txn_id = g_u64 0 (map_of (tab_fields x) MarketTradeRequest_VT_TXN_ID),
      mt_port_id = g_u32 0 (map_of (tab_fields x) MarketTradeRequest_VT_PORT_ID),
      mt_item_id = g_u32 0 (map_of (tab_fields x) MarketTradeRequest_VT_ITEM_ID),
      mt_qty = g_i64 0 (map_of (tab_fields x) MarketTradeRequest_VT_QTY),
      mt_unit_price = g_i64 0 (map_of (tab_fields x) MarketTradeRequest_VT_UNIT_PRICE)\<rparr>"

definition read_MarketTradeRequest :: "('b, 'o, 't) runtime \<Rightarrow> 't \<Rightarrow> market_trade_request option" where
  "read_MarketTradeRequest rt t = do {
     v1 \<leftarrow> MarketTradeRequest_txn_id rt t;
     v2 \<leftarrow> MarketTradeRequest_port_id rt t;
     v3 \<leftarrow> MarketTradeRequest_item_id rt t;
     v4 \<leftarrow> MarketTradeRequest_qty rt t;
     v5 \<leftarrow> MarketTradeRequest_unit_price rt t;
     Some \<lparr>mt_txn_id = v1, mt_port_id = v2, mt_item_id = v3, mt_qty = v4, mt_unit_price = v5\<rparr>
   }"

definition write_MarketTradeRequest :: "('b, 'o, 't) runtime \<Rightarrow> market_trade_request \<Rightarrow> ('b, 'o) state" where
  "write_MarketTradeRequest rt m = MarketTradeRequest_create rt
       \<lparr>MarketTradeRequestArgs_txn_id = mt_txn_id m,
        MarketTradeRequestArgs_port_id = mt_port_id m,
        MarketTradeRequestArgs_item_id = mt_item_id m,
        MarketTradeRequestArgs_qty = mt_qty m,
        MarketTradeRequestArgs_unit_price = mt_unit_price m\<rparr>"

lemma MarketTradeRequest_distinct: "distinct (map cop_vo (MarketTradeRequest_cops m))"
  by (simp add: MarketTradeRequest_cops_def vt)

lemma reads_MarketTradeRequest:
  assumes laws: "runtime_laws rt V"
  shows "reads V MarketTradeRequest_run_verifier (read_MarketTradeRequest rt) MarketTradeRequest_of"
  by (rule readsI)
    (simp add: read_MarketTradeRequest_def MarketTradeRequest_of_def MarketTradeRequest_run_verifier_def bind_struct bind_read get_scalars [OF laws] get_opts [OF laws])

lemma typed_MarketTradeRequest: "MarketTradeRequest_ok m \<Longrightarrow> has_type (TyTable MarketTradeRequest_run_verifier) (MarketTradeRequest_tree m)"
  by (simp add: MarketTradeRequest_tree_def table_of_def MarketTradeRequest_run_verifier_def bind_struct map_of_cops [OF MarketTradeRequest_distinct] MarketTradeRequest_ok_def)
    (auto simp: MarketTradeRequest_cops_def vt pred_opts elim!: option.pred_mono_strong list.pred_mono_strong simp del: has_type.simps)

lemma MarketTradeRequest_of_tree: "inverts MarketTradeRequest_ok MarketTradeRequest_of MarketTradeRequest_tree"
  by (rule invertsI, simp add: MarketTradeRequest_of_def MarketTradeRequest_tree_def table_of_def map_of_cops [OF MarketTradeRequest_distinct] MarketTradeRequest_ok_def)
    (simp add: MarketTradeRequest_cops_def vt read_back_data read_back_structs f32_unsign_zero_def)

lemma builds_MarketTradeRequest: "runtime_laws rt V \<Longrightarrow> builds V G (write_MarketTradeRequest rt m) (MarketTradeRequest_tree m)"
  unfolding write_MarketTradeRequest_def MarketTradeRequest_tree_def MarketTradeRequest_create_prog
  by ((rule builds_opt_bind builds_option builds_string builds_cells builds_write_vec builds_table  | assumption)+,
      simp_all add: MarketTradeRequest_cops_def MarketTradeRequest_distinct vt)

section \<open>MarketStateAck\<close>

definition MarketStateAck_ok :: "market_state_ack_table \<Rightarrow> bool" where
  "MarketStateAck_ok m \<longleftrightarrow> in_i64 (mk_stock m) \<and> in_i64 (mk_price m) \<and> pred_option utf8_ok (mk_reason m)"

definition MarketStateAck_cops :: "market_state_ack_table \<Rightarrow> content_op list" where
  "MarketStateAck_cops m =
     [CSlot MarketStateAck_VT_PRICE (ScI64 (mk_price m)) (ScI64 0),
      CSlot MarketStateAck_VT_STOCK (ScI64 (mk_stock m)) (ScI64 0),
      CSlot MarketStateAck_VT_TXN_ID (ScU64 (mk_txn_id m)) (ScU64 0),
      COpt MarketStateAck_VT_REASON (map_option TStr (mk_reason m)),
      CSlot MarketStateAck_VT_ITEM_ID (ScU32 (mk_item_id m)) (ScU32 0),
      CSlot MarketStateAck_VT_PORT_ID (ScU32 (mk_port_id m)) (ScU32 0),
      CSlot MarketStateAck_VT_ACCEPTED (ScBool (mk_accepted m)) (ScBool False)]"

definition MarketStateAck_tree :: "market_state_ack_table \<Rightarrow> fbtree" where
  "MarketStateAck_tree m = table_of (MarketStateAck_cops m)"

definition MarketStateAck_of :: "fbtree \<Rightarrow> market_state_ack_table" where
  "MarketStateAck_of x =
     \<lparr>mk_txn_id = g_u64 0 (map_of (tab_fields x) MarketStateAck_VT_TXN_ID),
      mk_accepted = g_bool False (map_of (tab_fields x) MarketStateAck_VT_ACCEPTED),
      mk_port_id = g_u32 0 (map_of (tab_fields x) MarketStateAck_VT_PORT_ID),
      mk_item_id = g_u32 0 (map_of (tab_fields x) MarketStateAck_VT_ITEM_ID),
      mk_stock = g_i64 0 (map_of (tab_fields x) MarketStateAck_VT_STOCK),
      mk_price = g_i64 0 (map_of (tab_fields x) MarketStateAck_VT_PRICE),
      mk_reason = map_option g_str (map_of (tab_fields x) MarketStateAck_VT_REASON)\<rparr>"

definition read_MarketStateAck :: "('b, 'o, 't) runtime \<Rightarrow> 't \<Rightarrow> market_state_ack_table option" where
  "read_MarketStateAck rt t = do {
     v1 \<leftarrow> MarketStateAck_txn_id rt t;
     v2 \<leftarrow> MarketStateAck_accepted rt t;
     v3 \<leftarrow> MarketStateAck_port_id rt t;
     v4 \<leftarrow> MarketStateAck_item_id rt t;
     v5 \<leftarrow> MarketStateAck_stock rt t;
     v6 \<leftarrow> MarketStateAck_price rt t;
     v7 \<leftarrow> MarketStateAck_reason rt t;
     Some \<lparr>mk_txn_id = v1, mk_accepted = v2, mk_port_id = v3, mk_item_id = v4, mk_stock = v5, mk_price = v6, mk_reason = v7\<rparr>
   }"

definition write_MarketStateAck :: "('b, 'o, 't) runtime \<Rightarrow> market_state_ack_table \<Rightarrow> ('b, 'o) state" where
  "write_MarketStateAck rt m = do {
     p1 \<leftarrow> option_state (rt_create_string rt) (mk_reason m);
     MarketStateAck_create rt
       \<lparr>MarketStateAckArgs_txn_id = mk_txn_id m,
        MarketStateAckArgs_accepted = mk_accepted m,
        MarketStateAckArgs_port_id = mk_port_id m,
        MarketStateAckArgs_item_id = mk_item_id m,
        MarketStateAckArgs_stock = mk_stock m,
        MarketStateAckArgs_price = mk_price m,
        MarketStateAckArgs_reason = p1\<rparr>
   }"

lemma MarketStateAck_distinct: "distinct (map cop_vo (MarketStateAck_cops m))"
  by (simp add: MarketStateAck_cops_def vt)

lemma reads_MarketStateAck:
  assumes laws: "runtime_laws rt V"
  shows "reads V MarketStateAck_run_verifier (read_MarketStateAck rt) MarketStateAck_of"
  by (rule readsI)
    (simp add: read_MarketStateAck_def MarketStateAck_of_def MarketStateAck_run_verifier_def bind_struct bind_read get_scalars [OF laws] get_opts [OF laws])

lemma typed_MarketStateAck: "MarketStateAck_ok m \<Longrightarrow> has_type (TyTable MarketStateAck_run_verifier) (MarketStateAck_tree m)"
  by (simp add: MarketStateAck_tree_def table_of_def MarketStateAck_run_verifier_def bind_struct map_of_cops [OF MarketStateAck_distinct] MarketStateAck_ok_def)
    (auto simp: MarketStateAck_cops_def vt pred_opts elim!: option.pred_mono_strong list.pred_mono_strong simp del: has_type.simps)

lemma MarketStateAck_of_tree: "inverts MarketStateAck_ok MarketStateAck_of MarketStateAck_tree"
  by (rule invertsI, simp add: MarketStateAck_of_def MarketStateAck_tree_def table_of_def map_of_cops [OF MarketStateAck_distinct] MarketStateAck_ok_def)
    (simp add: MarketStateAck_cops_def vt read_back_data read_back_structs f32_unsign_zero_def)

lemma builds_MarketStateAck: "runtime_laws rt V \<Longrightarrow> builds V G (write_MarketStateAck rt m) (MarketStateAck_tree m)"
  unfolding write_MarketStateAck_def MarketStateAck_tree_def MarketStateAck_create_prog
  by ((rule builds_opt_bind builds_option builds_string builds_cells builds_write_vec builds_table  | assumption)+,
      simp_all add: MarketStateAck_cops_def MarketStateAck_distinct vt)

section \<open>ChatSend\<close>

definition ChatSend_ok :: "chat_send \<Rightarrow> bool" where
  "ChatSend_ok m \<longleftrightarrow> pred_option utf8_ok (cd_text m)"

definition ChatSend_cops :: "chat_send \<Rightarrow> content_op list" where
  "ChatSend_cops m =
     [COpt ChatSend_VT_TEXT (map_option TStr (cd_text m)),
      CSlot ChatSend_VT_CHANNEL (ScU8 (cd_channel m)) (ScU8 0)]"

definition ChatSend_tree :: "chat_send \<Rightarrow> fbtree" where
  "ChatSend_tree m = table_of (ChatSend_cops m)"

definition ChatSend_of :: "fbtree \<Rightarrow> chat_send" where
  "ChatSend_of x =
     \<lparr>cd_text = map_option g_str (map_of (tab_fields x) ChatSend_VT_TEXT),
      cd_channel = g_u8 0 (map_of (tab_fields x) ChatSend_VT_CHANNEL)\<rparr>"

definition read_ChatSend :: "('b, 'o, 't) runtime \<Rightarrow> 't \<Rightarrow> chat_send option" where
  "read_ChatSend rt t = do {
     v1 \<leftarrow> ChatSend_text rt t;
     v2 \<leftarrow> ChatSend_channel rt t;
     Some \<lparr>cd_text = v1, cd_channel = v2\<rparr>
   }"

definition write_ChatSend :: "('b, 'o, 't) runtime \<Rightarrow> chat_send \<Rightarrow> ('b, 'o) state" where
  "write_ChatSend rt m = do {
     p1 \<leftarrow> option_state (rt_create_string rt) (cd_text m);
     ChatSend_create rt
       \<lparr>ChatSendArgs_text = p1,
        ChatSendArgs_channel = cd_channel m\<rparr>
   }"

lemma ChatSend_distinct: "distinct (map cop_vo (ChatSend_cops m))"
  by (simp add: ChatSend_cops_def vt)

lemma reads_ChatSend:
  assumes laws: "runtime_laws rt V"
  shows "reads V ChatSend_run_verifier (read_ChatSend rt) ChatSend_of"
  by (rule readsI)
    (simp add: read_ChatSend_def ChatSend_of_def ChatSend_run_verifier_def bind_struct bind_read get_scalars [OF laws] get_opts [OF laws])

lemma typed_ChatSend: "ChatSend_ok m \<Longrightarrow> has_type (TyTable ChatSend_run_verifier) (ChatSend_tree m)"
  by (simp add: ChatSend_tree_def table_of_def ChatSend_run_verifier_def bind_struct map_of_cops [OF ChatSend_distinct] ChatSend_ok_def)
    (auto simp: ChatSend_cops_def vt pred_opts elim!: option.pred_mono_strong list.pred_mono_strong simp del: has_type.simps)

lemma ChatSend_of_tree: "inverts ChatSend_ok ChatSend_of ChatSend_tree"
  by (rule invertsI, simp add: ChatSend_of_def ChatSend_tree_def table_of_def map_of_cops [OF ChatSend_distinct] ChatSend_ok_def)
    (simp add: ChatSend_cops_def vt read_back_data read_back_structs f32_unsign_zero_def)

lemma builds_ChatSend: "runtime_laws rt V \<Longrightarrow> builds V G (write_ChatSend rt m) (ChatSend_tree m)"
  unfolding write_ChatSend_def ChatSend_tree_def ChatSend_create_prog
  by ((rule builds_opt_bind builds_option builds_string builds_cells builds_write_vec builds_table  | assumption)+,
      simp_all add: ChatSend_cops_def ChatSend_distinct vt)

section \<open>ChatBroadcast\<close>

definition ChatBroadcast_ok :: "chat_broadcast_table \<Rightarrow> bool" where
  "ChatBroadcast_ok m \<longleftrightarrow> pred_option utf8_ok (cb_display_name m) \<and> pred_option utf8_ok (cb_text m)"

definition ChatBroadcast_cops :: "chat_broadcast_table \<Rightarrow> content_op list" where
  "ChatBroadcast_cops m =
     [CSlot ChatBroadcast_VT_PLAYER_ID (ScU64 (cb_player_id m)) (ScU64 0),
      CSlot ChatBroadcast_VT_T_MS (ScU32 (cb_t_ms m)) (ScU32 0),
      COpt ChatBroadcast_VT_TEXT (map_option TStr (cb_text m)),
      COpt ChatBroadcast_VT_DISPLAY_NAME (map_option TStr (cb_display_name m)),
      CSlot ChatBroadcast_VT_CHANNEL (ScU8 (cb_channel m)) (ScU8 0)]"

definition ChatBroadcast_tree :: "chat_broadcast_table \<Rightarrow> fbtree" where
  "ChatBroadcast_tree m = table_of (ChatBroadcast_cops m)"

definition ChatBroadcast_of :: "fbtree \<Rightarrow> chat_broadcast_table" where
  "ChatBroadcast_of x =
     \<lparr>cb_player_id = g_u64 0 (map_of (tab_fields x) ChatBroadcast_VT_PLAYER_ID),
      cb_display_name = map_option g_str (map_of (tab_fields x) ChatBroadcast_VT_DISPLAY_NAME),
      cb_text = map_option g_str (map_of (tab_fields x) ChatBroadcast_VT_TEXT),
      cb_channel = g_u8 0 (map_of (tab_fields x) ChatBroadcast_VT_CHANNEL),
      cb_t_ms = g_u32 0 (map_of (tab_fields x) ChatBroadcast_VT_T_MS)\<rparr>"

definition read_ChatBroadcast :: "('b, 'o, 't) runtime \<Rightarrow> 't \<Rightarrow> chat_broadcast_table option" where
  "read_ChatBroadcast rt t = do {
     v1 \<leftarrow> ChatBroadcast_player_id rt t;
     v2 \<leftarrow> ChatBroadcast_display_name rt t;
     v3 \<leftarrow> ChatBroadcast_text rt t;
     v4 \<leftarrow> ChatBroadcast_channel rt t;
     v5 \<leftarrow> ChatBroadcast_t_ms rt t;
     Some \<lparr>cb_player_id = v1, cb_display_name = v2, cb_text = v3, cb_channel = v4, cb_t_ms = v5\<rparr>
   }"

definition write_ChatBroadcast :: "('b, 'o, 't) runtime \<Rightarrow> chat_broadcast_table \<Rightarrow> ('b, 'o) state" where
  "write_ChatBroadcast rt m = do {
     p1 \<leftarrow> option_state (rt_create_string rt) (cb_display_name m);
     p2 \<leftarrow> option_state (rt_create_string rt) (cb_text m);
     ChatBroadcast_create rt
       \<lparr>ChatBroadcastArgs_player_id = cb_player_id m,
        ChatBroadcastArgs_display_name = p1,
        ChatBroadcastArgs_text = p2,
        ChatBroadcastArgs_channel = cb_channel m,
        ChatBroadcastArgs_t_ms = cb_t_ms m\<rparr>
   }"

lemma ChatBroadcast_distinct: "distinct (map cop_vo (ChatBroadcast_cops m))"
  by (simp add: ChatBroadcast_cops_def vt)

lemma reads_ChatBroadcast:
  assumes laws: "runtime_laws rt V"
  shows "reads V ChatBroadcast_run_verifier (read_ChatBroadcast rt) ChatBroadcast_of"
  by (rule readsI)
    (simp add: read_ChatBroadcast_def ChatBroadcast_of_def ChatBroadcast_run_verifier_def bind_struct bind_read get_scalars [OF laws] get_opts [OF laws])

lemma typed_ChatBroadcast: "ChatBroadcast_ok m \<Longrightarrow> has_type (TyTable ChatBroadcast_run_verifier) (ChatBroadcast_tree m)"
  by (simp add: ChatBroadcast_tree_def table_of_def ChatBroadcast_run_verifier_def bind_struct map_of_cops [OF ChatBroadcast_distinct] ChatBroadcast_ok_def)
    (auto simp: ChatBroadcast_cops_def vt pred_opts elim!: option.pred_mono_strong list.pred_mono_strong simp del: has_type.simps)

lemma ChatBroadcast_of_tree: "inverts ChatBroadcast_ok ChatBroadcast_of ChatBroadcast_tree"
  by (rule invertsI, simp add: ChatBroadcast_of_def ChatBroadcast_tree_def table_of_def map_of_cops [OF ChatBroadcast_distinct] ChatBroadcast_ok_def)
    (simp add: ChatBroadcast_cops_def vt read_back_data read_back_structs f32_unsign_zero_def)

lemma builds_ChatBroadcast: "runtime_laws rt V \<Longrightarrow> builds V G (write_ChatBroadcast rt m) (ChatBroadcast_tree m)"
  unfolding write_ChatBroadcast_def ChatBroadcast_tree_def ChatBroadcast_create_prog
  by ((rule builds_opt_bind builds_option builds_string builds_cells builds_write_vec builds_table  | assumption)+,
      simp_all add: ChatBroadcast_cops_def ChatBroadcast_distinct vt)

end
