(* ===== verification/Wire.thy ===== *)
theory Wire
  imports Wire_Tables
begin

text \<open>
  The envelope through the generated bindings, \<open>sw-contracts/src/lib.rs\<close> and what the server
  reads of a datagram. \<open>wire_read\<close> is verify-then-read on arbitrary bytes: \<open>Undefined\<close> stands
  for an unsafe accessor meeting a slot of another type, which never happens after a successful
  verification. \<open>wire_encode\<close> and \<open>wire_decode\<close> make the record \<open>bindings_fb\<close>, an
  instance of the argument \<open>fb\<close> of the server model that is built from the generated code.
\<close>

section \<open>Payloads\<close>

primrec payload_tag :: "payload \<Rightarrow> u8" where
  "payload_tag (PClientHello m) = Payload_ClientHello"
| "payload_tag (PServerHello m) = Payload_ServerHello"
| "payload_tag (PClientState m) = Payload_ClientState"
| "payload_tag (PSnapshotDelta m) = Payload_SnapshotDelta"
| "payload_tag (PAoiUpdate m) = Payload_AoiUpdate"
| "payload_tag (PCellSnapshot m) = Payload_CellSnapshot"
| "payload_tag (PMoorRequest m) = Payload_MoorRequest"
| "payload_tag (PMoorAck m) = Payload_MoorAck"
| "payload_tag (PEconTxn m) = Payload_EconTxn"
| "payload_tag (PLedgerAck m) = Payload_LedgerAck"
| "payload_tag (PChatSend m) = Payload_ChatSend"
| "payload_tag (PChatBroadcast m) = Payload_ChatBroadcast"
| "payload_tag (PWorldClock m) = Payload_WorldClock"
| "payload_tag (PMarketTradeRequest m) = Payload_MarketTradeRequest"
| "payload_tag (PMarketStateAck m) = Payload_MarketStateAck"

primrec payload_ok :: "payload \<Rightarrow> bool" where
  "payload_ok (PClientHello m) = ClientHello_ok m"
| "payload_ok (PServerHello m) = ServerHello_ok m"
| "payload_ok (PClientState m) = ClientState_ok m"
| "payload_ok (PSnapshotDelta m) = SnapshotDelta_ok m"
| "payload_ok (PAoiUpdate m) = AoiUpdate_ok m"
| "payload_ok (PCellSnapshot m) = CellSnapshot_ok m"
| "payload_ok (PMoorRequest m) = MoorRequest_ok m"
| "payload_ok (PMoorAck m) = MoorAck_ok m"
| "payload_ok (PEconTxn m) = EconTxn_ok m"
| "payload_ok (PLedgerAck m) = LedgerAck_ok m"
| "payload_ok (PChatSend m) = ChatSend_ok m"
| "payload_ok (PChatBroadcast m) = ChatBroadcast_ok m"
| "payload_ok (PWorldClock m) = WorldClock_ok m"
| "payload_ok (PMarketTradeRequest m) = MarketTradeRequest_ok m"
| "payload_ok (PMarketStateAck m) = MarketStateAck_ok m"

primrec payload_tree :: "payload \<Rightarrow> fbtree" where
  "payload_tree (PClientHello m) = ClientHello_tree m"
| "payload_tree (PServerHello m) = ServerHello_tree m"
| "payload_tree (PClientState m) = ClientState_tree m"
| "payload_tree (PSnapshotDelta m) = SnapshotDelta_tree m"
| "payload_tree (PAoiUpdate m) = AoiUpdate_tree m"
| "payload_tree (PCellSnapshot m) = CellSnapshot_tree m"
| "payload_tree (PMoorRequest m) = MoorRequest_tree m"
| "payload_tree (PMoorAck m) = MoorAck_tree m"
| "payload_tree (PEconTxn m) = EconTxn_tree m"
| "payload_tree (PLedgerAck m) = LedgerAck_tree m"
| "payload_tree (PChatSend m) = ChatSend_tree m"
| "payload_tree (PChatBroadcast m) = ChatBroadcast_tree m"
| "payload_tree (PWorldClock m) = WorldClock_tree m"
| "payload_tree (PMarketTradeRequest m) = MarketTradeRequest_tree m"
| "payload_tree (PMarketStateAck m) = MarketStateAck_tree m"

fun write_payload :: "('b, 'o, 't) runtime \<Rightarrow> payload \<Rightarrow> ('b, 'o) state" where
  "write_payload rt (PClientHello m) = write_ClientHello rt m"
| "write_payload rt (PServerHello m) = write_ServerHello rt m"
| "write_payload rt (PClientState m) = write_ClientState rt m"
| "write_payload rt (PSnapshotDelta m) = write_SnapshotDelta rt m"
| "write_payload rt (PAoiUpdate m) = write_AoiUpdate rt m"
| "write_payload rt (PCellSnapshot m) = write_CellSnapshot rt m"
| "write_payload rt (PMoorRequest m) = write_MoorRequest rt m"
| "write_payload rt (PMoorAck m) = write_MoorAck rt m"
| "write_payload rt (PEconTxn m) = write_EconTxn rt m"
| "write_payload rt (PLedgerAck m) = write_LedgerAck rt m"
| "write_payload rt (PChatSend m) = write_ChatSend rt m"
| "write_payload rt (PChatBroadcast m) = write_ChatBroadcast rt m"
| "write_payload rt (PWorldClock m) = write_WorldClock rt m"
| "write_payload rt (PMarketTradeRequest m) = write_MarketTradeRequest rt m"
| "write_payload rt (PMarketStateAck m) = write_MarketStateAck rt m"

definition payload_of :: "u8 \<Rightarrow> fbtree \<Rightarrow> payload option" where
  "payload_of k x =
     (if k = Payload_ClientHello then Some (PClientHello (ClientHello_of x))
      else if k = Payload_ServerHello then Some (PServerHello (ServerHello_of x))
      else if k = Payload_ClientState then Some (PClientState (ClientState_of x))
      else if k = Payload_SnapshotDelta then Some (PSnapshotDelta (SnapshotDelta_of x))
      else if k = Payload_AoiUpdate then Some (PAoiUpdate (AoiUpdate_of x))
      else if k = Payload_CellSnapshot then Some (PCellSnapshot (CellSnapshot_of x))
      else if k = Payload_MoorRequest then Some (PMoorRequest (MoorRequest_of x))
      else if k = Payload_MoorAck then Some (PMoorAck (MoorAck_of x))
      else if k = Payload_EconTxn then Some (PEconTxn (EconTxn_of x))
      else if k = Payload_LedgerAck then Some (PLedgerAck (LedgerAck_of x))
      else if k = Payload_ChatSend then Some (PChatSend (ChatSend_of x))
      else if k = Payload_ChatBroadcast then Some (PChatBroadcast (ChatBroadcast_of x))
      else if k = Payload_WorldClock then Some (PWorldClock (WorldClock_of x))
      else if k = Payload_MarketTradeRequest then Some (PMarketTradeRequest (MarketTradeRequest_of x))
      else if k = Payload_MarketStateAck then Some (PMarketStateAck (MarketStateAck_of x))
      else None)"

definition read_payload :: "('b, 'o, 't) runtime \<Rightarrow> 't \<Rightarrow> u8 \<Rightarrow> payload option option" where
  "read_payload rt t k =
     (if k = Payload_ClientHello then Option.bind (Envelope_payload_as_client_hello rt t) (follow_opt (\<lambda>h. map_option PClientHello (read_ClientHello rt h)))
      else if k = Payload_ServerHello then Option.bind (Envelope_payload_as_server_hello rt t) (follow_opt (\<lambda>h. map_option PServerHello (read_ServerHello rt h)))
      else if k = Payload_ClientState then Option.bind (Envelope_payload_as_client_state rt t) (follow_opt (\<lambda>h. map_option PClientState (read_ClientState rt h)))
      else if k = Payload_SnapshotDelta then Option.bind (Envelope_payload_as_snapshot_delta rt t) (follow_opt (\<lambda>h. map_option PSnapshotDelta (read_SnapshotDelta rt h)))
      else if k = Payload_AoiUpdate then Option.bind (Envelope_payload_as_aoi_update rt t) (follow_opt (\<lambda>h. map_option PAoiUpdate (read_AoiUpdate rt h)))
      else if k = Payload_CellSnapshot then Option.bind (Envelope_payload_as_cell_snapshot rt t) (follow_opt (\<lambda>h. map_option PCellSnapshot (read_CellSnapshot rt h)))
      else if k = Payload_MoorRequest then Option.bind (Envelope_payload_as_moor_request rt t) (follow_opt (\<lambda>h. map_option PMoorRequest (read_MoorRequest rt h)))
      else if k = Payload_MoorAck then Option.bind (Envelope_payload_as_moor_ack rt t) (follow_opt (\<lambda>h. map_option PMoorAck (read_MoorAck rt h)))
      else if k = Payload_EconTxn then Option.bind (Envelope_payload_as_econ_txn rt t) (follow_opt (\<lambda>h. map_option PEconTxn (read_EconTxn rt h)))
      else if k = Payload_LedgerAck then Option.bind (Envelope_payload_as_ledger_ack rt t) (follow_opt (\<lambda>h. map_option PLedgerAck (read_LedgerAck rt h)))
      else if k = Payload_ChatSend then Option.bind (Envelope_payload_as_chat_send rt t) (follow_opt (\<lambda>h. map_option PChatSend (read_ChatSend rt h)))
      else if k = Payload_ChatBroadcast then Option.bind (Envelope_payload_as_chat_broadcast rt t) (follow_opt (\<lambda>h. map_option PChatBroadcast (read_ChatBroadcast rt h)))
      else if k = Payload_WorldClock then Option.bind (Envelope_payload_as_world_clock rt t) (follow_opt (\<lambda>h. map_option PWorldClock (read_WorldClock rt h)))
      else if k = Payload_MarketTradeRequest then Option.bind (Envelope_payload_as_market_trade_request rt t) (follow_opt (\<lambda>h. map_option PMarketTradeRequest (read_MarketTradeRequest rt h)))
      else if k = Payload_MarketStateAck then Option.bind (Envelope_payload_as_market_state_ack rt t) (follow_opt (\<lambda>h. map_option PMarketStateAck (read_MarketStateAck rt h)))
      else Some None)"

section \<open>The envelope\<close>

definition envelope_tag :: "envelope \<Rightarrow> u8" where
  "envelope_tag e = (case env_payload e of None \<Rightarrow> Payload_NONE | Some p \<Rightarrow> payload_tag p)"

definition envelope_ok :: "envelope \<Rightarrow> bool" where
  "envelope_ok e \<longleftrightarrow> pred_option payload_ok (env_payload e)"

definition Envelope_cops :: "envelope \<Rightarrow> content_op list" where
  "Envelope_cops e =
     [COpt Envelope_VT_PAYLOAD (map_option payload_tree (env_payload e)),
      CSlot Envelope_VT_SEQ (ScU32 (env_seq e)) (ScU32 0),
      CSlot Envelope_VT_PAYLOAD_TYPE (ScU8 (envelope_tag e)) (ScU8 Payload_NONE)]"

definition Envelope_tree :: "envelope \<Rightarrow> fbtree" where
  "Envelope_tree e = table_of (Envelope_cops e)"

definition Envelope_of :: "fbtree \<Rightarrow> envelope" where
  "Envelope_of x =
     \<lparr>env_seq = g_u32 0 (map_of (tab_fields x) Envelope_VT_SEQ),
      env_payload = Option.bind (map_of (tab_fields x) Envelope_VT_PAYLOAD)
        (payload_of (g_u8 Payload_NONE (map_of (tab_fields x) Envelope_VT_PAYLOAD_TYPE)))\<rparr>"

definition read_Envelope :: "('b, 'o, 't) runtime \<Rightarrow> 't \<Rightarrow> envelope option" where
  "read_Envelope rt t = do {
     sq \<leftarrow> Envelope_seq rt t;
     k \<leftarrow> Envelope_payload_type rt t;
     p \<leftarrow> read_payload rt t k;
     Some \<lparr>env_seq = sq, env_payload = p\<rparr>
   }"

section \<open>sw-contracts over the bindings\<close>

definition contracts_decode_envelope :: "('b, 'o, 't) runtime \<Rightarrow> bytes \<Rightarrow> 't option" where
  "contracts_decode_envelope rt buf = root_as_envelope rt buf"

definition contracts_finish_envelope :: "('b, 'o, 't) runtime \<Rightarrow> u32 \<Rightarrow> u8 \<Rightarrow> 'o \<Rightarrow> ('b, bytes) state" where
  "contracts_finish_envelope rt sq ty p = do {
     env \<leftarrow> Envelope_create rt \<lparr>EnvelopeArgs_seq = sq, EnvelopeArgs_payload_type = ty, EnvelopeArgs_payload = Some p\<rparr>;
     finish_envelope_buffer rt env;
     out \<leftarrow> State (\<lambda>b. (rt_finished_data rt b, b));
     rt_reset rt;
     State_Monad.return out
   }"

text \<open>A fresh builder for every message.\<close>

definition run_builder :: "('b, 'o, 't) runtime \<Rightarrow> ('b, 'a) state \<Rightarrow> 'a" where
  "run_builder rt m = fst (run_state m (rt_new rt))"

definition wire_encode :: "('b, 'o, 't) runtime \<Rightarrow> envelope \<Rightarrow> bytes" where
  "wire_encode rt e =
     run_builder rt
       (case env_payload e of
          Some pl \<Rightarrow> do { p \<leftarrow> write_payload rt pl; contracts_finish_envelope rt (env_seq e) (payload_tag pl) p }
        | None \<Rightarrow> do {
            env \<leftarrow> Envelope_create rt
              \<lparr>EnvelopeArgs_seq = env_seq e, EnvelopeArgs_payload_type = Payload_NONE, EnvelopeArgs_payload = None\<rparr>;
            finish_envelope_buffer rt env;
            State (\<lambda>b. (rt_finished_data rt b, b)) })"

datatype read_outcome = Rejected | Undefined | Decoded envelope

definition wire_read :: "('b, 'o, 't) runtime \<Rightarrow> bytes \<Rightarrow> read_outcome" where
  "wire_read rt buf =
     (case contracts_decode_envelope rt buf of
        None \<Rightarrow> Rejected
      | Some t \<Rightarrow> (case read_Envelope rt t of None \<Rightarrow> Undefined | Some e \<Rightarrow> Decoded e))"

definition wire_decode :: "('b, 'o, 't) runtime \<Rightarrow> bytes \<Rightarrow> envelope option" where
  "wire_decode rt buf = (case wire_read rt buf of Decoded e \<Rightarrow> Some e | _ \<Rightarrow> None)"

definition bindings_fb :: "('b, 'o, 't) runtime \<Rightarrow> flatbuffers" where
  "bindings_fb rt = \<lparr>fb_encode = wire_encode rt, fb_decode = wire_decode rt\<rparr>"

section \<open>Reading\<close>

lemma payload_follow:
  assumes laws: "runtime_laws rt V" and x: "map_of (v_tab V t) vo = Some x"
    and ty: "has_type (TyTable cs) x" and f: "reads V cs f g"
  shows "Option.bind (as_opt r_tab (rt_get rt t (TyTable []) vo None)) (follow_opt (\<lambda>h. map_option c (f h))) = Some (Some (c (g x)))"
proof -
  have "has_type (TyTable []) x" using ty by (auto split: fbtree.splits)
  then obtain r where r: "rt_get rt t (TyTable []) vo None = Some r" "rval_tree (v_tab V) r = x"
    by (rule get_present [OF laws x])
  obtain t' where "r = RTab t'" "x = TTab (v_tab V t')" using ty r(2) by (cases r) auto
  with r(1) ty show ?thesis using readsD [OF f, of t'] by simp
qed

definition payload_alts :: "(u8 \<times> fty) list" where
  "payload_alts =
      [(Payload_ClientHello, TyTable ClientHello_run_verifier),
       (Payload_ServerHello, TyTable ServerHello_run_verifier),
       (Payload_ClientState, TyTable ClientState_run_verifier),
       (Payload_SnapshotDelta, TyTable SnapshotDelta_run_verifier),
       (Payload_AoiUpdate, TyTable AoiUpdate_run_verifier),
       (Payload_CellSnapshot, TyTable CellSnapshot_run_verifier),
       (Payload_MoorRequest, TyTable MoorRequest_run_verifier),
       (Payload_MoorAck, TyTable MoorAck_run_verifier),
       (Payload_EconTxn, TyTable EconTxn_run_verifier),
       (Payload_LedgerAck, TyTable LedgerAck_run_verifier),
       (Payload_ChatSend, TyTable ChatSend_run_verifier),
       (Payload_ChatBroadcast, TyTable ChatBroadcast_run_verifier),
       (Payload_WorldClock, TyTable WorldClock_run_verifier),
       (Payload_MarketTradeRequest, TyTable MarketTradeRequest_run_verifier),
       (Payload_MarketStateAck, TyTable MarketStateAck_run_verifier)]"

lemma Envelope_checks:
  "list_all (\<lambda>c. passes c fs) Envelope_run_verifier \<longleftrightarrow>
   field_ok TyU32 (map_of fs Envelope_VT_SEQ)
   \<and> passes (UnionField ''payload_type'' Envelope_VT_PAYLOAD_TYPE ''payload'' Envelope_VT_PAYLOAD False payload_alts) fs"
  by (simp only: Envelope_run_verifier_def payload_alts_def list.pred_inject passes_Field simp_thms)

lemmas payload_as_defs =
    Envelope_payload_as_client_hello_def Envelope_payload_as_server_hello_def Envelope_payload_as_client_state_def
    Envelope_payload_as_snapshot_delta_def Envelope_payload_as_aoi_update_def
    Envelope_payload_as_cell_snapshot_def Envelope_payload_as_moor_request_def Envelope_payload_as_moor_ack_def
    Envelope_payload_as_econ_txn_def Envelope_payload_as_ledger_ack_def Envelope_payload_as_chat_send_def
    Envelope_payload_as_chat_broadcast_def Envelope_payload_as_world_clock_def
    Envelope_payload_as_market_trade_request_def Envelope_payload_as_market_state_ack_def

lemma if_Some: "\<lbrakk>c \<Longrightarrow> a = Some b; \<not> c \<Longrightarrow> a' = Some b'\<rbrakk> \<Longrightarrow> (if c then a else a') = Some (if c then b else b')"
  by simp

lemma payload_follow_tag:
  assumes "runtime_laws rt V" "map_of (v_tab V t) Envelope_VT_PAYLOAD = Some x"
    and "list_all (\<lambda>(k', ty). k' = k \<longrightarrow> has_type ty x) payload_alts" "(k, TyTable cs) \<in> set payload_alts" "reads V cs f g"
  shows "Option.bind (Envelope_payload rt t) (follow_opt (\<lambda>h. map_option c (f h))) = Some (Some (c (g x)))"
proof -
  have "has_type (TyTable cs) x" using assms(3,4) by (auto simp: list_all_iff)
  then show ?thesis unfolding Envelope_payload_def by (rule payload_follow [OF assms(1,2) _ assms(5)])
qed

lemma read_payload_ok:
  assumes laws: "runtime_laws rt V" and k: "Envelope_payload_type rt t = Some k"
    and x: "map_of (v_tab V t) Envelope_VT_PAYLOAD = Some x"
    and alts: "list_all (\<lambda>(k', ty). k' = k \<longrightarrow> has_type ty x) payload_alts"
  shows "read_payload rt t k = Some (payload_of k x)"
proof -
  note follow = payload_follow_tag [OF laws x alts]
  show ?thesis
    unfolding read_payload_def payload_of_def payload_as_defs k Option.bind.simps
    by (rule if_Some, simp only: if_True HOL.refl,
        rule follow [OF _ reads_ClientHello [OF laws]] follow [OF _ reads_ServerHello [OF laws]] follow [OF _ reads_ClientState [OF laws]]
          follow [OF _ reads_SnapshotDelta [OF laws]] follow [OF _ reads_AoiUpdate [OF laws]] follow [OF _ reads_CellSnapshot [OF laws]]
          follow [OF _ reads_MoorRequest [OF laws]] follow [OF _ reads_MoorAck [OF laws]] follow [OF _ reads_EconTxn [OF laws]]
          follow [OF _ reads_LedgerAck [OF laws]] follow [OF _ reads_ChatSend [OF laws]] follow [OF _ reads_ChatBroadcast [OF laws]]
          follow [OF _ reads_WorldClock [OF laws]] follow [OF _ reads_MarketTradeRequest [OF laws]] follow [OF _ reads_MarketStateAck [OF laws]],
        simp add: payload_alts_def)+ simp
qed

lemma read_Envelope_ok:
  assumes laws: "runtime_laws rt V"
  shows "reads V Envelope_run_verifier (read_Envelope rt) Envelope_of"
proof (rule readsI)
  fix t
  assume "has_type (TyTable Envelope_run_verifier) (TTab (v_tab V t))"
  then have sq: "field_ok TyU32 (map_of (v_tab V t) Envelope_VT_SEQ)"
    and un: "passes (UnionField ''payload_type'' Envelope_VT_PAYLOAD_TYPE ''payload'' Envelope_VT_PAYLOAD False payload_alts) (v_tab V t)"
    by (simp_all add: Envelope_checks del: passes.simps)
  have s: "Envelope_seq rt t = Some (g_u32 0 (map_of (v_tab V t) Envelope_VT_SEQ))"
    by (simp add: Envelope_seq_def get_scalars [OF laws] sq)
  from un consider
      (absent) "map_of (v_tab V t) Envelope_VT_PAYLOAD_TYPE = None" "map_of (v_tab V t) Envelope_VT_PAYLOAD = None"
    | (present) k x where "map_of (v_tab V t) Envelope_VT_PAYLOAD_TYPE = Some (TScalar (ScU8 k))"
        "map_of (v_tab V t) Envelope_VT_PAYLOAD = Some x" "list_all (\<lambda>(k', ty). k' = k \<longrightarrow> has_type ty x) payload_alts"
    by (auto split: option.splits fbtree.splits scalar.splits)
  then show "read_Envelope rt t = Some (Envelope_of (TTab (v_tab V t)))"
  proof cases
    case absent
    then have "Envelope_payload_type rt t = Some Payload_NONE"
      by (simp add: Envelope_payload_type_def get_scalars [OF laws])
    moreover have "read_payload rt t Payload_NONE = Some None" by (simp add: read_payload_def payload)
    ultimately show ?thesis using s absent by (simp add: read_Envelope_def Envelope_of_def)
  next
    case present
    then have k: "Envelope_payload_type rt t = Some k"
      by (simp add: Envelope_payload_type_def get_scalars [OF laws])
    show ?thesis using s k present read_payload_ok [OF laws k present(2,3)] by (simp add: read_Envelope_def Envelope_of_def)
  qed
qed

section \<open>Writing\<close>

lemma Envelope_distinct: "distinct (map cop_vo (Envelope_cops e))"
  by (simp add: Envelope_cops_def vt)

lemma payload_tag_not_none: "payload_tag p \<noteq> Payload_NONE"
  by (cases p) (simp_all add: payload)

lemma payload_alts_tag: "(payload_tag p, ty) \<in> set payload_alts \<Longrightarrow> payload_ok p \<Longrightarrow> has_type ty (payload_tree p)"
  by (cases p) (auto simp: payload_alts_def payload simp del: has_type.simps intro:
    typed_ClientHello typed_ServerHello typed_ClientState typed_SnapshotDelta typed_AoiUpdate typed_CellSnapshot
    typed_MoorRequest typed_MoorAck typed_EconTxn typed_LedgerAck typed_ChatSend typed_ChatBroadcast
    typed_WorldClock typed_MarketTradeRequest typed_MarketStateAck)

lemma payload_of_tree: "payload_ok p \<Longrightarrow> payload_of (payload_tag p) (payload_tree p) = Some p"
  by (cases p) (auto simp: payload_of_def payload intro:
    invertsD [OF ClientHello_of_tree] invertsD [OF ServerHello_of_tree] invertsD [OF ClientState_of_tree] invertsD
    [OF SnapshotDelta_of_tree] invertsD [OF AoiUpdate_of_tree] invertsD [OF CellSnapshot_of_tree] invertsD [OF
    MoorRequest_of_tree] invertsD [OF MoorAck_of_tree] invertsD [OF EconTxn_of_tree] invertsD [OF
    LedgerAck_of_tree] invertsD [OF ChatSend_of_tree] invertsD [OF ChatBroadcast_of_tree] invertsD [OF
    WorldClock_of_tree] invertsD [OF MarketTradeRequest_of_tree] invertsD [OF MarketStateAck_of_tree])

lemma builds_payload: "runtime_laws rt V \<Longrightarrow> builds V G (write_payload rt p) (payload_tree p)"
  by (cases p) (simp_all add:
    builds_ClientHello builds_ServerHello builds_ClientState builds_SnapshotDelta builds_AoiUpdate
    builds_CellSnapshot builds_MoorRequest builds_MoorAck builds_EconTxn builds_LedgerAck builds_ChatSend
    builds_ChatBroadcast builds_WorldClock builds_MarketTradeRequest builds_MarketStateAck)

lemma scalar_slot_present: "x \<noteq> d \<Longrightarrow> cop_val (CSlot vo (ScU8 x) (ScU8 d)) = Some (TScalar (ScU8 x))"
  by (simp add: cop_val.simps)

lemma Envelope_lookup:
  "map_of (cops_fields (Envelope_cops e)) Envelope_VT_SEQ = cop_val (CSlot Envelope_VT_SEQ (ScU32 (env_seq e)) (ScU32 0))"
  "map_of (cops_fields (Envelope_cops e)) Envelope_VT_PAYLOAD = map_option payload_tree (env_payload e)"
  "map_of (cops_fields (Envelope_cops e)) Envelope_VT_PAYLOAD_TYPE = map_option (\<lambda>p. TScalar (ScU8 (payload_tag p))) (env_payload e)"
  by (simp_all add: map_of_cops [OF Envelope_distinct])
    (auto simp: Envelope_cops_def vt envelope_tag_def scalar_slot_present payload_tag_not_none cop_val.simps split: option.splits)

lemma typed_Envelope:
  assumes "envelope_ok e"
  shows "has_type (TyTable Envelope_run_verifier) (Envelope_tree e)"
proof -
  have "passes (UnionField ''payload_type'' Envelope_VT_PAYLOAD_TYPE ''payload'' Envelope_VT_PAYLOAD False payload_alts)
      (cops_fields (Envelope_cops e))"
    using assms by (cases "env_payload e")
      (auto simp: Envelope_lookup envelope_ok_def list_all_iff simp del: has_type.simps dest: payload_alts_tag)
  then show ?thesis by (simp add: Envelope_tree_def table_of_def Envelope_checks Envelope_lookup(1) del: passes.simps)
qed

lemma Envelope_of_tree: "inverts envelope_ok Envelope_of Envelope_tree"
  by (rule invertsI, rename_tac e, case_tac "env_payload e")
    (simp_all add: Envelope_of_def Envelope_tree_def table_of_def Envelope_lookup envelope_ok_def payload_of_tree)

lemma builds_Envelope:
  assumes "runtime_laws rt V" "(po, map_option payload_tree (env_payload e)) \<in> G"
  shows "builds V G
    (Envelope_create rt \<lparr>EnvelopeArgs_seq = env_seq e, EnvelopeArgs_payload_type = envelope_tag e, EnvelopeArgs_payload = po\<rparr>)
    (Envelope_tree e)"
  unfolding Envelope_create_prog Envelope_tree_def
  using assms by (intro builds_table) (simp_all add: Envelope_cops_def vt)

text \<open>Finishing a known envelope: the buffer carries the identifier and verifies to its contents.\<close>

definition carries :: "('b, 'o, 't) runtime \<Rightarrow> ('b, 'o, 't) fb_view \<Rightarrow> bytes \<Rightarrow> envelope \<Rightarrow> bool" where
  "carries rt V buf e \<longleftrightarrow>
     (\<exists>t. contracts_decode_envelope rt buf = Some t \<and> TTab (v_tab V t) = Envelope_tree e)
     \<and> envelope_buffer_has_identifier rt buf"

lemma finish_carries:
  assumes laws: "runtime_laws rt V" and e: "envelope_ok e" "v_fits V (Envelope_tree e)"
    and b: "knows V G b" "v_obj V b p = Some (Envelope_tree e)" and run: "run_state (finish_envelope_buffer rt p) b = ((), b')"
  shows "carries rt V (rt_finished_data rt b') e"
  using laws e(2) typed_Envelope [OF e(1)] knows_open [OF b(1)] b(2) run
  unfolding runtime_laws_def law_finish_def carries_def contracts_decode_envelope_def root_as_envelope_def
    envelope_buffer_has_identifier_def finish_envelope_buffer_def by metis

lemma encode_carries:
  assumes laws: "runtime_laws rt V" and e: "envelope_ok e" "v_fits V (Envelope_tree e)"
  shows "carries rt V (wire_encode rt e) e"
proof -
  let ?args = "\<lambda>po. \<lparr>EnvelopeArgs_seq = env_seq e, EnvelopeArgs_payload_type = envelope_tag e, EnvelopeArgs_payload = po\<rparr>"
  have new: "knows V {} (rt_new rt)" using laws by (simp add: runtime_laws_def law_new_def knows_def objs_hold_def)
  have fin: "carries rt V (rt_finished_data rt (snd (run_state (finish_envelope_buffer rt q) b2))) e"
    if "knows V G b1" "(po, map_option payload_tree (env_payload e)) \<in> G" "run_state (Envelope_create rt (?args po)) b1 = (q, b2)"
    for G b1 po q b2
  proof -
    have "knows V (insert (Some q, Some (Envelope_tree e)) G) b2"
      by (rule buildsD [OF builds_Envelope [OF laws that(2)] that(1,3)])
    moreover from this have "v_obj V b2 q = Some (Envelope_tree e)" by (simp add: knows_def objs_hold_insert)
    ultimately show ?thesis by (intro finish_carries [OF laws e]) (auto simp: prod_eq_iff)
  qed
  show ?thesis
  proof (cases "env_payload e")
    case None
    then have tag: "Payload_NONE = envelope_tag e" by (simp add: envelope_tag_def)
    obtain q b2 where q: "run_state (Envelope_create rt (?args None)) (rt_new rt) = (q, b2)" by force
    have "knows V {(None, map_option payload_tree (env_payload e))} (rt_new rt)"
      using new None by (simp add: knows_def objs_hold_def)
    from fin [OF this _ q] show ?thesis
      using None q by (simp add: wire_encode_def run_builder_def tag split_beta)
  next
    case (Some pl)
    then have tag: "payload_tag pl = envelope_tag e" by (simp add: envelope_tag_def)
    obtain p b1 where p: "run_state (write_payload rt pl) (rt_new rt) = (p, b1)" by force
    obtain q b2 where q: "run_state (Envelope_create rt (?args (Some p))) b1 = (q, b2)" by force
    have "knows V {(Some p, map_option payload_tree (env_payload e))} b1"
      using buildsD [OF builds_payload [OF laws] new p] Some by simp
    from fin [OF this _ q] show ?thesis
      using Some p q by (simp add: wire_encode_def run_builder_def contracts_finish_envelope_def tag split_beta)
  qed
qed

lemma carries_read:
  assumes "runtime_laws rt V" "envelope_ok e" "carries rt V buf e"
  shows "wire_read rt buf = Decoded e"
proof -
  obtain t where t: "contracts_decode_envelope rt buf = Some t" "TTab (v_tab V t) = Envelope_tree e"
    using assms(3) by (auto simp: carries_def)
  have "has_type (TyTable Envelope_run_verifier) (TTab (v_tab V t))" unfolding t(2) by (rule typed_Envelope [OF assms(2)])
  then have "read_Envelope rt t = Some (Envelope_of (Envelope_tree e))"
    using readsD [OF read_Envelope_ok [OF assms(1)]] t(2) by metis
  then show ?thesis using t(1) invertsD [OF Envelope_of_tree assms(2)] by (simp add: wire_read_def)
qed

lemma encoded_reads:
  assumes "runtime_laws rt V" "envelope_ok e" "v_fits V (Envelope_tree e)"
  shows "wire_read rt (wire_encode rt e) = Decoded e" "wire_decode rt (wire_encode rt e) = Some e"
  using carries_read [OF assms(1,2) encode_carries [OF assms]] by (simp_all add: wire_decode_def)

text \<open>The server model over \<open>bindings_fb\<close>.\<close>

lemma bindings_codec:
  "finish_envelope (bindings_fb rt) sq p = wire_encode rt \<lparr>env_seq = sq, env_payload = Some p\<rparr>"
  "decode_envelope (bindings_fb rt) buf = wire_decode rt buf"
  by (simp_all add: finish_envelope_def decode_envelope_def bindings_fb_def)

lemma root_typed:
  assumes "runtime_laws rt V" "contracts_decode_envelope rt buf = Some t"
  shows "has_type (TyTable Envelope_run_verifier) (TTab (v_tab V t))"
  using assms unfolding runtime_laws_def law_root_def contracts_decode_envelope_def root_as_envelope_def by blast

lemma wire_read_contents:
  assumes "runtime_laws rt V"
  shows "wire_read rt buf =
    (case contracts_decode_envelope rt buf of None \<Rightarrow> Rejected | Some t \<Rightarrow> Decoded (Envelope_of (TTab (v_tab V t))))"
  using readsD [OF read_Envelope_ok [OF assms] root_typed [OF assms]]
  by (simp add: wire_read_def split: option.splits)

section \<open>What the server accepts is well formed\<close>

text \<open>The messages clients send; the server ignores the others.\<close>

fun client_message :: "payload \<Rightarrow> bool" where
  "client_message (PClientHello _) = True"
| "client_message (PClientState _) = True"
| "client_message (PMoorRequest _) = True"
| "client_message (PEconTxn _) = True"
| "client_message (PChatSend _) = True"
| "client_message (PMarketTradeRequest _) = True"
| "client_message _ = False"

lemma sound_fields:
  "field_ok TyStr xo \<Longrightarrow> pred_option utf8_ok (map_option g_str xo)"
  "field_ok TyI64 xo \<Longrightarrow> in_i64 i \<Longrightarrow> in_i64 (g_i64 i xo)"
  by (cases xo; auto simp: utf8_ok_def has_type_scalars simp del: has_type.simps(5-) split: fbtree.splits)+

lemma in_i64_zero [simp]: "in_i64 0"
  by (simp add: in_i64_def machine_int)

lemma sound_client_tables:
  "has_type (TyTable ClientHello_run_verifier) x \<Longrightarrow> ClientHello_ok (ClientHello_of x)"
  "has_type (TyTable ClientState_run_verifier) x \<Longrightarrow> ClientState_ok (ClientState_of x)"
  "has_type (TyTable MoorRequest_run_verifier) x \<Longrightarrow> MoorRequest_ok (MoorRequest_of x)"
  "has_type (TyTable EconTxn_run_verifier) x \<Longrightarrow> EconTxn_ok (EconTxn_of x)"
  "has_type (TyTable ChatSend_run_verifier) x \<Longrightarrow> ChatSend_ok (ChatSend_of x)"
  "has_type (TyTable MarketTradeRequest_run_verifier) x \<Longrightarrow> MarketTradeRequest_ok (MarketTradeRequest_of x)"
  by (erule table_typeE; simp add: ClientHello_run_verifier_def ClientState_run_verifier_def MoorRequest_run_verifier_def
      EconTxn_run_verifier_def ChatSend_run_verifier_def MarketTradeRequest_run_verifier_def ClientHello_ok_def ClientState_ok_def
      MoorRequest_ok_def EconTxn_ok_def ChatSend_ok_def MarketTradeRequest_ok_def ClientHello_of_def ClientState_of_def
      MoorRequest_of_def EconTxn_of_def ChatSend_of_def MarketTradeRequest_of_def sound_fields)+

lemma payload_of_client:
  "payload_of k x = Some (PClientHello h) \<Longrightarrow> k = Payload_ClientHello \<and> h = ClientHello_of x"
  "payload_of k x = Some (PClientState cs) \<Longrightarrow> k = Payload_ClientState \<and> cs = ClientState_of x"
  "payload_of k x = Some (PMoorRequest mr) \<Longrightarrow> k = Payload_MoorRequest \<and> mr = MoorRequest_of x"
  "payload_of k x = Some (PEconTxn et) \<Longrightarrow> k = Payload_EconTxn \<and> et = EconTxn_of x"
  "payload_of k x = Some (PChatSend c) \<Longrightarrow> k = Payload_ChatSend \<and> c = ChatSend_of x"
  "payload_of k x = Some (PMarketTradeRequest mt) \<Longrightarrow> k = Payload_MarketTradeRequest \<and> mt = MarketTradeRequest_of x"
  by (simp_all add: payload_of_def split: if_splits)

lemma payload_alts_client:
  "(Payload_ClientHello, TyTable ClientHello_run_verifier) \<in> set payload_alts"
  "(Payload_ClientState, TyTable ClientState_run_verifier) \<in> set payload_alts"
  "(Payload_MoorRequest, TyTable MoorRequest_run_verifier) \<in> set payload_alts"
  "(Payload_EconTxn, TyTable EconTxn_run_verifier) \<in> set payload_alts"
  "(Payload_ChatSend, TyTable ChatSend_run_verifier) \<in> set payload_alts"
  "(Payload_MarketTradeRequest, TyTable MarketTradeRequest_run_verifier) \<in> set payload_alts"
  by (simp_all add: payload_alts_def)

lemma sound_payload:
  assumes alts: "list_all (\<lambda>(k', ty). k' = k \<longrightarrow> has_type ty x) payload_alts" and "payload_of k x = Some p" "client_message p"
  shows "payload_ok p"
proof -
  have ty: "has_type ty x" if "(k, ty) \<in> set payload_alts" for ty
    using alts that by (auto simp: list_all_iff)
  show ?thesis
    using assms(2,3)
    by (cases p) (auto dest!: payload_of_client intro!: sound_client_tables ty payload_alts_client simp del: has_type.simps)
qed

lemma decoded_payload_ok:
  assumes "runtime_laws rt V" "wire_read rt buf = Decoded e" "env_payload e = Some p" "client_message p"
  shows "payload_ok p"
proof -
  obtain t where t: "contracts_decode_envelope rt buf = Some t" "e = Envelope_of (TTab (v_tab V t))"
    using assms(1,2) by (auto simp: wire_read_contents split: option.splits)
  note ty = root_typed [OF assms(1) t(1)]
  obtain x where x: "map_of (v_tab V t) Envelope_VT_PAYLOAD = Some x"
    "payload_of (g_u8 Payload_NONE (map_of (v_tab V t) Envelope_VT_PAYLOAD_TYPE)) x = Some p"
    using assms(3) t(2) by (auto simp: Envelope_of_def bind_eq_Some_conv)
  have "passes (UnionField ''payload_type'' Envelope_VT_PAYLOAD_TYPE ''payload'' Envelope_VT_PAYLOAD False payload_alts) (v_tab V t)"
    using ty by (simp add: Envelope_checks del: passes.simps)
  then obtain k where k: "map_of (v_tab V t) Envelope_VT_PAYLOAD_TYPE = Some (TScalar (ScU8 k))"
    "list_all (\<lambda>(k', ty). k' = k \<longrightarrow> has_type ty x) payload_alts"
    using x(1) by (auto split: option.splits fbtree.splits scalar.splits)
  show ?thesis using sound_payload [OF k(2) _ assms(4)] x(2) k(1) by simp
qed

text \<open>The discriminant the server dispatches on is the one the payload was decoded by.\<close>

lemma decoded_message_ok:
  assumes "runtime_laws rt V" "wire_decode rt buf = Some e" "env_payload e = Some p" "client_message p"
  shows "payload_ok p"
  using assms by (auto simp: wire_decode_def split: read_outcome.splits intro: decoded_payload_ok)

lemma decoded_tag:
  assumes "runtime_laws rt V" "contracts_decode_envelope rt buf = Some t" "Envelope_payload_type rt t = Some k"
    and "wire_read rt buf = Decoded e" "env_payload e = Some p" "client_message p"
  shows "payload_tag p = k"
proof -
  have e: "e = Envelope_of (TTab (v_tab V t))" using assms(1,2,4) by (simp add: wire_read_contents)
  have "passes (UnionField ''payload_type'' Envelope_VT_PAYLOAD_TYPE ''payload'' Envelope_VT_PAYLOAD False payload_alts) (v_tab V t)"
    using root_typed [OF assms(1,2)] by (simp add: Envelope_checks del: passes.simps)
  then have "field_ok TyU8 (map_of (v_tab V t) Envelope_VT_PAYLOAD_TYPE)"
    by (auto split: option.splits fbtree.splits scalar.splits)
  then have k: "k = g_u8 Payload_NONE (map_of (v_tab V t) Envelope_VT_PAYLOAD_TYPE)"
    using assms(3) by (simp add: Envelope_payload_type_def get_scalars [OF assms(1)])
  obtain x where "payload_of k x = Some p" using assms(5) e k by (auto simp: Envelope_of_def bind_eq_Some_conv)
  with assms(6) show ?thesis by (cases p) (auto dest: payload_of_client)
qed

end
