(* ===== verification/Codec.thy ===== *)
theory Codec
  imports Wire
begin

text \<open>
  The encoders of \<open>server/crates/sw-server/src/codec.rs\<close>, call by call over the generated
  bindings: strings first, then vectors and nested tables, the message, the envelope. They refine
  the message-level encoders of \<open>Messages\<close>, which is what the server model calls: over
  \<open>bindings_fb\<close> both give the same bytes.
\<close>

section \<open>Presence and moorage\<close>

definition codec_build_player :: "('b, 'o, 't) runtime \<Rightarrow> player_snap \<Rightarrow> ('b, 'o) state" where
  "codec_build_player rt pl =
     (case (ps_pos pl, ps_rot pl) of ((px, py, pz), (rx, ry, rz, rw)) \<Rightarrow>
        PlayerState_create rt
          \<lparr>PlayerStateArgs_player_id = ps_player_id pl,
           PlayerStateArgs_pos = Some (Vec3_new px py pz),
           PlayerStateArgs_rot = Some (QuatC_new rx ry rz rw),
           PlayerStateArgs_aboard_boat = ps_aboard_boat pl,
           PlayerStateArgs_t_ms = ps_t_ms pl\<rparr>)"

definition codec_build_players :: "('b, 'o, 't) runtime \<Rightarrow> player_snap list \<Rightarrow> ('b, 'o) state" where
  "codec_build_players rt players = do {
     offsets \<leftarrow> traverse_list (codec_build_player rt) players;
     rt_create_vector rt (map Offset offsets)
   }"

definition codec_build_boat :: "('b, 'o, 't) runtime \<Rightarrow> boat_snap \<Rightarrow> ('b, 'o) state" where
  "codec_build_boat rt b =
     (case (bs_pos b, bs_rot b, bs_vel b) of ((px, py, pz), (rx, ry, rz, rw), (vx, vy, vz)) \<Rightarrow>
        BoatState_create rt
          \<lparr>BoatStateArgs_boat_id = bs_boat_id b,
           BoatStateArgs_owner = bs_owner b,
           BoatStateArgs_pos = Some (Vec3_new px py pz),
           BoatStateArgs_rot = Some (QuatC_new rx ry rz rw),
           BoatStateArgs_vel = Some (Vec3_new vx vy vz),
           BoatStateArgs_t_ms = bs_t_ms b\<rparr>)"

definition codec_build_boats :: "('b, 'o, 't) runtime \<Rightarrow> boat_snap list \<Rightarrow> ('b, 'o) state" where
  "codec_build_boats rt boats = do {
     offsets \<leftarrow> traverse_list (codec_build_boat rt) boats;
     rt_create_vector rt (map Offset offsets)
   }"

definition codec_build_mooring :: "('b, 'o, 't) runtime \<Rightarrow> mooring_snap \<Rightarrow> ('b, 'o) state" where
  "codec_build_mooring rt m = do {
     name \<leftarrow> rt_create_string rt (ms_name m);
     (case (ms_cell m, ms_pos m, ms_rot m) of ((gx, gz), (px, py, pz), (rx, ry, rz, rw)) \<Rightarrow>
        MoorageRecord_create rt
          \<lparr>MoorageRecordArgs_boat_id = ms_boat_id m,
           MoorageRecordArgs_owner = ms_owner m,
           MoorageRecordArgs_cell = Some (GridCell_new gx gz),
           MoorageRecordArgs_pos = Some (Vec3_new px py pz),
           MoorageRecordArgs_rot = Some (QuatC_new rx ry rz rw),
           MoorageRecordArgs_name = Some name,
           MoorageRecordArgs_created_at = ms_created_at m\<rparr>)
   }"

definition codec_build_moorings :: "('b, 'o, 't) runtime \<Rightarrow> mooring_snap list \<Rightarrow> ('b, 'o) state" where
  "codec_build_moorings rt moorings = do {
     offsets \<leftarrow> traverse_list (codec_build_mooring rt) moorings;
     rt_create_vector rt (map Offset offsets)
   }"

section \<open>Encoders\<close>

definition codec_create_clock :: "('b, 'o, 't) runtime \<Rightarrow> world_clock \<Rightarrow> ('b, 'o) state" where
  "codec_create_clock rt clk =
     WorldClock_create rt
       \<lparr>WorldClockArgs_day = of_nat (clock_day clk),
        WorldClockArgs_time_of_day = f32_bits (clock_time_of_day clk),
        WorldClockArgs_moon_phase = f32_bits (clock_moon_phase clk)\<rparr>"

definition codec_server_hello ::
  "('b, 'o, 't) runtime \<Rightarrow> u32 \<Rightarrow> bool \<Rightarrow> string \<Rightarrow> u64 \<Rightarrow> string \<Rightarrow> int \<Rightarrow> caps \<Rightarrow> world_clock \<Rightarrow> u64 \<Rightarrow> nat \<Rightarrow> bytes" where
  "codec_server_hello rt sq accepted reason pid server_name balance cap clk weather_seed weather_epoch_day =
     run_builder rt (do {
       reason_off \<leftarrow> rt_create_string rt reason;
       name_off \<leftarrow> rt_create_string rt server_name;
       feature_offs \<leftarrow> traverse_list (rt_create_string rt) (caps_features cap);
       features \<leftarrow> rt_create_vector rt (map Offset feature_offs);
       caps_off \<leftarrow> CapabilityManifest_create rt
         \<lparr>CapabilityManifestArgs_protocol_version = PROTOCOL_VERSION,
          CapabilityManifestArgs_features = Some features,
          CapabilityManifestArgs_tick_hz = caps_tick_hz cap,
          CapabilityManifestArgs_snapshot_hz = caps_snapshot_hz cap,
          CapabilityManifestArgs_aoi_radius_cells = caps_aoi_radius_cells cap,
          CapabilityManifestArgs_cell_size_m = caps_cell_size_m cap\<rparr>;
       clock_off \<leftarrow> codec_create_clock rt clk;
       weather_off \<leftarrow> WeatherSeed_create rt
         \<lparr>WeatherSeedArgs_seed = weather_seed, WeatherSeedArgs_epoch_day = of_nat weather_epoch_day\<rparr>;
       hello \<leftarrow> ServerHello_create rt
         \<lparr>ServerHelloArgs_accepted = accepted,
          ServerHelloArgs_reason = Some reason_off,
          ServerHelloArgs_player_id = pid,
          ServerHelloArgs_server_name = Some name_off,
          ServerHelloArgs_balance_gold = balance,
          ServerHelloArgs_capabilities = Some caps_off,
          ServerHelloArgs_clock = Some clock_off,
          ServerHelloArgs_weather = Some weather_off\<rparr>;
       contracts_finish_envelope rt sq Payload_ServerHello hello
     })"

definition codec_world_clock :: "('b, 'o, 't) runtime \<Rightarrow> u32 \<Rightarrow> world_clock \<Rightarrow> bytes" where
  "codec_world_clock rt sq clk =
     run_builder rt (do {
       clock_off \<leftarrow> codec_create_clock rt clk;
       contracts_finish_envelope rt sq Payload_WorldClock clock_off
     })"

definition codec_snapshot_delta :: "('b, 'o, 't) runtime \<Rightarrow> u32 \<Rightarrow> u32 \<Rightarrow> player_snap list \<Rightarrow> boat_snap list \<Rightarrow> bytes" where
  "codec_snapshot_delta rt sq server_tick players boats =
     run_builder rt (do {
       players_vec \<leftarrow> codec_build_players rt players;
       boats_vec \<leftarrow> codec_build_boats rt boats;
       sd \<leftarrow> SnapshotDelta_create rt
         \<lparr>SnapshotDeltaArgs_server_tick = server_tick,
          SnapshotDeltaArgs_players = Some players_vec,
          SnapshotDeltaArgs_boats = Some boats_vec\<rparr>;
       contracts_finish_envelope rt sq Payload_SnapshotDelta sd
     })"

definition codec_aoi_update :: "('b, 'o, 't) runtime \<Rightarrow> u32 \<Rightarrow> cell list \<Rightarrow> cell list \<Rightarrow> bytes" where
  "codec_aoi_update rt sq added removed =
     (let added_cells = map (\<lambda>c. GridCell_new (cx c) (cz c)) added;
          removed_cells = map (\<lambda>c. GridCell_new (cx c) (cz c)) removed
      in run_builder rt (do {
           added_vec \<leftarrow> rt_create_vector rt (map Struct added_cells);
           removed_vec \<leftarrow> rt_create_vector rt (map Struct removed_cells);
           au \<leftarrow> AoiUpdate_create rt \<lparr>AoiUpdateArgs_added = Some added_vec, AoiUpdateArgs_removed = Some removed_vec\<rparr>;
           contracts_finish_envelope rt sq Payload_AoiUpdate au
         }))"

definition codec_cell_snapshot ::
  "('b, 'o, 't) runtime \<Rightarrow> u32 \<Rightarrow> cell \<Rightarrow> player_snap list \<Rightarrow> boat_snap list \<Rightarrow> mooring_snap list \<Rightarrow> bytes" where
  "codec_cell_snapshot rt sq c players boats moorings =
     run_builder rt (do {
       players_vec \<leftarrow> codec_build_players rt players;
       boats_vec \<leftarrow> codec_build_boats rt boats;
       moorings_vec \<leftarrow> codec_build_moorings rt moorings;
       cs \<leftarrow> CellSnapshot_create rt
         \<lparr>CellSnapshotArgs_cell = Some (GridCell_new (cx c) (cz c)),
          CellSnapshotArgs_players = Some players_vec,
          CellSnapshotArgs_boats = Some boats_vec,
          CellSnapshotArgs_moorings = Some moorings_vec\<rparr>;
       contracts_finish_envelope rt sq Payload_CellSnapshot cs
     })"

definition codec_moor_ack :: "('b, 'o, 't) runtime \<Rightarrow> u32 \<Rightarrow> bool \<Rightarrow> mooring_snap option \<Rightarrow> string \<Rightarrow> bytes" where
  "codec_moor_ack rt sq accepted rec reason =
     run_builder rt (do {
       reason_off \<leftarrow> rt_create_string rt reason;
       record_off \<leftarrow> option_state (codec_build_mooring rt) rec;
       ma \<leftarrow> MoorAck_create rt
         \<lparr>MoorAckArgs_accepted = accepted, MoorAckArgs_record = record_off, MoorAckArgs_reason = Some reason_off\<rparr>;
       contracts_finish_envelope rt sq Payload_MoorAck ma
     })"

definition codec_ledger_ack :: "('b, 'o, 't) runtime \<Rightarrow> u32 \<Rightarrow> ledger_ack \<Rightarrow> bytes" where
  "codec_ledger_ack rt sq ack =
     run_builder rt (do {
       reason_off \<leftarrow> rt_create_string rt (ack_reason ack);
       la \<leftarrow> LedgerAck_create rt
         \<lparr>LedgerAckArgs_txn_id = ack_txn_id ack,
          LedgerAckArgs_accepted = ack_accepted ack,
          LedgerAckArgs_new_balance = ack_new_balance ack,
          LedgerAckArgs_reason = Some reason_off\<rparr>;
       contracts_finish_envelope rt sq Payload_LedgerAck la
     })"

definition codec_market_state_ack :: "('b, 'o, 't) runtime \<Rightarrow> u32 \<Rightarrow> market_ack \<Rightarrow> bytes" where
  "codec_market_state_ack rt sq ack =
     run_builder rt (do {
       reason_off \<leftarrow> rt_create_string rt (mack_reason ack);
       msa \<leftarrow> MarketStateAck_create rt
         \<lparr>MarketStateAckArgs_txn_id = mack_txn_id ack,
          MarketStateAckArgs_accepted = mack_accepted ack,
          MarketStateAckArgs_port_id = mack_port_id ack,
          MarketStateAckArgs_item_id = mack_item_id ack,
          MarketStateAckArgs_stock = mack_stock ack,
          MarketStateAckArgs_price = mack_price ack,
          MarketStateAckArgs_reason = Some reason_off\<rparr>;
       contracts_finish_envelope rt sq Payload_MarketStateAck msa
     })"

definition codec_chat_broadcast :: "('b, 'o, 't) runtime \<Rightarrow> u32 \<Rightarrow> u64 \<Rightarrow> string \<Rightarrow> string \<Rightarrow> u8 \<Rightarrow> u32 \<Rightarrow> bytes" where
  "codec_chat_broadcast rt sq pid name txt channel t_ms =
     run_builder rt (do {
       name_off \<leftarrow> rt_create_string rt name;
       text_off \<leftarrow> rt_create_string rt txt;
       cb \<leftarrow> ChatBroadcast_create rt
         \<lparr>ChatBroadcastArgs_player_id = pid,
          ChatBroadcastArgs_display_name = Some name_off,
          ChatBroadcastArgs_text = Some text_off,
          ChatBroadcastArgs_channel = channel,
          ChatBroadcastArgs_t_ms = t_ms\<rparr>;
       contracts_finish_envelope rt sq Payload_ChatBroadcast cb
     })"

section \<open>Refinement\<close>

lemma traverse_list_map: "traverse_list f (map g xs) = traverse_list (\<lambda>x. f (g x)) xs"
  by (induction xs) simp_all

lemma build_rows:
  "codec_build_player rt pl = write_PlayerState rt (build_player pl)"
  "codec_build_mooring rt m = write_MoorageRecord rt (build_mooring m)"
  "codec_create_clock rt clk = write_WorldClock rt (build_clock clk)"
  by (simp_all add: codec_build_player_def write_PlayerState_def build_player_def codec_build_mooring_def write_MoorageRecord_def
      build_mooring_def codec_create_clock_def write_WorldClock_def build_clock_def vec3_struct_def quat_struct_def cell_struct_def
      split_beta)

lemma build_vecs:
  "codec_build_players rt ps = write_vec rt (write_PlayerState rt) (build_players ps)"
  "codec_build_boats rt bs = write_vec rt (write_BoatState rt) (build_boats bs)"
  "codec_build_moorings rt ms = write_vec rt (write_MoorageRecord rt) (build_moorings ms)"
proof -
  have b: "codec_build_boat rt = (\<lambda>b. write_BoatState rt
      \<lparr>bt_boat_id = bs_boat_id b, bt_owner = bs_owner b, bt_pos = Some (bs_pos b), bt_rot = Some (bs_rot b),
       bt_vel = Some (bs_vel b), bt_t_ms = bs_t_ms b\<rparr>)"
    by (rule ext) (simp add: codec_build_boat_def write_BoatState_def vec3_struct_def quat_struct_def split_beta)
  show "codec_build_boats rt bs = write_vec rt (write_BoatState rt) (build_boats bs)"
    by (simp add: codec_build_boats_def write_vec_def build_boats_def traverse_list_map b)
  have p: "codec_build_player rt = (\<lambda>pl. write_PlayerState rt (build_player pl))" by (rule ext) (rule build_rows)
  show "codec_build_players rt ps = write_vec rt (write_PlayerState rt) (build_players ps)"
    by (simp add: codec_build_players_def write_vec_def build_players_def traverse_list_map p)
  have m: "codec_build_mooring rt = (\<lambda>m. write_MoorageRecord rt (build_mooring m))" by (rule ext) (rule build_rows)
  show "codec_build_moorings rt ms = write_vec rt (write_MoorageRecord rt) (build_moorings ms)"
    by (simp add: codec_build_moorings_def write_vec_def build_moorings_def traverse_list_map m)
qed

lemma finish_bindings:
  "finish_envelope (bindings_fb rt) sq pl =
   run_builder rt (do { p \<leftarrow> write_payload rt pl; contracts_finish_envelope rt sq (payload_tag pl) p })"
  by (simp add: finish_envelope_def bindings_fb_def wire_encode_def)

lemma option_state_map: "option_state f (map_option g ao) = option_state (\<lambda>a. f (g a)) ao"
  by (cases ao) simp_all

lemma codec_refines_presence:
  "codec_snapshot_delta rt sq tick ps bs = snapshot_delta (bindings_fb rt) sq tick ps bs"
  "codec_aoi_update rt sq added removed = aoi_update_msg (bindings_fb rt) sq added removed"
  "codec_cell_snapshot rt sq c ps bs ms = cell_snapshot (bindings_fb rt) sq c ps bs ms"
  by (simp_all add: codec_snapshot_delta_def snapshot_delta_def codec_aoi_update_def aoi_update_msg_def codec_cell_snapshot_def
      cell_snapshot_def finish_bindings write_SnapshotDelta_def write_AoiUpdate_def write_CellSnapshot_def build_vecs cell_struct_def
      comp_def)

lemma codec_refines_replies:
  "codec_server_hello rt sq accepted reason pid server_name balance cap clk seed day
     = server_hello (bindings_fb rt) sq accepted reason pid server_name balance cap clk seed day"
  "codec_world_clock rt sq clk = world_clock_msg (bindings_fb rt) sq clk"
  "codec_moor_ack rt sq accepted rec reason = moor_ack (bindings_fb rt) sq accepted rec reason"
  "codec_ledger_ack rt sq ack = ledger_ack_msg (bindings_fb rt) sq ack"
  "codec_market_state_ack rt sq mack = market_state_ack (bindings_fb rt) sq mack"
  "codec_chat_broadcast rt sq pid name txt channel t_ms = chat_broadcast (bindings_fb rt) sq pid name txt channel t_ms"
proof -
  show "codec_server_hello rt sq accepted reason pid server_name balance cap clk seed day
      = server_hello (bindings_fb rt) sq accepted reason pid server_name balance cap clk seed day"
    by (simp add: codec_server_hello_def server_hello_def finish_bindings write_ServerHello_def write_CapabilityManifest_def
        write_WeatherSeed_def write_vec_def build_rows)
  show "codec_world_clock rt sq clk = world_clock_msg (bindings_fb rt) sq clk"
    by (simp add: codec_world_clock_def world_clock_msg_def finish_bindings build_rows)
  have m: "codec_build_mooring rt = (\<lambda>m. write_MoorageRecord rt (build_mooring m))" by (rule ext) (rule build_rows)
  show "codec_moor_ack rt sq accepted rec reason = moor_ack (bindings_fb rt) sq accepted rec reason"
    by (simp add: codec_moor_ack_def moor_ack_def finish_bindings write_MoorAck_def option_state_map m)
  show "codec_ledger_ack rt sq ack = ledger_ack_msg (bindings_fb rt) sq ack"
    by (simp add: codec_ledger_ack_def ledger_ack_msg_def finish_bindings write_LedgerAck_def)
  show "codec_market_state_ack rt sq mack = market_state_ack (bindings_fb rt) sq mack"
    by (simp add: codec_market_state_ack_def market_state_ack_def finish_bindings write_MarketStateAck_def)
  show "codec_chat_broadcast rt sq pid name txt channel t_ms = chat_broadcast (bindings_fb rt) sq pid name txt channel t_ms"
    by (simp add: codec_chat_broadcast_def chat_broadcast_def finish_bindings write_ChatBroadcast_def)
qed

end
