(* ===== verification/Fb_Reference.thy ===== *)
theory Fb_Reference
  imports Codec "HOL-Library.Countable"
begin

text \<open>
  A runtime that keeps \<open>runtime_laws\<close>, so that what is proved of every lawful runtime is not
  vacuous. Its builder keeps contents as trees, offsets are the trees themselves, and a finished
  buffer is a unary numeral of what was finished; it says nothing about the byte layout of the
  FlatBuffers format.
\<close>

instance scalar :: countable
  by countable_datatype

instance fbtree :: countable
  by countable_datatype

record ref_builder =
  rb_open :: "(voffset \<times> fbtree) list option"
  rb_out :: bytes

definition ref_push :: "voffset \<Rightarrow> fbtree \<Rightarrow> ref_builder \<Rightarrow> ref_builder" where
  "ref_push vo x b = b\<lparr>rb_open := map_option (\<lambda>fs. fs @ [(vo, x)]) (rb_open b)\<rparr>"

definition ref_slot :: "fbtree slot \<Rightarrow> fbtree" where
  "ref_slot sl = (case sl of Struct bs \<Rightarrow> TStruct bs | Offset x \<Rightarrow> x)"

definition ref_bytes :: "fbtree \<times> string \<Rightarrow> bytes" where
  "ref_bytes v = replicate (to_nat v) 0"

definition ref_contents :: "bytes \<Rightarrow> fbtree \<times> string" where
  "ref_contents buf = from_nat (length buf)"

fun ref_rval :: "fbtree \<Rightarrow> (voffset \<times> fbtree) list rval" where
  "ref_rval (TScalar s) = RScalar s"
| "ref_rval (TStruct bs) = RStruct bs"
| "ref_rval (TStr s) = RStr s"
| "ref_rval (TVec xs) = RVec (map ref_rval xs)"
| "ref_rval (TTab fs) = RTab fs"

definition ref_root :: "field_check list \<Rightarrow> bytes \<Rightarrow> (voffset \<times> fbtree) list option" where
  "ref_root cs buf =
     (case fst (ref_contents buf) of
        TTab fs \<Rightarrow> if has_type (TyTable cs) (TTab fs) then Some fs else None
      | _ \<Rightarrow> None)"

definition ref_runtime :: "(ref_builder, fbtree, (voffset \<times> fbtree) list) runtime" where
  "ref_runtime =
     \<lparr>rt_new = \<lparr>rb_open = None, rb_out = []\<rparr>,
      rt_start_table = State (\<lambda>b. (TTab [], b\<lparr>rb_open := Some []\<rparr>)),
      rt_push_slot = (\<lambda>vo x d. State (\<lambda>b. ((), if scalar_eq x d then b else ref_push vo (TScalar x) b))),
      rt_push_slot_always = (\<lambda>vo sl. State (\<lambda>b. ((), ref_push vo (ref_slot sl) b))),
      rt_end_table = (\<lambda>_. State (\<lambda>b. (TTab (the (rb_open b)), b\<lparr>rb_open := None\<rparr>))),
      rt_create_string = (\<lambda>s. State (\<lambda>b. (TStr s, b))),
      rt_create_vector = (\<lambda>sls. State (\<lambda>b. (TVec (map ref_slot sls), b))),
      rt_finish = (\<lambda>x ident. State (\<lambda>b. ((), b\<lparr>rb_out := ref_bytes (x, ident)\<rparr>))),
      rt_finish_size_prefixed = (\<lambda>x ident. State (\<lambda>b. ((), b\<lparr>rb_out := ref_bytes (x, ident)\<rparr>))),
      rt_finished_data = rb_out,
      rt_reset = State (\<lambda>b. ((), \<lparr>rb_open = None, rb_out = []\<rparr>)),
      rt_has_identifier = (\<lambda>buf ident _. snd (ref_contents buf) = ident),
      rt_root = ref_root,
      rt_size_prefixed_root = ref_root,
      rt_get = (\<lambda>fs _ vo d. case map_of fs vo of None \<Rightarrow> d | Some x \<Rightarrow> Some (ref_rval x))\<rparr>"

definition ref_view :: "(ref_builder, fbtree, (voffset \<times> fbtree) list) fb_view" where
  "ref_view =
     \<lparr>v_open = (\<lambda>b. map_option (Pair (TTab [])) (rb_open b)), v_obj = (\<lambda>_ x. Some x), v_tab = (\<lambda>fs. fs), v_fits = (\<lambda>_. True)\<rparr>"

lemma ref_contents_bytes: "ref_contents (ref_bytes v) = v"
  by (simp add: ref_contents_def ref_bytes_def)

lemma ref_rval_tree: "rval_tree (\<lambda>fs. fs) (ref_rval x) = x"
  by (induction x rule: ref_rval.induct) (simp_all add: map_idI)

lemma ref_slot_tree: "slot_tree Some sl = Some (ref_slot sl)"
  by (cases sl) (simp_all add: ref_slot_def)

lemma ref_slots: "map (slot_tree Some) sls = map Some xs \<Longrightarrow> map ref_slot sls = xs"
  by (induction sls arbitrary: xs) (auto simp: ref_slot_tree)

lemma ref_keeps: "keeps_objects \<lparr>v_open = op, v_obj = (\<lambda>_. Some), v_tab = tb, v_fits = ft\<rparr> b b'"
  by (simp add: keeps_objects_def)

lemma ref_builder_laws:
  "law_new ref_runtime ref_view" "law_start_table ref_runtime ref_view" "law_push_slot ref_runtime ref_view"
  "law_push_slot_always ref_runtime ref_view" "law_end_table ref_runtime ref_view"
  "law_create_string ref_runtime ref_view" "law_create_vector ref_runtime ref_view"
  by (auto simp: law_new_def law_start_table_def law_push_slot_def law_push_slot_always_def law_end_table_def law_create_string_def
      law_create_vector_def ref_keeps ref_runtime_def ref_view_def ref_push_def ref_slot_tree ref_slots split: if_splits)

lemma ref_reader_laws: "law_finish ref_runtime ref_view" "law_root ref_runtime ref_view" "law_get ref_runtime ref_view"
  by (auto simp: law_finish_def law_root_def law_get_def ref_runtime_def ref_view_def ref_root_def ref_contents_bytes ref_rval_tree
      split: fbtree.splits if_splits option.splits)

theorem ref_runtime_lawful: "runtime_laws ref_runtime ref_view"
  by (simp add: runtime_laws_def ref_builder_laws ref_reader_laws)

end
