(* ===== verification/Wire_Props.thy ===== *)
theory Wire_Props
  imports Fb_Reference Server_Handlers
begin

text \<open>
  The properties of the wire, from structs to datagrams: what the generated bindings promise to the
  server over any runtime that keeps \<open>runtime_laws\<close>, each with an instance over
  \<open>ref_runtime\<close>.
\<close>

section \<open>Examples\<close>

definition demo_txn :: econ_txn where
  "demo_txn = \<lparr>et_txn_id = 9, et_amount_gold = - 25, et_kind = 2, et_note = Some ''rum''\<rparr>"

definition demo_envelope :: envelope where
  "demo_envelope = \<lparr>env_seq = 7, env_payload = Some (PEconTxn demo_txn)\<rparr>"

definition client_tags :: "u8 list" where
  "client_tags =
     [Payload_ClientHello, Payload_ClientState, Payload_EconTxn, Payload_MarketTradeRequest, Payload_MoorRequest, Payload_ChatSend]"

text \<open>Two datagrams the server ignores: no table at all, and a table with discriminant 200.\<close>

definition demo_garbage :: bytes where
  "demo_garbage = ref_bytes (TStr ''ahoy'', [])"

definition demo_unknown :: bytes where
  "demo_unknown =
     ref_bytes (TTab [(Envelope_VT_PAYLOAD_TYPE, TScalar (ScU8 200)), (Envelope_VT_PAYLOAD, TStr ''ahoy'')], ''SWO0'')"

lemma demo_envelope_ok: "envelope_ok demo_envelope"
  by (simp add: envelope_ok_def demo_envelope_def demo_txn_def EconTxn_ok_def in_i64_def machine_int utf8_ok_def str_bytes_def
      char_byte_def in_rng_def)

lemma ref_fits [simp]: "v_fits ref_view x"
  by (simp add: ref_view_def)

section \<open>Envelopes\<close>

text \<open>C7: an envelope whose strings are UTF-8, whose integers are in range and whose elidable
  floats are not negative zero is read back exactly as it was written, through any lawful runtime,
  by a buffer that carries the identifier of the protocol.\<close>

theorem wire_roundtrip:
  assumes "runtime_laws rt V" "envelope_ok e" "v_fits V (Envelope_tree e)"
  shows "wire_read rt (wire_encode rt e) = Decoded e \<and> envelope_buffer_has_identifier rt (wire_encode rt e)"
  using encoded_reads [OF assms] encode_carries [OF assms] by (simp add: carries_def)

theorem wire_roundtrip_witness:
  "runtime_laws ref_runtime ref_view \<and> envelope_ok demo_envelope
   \<and> wire_read ref_runtime (wire_encode ref_runtime demo_envelope) = Decoded demo_envelope"
  using wire_roundtrip [OF ref_runtime_lawful demo_envelope_ok ref_fits] ref_runtime_lawful demo_envelope_ok by blast

text \<open>C8: on arbitrary bytes every unsafe accessor reads a slot at the type the verifier visited it
  at: what a datagram is read as is the contents of the verified table, and never undefined.\<close>

theorem hostile_read_defined:
  assumes "runtime_laws rt V"
  shows "wire_read rt buf \<noteq> Undefined
    \<and> (\<forall>t. root_as_envelope rt buf = Some t \<longrightarrow> wire_read rt buf = Decoded (Envelope_of (TTab (v_tab V t))))"
  using assms by (auto simp: wire_read_contents contracts_decode_envelope_def split: option.splits)

theorem hostile_read_defined_witness:
  "runtime_laws ref_runtime ref_view \<and> wire_read ref_runtime (wire_encode ref_runtime demo_envelope) \<noteq> Undefined
   \<and> wire_read ref_runtime [1, 2, 3] \<noteq> Undefined"
  using hostile_read_defined [OF ref_runtime_lawful] ref_runtime_lawful by blast

text \<open>C27: every client message the decoder hands to the server has UTF-8 strings and integers
  in the range of their type, whatever the datagram was.\<close>

theorem decoded_in_range:
  assumes "runtime_laws rt V" "wire_decode rt buf = Some e" "env_payload e = Some p" "client_message p"
  shows "payload_ok p"
  by (rule decoded_message_ok [OF assms])

theorem decoded_in_range_witness:
  "wire_decode ref_runtime (wire_encode ref_runtime demo_envelope) = Some demo_envelope \<and> payload_ok (PEconTxn demo_txn)"
proof -
  have d: "wire_decode ref_runtime (wire_encode ref_runtime demo_envelope) = Some demo_envelope"
    by (rule encoded_reads [OF ref_runtime_lawful demo_envelope_ok ref_fits])
  show ?thesis using d decoded_in_range [OF ref_runtime_lawful d] by (simp add: demo_envelope_def)
qed

text \<open>C26: a datagram the verifier refuses, or whose discriminant is not that of a client message,
  known or not, leaves the server as it was.\<close>

theorem other_datagrams_ignored:
  assumes "runtime_laws rt V"
    and "contracts_decode_envelope rt buf = None
      \<or> (\<exists>t k. contracts_decode_envelope rt buf = Some t \<and> Envelope_payload_type rt t = Some k \<and> k \<notin> set client_tags)"
  shows "handle_data_at (bindings_fb rt) col rd peer buf adm s = (s, Inr ())"
proof -
  note dec = bindings_codec(2) [of rt buf]
  have "\<not> client_message p" if e: "wire_decode rt buf = Some e" "env_payload e = Some p" for e p
  proof
    assume c: "client_message p"
    have r: "wire_read rt buf = Decoded e" using e(1) by (auto simp: wire_decode_def split: read_outcome.splits)
    then obtain t k where t: "contracts_decode_envelope rt buf = Some t" "Envelope_payload_type rt t = Some k" "k \<notin> set client_tags"
      using assms(2) by (auto simp: wire_read_def)
    have "payload_tag p = k" by (rule decoded_tag [OF assms(1) t(1,2) r e(2) c])
    with t(3) c show False by (cases p) (simp_all add: client_tags_def)
  qed
  note other = this
  show ?thesis
  proof (cases "wire_decode rt buf")
    case None
    then show ?thesis by (simp add: handle_data_at_def dec)
  next
    case (Some e)
    show ?thesis
    proof (cases "env_payload e")
      case None
      with Some show ?thesis by (simp add: handle_data_at_def dec)
    next
      case p: (Some p)
      with other [OF Some p] Some show ?thesis by (cases p) (simp_all add: handle_data_at_def dec)
    qed
  qed
qed

lemma demo_ignored:
  "contracts_decode_envelope ref_runtime demo_garbage = None"
  "\<exists>t k. contracts_decode_envelope ref_runtime demo_unknown = Some t \<and> Envelope_payload_type ref_runtime t = Some k
     \<and> k \<notin> set client_tags"
  by (simp_all add: contracts_decode_envelope_def root_as_envelope_def ref_runtime_def ref_root_def demo_garbage_def demo_unknown_def
      ref_contents_bytes Envelope_payload_type_def Envelope_checks payload_alts_def client_tags_def payload vt)

theorem other_datagrams_ignored_witness:
  "runtime_laws ref_runtime ref_view
   \<and> (\<forall>col rd peer adm s.
        handle_data_at (bindings_fb ref_runtime) col rd peer demo_garbage adm s = (s, Inr ())
        \<and> handle_data_at (bindings_fb ref_runtime) col rd peer demo_unknown adm s = (s, Inr ()))"
  using ref_runtime_lawful other_datagrams_ignored [OF ref_runtime_lawful disjI1 [OF demo_ignored(1)]]
    other_datagrams_ignored [OF ref_runtime_lawful disjI2 [OF demo_ignored(2)]] by blast


section \<open>The view of the world\<close>

lemma f32_bits_sign:
  assumes "f32_val (f32_bits q) = Fin q"
  shows "f32_bits q \<noteq> 0x80000000"
proof
  assume z: "f32_bits q = 0x80000000"
  then have "f32_val (f32_bits q) = Fin 0" by (simp add: f32_val_zero_iff)
  with assms have "q = 0" by simp
  with z show False by (simp add: f32_bits_def)
qed

lemma clock_bits:
  fixes epoch_ms now_ms :: int
  defines "clk \<equiv> clock_from_epoch epoch_ms now_ms"
  shows "unat (wc_day (build_clock clk)) = clock_day clk"
    "f32_val (wc_time_of_day (build_clock clk)) = Fin (clock_time_of_day clk)"
    "f32_val (wc_moon_phase (build_clock clk)) = Fin (clock_moon_phase clk)"
proof -
  let ?total = "round_f64 (round_f64 (round_f64 (of_int (max (wrap_i64 (now_ms - epoch_ms)) 0)) / 1000) / DAY_LENGTH_SECS)"
  have "clock_day clk \<le> u32_max" by (simp add: clk_def clock_from_epoch_def Let_def floor_as_u32_def)
  then show "unat (wc_day (build_clock clk)) = clock_day clk"
    by (simp add: build_clock_def unat_of_nat machine_int)
  have "clock_time_of_day clk = round_f32 (?total - of_int \<lfloor>?total\<rfloor>)" by (simp add: clk_def clock_from_epoch_def Let_def)
  moreover have "0 \<le> ?total - of_int \<lfloor>?total\<rfloor>" "?total - of_int \<lfloor>?total\<rfloor> < 1" by linarith+
  ultimately show "f32_val (wc_time_of_day (build_clock clk)) = Fin (clock_time_of_day clk)"
    by (simp add: build_clock_def f32_bits_round)
  have "clock_moon_phase clk = round_f32 (of_nat (clock_day clk mod LUNAR_CYCLE_DAYS) / of_nat LUNAR_CYCLE_DAYS)"
    by (simp add: clk_def clock_from_epoch_def Let_def)
  moreover have "(of_nat (clock_day clk mod 30) :: rat) < 30"
    using of_nat_less_iff [of "clock_day clk mod 30" 30, where ?'a = rat] by simp
  ultimately show "f32_val (wc_moon_phase (build_clock clk)) = Fin (clock_moon_phase clk)"
    by (simp add: build_clock_def LUNAR_CYCLE_DAYS_def f32_bits_round)
qed

text \<open>A clock broadcast carries the computed clock exactly: the client reads the day and two
  floats whose values are the fractions the server computed.\<close>

lemma clock_on_the_wire:
  assumes "runtime_laws rt V" "clk = clock_from_epoch epoch_ms now_ms"
  shows "\<exists>w. unat (wc_day w) = clock_day clk
    \<and> f32_val (wc_time_of_day w) = Fin (clock_time_of_day clk) \<and> f32_val (wc_moon_phase w) = Fin (clock_moon_phase clk)
    \<and> (v_fits V (Envelope_tree \<lparr>env_seq = sq, env_payload = Some (PWorldClock w)\<rparr>) \<longrightarrow>
         wire_read rt (codec_world_clock rt sq clk) = Decoded \<lparr>env_seq = sq, env_payload = Some (PWorldClock w)\<rparr>)"
proof -
  have bits: "f32_val (f32_bits (clock_time_of_day clk)) = Fin (clock_time_of_day clk)"
    "f32_val (f32_bits (clock_moon_phase clk)) = Fin (clock_moon_phase clk)"
    using clock_bits(2,3) [of epoch_ms now_ms] by (simp_all add: assms(2) build_clock_def)
  have "envelope_ok \<lparr>env_seq = sq, env_payload = Some (PWorldClock (build_clock clk))\<rparr>"
    using f32_bits_sign [OF bits(1)] f32_bits_sign [OF bits(2)] by (simp add: envelope_ok_def WorldClock_ok_def build_clock_def)
  note read = encoded_reads(1) [OF assms(1) this]
  show ?thesis
    by (intro exI [of _ "build_clock clk"]) (use clock_bits [of epoch_ms now_ms] read in
      \<open>simp add: assms(2) codec_refines_replies world_clock_msg_def bindings_codec\<close>)
qed

text \<open>What a client reads of an entity, against what the server handed to the encoder.\<close>

definition shows_player :: "player_snap \<Rightarrow> player_state \<Rightarrow> bool" where
  "shows_player pl m \<longleftrightarrow> pt_player_id m = ps_player_id pl \<and> pt_pos m = Some (ps_pos pl) \<and> pt_rot m = Some (ps_rot pl)
     \<and> pt_aboard_boat m = ps_aboard_boat pl \<and> pt_t_ms m = ps_t_ms pl"

definition shows_boat :: "boat_snap \<Rightarrow> boat_state \<Rightarrow> bool" where
  "shows_boat b m \<longleftrightarrow> bt_boat_id m = bs_boat_id b \<and> bt_owner m = bs_owner b \<and> bt_pos m = Some (bs_pos b) \<and> bt_rot m = Some (bs_rot b)
     \<and> bt_vel m = Some (bs_vel b) \<and> bt_t_ms m = bs_t_ms b"

definition shows_mooring :: "mooring_snap \<Rightarrow> moorage_record \<Rightarrow> bool" where
  "shows_mooring r m \<longleftrightarrow> mo_boat_id m = ms_boat_id r \<and> mo_owner m = ms_owner r
     \<and> mo_cell m = Some (Cell (fst (ms_cell r)) (snd (ms_cell r))) \<and> mo_pos m = Some (ms_pos r) \<and> mo_rot m = Some (ms_rot r)
     \<and> mo_name m = Some (ms_name r) \<and> mo_created_at m = ms_created_at r"

definition mooring_writable :: "mooring_snap \<Rightarrow> bool" where
  "mooring_writable r \<longleftrightarrow> in_i32 (fst (ms_cell r)) \<and> in_i32 (snd (ms_cell r)) \<and> utf8_ok (ms_name r)"

lemma built_rows_show:
  "list_all2 shows_player ps (build_players ps)" "list_all2 shows_boat bs (build_boats bs)" "list_all2 shows_mooring ms (build_moorings ms)"
  by (simp_all add: build_players_def build_boats_def build_moorings_def list_all2_map2 list_all2_same build_player_def build_mooring_def
      shows_player_def shows_boat_def shows_mooring_def)

lemma built_rows_ok:
  "list_all PlayerState_ok (build_players ps)" "list_all BoatState_ok (build_boats bs)"
  "list_all mooring_writable ms \<Longrightarrow> list_all MoorageRecord_ok (build_moorings ms)"
  by (auto simp: build_moorings_def build_mooring_def MoorageRecord_ok_def mooring_writable_def cell_ok_def list_all_iff
      PlayerState_ok_def BoatState_ok_def)

lemma snapshot_reads:
  assumes "runtime_laws rt V"
  shows "\<exists>sd. sd_server_tick sd = tick
    \<and> (\<exists>ps'. sd_players sd = Some ps' \<and> list_all2 shows_player ps ps') \<and> (\<exists>bs'. sd_boats sd = Some bs' \<and> list_all2 shows_boat bs bs')
    \<and> (v_fits V (Envelope_tree \<lparr>env_seq = sq, env_payload = Some (PSnapshotDelta sd)\<rparr>) \<longrightarrow>
         wire_read rt (codec_snapshot_delta rt sq tick ps bs) = Decoded \<lparr>env_seq = sq, env_payload = Some (PSnapshotDelta sd)\<rparr>)"
proof -
  let ?sd = "\<lparr>sd_server_tick = tick, sd_players = Some (build_players ps), sd_boats = Some (build_boats bs)\<rparr>"
  have "envelope_ok \<lparr>env_seq = sq, env_payload = Some (PSnapshotDelta ?sd)\<rparr>"
    by (simp add: envelope_ok_def SnapshotDelta_ok_def built_rows_ok)
  from encoded_reads(1) [OF assms this] show ?thesis
    by (intro exI [of _ ?sd]) (simp add: built_rows_show codec_refines_presence snapshot_delta_def bindings_codec)
qed

lemma cell_reads:
  assumes "runtime_laws rt V" "in_i32 (cx c)" "in_i32 (cz c)" "list_all mooring_writable ms"
  shows "\<exists>sn. sn_cell sn = Some c
    \<and> (\<exists>ps'. sn_players sn = Some ps' \<and> list_all2 shows_player ps ps') \<and> (\<exists>bs'. sn_boats sn = Some bs' \<and> list_all2 shows_boat bs bs')
    \<and> (\<exists>ms'. sn_moorings sn = Some ms' \<and> list_all2 shows_mooring ms ms')
    \<and> (v_fits V (Envelope_tree \<lparr>env_seq = sq, env_payload = Some (PCellSnapshot sn)\<rparr>) \<longrightarrow>
         wire_read rt (codec_cell_snapshot rt sq c ps bs ms) = Decoded \<lparr>env_seq = sq, env_payload = Some (PCellSnapshot sn)\<rparr>)"
proof -
  let ?sn = "\<lparr>sn_cell = Some c, sn_players = Some (build_players ps), sn_boats = Some (build_boats bs), sn_moorings = Some (build_moorings ms)\<rparr>"
  have "envelope_ok \<lparr>env_seq = sq, env_payload = Some (PCellSnapshot ?sn)\<rparr>"
    using assms(2-4) by (simp add: envelope_ok_def CellSnapshot_ok_def built_rows_ok cell_ok_def)
  from encoded_reads(1) [OF assms(1) this] show ?thesis
    by (intro exI [of _ ?sn]) (simp add: built_rows_show codec_refines_presence cell_snapshot_def bindings_codec)
qed

lemma aoi_reads:
  assumes "runtime_laws rt V" "list_all cell_ok added" "list_all cell_ok removed"
    and "v_fits V (Envelope_tree \<lparr>env_seq = sq, env_payload = Some (PAoiUpdate \<lparr>aud_added = Some added, aud_removed = Some removed\<rparr>)\<rparr>)"
  shows "wire_read rt (codec_aoi_update rt sq added removed)
    = Decoded \<lparr>env_seq = sq, env_payload = Some (PAoiUpdate \<lparr>aud_added = Some added, aud_removed = Some removed\<rparr>)\<rparr>"
proof -
  have "envelope_ok \<lparr>env_seq = sq, env_payload = Some (PAoiUpdate \<lparr>aud_added = Some added, aud_removed = Some removed\<rparr>)\<rparr>"
    using assms(2,3) by (simp add: envelope_ok_def AoiUpdate_ok_def)
  from encoded_reads(1) [OF assms(1) this assms(4)] show ?thesis by (simp add: codec_refines_presence aoi_update_msg_def bindings_codec)
qed

text \<open>C18: a client that reads the messages which show it the world gets what the server handed to the encoders, entity by entity
  and in order: of a snapshot the tick, the players and the boats with every id, pose, velocity and time; of a cell
  snapshot the cell, its players, its boats and its moorings with their names; of an area update the cells added
  and removed; of a clock broadcast the day and the two fractions computed from the epoch.\<close>

theorem world_view_reads_back:
  assumes "runtime_laws rt V" "cell_ok c" "list_all cell_ok added" "list_all cell_ok removed" "list_all mooring_writable ms"
    and "clk = clock_from_epoch epoch_ms now_ms"
  shows "(\<exists>sd. sd_server_tick sd = tick
      \<and> (\<exists>ps'. sd_players sd = Some ps' \<and> list_all2 shows_player ps ps') \<and> (\<exists>bs'. sd_boats sd = Some bs' \<and> list_all2 shows_boat bs bs')
      \<and> (v_fits V (Envelope_tree \<lparr>env_seq = sq, env_payload = Some (PSnapshotDelta sd)\<rparr>) \<longrightarrow>
           wire_read rt (codec_snapshot_delta rt sq tick ps bs) = Decoded \<lparr>env_seq = sq, env_payload = Some (PSnapshotDelta sd)\<rparr>))
    \<and> (\<exists>sn. sn_cell sn = Some c
      \<and> (\<exists>ps'. sn_players sn = Some ps' \<and> list_all2 shows_player ps ps') \<and> (\<exists>bs'. sn_boats sn = Some bs' \<and> list_all2 shows_boat bs bs')
      \<and> (\<exists>ms'. sn_moorings sn = Some ms' \<and> list_all2 shows_mooring ms ms')
      \<and> (v_fits V (Envelope_tree \<lparr>env_seq = sq, env_payload = Some (PCellSnapshot sn)\<rparr>) \<longrightarrow>
           wire_read rt (codec_cell_snapshot rt sq c ps bs ms) = Decoded \<lparr>env_seq = sq, env_payload = Some (PCellSnapshot sn)\<rparr>))
    \<and> (let e = \<lparr>env_seq = sq, env_payload = Some (PAoiUpdate \<lparr>aud_added = Some added, aud_removed = Some removed\<rparr>)\<rparr>
       in v_fits V (Envelope_tree e) \<longrightarrow> wire_read rt (codec_aoi_update rt sq added removed) = Decoded e)
    \<and> (\<exists>w. unat (wc_day w) = clock_day clk
      \<and> f32_val (wc_time_of_day w) = Fin (clock_time_of_day clk) \<and> f32_val (wc_moon_phase w) = Fin (clock_moon_phase clk)
      \<and> (v_fits V (Envelope_tree \<lparr>env_seq = sq, env_payload = Some (PWorldClock w)\<rparr>) \<longrightarrow>
           wire_read rt (codec_world_clock rt sq clk) = Decoded \<lparr>env_seq = sq, env_payload = Some (PWorldClock w)\<rparr>))"
  (is "?snap \<and> ?cell \<and> ?aoi \<and> ?clock")
proof (intro conjI)
  show ?snap by (rule snapshot_reads [OF assms(1)])
  show ?cell using assms(2) by (intro cell_reads [OF assms(1) _ _ assms(5)]) (simp_all add: cell_ok_def)
  show ?aoi unfolding Let_def by (intro impI aoi_reads [OF assms(1,3,4)])
  show ?clock by (rule clock_on_the_wire [OF assms(1,6)])
qed

definition demo_boat_snap :: boat_snap where
  "demo_boat_snap = \<lparr>bs_boat_id = 4, bs_owner = 7, bs_pos = (1, 2, 3), bs_rot = (0, 0, 0, 1), bs_vel = (5, 6, 7), bs_t_ms = 40\<rparr>"

theorem world_view_reads_back_witness:
  "\<exists>sd m. wire_read ref_runtime (codec_snapshot_delta ref_runtime 3 12 [] [demo_boat_snap])
        = Decoded \<lparr>env_seq = 3, env_payload = Some (PSnapshotDelta sd)\<rparr>
     \<and> sd_boats sd = Some [m] \<and> bt_boat_id m = 4 \<and> bt_owner m = 7"
proof -
  have "cell_ok (Cell 1 2)" by (simp add: cell_ok_def in_i32_def machine_int)
  from world_view_reads_back [OF ref_runtime_lawful this, of "[]" "[]" "[]" _ 0 90000000 12 "[]" "[demo_boat_snap]" 3]
  obtain sd bs' where "wire_read ref_runtime (codec_snapshot_delta ref_runtime 3 12 [] [demo_boat_snap])
      = Decoded \<lparr>env_seq = 3, env_payload = Some (PSnapshotDelta sd)\<rparr>" "sd_boats sd = Some bs'" "list_all2 shows_boat [demo_boat_snap] bs'"
    by auto
  then show ?thesis by (auto simp: list_all2_Cons1 shows_boat_def demo_boat_snap_def)
qed

section \<open>Structs\<close>

text \<open>The fields of a struct and its bytes determine each other: a constructed struct has its
  size and reads back its fields, and every byte array of that size is the struct of what is read
  of it.\<close>

theorem structs_bijective:
  "length (Vec3_new x y z) = 12 \<and> (Vec3_x (Vec3_new x y z), Vec3_y (Vec3_new x y z), Vec3_z (Vec3_new x y z)) = (x, y, z)
   \<and> (length v = 12 \<longrightarrow> Vec3_new (Vec3_x v) (Vec3_y v) (Vec3_z v) = v)
   \<and> length (QuatC_new x y z w) = 16
   \<and> (QuatC_x (QuatC_new x y z w), QuatC_y (QuatC_new x y z w), QuatC_z (QuatC_new x y z w), QuatC_w (QuatC_new x y z w)) = (x, y, z, w)
   \<and> (length q = 16 \<longrightarrow> QuatC_new (QuatC_x q) (QuatC_y q) (QuatC_z q) (QuatC_w q) = q)
   \<and> length (GridCell_new a b) = 8
   \<and> (in_i32 a \<longrightarrow> in_i32 b \<longrightarrow> (GridCell_cx (GridCell_new a b), GridCell_cz (GridCell_new a b)) = (a, b))
   \<and> (length g = 8 \<longrightarrow> GridCell_new (GridCell_cx g) (GridCell_cz g) = g)"
  by (simp add: Vec3_reads_new QuatC_reads_new GridCell_reads_new)

theorem structs_bijective_witness:
  "GridCell_cx (GridCell_new (- 3) 5) = - 3 \<and> GridCell_cz (GridCell_new (- 3) 5) = 5
   \<and> Vec3_new (Vec3_x (replicate 12 7)) (Vec3_y (replicate 12 7)) (Vec3_z (replicate 12 7)) = replicate 12 7"
proof -
  have i: "in_i32 (- 3)" "in_i32 5" by (simp_all add: in_i32_def machine_int)
  have l: "length (replicate 12 (7 :: u8)) = 12" by simp
  show ?thesis using structs_bijective [of 0 0 0 "replicate 12 7" 0 "[]" "- 3" 5 "[]"] i l by blast
qed

end
