(* ===== verification/Server_Wire.thy ===== *)
theory Server_Wire
  imports Wire_Props Server_Boot
begin

text \<open>
  From datagram to datagram: the economy request as the client sends it and the acknowledgement as
  the client reads it, over the generated bindings on both sides. This composes the decoder, the
  handler of \<open>server.rs\<close>, the ledger of \<open>sw-econ\<close> over the SQLite tables, and the encoder.
\<close>

section \<open>Acknowledgements\<close>

definition econ_request :: "econ_txn \<Rightarrow> txn" where
  "econ_request m =
     \<lparr>txn_id = et_txn_id m, amount_gold = et_amount_gold m, txn_kind = et_kind m,
      txn_note = (case et_note m of Some n \<Rightarrow> n | None \<Rightarrow> '''')\<rparr>"

definition ledger_ack_envelope :: "u32 \<Rightarrow> ledger_ack \<Rightarrow> envelope" where
  "ledger_ack_envelope sq ack =
     \<lparr>env_seq = sq, env_payload = Some (PLedgerAck
        \<lparr>la_txn_id = ack_txn_id ack, la_accepted = ack_accepted ack, la_new_balance = ack_new_balance ack,
         la_reason = Some (ack_reason ack)\<rparr>)\<rparr>"

text \<open>An acknowledgement repeats a recorded balance or says what the policy decided.\<close>

lemma ledger_apply_ack:
  assumes "ledger_apply balance lookup commit p t s = (s', Inr a)"
  obtains (replay) s1 r where "lookup (txn_id t) s = (s1, Inr (Some r))" "ack_new_balance a = rec_new_balance r"
      "ack_reason a = ''duplicate (idempotent replay)''"
  | (decided) "ack_outcome a \<noteq> Replayed" "ack_reason a \<in> {'''', ''insufficient funds'', ''amount out of range''}"
  using assms
  by (auto simp: ledger_apply_def ack_outcome_def split: prod.splits sum.splits option.splits if_splits)

lemma lookup_txn_gold:
  assumes "db_inv d" "db_lookup_txn i d = (d1, Inr (Some r))"
  shows "in_i64 (rec_new_balance r)"
proof -
  from map_sql_read [OF assms(2) [unfolded db_lookup_txn_def lookup_txn_def]] obtain j p where
    "fmlookup (db_players d) j = Some p" "rec_new_balance r = pr_gold p"
    by (auto split: option.splits)
  with db_inv_player(4,5) [OF assms(1)] show ?thesis by (fastforce simp: in_i64_def i64_min_def)
qed

lemma ledger_ack_writable:
  assumes inv: "db_inv d" "p \<in> v_known (db_ledger_view d)" and ap: "db_ledger_apply now p t d = (d', Inr a)"
  shows "envelope_ok (ledger_ack_envelope sq a)"
proof -
  note ref = sql_ledger.apply_refines [OF inv ap [unfolded db_ledger_apply_def]]
  have texts: "utf8_ok ''duplicate (idempotent replay)''" "utf8_ok ''''" "utf8_ok ''insufficient funds''" "utf8_ok ''amount out of range''"
    by (simp_all add: utf8_ok_def str_bytes_def char_byte_def in_rng_def)
  from ap [unfolded db_ledger_apply_def] have "in_i64 (ack_new_balance a) \<and> utf8_ok (ack_reason a)"
  proof (cases rule: ledger_apply_ack)
    case (replay s1 r)
    with lookup_txn_gold [OF inv(1)] texts show ?thesis by auto
  next
    case decided
    have "in_i64 (v_bal (db_ledger_view d') p)"
      using ref db_inv_player(4,5) [of d'] by (fastforce simp: db_ledger_view_def in_i64_def machine_int split: option.split)
    with decided ref texts show ?thesis by auto
  qed
  then show ?thesis by (simp add: ledger_ack_envelope_def envelope_ok_def LedgerAck_ok_def)
qed


text \<open>A served request is one step of the ledger, answered by what \<open>ledger_ack\<close> encodes.\<close>

definition ledger_answer :: "('b, 'o, 't) runtime \<Rightarrow> nat \<Rightarrow> u64 \<Rightarrow> txn \<Rightarrow> server \<Rightarrow> server \<Rightarrow> u32 \<Rightarrow> ledger_ack \<Rightarrow> bool" where
  "ledger_answer rt peer pid t s s' sq a \<longleftrightarrow>
     ledger_spec pid t (db_ledger_view (sv_db s)) = (db_ledger_view (sv_db s'), ack_outcome a)
     \<and> ack_txn_id a = txn_id t
     \<and> (ack_outcome a = Replayed \<or> ack_new_balance a = v_bal (db_ledger_view (sv_db s')) pid)
     \<and> sv_host s' = fst (send_unreliable None peer (codec_ledger_ack rt sq a) (sv_host s))"

definition ledger_silent :: "server \<Rightarrow> server \<Rightarrow> bool" where
  "ledger_silent s s' \<longleftrightarrow> db_ledger_view (sv_db s') = db_ledger_view (sv_db s) \<and> sv_host s' = sv_host s"

lemma econ_apply_answers:
  assumes inv: "srv_inv s" and p: "pid \<in> v_known (db_ledger_view (sv_db s))"
    and ap: "econ_apply (bindings_fb rt) rd peer pid t s = (s', r)"
  shows "case r of Inl _ \<Rightarrow> ledger_silent s s'
    | Inr _ \<Rightarrow> \<exists>sq a. ledger_answer rt peer pid t s s' sq a \<and> envelope_ok (ledger_ack_envelope sq a)"
proof -
  obtain d q where q: "db_ledger_apply (rd_persist rd) pid t (sv_db s) = (d, q)"
    by (cases "db_ledger_apply (rd_persist rd) pid t (sv_db s)")
  note ref = sql_ledger.apply_refines [OF srv_db_inv [OF inv] p q [unfolded db_ledger_apply_def]]
  show ?thesis
  proof (cases q)
    case (Inl e)
    with ap q ref show ?thesis by (auto simp: econ_apply_def ledger_silent_def)
  next
    case (Inr a)
    have "ledger_answer rt peer pid t s s' (sv_seq s + 1) a" "r = Inr ()"
      using ap q ref Inr
      by (auto simp: econ_apply_def ledger_answer_def reply_def next_seq_def srv_send_def codec_refines_replies Let_def)
    with ledger_ack_writable [OF srv_db_inv [OF inv] p q [unfolded Inr]] show ?thesis by (auto split: sum.split)
  qed
qed

lemma econ_apply_after:
  assumes inv: "srv_inv s" and x: "fmlookup (sv_sessions s) peer = Some x"
    and ap: "econ_apply (bindings_fb rt) rd peer (ss_player_id x) t (s\<lparr>sv_db := (sv_db s)\<lparr>db_faults := fs\<rparr>, sv_econ_limiter := k\<rparr>) = (s', r)"
  shows "case r of Inl _ \<Rightarrow> ledger_silent s s'
    | Inr _ \<Rightarrow> \<exists>sq a. ledger_answer rt peer (ss_player_id x) t s s' sq a \<and> envelope_ok (ledger_ack_envelope sq a)"
proof -
  let ?s = "s\<lparr>sv_db := (sv_db s)\<lparr>db_faults := fs\<rparr>, sv_econ_limiter := k\<rparr>"
  have "srv_inv ?s" using srv_inv_faults [of s fs] inv by simp
  moreover have "ss_player_id x \<in> v_known (db_ledger_view (sv_db ?s))" using session_known(1) [OF inv x] by simp
  ultimately show ?thesis
    using econ_apply_answers [OF _ _ ap] by (cases r) (simp_all add: ledger_silent_def ledger_answer_def)
qed

text \<open>Which requests are served: the note is short enough, and the request is a replay or its
  player's turn.\<close>

definition econ_served :: "server \<Rightarrow> u64 \<Rightarrow> int \<Rightarrow> txn \<Rightarrow> bool" where
  "econ_served s pid adm t \<longleftrightarrow>
     string_within_limit (txn_note t) (max_wire_string_len_usize (sv_cfg s))
     \<and> (txn_id t \<in> v_seen (db_ledger_view (sv_db s)) \<or> snd (limiter_allow pid adm (sv_econ_limiter s)))"

lemma on_econ_step:
  assumes "fmlookup (sv_sessions s) peer = Some x"
    and "string_within_limit (txn_note (econ_request m)) (max_wire_string_len_usize (sv_cfg s))"
    and "lookup_txn (i64_of_u64 (et_txn_id m)) (sv_db s) = (d, q)"
  shows "on_econ fb rd peer m adm s =
      (case q of Inl e \<Rightarrow> (s\<lparr>sv_db := d\<rparr>, Inl (SqlFailed e))
       | Inr prior \<Rightarrow>
           let allow = limiter_allow (ss_player_id x) adm (sv_econ_limiter s);
               s2 = s\<lparr>sv_db := d, sv_econ_limiter := (if prior = None then fst allow else sv_econ_limiter s)\<rparr>
           in if prior = None \<and> \<not> snd allow then (s2, Inr ())
              else econ_apply fb rd peer (ss_player_id x) (econ_request m) s2)"
  using assms by (auto simp: on_econ_def econ_request_def Let_def split_beta split: sum.split)

lemma on_econ_answers:
  assumes inv: "srv_inv s" and x: "fmlookup (sv_sessions s) peer = Some x"
    and ap: "on_econ (bindings_fb rt) rd peer m adm s = (s', r)"
  shows "case r of Inl _ \<Rightarrow> ledger_silent s s'
    | Inr _ \<Rightarrow> if econ_served s (ss_player_id x) adm (econ_request m)
        then \<exists>sq a. ledger_answer rt peer (ss_player_id x) (econ_request m) s s' sq a \<and> envelope_ok (ledger_ack_envelope sq a)
        else ledger_silent s s'"
proof (cases "string_within_limit (txn_note (econ_request m)) (max_wire_string_len_usize (sv_cfg s))")
  case False
  with ap x show ?thesis by (auto simp: on_econ_def econ_request_def econ_served_def ledger_silent_def)
next
  case True
  obtain d q where l: "lookup_txn (i64_of_u64 (et_txn_id m)) (sv_db s) = (d, q)"
    by (cases "lookup_txn (i64_of_u64 (et_txn_id m)) (sv_db s)")
  from stmt_read [OF l [unfolded lookup_txn_def]] obtain fs where fs: "d = (sv_db s)\<lparr>db_faults := fs\<rparr>" by blast
  have seen: "o' \<noteq> None \<longleftrightarrow> et_txn_id m \<in> v_seen (db_ledger_view (sv_db s))" if "q = Inr o'" for o'
    using sql_ledger.lookup_ok [OF srv_db_inv [OF inv], of "et_txn_id m"] l that
    by (fastforce simp: db_lookup_txn_def map_sql_def sql_bind_def sql_ok_def)
  note step = on_econ_step [OF x True l, of "bindings_fb rt" rd adm]
  show ?thesis
  proof (cases q)
    case (Inl e)
    with ap step show ?thesis by (auto simp: ledger_silent_def fs)
  next
    case (Inr o')
    show ?thesis
    proof (cases "o' = None \<and> \<not> snd (limiter_allow (ss_player_id x) adm (sv_econ_limiter s))")
      case drop: True
      with Inr ap step seen [OF Inr] show ?thesis by (auto simp: ledger_silent_def econ_served_def econ_request_def fs)
    next
      case False
      with True seen [OF Inr] have "econ_served s (ss_player_id x) adm (econ_request m)"
        by (auto simp: econ_served_def econ_request_def)
      moreover have "econ_apply (bindings_fb rt) rd peer (ss_player_id x) (econ_request m)
          (s\<lparr>sv_db := d, sv_econ_limiter := (if o' = None then fst (limiter_allow (ss_player_id x) adm (sv_econ_limiter s)) else sv_econ_limiter s)\<rparr>) = (s', r)"
        using ap step [unfolded Inr Let_def sum.case if_not_P [OF False]] by simp
      ultimately show ?thesis using econ_apply_after [OF inv x] unfolding fs by auto
    qed
  qed
qed

section \<open>Datagram to datagram\<close>

text \<open>C10: an economy request that arrives in any datagram of a logged-in player is one step of the ledger or
  a store failure that changes nothing; a served request is answered with one message to that peer, in which the
  client reads the id it sent, the outcome and its balance; a request over the limits is dropped.\<close>

theorem econ_request_answered:
  assumes "runtime_laws rt V" "srv_inv s" "fmlookup (sv_sessions s) peer = Some x"
    and "wire_decode rt buf = Some \<lparr>env_seq = csq, env_payload = Some (PEconTxn m)\<rparr>"
  shows "case handle_data_at (bindings_fb rt) col rd peer buf adm s of
      (s', Inl _) \<Rightarrow> ledger_silent s s'
    | (s', Inr _) \<Rightarrow>
        if econ_served s (ss_player_id x) adm (econ_request m)
        then \<exists>sq a. ledger_answer rt peer (ss_player_id x) (econ_request m) s s' sq a
          \<and> (v_fits V (Envelope_tree (ledger_ack_envelope sq a)) \<longrightarrow>
               wire_read rt (codec_ledger_ack rt sq a) = Decoded (ledger_ack_envelope sq a))
        else ledger_silent s s'"
proof -
  have "handle_data_at (bindings_fb rt) col rd peer buf adm s = on_econ (bindings_fb rt) rd peer m adm s"
    by (simp add: handle_data_at_def bindings_codec assms(4))
  moreover obtain s' r where r: "on_econ (bindings_fb rt) rd peer m adm s = (s', r)"
    by (cases "on_econ (bindings_fb rt) rd peer m adm s")
  moreover have "wire_read rt (codec_ledger_ack rt sq a) = Decoded (ledger_ack_envelope sq a)"
    if "envelope_ok (ledger_ack_envelope sq a)" "v_fits V (Envelope_tree (ledger_ack_envelope sq a))" for sq a
    using encoded_reads [OF assms(1) that] by (simp add: codec_refines_replies ledger_ack_msg_def bindings_codec ledger_ack_envelope_def)
  ultimately show ?thesis
    using on_econ_answers [OF assms(2,3) r] by (cases r) (auto split: if_splits)
qed

theorem econ_request_answered_witness:
  "\<exists>x. fmlookup (sv_sessions demo_online) 1 = Some x
   \<and> (case handle_data_at (bindings_fb ref_runtime) (\<lambda>_. None) demo_readings 1 (wire_encode ref_runtime demo_envelope) 5 demo_online of
        (s', Inl _) \<Rightarrow> ledger_silent demo_online s'
      | (s', Inr _) \<Rightarrow>
          if econ_served demo_online (ss_player_id x) 5 (econ_request demo_txn)
          then \<exists>sq a. ledger_answer ref_runtime 1 (ss_player_id x) (econ_request demo_txn) demo_online s' sq a
            \<and> wire_read ref_runtime (codec_ledger_ack ref_runtime sq a) = Decoded (ledger_ack_envelope sq a)
          else ledger_silent demo_online s')"
proof -
  obtain x where x: "fmlookup (sv_sessions demo_online) 1 = Some x" using demo_online_settled(2) by blast
  have inv: "srv_inv demo_online" using demo_online_settled(1) by (simp add: settled_def)
  have d: "wire_decode ref_runtime (wire_encode ref_runtime demo_envelope) = Some \<lparr>env_seq = 7, env_payload = Some (PEconTxn demo_txn)\<rparr>"
    using encoded_reads(2) [OF ref_runtime_lawful demo_envelope_ok ref_fits] by (simp add: demo_envelope_def)
  show ?thesis
    using econ_request_answered [OF ref_runtime_lawful inv x d, where col = "\<lambda>_. None" and rd = demo_readings and adm = 5] x
    by (auto simp: split_beta split: sum.splits if_splits)
qed

end
