(* ===== verification/Server_Frame.thy ===== *)
theory Server_Frame
  imports Server_Boot
begin

text \<open>
  What the operations of the session registry leave alone: opening a session changes neither the
  store nor the configuration nor what the clock and the replies are computed from, and sends one
  message.
\<close>

definition same_base :: "server \<Rightarrow> server \<Rightarrow> bool" where
  "same_base s s' \<longleftrightarrow>
     sv_db s' = sv_db s \<and> sv_cfg s' = sv_cfg s \<and> sv_epoch_ms s' = sv_epoch_ms s \<and> sv_weather_seed s' = sv_weather_seed s
     \<and> sv_weather_epoch_day s' = sv_weather_epoch_day s \<and> sv_identity_players s' = sv_identity_players s"

lemma same_base_refl [simp]: "same_base s s"
  by (simp add: same_base_def)

lemma same_base_trans: "same_base s s' \<Longrightarrow> same_base s' s'' \<Longrightarrow> same_base s s''"
  by (simp add: same_base_def)

lemma rekey_fold: "\<exists>m. fold (\<lambda>(p, g). upd_session p (f g)) ps s = s\<lparr>sv_sessions := m\<rparr>"
proof (induction ps arbitrary: s)
  case Nil
  show ?case by (intro exI [of _ "sv_sessions s"]) simp
next
  case (Cons a ps)
  obtain p g where a: "a = (p, g)" by (cases a)
  obtain m where "upd_session p (f g) s = s\<lparr>sv_sessions := m\<rparr>"
    by (cases "fmlookup (sv_sessions s) p") (auto simp: upd_session_def intro: that [of "sv_sessions s"])
  with Cons.IH [of "s\<lparr>sv_sessions := m\<rparr>"] show ?case by (auto simp: a)
qed

lemma allocate_generation_frame:
  assumes "allocate_session_generation s = (s', r)"
  shows "same_base s s' \<and> sv_host s' = sv_host s \<and> sv_seq s' = sv_seq s \<and> sv_world s' = sv_world s"
proof -
  obtain m where "fold (\<lambda>(p, g). upd_session p (\<lambda>x. x\<lparr>ss_generation := g\<rparr>)) (rekeyed s) (invalidate_fanout_jobs s)
      = invalidate_fanout_jobs s\<lparr>sv_sessions := m\<rparr>" using rekey_fold [of "\<lambda>g x. x\<lparr>ss_generation := g\<rparr>" "rekeyed s" "invalidate_fanout_jobs s"] by blast
  with assms show ?thesis
    by (auto simp: allocate_session_generation_def rekey_live_session_generations_def invalidate_fanout_jobs_def same_base_def Let_def
        split: if_splits sum.splits option.splits)
qed

lemma register_frame:
  assumes "register_session peer x s = (s', r)"
  shows "same_base s s' \<and> sv_host s' = sv_host s \<and> sv_seq s' = sv_seq s \<and> sv_world s' = sv_world s"
proof -
  obtain s1 q where a: "allocate_session_generation s = (s1, q)" by (cases "allocate_session_generation s")
  from assms a allocate_generation_frame [OF a] show ?thesis
    by (auto simp: register_session_def schedule_aoi_def same_base_def Let_def split: if_splits option.splits sum.splits)
qed

lemma emit_aoi_frame [simp]: "same_base s (emit_aoi p a s') \<longleftrightarrow> same_base s s'" "sv_host (emit_aoi p a s') = sv_host s'"
  "sv_sessions (emit_aoi p a s') = sv_sessions s'"
  by (simp_all add: emit_aoi_def schedule_aoi_def same_base_def)

lemma open_session_frame:
  assumes "open_session fb rd peer pid identity name gold s = (s', r)"
  shows "same_base s s'"
proof -
  let ?origin = "grid_cell_of (world_grid (sv_world s)) 0 0"
  let ?x = "new_session pid identity name (fst (recenter sorted_list_of_fset ?origin (the (subscription_new (aoi_radius_i32 (sv_cfg s)))))) ?origin"
  let ?s = "s\<lparr>sv_world := fst (place_in_cell pid ?origin (sv_world s))\<rparr>"
  obtain s2 q where r: "register_session peer ?x ?s = (s2, q)" by (cases "register_session peer ?x ?s")
  have "same_base s s2" using register_frame [OF r] by (simp add: same_base_def)
  with assms r show ?thesis
    by (auto simp: open_session_def send_accepted_hello_def next_seq_def srv_send_def Let_def split_beta same_base_def emit_aoi_def
        schedule_aoi_def split: sum.splits if_splits)
qed

lemma demo_online_base: "sv_db demo_online = demo_roster" "sv_cfg demo_online = config_default"
proof -
  have "same_base demo_lobby demo_online"
    by (rule open_session_frame [OF demo_online_opens(1)])
  moreover have "sv_cfg demo_server = config_default" using demo_boot(1) by (auto elim: server_new_parts)
  ultimately show "sv_db demo_online = demo_roster" "sv_cfg demo_online = config_default"
    by (simp_all add: same_base_def demo_lobby_def)
qed

text \<open>Opening a session enters it in the table and sends the hello it is opened with.\<close>

lemma register_value:
  assumes "register_session peer x s = (s', Inr ())"
  shows "\<exists>g. fmlookup (sv_sessions s') peer = Some (x\<lparr>ss_generation := g\<rparr>)"
  using assms by (auto simp: register_session_def schedule_aoi_def Let_def split: if_splits option.splits sum.splits prod.splits)

definition hello_sent :: "flatbuffers \<Rightarrow> readings \<Rightarrow> u64 \<Rightarrow> int \<Rightarrow> server \<Rightarrow> bytes" where
  "hello_sent fb rd pid gold s =
     server_hello fb (sv_seq s) True '''' pid (cfg_server_name (sv_cfg s)) gold (srv_caps s) (clock_now (rd_clock rd) s)
       (sv_weather_seed s) (sv_weather_epoch_day s)"

lemma open_session_value:
  assumes "open_session fb rd peer pid identity name gold s = (s', Inr ())"
  shows "\<exists>x. fmlookup (sv_sessions s') peer = Some x \<and> ss_player_id x = pid \<and> ss_identity_hash x = identity \<and> ss_display_name x = name"
    and "sv_host s' = fst (send_unreliable None peer (hello_sent fb rd pid gold s') (sv_host s))"
    and "world_grid (sv_world s') = world_grid (sv_world s)"
proof -
  let ?origin = "grid_cell_of (world_grid (sv_world s)) 0 0"
  let ?x = "new_session pid identity name (fst (recenter sorted_list_of_fset ?origin (the (subscription_new (aoi_radius_i32 (sv_cfg s)))))) ?origin"
  let ?s = "s\<lparr>sv_world := fst (place_in_cell pid ?origin (sv_world s))\<rparr>"
  obtain s2 q where q: "register_session peer ?x ?s = (s2, q)" by (cases "register_session peer ?x ?s")
  with assms obtain aoi where r: "register_session peer ?x ?s = (s2, Inr ())" and s': "s' = emit_aoi peer aoi (send_accepted_hello fb rd peer pid gold s2)"
    by (cases q) (auto simp: open_session_def Let_def split_beta)
  from register_value [OF r] obtain g where "fmlookup (sv_sessions s2) peer = Some (?x\<lparr>ss_generation := g\<rparr>)" by blast
  then show "\<exists>x. fmlookup (sv_sessions s') peer = Some x \<and> ss_player_id x = pid \<and> ss_identity_hash x = identity \<and> ss_display_name x = name"
    by (simp add: s' send_accepted_hello_def next_seq_def srv_send_def new_session_def Let_def)
  from register_frame [OF r] show "sv_host s' = fst (send_unreliable None peer (hello_sent fb rd pid gold s') (sv_host s))"
    "world_grid (sv_world s') = world_grid (sv_world s)"
    by (simp_all add: s' emit_aoi_def schedule_aoi_def send_accepted_hello_def hello_sent_def next_seq_def srv_send_def same_base_def srv_caps_def clock_now_def Let_def)
qed

lemma demo_online_name: "\<exists>x. fmlookup (sv_sessions demo_online) 1 = Some x \<and> ss_display_name x = ''ann''"
  using open_session_value(1) [OF demo_online_opens(1)] by blast

end
