(* ===== verification/Server_Trade.thy ===== *)
theory Server_Trade
  imports Server_Wire Server_Frame
begin

text \<open>
  A market request from datagram to datagram, as \<open>Server_Wire\<close> has it for the economy: decoder,
  handler, \<open>sw-econ\<close>'s market over SQLite, encoder. A request of a logged-in player is always
  answered, by a step of the market or by a refusal with the state the market is in.
\<close>

section \<open>Acknowledgements\<close>

definition market_ack_envelope :: "u32 \<Rightarrow> market_ack \<Rightarrow> envelope" where
  "market_ack_envelope sq a =
     \<lparr>env_seq = sq, env_payload = Some (PMarketStateAck
        \<lparr>mk_txn_id = mack_txn_id a, mk_accepted = mack_accepted a, mk_port_id = mack_port_id a, mk_item_id = mack_item_id a,
         mk_stock = mack_stock a, mk_price = mack_price a, mk_reason = Some (mack_reason a)\<rparr>)\<rparr>"

text \<open>The columns of the market tables are \<open>i64\<close>.\<close>

definition market_typed :: "market_view \<Rightarrow> bool" where
  "market_typed v \<longleftrightarrow>
     (\<forall>k. in_i64 (fst (mv_state v k)) \<and> in_i64 (snd (mv_state v k)))
     \<and> (\<forall>i r. mv_trades v i = Some r \<longrightarrow> in_i64 (rtr_stock r) \<and> in_i64 (rtr_price r))"

lemma utf8_market_reasons:
  "utf8_ok ''duplicate (idempotent replay)''" "utf8_ok ''''" "utf8_ok ''invalid price''" "utf8_ok ''quantity out of range''"
  "utf8_ok ''insufficient stock''" "utf8_ok ''rate limited''"
  by (simp_all add: utf8_ok_def str_bytes_def char_byte_def in_rng_def)

lemma market_spec_writable:
  assumes v: "market_typed v" "in_i64 (trade_unit_price t)" and sp: "market_spec t v = (v', a)"
  shows "envelope_ok (market_ack_envelope sq a)" "market_typed v'"
proof -
  have "in_i64 (mack_stock a) \<and> in_i64 (mack_price a) \<and> utf8_ok (mack_reason a)"
    using v sp utf8_market_reasons
    by (auto simp: market_spec_def market_typed_def Let_def split: prod.splits option.splits if_splits) (metis fst_conv snd_conv)+
  then show "envelope_ok (market_ack_envelope sq a)"
    by (simp add: market_ack_envelope_def envelope_ok_def MarketStateAck_ok_def)
  show "market_typed v'"
    using v sp by (auto simp: market_spec_def market_typed_def Let_def split: prod.splits option.splits if_splits)
qed

lemma market_refusal_writable:
  assumes "market_typed v" "mv_state v k = (stock, price)"
  shows "envelope_ok (market_ack_envelope sq (market_reject t stock price ''rate limited''))"
proof -
  have "in_i64 stock" "in_i64 price" using assms unfolding market_typed_def by (metis fst_conv, metis snd_conv)
  with utf8_market_reasons show ?thesis
    by (simp add: market_ack_envelope_def market_reject_def envelope_ok_def MarketStateAck_ok_def)
qed

section \<open>The handler\<close>

definition market_silent :: "server \<Rightarrow> server \<Rightarrow> bool" where
  "market_silent s s' \<longleftrightarrow> db_market_view (sv_db s') = db_market_view (sv_db s) \<and> sv_host s' = sv_host s"

definition market_sent :: "('b, 'o, 't) runtime \<Rightarrow> nat \<Rightarrow> server \<Rightarrow> server \<Rightarrow> u32 \<Rightarrow> market_ack \<Rightarrow> bool" where
  "market_sent rt peer s s' sq a \<longleftrightarrow>
     sv_host s' = fst (send_unreliable None peer (codec_market_state_ack rt sq a) (sv_host s))"

text \<open>A request is served when it is a replay or its player's turn; otherwise it is refused with the
  current state of the port.\<close>

definition trade_served :: "server \<Rightarrow> u64 \<Rightarrow> int \<Rightarrow> trade \<Rightarrow> bool" where
  "trade_served s pid adm t \<longleftrightarrow>
     mv_trades (db_market_view (sv_db s)) (trade_txn_id t) \<noteq> None \<or> snd (limiter_allow pid adm (sv_trade_limiter s))"

definition trade_outcome :: "server \<Rightarrow> u64 \<Rightarrow> int \<Rightarrow> trade \<Rightarrow> market_view \<times> market_ack" where
  "trade_outcome s pid adm t =
     (let v = db_market_view (sv_db s); (stock, price) = mv_state v (trade_port_id t, trade_item_id t)
      in if trade_served s pid adm t then market_spec t v else (v, market_reject t stock price ''rate limited''))"

lemma trade_apply_answers:
  assumes inv: "srv_inv s" and ap: "trade_apply (bindings_fb rt) rd peer t s = (s', r)"
  shows "case r of Inl _ \<Rightarrow> market_silent s s'
    | Inr _ \<Rightarrow> \<exists>sq a. market_spec t (db_market_view (sv_db s)) = (db_market_view (sv_db s'), a) \<and> market_sent rt peer s s' sq a"
proof -
  obtain d q where q: "db_market_apply (rd_persist rd) t (sv_db s) = (d, q)" by (cases "db_market_apply (rd_persist rd) t (sv_db s)")
  note ref = sql_market.market_refines [OF srv_db_inv [OF inv] q [unfolded db_market_apply_def]]
  with ap q show ?thesis
    by (auto simp: trade_apply_def market_silent_def market_sent_def reply_def next_seq_def srv_send_def codec_refines_replies Let_def
        split: sum.splits)
qed

lemma trade_limited_answers:
  assumes ap: "trade_limited (bindings_fb rt) peer t s = (s', r)"
    and st: "mv_state (db_market_view (sv_db s)) (trade_port_id t, trade_item_id t) = (stock, price)"
  shows "case r of Inl _ \<Rightarrow> market_silent s s'
    | Inr _ \<Rightarrow> \<exists>sq. db_market_view (sv_db s') = db_market_view (sv_db s)
        \<and> market_sent rt peer s s' sq (market_reject t stock price ''rate limited'')"
proof -
  obtain d q where q: "market_state (trade_port_id t) (trade_item_id t) (sv_db s) = (d, q)"
    by (cases "market_state (trade_port_id t) (trade_item_id t) (sv_db s)")
  from stmt_read [OF q [unfolded market_state_def]] obtain fs where
    fs: "d = (sv_db s)\<lparr>db_faults := fs\<rparr>" "(\<exists>e. q = Inl e) \<or> q = Inr (fmlookup (db_market d) (trade_port_id t, trade_item_id t))" by blast
  have "(case fmlookup (db_market (sv_db s)) (trade_port_id t, trade_item_id t) of Some x \<Rightarrow> x | None \<Rightarrow> (0, 0)) = (stock, price)"
    using st by (simp add: db_market_view_def fmget_or_def split: option.splits)
  with ap q fs show ?thesis
    by (auto simp: trade_limited_def market_silent_def market_sent_def market_reject_def reply_def next_seq_def srv_send_def
        codec_refines_replies Let_def split_beta split: sum.splits)
qed

lemma lookup_trade_seen:
  assumes "lookup_trade i d = (d', Inr prior)"
  shows "prior \<noteq> None \<longleftrightarrow> mv_trades (db_market_view d) i \<noteq> None"
  using stmt_read [OF assms [unfolded lookup_trade_def]] by (auto simp: db_market_view_def split: option.splits)

lemma on_trade_step:
  assumes "fmlookup (sv_sessions s) peer = Some x" "lookup_trade (mt_txn_id m) (sv_db s) = (d, q)"
  shows "on_trade fb rd peer m adm s =
      (case q of Inl e \<Rightarrow> (s\<lparr>sv_db := d\<rparr>, Inl (SqlFailed e))
       | Inr prior \<Rightarrow>
           let allow = limiter_allow (ss_player_id x) adm (sv_trade_limiter s);
               s2 = s\<lparr>sv_db := d, sv_trade_limiter := (if prior = None then fst allow else sv_trade_limiter s)\<rparr>
           in if prior = None \<and> \<not> snd allow then trade_limited fb peer (trade_of m) s2
              else trade_apply fb rd peer (trade_of m) s2)"
  using assms by (auto simp: on_trade_def Let_def split_beta split: sum.split)

lemma on_trade_answers:
  assumes inv: "srv_inv s" and x: "fmlookup (sv_sessions s) peer = Some x"
    and ap: "on_trade (bindings_fb rt) rd peer m adm s = (s', r)"
  shows "case r of Inl _ \<Rightarrow> market_silent s s'
    | Inr _ \<Rightarrow> \<exists>sq a. trade_outcome s (ss_player_id x) adm (trade_of m) = (db_market_view (sv_db s'), a) \<and> market_sent rt peer s s' sq a"
proof -
  let ?allow = "limiter_allow (ss_player_id x) adm (sv_trade_limiter s)"
  obtain stock price where st: "mv_state (db_market_view (sv_db s)) (mt_port_id m, mt_item_id m) = (stock, price)"
    by (cases "mv_state (db_market_view (sv_db s)) (mt_port_id m, mt_item_id m)")
  obtain d q where l: "lookup_trade (mt_txn_id m) (sv_db s) = (d, q)" by (cases "lookup_trade (mt_txn_id m) (sv_db s)")
  from stmt_read [OF l [unfolded lookup_trade_def]] obtain fs where fs: "d = (sv_db s)\<lparr>db_faults := fs\<rparr>" by blast
  note step = on_trade_step [OF x l, of "bindings_fb rt" rd adm]
  show ?thesis
  proof (cases q)
    case (Inl e)
    with ap step show ?thesis by (auto simp: market_silent_def fs)
  next
    case (Inr prior)
    let ?s = "s\<lparr>sv_db := (sv_db s)\<lparr>db_faults := fs\<rparr>, sv_trade_limiter := (if prior = None then fst ?allow else sv_trade_limiter s)\<rparr>"
    have seen: "prior \<noteq> None \<longleftrightarrow> mv_trades (db_market_view (sv_db s)) (mt_txn_id m) \<noteq> None"
      using lookup_trade_seen l Inr by blast
    have inv2: "srv_inv ?s" using srv_inv_faults [OF inv, of fs] by simp
    show ?thesis
    proof (cases "prior = None \<and> \<not> snd ?allow")
      case True
      then have "\<not> trade_served s (ss_player_id x) adm (trade_of m)" using seen by (simp add: trade_served_def trade_of_def)
      moreover have "trade_limited (bindings_fb rt) peer (trade_of m) ?s = (s', r)" using True Inr ap step fs by (simp add: Let_def)
      ultimately show ?thesis using trade_limited_answers [of rt peer "trade_of m" ?s s' r stock price] st
        by (cases r) (auto simp: trade_outcome_def trade_of_def market_silent_def market_sent_def)
    next
      case False
      then have "trade_served s (ss_player_id x) adm (trade_of m)" using seen by (auto simp: trade_served_def trade_of_def)
      moreover have "trade_apply (bindings_fb rt) rd peer (trade_of m) ?s = (s', r)"
        using ap step [unfolded Inr Let_def sum.case if_not_P [OF False]] fs by simp
      ultimately show ?thesis using trade_apply_answers [OF inv2, of rt rd peer "trade_of m" s' r] st
        by (cases r) (auto simp: trade_outcome_def trade_of_def market_silent_def market_sent_def)
    qed
  qed
qed

lemma trade_outcome_writable:
  assumes v: "market_typed (db_market_view (sv_db s))" "in_i64 (trade_unit_price t)" and o: "trade_outcome s pid adm t = (v', a)"
  shows "envelope_ok (market_ack_envelope sq a)" "market_typed v'"
  using o market_spec_writable [OF v] market_refusal_writable [OF v(1)] v(1)
  by (auto simp: trade_outcome_def Let_def split: prod.splits if_splits)

section \<open>Datagram to datagram\<close>

text \<open>C11: a market request that arrives in any datagram of a logged-in player is a step of the market, or a
  refusal of a request that comes too early, or a store failure that changes nothing; without a failure the
  player is sent one message, in which the client reads the outcome with the stock and price of the port.\<close>

theorem trade_request_answered:
  assumes "runtime_laws rt V" "srv_inv s" "market_typed (db_market_view (sv_db s))" "fmlookup (sv_sessions s) peer = Some x"
    and "wire_decode rt buf = Some \<lparr>env_seq = csq, env_payload = Some (PMarketTradeRequest m)\<rparr>"
  shows "case handle_data_at (bindings_fb rt) col rd peer buf adm s of
      (s', Inl _) \<Rightarrow> market_silent s s'
    | (s', Inr _) \<Rightarrow> \<exists>sq a. trade_outcome s (ss_player_id x) adm (trade_of m) = (db_market_view (sv_db s'), a)
        \<and> market_typed (db_market_view (sv_db s')) \<and> market_sent rt peer s s' sq a
        \<and> (v_fits V (Envelope_tree (market_ack_envelope sq a)) \<longrightarrow>
             wire_read rt (codec_market_state_ack rt sq a) = Decoded (market_ack_envelope sq a))"
proof -
  have h: "handle_data_at (bindings_fb rt) col rd peer buf adm s = on_trade (bindings_fb rt) rd peer m adm s"
    by (simp add: handle_data_at_def bindings_codec assms(5))
  obtain s' r where r: "on_trade (bindings_fb rt) rd peer m adm s = (s', r)" by (cases "on_trade (bindings_fb rt) rd peer m adm s")
  have p: "in_i64 (trade_unit_price (trade_of m))"
    using decoded_message_ok [OF assms(1,5)] by (simp add: trade_of_def MarketTradeRequest_ok_def)
  have read: "wire_read rt (codec_market_state_ack rt sq a) = Decoded (market_ack_envelope sq a)"
    if "envelope_ok (market_ack_envelope sq a)" "v_fits V (Envelope_tree (market_ack_envelope sq a))" for sq a
    using encoded_reads [OF assms(1) that] by (simp add: codec_refines_replies market_state_ack_def bindings_codec market_ack_envelope_def)
  show ?thesis
    using on_trade_answers [OF assms(2,4) r] trade_outcome_writable [OF assms(3) p] read h r by (cases r) fastforce+
qed


definition demo_request :: market_trade_request where
  "demo_request = \<lparr>mt_txn_id = 3, mt_port_id = 1, mt_item_id = 2, mt_qty = 40, mt_unit_price = 9\<rparr>"

definition demo_order :: envelope where
  "demo_order = \<lparr>env_seq = 4, env_payload = Some (PMarketTradeRequest demo_request)\<rparr>"

lemma demo_order_ok: "envelope_ok demo_order"
  by (simp add: envelope_ok_def demo_order_def demo_request_def MarketTradeRequest_ok_def in_i64_def machine_int)

lemma demo_online_market: "market_typed (db_market_view (sv_db demo_online))"
  by (simp add: demo_online_base demo_roster_def db_empty_def market_typed_def db_market_view_def fmget_or_def in_i64_def machine_int
      split: option.split)

theorem trade_request_answered_witness:
  "\<exists>x. fmlookup (sv_sessions demo_online) 1 = Some x
   \<and> (case handle_data_at (bindings_fb ref_runtime) (\<lambda>_. None) demo_readings 1 (wire_encode ref_runtime demo_order) 5 demo_online of
        (s', Inl _) \<Rightarrow> market_silent demo_online s'
      | (s', Inr _) \<Rightarrow> \<exists>sq a. trade_outcome demo_online (ss_player_id x) 5 (trade_of demo_request) = (db_market_view (sv_db s'), a)
          \<and> wire_read ref_runtime (codec_market_state_ack ref_runtime sq a) = Decoded (market_ack_envelope sq a))"
proof -
  obtain x where x: "fmlookup (sv_sessions demo_online) 1 = Some x" using demo_online_settled(2) by blast
  have inv: "srv_inv demo_online" using demo_online_settled(1) by (simp add: settled_def)
  have d: "wire_decode ref_runtime (wire_encode ref_runtime demo_order) = Some \<lparr>env_seq = 4, env_payload = Some (PMarketTradeRequest demo_request)\<rparr>"
    using encoded_reads(2) [OF ref_runtime_lawful demo_order_ok ref_fits] by (simp add: demo_order_def)
  show ?thesis
    using trade_request_answered [OF ref_runtime_lawful inv demo_online_market x d, where col = "\<lambda>_. None" and rd = demo_readings and adm = 5] x
    by (auto simp: split_beta split: sum.splits)
qed

end
