(* ===== verification/Server_Moor.thy ===== *)
theory Server_Moor
  imports Server_Wire Server_Frame
begin

text \<open>
  A mooring request from datagram to datagram: what is stored, under which key, and what the client
  is told. The key is the boat the client says it is aboard, or else its player id; the row that is
  already there is replaced whoever owns it, but keeps its creation time, while the acknowledgement
  carries the time of the request.
\<close>

section \<open>What a request asks for\<close>

text \<open>REAL columns give back the finite values they were given.\<close>

definition exact_reals :: "(f32 \<Rightarrow> f32 option) \<Rightarrow> bool" where
  "exact_reals col \<longleftrightarrow> (\<forall>v. f32_is_finite v \<longrightarrow> col v = Some v)"

definition moor_boat :: "session \<Rightarrow> u64" where
  "moor_boat x = (if ss_aboard_boat x \<noteq> 0 then ss_aboard_boat x else ss_player_id x)"

definition moor_name :: "moor_request \<Rightarrow> string" where
  "moor_name req = (case mq_name req of Some n \<Rightarrow> n | None \<Rightarrow> ''mooring'')"

definition moor_cell :: "server \<Rightarrow> motion \<Rightarrow> cell" where
  "moor_cell s m = grid_cell_of (world_grid (sv_world s)) (fst (m_pos m)) (snd (snd (m_pos m)))"

datatype moor_plan = MoorDrop | MoorRefuse | MoorStore motion

definition plan_moor :: "server \<Rightarrow> session \<Rightarrow> int \<Rightarrow> moor_request \<Rightarrow> moor_plan" where
  "plan_moor s x adm req =
     (case sanitize_motion (vec3_of (mq_pos req)) (quat_of (mq_rot req)) (0, 0, 0) of
        None \<Rightarrow> MoorDrop
      | Some m \<Rightarrow>
          if length (moor_name req) > min (max_wire_string_len_usize (sv_cfg s)) MAX_MOORING_NAME_BYTES then MoorRefuse
          else if snd (limiter_allow (ss_player_id x) adm (sv_moor_limiter s)) then MoorStore m
          else MoorDrop)"

text \<open>The row the table then has, and the record the client is sent.\<close>

definition moored_row :: "server \<Rightarrow> session \<Rightarrow> int \<Rightarrow> motion \<Rightarrow> string \<Rightarrow> mooring_row" where
  "moored_row s x now m name =
     \<lparr>mr_boat_id = i64_of_u64 (moor_boat x), mr_owner = i64_of_u64 (ss_player_id x), mr_cell_x = cx (moor_cell s m),
      mr_cell_z = cz (moor_cell s m), mr_pos = m_pos m, mr_rot = m_rot m, mr_name = name,
      mr_created_at = (case fmlookup (db_moorings (sv_db s)) (i64_of_u64 (moor_boat x)) of
         Some old \<Rightarrow> mr_created_at old | None \<Rightarrow> now)\<rparr>"

definition moor_snap :: "server \<Rightarrow> session \<Rightarrow> int \<Rightarrow> motion \<Rightarrow> string \<Rightarrow> mooring_snap" where
  "moor_snap s x now m name =
     \<lparr>ms_boat_id = moor_boat x, ms_owner = ss_player_id x, ms_cell = (cx (moor_cell s m), cz (moor_cell s m)), ms_pos = m_pos m,
      ms_rot = m_rot m, ms_name = name, ms_created_at = u64_of_i64 now\<rparr>"

definition moor_envelope :: "u32 \<Rightarrow> bool \<Rightarrow> mooring_snap option \<Rightarrow> string \<Rightarrow> envelope" where
  "moor_envelope sq accepted rec reason =
     \<lparr>env_seq = sq, env_payload = Some (PMoorAck \<lparr>ma_accepted = accepted, ma_record = map_option build_mooring rec, ma_reason = Some reason\<rparr>)\<rparr>"

definition moor_silent :: "server \<Rightarrow> server \<Rightarrow> bool" where
  "moor_silent s s' \<longleftrightarrow> db_moorings (sv_db s') = db_moorings (sv_db s) \<and> sv_host s' = sv_host s"

text \<open>The answer to a planned request, as bytes and as what the client reads.\<close>

definition moor_bytes :: "('b, 'o, 't) runtime \<Rightarrow> server \<Rightarrow> session \<Rightarrow> int \<Rightarrow> string \<Rightarrow> moor_plan \<Rightarrow> bytes option" where
  "moor_bytes rt s x now name plan =
     (case plan of
        MoorDrop \<Rightarrow> None
      | MoorRefuse \<Rightarrow> Some (codec_moor_ack rt (sv_seq s + 1) False None MOOR_NAME_TOO_LONG_REASON)
      | MoorStore m \<Rightarrow> Some (codec_moor_ack rt (sv_seq s + 1) True (Some (moor_snap s x now m name)) ''''))"

definition moor_reply :: "server \<Rightarrow> session \<Rightarrow> int \<Rightarrow> string \<Rightarrow> moor_plan \<Rightarrow> envelope option" where
  "moor_reply s x now name plan =
     (case plan of
        MoorDrop \<Rightarrow> None
      | MoorRefuse \<Rightarrow> Some (moor_envelope (sv_seq s + 1) False None MOOR_NAME_TOO_LONG_REASON)
      | MoorStore m \<Rightarrow> Some (moor_envelope (sv_seq s + 1) True (Some (moor_snap s x now m name)) ''''))"

text \<open>The outcome: at most the row of the boat is written, at most one message is sent.\<close>

definition moor_done ::
  "('b, 'o, 't) runtime \<Rightarrow> nat \<Rightarrow> session \<Rightarrow> int \<Rightarrow> string \<Rightarrow> server \<Rightarrow> server \<Rightarrow> moor_plan \<Rightarrow> bool" where
  "moor_done rt peer x now name s s' plan \<longleftrightarrow>
     db_moorings (sv_db s') =
       (case plan of
          MoorStore m \<Rightarrow> fmupd (i64_of_u64 (moor_boat x)) (moored_row s x now m name) (db_moorings (sv_db s))
        | _ \<Rightarrow> db_moorings (sv_db s))
     \<and> sv_host s' =
       (case moor_bytes rt s x now name plan of
          None \<Rightarrow> sv_host s
        | Some b \<Rightarrow> fst (send_unreliable None peer b (sv_host s)))"

section \<open>The store\<close>

lemma in_mag_exact: "exact_reals col \<Longrightarrow> in_mag b v \<Longrightarrow> col v = Some v"
  by (auto simp: exact_reals_def in_mag_def f32_is_finite_def split: fval.splits)

lemma reals_exact:
  assumes "exact_reals col"
  shows "in_mag3 b v \<Longrightarrow> real3 col v = Some v" "in_mag4 b q \<Longrightarrow> real4 col q = Some q"
  using in_mag_exact [OF assms] by (auto simp: in_mag3_def in_mag4_def real3_def real4_def split: prod.splits)

lemma upsert_mooring_exact:
  assumes up: "upsert_mooring col r d = (d', q)" and ok: "real3 col (mr_pos r) = Some (mr_pos r)" "real4 col (mr_rot r) = Some (mr_rot r)"
  shows "case q of Inl _ \<Rightarrow> db_moorings d' = db_moorings d
    | Inr _ \<Rightarrow> db_moorings d' = fmupd (mr_boat_id r)
        (r\<lparr>mr_created_at := (case fmlookup (db_moorings d) (mr_boat_id r) of Some old \<Rightarrow> mr_created_at old | None \<Rightarrow> mr_created_at r)\<rparr>)
        (db_moorings d)"
  using up [unfolded upsert_mooring_def] by (cases rule: stmt_cases) (auto simp: ok Let_def)

lemma moor_save_answers:
  assumes col: "exact_reals col" and m: "sanitize_motion pos rot vel = Some m"
    and ap: "moor_save (bindings_fb rt) col rd peer (moor_boat x) (ss_player_id x) m name s = (s', r)"
  shows "case r of Inl _ \<Rightarrow> moor_silent s s' | Inr _ \<Rightarrow> moor_done rt peer x (rd_persist rd) name s s' (MoorStore m)"
proof -
  let ?r = "moor_row (rd_persist rd) (moor_boat x) (ss_player_id x) (moor_cell s m) m name"
  note mag = sanitize_motion_within [OF m]
  obtain d q where u: "upsert_mooring col ?r (sv_db s) = (d, q)" by (cases "upsert_mooring col ?r (sv_db s)")
  have "real3 col (mr_pos ?r) = Some (mr_pos ?r)" "real4 col (mr_rot ?r) = Some (mr_rot ?r)"
    using reals_exact [OF col] mag by (simp_all add: moor_row_def)
  note up = upsert_mooring_exact [OF u this]
  show ?thesis
    using ap up u
    by (cases q) (auto simp: moor_save_def moor_silent_def moor_done_def moor_bytes_def moored_row_def moor_snap_def moor_row_def reply_def next_seq_def
        srv_send_def codec_refines_replies Let_def simp flip: moor_cell_def cong: option.case_cong)
qed

section \<open>The handler\<close>

lemma send_bounded_host: "sv_host (fst (send_bounded peer b s)) = fst (send_unreliable None peer b (sv_host s))"
  by (simp add: send_bounded_def srv_send_def send_unreliable_def MAX_PAYLOAD_def)

lemma on_moor_answers:
  assumes col: "exact_reals col" and x: "fmlookup (sv_sessions s) peer = Some x"
    and ap: "on_moor (bindings_fb rt) col rd peer req adm s = (s', r)"
  shows "case r of Inl _ \<Rightarrow> moor_silent s s'
    | Inr _ \<Rightarrow> moor_done rt peer x (rd_persist rd) (moor_name req) s s' (plan_moor s x adm req)"
proof (cases "sanitize_motion (vec3_of (mq_pos req)) (quat_of (mq_rot req)) (0, 0, 0)")
  case None
  with ap x show ?thesis by (auto simp: on_moor_def plan_moor_def moor_done_def moor_bytes_def moor_silent_def Let_def)
next
  case (Some m)
  let ?limit = "min (max_wire_string_len_usize (sv_cfg s)) MAX_MOORING_NAME_BYTES"
  let ?allow = "limiter_allow (ss_player_id x) adm (sv_moor_limiter s)"
  have step: "on_moor (bindings_fb rt) col rd peer req adm s =
      (if length (moor_name req) > ?limit then
         (fst (send_bounded peer (moor_ack (bindings_fb rt) (sv_seq s + 1) False None MOOR_NAME_TOO_LONG_REASON) (s\<lparr>sv_seq := sv_seq s + 1\<rparr>)), Inr ())
       else let s1 = s\<lparr>sv_moor_limiter := fst ?allow\<rparr> in
         if \<not> snd ?allow then (s1, Inr ())
         else moor_save (bindings_fb rt) col rd peer (moor_boat x) (ss_player_id x) m (moor_name req) s1)"
    using x Some
    by (simp add: on_moor_def moor_boat_def moor_name_def next_seq_def string_within_limit_def not_le split_beta Let_def)
  consider (refuse) "length (moor_name req) > ?limit" | (limited) "\<not> length (moor_name req) > ?limit" "\<not> snd ?allow"
    | (store) "\<not> length (moor_name req) > ?limit" "snd ?allow" by blast
  then show ?thesis
  proof cases
    case refuse
    then have "plan_moor s x adm req = MoorRefuse" by (simp add: plan_moor_def Some)
    moreover have "db_moorings (sv_db (fst (send_bounded peer b s))) = db_moorings (sv_db s)" for b s
      by (simp add: send_bounded_def srv_send_def)
    ultimately show ?thesis using ap step refuse
      by (auto simp: moor_done_def moor_bytes_def send_bounded_host codec_refines_replies)
  next
    case limited
    with Some have "plan_moor s x adm req = MoorDrop" by (simp add: plan_moor_def)
    with ap step limited show ?thesis by (auto simp: moor_done_def moor_bytes_def moor_silent_def Let_def)
  next
    case store
    with Some have p: "plan_moor s x adm req = MoorStore m" by (simp add: plan_moor_def)
    let ?s = "s\<lparr>sv_moor_limiter := fst ?allow\<rparr>"
    have "moor_save (bindings_fb rt) col rd peer (moor_boat x) (ss_player_id x) m (moor_name req) ?s = (s', r)"
      using ap step store by (simp add: Let_def)
    from moor_save_answers [OF col Some this] p show ?thesis
      by (cases r) (auto simp: moor_done_def moor_bytes_def moor_silent_def moored_row_def moor_snap_def moor_cell_def cong: option.case_cong)
  qed
qed

section \<open>Datagram to datagram\<close>

lemma grid_cell_ok: "cell_ok (grid_cell_of g x z)"
  by (cases "fval_div (f32_val x) (f32_val (cell_size_m g))"; cases "fval_div (f32_val z) (f32_val (cell_size_m g))")
    (auto simp: cell_ok_def grid_cell_of_def grid_coord_def in_i32_def machine_int)

lemma moor_texts: "utf8_ok ''mooring''" "utf8_ok ''''" "utf8_ok MOOR_NAME_TOO_LONG_REASON"
  by (simp_all add: utf8_ok_def str_bytes_def char_byte_def in_rng_def MOOR_NAME_TOO_LONG_REASON_def)

lemma moor_reply_reads:
  assumes "runtime_laws rt V" "utf8_ok name" "moor_bytes rt s x now name plan = Some b"
  shows "\<exists>e. moor_reply s x now name plan = Some e \<and> (v_fits V (Envelope_tree e) \<longrightarrow> wire_read rt b = Decoded e)"
proof -
  obtain e where e: "moor_reply s x now name plan = Some e" "b = wire_encode rt e"
    using assms(3) by (auto simp: moor_bytes_def moor_reply_def codec_refines_replies moor_ack_def bindings_codec moor_envelope_def
        split: moor_plan.splits)
  have "envelope_ok e"
    using e(1) assms(2) grid_cell_ok moor_texts
    by (auto simp: moor_reply_def moor_envelope_def envelope_ok_def MoorAck_ok_def MoorageRecord_ok_def build_mooring_def moor_snap_def
        moor_cell_def split: moor_plan.splits)
  with e encoded_reads(1) [OF assms(1)] show ?thesis by blast
qed

text \<open>C12: a mooring request that arrives in any datagram of a logged-in player has the outcome planned for it. A
  request with a pose that is not finite, or too early, changes nothing; a name over the limit is refused; otherwise
  exactly the row of the boat is written, with the owner of the session, the clamped pose and its cell. At most
  one message is sent, and the client reads the refusal or the record in it. A store failure changes no row.\<close>

theorem moor_request_answered:
  assumes "runtime_laws rt V" "exact_reals col" "fmlookup (sv_sessions s) peer = Some x"
    and "wire_decode rt buf = Some \<lparr>env_seq = csq, env_payload = Some (PMoorRequest req)\<rparr>"
    and "plan = plan_moor s x adm req"
  shows "(case handle_data_at (bindings_fb rt) col rd peer buf adm s of
      (s', Inl _) \<Rightarrow> moor_silent s s'
    | (s', Inr _) \<Rightarrow> moor_done rt peer x (rd_persist rd) (moor_name req) s s' plan)
    \<and> (\<forall>b. moor_bytes rt s x (rd_persist rd) (moor_name req) plan = Some b \<longrightarrow>
         (\<exists>e. moor_reply s x (rd_persist rd) (moor_name req) plan = Some e \<and> (v_fits V (Envelope_tree e) \<longrightarrow> wire_read rt b = Decoded e)))"
proof -
  have "handle_data_at (bindings_fb rt) col rd peer buf adm s = on_moor (bindings_fb rt) col rd peer req adm s"
    by (simp add: handle_data_at_def bindings_codec assms(4))
  moreover obtain s' r where "on_moor (bindings_fb rt) col rd peer req adm s = (s', r)"
    by (cases "on_moor (bindings_fb rt) col rd peer req adm s")
  moreover have "utf8_ok (moor_name req)"
    using decoded_message_ok [OF assms(1,4)] moor_texts by (cases "mq_name req") (simp_all add: MoorRequest_ok_def moor_name_def)
  ultimately show ?thesis
    using on_moor_answers [OF assms(2,3), of rt rd req adm s' r] moor_reply_reads [OF assms(1)] assms(5) by auto
qed

section \<open>Whose row it is\<close>

text \<open>C29: the key of a mooring is what the client last said it was aboard, so a player who names the boat of another
  takes over that row: it then has the new owner and pose, and still the creation time of the old one, although
  the acknowledgement says it was created now.\<close>

theorem mooring_takeover:
  assumes "exact_reals col" "fmlookup (sv_sessions s) peer = Some x" "ss_aboard_boat x = boat" "boat \<noteq> 0"
    and "fmlookup (db_moorings (sv_db s)) (i64_of_u64 boat) = Some old" "mr_owner old \<noteq> i64_of_u64 (ss_player_id x)"
    and "plan_moor s x adm req = MoorStore m"
    and "on_moor (bindings_fb rt) col rd peer req adm s = (s', Inr ())"
  shows "\<exists>new. fmlookup (db_moorings (sv_db s')) (i64_of_u64 boat) = Some new
    \<and> mr_owner new = i64_of_u64 (ss_player_id x) \<and> mr_pos new = m_pos m \<and> mr_created_at new = mr_created_at old
    \<and> ms_created_at (moor_snap s x (rd_persist rd) m (moor_name req)) = u64_of_i64 (rd_persist rd)"
  using on_moor_answers [OF assms(1,2,8)] assms(3-7) by (simp add: moor_done_def moored_row_def moor_boat_def moor_snap_def)

section \<open>Examples\<close>

definition demo_berth :: moor_request where
  "demo_berth = \<lparr>mq_pos = None, mq_rot = None, mq_name = Some ''home''\<rparr>"

definition demo_quay :: server where
  "demo_quay = demo_online\<lparr>
     sv_sessions := fmupd 1 ((new_session 1 ''00c0ffee00c0ffee'' ''ann'' (the (subscription_new 2)) (Cell 0 0))\<lparr>ss_aboard_boat := 9\<rparr>) fmempty,
     sv_moor_limiter := limiter_new 0,
     sv_db := demo_roster\<lparr>db_moorings := fmupd 9 \<lparr>mr_boat_id = 9, mr_owner = 2, mr_cell_x = 3, mr_cell_z = 4, mr_pos = (0, 0, 0),
       mr_rot = (0, 0, 0, F32_ONE), mr_name = ''hers'', mr_created_at = 70\<rparr> fmempty\<rparr>\<rparr>"

definition demo_pose :: motion where
  "demo_pose = \<lparr>m_pos = (0, 0, 0), m_rot = (0, 0, 0, F32_ONE), m_vel = (0, 0, 0)\<rparr>"

lemma demo_pose_ok: "sanitize_motion (0, 0, 0) (0, 0, 0, F32_ONE) (0, 0, 0) = Some demo_pose"
proof -
  have z: "f32_val 0 = Fin 0" by (simp add: f32_val_def)
  have c: "finite_clamped 0 MAX_WORLD_COORD_M = Some 0" "finite_clamped 0 MAX_VELOCITY_MPS = Some 0"
    "finite_clamped 0 F32_ONE = Some 0" "finite_clamped F32_ONE F32_ONE = Some F32_ONE"
    by (rule finite_clamped_id; (rule f32_limits)?; simp add: in_mag_def z f32_limits)+
  show ?thesis by (simp add: sanitize_motion_def clamp_vec3_def clamp_quat_def c demo_pose_def)
qed

lemma demo_quay_plan:
  "\<exists>x. fmlookup (sv_sessions demo_quay) 1 = Some x \<and> ss_aboard_boat x = 9 \<and> ss_player_id x = 1
    \<and> plan_moor demo_quay x 5 demo_berth = MoorStore demo_pose"
  using demo_pose_ok
  by (simp add: demo_quay_def new_session_def plan_moor_def demo_berth_def vec3_of_def quat_of_def moor_name_def limiter_new_def
      limiter_allow_def demo_online_base max_wire_string_len_usize_def config_default_def MAX_WIRE_STRING_LEN_def MAX_MOORING_NAME_BYTES_def)

lemma demo_quay_runs: "snd (on_moor (bindings_fb ref_runtime) Some demo_readings 1 demo_berth 5 demo_quay) = Inr ()"
  using demo_pose_ok
  by (simp add: on_moor_def demo_quay_def new_session_def demo_berth_def vec3_of_def quat_of_def string_within_limit_def limiter_new_def
      limiter_allow_def demo_online_base max_wire_string_len_usize_def config_default_def MAX_WIRE_STRING_LEN_def MAX_MOORING_NAME_BYTES_def moor_save_def
      upsert_mooring_def stmt_def real3_def real4_def moor_row_def demo_pose_def demo_roster_def db_empty_def Let_def)

theorem moor_request_answered_witness:
  "\<exists>x. fmlookup (sv_sessions demo_quay) 1 = Some x
   \<and> (case handle_data_at (bindings_fb ref_runtime) Some demo_readings 1
          (wire_encode ref_runtime \<lparr>env_seq = 3, env_payload = Some (PMoorRequest demo_berth)\<rparr>) 5 demo_quay of
        (s', Inl _) \<Rightarrow> moor_silent demo_quay s'
      | (s', Inr _) \<Rightarrow> moor_done ref_runtime 1 x 2000 ''home'' demo_quay s' (MoorStore demo_pose))"
proof -
  obtain x where x: "fmlookup (sv_sessions demo_quay) 1 = Some x" "plan_moor demo_quay x 5 demo_berth = MoorStore demo_pose"
    using demo_quay_plan by blast
  have ok: "envelope_ok \<lparr>env_seq = 3, env_payload = Some (PMoorRequest demo_berth)\<rparr>"
    by (simp add: envelope_ok_def demo_berth_def MoorRequest_ok_def utf8_ok_def str_bytes_def char_byte_def in_rng_def)
  have col: "exact_reals Some" by (simp add: exact_reals_def)
  have names: "rd_persist demo_readings = 2000" "moor_name demo_berth = ''home''"
    by (simp_all add: demo_readings_def moor_name_def demo_berth_def)
  have "case handle_data_at (bindings_fb ref_runtime) Some demo_readings 1
          (wire_encode ref_runtime \<lparr>env_seq = 3, env_payload = Some (PMoorRequest demo_berth)\<rparr>) 5 demo_quay of
        (s', Inl _) \<Rightarrow> moor_silent demo_quay s'
      | (s', Inr _) \<Rightarrow> moor_done ref_runtime 1 x (rd_persist demo_readings) (moor_name demo_berth) demo_quay s' (MoorStore demo_pose)"
    by (rule moor_request_answered [OF ref_runtime_lawful col x(1) encoded_reads(2) [OF ref_runtime_lawful ok ref_fits] x(2) [symmetric],
      THEN conjunct1])
  with x(1) show ?thesis unfolding names by (intro exI [of _ x] conjI)
qed

theorem mooring_takeover_witness:
  "\<exists>new. fmlookup (db_moorings (sv_db (fst (on_moor (bindings_fb ref_runtime) Some demo_readings 1 demo_berth 5 demo_quay)))) 9 = Some new
    \<and> mr_owner new = 1 \<and> mr_created_at new = 70"
proof -
  obtain x where x: "fmlookup (sv_sessions demo_quay) 1 = Some x" "ss_aboard_boat x = 9" "ss_player_id x = 1"
    "plan_moor demo_quay x 5 demo_berth = MoorStore demo_pose" using demo_quay_plan by blast
  obtain s' where s': "on_moor (bindings_fb ref_runtime) Some demo_readings 1 demo_berth 5 demo_quay = (s', Inr ())"
    using demo_quay_runs by (metis prod.collapse)
  have n: "i64_of_u64 9 = 9" "i64_of_u64 1 = 1" by (simp_all add: i64_of_u64_def)
  have old: "fmlookup (db_moorings (sv_db demo_quay)) (i64_of_u64 9) = Some \<lparr>mr_boat_id = 9, mr_owner = 2, mr_cell_x = 3, mr_cell_z = 4,
      mr_pos = (0, 0, 0), mr_rot = (0, 0, 0, F32_ONE), mr_name = ''hers'', mr_created_at = 70\<rparr>"
    by (simp add: demo_quay_def n)
  have col: "exact_reals Some" by (simp add: exact_reals_def)
  from mooring_takeover [OF col x(1,2) _ old _ x(4) s'] s' n x(3) show ?thesis by auto
qed

end
