(* ===== verification/Server_Presence.thy ===== *)
theory Server_Presence
  imports Server_Wire Server_Frame
begin

text \<open>
  The two messages that are not answered, from the datagram on: a position report, which moves the
  session of its sender and nobody else's, and a chat line, which is queued under the name the
  server has for the sender.
\<close>

section \<open>Position reports\<close>

text \<open>A report is taken when it comes no earlier than the limiter allows and all of it is finite.\<close>

definition report_motion :: "server \<Rightarrow> session \<Rightarrow> int \<Rightarrow> client_state \<Rightarrow> motion option" where
  "report_motion s x now cs =
     (if snd (limiter_allow (ss_player_id x) now (sv_client_state_limiter s))
      then sanitize_motion (vec3_of (cs_pos cs)) (quat_of (cs_rot cs)) (vec3_of (cs_vel cs)) else None)"

definition still :: "server \<Rightarrow> server \<Rightarrow> bool" where
  "still s s' \<longleftrightarrow> sv_sessions s' = sv_sessions s \<and> sv_world s' = sv_world s \<and> sv_dirty_players s' = sv_dirty_players s"

definition moved :: "nat \<Rightarrow> session \<Rightarrow> client_state \<Rightarrow> motion \<Rightarrow> server \<Rightarrow> server \<Rightarrow> bool" where
  "moved peer x cs m s s' \<longleftrightarrow>
     (let c = grid_cell_of (world_grid (sv_world s)) (fst (m_pos m)) (snd (snd (m_pos m)));
          x' = x\<lparr>ss_pos := m_pos m, ss_rot := m_rot m, ss_vel := m_vel m, ss_aboard_boat := cs_aboard_boat cs, ss_t_ms := cs_t_ms cs,
             ss_dirty := True, ss_cell := Some c,
             ss_sub := \<lparr>sub_radius = aoi_radius_i32 (sv_cfg s), sub_center = Some c,
                        sub_cells = fset_of_list (cells_in_radius c (aoi_radius_i32 (sv_cfg s)))\<rparr>\<rparr>
      in sv_sessions s' = fmupd peer x' (sv_sessions s)
         \<and> (\<forall>q. cell_of_entity q (sv_world s') = (if q = ss_player_id x then Some c else cell_of_entity q (sv_world s)))
         \<and> world_inv (sv_world s') \<and> sv_dirty_players s' = finsert (ss_player_id x) (sv_dirty_players s))"

lemma on_client_state_value:
  assumes "fmlookup (sv_sessions s) peer = Some x"
  shows "on_client_state peer cs now s =
    (let s1 = s\<lparr>sv_client_state_limiter := fst (limiter_allow (ss_player_id x) now (sv_client_state_limiter s))\<rparr>
     in case report_motion s x now cs of
          None \<Rightarrow> s1
        | Some m \<Rightarrow>
            let c = grid_cell_of (world_grid (sv_world s)) (fst (m_pos m)) (snd (snd (m_pos m)))
            in emit_aoi peer (snd (recenter sorted_list_of_fset c (ss_sub x)))
                 (s1\<lparr>sv_world := fst (place_in_cell (ss_player_id x) c (sv_world s)),
                     sv_sessions := fmupd peer (move_session m cs c x) (sv_sessions s),
                     sv_dirty_players := finsert (ss_player_id x) (sv_dirty_players s)\<rparr>))"
  using assms
  by (simp add: on_client_state_def report_motion_def upd_session_def world_place_def cell_of_entity_def place_in_cell_cell Let_def split_beta
      split: option.split)

lemma emit_aoi_parts [simp]:
  "sv_world (emit_aoi p a s) = sv_world s" "sv_dirty_players (emit_aoi p a s) = sv_dirty_players s" "sv_db (emit_aoi p a s) = sv_db s"
  by (simp_all add: emit_aoi_def schedule_aoi_def)

lemma on_client_state_moves:
  assumes inv: "srv_inv s" and x: "fmlookup (sv_sessions s) peer = Some x"
  shows "(case report_motion s x now cs of
        None \<Rightarrow> still s (on_client_state peer cs now s)
      | Some m \<Rightarrow> moved peer x cs m s (on_client_state peer cs now s))
    \<and> sv_host (on_client_state peer cs now s) = sv_host s \<and> sv_db (on_client_state peer cs now s) = sv_db s"
proof (cases "report_motion s x now cs")
  case None
  with on_client_state_value [OF x, of cs now] show ?thesis by (simp add: still_def)
next
  case (Some m)
  let ?c = "grid_cell_of (world_grid (sv_world s)) (fst (m_pos m)) (snd (snd (m_pos m)))"
  have "session_inv (aoi_radius_i32 (sv_cfg s)) x" using inv x by (simp add: srv_inv_def core_inv_def sessions_inv_def)
  then have "fst (recenter sorted_list_of_fset ?c (ss_sub x)) = \<lparr>sub_radius = aoi_radius_i32 (sv_cfg s), sub_center = Some ?c,
      sub_cells = fset_of_list (cells_in_radius ?c (aoi_radius_i32 (sv_cfg s)))\<rparr>"
    unfolding session_inv_def by (elim conjE exE) (rule recenter_block, simp_all)
  then have "move_session m cs ?c x = x\<lparr>ss_pos := m_pos m, ss_rot := m_rot m, ss_vel := m_vel m, ss_aboard_boat := cs_aboard_boat cs,
      ss_t_ms := cs_t_ms cs, ss_dirty := True, ss_cell := Some ?c, ss_sub := \<lparr>sub_radius = aoi_radius_i32 (sv_cfg s), sub_center = Some ?c,
      sub_cells = fset_of_list (cells_in_radius ?c (aoi_radius_i32 (sv_cfg s)))\<rparr>\<rparr>"
    by (simp add: move_session_def)
  moreover have "world_inv (sv_world s)" using inv by (simp add: srv_inv_def view_inv_def)
  ultimately show ?thesis
    using on_client_state_value [OF x, of cs now] Some
    by (simp add: moved_def Let_def cell_of_entity_def place_in_cell_cell place_in_cell_inv)
qed

text \<open>C13: a position report in any datagram of a logged-in player moves that player's session and no other: it then has
  the clamped pose, which is finite and within the limits, the cell of it and the block of cells around, and the
  spatial index finds the player exactly there. A report that is not finite or too early moves nothing, and
  neither touches the store or sends anything.\<close>

theorem position_report_applied:
  assumes "srv_inv s" "fmlookup (sv_sessions s) peer = Some x"
    and "wire_decode rt buf = Some \<lparr>env_seq = csq, env_payload = Some (PClientState cs)\<rparr>"
  shows "case handle_data_at (bindings_fb rt) col rd peer buf now s of
      (s', r) \<Rightarrow> r = Inr () \<and> sv_host s' = sv_host s \<and> sv_db s' = sv_db s
      \<and> (case report_motion s x now cs of
           None \<Rightarrow> still s s'
         | Some m \<Rightarrow> moved peer x cs m s s' \<and> in_mag3 10000000 (m_pos m) \<and> in_mag4 1 (m_rot m) \<and> in_mag3 10000 (m_vel m))"
proof -
  have "handle_data_at (bindings_fb rt) col rd peer buf now s = (on_client_state peer cs now s, Inr ())"
    by (simp add: handle_data_at_def bindings_codec assms(3))
  moreover have "in_mag3 10000000 (m_pos m) \<and> in_mag4 1 (m_rot m) \<and> in_mag3 10000 (m_vel m)" if "report_motion s x now cs = Some m" for m
    using that by (auto simp: report_motion_def split: if_splits dest: sanitize_motion_within)
  ultimately show ?thesis using on_client_state_moves [OF assms(1,2), of cs now] by (auto split: option.splits)
qed

definition demo_report :: client_state where
  "demo_report = \<lparr>cs_pos = None, cs_rot = None, cs_vel = None, cs_aboard_boat = 9, cs_t_ms = 40\<rparr>"

lemma demo_report_wire:
  "wire_decode ref_runtime (wire_encode ref_runtime \<lparr>env_seq = 2, env_payload = Some (PClientState demo_report)\<rparr>)
    = Some \<lparr>env_seq = 2, env_payload = Some (PClientState demo_report)\<rparr>"
  by (rule encoded_reads(2) [OF ref_runtime_lawful _ ref_fits]) (simp add: envelope_ok_def ClientState_ok_def)

theorem position_report_applied_witness:
  "\<exists>x. fmlookup (sv_sessions demo_online) 1 = Some x
    \<and> (case handle_data_at (bindings_fb ref_runtime) Some demo_readings 1
          (wire_encode ref_runtime \<lparr>env_seq = 2, env_payload = Some (PClientState demo_report)\<rparr>) 5 demo_online of
        (s', r) \<Rightarrow> r = Inr () \<and> sv_db s' = demo_roster
        \<and> (case report_motion demo_online x 5 demo_report of
             None \<Rightarrow> still demo_online s' | Some m \<Rightarrow> moved 1 x demo_report m demo_online s'))"
proof -
  obtain x where x: "fmlookup (sv_sessions demo_online) 1 = Some x" using demo_online_settled(2) by blast
  have inv: "srv_inv demo_online" using demo_online_settled(1) by (simp add: settled_def)
  from position_report_applied [OF inv x demo_report_wire, where col = Some and rd = demo_readings and now = 5] x demo_online_base(1)
  show ?thesis by (auto split: option.splits)
qed

section \<open>Chat\<close>

definition chat_text :: "chat_send \<Rightarrow> string" where
  "chat_text chat = (case cd_text chat of Some t \<Rightarrow> t | None \<Rightarrow> '''')"

definition chat_taken :: "server \<Rightarrow> session \<Rightarrow> int \<Rightarrow> chat_send \<Rightarrow> bool" where
  "chat_taken s x now chat \<longleftrightarrow>
     length (chat_text chat) \<le> max_wire_string_len_usize (sv_cfg s) \<and> \<not> chat_queue_full s
     \<and> snd (limiter_allow (ss_player_id x) now (sv_chat_limiter s))"

text \<open>The line as it is broadcast: the sender is who the session belongs to, whatever the message says.\<close>

definition chat_line :: "u32 \<Rightarrow> u32 \<Rightarrow> session \<Rightarrow> chat_send \<Rightarrow> envelope" where
  "chat_line sq t_ms x chat =
     \<lparr>env_seq = sq, env_payload = Some (PChatBroadcast
        \<lparr>cb_player_id = ss_player_id x, cb_display_name = Some (ss_display_name x), cb_text = Some (chat_text chat),
         cb_channel = cd_channel chat, cb_t_ms = t_ms\<rparr>)\<rparr>"

definition chat_bytes :: "('b, 'o, 't) runtime \<Rightarrow> u32 \<Rightarrow> u32 \<Rightarrow> session \<Rightarrow> chat_send \<Rightarrow> bytes" where
  "chat_bytes rt sq t_ms x chat = codec_chat_broadcast rt sq (ss_player_id x) (ss_display_name x) (chat_text chat) (cd_channel chat) t_ms"

text \<open>A broadcast is queued when it fits into a datagram and its audience can be held: that of the last one is still
  good, or the sessions there are now fit into what the queues may hold.\<close>

definition audience_available :: "server \<Rightarrow> bool" where
  "audience_available s \<longleftrightarrow>
     sv_fanout_audience_cache s \<noteq> None
     \<or> (current_audience s \<noteq> [] \<and> retained_fanout_audience_entries s + length (current_audience s) \<le> FANOUT_QUEUE_RECIPIENTS)"

lemma capture_value:
  assumes "fanout_inv s"
  shows "if audience_available s
    then \<exists>a n. au_items a = current_audience s
      \<and> capture_fanout_recipients s = (s\<lparr>sv_fanout_audience_cache := Some a, sv_next_arc := n\<rparr>, Some a)
    else capture_fanout_recipients s = (s, None)"
proof (cases "sv_fanout_audience_cache s")
  case None
  have "(case checked_add_u64 (retained_fanout_audience_entries s) (length (current_audience s)) of
      None \<Rightarrow> True | Some n \<Rightarrow> n > FANOUT_QUEUE_RECIPIENTS)
    \<longleftrightarrow> retained_fanout_audience_entries s + length (current_audience s) > FANOUT_QUEUE_RECIPIENTS"
    by (simp add: checked_add_u64_def FANOUT_QUEUE_RECIPIENTS_def CHAT_QUEUE_ITEMS_def DEFAULT_MAX_PEERS_def u64_max_def)
  with None show ?thesis
    unfolding capture_fanout_recipients_def audience_available_def Let_def by (simp add: not_less) (metis audience.select_convs(2))
next
  case (Some a)
  then have "s\<lparr>sv_fanout_audience_cache := Some a, sv_next_arc := sv_next_arc s\<rparr> = s" "au_items a = current_audience s"
    using assms by (simp_all add: fanout_inv_def)
  moreover have "audience_available s" "capture_fanout_recipients s = (s, Some a)"
    using Some by (simp_all add: audience_available_def capture_fanout_recipients_def)
  ultimately show ?thesis by metis
qed

text \<open>The whole state after a chat line. A line that is too long or finds the queue full changes nothing, one that
  comes too early only the limiter; a line that is taken is charged to the limiter and uses up a sequence number, and
  if it can be queued goes to the end of the queue, its bytes counted, with its audience kept for the next.\<close>

definition chat_result :: "bytes \<Rightarrow> session \<Rightarrow> int \<Rightarrow> chat_send \<Rightarrow> server \<Rightarrow> server \<Rightarrow> bool" where
  "chat_result b x now chat s s' \<longleftrightarrow>
     (let l = fst (limiter_allow (ss_player_id x) now (sv_chat_limiter s));
          job = (\<lambda>a. \<lparr>fj_bytes = b, fj_sender_cell = ss_cell x, fj_recipients = a, fj_next_recipient = 0\<rparr>)
      in if chat_taken s x now chat
         then if length b \<le> MAX_PAYLOAD \<and> audience_available s
              then \<exists>a n. au_items a = current_audience s
                \<and> s' = s\<lparr>sv_chat_limiter := l, sv_seq := sv_seq s + 1, sv_fanout_audience_cache := Some a, sv_next_arc := n,
                    sv_chat_fanout := sv_chat_fanout s @ [job a], sv_chat_fanout_bytes := sv_chat_fanout_bytes s + length b\<rparr>
              else s' = s\<lparr>sv_chat_limiter := l, sv_seq := sv_seq s + 1\<rparr>
         else s' = (if length (chat_text chat) \<le> max_wire_string_len_usize (sv_cfg s) \<and> \<not> chat_queue_full s
                    then s\<lparr>sv_chat_limiter := l\<rparr> else s))"

lemma on_chat_queues:
  assumes inv: "srv_inv s" and x: "fmlookup (sv_sessions s) peer = Some x"
  shows "chat_result (chat_bytes rt (sv_seq s + 1) (uptime_ms (rd_uptime rd) s) x chat) x now chat s
    (on_chat (bindings_fb rt) rd peer chat now s)"
proof -
  obtain c where c: "ss_cell x = Some c" using inv x by (auto simp: srv_inv_def core_inv_def sessions_inv_def session_inv_def)
  let ?b = "chat_bytes rt (sv_seq s + 1) (uptime_ms (rd_uptime rd) s) x chat"
  let ?l = "limiter_allow (ss_player_id x) now (sv_chat_limiter s)"
  let ?s = "s\<lparr>sv_chat_limiter := fst ?l, sv_seq := sv_seq s + 1\<rparr>"
  have step: "on_chat (bindings_fb rt) rd peer chat now s =
      (if length (chat_text chat) > max_wire_string_len_usize (sv_cfg s) \<or> chat_queue_full s then s
       else if \<not> snd ?l then s\<lparr>sv_chat_limiter := fst ?l\<rparr> else queue_chat ?b c ?s)"
    using x c
    by (simp add: on_chat_def chat_text_def chat_bytes_def codec_refines_replies string_within_limit_def not_le next_seq_def uptime_ms_def
        Let_def split_beta)
  show ?thesis
  proof (cases "chat_taken s x now chat")
    case False
    with step show ?thesis by (auto simp: chat_taken_def chat_result_def Let_def)
  next
    case True
    have "fanout_inv s" using inv by (simp add: srv_inv_def core_inv_def)
    then have "fanout_inv ?s" by (simp add: fanout_inv_def live_audiences_def retained_fanout_audience_entries_def current_audience_def)
    note cap = capture_value [OF this]
    have [simp]: "current_audience ?s = current_audience s" "audience_available ?s = audience_available s"
      by (simp_all add: current_audience_def audience_available_def retained_fanout_audience_entries_def live_audiences_def)
    have "on_chat (bindings_fb rt) rd peer chat now s = queue_chat ?b c ?s" using step True by (simp add: chat_taken_def)
    moreover have "chat_result ?b x now chat s (queue_chat ?b c ?s)"
    proof (cases "audience_available s")
      case False
      with cap True c show ?thesis by (simp add: chat_result_def queue_chat_def)
    next
      case avail: True
      with cap obtain a n where a: "au_items a = current_audience s"
          "capture_fanout_recipients ?s = (?s\<lparr>sv_fanout_audience_cache := Some a, sv_next_arc := n\<rparr>, Some a)"
        by auto
      show ?thesis
      proof (cases "length ?b \<le> MAX_PAYLOAD")
        case short: True
        have "queue_chat ?b c ?s = s\<lparr>sv_chat_limiter := fst ?l, sv_seq := sv_seq s + 1, sv_fanout_audience_cache := Some a, sv_next_arc := n,
            sv_chat_fanout := sv_chat_fanout s @ [\<lparr>fj_bytes = ?b, fj_sender_cell = ss_cell x, fj_recipients = a, fj_next_recipient = 0\<rparr>],
            sv_chat_fanout_bytes := sv_chat_fanout_bytes s + length ?b\<rparr>"
          using short by (simp add: queue_chat_def a(2) c)
        with True avail short a(1) show ?thesis unfolding chat_result_def Let_def by (simp only: if_True simp_thms) blast
      qed (use True in \<open>simp add: chat_result_def queue_chat_def\<close>)
    qed
    ultimately show ?thesis by simp
  qed
qed

text \<open>C14: a chat line in any datagram of a logged-in player changes only the limiter of chat, the sequence number and
  the chat queue with its byte count and the audience it keeps; sessions, world, store, transport and everything else
  stay as they are. When it is taken and fits, exactly one broadcast is queued, behind the others, for exactly the sessions
  there are now, and every client that gets it reads the sender's player id, the name the server knows the sender by,
  and the text. A line that is too long or finds the queue full changes nothing at all, one that is too early only the limiter.\<close>

theorem chat_attributed:
  assumes "runtime_laws rt V" "srv_inv s" "fmlookup (sv_sessions s) peer = Some x" "utf8_ok (ss_display_name x)"
    and "wire_decode rt buf = Some \<lparr>env_seq = csq, env_payload = Some (PChatSend chat)\<rparr>"
    and "b = chat_bytes rt (sv_seq s + 1) (uptime_ms (rd_uptime rd) s) x chat"
    and "line = chat_line (sv_seq s + 1) (uptime_ms (rd_uptime rd) s) x chat"
  shows "(case handle_data_at (bindings_fb rt) col rd peer buf now s of (s', r) \<Rightarrow> r = Inr () \<and> chat_result b x now chat s s')
    \<and> (v_fits V (Envelope_tree line) \<longrightarrow> wire_read rt b = Decoded line)"
proof -
  have h: "handle_data_at (bindings_fb rt) col rd peer buf now s = (on_chat (bindings_fb rt) rd peer chat now s, Inr ())"
    by (simp add: handle_data_at_def bindings_codec assms(5))
  have "utf8_ok (chat_text chat)"
    using decoded_message_ok [OF assms(1,5)] by (cases "cd_text chat") (simp_all add: ChatSend_ok_def chat_text_def utf8_ok_def str_bytes_def)
  with assms(4) have "envelope_ok line" by (simp add: assms(7) chat_line_def envelope_ok_def ChatBroadcast_ok_def)
  from encoded_reads(1) [OF assms(1) this] have "v_fits V (Envelope_tree line) \<longrightarrow> wire_read rt b = Decoded line"
    by (simp add: assms(6,7) chat_bytes_def chat_line_def codec_refines_replies chat_broadcast_def bindings_codec)
  with on_chat_queues [OF assms(2,3), of rt rd chat now] h show ?thesis by (simp add: assms(6))
qed

definition demo_chat :: chat_send where
  "demo_chat = \<lparr>cd_text = Some ''ahoy'', cd_channel = 1\<rparr>"

lemma demo_chat_wire:
  "wire_decode ref_runtime (wire_encode ref_runtime \<lparr>env_seq = 2, env_payload = Some (PChatSend demo_chat)\<rparr>)
    = Some \<lparr>env_seq = 2, env_payload = Some (PChatSend demo_chat)\<rparr>"
  by (rule encoded_reads(2) [OF ref_runtime_lawful _ ref_fits])
    (simp add: envelope_ok_def ChatSend_ok_def demo_chat_def utf8_ok_def str_bytes_def char_byte_def in_rng_def)

theorem chat_attributed_witness:
  "\<exists>x. fmlookup (sv_sessions demo_online) 1 = Some x
    \<and> (case handle_data_at (bindings_fb ref_runtime) Some demo_readings 1
          (wire_encode ref_runtime \<lparr>env_seq = 2, env_payload = Some (PChatSend demo_chat)\<rparr>) 5 demo_online of
        (s', r) \<Rightarrow> r = Inr () \<and> chat_result (chat_bytes ref_runtime (sv_seq demo_online + 1)
          (uptime_ms (rd_uptime demo_readings) demo_online) x demo_chat) x 5 demo_chat demo_online s')
    \<and> wire_read ref_runtime (chat_bytes ref_runtime (sv_seq demo_online + 1) (uptime_ms (rd_uptime demo_readings) demo_online) x demo_chat)
      = Decoded (chat_line (sv_seq demo_online + 1) (uptime_ms (rd_uptime demo_readings) demo_online) x demo_chat)"
proof -
  obtain x where x: "fmlookup (sv_sessions demo_online) 1 = Some x" "ss_display_name x = ''ann''" using demo_online_name by blast
  have inv: "srv_inv demo_online" using demo_online_settled(1) by (simp add: settled_def)
  have u: "utf8_ok (ss_display_name x)" by (simp add: x(2) utf8_ok_def str_bytes_def char_byte_def in_rng_def)
  from chat_attributed [OF ref_runtime_lawful inv x(1) u demo_chat_wire refl refl, where col = Some and rd = demo_readings and now = 5] x(1)
  show ?thesis by (auto simp: split_beta)
qed

end
