(* ===== verification/Server_Welcome.thy ===== *)
theory Server_Welcome
  imports Server_Wire Server_Frame
begin

text \<open>
  A hello from datagram to datagram: the peer of an accepted hello has a session for the player its
  token is filed under, the row of that player says so, and the client reads the player id and balance
  of that row. A hello that is refused, dropped or hits a store failure leaves the sessions and the
  players as they were.
\<close>

section \<open>The hello that is sent\<close>

text \<open>The connection of the identity's earlier session is closed first.\<close>

definition host_without_prior :: "nat \<Rightarrow> u64 \<Rightarrow> server \<Rightarrow> host" where
  "host_without_prior peer pid s =
     (case fmlookup (sv_player_peers s) pid of
        None \<Rightarrow> sv_host s
      | Some pp \<Rightarrow> if pp \<noteq> peer \<and> peer_addr pp (sv_host s) \<noteq> None then fst (host_disconnect pp (sv_host s)) else sv_host s)"

definition hello_bytes :: "('b, 'o, 't) runtime \<Rightarrow> readings \<Rightarrow> u64 \<Rightarrow> int \<Rightarrow> server \<Rightarrow> bytes" where
  "hello_bytes rt rd pid gold s =
     codec_server_hello rt (sv_seq s) True '''' pid (cfg_server_name (sv_cfg s)) gold (srv_caps s) (clock_now (rd_clock rd) s)
       (sv_weather_seed s) (sv_weather_epoch_day s)"

definition hello_envelope :: "readings \<Rightarrow> u64 \<Rightarrow> int \<Rightarrow> server \<Rightarrow> envelope" where
  "hello_envelope rd pid gold s =
     \<lparr>env_seq = sv_seq s, env_payload = Some (PServerHello
        \<lparr>sh_accepted = True, sh_reason = Some '''', sh_player_id = pid, sh_server_name = Some (cfg_server_name (sv_cfg s)),
         sh_balance_gold = gold,
         sh_capabilities = Some
           \<lparr>cm_protocol_version = PROTOCOL_VERSION, cm_features = Some FEATURES, cm_tick_hz = caps_tick_hz (srv_caps s),
            cm_snapshot_hz = caps_snapshot_hz (srv_caps s), cm_aoi_radius_cells = caps_aoi_radius_cells (srv_caps s),
            cm_cell_size_m = cell_size_m (world_grid (sv_world s))\<rparr>,
         sh_clock = Some (build_clock (clock_now (rd_clock rd) s)),
         sh_weather = Some \<lparr>ws_seed = sv_weather_seed s, ws_epoch_day = of_nat (sv_weather_epoch_day s)\<rparr>\<rparr>)\<rparr>"

lemma features_utf8: "list_all utf8_ok FEATURES"
  by (simp add: FEATURES_def utf8_ok_def str_bytes_def char_byte_def in_rng_def)

lemma hello_reads:
  assumes "runtime_laws rt V" "utf8_ok (cfg_server_name (sv_cfg s))" "cell_size_m (world_grid (sv_world s)) \<noteq> 0x80000000" "in_i64 gold"
    and "v_fits V (Envelope_tree (hello_envelope rd pid gold s))"
  shows "wire_read rt (hello_bytes rt rd pid gold s) = Decoded (hello_envelope rd pid gold s)"
proof -
  let ?clk = "clock_from_epoch (sv_epoch_ms s) (rd_clock rd)"
  have "f32_val (f32_bits (clock_time_of_day ?clk)) = Fin (clock_time_of_day ?clk)"
    "f32_val (f32_bits (clock_moon_phase ?clk)) = Fin (clock_moon_phase ?clk)"
    using clock_bits(2,3) [of "sv_epoch_ms s" "rd_clock rd"] by (simp_all add: build_clock_def)
  note sign = this [THEN f32_bits_sign]
  have "envelope_ok (hello_envelope rd pid gold s)"
    using assms(2-4) sign features_utf8
    by (simp add: hello_envelope_def envelope_ok_def ServerHello_ok_def CapabilityManifest_ok_def WorldClock_ok_def WeatherSeed_ok_def
        build_clock_def clock_now_def utf8_ok_def str_bytes_def)
  from encoded_reads(1) [OF assms(1) this assms(5)] show ?thesis
    by (simp add: hello_bytes_def hello_envelope_def codec_refines_replies server_hello_def bindings_codec srv_caps_def)
qed

section \<open>Admission\<close>

definition refused :: "server \<Rightarrow> server \<Rightarrow> bool" where
  "refused s s' \<longleftrightarrow> sv_sessions s' = sv_sessions s \<and> db_players (sv_db s') = db_players (sv_db s)"

text \<open>The session, the row it belongs to, and the message sent.\<close>

definition welcomed :: "('b, 'o, 't) runtime \<Rightarrow> readings \<Rightarrow> nat \<Rightarrow> string \<Rightarrow> string \<Rightarrow> server \<Rightarrow> server \<Rightarrow> session \<Rightarrow> player_row \<Rightarrow> bool" where
  "welcomed rt rd peer identity name s s' x row \<longleftrightarrow>
     fmlookup (sv_sessions s') peer = Some x \<and> ss_identity_hash x = identity \<and> ss_display_name x = name
     \<and> fmlookup (db_players (sv_db s')) (i64_of_u64 (ss_player_id x)) = Some row \<and> pr_token_hash row = identity \<and> pr_name row = name
     \<and> pr_gold row = (case fmlookup (db_players (sv_db s)) (pr_id row) of Some old \<Rightarrow> pr_gold old | None \<Rightarrow> 0)
     \<and> db_inv (sv_db s') \<and> sv_cfg s' = sv_cfg s \<and> world_grid (sv_world s') = world_grid (sv_world s)
     \<and> sv_host s' = fst (send_unreliable None peer (hello_bytes rt rd (ss_player_id x) (pr_gold row) s')
         (host_without_prior peer (ss_player_id x) s))"

lemma evict_frame:
  assumes "evict_prior peer pid s = (s', Inr ())"
  shows "same_base s s' \<and> sv_host s' = host_without_prior peer pid s \<and> sv_world s' = sv_world s"
proof -
  have u: "same_base s (fst (unregister_session p s)) \<and> sv_host (fst (unregister_session p s)) = sv_host s
      \<and> sv_world (fst (unregister_session p s)) = sv_world s" for p s
    by (auto simp: unregister_session_def same_base_def Let_def split: option.split)
  show ?thesis
    using assms u by (auto simp: evict_prior_def host_without_prior_def same_base_def Let_def split: option.splits if_splits prod.splits)
qed

lemma host_without_prior_cong:
  "sv_host s1 = sv_host s \<Longrightarrow> sv_player_peers s1 = sv_player_peers s \<Longrightarrow> host_without_prior peer pid s1 = host_without_prior peer pid s"
  by (simp add: host_without_prior_def cong: option.case_cong if_cong)

lemma reject_refused: "db_players (sv_db s1) = db_players (sv_db s) \<Longrightarrow> sv_sessions s1 = sv_sessions s \<Longrightarrow> refused s (reject_hello fb rd peer reason s1)"
  by (simp add: refused_def reject_hello_def next_seq_def srv_send_def Let_def)

lemma index_identity_frame:
  assumes "index_identity adm identity known pid s = (s', r)"
  shows "sv_db s' = sv_db s \<and> sv_cfg s' = sv_cfg s \<and> sv_host s' = sv_host s \<and> sv_world s' = sv_world s \<and> sv_sessions s' = sv_sessions s
    \<and> sv_player_peers s' = sv_player_peers s"
  using assms by (auto simp: index_identity_def split: option.splits if_splits)

lemma welcome_session:
  assumes op: "open_session (bindings_fb rt) rd peer pid identity name (pr_gold row) s2 = (s3, Inr ())" and s2: "evict_prior peer pid s1 = (s2, Inr ())"
    and s1: "index_identity adm identity known pid (s\<lparr>sv_db := d\<rparr>) = (s1, Inr ())"
    and d: "db_inv d" "fmlookup (db_players d) (i64_of_u64 pid) = Some row" "pr_token_hash row = identity" "pr_name row = name"
    and gold: "pr_gold row = (case fmlookup (db_players (sv_db s)) (pr_id row) of Some old \<Rightarrow> pr_gold old | None \<Rightarrow> 0)"
  shows "\<exists>x. welcomed rt rd peer identity name s s3 x row"
proof -
  note f1 = index_identity_frame [OF s1] and f2 = evict_frame [OF s2] and f3 = open_session_frame [OF op] and v = open_session_value [OF op]
  have "host_without_prior peer pid s1 = host_without_prior peer pid s" using f1 by (intro host_without_prior_cong) simp_all
  moreover have "hello_sent (bindings_fb rt) rd pid (pr_gold row) s3 = hello_bytes rt rd pid (pr_gold row) s3"
    by (simp add: hello_sent_def hello_bytes_def codec_refines_replies)
  ultimately show ?thesis
    using f1 f2 f3 v d gold by (auto simp: welcomed_def same_base_def)
qed

lemma admit_hello_value:
  assumes inv: "srv_inv s" and p: "fmlookup (sv_sessions s) peer = None" and live: "peer |\<in>| peer_ids (sv_host s)"
    and g: "sv_next_session_generation s < u64_max"
    and res: "admit_hello (bindings_fb rt) rd peer adm identity name (fmlookup (sv_identity_players s) identity) s = (s', r)"
  shows "refused s s' \<or> r = Inr () \<and> (\<exists>x row. welcomed rt rd peer identity name s s' x row)"
proof -
  obtain d q where a: "admit_player_by_token identity name (rd_persist rd) (max_player_rows_u32 (sv_cfg s)) (sv_db s) = (d, q)"
    by (cases "admit_player_by_token identity name (rd_persist rd) (max_player_rows_u32 (sv_cfg s)) (sv_db s)")
  note ok = admit_player_ok [OF srv_db_inv [OF inv], of identity name "rd_persist rd" "max_player_rows_u32 (sv_cfg s)", unfolded a]
  consider (err) e where "q = Inl e" | (full) "q = Inr CapacityReached" | (row) row where "q = Inr (Admitted row)"
    by (metis player_admission.exhaust sum.exhaust_sel)
  then show ?thesis
  proof cases
    case err
    with a ok res show ?thesis by (auto simp: admit_hello_def admission_ok_def refused_def)
  next
    case full
    with a ok res show ?thesis by (auto simp: admit_hello_def admission_ok_def intro!: reject_refused)
  next
    case row
    let ?pid = "word_of_int (pr_id row) :: u64"
    have dinv: "db_inv d" and adm: "db_players d = fmupd (pr_id row) row (db_players (sv_db s))" "pr_token_hash row = identity" "pr_name row = name"
        "pr_gold row = (case fmlookup (db_players (sv_db s)) (pr_id row) of Some old \<Rightarrow> pr_gold old | None \<Rightarrow> 0)"
      using ok row by (auto simp: admission_ok_def split: option.splits)
    have look: "fmlookup (db_players d) (pr_id row) = Some row" by (simp add: adm(1))
    note rng = db_inv_player(2,3) [OF dinv look]
    have "db_players_seq d \<le> i64_max" using dinv by (simp add: db_inv_def)
    with rng have pid: "i64_of_u64 ?pid = pr_id row" by (intro i64_u64_id) auto
    note idx = index_identity_ok [OF inv a [unfolded row]]
    from idx(2) [of adm] obtain s1 where
      s1: "index_identity adm identity (fmlookup (sv_identity_players s) identity) ?pid (s\<lparr>sv_db := d\<rparr>) = (s1, Inr ())"
        "srv_inv s1" "fmlookup (sv_identity_players s1) identity = Some ?pid" "profile s1 = profile s" "sv_sessions s1 = sv_sessions s" by blast
    from evict_prior_ok [OF s1(2), of peer ?pid] p s1(5) obtain s2 where
      s2: "evict_prior peer ?pid s1 = (s2, Inr ())" "core_inv s2"
        "view_but ?pid (sv_sessions s2) (sv_player_peers s2) (sv_world s2)" "fmlookup (sv_player_peers s2) ?pid = None"
        "fmlookup (sv_sessions s2) peer = None" "sv_identity_players s2 = sv_identity_players s1"
        "sv_next_session_generation s2 = sv_next_session_generation s1"
        "peer_ids (sv_host s1) |-| peer_ids (sv_host s2) |\<subseteq>| fmdom (sv_sessions s1)" by auto
    have l2: "peer |\<in>| peer_ids (sv_host s2)" using s2(8) live fmdom_notI [OF p] s1(4) unfolding profile_def by auto
    from open_session_ok [OF s2(2-5) _ _ l2, of identity "bindings_fb rt" rd name "pr_gold row"] s1(3,4) s2(6,7) g obtain s3 where
      s3: "open_session (bindings_fb rt) rd peer ?pid identity name (pr_gold row) s2 = (s3, Inr ())" by (auto simp: profile_def)
    from idx(1) a row s1(1) s2(1) s3 res have "s' = s3" "r = Inr ()" by (simp_all add: admit_hello_def Let_def)
    with welcome_session [OF s3 s2(1) s1(1) dinv _ adm(2-4)] pid look show ?thesis by auto
  qed
qed

section \<open>The handler\<close>

text \<open>The limiters in front of the admission are all a hello can change before it.\<close>

lemma welcomed_from:
  assumes "refused s1 s' \<or> r = Inr () \<and> (\<exists>x row. welcomed rt rd peer identity name s1 s' x row)"
    and "sv_sessions s1 = sv_sessions s" "sv_db s1 = sv_db s" "sv_host s1 = sv_host s" "sv_player_peers s1 = sv_player_peers s"
      "sv_world s1 = sv_world s" "sv_cfg s1 = sv_cfg s"
  shows "refused s s' \<or> r = Inr () \<and> (\<exists>x row. welcomed rt rd peer identity name s s' x row)"
proof -
  have "host_without_prior peer pid s1 = host_without_prior peer pid s" for pid
    using assms(4,5) by (rule host_without_prior_cong)
  with assms show ?thesis by (simp add: refused_def welcomed_def)
qed

lemma throttle_hello_value:
  assumes inv: "srv_inv s" and p: "fmlookup (sv_sessions s) peer = None" and live: "peer |\<in>| peer_ids (sv_host s)"
    and g: "sv_next_session_generation s < u64_max"
    and res: "throttle_hello (bindings_fb rt) rd peer adm identity name ip s = (s', r)"
  shows "refused s s' \<or> r = Inr () \<and> (\<exists>x row. welcomed rt rd peer identity name s s' x row)"
proof -
  have admit: "refused s s' \<or> r = Inr () \<and> (\<exists>x row. welcomed rt rd peer identity name s s' x row)"
    if "admit_hello (bindings_fb rt) rd peer adm identity name k s1 = (s', r)" "srv_inv s1" "k = fmlookup (sv_identity_players s) identity"
      "sv_sessions s1 = sv_sessions s" "sv_db s1 = sv_db s" "sv_host s1 = sv_host s" "sv_player_peers s1 = sv_player_peers s"
      "sv_world s1 = sv_world s" "sv_cfg s1 = sv_cfg s" "sv_identity_players s1 = sv_identity_players s"
      "sv_next_session_generation s1 = sv_next_session_generation s" for k s1
    by (rule welcomed_from [OF admit_hello_value [OF that(2)] that(4-9)]) (use that p live g in simp_all)
  obtain l ok where l: "bounded_allow ip adm (sv_source_session_limiter s) = (l, ok)" by (cases "bounded_allow ip adm (sv_source_session_limiter s)")
  let ?s = "s\<lparr>sv_source_session_limiter := l\<rparr>"
  show ?thesis
  proof (cases ok)
    case False
    with res l show ?thesis by (auto simp: throttle_hello_def Let_def intro!: reject_refused)
  next
    case True
    show ?thesis
    proof (cases "fmlookup (sv_identity_players s) identity")
      case None
      obtain l2 ok2 where l2: "global_allow adm (sv_new_session_limiter s) = (l2, ok2)" by (cases "global_allow adm (sv_new_session_limiter s)")
      show ?thesis
      proof (cases ok2)
        case False
        with res l l2 True None show ?thesis by (auto simp: throttle_hello_def Let_def intro!: reject_refused)
      next
        case ok2: True
        with res l l2 True None have "admit_hello (bindings_fb rt) rd peer adm identity name None (?s\<lparr>sv_new_session_limiter := l2\<rparr>) = (s', r)"
          by (simp add: throttle_hello_def Let_def)
        then show ?thesis by (rule admit) (use inv None in simp_all)
      qed
    next
      case (Some pid)
      obtain l2 ok2 where l2: "bounded_allow pid adm (sv_reconnect_limiter s) = (l2, ok2)" by (cases "bounded_allow pid adm (sv_reconnect_limiter s)")
      show ?thesis
      proof (cases ok2)
        case False
        with res l l2 True Some show ?thesis by (auto simp: throttle_hello_def Let_def intro!: reject_refused)
      next
        case ok2: True
        with res l l2 True Some have "admit_hello (bindings_fb rt) rd peer adm identity name (Some pid) (?s\<lparr>sv_reconnect_limiter := l2\<rparr>) = (s', r)"
          by (simp add: throttle_hello_def Let_def)
        then show ?thesis by (rule admit) (use inv Some in simp_all)
      qed
    qed
  qed
qed

lemma on_hello_value:
  assumes inv: "srv_inv s" and p: "fmlookup (sv_sessions s) peer = None" and g: "sv_next_session_generation s < u64_max"
    and res: "on_hello_at (bindings_fb rt) rd peer hello adm s = (s', r)"
  shows "refused s s' \<or> r = Inr () \<and> (\<exists>token name x row. check_hello hello (max_wire_string_len_usize (sv_cfg s)) = Inr (token, name)
    \<and> welcomed rt rd peer (token_hash token) name s s' x row)"
proof -
  obtain l ok where l: "limiter_allow peer adm (sv_hello_limiter s) = (l, ok)" by (cases "limiter_allow peer adm (sv_hello_limiter s)")
  let ?s = "s\<lparr>sv_hello_limiter := l\<rparr>"
  have hi: "host_inv (sv_host s)" using inv by (simp add: srv_inv_def core_inv_def)
  show ?thesis
  proof (cases "ok \<and> (\<exists>token name a. check_hello hello (max_wire_string_len_usize (sv_cfg s)) = Inr (token, name) \<and> peer_addr peer (sv_host s) = Some a)")
    case False
    with res l p show ?thesis
      by (auto simp: on_hello_at_def Let_def refused_def [where s' = "_\<lparr>sv_hello_limiter := _\<rparr>"] intro!: reject_refused
          split: if_splits sum.splits option.splits)
  next
    case True
    then obtain token name a where c: "check_hello hello (max_wire_string_len_usize (sv_cfg s)) = Inr (token, name)"
      "peer_addr peer (sv_host s) = Some a" by blast
    have live: "peer |\<in>| peer_ids (sv_host ?s)" using c(2) peer_addr_None [OF hi, of peer] by auto
    have "throttle_hello (bindings_fb rt) rd peer adm (token_hash token) name (addr_ip a) ?s = (s', r)"
      using res l p c True by (simp add: on_hello_at_def Let_def)
    from throttle_hello_value [OF _ _ live _ this] inv p g
    have "refused ?s s' \<or> r = Inr () \<and> (\<exists>x row. welcomed rt rd peer (token_hash token) name ?s s' x row)" by simp
    from welcomed_from [OF this, of s] c(1) show ?thesis by auto
  qed
qed

section \<open>Datagram to datagram\<close>

text \<open>C9: a hello in any datagram of a peer without a session either leaves the sessions and the players as they were, as
  every store failure does, or is accepted: the peer then has a session for the token's identity under the name
  it gave, the row of that player holds that identity and name and the balance it had before, the
  connection of an earlier session of that player is closed, and the last thing sent is one message in which the
  client reads its player id and that balance.\<close>

theorem hello_welcomed:
  assumes "runtime_laws rt V" "srv_inv s" "sv_next_session_generation s < u64_max" "fmlookup (sv_sessions s) peer = None"
    and "utf8_ok (cfg_server_name (sv_cfg s))" "cell_size_m (world_grid (sv_world s)) \<noteq> 0x80000000"
    and "wire_decode rt buf = Some \<lparr>env_seq = csq, env_payload = Some (PClientHello hello)\<rparr>"
  shows "case handle_data_at (bindings_fb rt) col rd peer buf adm s of
      (s', r) \<Rightarrow> refused s s'
        \<or> r = Inr () \<and> (\<exists>token name x row. check_hello hello (max_wire_string_len_usize (sv_cfg s)) = Inr (token, name)
             \<and> welcomed rt rd peer (token_hash token) name s s' x row
             \<and> (v_fits V (Envelope_tree (hello_envelope rd (ss_player_id x) (pr_gold row) s')) \<longrightarrow>
                  wire_read rt (hello_bytes rt rd (ss_player_id x) (pr_gold row) s') = Decoded (hello_envelope rd (ss_player_id x) (pr_gold row) s')))"
proof -
  have h: "handle_data_at (bindings_fb rt) col rd peer buf adm s = on_hello_at (bindings_fb rt) rd peer hello adm s"
    by (simp add: handle_data_at_def bindings_codec assms(7))
  obtain s' r where r: "on_hello_at (bindings_fb rt) rd peer hello adm s = (s', r)" by (cases "on_hello_at (bindings_fb rt) rd peer hello adm s")
  have read: "wire_read rt (hello_bytes rt rd (ss_player_id x) (pr_gold row) s') = Decoded (hello_envelope rd (ss_player_id x) (pr_gold row) s')"
    if w: "welcomed rt rd peer identity name s s' x row" and "v_fits V (Envelope_tree (hello_envelope rd (ss_player_id x) (pr_gold row) s'))"
    for identity name x row
  proof (rule hello_reads [OF assms(1) _ _ _ that(2)])
    show "utf8_ok (cfg_server_name (sv_cfg s'))" "cell_size_m (world_grid (sv_world s')) \<noteq> 0x80000000"
      using w assms(5,6) by (simp_all add: welcomed_def)
    show "in_i64 (pr_gold row)"
      using w db_inv_player(4,5) [of "sv_db s'" "i64_of_u64 (ss_player_id x)" row] by (simp add: welcomed_def in_i64_def i64_min_def)
  qed
  from on_hello_value [OF assms(2,4,3) r] read show ?thesis unfolding h r prod.case by blast
qed

definition demo_arrival :: client_hello where
  "demo_arrival = demo_hello\<lparr>ch_api_surface_hash := Some ''a1''\<rparr>"

lemma demo_arrival_wire:
  "wire_decode ref_runtime (wire_encode ref_runtime \<lparr>env_seq = 1, env_payload = Some (PClientHello demo_arrival)\<rparr>)
    = Some \<lparr>env_seq = 1, env_payload = Some (PClientHello demo_arrival)\<rparr>"
  by (rule encoded_reads(2) [OF ref_runtime_lawful _ ref_fits])
    (simp add: envelope_ok_def ClientHello_ok_def demo_arrival_def demo_hello_def utf8_ok_def str_bytes_def char_byte_def in_rng_def)

lemma demo_lobby_base:
  "sv_next_session_generation demo_lobby < u64_max" "fmlookup (sv_sessions demo_lobby) 1 = None"
  "utf8_ok (cfg_server_name (sv_cfg demo_lobby))" "cell_size_m (world_grid (sv_world demo_lobby)) \<noteq> 0x80000000"
proof -
  have w: "sv_world demo_server = world_new (the (grid_new (cfg_cell_size_m config_default)))" "sv_cfg demo_server = config_default"
    using demo_boot(1) by (auto elim: server_new_parts)
  show "sv_next_session_generation demo_lobby < u64_max" "fmlookup (sv_sessions demo_lobby) 1 = None"
    using demo_server_settled(2) demo_server_empty by (simp_all add: demo_lobby_def u64_max_def)
  show "utf8_ok (cfg_server_name (sv_cfg demo_lobby))"
    by (simp add: demo_lobby_def w config_default_def utf8_ok_def str_bytes_def char_byte_def in_rng_def)
  have "f32_lt 0 DEFAULT_CELL_SIZE_M" by (simp add: f32_lt_def f32_limits f32_val_def [of 0])
  then show "cell_size_m (world_grid (sv_world demo_lobby)) \<noteq> 0x80000000"
    by (simp add: demo_lobby_def w config_default_def world_new_def grid_new_def DEFAULT_CELL_SIZE_M_def)
qed

theorem hello_welcomed_witness:
  "case handle_data_at (bindings_fb ref_runtime) Some demo_readings 1
      (wire_encode ref_runtime \<lparr>env_seq = 1, env_payload = Some (PClientHello demo_arrival)\<rparr>) 5 demo_lobby of
    (s', r) \<Rightarrow> refused demo_lobby s'
      \<or> r = Inr () \<and> (\<exists>x row. welcomed ref_runtime demo_readings 1 (token_hash ''tok'') ''ann'' demo_lobby s' x row
          \<and> wire_read ref_runtime (hello_bytes ref_runtime demo_readings (ss_player_id x) (pr_gold row) s')
            = Decoded (hello_envelope demo_readings (ss_player_id x) (pr_gold row) s'))"
proof -
  have "check_hello demo_arrival n = Inr (t, m) \<Longrightarrow> t = ''tok'' \<and> m = ''ann''" for n t m
    by (auto simp: check_hello_def demo_arrival_def demo_hello_def validate_hello_string_def split: if_splits)
  with hello_welcomed [OF ref_runtime_lawful demo_lobby_inv demo_lobby_base demo_arrival_wire, where col = Some and rd = demo_readings and adm = 5]
  show ?thesis by (fastforce split: prod.splits)
qed

end
