(* ===== verification/Fuzz_Target.thy ===== *)
theory Fuzz_Target
  imports Wire_Props
begin

text \<open>
  The fuzz target of the decoder, \<open>server/fuzz/fuzz_targets/decode_envelope.rs\<close>: the body that
  libFuzzer runs on every input. \<open>None\<close> stands for a read that is not defined, the crash the fuzzer
  looks for.
\<close>

definition fuzz_decode_envelope :: "('b, 'o, 't) runtime \<Rightarrow> bytes \<Rightarrow> unit option" where
  "fuzz_decode_envelope rt data =
     (case contracts_decode_envelope rt data of
        None \<Rightarrow> Some ()
      | Some env \<Rightarrow> do {
          _ \<leftarrow> Envelope_seq rt env;
          k \<leftarrow> Envelope_payload_type rt env;
          if k = Payload_ClientHello then do { _ \<leftarrow> Envelope_payload_as_client_hello rt env; Some () }
          else if k = Payload_ClientState then do { _ \<leftarrow> Envelope_payload_as_client_state rt env; Some () }
          else if k = Payload_EconTxn then do { _ \<leftarrow> Envelope_payload_as_econ_txn rt env; Some () }
          else if k = Payload_MarketTradeRequest then do { _ \<leftarrow> Envelope_payload_as_market_trade_request rt env; Some () }
          else if k = Payload_MoorRequest then do { _ \<leftarrow> Envelope_payload_as_moor_request rt env; Some () }
          else if k = Payload_ChatSend then do { _ \<leftarrow> Envelope_payload_as_chat_send rt env; Some () }
          else Some () })"

text \<open>What the server reads of an envelope includes all that the fuzzer touches.\<close>

lemma read_payload_arms:
  assumes "read_payload rt t k = Some p"
  shows "k = Payload_ClientHello \<Longrightarrow> Envelope_payload_as_client_hello rt t \<noteq> None"
    "k = Payload_ClientState \<Longrightarrow> Envelope_payload_as_client_state rt t \<noteq> None"
    "k = Payload_EconTxn \<Longrightarrow> Envelope_payload_as_econ_txn rt t \<noteq> None"
    "k = Payload_MarketTradeRequest \<Longrightarrow> Envelope_payload_as_market_trade_request rt t \<noteq> None"
    "k = Payload_MoorRequest \<Longrightarrow> Envelope_payload_as_moor_request rt t \<noteq> None"
    "k = Payload_ChatSend \<Longrightarrow> Envelope_payload_as_chat_send rt t \<noteq> None"
  using assms by (auto simp: read_payload_def payload bind_eq_Some_conv)

lemma fuzz_covered:
  assumes "read_Envelope rt env = Some e" "contracts_decode_envelope rt data = Some env"
  shows "fuzz_decode_envelope rt data = Some ()"
proof -
  from assms(1) obtain sq k p where r: "Envelope_seq rt env = Some sq" "Envelope_payload_type rt env = Some k" "read_payload rt env k = Some p"
    by (auto simp: read_Envelope_def bind_eq_Some_conv)
  show ?thesis using r(1,2) read_payload_arms [OF r(3)] assms(2) by (auto simp: fuzz_decode_envelope_def)
qed

text \<open>No input crashes the target, whatever the bytes are, over any lawful runtime.\<close>

theorem fuzz_never_crashes:
  assumes "runtime_laws rt V"
  shows "fuzz_decode_envelope rt data = Some ()"
proof (cases "contracts_decode_envelope rt data")
  case None
  then show ?thesis by (simp add: fuzz_decode_envelope_def)
next
  case (Some env)
  from readsD [OF read_Envelope_ok [OF assms] root_typed [OF assms Some]] show ?thesis by (rule fuzz_covered) (rule Some)
qed

theorem fuzz_never_crashes_witness:
  "fuzz_decode_envelope ref_runtime demo_garbage = Some () \<and> fuzz_decode_envelope ref_runtime demo_unknown = Some ()
   \<and> fuzz_decode_envelope ref_runtime (wire_encode ref_runtime demo_envelope) = Some ()"
  using fuzz_never_crashes [OF ref_runtime_lawful] by blast

end
