(* ===== verification/Bindings_Debug.thy ===== *)
theory Bindings_Debug
  imports Wire_Props
begin

text \<open>
  The \<open>Debug\<close> traits of the generated bindings: for every struct and table what its \<open>fmt\<close> hands to
  the formatter of the standard library, field by field, through the accessors. \<open>None\<close> is again a read that is
  not defined. Beside each \<open>fmt\<close> stands what is shown of the message it was read as, and the two agree.
\<close>

named_theorems fmt \<open>the formatters in terms of the messages read\<close>

section \<open>What a formatter is handed\<close>

text \<open>Numbers by value, strings quoted, names bare.\<close>

datatype debug =
    DBool bool
  | DInt int
  | DF32 f32
  | DStr string
  | DName string
  | DNone
  | DSome debug
  | DList "debug list"
  | DStruct string "(string \<times> debug) list"

fun shown_opt :: "('a \<Rightarrow> debug) \<Rightarrow> 'a option \<Rightarrow> debug" where
  "shown_opt f None = DNone"
| "shown_opt f (Some x) = DSome (f x)"

lemma map_option_bind [fmt]: "map_option f (Option.bind m k) = Option.bind m (\<lambda>x. map_option f (k x))"
  by (cases m) simp_all

lemma bind_map_option [fmt]: "Option.bind (map_option f m) k = Option.bind m (\<lambda>x. k (f x))"
  by (cases m) simp_all

lemma shown_opt_map [fmt]: "shown_opt f (map_option g xo) = shown_opt (f \<circ> g) xo"
  by (cases xo) simp_all

lemma those_map_option: "those (map (\<lambda>x. map_option f (g x)) xs) = map_option (map f) (those (map g xs))"
  by (induction xs) (auto split: option.splits simp: option.map_comp comp_def)

lemma follow_shown [fmt]:
  "follow_opt (\<lambda>t. map_option f (g t)) x = map_option (map_option f) (follow_opt g x)"
  "follow_vec (\<lambda>t. map_option f (g t)) tso = map_option (map_option (map f)) (follow_vec g tso)"
  by (cases x; simp add: option.map_comp comp_def)
     (cases tso; simp add: follow_vec_def those_map_option option.map_comp comp_def)

section \<open>Discriminants and structs\<close>

definition Payload_fmt :: "u8 \<Rightarrow> debug" where
  "Payload_fmt p =
     (case Payload_variant_name p of Some name \<Rightarrow> DName name | None \<Rightarrow> DName (''<UNKNOWN '' @ show_nat (unat p) @ ''>''))"

definition Vec3_fmt :: "bytes \<Rightarrow> debug" where
  "Vec3_fmt s = DStruct ''Vec3'' [(''x'', DF32 (Vec3_x s)), (''y'', DF32 (Vec3_y s)), (''z'', DF32 (Vec3_z s))]"

definition QuatC_fmt :: "bytes \<Rightarrow> debug" where
  "QuatC_fmt s =
     DStruct ''QuatC'' [(''x'', DF32 (QuatC_x s)), (''y'', DF32 (QuatC_y s)), (''z'', DF32 (QuatC_z s)), (''w'', DF32 (QuatC_w s))]"

definition GridCell_fmt :: "bytes \<Rightarrow> debug" where
  "GridCell_fmt s = DStruct ''GridCell'' [(''cx'', DInt (GridCell_cx s)), (''cz'', DInt (GridCell_cz s))]"

fun vec3_shown :: "vec3 \<Rightarrow> debug" where
  "vec3_shown (x, y, z) = DStruct ''Vec3'' [(''x'', DF32 x), (''y'', DF32 y), (''z'', DF32 z)]"

fun quat_shown :: "quat \<Rightarrow> debug" where
  "quat_shown (x, y, z, w) = DStruct ''QuatC'' [(''x'', DF32 x), (''y'', DF32 y), (''z'', DF32 z), (''w'', DF32 w)]"

fun cell_shown :: "cell \<Rightarrow> debug" where
  "cell_shown (Cell x z) = DStruct ''GridCell'' [(''cx'', DInt x), (''cz'', DInt z)]"

lemma struct_fmt_shown [fmt]: "Vec3_fmt = vec3_shown \<circ> struct_vec3" "QuatC_fmt = quat_shown \<circ> struct_quat" "GridCell_fmt = cell_shown \<circ> struct_cell"
  by (simp_all add: fun_eq_iff Vec3_fmt_def QuatC_fmt_def GridCell_fmt_def struct_vec3_def struct_quat_def struct_cell_def)

section \<open>Tables\<close>

definition WorldClock_fmt :: "('b, 'o, 't) runtime \<Rightarrow> 't \<Rightarrow> debug option" where
  "WorldClock_fmt rt t = do {
     v1 \<leftarrow> WorldClock_day rt t;
     v2 \<leftarrow> WorldClock_time_of_day rt t;
     v3 \<leftarrow> WorldClock_moon_phase rt t;
     Some (DStruct ''WorldClock''
       [(''day'', DInt (uint v1)), (''time_of_day'', DF32 v2), (''moon_phase'', DF32 v3)])
   }"

definition WorldClock_shown :: "world_clock_table \<Rightarrow> debug" where
  "WorldClock_shown r = DStruct ''WorldClock''
     [(''day'', DInt (uint (wc_day r))), (''time_of_day'', DF32 (wc_time_of_day r)),
      (''moon_phase'', DF32 (wc_moon_phase r))]"

lemma WorldClock_fmt_shown [fmt]: "WorldClock_fmt rt = (\<lambda>t. map_option WorldClock_shown (read_WorldClock rt t))"
  by (rule ext) (simp add: WorldClock_fmt_def read_WorldClock_def WorldClock_shown_def fmt comp_def)

definition WeatherSeed_fmt :: "('b, 'o, 't) runtime \<Rightarrow> 't \<Rightarrow> debug option" where
  "WeatherSeed_fmt rt t = do {
     v1 \<leftarrow> WeatherSeed_seed rt t;
     v2 \<leftarrow> WeatherSeed_epoch_day rt t;
     Some (DStruct ''WeatherSeed''
       [(''seed'', DInt (uint v1)), (''epoch_day'', DInt (uint v2))])
   }"

definition WeatherSeed_shown :: "weather_seed_table \<Rightarrow> debug" where
  "WeatherSeed_shown r = DStruct ''WeatherSeed''
     [(''seed'', DInt (uint (ws_seed r))), (''epoch_day'', DInt (uint (ws_epoch_day r)))]"

lemma WeatherSeed_fmt_shown [fmt]: "WeatherSeed_fmt rt = (\<lambda>t. map_option WeatherSeed_shown (read_WeatherSeed rt t))"
  by (rule ext) (simp add: WeatherSeed_fmt_def read_WeatherSeed_def WeatherSeed_shown_def fmt comp_def)

definition CapabilityManifest_fmt :: "('b, 'o, 't) runtime \<Rightarrow> 't \<Rightarrow> debug option" where
  "CapabilityManifest_fmt rt t = do {
     v1 \<leftarrow> CapabilityManifest_protocol_version rt t;
     v2 \<leftarrow> CapabilityManifest_features rt t;
     v3 \<leftarrow> CapabilityManifest_tick_hz rt t;
     v4 \<leftarrow> CapabilityManifest_snapshot_hz rt t;
     v5 \<leftarrow> CapabilityManifest_aoi_radius_cells rt t;
     v6 \<leftarrow> CapabilityManifest_cell_size_m rt t;
     Some (DStruct ''CapabilityManifest''
       [(''protocol_version'', DInt (uint v1)), (''features'', shown_opt (DList \<circ> map DStr) v2),
        (''tick_hz'', DInt (uint v3)), (''snapshot_hz'', DInt (uint v4)), (''aoi_radius_cells'', DInt (uint v5)),
        (''cell_size_m'', DF32 v6)])
   }"

definition CapabilityManifest_shown :: "capability_manifest \<Rightarrow> debug" where
  "CapabilityManifest_shown r = DStruct ''CapabilityManifest''
     [(''protocol_version'', DInt (uint (cm_protocol_version r))),
      (''features'', shown_opt (DList \<circ> map DStr) (cm_features r)),
      (''tick_hz'', DInt (uint (cm_tick_hz r))), (''snapshot_hz'', DInt (uint (cm_snapshot_hz r))),
      (''aoi_radius_cells'', DInt (uint (cm_aoi_radius_cells r))), (''cell_size_m'', DF32 (cm_cell_size_m r))]"

lemma CapabilityManifest_fmt_shown [fmt]: "CapabilityManifest_fmt rt = (\<lambda>t. map_option CapabilityManifest_shown (read_CapabilityManifest rt t))"
  by (rule ext) (simp add: CapabilityManifest_fmt_def read_CapabilityManifest_def CapabilityManifest_shown_def fmt comp_def)

definition ClientHello_fmt :: "('b, 'o, 't) runtime \<Rightarrow> 't \<Rightarrow> debug option" where
  "ClientHello_fmt rt t = do {
     v1 \<leftarrow> ClientHello_protocol_version rt t;
     v2 \<leftarrow> ClientHello_display_name rt t;
     v3 \<leftarrow> ClientHello_token rt t;
     v4 \<leftarrow> ClientHello_game_build rt t;
     v5 \<leftarrow> ClientHello_mod_version rt t;
     v6 \<leftarrow> ClientHello_api_surface_hash rt t;
     Some (DStruct ''ClientHello''
       [(''protocol_version'', DInt (uint v1)), (''display_name'', shown_opt DStr v2),
        (''token'', shown_opt DStr v3), (''game_build'', shown_opt DStr v4),
        (''mod_version'', shown_opt DStr v5), (''api_surface_hash'', shown_opt DStr v6)])
   }"

definition ClientHello_shown :: "client_hello \<Rightarrow> debug" where
  "ClientHello_shown r = DStruct ''ClientHello''
     [(''protocol_version'', DInt (uint (ch_protocol_version r))),
      (''display_name'', shown_opt DStr (ch_display_name r)), (''token'', shown_opt DStr (ch_token r)),
      (''game_build'', shown_opt DStr (ch_game_build r)), (''mod_version'', shown_opt DStr (ch_mod_version r)),
      (''api_surface_hash'', shown_opt DStr (ch_api_surface_hash r))]"

lemma ClientHello_fmt_shown [fmt]: "ClientHello_fmt rt = (\<lambda>t. map_option ClientHello_shown (read_ClientHello rt t))"
  by (rule ext) (simp add: ClientHello_fmt_def read_ClientHello_def ClientHello_shown_def fmt comp_def)

definition ServerHello_fmt :: "('b, 'o, 't) runtime \<Rightarrow> 't \<Rightarrow> debug option" where
  "ServerHello_fmt rt t = do {
     v1 \<leftarrow> ServerHello_accepted rt t;
     v2 \<leftarrow> ServerHello_reason rt t;
     v3 \<leftarrow> ServerHello_player_id rt t;
     v4 \<leftarrow> ServerHello_server_name rt t;
     v5 \<leftarrow> ServerHello_balance_gold rt t;
     v6 \<leftarrow> Option.bind (ServerHello_capabilities rt t) (follow_opt (CapabilityManifest_fmt rt));
     v7 \<leftarrow> Option.bind (ServerHello_clock rt t) (follow_opt (WorldClock_fmt rt));
     v8 \<leftarrow> Option.bind (ServerHello_weather rt t) (follow_opt (WeatherSeed_fmt rt));
     Some (DStruct ''ServerHello''
       [(''accepted'', DBool v1), (''reason'', shown_opt DStr v2), (''player_id'', DInt (uint v3)),
        (''server_name'', shown_opt DStr v4), (''balance_gold'', DInt v5), (''capabilities'', shown_opt id v6),
        (''clock'', shown_opt id v7), (''weather'', shown_opt id v8)])
   }"

definition ServerHello_shown :: "server_hello_table \<Rightarrow> debug" where
  "ServerHello_shown r = DStruct ''ServerHello''
     [(''accepted'', DBool (sh_accepted r)), (''reason'', shown_opt DStr (sh_reason r)),
      (''player_id'', DInt (uint (sh_player_id r))), (''server_name'', shown_opt DStr (sh_server_name r)),
      (''balance_gold'', DInt (sh_balance_gold r)),
      (''capabilities'', shown_opt CapabilityManifest_shown (sh_capabilities r)),
      (''clock'', shown_opt WorldClock_shown (sh_clock r)),
      (''weather'', shown_opt WeatherSeed_shown (sh_weather r))]"

lemma ServerHello_fmt_shown [fmt]: "ServerHello_fmt rt = (\<lambda>t. map_option ServerHello_shown (read_ServerHello rt t))"
  by (rule ext) (simp add: ServerHello_fmt_def read_ServerHello_def ServerHello_shown_def fmt comp_def)

definition PlayerState_fmt :: "('b, 'o, 't) runtime \<Rightarrow> 't \<Rightarrow> debug option" where
  "PlayerState_fmt rt t = do {
     v1 \<leftarrow> PlayerState_player_id rt t;
     v2 \<leftarrow> PlayerState_pos rt t;
     v3 \<leftarrow> PlayerState_rot rt t;
     v4 \<leftarrow> PlayerState_aboard_boat rt t;
     v5 \<leftarrow> PlayerState_t_ms rt t;
     Some (DStruct ''PlayerState''
       [(''player_id'', DInt (uint v1)), (''pos'', shown_opt Vec3_fmt v2), (''rot'', shown_opt QuatC_fmt v3),
        (''aboard_boat'', DInt (uint v4)), (''t_ms'', DInt (uint v5))])
   }"

definition PlayerState_shown :: "player_state \<Rightarrow> debug" where
  "PlayerState_shown r = DStruct ''PlayerState''
     [(''player_id'', DInt (uint (pt_player_id r))), (''pos'', shown_opt vec3_shown (pt_pos r)),
      (''rot'', shown_opt quat_shown (pt_rot r)), (''aboard_boat'', DInt (uint (pt_aboard_boat r))),
      (''t_ms'', DInt (uint (pt_t_ms r)))]"

lemma PlayerState_fmt_shown [fmt]: "PlayerState_fmt rt = (\<lambda>t. map_option PlayerState_shown (read_PlayerState rt t))"
  by (rule ext) (simp add: PlayerState_fmt_def read_PlayerState_def PlayerState_shown_def fmt comp_def)

definition BoatState_fmt :: "('b, 'o, 't) runtime \<Rightarrow> 't \<Rightarrow> debug option" where
  "BoatState_fmt rt t = do {
     v1 \<leftarrow> BoatState_boat_id rt t;
     v2 \<leftarrow> BoatState_owner rt t;
     v3 \<leftarrow> BoatState_pos rt t;
     v4 \<leftarrow> BoatState_rot rt t;
     v5 \<leftarrow> BoatState_vel rt t;
     v6 \<leftarrow> BoatState_t_ms rt t;
     Some (DStruct ''BoatState''
       [(''boat_id'', DInt (uint v1)), (''owner'', DInt (uint v2)), (''pos'', shown_opt Vec3_fmt v3),
        (''rot'', shown_opt QuatC_fmt v4), (''vel'', shown_opt Vec3_fmt v5), (''t_ms'', DInt (uint v6))])
   }"

definition BoatState_shown :: "boat_state \<Rightarrow> debug" where
  "BoatState_shown r = DStruct ''BoatState''
     [(''boat_id'', DInt (uint (bt_boat_id r))), (''owner'', DInt (uint (bt_owner r))),
      (''pos'', shown_opt vec3_shown (bt_pos r)), (''rot'', shown_opt quat_shown (bt_rot r)),
      (''vel'', shown_opt vec3_shown (bt_vel r)), (''t_ms'', DInt (uint (bt_t_ms r)))]"

lemma BoatState_fmt_shown [fmt]: "BoatState_fmt rt = (\<lambda>t. map_option BoatState_shown (read_BoatState rt t))"
  by (rule ext) (simp add: BoatState_fmt_def read_BoatState_def BoatState_shown_def fmt comp_def)

definition ClientState_fmt :: "('b, 'o, 't) runtime \<Rightarrow> 't \<Rightarrow> debug option" where
  "ClientState_fmt rt t = do {
     v1 \<leftarrow> ClientState_pos rt t;
     v2 \<leftarrow> ClientState_rot rt t;
     v3 \<leftarrow> ClientState_vel rt t;
     v4 \<leftarrow> ClientState_aboard_boat rt t;
     v5 \<leftarrow> ClientState_t_ms rt t;
     Some (DStruct ''ClientState''
       [(''pos'', shown_opt Vec3_fmt v1), (''rot'', shown_opt QuatC_fmt v2), (''vel'', shown_opt Vec3_fmt v3),
        (''aboard_boat'', DInt (uint v4)), (''t_ms'', DInt (uint v5))])
   }"

definition ClientState_shown :: "client_state \<Rightarrow> debug" where
  "ClientState_shown r = DStruct ''ClientState''
     [(''pos'', shown_opt vec3_shown (cs_pos r)), (''rot'', shown_opt quat_shown (cs_rot r)),
      (''vel'', shown_opt vec3_shown (cs_vel r)), (''aboard_boat'', DInt (uint (cs_aboard_boat r))),
      (''t_ms'', DInt (uint (cs_t_ms r)))]"

lemma ClientState_fmt_shown [fmt]: "ClientState_fmt rt = (\<lambda>t. map_option ClientState_shown (read_ClientState rt t))"
  by (rule ext) (simp add: ClientState_fmt_def read_ClientState_def ClientState_shown_def fmt comp_def)

definition SnapshotDelta_fmt :: "('b, 'o, 't) runtime \<Rightarrow> 't \<Rightarrow> debug option" where
  "SnapshotDelta_fmt rt t = do {
     v1 \<leftarrow> SnapshotDelta_server_tick rt t;
     v2 \<leftarrow> Option.bind (SnapshotDelta_players rt t) (follow_vec (PlayerState_fmt rt));
     v3 \<leftarrow> Option.bind (SnapshotDelta_boats rt t) (follow_vec (BoatState_fmt rt));
     Some (DStruct ''SnapshotDelta''
       [(''server_tick'', DInt (uint v1)), (''players'', shown_opt DList v2), (''boats'', shown_opt DList v3)])
   }"

definition SnapshotDelta_shown :: "snapshot_delta_table \<Rightarrow> debug" where
  "SnapshotDelta_shown r = DStruct ''SnapshotDelta''
     [(''server_tick'', DInt (uint (sd_server_tick r))),
      (''players'', shown_opt (DList \<circ> map PlayerState_shown) (sd_players r)),
      (''boats'', shown_opt (DList \<circ> map BoatState_shown) (sd_boats r))]"

lemma SnapshotDelta_fmt_shown [fmt]: "SnapshotDelta_fmt rt = (\<lambda>t. map_option SnapshotDelta_shown (read_SnapshotDelta rt t))"
  by (rule ext) (simp add: SnapshotDelta_fmt_def read_SnapshotDelta_def SnapshotDelta_shown_def fmt comp_def)

definition MoorageRecord_fmt :: "('b, 'o, 't) runtime \<Rightarrow> 't \<Rightarrow> debug option" where
  "MoorageRecord_fmt rt t = do {
     v1 \<leftarrow> MoorageRecord_boat_id rt t;
     v2 \<leftarrow> MoorageRecord_owner rt t;
     v3 \<leftarrow> MoorageRecord_cell rt t;
     v4 \<leftarrow> MoorageRecord_pos rt t;
     v5 \<leftarrow> MoorageRecord_rot rt t;
     v6 \<leftarrow> MoorageRecord_name rt t;
     v7 \<leftarrow> MoorageRecord_created_at rt t;
     Some (DStruct ''MoorageRecord''
       [(''boat_id'', DInt (uint v1)), (''owner'', DInt (uint v2)), (''cell'', shown_opt GridCell_fmt v3),
        (''pos'', shown_opt Vec3_fmt v4), (''rot'', shown_opt QuatC_fmt v5), (''name'', shown_opt DStr v6),
        (''created_at'', DInt (uint v7))])
   }"

definition MoorageRecord_shown :: "moorage_record \<Rightarrow> debug" where
  "MoorageRecord_shown r = DStruct ''MoorageRecord''
     [(''boat_id'', DInt (uint (mo_boat_id r))), (''owner'', DInt (uint (mo_owner r))),
      (''cell'', shown_opt cell_shown (mo_cell r)), (''pos'', shown_opt vec3_shown (mo_pos r)),
      (''rot'', shown_opt quat_shown (mo_rot r)), (''name'', shown_opt DStr (mo_name r)),
      (''created_at'', DInt (uint (mo_created_at r)))]"

lemma MoorageRecord_fmt_shown [fmt]: "MoorageRecord_fmt rt = (\<lambda>t. map_option MoorageRecord_shown (read_MoorageRecord rt t))"
  by (rule ext) (simp add: MoorageRecord_fmt_def read_MoorageRecord_def MoorageRecord_shown_def fmt comp_def)

definition MoorRequest_fmt :: "('b, 'o, 't) runtime \<Rightarrow> 't \<Rightarrow> debug option" where
  "MoorRequest_fmt rt t = do {
     v1 \<leftarrow> MoorRequest_pos rt t;
     v2 \<leftarrow> MoorRequest_rot rt t;
     v3 \<leftarrow> MoorRequest_name rt t;
     Some (DStruct ''MoorRequest''
       [(''pos'', shown_opt Vec3_fmt v1), (''rot'', shown_opt QuatC_fmt v2), (''name'', shown_opt DStr v3)])
   }"

definition MoorRequest_shown :: "moor_request \<Rightarrow> debug" where
  "MoorRequest_shown r = DStruct ''MoorRequest''
     [(''pos'', shown_opt vec3_shown (mq_pos r)), (''rot'', shown_opt quat_shown (mq_rot r)),
      (''name'', shown_opt DStr (mq_name r))]"

lemma MoorRequest_fmt_shown [fmt]: "MoorRequest_fmt rt = (\<lambda>t. map_option MoorRequest_shown (read_MoorRequest rt t))"
  by (rule ext) (simp add: MoorRequest_fmt_def read_MoorRequest_def MoorRequest_shown_def fmt comp_def)

definition MoorAck_fmt :: "('b, 'o, 't) runtime \<Rightarrow> 't \<Rightarrow> debug option" where
  "MoorAck_fmt rt t = do {
     v1 \<leftarrow> MoorAck_accepted rt t;
     v2 \<leftarrow> Option.bind (MoorAck_record rt t) (follow_opt (MoorageRecord_fmt rt));
     v3 \<leftarrow> MoorAck_reason rt t;
     Some (DStruct ''MoorAck''
       [(''accepted'', DBool v1), (''record'', shown_opt id v2), (''reason'', shown_opt DStr v3)])
   }"

definition MoorAck_shown :: "moor_ack_table \<Rightarrow> debug" where
  "MoorAck_shown r = DStruct ''MoorAck''
     [(''accepted'', DBool (ma_accepted r)), (''record'', shown_opt MoorageRecord_shown (ma_record r)),
      (''reason'', shown_opt DStr (ma_reason r))]"

lemma MoorAck_fmt_shown [fmt]: "MoorAck_fmt rt = (\<lambda>t. map_option MoorAck_shown (read_MoorAck rt t))"
  by (rule ext) (simp add: MoorAck_fmt_def read_MoorAck_def MoorAck_shown_def fmt comp_def)

definition AoiUpdate_fmt :: "('b, 'o, 't) runtime \<Rightarrow> 't \<Rightarrow> debug option" where
  "AoiUpdate_fmt rt t = do {
     v1 \<leftarrow> AoiUpdate_added rt t;
     v2 \<leftarrow> AoiUpdate_removed rt t;
     Some (DStruct ''AoiUpdate''
       [(''added'', shown_opt (DList \<circ> map GridCell_fmt) v1),
        (''removed'', shown_opt (DList \<circ> map GridCell_fmt) v2)])
   }"

definition AoiUpdate_shown :: "aoi_update_table \<Rightarrow> debug" where
  "AoiUpdate_shown r = DStruct ''AoiUpdate''
     [(''added'', shown_opt (DList \<circ> map cell_shown) (aud_added r)),
      (''removed'', shown_opt (DList \<circ> map cell_shown) (aud_removed r))]"

lemma AoiUpdate_fmt_shown [fmt]: "AoiUpdate_fmt rt = (\<lambda>t. map_option AoiUpdate_shown (read_AoiUpdate rt t))"
  by (rule ext) (simp add: AoiUpdate_fmt_def read_AoiUpdate_def AoiUpdate_shown_def fmt comp_def)

definition CellSnapshot_fmt :: "('b, 'o, 't) runtime \<Rightarrow> 't \<Rightarrow> debug option" where
  "CellSnapshot_fmt rt t = do {
     v1 \<leftarrow> CellSnapshot_cell rt t;
     v2 \<leftarrow> Option.bind (CellSnapshot_players rt t) (follow_vec (PlayerState_fmt rt));
     v3 \<leftarrow> Option.bind (CellSnapshot_boats rt t) (follow_vec (BoatState_fmt rt));
     v4 \<leftarrow> Option.bind (CellSnapshot_moorings rt t) (follow_vec (MoorageRecord_fmt rt));
     Some (DStruct ''CellSnapshot''
       [(''cell'', shown_opt GridCell_fmt v1), (''players'', shown_opt DList v2),
        (''boats'', shown_opt DList v3), (''moorings'', shown_opt DList v4)])
   }"

definition CellSnapshot_shown :: "cell_snapshot_table \<Rightarrow> debug" where
  "CellSnapshot_shown r = DStruct ''CellSnapshot''
     [(''cell'', shown_opt cell_shown (sn_cell r)),
      (''players'', shown_opt (DList \<circ> map PlayerState_shown) (sn_players r)),
      (''boats'', shown_opt (DList \<circ> map BoatState_shown) (sn_boats r)),
      (''moorings'', shown_opt (DList \<circ> map MoorageRecord_shown) (sn_moorings r))]"

lemma CellSnapshot_fmt_shown [fmt]: "CellSnapshot_fmt rt = (\<lambda>t. map_option CellSnapshot_shown (read_CellSnapshot rt t))"
  by (rule ext) (simp add: CellSnapshot_fmt_def read_CellSnapshot_def CellSnapshot_shown_def fmt comp_def)

definition EconTxn_fmt :: "('b, 'o, 't) runtime \<Rightarrow> 't \<Rightarrow> debug option" where
  "EconTxn_fmt rt t = do {
     v1 \<leftarrow> EconTxn_txn_id rt t;
     v2 \<leftarrow> EconTxn_amount_gold rt t;
     v3 \<leftarrow> EconTxn_kind rt t;
     v4 \<leftarrow> EconTxn_note rt t;
     Some (DStruct ''EconTxn''
       [(''txn_id'', DInt (uint v1)), (''amount_gold'', DInt v2), (''kind'', DInt (uint v3)),
        (''note'', shown_opt DStr v4)])
   }"

definition EconTxn_shown :: "econ_txn \<Rightarrow> debug" where
  "EconTxn_shown r = DStruct ''EconTxn''
     [(''txn_id'', DInt (uint (et_txn_id r))), (''amount_gold'', DInt (et_amount_gold r)),
      (''kind'', DInt (uint (et_kind r))), (''note'', shown_opt DStr (et_note r))]"

lemma EconTxn_fmt_shown [fmt]: "EconTxn_fmt rt = (\<lambda>t. map_option EconTxn_shown (read_EconTxn rt t))"
  by (rule ext) (simp add: EconTxn_fmt_def read_EconTxn_def EconTxn_shown_def fmt comp_def)

definition LedgerAck_fmt :: "('b, 'o, 't) runtime \<Rightarrow> 't \<Rightarrow> debug option" where
  "LedgerAck_fmt rt t = do {
     v1 \<leftarrow> LedgerAck_txn_id rt t;
     v2 \<leftarrow> LedgerAck_accepted rt t;
     v3 \<leftarrow> LedgerAck_new_balance rt t;
     v4 \<leftarrow> LedgerAck_reason rt t;
     Some (DStruct ''LedgerAck''
       [(''txn_id'', DInt (uint v1)), (''accepted'', DBool v2), (''new_balance'', DInt v3),
        (''reason'', shown_opt DStr v4)])
   }"

definition LedgerAck_shown :: "ledger_ack_table \<Rightarrow> debug" where
  "LedgerAck_shown r = DStruct ''LedgerAck''
     [(''txn_id'', DInt (uint (la_txn_id r))), (''accepted'', DBool (la_accepted r)),
      (''new_balance'', DInt (la_new_balance r)), (''reason'', shown_opt DStr (la_reason r))]"

lemma LedgerAck_fmt_shown [fmt]: "LedgerAck_fmt rt = (\<lambda>t. map_option LedgerAck_shown (read_LedgerAck rt t))"
  by (rule ext) (simp add: LedgerAck_fmt_def read_LedgerAck_def LedgerAck_shown_def fmt comp_def)

definition MarketTradeRequest_fmt :: "('b, 'o, 't) runtime \<Rightarrow> 't \<Rightarrow> debug option" where
  "MarketTradeRequest_fmt rt t = do {
     v1 \<leftarrow> MarketTradeRequest_txn_id rt t;
     v2 \<leftarrow> MarketTradeRequest_port_id rt t;
     v3 \<leftarrow> MarketTradeRequest_item_id rt t;
     v4 \<leftarrow> MarketTradeRequest_qty rt t;
     v5 \<leftarrow> MarketTradeRequest_unit_price rt t;
     Some (DStruct ''MarketTradeRequest''
       [(''txn_id'', DInt (uint v1)), (''port_id'', DInt (uint v2)), (''item_id'', DInt (uint v3)),
        (''qty'', DInt v4), (''unit_price'', DInt v5)])
   }"

definition MarketTradeRequest_shown :: "market_trade_request \<Rightarrow> debug" where
  "MarketTradeRequest_shown r = DStruct ''MarketTradeRequest''
     [(''txn_id'', DInt (uint (mt_txn_id r))), (''port_id'', DInt (uint (mt_port_id r))),
      (''item_id'', DInt (uint (mt_item_id r))), (''qty'', DInt (mt_qty r)),
      (''unit_price'', DInt (mt_unit_price r))]"

lemma MarketTradeRequest_fmt_shown [fmt]: "MarketTradeRequest_fmt rt = (\<lambda>t. map_option MarketTradeRequest_shown (read_MarketTradeRequest rt t))"
  by (rule ext) (simp add: MarketTradeRequest_fmt_def read_MarketTradeRequest_def MarketTradeRequest_shown_def fmt comp_def)

definition MarketStateAck_fmt :: "('b, 'o, 't) runtime \<Rightarrow> 't \<Rightarrow> debug option" where
  "MarketStateAck_fmt rt t = do {
     v1 \<leftarrow> MarketStateAck_txn_id rt t;
     v2 \<leftarrow> MarketStateAck_accepted rt t;
     v3 \<leftarrow> MarketStateAck_port_id rt t;
     v4 \<leftarrow> MarketStateAck_item_id rt t;
     v5 \<leftarrow> MarketStateAck_stock rt t;
     v6 \<leftarrow> MarketStateAck_price rt t;
     v7 \<leftarrow> MarketStateAck_reason rt t;
     Some (DStruct ''MarketStateAck''
       [(''txn_id'', DInt (uint v1)), (''accepted'', DBool v2), (''port_id'', DInt (uint v3)),
        (''item_id'', DInt (uint v4)), (''stock'', DInt v5), (''price'', DInt v6),
        (''reason'', shown_opt DStr v7)])
   }"

definition MarketStateAck_shown :: "market_state_ack_table \<Rightarrow> debug" where
  "MarketStateAck_shown r = DStruct ''MarketStateAck''
     [(''txn_id'', DInt (uint (mk_txn_id r))), (''accepted'', DBool (mk_accepted r)),
      (''port_id'', DInt (uint (mk_port_id r))), (''item_id'', DInt (uint (mk_item_id r))),
      (''stock'', DInt (mk_stock r)), (''price'', DInt (mk_price r)),
      (''reason'', shown_opt DStr (mk_reason r))]"

lemma MarketStateAck_fmt_shown [fmt]: "MarketStateAck_fmt rt = (\<lambda>t. map_option MarketStateAck_shown (read_MarketStateAck rt t))"
  by (rule ext) (simp add: MarketStateAck_fmt_def read_MarketStateAck_def MarketStateAck_shown_def fmt comp_def)

definition ChatSend_fmt :: "('b, 'o, 't) runtime \<Rightarrow> 't \<Rightarrow> debug option" where
  "ChatSend_fmt rt t = do {
     v1 \<leftarrow> ChatSend_text rt t;
     v2 \<leftarrow> ChatSend_channel rt t;
     Some (DStruct ''ChatSend''
       [(''text'', shown_opt DStr v1), (''channel'', DInt (uint v2))])
   }"

definition ChatSend_shown :: "chat_send \<Rightarrow> debug" where
  "ChatSend_shown r = DStruct ''ChatSend''
     [(''text'', shown_opt DStr (cd_text r)), (''channel'', DInt (uint (cd_channel r)))]"

lemma ChatSend_fmt_shown [fmt]: "ChatSend_fmt rt = (\<lambda>t. map_option ChatSend_shown (read_ChatSend rt t))"
  by (rule ext) (simp add: ChatSend_fmt_def read_ChatSend_def ChatSend_shown_def fmt comp_def)

definition ChatBroadcast_fmt :: "('b, 'o, 't) runtime \<Rightarrow> 't \<Rightarrow> debug option" where
  "ChatBroadcast_fmt rt t = do {
     v1 \<leftarrow> ChatBroadcast_player_id rt t;
     v2 \<leftarrow> ChatBroadcast_display_name rt t;
     v3 \<leftarrow> ChatBroadcast_text rt t;
     v4 \<leftarrow> ChatBroadcast_channel rt t;
     v5 \<leftarrow> ChatBroadcast_t_ms rt t;
     Some (DStruct ''ChatBroadcast''
       [(''player_id'', DInt (uint v1)), (''display_name'', shown_opt DStr v2), (''text'', shown_opt DStr v3),
        (''channel'', DInt (uint v4)), (''t_ms'', DInt (uint v5))])
   }"

definition ChatBroadcast_shown :: "chat_broadcast_table \<Rightarrow> debug" where
  "ChatBroadcast_shown r = DStruct ''ChatBroadcast''
     [(''player_id'', DInt (uint (cb_player_id r))), (''display_name'', shown_opt DStr (cb_display_name r)),
      (''text'', shown_opt DStr (cb_text r)), (''channel'', DInt (uint (cb_channel r))),
      (''t_ms'', DInt (uint (cb_t_ms r)))]"

lemma ChatBroadcast_fmt_shown [fmt]: "ChatBroadcast_fmt rt = (\<lambda>t. map_option ChatBroadcast_shown (read_ChatBroadcast rt t))"
  by (rule ext) (simp add: ChatBroadcast_fmt_def read_ChatBroadcast_def ChatBroadcast_shown_def fmt comp_def)

section \<open>The envelope\<close>

definition UNION_MISMATCH :: string where
  "UNION_MISMATCH = ''InvalidFlatbuffer: Union discriminant does not match value.''"

text \<open>One arm of the match: the table, or the complaint that it is not there.\<close>

definition shown_arm :: "('t \<Rightarrow> debug option) \<Rightarrow> 't option option \<Rightarrow> debug option" where
  "shown_arm f ho = Option.bind ho (\<lambda>h. case h of Some x \<Rightarrow> f x | None \<Rightarrow> Some (DStr UNION_MISMATCH))"

definition Envelope_payload_fmt :: "('b, 'o, 't) runtime \<Rightarrow> 't \<Rightarrow> u8 \<Rightarrow> debug option" where
  "Envelope_payload_fmt rt t k =
     (if k = Payload_ClientHello then shown_arm (ClientHello_fmt rt) (Envelope_payload_as_client_hello rt t)
      else if k = Payload_ServerHello then shown_arm (ServerHello_fmt rt) (Envelope_payload_as_server_hello rt t)
      else if k = Payload_ClientState then shown_arm (ClientState_fmt rt) (Envelope_payload_as_client_state rt t)
      else if k = Payload_SnapshotDelta then shown_arm (SnapshotDelta_fmt rt) (Envelope_payload_as_snapshot_delta rt t)
      else if k = Payload_AoiUpdate then shown_arm (AoiUpdate_fmt rt) (Envelope_payload_as_aoi_update rt t)
      else if k = Payload_CellSnapshot then shown_arm (CellSnapshot_fmt rt) (Envelope_payload_as_cell_snapshot rt t)
      else if k = Payload_MoorRequest then shown_arm (MoorRequest_fmt rt) (Envelope_payload_as_moor_request rt t)
      else if k = Payload_MoorAck then shown_arm (MoorAck_fmt rt) (Envelope_payload_as_moor_ack rt t)
      else if k = Payload_EconTxn then shown_arm (EconTxn_fmt rt) (Envelope_payload_as_econ_txn rt t)
      else if k = Payload_LedgerAck then shown_arm (LedgerAck_fmt rt) (Envelope_payload_as_ledger_ack rt t)
      else if k = Payload_ChatSend then shown_arm (ChatSend_fmt rt) (Envelope_payload_as_chat_send rt t)
      else if k = Payload_ChatBroadcast then shown_arm (ChatBroadcast_fmt rt) (Envelope_payload_as_chat_broadcast rt t)
      else if k = Payload_WorldClock then shown_arm (WorldClock_fmt rt) (Envelope_payload_as_world_clock rt t)
      else if k = Payload_MarketTradeRequest then shown_arm (MarketTradeRequest_fmt rt) (Envelope_payload_as_market_trade_request rt t)
      else if k = Payload_MarketStateAck then shown_arm (MarketStateAck_fmt rt) (Envelope_payload_as_market_state_ack rt t)
      else Some DNone)"

definition Envelope_fmt :: "('b, 'o, 't) runtime \<Rightarrow> 't \<Rightarrow> debug option" where
  "Envelope_fmt rt t = do {
     sq \<leftarrow> Envelope_seq rt t;
     k \<leftarrow> Envelope_payload_type rt t;
     p \<leftarrow> Envelope_payload_fmt rt t k;
     Some (DStruct ''Envelope'' [(''seq'', DInt (uint sq)), (''payload_type'', Payload_fmt k), (''payload'', p)])
   }"

fun payload_shown :: "payload \<Rightarrow> debug" where
  "payload_shown (PClientHello r) = ClientHello_shown r"
| "payload_shown (PServerHello r) = ServerHello_shown r"
| "payload_shown (PClientState r) = ClientState_shown r"
| "payload_shown (PSnapshotDelta r) = SnapshotDelta_shown r"
| "payload_shown (PAoiUpdate r) = AoiUpdate_shown r"
| "payload_shown (PCellSnapshot r) = CellSnapshot_shown r"
| "payload_shown (PMoorRequest r) = MoorRequest_shown r"
| "payload_shown (PMoorAck r) = MoorAck_shown r"
| "payload_shown (PEconTxn r) = EconTxn_shown r"
| "payload_shown (PLedgerAck r) = LedgerAck_shown r"
| "payload_shown (PChatSend r) = ChatSend_shown r"
| "payload_shown (PChatBroadcast r) = ChatBroadcast_shown r"
| "payload_shown (PWorldClock r) = WorldClock_shown r"
| "payload_shown (PMarketTradeRequest r) = MarketTradeRequest_shown r"
| "payload_shown (PMarketStateAck r) = MarketStateAck_shown r"

text \<open>An arm is what was read of the payload, or the complaint.\<close>

lemma shown_arm_read:
  assumes "f = (\<lambda>h. map_option g (r h))" "\<And>x. sh (c x) = g x"
  shows "shown_arm f ho =
    map_option (\<lambda>po. case po of Some p \<Rightarrow> sh p | None \<Rightarrow> DStr UNION_MISMATCH) (Option.bind ho (follow_opt (\<lambda>h. map_option c (r h))))"
proof (cases ho)
  case (Some h)
  then show ?thesis by (cases h) (simp_all add: shown_arm_def assms option.map_comp comp_def)
qed (simp add: shown_arm_def)

lemma if_map:
  "\<lbrakk>c \<Longrightarrow> a = map_option f a'; \<not> c \<Longrightarrow> b = map_option f b'\<rbrakk> \<Longrightarrow> (if c then a else b) = map_option f (if c then a' else b')"
  by simp

lemma payload_fmt_shown:
  "Envelope_payload_fmt rt t k =
     map_option (\<lambda>po. case po of Some p \<Rightarrow> payload_shown p | None \<Rightarrow> if k \<in> fst ` set payload_alts then DStr UNION_MISMATCH else DNone)
       (read_payload rt t k)"
proof (cases "k \<in> fst ` set payload_alts")
  case True
  note arm = shown_arm_read [where sh = payload_shown]
  show ?thesis
    unfolding Envelope_payload_fmt_def read_payload_def
    by (simp only: True if_True, (rule if_map, rule arm, rule fmt, rule payload_shown.simps)+)
       (use True in \<open>simp add: payload_alts_def\<close>)
next
  case False
  then show ?thesis by (simp add: Envelope_payload_fmt_def read_payload_def payload_alts_def)
qed

text \<open>The verifier has seen both halves of the union, so a known discriminant comes with its table.\<close>

lemma known_payload_read:
  assumes laws: "runtime_laws rt V" and t: "has_type (TyTable Envelope_run_verifier) (TTab (v_tab V t))"
    and k: "Envelope_payload_type rt t = Some k" "k \<in> fst ` set payload_alts"
  shows "\<exists>p. read_payload rt t k = Some (Some p)"
proof -
  have un: "passes (UnionField ''payload_type'' Envelope_VT_PAYLOAD_TYPE ''payload'' Envelope_VT_PAYLOAD False payload_alts) (v_tab V t)"
    using t by (simp add: Envelope_checks del: passes.simps)
  have "k \<noteq> Payload_NONE" using k(2) by (auto simp: payload_alts_def payload)
  with un k(1) obtain x where x: "map_of (v_tab V t) Envelope_VT_PAYLOAD = Some x"
    and alts: "list_all (\<lambda>(k', ty). k' = k \<longrightarrow> has_type ty x) payload_alts"
    by (auto simp: Envelope_payload_type_def get_scalars [OF laws] split: option.splits fbtree.splits scalar.splits)
  have "payload_of k x \<noteq> None" using k(2) by (auto simp: payload_of_def payload_alts_def payload)
  with read_payload_ok [OF laws k(1) x alts] show ?thesis by auto
qed

text \<open>C35: on whatever bytes the decoder accepts, formatting the envelope reads only what was verified: it shows the
  sequence number, the discriminant and the message the server reads, every field of it, and never the
  complaint about a union without its value.\<close>

theorem debug_shows_message:
  assumes "runtime_laws rt V" "contracts_decode_envelope rt buf = Some t"
  shows "\<exists>e k. wire_read rt buf = Decoded e \<and> Envelope_payload_type rt t = Some k
    \<and> Envelope_fmt rt t = Some (DStruct ''Envelope''
        [(''seq'', DInt (uint (env_seq e))), (''payload_type'', Payload_fmt k),
         (''payload'', case env_payload e of Some p \<Rightarrow> payload_shown p | None \<Rightarrow> DNone)])
    \<and> (env_payload e = None \<longrightarrow> k \<notin> fst ` set payload_alts)"
proof -
  note typed = root_typed [OF assms]
  from readsD [OF read_Envelope_ok [OF assms(1)] typed] obtain e where e: "read_Envelope rt t = Some e" by blast
  then obtain sq k p where r: "Envelope_seq rt t = Some sq" "Envelope_payload_type rt t = Some k" "read_payload rt t k = Some p"
    "e = \<lparr>env_seq = sq, env_payload = p\<rparr>"
    by (auto simp: read_Envelope_def bind_eq_Some_conv)
  have known: "p = None \<Longrightarrow> k \<notin> fst ` set payload_alts"
    using known_payload_read [OF assms(1) typed r(2)] r(3) by auto
  have "wire_read rt buf = Decoded e" using assms(2) e by (simp add: wire_read_def)
  moreover have "Envelope_fmt rt t = Some (DStruct ''Envelope''
        [(''seq'', DInt (uint sq)), (''payload_type'', Payload_fmt k), (''payload'', case p of Some p \<Rightarrow> payload_shown p | None \<Rightarrow> DNone)])"
    using r known by (simp add: Envelope_fmt_def payload_fmt_shown split: option.split)
  ultimately show ?thesis using r known by auto
qed

theorem debug_shows_message_witness:
  "\<exists>t. contracts_decode_envelope ref_runtime (wire_encode ref_runtime demo_envelope) = Some t
    \<and> Envelope_fmt ref_runtime t = Some (DStruct ''Envelope''
        [(''seq'', DInt 7), (''payload_type'', DName ''EconTxn''),
         (''payload'', DStruct ''EconTxn''
           [(''txn_id'', DInt 9), (''amount_gold'', DInt (- 25)), (''kind'', DInt 2), (''note'', DSome (DStr ''rum''))])])"
proof -
  note reads = encoded_reads(1) [OF ref_runtime_lawful demo_envelope_ok ref_fits]
  then obtain t where t: "contracts_decode_envelope ref_runtime (wire_encode ref_runtime demo_envelope) = Some t"
    by (auto simp: wire_read_def split: option.splits)
  from debug_shows_message [OF ref_runtime_lawful t] reads obtain k where k: "Envelope_payload_type ref_runtime t = Some k"
    "Envelope_fmt ref_runtime t = Some (DStruct ''Envelope''
        [(''seq'', DInt (uint (env_seq demo_envelope))), (''payload_type'', Payload_fmt k),
         (''payload'', case env_payload demo_envelope of Some p \<Rightarrow> payload_shown p | None \<Rightarrow> DNone)])"
    by auto
  have "k = Payload_EconTxn"
    using decoded_tag [OF ref_runtime_lawful t k(1) reads, of "PEconTxn demo_txn"] by (simp add: demo_envelope_def)
  with t k show ?thesis by (simp add: demo_envelope_def demo_txn_def EconTxn_shown_def Payload_fmt_def Payload_variant_name_def payload)
qed

end
