(* ===== verification/Arch_Dag.thy ===== *)
theory Arch_Dag
  imports Prelude "HOL-Library.Sublist" "HOL-Library.FSet" "HOL-Library.List_Lexorder" "HOL-Library.Char_ord"
begin

text \<open>
  The check of the crate graph, \<open>server/crates/sw-server/src/arch_dag.rs\<close>: a scan of the
  workspace manifests and the policy of allowed edges. Texts are byte strings in UTF-8; a panic of the
  check is a value of \<open>dag_failure\<close>; the files are an argument, by their path under the workspace
  root.
\<close>

section \<open>Strings as the standard library has them\<close>

definition find_char :: "char \<Rightarrow> string \<Rightarrow> nat option" where
  "find_char c s = (if c \<in> set s then Some (length (takeWhile (\<lambda>x. x \<noteq> c) s)) else None)"

fun find_str :: "string \<Rightarrow> string \<Rightarrow> nat option" where
  "find_str pat [] = (if pat = [] then Some 0 else None)"
| "find_str pat (c # s) = (if prefix pat (c # s) then Some 0 else map_option Suc (find_str pat s))"

text \<open>The white space of Unicode, encoded.\<close>

definition white_codes :: "string list" where
  "white_codes =
     map (\<lambda>c. [c]) [CHR 0x20, CHR 0x09, CHR 0x0A, CHR 0x0B, CHR 0x0C, CHR 0x0D]
     @ [[CHR 0xC2, CHR 0x85], [CHR 0xC2, CHR 0xA0], [CHR 0xE1, CHR 0x9A, CHR 0x80], [CHR 0xE2, CHR 0x81, CHR 0x9F], [CHR 0xE3, CHR 0x80, CHR 0x80]]
     @ map (\<lambda>c. [CHR 0xE2, CHR 0x80, c])
         [CHR 0x80, CHR 0x81, CHR 0x82, CHR 0x83, CHR 0x84, CHR 0x85, CHR 0x86, CHR 0x87, CHR 0x88, CHR 0x89, CHR 0x8A, CHR 0xA8, CHR 0xA9, CHR 0xAF]"

fun strip_code :: "string list \<Rightarrow> string \<Rightarrow> string option" where
  "strip_code [] s = None"
| "strip_code (w # ws) s = (if w \<noteq> [] \<and> prefix w s then Some (drop (length w) s) else strip_code ws s)"

lemma strip_code_shorter: "strip_code ws s = Some t \<Longrightarrow> length t < length s"
  by (induction ws) (auto simp: prefix_def split: if_splits)

function strip_all :: "string list \<Rightarrow> string \<Rightarrow> string" where
  "strip_all ws s = (case strip_code ws s of None \<Rightarrow> s | Some t \<Rightarrow> strip_all ws t)"
  by auto
termination by (relation "measure (\<lambda>(ws, s). length s)") (auto dest: strip_code_shorter)

declare strip_all.simps [simp del]

definition trim :: "string \<Rightarrow> string" where
  "trim s = rev (strip_all (map rev white_codes) (rev (strip_all white_codes s)))"

text \<open>A line ends at a line feed, which is not part of it, nor is a carriage return before it.\<close>

function rust_lines :: "string \<Rightarrow> string list" where
  "rust_lines s =
     (if s = [] then []
      else let l = takeWhile (\<lambda>c. c \<noteq> CHR 0x0A) s; rest = drop (length l) s
           in (if rest \<noteq> [] \<and> l \<noteq> [] \<and> last l = CHR 0x0D then butlast l else l) # rust_lines (tl rest))"
  by auto
termination
proof (relation "measure length", goal_cases)
  case (2 s l rest)
  then show ?case by (cases s) auto
qed simp

declare rust_lines.simps [simp del]

section \<open>The policy\<close>

definition workspace_libs :: "string fset" where
  "workspace_libs = {|''sw-contracts'', ''sw-net'', ''sw-world'', ''sw-econ'', ''sw-persist''|}"

definition allowed_edges :: "(string \<times> string fset) list" where
  "allowed_edges =
     [(''sw-contracts'', {||}), (''sw-net'', {|''sw-contracts''|}), (''sw-world'', {|''sw-contracts''|}), (''sw-econ'', {|''sw-contracts''|}),
      (''sw-persist'', {|''sw-contracts''|}),
      (''sw-server'', {|''sw-contracts'', ''sw-net'', ''sw-world'', ''sw-econ'', ''sw-persist''|})]"

section \<open>The scan\<close>

datatype dag_failure =
  NoMembersArray | MembersNotClosed | QuoteNotClosed | NoMembers | PolicyMismatch | Unreadable string | ForbiddenEdges "string list"

definition QUOTE :: char where "QUOTE = CHR 0x22"

text \<open>The last part of a path.\<close>

definition dir_name :: "string \<Rightarrow> string" where
  "dir_name entry = rev (takeWhile (\<lambda>c. c \<noteq> CHR ''/'') (rev entry))"

function quoted_entries :: "string \<Rightarrow> dag_failure + string list" where
  "quoted_entries rest =
     (case find_char QUOTE rest of
        None \<Rightarrow> Inr []
      | Some op \<Rightarrow>
          let after = drop (op + 1) rest
          in case find_char QUOTE after of
               None \<Rightarrow> Inl QuoteNotClosed
             | Some cl \<Rightarrow> map_sum id ((#) (dir_name (take cl after))) (quoted_entries (drop (cl + 1) after)))"
  by auto
termination
proof (relation "measure length", goal_cases)
  case (2 rest op after cl)
  then have "rest \<noteq> []" by (auto simp: find_char_def)
  with 2 show ?case by simp
qed simp

declare quoted_entries.simps [simp del]

definition workspace_members :: "string \<Rightarrow> dag_failure + string list" where
  "workspace_members manifest =
     (case find_str ''members'' manifest of
        None \<Rightarrow> Inl NoMembersArray
      | Some i \<Rightarrow>
          (case find_char (CHR ''['') (drop i manifest) of
             None \<Rightarrow> Inl NoMembersArray
           | Some j \<Rightarrow>
               let body = drop (i + j + 1) manifest
               in case find_char (CHR '']'') body of
                    None \<Rightarrow> Inl MembersNotClosed
                  | Some k \<Rightarrow> quoted_entries (take k body)))"

fun dependency_lines :: "bool \<Rightarrow> string list \<Rightarrow> string list" where
  "dependency_lines in_deps [] = []"
| "dependency_lines in_deps (raw # ls) =
     (let line = trim raw in
      if line \<noteq> [] \<and> hd line = CHR ''['' \<and> last line = CHR '']'' then dependency_lines (line = ''[dependencies]'') ls
      else if \<not> in_deps \<or> line = [] \<or> hd line = CHR ''#'' then dependency_lines in_deps ls
      else
        (case find_char (CHR ''='') line of
           None \<Rightarrow> dependency_lines in_deps ls
         | Some eq \<Rightarrow>
             let name = trim (takeWhile (\<lambda>c. c \<noteq> CHR ''.'') (trim (take eq line)))
             in if name \<noteq> [] then name # dependency_lines in_deps ls else dependency_lines in_deps ls))"

definition dependency_names :: "string \<Rightarrow> string fset" where
  "dependency_names manifest = fset_of_list (dependency_lines False (rust_lines manifest))"

section \<open>The check\<close>

definition intra :: "string \<Rightarrow> string fset" where
  "intra manifest = ffilter (\<lambda>d. d |\<in>| workspace_libs) (dependency_names manifest)"

fun join :: "string \<Rightarrow> string list \<Rightarrow> string" where
  "join sep [] = []"
| "join sep [x] = x"
| "join sep (x # y # xs) = x @ sep @ join sep (y # xs)"

definition show_set :: "string fset \<Rightarrow> string" where
  "show_set xs = ''{'' @ join '', '' (map (\<lambda>x. QUOTE # x @ [QUOTE]) (sorted_list_of_fset xs)) @ ''}''"

definition member_violations :: "string \<Rightarrow> string fset \<Rightarrow> string \<Rightarrow> string list" where
  "member_violations member permitted manifest =
     map (\<lambda>dep. member @ '' depends on '' @ dep @ '', which is outside its allowed set '' @ show_set permitted)
       (filter (\<lambda>dep. dep |\<notin>| permitted) (sorted_list_of_fset (intra manifest)))"

fun scan_members :: "(string \<Rightarrow> string option) \<Rightarrow> string list \<Rightarrow> dag_failure + string list" where
  "scan_members read [] = Inr []"
| "scan_members read (m # ms) =
     (case read (''crates/'' @ m @ ''/Cargo.toml'') of
        None \<Rightarrow> Inl (Unreadable m)
      | Some manifest \<Rightarrow>
          map_sum id ((@) (member_violations m (the (map_of allowed_edges m)) manifest)) (scan_members read ms))"

definition crate_dag_has_no_forbidden_edges :: "(string \<Rightarrow> string option) \<Rightarrow> dag_failure + unit" where
  "crate_dag_has_no_forbidden_edges read =
     (case read ''Cargo.toml'' of
        None \<Rightarrow> Inl (Unreadable ''workspace'')
      | Some workspace \<Rightarrow>
     (case workspace_members workspace of
        Inl e \<Rightarrow> Inl e
      | Inr members \<Rightarrow>
          if members = [] then Inl NoMembers
          else if set members \<noteq> fst ` set allowed_edges then Inl PolicyMismatch
          else
            (case scan_members read members of
               Inl e \<Rightarrow> Inl e
             | Inr violations \<Rightarrow> if violations = [] then Inr () else Inl (ForbiddenEdges violations))))"

text \<open>The two tests of the scan itself: the server's manifest has every library, and an edge outside the policy is seen.\<close>

definition parser_extracts_known_edges :: "(string \<Rightarrow> string option) \<Rightarrow> bool" where
  "parser_extracts_known_edges read =
     (case read ''crates/sw-server/Cargo.toml'' of None \<Rightarrow> False | Some manifest \<Rightarrow> intra manifest = workspace_libs)"

definition forbidden_edge_is_detected :: bool where
  "forbidden_edge_is_detected =
     (let manifest = concat (map (\<lambda>l. l @ [CHR 0x0A]) [''[dependencies]'', ''sw-contracts.workspace = true'', ''sw-world.workspace = true''])
      in \<not> intra manifest |\<subseteq>| {|''sw-contracts''|})"

section \<open>What a passing check means\<close>

lemma member_violations_none: "member_violations m permitted manifest = [] \<longleftrightarrow> intra manifest |\<subseteq>| permitted"
  by (auto simp: member_violations_def filter_empty_conv)

lemma scan_members_none:
  assumes "scan_members read ms = Inr []" "m \<in> set ms"
  shows "\<exists>manifest. read (''crates/'' @ m @ ''/Cargo.toml'') = Some manifest \<and> intra manifest |\<subseteq>| the (map_of allowed_edges m)"
  using assms
proof (induction ms)
  case (Cons a ms)
  from Cons.prems(1) obtain manifest vs where "read (''crates/'' @ a @ ''/Cargo.toml'') = Some manifest" "scan_members read ms = Inr vs"
    "member_violations a (the (map_of allowed_edges a)) manifest @ vs = []"
    by (cases "scan_members read ms") (auto split: option.splits)
  with Cons show ?case by (auto simp: member_violations_none)
qed simp

lemma allowed_iff:
  assumes "m \<in> fst ` set allowed_edges" "d |\<in>| workspace_libs"
  shows "d |\<in>| the (map_of allowed_edges m) \<longleftrightarrow> m = ''sw-server'' \<or> (m \<noteq> ''sw-contracts'' \<and> d = ''sw-contracts'')"
proof -
  have "list_all (\<lambda>m. fBall workspace_libs (\<lambda>d. d |\<in>| the (map_of allowed_edges m)
      \<longleftrightarrow> m = ''sw-server'' \<or> (m \<noteq> ''sw-contracts'' \<and> d = ''sw-contracts''))) (map fst allowed_edges)"
    by code_simp
  with assms show ?thesis by (auto simp: list_all_iff)
qed

text \<open>The layers: contracts below the libraries, the libraries below the server.\<close>

definition layer :: "string \<Rightarrow> nat" where
  "layer c = (if c = ''sw-contracts'' then 0 else if c = ''sw-server'' then 2 else 1)"

lemma layered_acyclic:
  assumes "\<And>m d. (m, d) \<in> E \<Longrightarrow> layer d < layer m"
  shows "acyclic E"
proof -
  have "acyclic ((measure layer)\<inverse>)" unfolding acyclic_converse by (rule wf_acyclic) simp
  then show ?thesis by (rule acyclic_subset) (use assms in auto)
qed

lemma scan_members_ok:
  assumes "\<And>m. m \<in> set ms \<Longrightarrow>
    \<exists>manifest. read (''crates/'' @ m @ ''/Cargo.toml'') = Some manifest \<and> intra manifest |\<subseteq>| the (map_of allowed_edges m)"
  shows "scan_members read ms = Inr []"
  using assms
proof (induction ms)
  case (Cons a ms)
  obtain manifest where "read (''crates/'' @ a @ ''/Cargo.toml'') = Some manifest" "intra manifest |\<subseteq>| the (map_of allowed_edges a)"
    using Cons.prems [of a] by auto
  moreover have "scan_members read ms = Inr []" using Cons by simp
  ultimately show ?case by (simp add: member_violations_none)
qed simp

lemma dag_passes_iff:
  assumes "read ''Cargo.toml'' = Some workspace" "workspace_members workspace = Inr members"
  shows "crate_dag_has_no_forbidden_edges read = Inr () \<longleftrightarrow>
    set members = fst ` set allowed_edges
    \<and> (\<forall>m \<in> set members. \<exists>manifest. read (''crates/'' @ m @ ''/Cargo.toml'') = Some manifest
          \<and> intra manifest |\<subseteq>| the (map_of allowed_edges m))"
proof -
  have "scan_members read members = Inr [] \<longleftrightarrow>
      (\<forall>m \<in> set members. \<exists>manifest. read (''crates/'' @ m @ ''/Cargo.toml'') = Some manifest \<and> intra manifest |\<subseteq>| the (map_of allowed_edges m))"
    using scan_members_none [of read members] scan_members_ok [of members read] by blast
  moreover have "fst ` set allowed_edges \<noteq> {}" by (simp add: allowed_edges_def)
  then have "set members = fst ` set allowed_edges \<Longrightarrow> members \<noteq> []" by (metis list.set(1))
  moreover have "crate_dag_has_no_forbidden_edges read = Inr () \<longleftrightarrow>
      members \<noteq> [] \<and> set members = fst ` set allowed_edges \<and> scan_members read members = Inr []"
    by (simp add: crate_dag_has_no_forbidden_edges_def assms split: sum.split)
  ultimately show ?thesis by blast
qed

section \<open>What the scan sees\<close>

definition text_of :: "string list \<Rightarrow> string" where
  "text_of ls = concat (map (\<lambda>l. l @ [CHR 0x0A]) ls)"

definition one_line :: "string \<Rightarrow> bool" where
  "one_line l \<longleftrightarrow> CHR 0x0A \<notin> set l \<and> (l = [] \<or> last l \<noteq> CHR 0x0D)"

lemma rust_lines_text: "list_all one_line ls \<Longrightarrow> rust_lines (text_of ls) = ls"
proof (induction ls)
  case Nil
  show ?case by (simp add: text_of_def rust_lines.simps)
next
  case (Cons l ls)
  then have l: "CHR 0x0A \<notin> set l" "l = [] \<or> last l \<noteq> CHR 0x0D" by (simp_all add: one_line_def)
  have "takeWhile (\<lambda>c. c \<noteq> CHR 0x0A) (l @ CHR 0x0A # text_of ls) = l"
    using l(1) by (subst takeWhile_append2) auto
  moreover have "text_of (l # ls) = l @ CHR 0x0A # text_of ls" by (simp add: text_of_def)
  ultimately show ?case using Cons l(2) by (subst rust_lines.simps) (auto simp: Let_def)
qed

text \<open>Text that begins and ends with a printing ASCII character is its own trim.\<close>

definition printing :: "char \<Rightarrow> bool" where
  "printing c \<longleftrightarrow> 0x20 < (of_char c :: nat) \<and> (of_char c :: nat) < 0x7F"

lemma strip_all_none: "strip_code ws s = None \<Longrightarrow> strip_all ws s = s"
  by (simp add: strip_all.simps)

lemma strip_code_none: "(\<And>w. w \<in> set ws \<Longrightarrow> w \<noteq> [] \<Longrightarrow> \<not> prefix w s) \<Longrightarrow> strip_code ws s = None"
  by (induction ws) auto

lemma white_ends: "w \<in> set white_codes \<Longrightarrow> w \<noteq> [] \<and> \<not> printing (hd w) \<and> \<not> printing (last w)"
proof -
  have "list_all (\<lambda>w. w \<noteq> [] \<and> \<not> printing (hd w) \<and> \<not> printing (last w)) white_codes" by code_simp
  then show "w \<in> set white_codes \<Longrightarrow> w \<noteq> [] \<and> \<not> printing (hd w) \<and> \<not> printing (last w)" by (simp add: list_all_iff)
qed

lemma strip_ends:
  assumes "s \<noteq> []"
  shows "printing (hd s) \<Longrightarrow> strip_all white_codes s = s" "printing (last s) \<Longrightarrow> strip_all (map rev white_codes) (rev s) = rev s"
proof -
  have "\<not> prefix w s" if "printing (hd s)" "w \<in> set white_codes" for w
    using white_ends [OF that(2)] that(1) by (cases w) (auto simp: prefix_def)
  then show "printing (hd s) \<Longrightarrow> strip_all white_codes s = s" by (intro strip_all_none strip_code_none)
  have "\<not> prefix (rev w) (rev s)" if "printing (last s)" "w \<in> set white_codes" for w
    using white_ends [OF that(2)] assms that(1) by (cases w rule: rev_cases; cases s rule: rev_cases) auto
  then show "printing (last s) \<Longrightarrow> strip_all (map rev white_codes) (rev s) = rev s" by (intro strip_all_none strip_code_none) auto
qed

lemma trim_id: "s \<noteq> [] \<Longrightarrow> printing (hd s) \<Longrightarrow> printing (last s) \<Longrightarrow> trim s = s"
  by (simp add: trim_def strip_ends)

lemma trim_space:
  assumes "s \<noteq> []" "printing (hd s)" "printing (last s)"
  shows "trim (s @ [CHR 0x20]) = s"
proof -
  have "strip_code (map rev white_codes) (CHR 0x20 # rev s) = Some (rev s)" by (simp add: white_codes_def)
  then have "strip_all (map rev white_codes) (CHR 0x20 # rev s) = rev s"
    using strip_ends(2) [OF assms(1,3)] by (subst strip_all.simps) simp
  with strip_ends(1) [of "s @ [CHR 0x20]"] assms show ?thesis by (simp add: trim_def)
qed

section \<open>Manifests as they are written\<close>

text \<open>The lines of a manifest: the header of a table, an entry with the attribute its key may have, a comment, an empty
  line. What a manifest declares is read off the lines: the entries of the dependencies table, and the tables
  that are a dependency each.\<close>

datatype toml_line = Table string | Entry string "string option" string | Comment string | Blank

primrec show_line :: "toml_line \<Rightarrow> string" where
  "show_line (Table h) = ''['' @ h @ '']''"
| "show_line (Entry k a v) = k @ (case a of None \<Rightarrow> '''' | Some x \<Rightarrow> ''.'' @ x) @ '' = '' @ v"
| "show_line (Comment t) = ''#'' @ t"
| "show_line Blank = ''''"

definition show_manifest :: "toml_line list \<Rightarrow> string" where
  "show_manifest ls = text_of (map show_line ls)"

fun declared :: "bool \<Rightarrow> toml_line list \<Rightarrow> string list" where
  "declared b [] = []"
| "declared b (Table h # ls) =
     (if prefix ''dependencies.'' h then drop (length ''dependencies.'') h # declared False ls else declared (h = ''dependencies'') ls)"
| "declared b (Entry k a v # ls) = (if b then k # declared b ls else declared b ls)"
| "declared b (_ # ls) = declared b ls"

text \<open>The style of the repository: bare keys, no dependency as a table of its own, none renamed. Of a table the scan
  sees nothing, of a renamed crate only the new name, and of a quoted key the name with its quotes.\<close>

definition bare :: "string \<Rightarrow> bool" where
  "bare n \<longleftrightarrow> n \<noteq> [] \<and> list_all (\<lambda>c. printing c \<and> c \<notin> {CHR ''='', CHR ''.'', CHR ''['', CHR ''#'', QUOTE, CHR 0x27}) n"

primrec plain_line :: "toml_line \<Rightarrow> bool" where
  "plain_line (Table h) \<longleftrightarrow> list_all printing h \<and> \<not> prefix ''dependencies.'' h"
| "plain_line (Entry k a v) \<longleftrightarrow>
     bare k \<and> (case a of None \<Rightarrow> True | Some x \<Rightarrow> bare x \<and> x \<noteq> ''package'') \<and> CHR 0x0A \<notin> set v \<and> v \<noteq> [] \<and> printing (last v) \<and> find_str ''package'' v = None"
| "plain_line (Comment t) \<longleftrightarrow> CHR 0x0A \<notin> set t \<and> (t = [] \<or> printing (last t))"
| "plain_line Blank \<longleftrightarrow> True"

lemma printing_line: "printing c \<Longrightarrow> c \<noteq> CHR 0x0A \<and> c \<noteq> CHR 0x0D"
  by (auto simp: printing_def)

lemma bareD:
  assumes "bare n"
  shows "n \<noteq> []" "printing (hd n)" "printing (last n)" "CHR ''='' \<notin> set n" "CHR ''.'' \<notin> set n" "hd n \<noteq> CHR ''[''" "hd n \<noteq> CHR ''#''"
    "CHR 0x0A \<notin> set n"
proof -
  show ne: "n \<noteq> []" using assms by (simp add: bare_def)
  have all: "printing c \<and> c \<notin> {CHR ''='', CHR ''.'', CHR ''['', CHR ''#'', QUOTE, CHR 0x27}" if "c \<in> set n" for c
    using assms that unfolding bare_def list_all_iff by blast
  show "printing (hd n)" "printing (last n)" "CHR ''='' \<notin> set n" "CHR ''.'' \<notin> set n" "hd n \<noteq> CHR ''[''" "hd n \<noteq> CHR ''#''"
    "CHR 0x0A \<notin> set n"
    using all ne all [of "hd n"] printing_line by auto
qed

lemma plain_one_line: "plain_line l \<Longrightarrow> one_line (show_line l)"
proof (cases l)
  case (Table h)
  then show "plain_line l \<Longrightarrow> ?thesis" by (auto simp: one_line_def list_all_iff dest: printing_line)
next
  case (Entry k a v)
  then show "plain_line l \<Longrightarrow> ?thesis" by (cases a) (auto simp: one_line_def dest: bareD(8) printing_line)
next
  case (Comment t)
  then show "plain_line l \<Longrightarrow> ?thesis" by (cases "t = []") (auto simp: one_line_def dest: printing_line)
qed (simp add: one_line_def)

lemma marks_printing: "printing (CHR ''['')" "printing (CHR '']'')" "printing (CHR ''#'')"
  by (simp_all add: printing_def)

lemma plain_trim:
  assumes "plain_line l"
  shows "trim (show_line l) = show_line l"
proof (cases l)
  case (Table h)
  then show ?thesis by (simp add: trim_id marks_printing)
next
  case (Entry k a v)
  with assms bareD [of k] show ?thesis by (intro trim_id) auto
next
  case (Comment t)
  with assms show ?thesis by (intro trim_id) (auto simp: marks_printing)
next
  case Blank
  have "trim '''' = ''''" by code_simp
  with Blank show ?thesis by simp
qed

lemma entry_key:
  assumes "bare k" "case a of None \<Rightarrow> True | Some x \<Rightarrow> bare x"
  shows "find_char (CHR ''='') (show_line (Entry k a v)) = Some (length (takeWhile (\<lambda>x. x \<noteq> CHR ''='') (show_line (Entry k a v))))"
    "trim (takeWhile (\<lambda>x. x \<noteq> CHR ''.'') (trim (takeWhile (\<lambda>x. x \<noteq> CHR ''='') (show_line (Entry k a v))))) = k"
proof -
  show "find_char (CHR ''='') (show_line (Entry k a v)) = Some (length (takeWhile (\<lambda>x. x \<noteq> CHR ''='') (show_line (Entry k a v))))"
    by (simp add: find_char_def)
  let ?key = "k @ (case a of None \<Rightarrow> '''' | Some x \<Rightarrow> ''.'' @ x)"
  have key: "CHR ''='' \<notin> set ?key" "?key \<noteq> []" "printing (hd ?key)" "printing (last ?key)"
    using bareD [OF assms(1)] bareD [of "the a"] assms(2) by (auto split: option.splits)
  from key(1) have "takeWhile (\<lambda>x. x \<noteq> CHR ''='') (?key @ '' = '' @ v) = ?key @ [CHR 0x20]"
    by (subst takeWhile_append2) auto
  then have "trim (takeWhile (\<lambda>x. x \<noteq> CHR ''='') (show_line (Entry k a v))) = ?key" using trim_space [OF key(2-4)] by simp
  moreover have "takeWhile (\<lambda>x. x \<noteq> CHR ''.'') ?key = k"
    using bareD(5) [OF assms(1)] by (subst takeWhile_append2) (auto split: option.split)
  ultimately show "trim (takeWhile (\<lambda>x. x \<noteq> CHR ''.'') (trim (takeWhile (\<lambda>x. x \<noteq> CHR ''='') (show_line (Entry k a v))))) = k"
    using bareD [OF assms(1)] by (simp add: trim_id)
qed

lemma table_step:
  assumes "plain_line (Table h)"
  shows "dependency_lines b (show_line (Table h) # ls) = dependency_lines (h = ''dependencies'') ls"
proof -
  have "''['' @ h @ '']'' = ''[dependencies]'' \<longleftrightarrow> h @ '']'' = ''dependencies'' @ '']''" by simp
  then have "''['' @ h @ '']'' = ''[dependencies]'' \<longleftrightarrow> h = ''dependencies''" unfolding append_same_eq .
  with plain_trim [OF assms] show ?thesis by (simp add: Let_def)
qed

lemma entry_step:
  assumes "plain_line (Entry k a v)"
  shows "dependency_lines b (show_line (Entry k a v) # ls) = (if b then k # dependency_lines b ls else dependency_lines b ls)"
proof -
  let ?l = "show_line (Entry k a v)"
  from assms have p: "bare k" "case a of None \<Rightarrow> True | Some x \<Rightarrow> bare x" by (simp_all split: option.splits)
  have "?l \<noteq> []" "hd ?l \<noteq> CHR ''[''" "hd ?l \<noteq> CHR ''#''" using bareD [OF p(1)] by auto
  with plain_trim [OF assms] entry_key [OF p, of v] bareD(1) [OF p(1)]
  show ?thesis by (simp add: Let_def takeWhile_eq_take [symmetric] del: show_line.simps(2))
qed

lemma other_step:
  "plain_line (Comment t) \<Longrightarrow> dependency_lines b (show_line (Comment t) # ls) = dependency_lines b ls"
  "dependency_lines b (show_line Blank # ls) = dependency_lines b ls"
  using plain_trim [of "Comment t"] plain_trim [of Blank] by (simp_all add: Let_def)

text \<open>The scan of such a manifest finds the names it declares, all of them and no others.\<close>

lemma scan_declared: "list_all plain_line ls \<Longrightarrow> dependency_lines b (map show_line ls) = declared b ls"
  by (induction b ls rule: declared.induct)
    (simp_all add: table_step entry_step other_step del: dependency_lines.simps(2) show_line.simps)

lemma scan_manifest:
  assumes "list_all plain_line ls"
  shows "dependency_names (show_manifest ls) = fset_of_list (declared False ls)"
proof -
  have "list_all one_line (map show_line ls)" using assms by (auto simp: list_all_iff intro: plain_one_line)
  with scan_declared [OF assms] show ?thesis by (simp add: dependency_names_def show_manifest_def rust_lines_text)
qed

lemma forbidden_edge_seen: "forbidden_edge_is_detected"
  by code_simp

text \<open>A dependency written as a table of its own is not seen, and neither is what follows it up to the next section.\<close>

theorem table_dependency_unseen:
  "dependency_lines b ((''[dependencies.'' @ n @ '']'') # ls) = dependency_lines False ls"
proof -
  have "trim (''[dependencies.'' @ n @ '']'') = ''[dependencies.'' @ n @ '']''" by (intro trim_id) (simp_all add: marks_printing)
  then show ?thesis unfolding dependency_lines.simps Let_def by simp
qed

end
