(* ===== verification/Arch_Manifests.thy ===== *)
theory Arch_Manifests
  imports Arch_Dag
begin

text \<open>
  The manifests of the repository, \<open>server/Cargo.toml\<close> and \<open>server/crates/*/Cargo.toml\<close>, line by
  line, and the check of the crate graph on them.
\<close>

definition quo :: "string \<Rightarrow> string" where "quo s = QUOTE # s @ [QUOTE]"

definition tick :: "string \<Rightarrow> string" where "tick s = CHR 0x60 # s @ [CHR 0x60]"

text \<open>The manifest of a workspace: its members listed one by one, and anything after them.\<close>

definition workspace_toml :: "string list \<Rightarrow> string list \<Rightarrow> string" where
  "workspace_toml crates rest =
     text_of ([''[workspace]'', ''members = [''] @ map (\<lambda>c. ''    '' @ quo (''crates/'' @ c) @ '','') crates @ ['']''] @ rest)"


definition workspace_rest :: "string list" where
  "workspace_rest =
     [''# The cargo-fuzz crate is deliberately excluded: libfuzzer-sys needs a nightly'',
      ''# toolchain, so the fuzz target must never be built by the stable '' @ tick ''make validate'',
      ''# / CI workspace. It carries its own '' @ tick ''[workspace]'' @ '' too, and is built only by the'',
      ''# non-blocking nightly fuzz CI job.'',
      ''exclude = ['' @ quo ''fuzz'' @ '']'',
      ''resolver = '' @ quo ''2'',
      '''',
      ''[workspace.package]'',
      ''version = '' @ quo ''0.1.0'',
      ''edition = '' @ quo ''2021'',
      ''license = '' @ quo ''MIT'',
      ''rust-version = '' @ quo ''1.86.0'',
      '''',
      ''# Machine-enforced lint floor for the whole workspace. Crates opt in with'',
      ''# '' @ tick ''[lints] workspace = true'' @ ''. Kept green by fixing findings, never by blanket'',
      ''# allows.'',
      ''#'',
      ''# '' @ tick (''unsafe_code = '' @ quo ''forbid'') @ '' is a hard cap the code cannot locally lift. The one'',
      ''# exception is '' @ tick ''sw-contracts'' @ '', whose '' @ tick ''src/generated/'' @ '' FlatBuffers bindings are'',
      ''# verbatim compiler output built on the unsafe flatbuffers runtime; that crate'',
      ''# declares its own lint table (still deny-strict on everything else) instead of'',
      ''# inheriting the forbid. Every other crate inherits this table unchanged.'',
      ''# Groups carry priority -1 so the specific '' @ tick ''unsafe_code'' @ '' lint (priority 0) resolves'',
      ''# on top of them; cargo rejects a group and a lint sharing the same priority.'',
      ''[workspace.lints.rust]'',
      ''unsafe_code = '' @ quo ''forbid'',
      ''unused = { level = '' @ quo ''deny'' @ '', priority = -1 }'',
      ''future_incompatible = { level = '' @ quo ''deny'' @ '', priority = -1 }'',
      ''nonstandard_style = { level = '' @ quo ''deny'' @ '', priority = -1 }'',
      '''',
      ''[workspace.lints.clippy]'',
      ''all = { level = '' @ quo ''deny'' @ '', priority = -1 }'',
      '''',
      ''[workspace.dependencies]'',
      ''flatbuffers = '' @ quo ''=25.2.10'',
      ''rusqlite = { version = '' @ quo ''0.32.1'' @ '', features = ['' @ quo ''bundled'' @ ''] }'',
      ''anyhow = '' @ quo ''1'',
      ''thiserror = '' @ quo ''2'',
      ''tracing = '' @ quo ''0.1'',
      ''tracing-subscriber = '' @ quo ''0.3'',
      ''serde = { version = '' @ quo ''1'' @ '', features = ['' @ quo ''derive'' @ ''] }'',
      ''toml = '' @ quo ''0.8'',
      ''rand = '' @ quo ''0.9'',
      '''',
      ''# Internal crates'',
      ''sw-contracts = { path = '' @ quo ''crates/sw-contracts'' @ '' }'',
      ''sw-net = { path = '' @ quo ''crates/sw-net'' @ '' }'',
      ''sw-world = { path = '' @ quo ''crates/sw-world'' @ '' }'',
      ''sw-econ = { path = '' @ quo ''crates/sw-econ'' @ '' }'',
      ''sw-persist = { path = '' @ quo ''crates/sw-persist'' @ '' }'',
      '''',
      ''[profile.release]'',
      ''opt-level = 3'',
      ''lto = '' @ quo ''thin'']"

definition repo_crates :: "string list" where
  "repo_crates = [''sw-contracts'', ''sw-net'', ''sw-world'', ''sw-econ'', ''sw-persist'', ''sw-server'']"

definition contracts_lines :: "toml_line list" where
  "contracts_lines =
     [Table ''package'',
      Entry ''name'' None (quo ''sw-contracts''),
      Entry ''version'' (Some ''workspace'') ''true'',
      Entry ''edition'' (Some ''workspace'') ''true'',
      Entry ''license'' (Some ''workspace'') ''true'',
      Entry ''rust-version'' (Some ''workspace'') ''true'',
      Blank,
      Table ''dependencies'',
      Entry ''flatbuffers'' (Some ''workspace'') ''true'',
      Blank,
      Comment ('' This crate is the sanctioned exception to the workspace '' @ tick (''unsafe_code = '' @ quo ''forbid'') @ '':''),
      Comment ('' '' @ tick ''src/generated/envelope_generated.rs'' @ '' is verbatim '' @ tick ''flatc'' @ '' output whose accessor''),
      Comment ('' impls are '' @ tick ''unsafe'' @ ''. It therefore declares its own lint table (deny, not forbid,''),
      Comment ('' on unsafe_code) so the generated module'' @ [CHR 0x27] @ ''s own '' @ tick ''#![allow(warnings)]'' @ '' can lift it''),
      Comment ('' there; the crate'' @ [CHR 0x27] @ ''s hand-written code stays deny-strict and clippy-clean, exactly''),
      Comment ('' like every crate that inherits '' @ tick ''[workspace.lints]'' @ ''.''),
      Table ''lints.rust'',
      Entry ''unsafe_code'' None (quo ''deny''),
      Entry ''unused'' None (''{ level = '' @ quo ''deny'' @ '', priority = -1 }''),
      Entry ''future_incompatible'' None (''{ level = '' @ quo ''deny'' @ '', priority = -1 }''),
      Entry ''nonstandard_style'' None (''{ level = '' @ quo ''deny'' @ '', priority = -1 }''),
      Blank,
      Table ''lints.clippy'',
      Entry ''all'' None (''{ level = '' @ quo ''deny'' @ '', priority = -1 }'')]"

definition net_lines :: "toml_line list" where
  "net_lines =
     [Table ''package'',
      Entry ''name'' None (quo ''sw-net''),
      Entry ''version'' (Some ''workspace'') ''true'',
      Entry ''edition'' (Some ''workspace'') ''true'',
      Entry ''license'' (Some ''workspace'') ''true'',
      Entry ''rust-version'' (Some ''workspace'') ''true'',
      Blank,
      Table ''dependencies'',
      Comment '' Intentionally std-only: the init-0 transport is a single-threaded, poll-driven'',
      Comment '' UDP host. No tokio, no mio (see spec-tech.md section 4).'',
      Blank,
      Table ''lints'',
      Entry ''workspace'' None ''true'']"

definition world_lines :: "toml_line list" where
  "world_lines =
     [Table ''package'',
      Entry ''name'' None (quo ''sw-world''),
      Entry ''version'' (Some ''workspace'') ''true'',
      Entry ''edition'' (Some ''workspace'') ''true'',
      Entry ''license'' (Some ''workspace'') ''true'',
      Entry ''rust-version'' (Some ''workspace'') ''true'',
      Blank,
      Table ''dependencies'',
      Comment ('' Pure spatial logic '' @ [CHR 0xE2, CHR 0x80, CHR 0x94] @ '' std only.''),
      Blank,
      Table ''lints'',
      Entry ''workspace'' None ''true'']"

definition econ_lines :: "toml_line list" where
  "econ_lines =
     [Table ''package'',
      Entry ''name'' None (quo ''sw-econ''),
      Entry ''version'' (Some ''workspace'') ''true'',
      Entry ''edition'' (Some ''workspace'') ''true'',
      Entry ''license'' (Some ''workspace'') ''true'',
      Entry ''rust-version'' (Some ''workspace'') ''true'',
      Blank,
      Table ''dependencies'',
      Comment ('' Pure ledger logic over a storage trait '' @ [CHR 0xE2, CHR 0x80, CHR 0x94] @ '' std only.''),
      Blank,
      Table ''lints'',
      Entry ''workspace'' None ''true'']"

definition persist_lines :: "toml_line list" where
  "persist_lines =
     [Table ''package'',
      Entry ''name'' None (quo ''sw-persist''),
      Entry ''version'' (Some ''workspace'') ''true'',
      Entry ''edition'' (Some ''workspace'') ''true'',
      Entry ''license'' (Some ''workspace'') ''true'',
      Entry ''rust-version'' (Some ''workspace'') ''true'',
      Blank,
      Table ''dependencies'',
      Entry ''rusqlite'' (Some ''workspace'') ''true'',
      Blank,
      Table ''lints'',
      Entry ''workspace'' None ''true'']"

definition server_lines :: "toml_line list" where
  "server_lines =
     [Table ''package'',
      Entry ''name'' None (quo ''sailwind-online-server''),
      Entry ''version'' (Some ''workspace'') ''true'',
      Entry ''edition'' (Some ''workspace'') ''true'',
      Entry ''license'' (Some ''workspace'') ''true'',
      Entry ''rust-version'' (Some ''workspace'') ''true'',
      Blank,
      Table ''[bin]'',
      Entry ''name'' None (quo ''sw-server''),
      Entry ''path'' None (quo ''src/main.rs''),
      Blank,
      Table ''dependencies'',
      Entry ''sw-contracts'' (Some ''workspace'') ''true'',
      Entry ''sw-net'' (Some ''workspace'') ''true'',
      Entry ''sw-world'' (Some ''workspace'') ''true'',
      Entry ''sw-econ'' (Some ''workspace'') ''true'',
      Entry ''sw-persist'' (Some ''workspace'') ''true'',
      Blank,
      Entry ''flatbuffers'' (Some ''workspace'') ''true'',
      Entry ''anyhow'' (Some ''workspace'') ''true'',
      Entry ''tracing'' (Some ''workspace'') ''true'',
      Entry ''tracing-subscriber'' (Some ''workspace'') ''true'',
      Entry ''serde'' (Some ''workspace'') ''true'',
      Entry ''toml'' (Some ''workspace'') ''true'',
      Entry ''rand'' (Some ''workspace'') ''true'',
      Entry ''ctrlc'' None (quo ''3''),
      Blank,
      Table ''lints'',
      Entry ''workspace'' None ''true'']"

section \<open>The members\<close>








section \<open>The check on them\<close>





definition repo_lines :: "string \<Rightarrow> toml_line list" where
  "repo_lines m = the (map_of
     [(''sw-contracts'', contracts_lines), (''sw-net'', net_lines), (''sw-world'', world_lines), (''sw-econ'', econ_lines),
      (''sw-persist'', persist_lines), (''sw-server'', server_lines)] m)"

definition repo_file :: "string \<Rightarrow> string option" where
  "repo_file = map_of ((''Cargo.toml'', workspace_toml repo_crates workspace_rest)
     # map (\<lambda>m. (''crates/'' @ m @ ''/Cargo.toml'', show_manifest (repo_lines m))) repo_crates)"

lemma repo_plain:
  "list_all plain_line contracts_lines" "list_all plain_line net_lines" "list_all plain_line world_lines" "list_all plain_line econ_lines"
  "list_all plain_line persist_lines" "list_all plain_line server_lines"
  by code_simp+

lemma repo_declares:
  "declared False contracts_lines = [''flatbuffers'']" "declared False net_lines = []" "declared False world_lines = []"
  "declared False econ_lines = []" "declared False persist_lines = [''rusqlite'']"
  "declared False server_lines = [''sw-contracts'', ''sw-net'', ''sw-world'', ''sw-econ'', ''sw-persist'', ''flatbuffers'', ''anyhow'',
     ''tracing'', ''tracing-subscriber'', ''serde'', ''toml'', ''rand'', ''ctrlc'']"
  by code_simp+

lemma repo_files: "m \<in> set repo_crates \<Longrightarrow> repo_file (''crates/'' @ m @ ''/Cargo.toml'') = Some (show_manifest (repo_lines m))"
  by (auto simp: repo_file_def repo_crates_def)



text \<open>The test of the scan on the server's manifest.\<close>

lemma repo_scan_sees: "parser_extracts_known_edges repo_file"
proof -
  have "repo_lines ''sw-server'' = server_lines" by (simp add: repo_lines_def)
  with repo_files [of "''sw-server''"] have "repo_file ''crates/sw-server/Cargo.toml'' = Some (show_manifest server_lines)"
    by (simp add: repo_crates_def)
  then show ?thesis
    by (auto simp: parser_extracts_known_edges_def intra_def scan_manifest repo_plain repo_declares workspace_libs_def)
qed

end
