(* ===== verification/Spec2Isabelle.thy ===== *)
theory Spec2Isabelle
  imports Server_Fair Server_Fanout Server_Flush Server_View Server_Trade Server_Moor Server_Presence Server_Welcome Fuzz_Target Bindings_Debug Arch_Manifests
begin

text \<open>
  A verification of the Sailwind Online server: the Rust crates under \<open>server/crates\<close>.

  The program. One thread runs a fixed-tick loop (\<open>Server::run\<close>). A tick polls the UDP
  host of \<open>sw-net\<close>, a LiteNetLib-compatible transport, which turns datagrams into connect,
  data and disconnect events; hands each event to a handler; does the bounded work of the tick
  (area-of-interest delivery, snapshots, broadcast queues, persistence); and now and then queues
  the world clock and starts a flush. Handlers decode a FlatBuffers envelope, check and throttle
  it, and act on the session table, the spatial index of \<open>sw-world\<close>, the ledger and market
  of \<open>sw-econ\<close> over the SQLite tables of \<open>sw-persist\<close>, and the outgoing queues.

  How it is modelled. Every component is state passing over records that have the fields of the Rust
  structs; failures are values (\<open>sql_error\<close>, \<open>srv_error\<close>, configuration and transport errors in a
  sum). Words are \<open>HOL-Library.Word\<close>; 32- and 64-bit floats are IEEE-754 bit patterns with
  round-to-nearest (\<open>Ieee\<close>); \<open>i64\<close> and \<open>usize\<close> values are integers with every checked,
  saturating and wrapping operation written out. Hash maps are finite maps, and where a hash iteration order
  could matter it is an argument. Clocks, the socket, the random seed, the TOML parser, the process
  environment, the engine's refusal of a statement and the FlatBuffers runtime are arguments or queues
  of verdicts, so that the theorems hold for all of them.

  Theories and what they show.

  \<^item> \<open>Prelude\<close>: machine-integer ranges, finite maps and sets, cyclic enumeration.

  \<^item> \<open>Protocol\<close> (\<open>sw-net/src/protocol.rs\<close>): the packet layer; header bytes and connect
  requests are read back exactly.

  \<^item> \<open>Host\<close>, \<open>Host_Inv\<close>, \<open>Host_Poll\<close>, \<open>Transport\<close> (\<open>sw-net/src/lib.rs\<close>):
  peers, slots, per-address counts, reconnect watermarks, the poll with its work bounds. The invariant
  survives every datagram, the events account for the peer table, ids are not reused within a poll. The
  locale \<open>peer_transport\<close> is what the server relies on, interpreted on the host.

  \<^item> \<open>Ratelimit\<close> (\<open>ratelimit.rs\<close>): three limiters behind one locale; spacing and memory bounds.

  \<^item> \<open>Econ\<close>, \<open>Persist\<close>, \<open>Econ_Store\<close> (\<open>sw-econ\<close>, \<open>sw-persist\<close>,
  \<open>econ_store.rs\<close>): ledger and market over a store, whose laws are the locales \<open>ledger_store\<close>
  and \<open>market_store\<close>, interpreted on the in-memory stores and on the SQLite tables with failures at every statement.
  Balances are the sums of the transactions applied; admission of players is atomic; paging is exact.

  \<^item> \<open>Ieee\<close>, \<open>World\<close>, \<open>Validate\<close>, \<open>Clock\<close>, \<open>Config\<close>: floats, the grid and
  spatial index, value checks on client motion, the derived clock, configuration and its validation.

  \<^item> \<open>Messages\<close> (\<open>codec.rs\<close>, \<open>sw-contracts\<close>): the tables of the protocol as records and every
  encoder at the level of messages. The server is modelled over these, with the conversion to bytes as the argument \<open>fb\<close>.

  \<^item> \<open>Fb_Runtime\<close>, \<open>Fb_Lib\<close>: the operations of the FlatBuffers crate the bindings call, as a record
  \<open>runtime\<close>, with what the crate documents of them (\<open>runtime_laws\<close>); typed reads and builder programs over it.

  \<^item> \<open>Bindings_Data\<close>, \<open>Bindings_State\<close>, \<open>Bindings_Message\<close>
  (\<open>sw-contracts/src/generated/envelope_generated.rs\<close>): the discriminants, the three structs byte by byte, and of
  each of the 21 tables the slots, arguments, verifier, builder and accessors.

  \<^item> \<open>Wire_Tables\<close>, \<open>Wire\<close>, \<open>Codec\<close>, \<open>Wire_Props\<close>: the messages through the bindings, table by
  table, then the envelope and the encoders of \<open>codec.rs\<close> call by call. What is written is read back; on hostile
  bytes no unsafe accessor reads a slot at a type it was not verified at; what the encoders are given of the world is
  what a client reads; they give the bytes of those of \<open>Messages\<close>, so
  \<open>bindings_fb\<close> is an \<open>fb\<close> made of the generated code. \<open>Fb_Reference\<close> has a runtime that keeps the laws.

  \<^item> \<open>Fuzz_Target\<close> (\<open>server/fuzz/fuzz_targets/decode_envelope.rs\<close>): the body of the fuzz target; no input crashes it.

  \<^item> \<open>Bindings_Debug\<close>: the \<open>Debug\<close> traits of the bindings. What they show of an accepted envelope is the
  message the server reads.

  \<^item> \<open>Server_Wire\<close>, \<open>Server_Trade\<close>, \<open>Server_Moor\<close>, \<open>Server_Presence\<close>, \<open>Server_Welcome\<close>, over
  \<open>Server_Frame\<close>: the requests of a client from the datagram that carries them to the datagram the client reads, through
  decoder, handler, limiter, store and encoder: economy and market requests are steps of the ledger and of the
  market; a mooring writes the row planned for it; a position report moves the reporter's session; a chat line is queued under
  the name of the session and changes nothing else; a hello opens the session of its identity. \<open>Server_Moor\<close> also shows that one player's
  request can replace the mooring of another.

  \<^item> \<open>Server_State\<close>, \<open>Server_Work\<close>, \<open>Server_Handlers\<close> (\<open>server.rs\<close>): the
  server record, the session registry, the work of a tick, every message handler, the loop and the shutdown, in the
  order of the source. The loop starts by asking the socket for its address and ends with that error if it has none.
  The cadence of snapshots is a division, whose panic at a rate of zero is a value, and validation rules it out.

  \<^item> \<open>Server_Inv\<close>, \<open>Server_Sessions\<close>, \<open>Server_Work_Inv\<close>, \<open>Server_Handlers_Inv\<close>,
  \<open>Server_Track\<close>, \<open>Server_Hello\<close>, \<open>Server_Run\<close>: the invariant \<open>srv_inv\<close> of the server
  (session indexes, generations, audience bounds, spatial index, dirty marks, identity index against the player table,
  shape of each session) and that every operation keeps it; that sessions belong to live peers between ticks
  (\<open>settled\<close>).

  \<^item> \<open>Server_Boot\<close>: start on a given store, the invariant over whole runs, who owns a session at any time of a run,
  errors of handlers, identity loading, the clock epoch across restarts.

  \<^item> \<open>Fairness\<close>, \<open>Server_Fair\<close>: the turn order as a rotation, the locale \<open>round_robin\<close>, and what a
  member is given when it is served, the locale \<open>fair_service\<close>, both interpreted on the snapshot round and on the
  area-of-interest round: within a bounded number of ticks the session is visited and the datagram sent.

  \<^item> \<open>Server_Fanout\<close>, \<open>Server_Flush\<close>, \<open>Server_View\<close>: delivery of broadcasts, persistence of players,
  what a session is shown. \<open>Server_Flush\<close> also shows that the shutdown reports a failure for no player when its
  last attempt succeeds.

  \<^item> \<open>Arch_Dag\<close>, \<open>Arch_Manifests\<close> (\<open>sw-server/src/arch_dag.rs\<close>): the check of the crate graph that runs with
  the tests, and the manifests of the repository. Manifests are lists of lines, from which what they declare is read off; for
  those in the style of the repository the check passes exactly when the declared dependencies keep the layers, and then
  they have no cycle. The manifests pass; a dependency written as a table of its own escapes the check.

  This theory has the program itself: \<open>main.rs\<close>, which resolves the configuration, builds the server and runs it.

  Bounds. The loops of the source that a queue or a budget bounds are functions with a termination proof (the fanout
  loops by the jobs queued and the recipients left); the poll loops have the bounds of the source. No fuel is used.
  The theorem on whole runs takes at most \<open>2 ^ 55\<close> ticks, because a tick handles at most 320 events, each of
  which uses up at most one of the \<open>2 ^ 64\<close> session generations.

  Not modelled. The FlatBuffers crate, which is not part of the repository (an argument with named laws; its byte
  layout, its verifier's depth and size limits and the order of slots in a buffer are its own); of the bindings, the
  comparison traits, the text the standard formatter makes of what \<open>Debug\<close> hands it, the unchecked root functions and those
  that take verifier options, none of which the server calls; logging; the sleep between ticks and the flag the interrupt handler clears, for which the
  list of ticks stands; the logger and the
  interrupt handler that \<open>main.rs\<close> installs; the failure of a datagram send, which the
  server logs and ignores; the test modules other than the check of the crate graph; and the C# game client, which is another
  program.
\<close>

section \<open>The program\<close>

datatype main_error = ConfigFailed config_error | ServerFailed srv_error

text \<open>What \<open>main\<close> finds when it starts: files, environment, arguments, the databases on disk by path, the
  sockets it can bind by address, the wall clock, a random number and the monotonic clock.\<close>

record outside =
  out_read_file :: "string \<Rightarrow> string option"
  out_parse_toml :: "string \<Rightarrow> config option"
  out_env :: "string \<Rightarrow> string option"
  out_args :: "string list"
  out_disk :: "string \<Rightarrow> db"
  out_socket :: "string \<Rightarrow> udp_socket option"
  out_now :: int
  out_random :: u64
  out_boot :: instant

definition main_start :: "outside \<Rightarrow> main_error + server" where
  "main_start out =
     (case resolve (out_read_file out) (out_parse_toml out) (out_env out) (out_args out) of
        Inl e \<Rightarrow> Inl (ConfigFailed e)
      | Inr cfg \<Rightarrow>
          (case server_new cfg (out_disk out (cfg_db_path cfg)) (out_socket out (cfg_bind cfg)) (out_now out) (out_random out) (out_boot out) of
             (_, Inl e) \<Rightarrow> Inl (ServerFailed e)
           | (_, Inr s) \<Rightarrow> Inr s))"

definition main ::
  "flatbuffers \<Rightarrow> (f32 \<Rightarrow> f32 option) \<Rightarrow> tick_env list \<Rightarrow> instant \<Rightarrow> int \<Rightarrow> socket_addr list \<Rightarrow> outside \<Rightarrow> main_error + unit" where
  "main fb col ticks start stop_ms order out =
     (case main_start out of
        Inl e \<Rightarrow> Inl e
      | Inr s \<Rightarrow>
          (case snd (server_run fb col ticks start stop_ms order s) of Inl e \<Rightarrow> Inl (ServerFailed e) | Inr u \<Rightarrow> Inr u))"

lemma resolve_valid: "resolve rf pt env args = Inr cfg \<Longrightarrow> validate cfg = Inr ()"
  by (auto simp: resolve_def Let_def split: sum.splits)

lemma main_start_cases:
  assumes "main_start out = Inr s"
  obtains cfg d where "validate cfg = Inr ()"
    "server_new cfg (out_disk out (cfg_db_path cfg)) (out_socket out (cfg_bind cfg)) (out_now out) (out_random out) (out_boot out) = (d, Inr s)"
proof -
  from assms obtain cfg where cfg: "resolve (out_read_file out) (out_parse_toml out) (out_env out) (out_args out) = Inr cfg"
    by (auto simp: main_start_def split: sum.splits)
  with assms obtain d where
    "server_new cfg (out_disk out (cfg_db_path cfg)) (out_socket out (cfg_bind cfg)) (out_now out) (out_random out) (out_boot out) = (d, Inr s)"
    by (auto simp: main_start_def split: sum.splits prod.splits)
  with resolve_valid [OF cfg] show thesis by (rule that)
qed

lemma flush_attempts_errors: "snd (flush_attempts k now st) = Inr () \<or> (\<exists>n e. snd (flush_attempts k now st) = Inl (ShutdownFlushFailed n e))"
  by (induction k now st rule: flush_attempts.induct) auto

lemma flush_all_errors: "snd (flush_all now s) = Inr () \<or> (\<exists>n e. snd (flush_all now s) = Inl (ShutdownFlushFailed n e))"
  unfolding flush_all_def Let_def by (rule flush_attempts_errors)

lemma server_run_errors:
  "snd (server_run fb col ticks start stop_ms order s) = Inr ()
   \<or> (\<exists>k. local_addr (sv_host s) = Inl k \<and> snd (server_run fb col ticks start stop_ms order s) = Inl (LocalAddrFailed k))
   \<or> (\<exists>n e. snd (server_run fb col ticks start stop_ms order s) = Inl (ShutdownFlushFailed n e))"
proof (cases "local_addr (sv_host s)")
  case (Inr addr)
  then have "snd (server_run fb col ticks start stop_ms order s)
      = snd (flush_all stop_ms (rs_server (fold (run_tick fb col) ticks \<lparr>rs_server = s, rs_tick = 0, rs_last_flush = start\<rparr>)))"
    by (simp add: server_run_def Let_def split_beta)
  then show ?thesis using flush_all_errors by metis
qed (simp add: server_run_def)

section \<open>Properties of the program\<close>

text \<open>C1: whatever files, environment, arguments and network it meets, the program that starts on consistent databases
  keeps its whole state consistent at every tick, each session belonging to a live transport peer, and ends without an
  error, with that of a socket that does not tell its address, or with that of the shutdown flush.\<close>

theorem program_stays_settled:
  assumes "\<And>p. db_inv (out_disk out p)" "main_start out = Inr s" "length ticks \<le> 2 ^ 55"
  shows "settled (rs_server (fold (run_tick fb col) ticks \<lparr>rs_server = s, rs_tick = 0, rs_last_flush = start\<rparr>))
    \<and> (case main fb col ticks start stop_ms order out of
         Inr _ \<Rightarrow> True
       | Inl e \<Rightarrow> (\<exists>k. local_addr (sv_host s) = Inl k \<and> e = ServerFailed (LocalAddrFailed k)) \<or> (\<exists>n x. e = ServerFailed (ShutdownFlushFailed n x)))"
proof
  from assms(2) show "settled (rs_server (fold (run_tick fb col) ticks \<lparr>rs_server = s, rs_tick = 0, rs_last_flush = start\<rparr>))"
    by (rule main_start_cases) (rule server_run_settled [OF assms(1) _ _ assms(3)])
  show "case main fb col ticks start stop_ms order out of
      Inr _ \<Rightarrow> True
    | Inl e \<Rightarrow> (\<exists>k. local_addr (sv_host s) = Inl k \<and> e = ServerFailed (LocalAddrFailed k)) \<or> (\<exists>n x. e = ServerFailed (ShutdownFlushFailed n x))"
    using server_run_errors [of fb col ticks start stop_ms order s] by (auto simp: main_def assms(2))
qed

definition demo_outside :: outside where
  "demo_outside = \<lparr>out_read_file = (\<lambda>_. None), out_parse_toml = (\<lambda>_. None), out_env = (\<lambda>_. None), out_args = [],
     out_disk = (\<lambda>_. db_empty []), out_socket = (\<lambda>_. Some demo_socket), out_now = 1000, out_random = 7, out_boot = 0\<rparr>"

lemma demo_main_start: "main_start demo_outside = Inr demo_server"
proof -
  have "config_default\<lparr>cfg_bind := cfg_bind config_default, cfg_db_path := cfg_db_path config_default\<rparr> = config_default" by simp
  then have "resolve (\<lambda>_. None) (\<lambda>_. None) (\<lambda>_. None) [] = Inr config_default"
    by (simp add: resolve_def or_keep_def Let_def config_default_valid)
  then show ?thesis by (simp add: main_start_def demo_outside_def demo_boot(1))
qed

theorem program_stays_settled_witness:
  "settled (rs_server (fold (run_tick demo_fb (\<lambda>_. None)) [demo_tick, demo_tick] \<lparr>rs_server = demo_server, rs_tick = 0, rs_last_flush = 0\<rparr>))
    \<and> (case main demo_fb (\<lambda>_. None) [demo_tick, demo_tick] 0 5000 [] demo_outside of
         Inr _ \<Rightarrow> True
       | Inl e \<Rightarrow> (\<exists>k. local_addr (sv_host demo_server) = Inl k \<and> e = ServerFailed (LocalAddrFailed k)) \<or> (\<exists>n x. e = ServerFailed (ShutdownFlushFailed n x)))"
  by (rule program_stays_settled [OF _ demo_main_start]) (simp_all add: demo_outside_def db_empty_inv)

end
